(* ===== verification/Prelude.thy ===== *)
theory Prelude
  imports Main "HOL-Library.Word"
begin

text \<open>
  Shared vocabulary of the development: the machine integers of the source, results, the
  list search the source does with Rust's \<open>Iterator::position\<close>, and the two interfaces
  most components meet.
  \<^item> \<open>machine\<close>: an initial state, a total step function and an invariant every step keeps.
    The client lemma is that every run from the initial state keeps it.
  \<^item> \<open>monotone_filter\<close>: a component that keeps a high-water mark and accepts only
    messages above it. The client lemma is that one key is never accepted twice, whatever is
    delivered in between.
  Rust's \<open>Result<T, E>\<close> is the sum type \<open>'e + 'a\<close>: \<open>Inl\<close> is \<open>Err\<close>, \<open>Inr\<close> is \<open>Ok\<close>.
  A method on \<open>&mut self\<close> that may fail returns the result and the state it left, since an
  error does not undo what was written before it.
\<close>

section \<open>Types\<close>

type_synonym u8 = "8 word"
type_synonym u16 = "16 word"
type_synonym u32 = "32 word"
type_synonym u64 = "64 word"
type_synonym bytes = "8 word list"

text \<open>\<open>i32\<close> is a 32-bit word read as two's complement (\<open>sint\<close>); \<open>+\<close> and \<open>-\<close> wrap, as they do
  in the release profile. \<open>rem_euclid\<close> and \<open>div_euclid\<close> by a positive divisor are HOL's \<open>mod\<close>
  and \<open>div\<close> on the signed value.\<close>

type_synonym i32 = "32 word"

definition rem_euclid :: "i32 \<Rightarrow> int \<Rightarrow> int" where
  "rem_euclid a n = sint a mod n"

definition div_euclid :: "i32 \<Rightarrow> int \<Rightarrow> i32" where
  "div_euclid a n = word_of_int (sint a div n)"

text \<open>The bytes of an ASCII literal of the source (\<open>b"..."\<close>).\<close>

definition ascii_bytes :: "string \<Rightarrow> bytes" where
  "ascii_bytes s = map (\<lambda>c. word_of_nat (of_char c)) s"

text \<open>The decimal digits an integer is formatted with.\<close>

fun decimal :: "nat \<Rightarrow> string" where
  "decimal n = (if n < 10 then [char_of (48 + n)] else decimal (n div 10) @ [char_of (48 + n mod 10)])"

declare decimal.simps [simp del]

text \<open>Rust's \<open>u64::checked_add(1)\<close>, \<open>slice::starts_with\<close> and \<open>slice::strip_prefix\<close>.\<close>

definition checked_succ :: "'a::len word \<Rightarrow> 'a word option" where
  "checked_succ w = (if w = - 1 then None else Some (w + 1))"

lemma unat_succ: "w \<noteq> - 1 \<Longrightarrow> unat (w + 1) = Suc (unat w)" for w :: "'a::len word"
  using unatSuc [of w] by (metis add.commute eq_neg_iff_add_eq_0)

lemma checked_succ_Some:
  "checked_succ w = Some v \<longleftrightarrow> w \<noteq> - 1 \<and> unat v = Suc (unat w)" for w :: "'a::len word"
  using unat_succ [of w] by (auto simp: checked_succ_def word_unat_eq_iff)

lemma checked_succ_less: "checked_succ w = Some v \<Longrightarrow> w < v" for w :: "'a::len word"
  by (simp add: checked_succ_Some word_less_nat_alt)

fun strip_prefix :: "'a list \<Rightarrow> 'a list \<Rightarrow> 'a list option" where
  "strip_prefix [] ys = Some ys"
| "strip_prefix (x # xs) [] = None"
| "strip_prefix (x # xs) (y # ys) = (if x = y then strip_prefix xs ys else None)"

lemma strip_prefix_Some_iff: "strip_prefix xs ys = Some zs \<longleftrightarrow> ys = xs @ zs"
  by (induction xs ys rule: strip_prefix.induct) auto

lemma strip_prefix_append [simp]: "strip_prefix xs (xs @ zs) = Some zs"
  by (simp add: strip_prefix_Some_iff)

definition starts_with :: "'a list \<Rightarrow> 'a list \<Rightarrow> bool" where
  "starts_with ys xs \<longleftrightarrow> take (length xs) ys = xs"

lemma starts_with_iff: "starts_with ys xs \<longleftrightarrow> (\<exists>zs. ys = xs @ zs)"
  by (auto simp: starts_with_def) (metis append_take_drop_id)

lemma starts_with_append [simp]: "starts_with (xs @ zs) xs"
  by (auto simp: starts_with_iff)

section \<open>Searching a list\<close>

text \<open>\<open>position P xs\<close> is the index of the first element that satisfies \<open>P\<close>.\<close>

fun position :: "('a \<Rightarrow> bool) \<Rightarrow> 'a list \<Rightarrow> nat option" where
  "position P [] = None"
| "position P (x # xs) = (if P x then Some 0 else map_option Suc (position P xs))"

lemma position_Some_iff:
  "position P xs = Some i \<longleftrightarrow> i < length xs \<and> P (xs ! i) \<and> (\<forall>j<i. \<not> P (xs ! j))"
proof (induction xs arbitrary: i)
  case Nil
  then show ?case by simp
next
  case (Cons x xs)
  then show ?case
    by (cases i) (auto simp: All_less_Suc2)
qed

lemma position_None_iff: "position P xs = None \<longleftrightarrow> (\<forall>x \<in> set xs. \<not> P x)"
  by (induction xs) auto

lemma position_SomeD:
  assumes "position P xs = Some i"
  shows "i < length xs" and "P (xs ! i)"
  using assms by (auto simp: position_Some_iff)

lemma find_None_ball: "find P xs = None \<longleftrightarrow> (\<forall>x \<in> set xs. \<not> P x)"
  by (auto simp: find_None_iff)

text \<open>Reading an updated list at an index in range, whether or not the update was in range.\<close>

lemma nth_update_in_range: "j < length xs \<Longrightarrow> xs[i := x] ! j = (if i = j then x else xs ! j)"
  by (cases "i < length xs") (auto simp: list_update_beyond)

section \<open>State machines\<close>

text \<open>
  A component whose operations are total functions on its state: \<open>step e s\<close> is the state
  after operation \<open>e\<close>, whatever the operation returned.
\<close>

definition run :: "('e \<Rightarrow> 's \<Rightarrow> 's) \<Rightarrow> 'e list \<Rightarrow> 's \<Rightarrow> 's" where
  "run step es s = fold step es s"

lemma run_simps [simp]:
  "run step [] s = s"
  "run step (e # es) s = run step es (step e s)"
  "run step (es @ fs) s = run step fs (run step es s)"
  by (simp_all add: run_def)

locale machine =
  fixes init :: "'s"
    and step :: "'e \<Rightarrow> 's \<Rightarrow> 's"
    and invar :: "'s \<Rightarrow> bool"
  assumes invar_init: "invar init"
    and invar_step: "invar s \<Longrightarrow> invar (step e s)"
begin

lemma invar_run: "invar s \<Longrightarrow> invar (run step es s)"
  by (induction es arbitrary: s) (simp_all add: invar_step)

lemma invar_reached: "invar (run step es init)"
  by (rule invar_run [OF invar_init])

end

text \<open>The same for a machine whose events satisfy a side condition.\<close>

locale guarded_machine =
  fixes ginit :: "'s"
    and gstep :: "'e \<Rightarrow> 's \<Rightarrow> 's"
    and ok :: "'e \<Rightarrow> bool"
    and ginvar :: "'s \<Rightarrow> bool"
  assumes ginvar_init: "ginvar ginit"
    and ginvar_step: "ok e \<Longrightarrow> ginvar s \<Longrightarrow> ginvar (gstep e s)"
begin

lemma ginvar_run: "list_all ok es \<Longrightarrow> ginvar s \<Longrightarrow> ginvar (run gstep es s)"
  by (induction es arbitrary: s) (simp_all add: ginvar_step)

lemma ginvar_reached: "list_all ok es \<Longrightarrow> ginvar (run gstep es ginit)"
  by (rule ginvar_run [OF _ ginvar_init])

end

sublocale machine \<subseteq> guarded: guarded_machine init step "\<lambda>_. True" invar
  by unfold_locales (auto intro: invar_init invar_step)

section \<open>High-water marks\<close>

text \<open>
  \<open>accept m s\<close> says whether message \<open>m\<close> is taken in state \<open>s\<close> and gives the next state;
  \<open>mark s\<close> is the high-water mark (\<open>None\<close> before the first message), \<open>key m\<close> the number a
  message carries.
\<close>

definition above :: "'k::linorder option \<Rightarrow> 'k \<Rightarrow> bool" where
  "above w k \<longleftrightarrow> (case w of None \<Rightarrow> True | Some v \<Rightarrow> v < k)"

definition at_least :: "'k::linorder \<Rightarrow> 'k option \<Rightarrow> bool" where
  "at_least k w \<longleftrightarrow> (case w of None \<Rightarrow> False | Some v \<Rightarrow> k \<le> v)"

locale monotone_filter =
  fixes accept :: "'m \<Rightarrow> 's \<Rightarrow> bool \<times> 's"
    and mark :: "'s \<Rightarrow> 'k::linorder option"
    and key :: "'m \<Rightarrow> 'k"
  assumes accepted: "accept m s = (True, s') \<Longrightarrow> above (mark s) (key m) \<and> mark s' = Some (key m)"
    and refused: "accept m s = (False, s') \<Longrightarrow> at_least k (mark s) \<Longrightarrow> at_least k (mark s')"
begin

lemma at_least_step: "at_least k (mark s) \<Longrightarrow> at_least k (mark (snd (accept m s)))"
proof -
  assume k: "at_least k (mark s)"
  obtain b s' where acc: "accept m s = (b, s')" by (cases "accept m s") auto
  show ?thesis
  proof (cases b)
    case True
    with acc accepted [of m s s'] k show ?thesis
      by (auto simp: above_def at_least_def split: option.splits)
  next
    case False
    with acc refused [of m s s' k] k show ?thesis by simp
  qed
qed

lemma at_least_run: "at_least k (mark s) \<Longrightarrow> at_least k (mark (run (\<lambda>m s. snd (accept m s)) ms s))"
  by (induction ms arbitrary: s) (simp_all add: at_least_step)

text \<open>Once a message is accepted, no later message with that key or a smaller one is.\<close>

lemma never_again:
  assumes "accept m s = (True, s')" and "key m' \<le> key m"
  shows "\<not> fst (accept m' (run (\<lambda>m s. snd (accept m s)) ms s'))"
proof
  let ?t = "run (\<lambda>m s. snd (accept m s)) ms s'"
  assume "fst (accept m' ?t)"
  then obtain t' where t': "accept m' ?t = (True, t')" by (cases "accept m' ?t") auto
  from assms(1) have "at_least (key m) (mark s')"
    using accepted [of m s s'] by (simp add: at_least_def)
  then have "at_least (key m) (mark ?t)" by (rule at_least_run)
  moreover from t' accepted [of m' ?t t'] have "above (mark ?t) (key m')" by simp
  ultimately show False
    using assms(2) by (auto simp: above_def at_least_def split: option.splits)
qed

end

end
