(* ===== verification/Feedback.thy ===== *)
theory Feedback
  imports Prelude "HOL-Library.Product_Lexorder"
begin

text \<open>
  \<open>src/src/room/performance_feedback.rs\<close>: the window's bounded record of input gestures
  that still wait for their worker outcome.

  \<open>feedback\<close> is \<open>PerformanceFeedback<CAPACITY>\<close> (the array of slots is a list whose length
  the invariant fixes), one definition per method; the type variable \<open>'d\<close> stands for
  \<open>TunedDegree\<close>, of which the code uses equality and order only. Every error string of the
  source is a constructor of \<open>feedback_error\<close>. A method returns its result together with
  the state it leaves.

  The lemmas show the slot invariant for every run of events, that a resolution consumes
  exactly its own intent, that a rollback undoes its begin, and that the component behaves as
  a finite map from targets to pending intents (\<open>pending_map\<close>).
\<close>

section \<open>Data\<close>

record intent_token =
  tk_generation :: u64
  tk_sequence :: u64

datatype resolution = Accepted | Rejected

datatype 'd feedback_event =
    Begin intent_token 'd bool
  | CommitBegin intent_token
  | RollbackBegin intent_token
  | Resolved intent_token resolution
  | Reset u64
  | InstallGeneration u64

record 'd pending_feedback =
  pf_token :: intent_token
  pf_target :: 'd
  pf_desired_active :: bool

record 'd begin_rollback =
  br_token :: intent_token
  br_slot :: nat
  br_previous :: "'d pending_feedback option"

record 'd feedback =
  fb_generation :: "u64 option"
  fb_high_water :: u64
  fb_slots :: "'d pending_feedback option list"
  fb_begin_rollback :: "'d begin_rollback option"

datatype feedback_error =
    BeginAlreadyOpen
  | SequenceZero
  | GenerationNotInstalled
  | SequenceDidNotIncrease
  | CapacityFull
  | BeginNotOpen
  | CommitTokenMismatch
  | RollbackTokenMismatch
  | ResetGenerationNotInstalled
  | GenerationZero
  | GenerationDidNotIncrease

section \<open>Operations\<close>

definition feedback_default :: "nat \<Rightarrow> 'd feedback" where
  "feedback_default capacity =
     \<lparr>fb_generation = None, fb_high_water = 0,
      fb_slots = replicate capacity None, fb_begin_rollback = None\<rparr>"

definition holds_target :: "'d \<Rightarrow> 'd pending_feedback option \<Rightarrow> bool" where
  "holds_target t slot \<longleftrightarrow> (case slot of None \<Rightarrow> False | Some p \<Rightarrow> pf_target p = t)"

definition holds_token :: "intent_token \<Rightarrow> 'd pending_feedback option \<Rightarrow> bool" where
  "holds_token k slot \<longleftrightarrow> (case slot of None \<Rightarrow> False | Some p \<Rightarrow> pf_token p = k)"

definition slot_index_for :: "'d \<Rightarrow> 'd pending_feedback option list \<Rightarrow> nat option" where
  "slot_index_for t slots =
     (case position (holds_target t) slots of
        Some i \<Rightarrow> Some i
      | None \<Rightarrow> position (\<lambda>slot. slot = None) slots)"

definition begin_transaction ::
  "intent_token \<Rightarrow> 'd \<Rightarrow> bool \<Rightarrow> 'd feedback \<Rightarrow> (feedback_error + unit) \<times> 'd feedback" where
  "begin_transaction token target desired_active f =
     (if fb_begin_rollback f \<noteq> None then (Inl BeginAlreadyOpen, f)
      else if tk_sequence token = 0 then (Inl SequenceZero, f)
      else if fb_generation f \<noteq> Some (tk_generation token) then (Inl GenerationNotInstalled, f)
      else if tk_sequence token \<le> fb_high_water f then (Inl SequenceDidNotIncrease, f)
      else (case slot_index_for target (fb_slots f) of
              None \<Rightarrow> (Inl CapacityFull, f)
            | Some i \<Rightarrow>
                (Inr (),
                 f\<lparr>fb_slots := (fb_slots f)[i :=
                      Some \<lparr>pf_token = token, pf_target = target,
                            pf_desired_active = desired_active\<rparr>],
                   fb_high_water := tk_sequence token,
                   fb_begin_rollback :=
                      Some \<lparr>br_token = token, br_slot = i, br_previous = fb_slots f ! i\<rparr>\<rparr>)))"

definition commit_begin ::
  "intent_token \<Rightarrow> 'd feedback \<Rightarrow> (feedback_error + unit) \<times> 'd feedback" where
  "commit_begin token f =
     (case fb_begin_rollback f of
        None \<Rightarrow> (Inl BeginNotOpen, f)
      | Some r \<Rightarrow>
          if br_token r \<noteq> token then (Inl CommitTokenMismatch, f)
          else (Inr (), f\<lparr>fb_begin_rollback := None\<rparr>))"

definition begin_intent ::
  "intent_token \<Rightarrow> 'd \<Rightarrow> bool \<Rightarrow> 'd feedback \<Rightarrow> (feedback_error + unit) \<times> 'd feedback" where
  "begin_intent token target desired_active f =
     (case begin_transaction token target desired_active f of
        (Inl e, f') \<Rightarrow> (Inl e, f')
      | (Inr _, f') \<Rightarrow> commit_begin token f')"

definition rollback_begin ::
  "intent_token \<Rightarrow> 'd feedback \<Rightarrow> (feedback_error + bool) \<times> 'd feedback" where
  "rollback_begin token f =
     (case fb_begin_rollback f of
        None \<Rightarrow> (Inl BeginNotOpen, f)
      | Some r \<Rightarrow>
          if br_token r \<noteq> token then (Inl RollbackTokenMismatch, f)
          else (Inr True,
                f\<lparr>fb_begin_rollback := None,
                  fb_slots := (fb_slots f)[br_slot r := br_previous r]\<rparr>))"

definition resolve ::
  "intent_token \<Rightarrow> resolution \<Rightarrow> 'd feedback \<Rightarrow> bool \<times> 'd feedback" where
  "resolve token r f =
     (case position (holds_token token) (fb_slots f) of
        None \<Rightarrow> (False, f)
      | Some i \<Rightarrow> (True, f\<lparr>fb_slots := (fb_slots f)[i := None]\<rparr>))"

definition any_pending :: "'d feedback \<Rightarrow> bool" where
  "any_pending f \<longleftrightarrow> list_ex (\<lambda>slot. slot \<noteq> None) (fb_slots f)"

definition cleared_slots :: "'d feedback \<Rightarrow> 'd pending_feedback option list" where
  "cleared_slots f = map (\<lambda>_. None) (fb_slots f)"

definition reset_generation ::
  "u64 \<Rightarrow> 'd feedback \<Rightarrow> (feedback_error + bool) \<times> 'd feedback" where
  "reset_generation generation f =
     (if fb_generation f \<noteq> Some generation then (Inl ResetGenerationNotInstalled, f)
      else (Inr (any_pending f),
            f\<lparr>fb_begin_rollback := None, fb_slots := cleared_slots f\<rparr>))"

definition install_generation ::
  "u64 \<Rightarrow> 'd feedback \<Rightarrow> (feedback_error + bool) \<times> 'd feedback" where
  "install_generation generation f =
     (if generation = 0 then (Inl GenerationZero, f)
      else if (case fb_generation f of None \<Rightarrow> False | Some current \<Rightarrow> generation \<le> current)
      then (Inl GenerationDidNotIncrease, f)
      else (Inr (fb_generation f \<noteq> Some generation \<or> any_pending f),
            f\<lparr>fb_generation := Some generation, fb_high_water := 0,
              fb_begin_rollback := None, fb_slots := cleared_slots f\<rparr>))"

fun apply_event ::
  "'d feedback_event \<Rightarrow> 'd feedback \<Rightarrow> (feedback_error + bool) \<times> 'd feedback" where
  "apply_event (Begin token target desired_active) f =
     (case begin_transaction token target desired_active f of
        (Inl e, f') \<Rightarrow> (Inl e, f')
      | (Inr _, f') \<Rightarrow> (Inr True, f'))"
| "apply_event (CommitBegin token) f =
     (case commit_begin token f of
        (Inl e, f') \<Rightarrow> (Inl e, f')
      | (Inr _, f') \<Rightarrow> (Inr False, f'))"
| "apply_event (RollbackBegin token) f = rollback_begin token f"
| "apply_event (Resolved token r) f = (case resolve token r f of (b, f') \<Rightarrow> (Inr b, f'))"
| "apply_event (Reset generation) f = reset_generation generation f"
| "apply_event (InstallGeneration generation) f = install_generation generation f"

definition flatten_slots :: "'d feedback \<Rightarrow> 'd pending_feedback list" where
  "flatten_slots f = map the (filter (\<lambda>slot. slot \<noteq> None) (fb_slots f))"

definition pending_pressed_degrees :: "'d::linorder feedback \<Rightarrow> 'd list" where
  "pending_pressed_degrees f = remdups_adj (sort (map pf_target (flatten_slots f)))"

definition pending_membership_predictions :: "'d::linorder feedback \<Rightarrow> ('d \<times> bool) list" where
  "pending_membership_predictions f =
     sort_key fst (map (\<lambda>p. (pf_target p, pf_desired_active p)) (flatten_slots f))"

definition desired :: "'d \<Rightarrow> 'd feedback \<Rightarrow> bool option" where
  "desired target f =
     map_option pf_desired_active (find (\<lambda>p. pf_target p = target) (flatten_slots f))"

section \<open>Invariant\<close>

text \<open>
  Two slots never hold the same target or the same sequence number; every pending intent is of
  the installed generation with a sequence number up to the high-water mark; an open begin
  transaction remembers a slot in range whose content is its own intent or nothing, and putting
  the remembered intent back would not collide with any other slot.
\<close>

definition pending_ok :: "u64 option \<Rightarrow> u64 \<Rightarrow> 'd pending_feedback \<Rightarrow> bool" where
  "pending_ok g hw p \<longleftrightarrow>
     g = Some (tk_generation (pf_token p)) \<and> tk_sequence (pf_token p) \<le> hw"

definition clash :: "'d pending_feedback \<Rightarrow> 'd pending_feedback \<Rightarrow> bool" where
  "clash p q \<longleftrightarrow> pf_target p = pf_target q \<or> tk_sequence (pf_token p) = tk_sequence (pf_token q)"

definition slots_ok :: "u64 option \<Rightarrow> u64 \<Rightarrow> 'd pending_feedback option list \<Rightarrow> bool" where
  "slots_ok g hw slots \<longleftrightarrow>
     (\<forall>i < length slots. \<forall>p. slots ! i = Some p \<longrightarrow>
        pending_ok g hw p \<and>
        (\<forall>j < length slots. \<forall>q. slots ! j = Some q \<longrightarrow> clash p q \<longrightarrow> i = j))"

definition rollback_ok :: "'d feedback \<Rightarrow> 'd begin_rollback \<Rightarrow> bool" where
  "rollback_ok f r \<longleftrightarrow>
     br_slot r < length (fb_slots f) \<and>
     (\<forall>p. fb_slots f ! br_slot r = Some p \<longrightarrow> pf_token p = br_token r) \<and>
     slots_ok (fb_generation f) (fb_high_water f) ((fb_slots f)[br_slot r := br_previous r])"

definition feedback_inv :: "nat \<Rightarrow> 'd feedback \<Rightarrow> bool" where
  "feedback_inv capacity f \<longleftrightarrow>
     length (fb_slots f) = capacity \<and>
     slots_ok (fb_generation f) (fb_high_water f) (fb_slots f) \<and>
     (\<forall>r. fb_begin_rollback f = Some r \<longrightarrow> rollback_ok f r)"

lemmas feedback_inv_defs = feedback_inv_def rollback_ok_def slots_ok_def pending_ok_def

text \<open>The abstract state: what is pending, by target.\<close>

definition pending_map :: "'d feedback \<Rightarrow> 'd \<rightharpoonup> 'd pending_feedback" where
  "pending_map f t = (case position (holds_target t) (fb_slots f) of
                        None \<Rightarrow> None | Some i \<Rightarrow> fb_slots f ! i)"

section \<open>The invariant is kept\<close>

lemma holds_token_iff: "holds_token k x \<longleftrightarrow> (\<exists>p. x = Some p \<and> pf_token p = k)"
  by (cases x) (simp_all add: holds_token_def)

lemma slots_ok_mono: "slots_ok g hw slots \<Longrightarrow> hw \<le> hw' \<Longrightarrow> slots_ok g hw' slots"
  by (fastforce simp: slots_ok_def pending_ok_def)

lemma slots_ok_clear: "slots_ok g hw slots \<Longrightarrow> slots_ok g hw (slots[i := None])"
  by (auto simp: slots_ok_def nth_update_in_range)

lemma slots_ok_none: "slots_ok g hw (map (\<lambda>_. None) xs)"
  by (simp add: slots_ok_def)

lemma slots_ok_insert:
  assumes "slots_ok g hw slots" and "hw \<le> hw'" and "pending_ok g hw' p"
    and "\<And>j q. j < length slots \<Longrightarrow> j \<noteq> i \<Longrightarrow> slots ! j = Some q \<Longrightarrow> \<not> clash p q"
  shows "slots_ok g hw' (slots[i := Some p])"
proof -
  have ok: "slots_ok g hw' slots"
    using assms(1,2) by (rule slots_ok_mono)
  have sym: "clash q p = clash p q" for q by (auto simp: clash_def)
  show ?thesis
    using ok assms(3,4) unfolding slots_ok_def
    by (auto simp: nth_update_in_range sym split: if_splits)
qed

lemma slots_ok_target_unique:
  assumes "slots_ok g hw slots" and "i < length slots" and "j < length slots"
    and "holds_target t (slots ! i)" and "holds_target t (slots ! j)"
  shows "i = j"
  using assms by (auto simp: slots_ok_def holds_target_def clash_def split: option.splits)

lemma slots_ok_token_unique:
  assumes "slots_ok g hw slots" and "i < length slots" and "j < length slots"
    and "holds_token k (slots ! i)" and "holds_token k (slots ! j)"
  shows "i = j"
  using assms by (auto simp: slots_ok_def holds_token_def clash_def split: option.splits)

lemma slot_index_for_Some:
  assumes "slot_index_for t slots = Some i"
  shows "i < length slots" and "slots ! i = None \<or> holds_target t (slots ! i)"
    and "slots ! i = None \<Longrightarrow> j < length slots \<Longrightarrow> \<not> holds_target t (slots ! j)"
  using assms
  by (auto simp: slot_index_for_def position_Some_iff position_None_iff holds_target_def
        all_set_conv_all_nth split: option.splits)

lemma begin_transaction_ok:
  assumes inv: "feedback_inv n f" and ok: "begin_transaction k t d f = (Inr (), f')"
  obtains i where "i < n" and "slot_index_for t (fb_slots f) = Some i"
    and "fb_begin_rollback f = None" and "fb_high_water f < tk_sequence k"
    and "fb_generation f = Some (tk_generation k)"
    and "fb_generation f' = fb_generation f" and "fb_high_water f' = tk_sequence k"
    and "fb_slots f' = (fb_slots f)[i :=
           Some \<lparr>pf_token = k, pf_target = t, pf_desired_active = d\<rparr>]"
    and "fb_begin_rollback f' =
           Some \<lparr>br_token = k, br_slot = i, br_previous = fb_slots f ! i\<rparr>"
  using inv ok
  by (auto simp: begin_transaction_def feedback_inv_def
           dest: slot_index_for_Some split: if_splits option.splits)

lemma begin_transaction_slots_ok:
  assumes inv: "feedback_inv n f" and i: "slot_index_for t (fb_slots f) = Some i"
    and hw: "fb_high_water f < tk_sequence k" and g: "fb_generation f = Some (tk_generation k)"
  shows "slots_ok (fb_generation f) (tk_sequence k)
           ((fb_slots f)[i := Some \<lparr>pf_token = k, pf_target = t, pf_desired_active = d\<rparr>])"
proof (rule slots_ok_insert)
  from inv show ok: "slots_ok (fb_generation f) (fb_high_water f) (fb_slots f)"
    by (simp add: feedback_inv_def)
  from hw show "fb_high_water f \<le> tk_sequence k" by simp
  from g show "pending_ok (fb_generation f) (tk_sequence k)
                 \<lparr>pf_token = k, pf_target = t, pf_desired_active = d\<rparr>"
    by (simp add: pending_ok_def)
  fix j q
  assume j: "j < length (fb_slots f)" "j \<noteq> i" "fb_slots f ! j = Some q"
  have "pf_target q \<noteq> t"
    using slot_index_for_Some(1,2) [OF i] slot_index_for_Some(3) [OF i _ j(1)]
      slots_ok_target_unique [OF ok _ j(1), of i t] j
    by (auto simp: holds_target_def)
  moreover have "tk_sequence (pf_token q) < tk_sequence k"
    using ok j hw by (fastforce simp: slots_ok_def pending_ok_def)
  ultimately show "\<not> clash \<lparr>pf_token = k, pf_target = t, pf_desired_active = d\<rparr> q"
    by (auto simp: clash_def)
qed

lemma begin_transaction_inv:
  assumes inv: "feedback_inv n f"
  shows "feedback_inv n (snd (begin_transaction k t d f))"
proof (cases "begin_transaction k t d f")
  case (Pair r f')
  show ?thesis
  proof (cases r)
    case (Inl e)
    with Pair inv show ?thesis
      by (auto simp: begin_transaction_def split: if_splits option.splits)
  next
    case (Inr u)
    with Pair have ok: "begin_transaction k t d f = (Inr (), f')" by simp
    obtain i where
      i: "i < n" "slot_index_for t (fb_slots f) = Some i"
      and hw: "fb_high_water f < tk_sequence k"
      and g: "fb_generation f = Some (tk_generation k)"
      and f': "fb_generation f' = fb_generation f" "fb_high_water f' = tk_sequence k"
        "fb_slots f' = (fb_slots f)[i :=
           Some \<lparr>pf_token = k, pf_target = t, pf_desired_active = d\<rparr>]"
        "fb_begin_rollback f' =
           Some \<lparr>br_token = k, br_slot = i, br_previous = fb_slots f ! i\<rparr>"
      by (rule begin_transaction_ok [OF inv ok])
    note new = begin_transaction_slots_ok [OF inv i(2) hw g, of d]
    have old: "slots_ok (fb_generation f) (tk_sequence k) (fb_slots f)"
      using inv hw by (auto simp: feedback_inv_def intro: slots_ok_mono)
    from inv i(1) new old show ?thesis
      by (simp add: Pair f' feedback_inv_def rollback_ok_def)
  qed
qed

lemma commit_begin_inv: "feedback_inv n f \<Longrightarrow> feedback_inv n (snd (commit_begin k f))"
  by (auto simp: commit_begin_def feedback_inv_def split: option.splits)

lemma rollback_begin_inv: "feedback_inv n f \<Longrightarrow> feedback_inv n (snd (rollback_begin k f))"
  by (auto simp: rollback_begin_def feedback_inv_def rollback_ok_def split: option.splits)

lemma resolve_inv:
  assumes inv: "feedback_inv n f"
  shows "feedback_inv n (snd (resolve k r f))"
proof (cases "position (holds_token k) (fb_slots f)")
  case None
  with inv show ?thesis by (simp add: resolve_def)
next
  case (Some i)
  have "rollback_ok (f\<lparr>fb_slots := (fb_slots f)[i := None]\<rparr>) b"
    if "fb_begin_rollback f = Some b" for b
  proof (cases "br_slot b = i")
    case True
    with that inv show ?thesis by (auto simp: feedback_inv_def rollback_ok_def)
  next
    case False
    with that inv show ?thesis
      by (auto simp: feedback_inv_def rollback_ok_def list_update_swap [of i] slots_ok_clear)
  qed
  with inv Some show ?thesis
    by (auto simp: resolve_def feedback_inv_def slots_ok_clear)
qed

lemma reset_generation_inv: "feedback_inv n f \<Longrightarrow> feedback_inv n (snd (reset_generation g f))"
  by (auto simp: reset_generation_def feedback_inv_def cleared_slots_def slots_ok_none)

lemma install_generation_inv: "feedback_inv n f \<Longrightarrow> feedback_inv n (snd (install_generation g f))"
  by (auto simp: install_generation_def feedback_inv_def cleared_slots_def slots_ok_none)

lemma apply_event_inv: "feedback_inv n f \<Longrightarrow> feedback_inv n (snd (apply_event e f))"
proof (cases e)
  case (Begin k t d)
  then show "feedback_inv n f \<Longrightarrow> ?thesis"
    using begin_transaction_inv [of n f k t d] by (auto split: prod.splits sum.splits)
next
  case (CommitBegin k)
  then show "feedback_inv n f \<Longrightarrow> ?thesis"
    using commit_begin_inv [of n f k] by (auto split: prod.splits sum.splits)
next
  case (Resolved k r)
  then show "feedback_inv n f \<Longrightarrow> ?thesis"
    using resolve_inv [of n f k r] by (auto split: prod.splits)
qed (simp_all add: rollback_begin_inv reset_generation_inv install_generation_inv)

lemma feedback_default_inv: "feedback_inv n (feedback_default n)"
  by (simp add: feedback_inv_def feedback_default_def slots_ok_def)

interpretation fb: machine "feedback_default n" "\<lambda>e f. snd (apply_event e f)" "feedback_inv n"
  for n
  by unfold_locales (simp_all add: feedback_default_inv apply_event_inv)

section \<open>The component as a map from targets to pending intents\<close>

lemma pending_map_Some_iff:
  assumes "feedback_inv n f"
  shows "pending_map f t = Some p \<longleftrightarrow> Some p \<in> set (fb_slots f) \<and> pf_target p = t"
proof
  assume "pending_map f t = Some p"
  then show "Some p \<in> set (fb_slots f) \<and> pf_target p = t"
    by (auto simp: pending_map_def position_Some_iff holds_target_def split: option.splits)
       (metis nth_mem)
next
  assume p: "Some p \<in> set (fb_slots f) \<and> pf_target p = t"
  then obtain j where j: "j < length (fb_slots f)" "fb_slots f ! j = Some p"
    by (auto simp: in_set_conv_nth)
  with p have h: "holds_target t (fb_slots f ! j)" by (simp add: holds_target_def)
  then obtain i where i: "position (holds_target t) (fb_slots f) = Some i"
    using j nth_mem [OF j(1)]
    by (cases "position (holds_target t) (fb_slots f)") (auto simp: position_None_iff)
  have "i = j"
    using assms slots_ok_target_unique [OF _ position_SomeD(1) [OF i] j(1) position_SomeD(2) [OF i] h]
    by (auto simp: feedback_inv_def)
  with i j show "pending_map f t = Some p" by (simp add: pending_map_def)
qed

lemma pending_map_eqI:
  assumes "feedback_inv n f" and "feedback_inv m g"
    and "\<And>p. Some p \<in> set (fb_slots f) \<longleftrightarrow> Some p \<in> set (fb_slots g)"
  shows "pending_map f = pending_map g"
proof
  fix t
  show "pending_map f t = pending_map g t"
    using assms pending_map_Some_iff [OF assms(1), of t] pending_map_Some_iff [OF assms(2), of t]
    by (metis not_None_eq)
qed

lemma in_set_update_iff:
  assumes "i < length xs"
  shows "y \<in> set (xs[i := x]) \<longleftrightarrow> y = x \<or> (\<exists>j < length xs. j \<noteq> i \<and> xs ! j = y)"
  using assms by (auto simp: in_set_conv_nth nth_update_in_range split: if_splits)

lemma begin_transaction_pending_map:
  assumes inv: "feedback_inv n f" and ok: "begin_transaction k t d f = (Inr (), f')"
  shows "pending_map f' =
         (pending_map f)(t \<mapsto> \<lparr>pf_token = k, pf_target = t, pf_desired_active = d\<rparr>)"
proof -
  let ?new = "\<lparr>pf_token = k, pf_target = t, pf_desired_active = d\<rparr>"
  obtain i where
    i: "i < n" "slot_index_for t (fb_slots f) = Some i"
    and f': "fb_slots f' = (fb_slots f)[i := Some ?new]"
    by (rule begin_transaction_ok [OF inv ok])
  have inv': "feedback_inv n f'" using begin_transaction_inv [OF inv, of k t d] ok by simp
  have len: "i < length (fb_slots f)" using slot_index_for_Some(1) [OF i(2)] .
  have other: "pf_target q \<noteq> t \<longleftrightarrow> j \<noteq> i"
    if "j < length (fb_slots f)" "fb_slots f ! j = Some q" for j q
  proof -
    from inv have ok: "slots_ok (fb_generation f) (fb_high_water f) (fb_slots f)"
      by (simp add: feedback_inv_def)
    show ?thesis
      using slot_index_for_Some(2) [OF i(2)] slot_index_for_Some(3) [OF i(2) _ that(1)]
        slots_ok_target_unique [OF ok len that(1), of t] that
      by (auto simp: holds_target_def)
  qed
  have slots: "Some p \<in> set (fb_slots f') \<longleftrightarrow>
      p = ?new \<or> (Some p \<in> set (fb_slots f) \<and> pf_target p \<noteq> t)" for p
    unfolding f' in_set_update_iff [OF len] using other by (auto simp: in_set_conv_nth)
  show ?thesis
  proof
    fix s
    show "pending_map f' s = ((pending_map f)(t \<mapsto> ?new)) s"
    proof (cases "s = t")
      case True
      then show ?thesis using pending_map_Some_iff [OF inv', of t ?new] slots by simp
    next
      case False
      then have "pending_map f' s = Some p \<longleftrightarrow> pending_map f s = Some p" for p
        using pending_map_Some_iff [OF inv', of s p] pending_map_Some_iff [OF inv, of s p] slots
        by auto
      with False show ?thesis by (metis fun_upd_other not_None_eq)
    qed
  qed
qed

lemma resolve_pending_map:
  assumes inv: "feedback_inv n f"
  shows "pending_map (snd (resolve k r f)) t =
         (case pending_map f t of
            None \<Rightarrow> None
          | Some p \<Rightarrow> if pf_token p = k then None else Some p)"
    and "fst (resolve k r f) \<longleftrightarrow> (\<exists>t p. pending_map f t = Some p \<and> pf_token p = k)"
proof -
  let ?f' = "snd (resolve k r f)"
  have inv': "feedback_inv n ?f'" by (rule resolve_inv [OF inv])
  have ok: "slots_ok (fb_generation f) (fb_high_water f) (fb_slots f)"
    using inv by (simp add: feedback_inv_def)
  have slots: "Some p \<in> set (fb_slots ?f') \<longleftrightarrow> Some p \<in> set (fb_slots f) \<and> pf_token p \<noteq> k" for p
  proof (cases "position (holds_token k) (fb_slots f)")
    case None
    then have "pf_token p \<noteq> k" if "Some p \<in> set (fb_slots f)"
      using that by (auto simp: position_None_iff holds_token_def)
    then show ?thesis by (auto simp: resolve_def None)
  next
    case (Some i)
    note i = position_SomeD [OF Some]
    have tok: "pf_token q \<noteq> k \<longleftrightarrow> j \<noteq> i"
      if "j < length (fb_slots f)" "fb_slots f ! j = Some q" for j q
      using slots_ok_token_unique [OF ok i(1) that(1) i(2)] that i(2)
      by (auto simp: holds_token_def)
    have "Some p \<in> set ((fb_slots f)[i := None]) \<longleftrightarrow>
        (\<exists>j < length (fb_slots f). j \<noteq> i \<and> fb_slots f ! j = Some p)"
      by (simp add: in_set_update_iff [OF i(1)])
    also have "\<dots> \<longleftrightarrow> (\<exists>j < length (fb_slots f). fb_slots f ! j = Some p) \<and> pf_token p \<noteq> k"
      using tok by blast
    finally show ?thesis by (simp add: resolve_def Some in_set_conv_nth)
  qed
  have keep: "pending_map ?f' t = Some p \<longleftrightarrow> pending_map f t = Some p \<and> pf_token p \<noteq> k" for p
    using pending_map_Some_iff [OF inv, of t p] pending_map_Some_iff [OF inv', of t p] slots by auto
  show "pending_map ?f' t = (case pending_map f t of None \<Rightarrow> None
          | Some p \<Rightarrow> if pf_token p = k then None else Some p)"
  proof (cases "pending_map ?f' t")
    case None
    show ?thesis
    proof (cases "pending_map f t")
      case (Some p)
      with None keep [of p] show ?thesis by simp
    qed (simp add: None)
  next
    case (Some p)
    with keep [of p] show ?thesis by simp
  qed
  have "fst (resolve k r f) \<longleftrightarrow> (\<exists>p. Some p \<in> set (fb_slots f) \<and> pf_token p = k)"
  proof -
    have "fst (resolve k r f) \<longleftrightarrow> position (holds_token k) (fb_slots f) \<noteq> None"
      by (auto simp: resolve_def split: option.splits)
    also have "\<dots> \<longleftrightarrow> (\<exists>x \<in> set (fb_slots f). holds_token k x)"
      by (simp only: position_None_iff bex_simps ball_simps not_not)
    also have "\<dots> \<longleftrightarrow> (\<exists>p. Some p \<in> set (fb_slots f) \<and> pf_token p = k)"
      unfolding holds_token_iff by blast
    finally show ?thesis .
  qed
  then show "fst (resolve k r f) \<longleftrightarrow> (\<exists>t p. pending_map f t = Some p \<and> pf_token p = k)"
    by (auto simp: pending_map_Some_iff [OF inv])
qed

lemma set_flatten_slots: "set (flatten_slots f) = {p. Some p \<in> set (fb_slots f)}"
  by (force simp: flatten_slots_def image_iff)

lemma distinct_targets_aux:
  assumes "slots_ok g hw slots"
  shows "distinct (map (pf_target \<circ> the) (filter (\<lambda>slot. slot \<noteq> None) slots))"
  using assms
proof (induction slots)
  case Nil
  then show ?case by simp
next
  case (Cons x xs)
  have tail: "slots_ok g hw xs"
    using Cons.prems unfolding slots_ok_def by (fastforce simp: All_less_Suc2)
  have "pf_target p \<noteq> pf_target q" if "x = Some p" "Some q \<in> set xs" for p q
  proof -
    from that(2) obtain j where "j < length xs" "xs ! j = Some q"
      by (auto simp: in_set_conv_nth)
    with Cons.prems that(1) show ?thesis
      unfolding slots_ok_def clash_def by (fastforce simp: All_less_Suc2)
  qed
  with Cons.IH [OF tail] show ?case by (cases x) (force simp: image_iff)+
qed

lemma distinct_targets:
  assumes "feedback_inv n f"
  shows "distinct (map pf_target (flatten_slots f))"
  using distinct_targets_aux [of "fb_generation f" "fb_high_water f" "fb_slots f"] assms
  by (simp add: feedback_inv_def flatten_slots_def)

lemma find_flatten:
  "find (\<lambda>p. pf_target p = t) (map the (filter (\<lambda>slot. slot \<noteq> None) slots)) =
   (case position (holds_target t) slots of None \<Rightarrow> None | Some i \<Rightarrow> slots ! i)"
  by (induction slots) (auto simp: holds_target_def split: option.splits)

lemma desired_eq: "desired t f = map_option pf_desired_active (pending_map f t)"
  unfolding desired_def flatten_slots_def pending_map_def find_flatten ..

lemma rollback_begin_restores:
  assumes "feedback_inv capacity f" and "begin_transaction k t d f = (Inr (), f')"
  shows "rollback_begin k f' = (Inr True, f\<lparr>fb_high_water := tk_sequence k\<rparr>)"
proof -
  obtain i where i: "i < capacity" "fb_begin_rollback f = None"
    and f': "fb_generation f' = fb_generation f" "fb_high_water f' = tk_sequence k"
      "fb_slots f' = (fb_slots f)[i :=
         Some \<lparr>pf_token = k, pf_target = t, pf_desired_active = d\<rparr>]"
      "fb_begin_rollback f' =
         Some \<lparr>br_token = k, br_slot = i, br_previous = fb_slots f ! i\<rparr>"
    by (rule begin_transaction_ok [OF assms])
  have "snd (rollback_begin k f') = f\<lparr>fb_high_water := tk_sequence k\<rparr>"
    by (rule feedback.equality) (simp_all add: rollback_begin_def f' i)
  then show ?thesis by (simp add: rollback_begin_def f')
qed

lemma pending_token_unique:
  assumes inv: "feedback_inv n f" and "pending_map f s = Some q" and "pending_map f t = Some p"
    and "pf_token q = pf_token p"
  shows "s = t"
proof -
  have ok: "slots_ok (fb_generation f) (fb_high_water f) (fb_slots f)"
    using inv by (simp add: feedback_inv_def)
  obtain i where i: "i < length (fb_slots f)" "fb_slots f ! i = Some q" "pf_target q = s"
    using assms(2) by (auto simp: pending_map_Some_iff [OF inv] in_set_conv_nth)
  obtain j where j: "j < length (fb_slots f)" "fb_slots f ! j = Some p" "pf_target p = t"
    using assms(3) by (auto simp: pending_map_Some_iff [OF inv] in_set_conv_nth)
  from slots_ok_token_unique [OF ok i(1) j(1), of "pf_token p"] i j assms(4) show ?thesis
    by (simp add: holds_token_def)
qed

lemma begin_transaction_fresh:
  assumes inv: "feedback_inv n f" and "begin_transaction k t d f = (Inr (), f')"
    and "pending_map f s = Some q"
  shows "tk_sequence (pf_token q) < tk_sequence k"
proof -
  obtain i where "fb_high_water f < tk_sequence k"
    by (rule begin_transaction_ok [OF assms(1,2)])
  moreover have "tk_sequence (pf_token q) \<le> fb_high_water f"
    using inv assms(3)
    by (auto simp: feedback_inv_def slots_ok_def pending_ok_def in_set_conv_nth
          pending_map_Some_iff [OF inv])
  ultimately show ?thesis by simp
qed

section \<open>Tokens as a high-water mark\<close>

definition accept_begin :: "'d feedback_event \<Rightarrow> 'd feedback \<Rightarrow> bool \<times> 'd feedback" where
  "accept_begin e f =
     ((case e of
         Begin k t d \<Rightarrow> (case fst (apply_event e f) of Inl _ \<Rightarrow> False | Inr _ \<Rightarrow> True)
       | _ \<Rightarrow> False),
      snd (apply_event e f))"

definition begin_key :: "'d feedback_event \<Rightarrow> u64 \<times> u64" where
  "begin_key e = (case e of Begin k t d \<Rightarrow> (tk_generation k, tk_sequence k) | _ \<Rightarrow> (0, 0))"

definition token_mark :: "'d feedback \<Rightarrow> (u64 \<times> u64) option" where
  "token_mark f = map_option (\<lambda>g. (g, fb_high_water f)) (fb_generation f)"

lemma token_mark_begin:
  assumes "begin_transaction k t d f = (Inr u, f')"
  shows "above (token_mark f) (tk_generation k, tk_sequence k)"
    and "token_mark f' = Some (tk_generation k, tk_sequence k)"
  using assms
  by (auto simp: begin_transaction_def token_mark_def above_def not_le
           split: if_splits option.splits)

lemma token_mark_refused:
  assumes "accept_begin e f = (False, f')" and "at_least k (token_mark f)"
  shows "at_least k (token_mark f')"
proof (cases e)
  case (Begin k t d)
  with assms show ?thesis
    by (auto simp: accept_begin_def begin_transaction_def split: if_splits option.splits)
next
  case (InstallGeneration g)
  with assms show ?thesis
    by (cases k)
       (auto simp: accept_begin_def install_generation_def token_mark_def at_least_def
             split: if_splits option.splits)
qed (use assms in \<open>auto simp: accept_begin_def commit_begin_def rollback_begin_def resolve_def
       reset_generation_def token_mark_def split: option.splits\<close>)

lemma token_mark_accepted:
  assumes "accept_begin e f = (True, f')"
  shows "above (token_mark f) (begin_key e) \<and> token_mark f' = Some (begin_key e)"
proof (cases e)
  case (Begin k t d)
  with assms token_mark_begin [of k t d f] show ?thesis
    by (auto simp: accept_begin_def begin_key_def split: prod.splits sum.splits)
qed (use assms in \<open>simp_all add: accept_begin_def\<close>)

interpretation begins: monotone_filter accept_begin token_mark begin_key
  by unfold_locales (simp_all add: token_mark_accepted token_mark_refused)

section \<open>Properties\<close>

text \<open>C39: From the default state, every sequence of feedback events, failing ones included,
  keeps the slot invariant: the slot array never changes its size, no two slots hold the same
  target or sequence number, every pending intent belongs to the installed generation, and an
  open begin transaction can always be rolled back without a collision.\<close>

theorem feedback_run_invariant:
  "feedback_inv capacity
     (run (\<lambda>e f. snd (apply_event e f)) es (feedback_default capacity))"
  by (rule fb.invar_reached)

text \<open>A resolution consumes exactly the pending intent that carries its token: that
  target is cleared, every other pending intent stays, and the returned flag says whether there
  was such an intent. So a late outcome of an older intent cannot clear a newer press.\<close>

theorem resolve_exact:
  assumes "feedback_inv capacity f"
  shows "(\<forall>t. pending_map (snd (resolve k r f)) t =
           (case pending_map f t of
              None \<Rightarrow> None
            | Some p \<Rightarrow> if pf_token p = k then None else Some p))
       \<and> (fst (resolve k r f) \<longleftrightarrow> (\<exists>t p. pending_map f t = Some p \<and> pf_token p = k))"
  using resolve_pending_map [OF assms] by blast

text \<open>Rolling back a begin transaction restores the slots as they were before it,
  the replaced intent of the same target included; only the high-water mark has moved, so the
  refused sequence number is not reusable.\<close>

theorem rollback_undoes_begin:
  assumes "feedback_inv capacity f" and "begin_transaction k t d f = (Inr (), f')"
  shows "rollback_begin k f' = (Inr True, f\<lparr>fb_high_water := tk_sequence k\<rparr>)"
  by (rule rollback_begin_restores [OF assms])

text \<open>A begun intent becomes the pending intent of its target and of no other, and the
  reads agree with that map: \<open>desired\<close> and \<open>pending_membership_predictions\<close> report exactly
  the pending desires, the predictions sorted by target with no target twice, and
  \<open>pending_pressed_degrees\<close> lists exactly the pending targets, strictly ascending.\<close>

theorem reads_reflect_pending:
  assumes "feedback_inv capacity f"
  shows "map_of (pending_membership_predictions f) t = desired t f
       \<and> desired t f = map_option pf_desired_active (pending_map f t)
       \<and> sorted (map fst (pending_membership_predictions f))
       \<and> distinct (map fst (pending_membership_predictions f))
       \<and> set (pending_pressed_degrees f) = dom (pending_map f)
       \<and> sorted_wrt (<) (pending_pressed_degrees f)"
proof -
  let ?ts = "map pf_target (flatten_slots f)"
  let ?ps = "map (\<lambda>p. (pf_target p, pf_desired_active p)) (flatten_slots f)"
  have dist: "distinct ?ts" by (rule distinct_targets [OF assms])
  have pres: "pending_pressed_degrees f = sort ?ts"
    using dist by (simp add: pending_pressed_degrees_def remdups_adj_distinct)
  have keys: "distinct (map fst (pending_membership_predictions f))"
  proof -
    from dist have "distinct (map fst ?ps)" by (simp add: comp_def)
    then show ?thesis
      unfolding pending_membership_predictions_def distinct_map [of fst] by simp
  qed
  have "map_of (pending_membership_predictions f) t = map_option pf_desired_active (pending_map f t)"
  proof (cases "pending_map f t")
    case None
    then have "t \<notin> fst ` set ?ps"
      using pending_map_Some_iff [OF assms, of t] by (auto simp: set_flatten_slots image_iff)
    then show ?thesis
      using None by (simp add: map_of_eq_None_iff pending_membership_predictions_def)
  next
    case (Some p)
    then have "(t, pf_desired_active p) \<in> set (pending_membership_predictions f)"
      using pending_map_Some_iff [OF assms, of t p]
      by (auto simp: pending_membership_predictions_def set_flatten_slots image_iff)
    with keys Some show ?thesis by (simp add: map_of_is_SomeI)
  qed
  moreover have "set (pending_pressed_degrees f) = dom (pending_map f)"
    by (auto simp: pres set_flatten_slots dom_def pending_map_Some_iff [OF assms])
  moreover have "sorted_wrt (<) (pending_pressed_degrees f)"
    using dist by (simp add: pres strict_sorted_iff)
  moreover have "sorted (map fst (pending_membership_predictions f))"
    by (simp add: pending_membership_predictions_def)
  ultimately show ?thesis using keys by (simp add: desired_eq)
qed

text \<open>Correlation tokens are never reused: once an intent with a given generation and
  sequence number was begun, no later begin with that pair or a smaller one (generation first)
  is accepted, whatever events, generation changes included, come in between.\<close>

theorem tokens_never_reused:
  assumes "apply_event (Begin k t d) f = (Inr b, f')"
    and "(tk_generation k', tk_sequence k') \<le> (tk_generation k, tk_sequence k)"
  shows "\<exists>e. fst (apply_event (Begin k' t' d')
                 (run (\<lambda>e f. snd (apply_event e f)) es f')) = Inl e"
proof -
  have "accept_begin (Begin k t d) f = (True, f')"
    using assms(1) by (simp add: accept_begin_def)
  then have "\<not> fst (accept_begin (Begin k' t' d')
                (run (\<lambda>e f. snd (accept_begin e f)) es f'))"
    by (rule begins.never_again) (use assms(2) in \<open>simp add: begin_key_def\<close>)
  then show ?thesis
    by (auto simp: accept_begin_def split: sum.splits)
qed

text \<open>A rollback brings a replaced intent back even when that intent's own outcome
  arrived while the begin transaction was open: the outcome finds no slot, is reported as
  unmatched and changes nothing, and the rollback then restores an intent whose outcome has
  already been delivered.\<close>

theorem rollback_restores_resolved_intent:
  assumes "feedback_inv capacity f" and "pending_map f t = Some p"
    and "begin_transaction k t d f = (Inr (), f')"
  shows "resolve (pf_token p) r f' = (False, f')
       \<and> pending_map (snd (rollback_begin k f')) t = Some p"
proof -
  have inv': "feedback_inv capacity f'"
    using begin_transaction_inv [OF assms(1), of k t d] assms(3) by simp
  have old: "pf_token p \<noteq> k"
    using begin_transaction_fresh [OF assms(1,3,2)] by auto
  have same: "s = t" if "pending_map f s = Some q" "pf_token q = pf_token p" for s q
    by (rule pending_token_unique [OF assms(1) that(1) assms(2) that(2)])
  have "\<not> fst (resolve (pf_token p) r f')"
    unfolding resolve_pending_map(2) [OF inv'] begin_transaction_pending_map [OF assms(1,3)]
    using old same by (auto split: if_splits)
  then have "resolve (pf_token p) r f' = (False, f')"
    by (auto simp: resolve_def split: option.splits)
  moreover have "pending_map (f\<lparr>fb_high_water := tk_sequence k\<rparr>) t = Some p"
    using assms(2) by (simp add: pending_map_def split: option.splits)
  ultimately show ?thesis by (simp add: rollback_begin_restores [OF assms(1,3)])
qed

section \<open>Witnesses\<close>

abbreviation token_7_1 :: intent_token where
  "token_7_1 \<equiv> \<lparr>tk_generation = 7, tk_sequence = 1\<rparr>"

abbreviation token_7_2 :: intent_token where
  "token_7_2 \<equiv> \<lparr>tk_generation = 7, tk_sequence = 2\<rparr>"

text \<open>Generation 7 installed in two slots and degree 3 pending as \<open>True\<close>.\<close>

definition one_pending :: "nat feedback" where
  "one_pending = run (\<lambda>e f. snd (apply_event e f))
     [InstallGeneration 7, Begin token_7_1 3 True, CommitBegin token_7_1] (feedback_default 2)"

lemma one_pending_inv: "feedback_inv 2 one_pending"
  unfolding one_pending_def by (rule fb.invar_reached)

lemma replicate_two: "replicate 2 x = [x, x]"
  by (simp add: numeral_2_eq_2)

lemma one_pending_eq:
  "one_pending = \<lparr>fb_generation = Some 7, fb_high_water = 1,
     fb_slots = [Some \<lparr>pf_token = token_7_1, pf_target = 3, pf_desired_active = True\<rparr>, None],
     fb_begin_rollback = None\<rparr>"
  by (simp add: one_pending_def feedback_default_def install_generation_def begin_transaction_def
      commit_begin_def cleared_slots_def slot_index_for_def holds_target_def replicate_two)

lemma one_pending_begin:
  "begin_transaction token_7_2 3 False one_pending =
     (Inr (), one_pending\<lparr>
        fb_slots := [Some \<lparr>pf_token = token_7_2, pf_target = 3, pf_desired_active = False\<rparr>, None],
        fb_high_water := 2,
        fb_begin_rollback := Some \<lparr>br_token = token_7_2, br_slot = 0,
          br_previous = Some \<lparr>pf_token = token_7_1, pf_target = 3, pf_desired_active = True\<rparr>\<rparr>\<rparr>)"
  by (simp add: one_pending_eq begin_transaction_def slot_index_for_def holds_target_def
      word_le_nat_alt)

theorem resolve_exact_witness:
  "fst (resolve token_7_1 Accepted one_pending) \<and>
   pending_map (snd (resolve token_7_1 Accepted one_pending)) 3 = None \<and>
   \<not> fst (resolve token_7_2 Accepted one_pending)"
  using resolve_exact [OF one_pending_inv, of token_7_1 Accepted]
  by (simp add: one_pending_eq resolve_def holds_token_def pending_map_def holds_target_def)

theorem rollback_undoes_begin_witness:
  "rollback_begin token_7_2 (snd (begin_transaction token_7_2 3 False one_pending)) =
     (Inr True, one_pending\<lparr>fb_high_water := 2\<rparr>)"
  using rollback_undoes_begin [OF one_pending_inv one_pending_begin] one_pending_begin by simp

theorem reads_reflect_pending_witness:
  "pending_membership_predictions one_pending = [(3, True)] \<and> desired 3 one_pending = Some True"
  using reads_reflect_pending [OF one_pending_inv, of 3]
  by (simp add: one_pending_eq pending_membership_predictions_def flatten_slots_def desired_def)

theorem tokens_never_reused_witness:
  "\<exists>e. fst (apply_event (Begin token_7_1 5 True)
         (run (\<lambda>e f. snd (apply_event e f)) [RollbackBegin token_7_2]
            (snd (apply_event (Begin token_7_2 3 False) one_pending)))) = Inl e"
proof (rule tokens_never_reused)
  show "apply_event (Begin token_7_2 3 False) one_pending =
          (Inr True, snd (apply_event (Begin token_7_2 3 False) one_pending))"
    by (simp add: one_pending_begin)
qed simp

theorem rollback_restores_resolved_intent_witness:
  "\<exists>p. pending_map (snd (rollback_begin token_7_2
          (snd (resolve token_7_1 Accepted
             (snd (begin_transaction token_7_2 3 False one_pending)))))) 3 = Some p"
proof -
  have p: "pending_map one_pending 3 =
      Some \<lparr>pf_token = token_7_1, pf_target = 3, pf_desired_active = True\<rparr>"
    by (simp add: one_pending_eq pending_map_def holds_target_def)
  from rollback_restores_resolved_intent [OF one_pending_inv p one_pending_begin, of Accepted]
  show ?thesis by (simp add: one_pending_begin)
qed

end
