(* ===== verification/Session_Gate.thy ===== *)
theory Session_Gate
  imports Prelude
begin

text \<open>
  \<open>RoomSessionProjectionGate\<close> of \<open>src/src/room/session.rs\<close>: the window's continuity gate
  in front of the worker's speculative projections.

  The gate sees two inputs: the canonical music revision with its root (\<open>canonical\<close>) and the
  session projections (\<open>accept\<close>). The view a projection carries is not read by the gate and
  is the type variable \<open>'v\<close>. A 32-byte digest is a byte list, of which the code uses equality
  only. Error strings are constructors with the numbers the source formats into them.

  The lemmas show that the visible horizon is never behind the canonical revision, that an
  accepted incremental projection is the exact successor of the last one, that an error closes
  the gate until a reset, and that no projection is accepted twice.
\<close>

section \<open>Data\<close>

datatype projection_kind = Reset | Predicted | Confirmed | Corrected | Advanced

record 'v session_projection =
  pj_manifest :: bytes
  pj_session_id :: u64
  pj_epoch :: u32
  pj_generation :: u64
  pj_sequence :: u64
  pj_durable_revision :: u64
  pj_durable_root :: bytes
  pj_kind :: projection_kind
  pj_view :: 'v

record projection_cursor =
  cu_manifest :: bytes
  cu_session_id :: u64
  cu_epoch :: u32
  cu_generation :: u64
  cu_sequence :: u64

record projection_gate =
  canonical_initialized :: bool
  canonical_revision :: u64
  canonical_root :: bytes
  gate_cursor :: "projection_cursor option"
  visible_session_horizon :: "(u64 \<times> bytes) option"
  awaiting_reset :: bool

datatype gate_error =
    CanonicalRootConflicts u64
  | CanonicalContradictsSession u64
  | DurableRootDiffers u64
  | FirstNotReset
  | SupersededWithoutReset
  | GenerationWithoutReset
  | SequenceExhausted
  | SequenceGap u64 u64

section \<open>Operations\<close>

definition gate_default :: projection_gate where
  "gate_default =
     \<lparr>canonical_initialized = False, canonical_revision = 0, canonical_root = replicate 32 0,
      gate_cursor = None, visible_session_horizon = None, awaiting_reset = False\<rparr>"

definition canonical ::
  "u64 \<Rightarrow> bytes \<Rightarrow> projection_gate \<Rightarrow> (gate_error + bool) \<times> projection_gate" where
  "canonical revision root g =
     (if canonical_initialized g \<and> revision < canonical_revision g then (Inr False, g)
      else if canonical_initialized g \<and> revision = canonical_revision g \<and> root \<noteq> canonical_root g
      then (Inl (CanonicalRootConflicts revision), g\<lparr>awaiting_reset := True\<rparr>)
      else
        let g' = g\<lparr>canonical_initialized := True, canonical_revision := revision,
                   canonical_root := root\<rparr>
        in (case visible_session_horizon g' of
              Some (session_revision, session_root) \<Rightarrow>
                if session_revision = revision then
                  (if session_root \<noteq> root
                   then (Inl (CanonicalContradictsSession revision), g'\<lparr>awaiting_reset := True\<rparr>)
                   else (Inr False, g'))
                else if session_revision > revision then (Inr False, g')
                else (Inr True, g'\<lparr>visible_session_horizon := None\<rparr>)
            | None \<Rightarrow> (Inr True, g'\<lparr>visible_session_horizon := None\<rparr>)))"

definition cursor_of :: "'v session_projection \<Rightarrow> projection_cursor" where
  "cursor_of p =
     \<lparr>cu_manifest = pj_manifest p, cu_session_id = pj_session_id p, cu_epoch = pj_epoch p,
      cu_generation = pj_generation p, cu_sequence = pj_sequence p\<rparr>"

text \<open>The cursor comparison of \<open>accept\<close>: \<open>Inl None\<close> is the early \<open>Ok(false)\<close>,
  \<open>Inl (Some e)\<close> an error that first sets \<open>awaiting_reset\<close>, \<open>Inr c\<close> the new cursor.\<close>

definition advance_cursor ::
  "projection_cursor option \<Rightarrow> 'v session_projection \<Rightarrow> gate_error option + projection_cursor" where
  "advance_cursor cursor p =
     (case cursor of
        None \<Rightarrow> if pj_kind p \<noteq> Reset then Inl (Some FirstNotReset) else Inr (cursor_of p)
      | Some c \<Rightarrow>
          if cu_manifest c \<noteq> pj_manifest p \<or> cu_session_id c \<noteq> pj_session_id p then
            (if pj_epoch p \<le> cu_epoch c then Inl None
             else if pj_kind p \<noteq> Reset then Inl (Some SupersededWithoutReset)
             else Inr (cursor_of p))
          else if cu_generation c \<noteq> pj_generation p then
            (if pj_kind p \<noteq> Reset \<or> pj_generation p \<le> cu_generation c
             then Inl (Some GenerationWithoutReset)
             else Inr (c\<lparr>cu_generation := pj_generation p, cu_sequence := pj_sequence p\<rparr>))
          else
            (case checked_succ (cu_sequence c) of
               None \<Rightarrow> Inl (Some SequenceExhausted)
             | Some expected \<Rightarrow>
                 if pj_sequence p \<noteq> expected then Inl (Some (SequenceGap expected (pj_sequence p)))
                 else Inr (c\<lparr>cu_sequence := pj_sequence p\<rparr>)))"

definition accept ::
  "'v session_projection \<Rightarrow> projection_gate \<Rightarrow> (gate_error + bool) \<times> projection_gate" where
  "accept p g =
     (if awaiting_reset g \<and> pj_kind p \<noteq> Reset then (Inr False, g)
      else if pj_durable_revision p < canonical_revision g then (Inr False, g)
      else if pj_durable_revision p = canonical_revision g \<and> pj_durable_root p \<noteq> canonical_root g
      then (Inl (DurableRootDiffers (pj_durable_revision p)), g\<lparr>awaiting_reset := True\<rparr>)
      else
        (case advance_cursor (gate_cursor g) p of
           Inl None \<Rightarrow> (Inr False, g)
         | Inl (Some e) \<Rightarrow> (Inl e, g\<lparr>awaiting_reset := True\<rparr>)
         | Inr c \<Rightarrow>
             (Inr True,
              g\<lparr>gate_cursor := Some c,
                awaiting_reset := (if pj_kind p = Reset then False else awaiting_reset g),
                visible_session_horizon :=
                  Some (pj_durable_revision p, pj_durable_root p)\<rparr>)))"

text \<open>The two inputs as one kind of step.\<close>

datatype 'v gate_input = Canonical u64 bytes | Project "'v session_projection"

fun gate_step :: "'v gate_input \<Rightarrow> projection_gate \<Rightarrow> projection_gate" where
  "gate_step (Canonical revision root) g = snd (canonical revision root g)"
| "gate_step (Project p) g = snd (accept p g)"

section \<open>The horizon invariant\<close>

text \<open>
  What is visible is never behind the canonical revision; at the canonical revision it has the
  canonical root, unless the gate waits for a reset; and nothing is visible before a cursor
  exists.
\<close>

definition gate_inv :: "projection_gate \<Rightarrow> bool" where
  "gate_inv g \<longleftrightarrow>
     (case visible_session_horizon g of
        None \<Rightarrow> True
      | Some (revision, root) \<Rightarrow>
          gate_cursor g \<noteq> None \<and> canonical_revision g \<le> revision \<and>
          (revision = canonical_revision g \<longrightarrow> root = canonical_root g \<or> awaiting_reset g))"

lemma canonical_inv: "gate_inv g \<Longrightarrow> gate_inv (snd (canonical revision root g))"
  by (auto simp: gate_inv_def canonical_def Let_def split: option.splits)

lemma accept_inv: "gate_inv g \<Longrightarrow> gate_inv (snd (accept p g))"
  by (auto simp: gate_inv_def accept_def split: option.splits sum.splits)

lemma gate_step_inv: "gate_inv g \<Longrightarrow> gate_inv (gate_step i g)"
  by (cases i) (simp_all add: canonical_inv accept_inv)

lemma gate_default_inv: "gate_inv gate_default"
  by (simp add: gate_inv_def gate_default_def)

interpretation gate: machine gate_default "gate_step :: 'v gate_input \<Rightarrow> _" gate_inv
  by unfold_locales (simp_all add: gate_default_inv gate_step_inv)

section \<open>Continuity and replay\<close>

lemma advance_cursor_incremental:
  assumes "advance_cursor cursor p = Inr c'" and "pj_kind p \<noteq> Reset"
  obtains c where "cursor = Some c" and "cu_manifest c = pj_manifest p"
    and "cu_session_id c = pj_session_id p" and "cu_generation c = pj_generation p"
    and "unat (pj_sequence p) = Suc (unat (cu_sequence c))"
  using assms
  by (auto simp: advance_cursor_def checked_succ_Some split: option.splits if_splits)

lemma accept_True_iff:
  "fst (accept p g) = Inr True \<longleftrightarrow>
     (awaiting_reset g \<longrightarrow> pj_kind p = Reset) \<and>
     canonical_revision g \<le> pj_durable_revision p \<and>
     (pj_durable_revision p = canonical_revision g \<longrightarrow> pj_durable_root p = canonical_root g) \<and>
     (\<exists>c. advance_cursor (gate_cursor g) p = Inr c)"
  by (auto simp: accept_def not_less split: sum.splits option.splits)

lemma accept_True_cursor:
  assumes "accept p g = (Inr True, g')"
  shows "\<exists>c. advance_cursor (gate_cursor g) p = Inr c \<and> gate_cursor g' = Some c"
  using assms by (auto simp: accept_def split: if_splits sum.splits option.splits)

lemma gate_cursor_other:
  assumes "fst (accept p g) \<noteq> Inr True"
  shows "gate_cursor (snd (accept p g)) = gate_cursor g"
  using assms by (auto simp: accept_def split: sum.splits option.splits)

lemma gate_cursor_canonical: "gate_cursor (snd (canonical revision root g)) = gate_cursor g"
  by (simp add: canonical_def Let_def split: option.splits)

text \<open>
  \<open>E\<close> gives each (manifest, session) its epoch. \<open>passed E p c\<close>: the cursor \<open>c\<close> is at or past
  projection \<open>p\<close>, in its session or in one of a later epoch.
\<close>

definition has_epoch :: "(bytes \<times> u64 \<Rightarrow> u32) \<Rightarrow> 'v session_projection \<Rightarrow> bool" where
  "has_epoch E p \<longleftrightarrow> pj_epoch p = E (pj_manifest p, pj_session_id p)"

definition input_has_epoch :: "(bytes \<times> u64 \<Rightarrow> u32) \<Rightarrow> 'v gate_input \<Rightarrow> bool" where
  "input_has_epoch E i \<longleftrightarrow> (case i of Canonical _ _ \<Rightarrow> True | Project p \<Rightarrow> has_epoch E p)"

definition cursor_has_epoch :: "(bytes \<times> u64 \<Rightarrow> u32) \<Rightarrow> projection_gate \<Rightarrow> bool" where
  "cursor_has_epoch E g \<longleftrightarrow>
     (case gate_cursor g of
        None \<Rightarrow> True | Some c \<Rightarrow> cu_epoch c = E (cu_manifest c, cu_session_id c))"

lemma cursor_has_epochD:
  "cursor_has_epoch E g \<Longrightarrow> gate_cursor g = Some c \<Longrightarrow> cu_epoch c = E (cu_manifest c, cu_session_id c)"
  by (simp add: cursor_has_epoch_def)

definition passed :: "'v session_projection \<Rightarrow> projection_cursor \<Rightarrow> bool" where
  "passed p c \<longleftrightarrow>
     pj_epoch p \<le> cu_epoch c \<and>
     (cu_manifest c = pj_manifest p \<and> cu_session_id c = pj_session_id p \<longrightarrow>
        pj_generation p < cu_generation c \<or>
        pj_generation p = cu_generation c \<and> pj_sequence p \<le> cu_sequence c)"

lemma passed_refuses: "passed p c \<Longrightarrow> advance_cursor (Some c) p \<noteq> Inr c'"
  by (auto simp: passed_def advance_cursor_def dest: checked_succ_less
           split: if_splits option.splits)

lemma advance_cursor_epoch:
  assumes "advance_cursor cursor q = Inr c'" and "has_epoch E q"
    and "\<And>c. cursor = Some c \<Longrightarrow> cu_epoch c = E (cu_manifest c, cu_session_id c)"
  shows "cu_epoch c' = E (cu_manifest c', cu_session_id c')"
  using assms
  by (auto simp: advance_cursor_def has_epoch_def cursor_of_def split: if_splits option.splits)

lemma advance_cursor_passes_self:
  assumes "advance_cursor cursor q = Inr c'" and "has_epoch E q"
    and "\<And>c. cursor = Some c \<Longrightarrow> cu_epoch c = E (cu_manifest c, cu_session_id c)"
  shows "passed q c'"
  using assms
  by (auto simp: advance_cursor_def passed_def has_epoch_def cursor_of_def
           split: if_splits option.splits)

lemma passed_advance:
  assumes "passed p c" and "advance_cursor (Some c) q = Inr c'"
    and "has_epoch E p" and "has_epoch E q" and "cu_epoch c = E (cu_manifest c, cu_session_id c)"
  shows "passed p c'"
  using assms
  by (auto simp: advance_cursor_def passed_def has_epoch_def cursor_of_def
        dest: checked_succ_less split: if_splits option.splits)

lemma gate_step_epoch:
  assumes "cursor_has_epoch E g" and "input_has_epoch E i"
  shows "cursor_has_epoch E (gate_step i g)"
proof (cases i)
  case (Canonical revision root)
  with assms(1) show ?thesis by (simp add: cursor_has_epoch_def gate_cursor_canonical)
next
  case (Project p)
  show ?thesis
  proof (cases "fst (accept p g) = Inr True")
    case True
    then have "accept p g = (Inr True, snd (accept p g))" by (metis prod.collapse)
    from accept_True_cursor [OF this] obtain c where
      c: "advance_cursor (gate_cursor g) p = Inr c" "gate_cursor (snd (accept p g)) = Some c"
      by blast
    have "cu_epoch c = E (cu_manifest c, cu_session_id c)"
      using assms Project
      by (intro advance_cursor_epoch [OF c(1)])
         (auto simp: input_has_epoch_def dest: cursor_has_epochD)
    with c(2) Project show ?thesis by (simp add: cursor_has_epoch_def)
  next
    case False
    with assms(1) Project gate_cursor_other [OF False] show ?thesis
      by (simp add: cursor_has_epoch_def)
  qed
qed

lemma gate_run_epoch:
  "cursor_has_epoch E g \<Longrightarrow> \<forall>i \<in> set is. input_has_epoch E i \<Longrightarrow>
   cursor_has_epoch E (run gate_step is g)"
  by (induction "is" arbitrary: g) (simp_all add: gate_step_epoch)

definition gate_passed :: "'v session_projection \<Rightarrow> projection_gate \<Rightarrow> bool" where
  "gate_passed p g \<longleftrightarrow> (\<exists>c. gate_cursor g = Some c \<and> passed p c)"

lemma gate_passed_step:
  assumes "gate_passed p g" and "cursor_has_epoch E g" and "has_epoch E p" and "input_has_epoch E i"
  shows "gate_passed p (gate_step i g)"
proof (cases i)
  case (Canonical revision root)
  with assms(1) show ?thesis by (simp add: gate_passed_def gate_cursor_canonical)
next
  case (Project q)
  from assms(1) obtain c where c: "gate_cursor g = Some c" "passed p c"
    by (auto simp: gate_passed_def)
  show ?thesis
  proof (cases "fst (accept q g) = Inr True")
    case True
    then have "accept q g = (Inr True, snd (accept q g))" by (metis prod.collapse)
    from accept_True_cursor [OF this] c obtain c' where
      c': "advance_cursor (Some c) q = Inr c'" "gate_cursor (snd (accept q g)) = Some c'"
      by auto
    have "passed p c'"
      using assms(2,4) c Project
      by (intro passed_advance [OF c(2) c'(1) assms(3)])
         (auto simp: input_has_epoch_def dest: cursor_has_epochD)
    with c'(2) Project show ?thesis by (simp add: gate_passed_def)
  next
    case False
    with assms(1) Project gate_cursor_other [OF False] show ?thesis by (simp add: gate_passed_def)
  qed
qed

lemma gate_passed_run:
  "gate_passed p g \<Longrightarrow> cursor_has_epoch E g \<Longrightarrow> has_epoch E p \<Longrightarrow>
   \<forall>i \<in> set is. input_has_epoch E i \<Longrightarrow> gate_passed p (run gate_step is g)"
  by (induction "is" arbitrary: g) (simp_all add: gate_passed_step gate_step_epoch)

lemma gate_passed_refuses: "gate_passed p g \<Longrightarrow> fst (accept p g) \<noteq> Inr True"
  using passed_refuses by (fastforce simp: gate_passed_def accept_True_iff)

definition is_reset_input :: "'v gate_input \<Rightarrow> bool" where
  "is_reset_input i \<longleftrightarrow> (case i of Canonical _ _ \<Rightarrow> False | Project p \<Rightarrow> pj_kind p = Reset)"

lemma awaiting_step: "awaiting_reset g \<Longrightarrow> \<not> is_reset_input i \<Longrightarrow> awaiting_reset (gate_step i g)"
  by (cases i)
     (auto simp: is_reset_input_def canonical_def accept_def Let_def split: option.splits)

lemma awaiting_run:
  "awaiting_reset g \<Longrightarrow> \<forall>i \<in> set is. \<not> is_reset_input i \<Longrightarrow> awaiting_reset (run gate_step is g)"
  by (induction "is" arbitrary: g) (simp_all add: awaiting_step)

lemma accept_error_awaits: "fst (accept q g) = Inl e \<Longrightarrow> awaiting_reset (snd (accept q g))"
  by (auto simp: accept_def split: if_splits sum.splits option.splits)

section \<open>Properties of the gate\<close>

text \<open>C33: In every state the gate can reach, a visible session projection is never behind the
  canonical revision, and at the canonical revision its durable root is the canonical root
  unless the gate is waiting for a reset.\<close>

theorem gate_horizon_invariant:
  fixes inputs :: "'v gate_input list"
  shows "gate_inv (run gate_step inputs gate_default)"
  by (rule gate.invar_reached)


text \<open>An accepted projection that is not a reset continues the presented stream: it has
  the manifest, session and generation of the cursor and exactly the next sequence number (no
  wrap-around), the gate was not waiting for a reset, and its durable revision is not behind
  the canonical one.\<close>

theorem accepted_increment_is_successor:
  assumes "accept p g = (Inr True, g')" and "pj_kind p \<noteq> Reset"
  shows "\<exists>c. gate_cursor g = Some c
           \<and> cu_manifest c = pj_manifest p \<and> cu_session_id c = pj_session_id p
           \<and> cu_generation c = pj_generation p
           \<and> unat (pj_sequence p) = Suc (unat (cu_sequence c))
           \<and> \<not> awaiting_reset g
           \<and> canonical_revision g \<le> pj_durable_revision p"
proof -
  have ok: "fst (accept p g) = Inr True" using assms(1) by simp
  then obtain c' where c': "advance_cursor (gate_cursor g) p = Inr c'"
    by (auto simp: accept_True_iff)
  obtain c where "gate_cursor g = Some c" and "cu_manifest c = pj_manifest p"
    and "cu_session_id c = pj_session_id p" and "cu_generation c = pj_generation p"
    and "unat (pj_sequence p) = Suc (unat (cu_sequence c))"
    by (rule advance_cursor_incremental [OF c' assms(2)])
  with ok assms(2) show ?thesis by (auto simp: accept_True_iff)
qed

text \<open>The gate fails closed. After \<open>accept\<close> returned an error, every projection that is
  not a reset is refused without changing the gate, for as long as no reset is offered.\<close>

theorem gate_error_closes:
  assumes "fst (accept q g) = Inl e" and "\<forall>i \<in> set inputs. \<not> is_reset_input i"
    and "pj_kind p \<noteq> Reset"
  shows "accept p (run gate_step inputs (snd (accept q g))) =
         (Inr False, run gate_step inputs (snd (accept q g)))"
proof -
  have "awaiting_reset (run gate_step inputs (snd (accept q g)))"
    using accept_error_awaits [OF assms(1)] assms(2) by (rule awaiting_run)
  with assms(3) show ?thesis by (simp add: accept_def)
qed

section \<open>Witnesses of the gate\<close>

definition proj :: "u64 \<Rightarrow> projection_kind \<Rightarrow> unit session_projection" where
  "proj q k = \<lparr>pj_manifest = [1], pj_session_id = 9, pj_epoch = 1, pj_generation = 1,
     pj_sequence = q, pj_durable_revision = 4, pj_durable_root = [2], pj_kind = k, pj_view = ()\<rparr>"

lemmas gate_eval = proj_def gate_default_def accept_def canonical_def advance_cursor_def
  cursor_of_def checked_succ_def input_has_epoch_def has_epoch_def


theorem accepted_increment_is_successor_witness:
  "\<exists>c. gate_cursor (snd (accept (proj 3 Reset) gate_default)) = Some c \<and> cu_sequence c = 3"
proof -
  have "accept (proj 4 Predicted) (snd (accept (proj 3 Reset) gate_default)) =
      (Inr True, snd (accept (proj 4 Predicted) (snd (accept (proj 3 Reset) gate_default))))"
    by (simp add: gate_eval)
  from accepted_increment_is_successor [OF this] show ?thesis
    by (simp add: gate_eval)
qed

theorem gate_error_closes_witness:
  "accept (proj 4 Predicted)
     (run gate_step [Canonical 3 [7] :: unit gate_input]
        (snd (accept (proj 2 Predicted) gate_default))) =
     (Inr False, run gate_step [Canonical 3 [7] :: unit gate_input]
        (snd (accept (proj 2 Predicted) gate_default)))"
proof -
  have "fst (accept (proj 2 Predicted) gate_default) = Inl FirstNotReset"
    by (simp add: gate_eval)
  from gate_error_closes [OF this, of "[Canonical 3 [7] :: unit gate_input]" "proj 4 Predicted"]
  show ?thesis by (simp add: is_reset_input_def proj_def)
qed

end
