(* ===== verification/Session_Carrier.thy ===== *)
theory Session_Carrier
  imports Prelude
begin

text \<open>
  The payload and carrier envelopes of \<open>src/src/room/session.rs\<close>: a versioned CBOR payload
  (\<open>encode\<close>, \<open>decode\<close>), and the carrier frames that put a domain prefix in front of it.

  CBOR (\<open>ciborium\<close>) is not part of the repository: its writer and reader are the parameters
  \<open>into_writer\<close> and \<open>from_reader\<close>, of which the theorems use that reading back what was
  written gives the written value (\<open>cbor_roundtrip\<close>). Both work on a \<open>Versioned\<close> value,
  a pair of version and body.
\<close>

section \<open>Versioned payloads\<close>

record 'a versioned =
  vs_version :: u16
  vs_body :: 'a

definition session_payload_version :: u16 where
  "session_payload_version = 1"

datatype carrier_error =
    EncodingFailed
  | DecodingFailed
  | UnsupportedVersion u16 u16
  | NotSessionCarrier

definition encode ::
  "('a versioned \<Rightarrow> bytes option) \<Rightarrow> 'a \<Rightarrow> carrier_error + bytes" where
  "encode into_writer body =
     (case into_writer \<lparr>vs_version = session_payload_version, vs_body = body\<rparr> of
        None \<Rightarrow> Inl EncodingFailed
      | Some bytes \<Rightarrow> Inr bytes)"

definition decode ::
  "(bytes \<Rightarrow> 'a versioned option) \<Rightarrow> bytes \<Rightarrow> carrier_error + 'a" where
  "decode from_reader bytes =
     (case from_reader bytes of
        None \<Rightarrow> Inl DecodingFailed
      | Some value \<Rightarrow>
          if vs_version value \<noteq> session_payload_version
          then Inl (UnsupportedVersion (vs_version value) session_payload_version)
          else Inr (vs_body value))"

section \<open>Carrier frames\<close>

text \<open>\<open>'actor\<close> is \<open>ActorId\<close>; grants, bases and handshakes are opaque byte strings here.\<close>

datatype 'actor carrier_body =
    Offer (offer_source: 'actor) (offer_target: 'actor) u64 u32 "bytes list" "bytes list" bytes bytes
  | Answer (answer_source: 'actor) (answer_target: 'actor) u64 "bytes list" bytes bytes
  | Event (event_source: 'actor) (event_target: 'actor) u64 bytes

definition session_carrier_domain :: bytes where
  "session_carrier_domain = ascii_bytes ''walkie hhhs pitch session carrier v1'' @ [0]"

definition carrier_encode ::
  "('actor carrier_body versioned \<Rightarrow> bytes option) \<Rightarrow> 'actor carrier_body \<Rightarrow> carrier_error + bytes" where
  "carrier_encode into_writer body =
     (case encode into_writer body of
        Inl e \<Rightarrow> Inl e
      | Inr payload \<Rightarrow> Inr (session_carrier_domain @ payload))"

definition carrier_decode ::
  "(bytes \<Rightarrow> 'actor carrier_body versioned option) \<Rightarrow> bytes \<Rightarrow> carrier_error + 'actor carrier_body" where
  "carrier_decode from_reader bytes =
     (case strip_prefix session_carrier_domain bytes of
        None \<Rightarrow> Inl NotSessionCarrier
      | Some payload \<Rightarrow> decode from_reader payload)"

definition is_session_carrier :: "bytes \<Rightarrow> bool" where
  "is_session_carrier bytes \<longleftrightarrow> starts_with bytes session_carrier_domain"

definition session_event_target ::
  "(bytes \<Rightarrow> 'actor carrier_body versioned option) \<Rightarrow> bytes \<Rightarrow> 'actor option" where
  "session_event_target from_reader bytes =
     (case carrier_decode from_reader bytes of
        Inl _ \<Rightarrow> None
      | Inr body \<Rightarrow>
          (case body of
             Event source target session_id frame \<Rightarrow> Some target
           | Offer _ _ _ _ _ _ _ _ \<Rightarrow> None
           | Answer _ _ _ _ _ _ \<Rightarrow> None))"

definition session_offer_target ::
  "(bytes \<Rightarrow> 'actor carrier_body versioned option) \<Rightarrow> bytes \<Rightarrow> 'actor option" where
  "session_offer_target from_reader bytes =
     (case carrier_decode from_reader bytes of
        Inl _ \<Rightarrow> None
      | Inr body \<Rightarrow>
          (case body of
             Offer source target _ _ _ _ _ _ \<Rightarrow> Some target
           | Answer _ _ _ _ _ _ \<Rightarrow> None
           | Event _ _ _ _ \<Rightarrow> None))"

definition is_session_offer ::
  "(bytes \<Rightarrow> 'actor carrier_body versioned option) \<Rightarrow> bytes \<Rightarrow> bool" where
  "is_session_offer from_reader bytes \<longleftrightarrow> session_offer_target from_reader bytes \<noteq> None"

section \<open>Properties\<close>

definition cbor_roundtrip ::
  "('a \<Rightarrow> bytes option) \<Rightarrow> (bytes \<Rightarrow> 'a option) \<Rightarrow> bool" where
  "cbor_roundtrip into_writer from_reader \<longleftrightarrow>
     (\<forall>v bs. into_writer v = Some bs \<longrightarrow> from_reader bs = Some v)"

lemma carrier_decode_encode:
  assumes "cbor_roundtrip into_writer from_reader" and "carrier_encode into_writer body = Inr bytes"
  shows "carrier_decode from_reader bytes = Inr body"
  using assms
  by (auto simp: carrier_encode_def carrier_decode_def encode_def decode_def cbor_roundtrip_def
           split: option.splits)

text \<open>A session carrier frame decodes to the body it was made from, is recognised by its
  domain prefix, and names a realtime target exactly when the body is an event: offers and
  answers stay off the direct carrier.\<close>

theorem carrier_roundtrip:
  assumes "cbor_roundtrip into_writer from_reader" and "carrier_encode into_writer body = Inr bytes"
  shows "carrier_decode from_reader bytes = Inr body
       \<and> is_session_carrier bytes
       \<and> session_event_target from_reader bytes =
           (case body of Event source target sid frame \<Rightarrow> Some target | _ \<Rightarrow> None)
       \<and> (is_session_offer from_reader bytes \<longleftrightarrow> (\<exists>s t i e b g h f. body = Offer s t i e b g h f))"
proof -
  have dec: "carrier_decode from_reader bytes = Inr body"
    by (rule carrier_decode_encode [OF assms])
  moreover have "is_session_carrier bytes"
    using assms(2)
    by (auto simp: carrier_encode_def is_session_carrier_def split: sum.splits)
  ultimately show ?thesis
    by (cases body)
       (simp_all add: session_event_target_def is_session_offer_def session_offer_target_def)
qed

text \<open>A frame without the carrier domain, and a payload of another version, are refused
  with their own errors, whatever the CBOR reader makes of the bytes.\<close>

theorem carrier_decode_refuses:
  "(\<not> is_session_carrier bytes \<longrightarrow> carrier_decode from_reader bytes = Inl NotSessionCarrier)
   \<and> (from_reader payload = Some v \<and> vs_version v \<noteq> session_payload_version \<longrightarrow>
        carrier_decode from_reader (session_carrier_domain @ payload) =
          Inl (UnsupportedVersion (vs_version v) session_payload_version))"
proof -
  have "strip_prefix session_carrier_domain bytes = None" if "\<not> is_session_carrier bytes"
    using that
    by (cases "strip_prefix session_carrier_domain bytes")
       (auto simp: is_session_carrier_def strip_prefix_Some_iff)
  then show ?thesis by (auto simp: carrier_decode_def decode_def)
qed

section \<open>Witnesses\<close>

text \<open>A writer and a reader for the events of actors 0 and 1: one byte per field.\<close>

definition tiny_writer :: "u8 carrier_body versioned \<Rightarrow> bytes option" where
  "tiny_writer v = (case vs_body v of
      Event s t i f \<Rightarrow> if i = 0 then Some (ucast (vs_version v) # s # t # f) else None
    | _ \<Rightarrow> None)"

definition tiny_reader :: "bytes \<Rightarrow> u8 carrier_body versioned option" where
  "tiny_reader bs = (case bs of
      v # s # t # f \<Rightarrow> Some \<lparr>vs_version = ucast v, vs_body = Event s t 0 f\<rparr>
    | _ \<Rightarrow> None)"

definition tiny_writer_v1 :: "u8 carrier_body versioned \<Rightarrow> bytes option" where
  "tiny_writer_v1 v = (if vs_version v = 1 then tiny_writer v else None)"

lemma tiny_roundtrip: "cbor_roundtrip tiny_writer_v1 tiny_reader"
  by (auto simp: cbor_roundtrip_def tiny_writer_v1_def tiny_writer_def tiny_reader_def
           split: carrier_body.splits if_splits)

theorem carrier_roundtrip_witness:
  "carrier_decode tiny_reader (session_carrier_domain @ [1, 0, 1, 42]) = Inr (Event 0 1 0 [42])"
proof -
  have "carrier_encode tiny_writer_v1 (Event 0 1 0 [42]) =
      Inr (session_carrier_domain @ [1, 0, 1, 42])"
    by (simp add: carrier_encode_def encode_def tiny_writer_v1_def tiny_writer_def
        session_payload_version_def)
  from carrier_roundtrip [OF tiny_roundtrip this] show ?thesis by simp
qed

theorem carrier_decode_refuses_witness:
  "carrier_decode tiny_reader [5] = Inl NotSessionCarrier \<and>
   carrier_decode tiny_reader (session_carrier_domain @ [9, 0, 1]) = Inl (UnsupportedVersion 9 1)"
  using carrier_decode_refuses [of "[5]" tiny_reader "[9, 0, 1]"
      "\<lparr>vs_version = 9, vs_body = Event 0 1 0 []\<rparr>"]
  by (simp add: is_session_carrier_def starts_with_def session_carrier_domain_def ascii_bytes_def
      tiny_reader_def session_payload_version_def)

end
