(* ===== verification/Events.thy ===== *)
theory Events
  imports Prelude
begin

text \<open>
  \<open>src/src/room/events.rs\<close>: the room events and their classification, and the abstract
  reading of an event stream. A \<open>room_view\<close> is what a subscriber that only sees events knows:
  the toggled pitch classes, the pitch of each piece, every peer's voice, and the lock. \<open>replay\<close>
  says how one event changes that knowledge; it is the contract the projection refines.

  \<open>PitchClass\<close> is the newtype over \<open>u16\<close> the sources construct.
\<close>

datatype pitch_class = PitchClass (pc_number: u16)

instantiation pitch_class :: linorder
begin

definition less_eq_pitch_class :: "pitch_class \<Rightarrow> pitch_class \<Rightarrow> bool" where
  "less_eq_pitch_class a b \<longleftrightarrow> pc_number a \<le> pc_number b"

definition less_pitch_class :: "pitch_class \<Rightarrow> pitch_class \<Rightarrow> bool" where
  "less_pitch_class a b \<longleftrightarrow> pc_number a < pc_number b"

instance
  by standard
     (auto simp: less_eq_pitch_class_def less_pitch_class_def pitch_class.expand)

end

type_synonym voice = "i32 option \<times> pitch_class option"

datatype room_event =
    PitchAdded pitch_class
  | PitchRemoved pitch_class
  | PitchesCleared
  | VoiceChanged string "i32 option" "pitch_class option"
  | VoiceCleared string "i32 option"
  | PieceAdded string i32 string
  | PieceMoved string i32 i32
  | PieceRemoved string i32
  | PiecesCleared
  | PiecesLockChanged bool
  | TuningChanged string
  | EmojisChanged "string list"
  | PeerJoined string
  | PeerLeft string
  | FullStateSync "pitch_class list" "(string \<times> i32 \<times> string) list" "(string \<times> voice) list" bool

fun affects_pitches :: "room_event \<Rightarrow> bool" where
  "affects_pitches (PitchAdded _) = True"
| "affects_pitches (PitchRemoved _) = True"
| "affects_pitches PitchesCleared = True"
| "affects_pitches (PieceAdded _ _ _) = True"
| "affects_pitches (PieceMoved _ _ _) = True"
| "affects_pitches (PieceRemoved _ _) = True"
| "affects_pitches PiecesCleared = True"
| "affects_pitches (FullStateSync _ _ _ _) = True"
| "affects_pitches _ = False"

fun affects_voice :: "room_event \<Rightarrow> bool" where
  "affects_voice (VoiceChanged _ _ _) = True"
| "affects_voice (VoiceCleared _ _) = True"
| "affects_voice (FullStateSync _ _ _ _) = True"
| "affects_voice _ = False"

fun affects_pieces :: "room_event \<Rightarrow> bool" where
  "affects_pieces (PieceAdded _ _ _) = True"
| "affects_pieces (PieceMoved _ _ _) = True"
| "affects_pieces (PieceRemoved _ _) = True"
| "affects_pieces PiecesCleared = True"
| "affects_pieces (PiecesLockChanged _) = True"
| "affects_pieces (FullStateSync _ _ _ _) = True"
| "affects_pieces _ = False"

fun is_config_change :: "room_event \<Rightarrow> bool" where
  "is_config_change (PiecesLockChanged _) = True"
| "is_config_change (TuningChanged _) = True"
| "is_config_change (EmojisChanged _) = True"
| "is_config_change _ = False"

fun is_full_sync :: "room_event \<Rightarrow> bool" where
  "is_full_sync (FullStateSync _ _ _ _) = True"
| "is_full_sync _ = False"

section \<open>What a subscriber knows\<close>

record room_view =
  rv_pitches :: "pitch_class set"
  rv_pieces :: "string \<rightharpoonup> i32"
  rv_voice :: "string \<Rightarrow> voice"
  rv_locked :: bool

definition empty_view :: room_view where
  "empty_view = \<lparr>rv_pitches = {}, rv_pieces = Map.empty, rv_voice = (\<lambda>_. (None, None)),
     rv_locked = False\<rparr>"

definition voice_list :: "(string \<times> voice) list \<Rightarrow> string \<Rightarrow> voice" where
  "voice_list vs a = (case map_of vs a of None \<Rightarrow> (None, None) | Some v \<Rightarrow> v)"

fun replay :: "room_event \<Rightarrow> room_view \<Rightarrow> room_view" where
  "replay (PitchAdded pc) v = v\<lparr>rv_pitches := insert pc (rv_pitches v)\<rparr>"
| "replay (PitchRemoved pc) v = v\<lparr>rv_pitches := rv_pitches v - {pc}\<rparr>"
| "replay PitchesCleared v = v\<lparr>rv_pitches := {}\<rparr>"
| "replay (VoiceChanged a p c) v = v\<lparr>rv_voice := (rv_voice v)(a := (p, c))\<rparr>"
| "replay (VoiceCleared a p) v = v\<lparr>rv_voice := (rv_voice v)(a := (None, None))\<rparr>"
| "replay (PieceAdded i p e) v = v\<lparr>rv_pieces := (rv_pieces v)(i \<mapsto> p)\<rparr>"
| "replay (PieceMoved i p q) v = v\<lparr>rv_pieces := (rv_pieces v)(i \<mapsto> q)\<rparr>"
| "replay (PieceRemoved i p) v = v\<lparr>rv_pieces := (rv_pieces v)(i := None)\<rparr>"
| "replay PiecesCleared v = v\<lparr>rv_pieces := Map.empty\<rparr>"
| "replay (PiecesLockChanged b) v = v\<lparr>rv_locked := b\<rparr>"
| "replay (FullStateSync ps is vs b) v =
     \<lparr>rv_pitches = set ps, rv_pieces = map_of (map (\<lambda>(i, p, e). (i, p)) is),
      rv_voice = voice_list vs, rv_locked = b\<rparr>"
| "replay _ v = v"

text \<open>An event outside a class leaves that part of the view alone: the classification the
  signals filter by is complete.\<close>

lemma replay_unaffected:
  "\<not> affects_pitches e \<Longrightarrow> rv_pitches (replay e v) = rv_pitches v"
  "\<not> affects_pitches e \<Longrightarrow> rv_pieces (replay e v) = rv_pieces v"
  "\<not> affects_voice e \<Longrightarrow> rv_voice (replay e v) = rv_voice v"
  "\<not> affects_pieces e \<Longrightarrow> rv_pieces (replay e v) = rv_pieces v"
  "\<not> affects_pieces e \<Longrightarrow> rv_locked (replay e v) = rv_locked v"
  by (cases e; simp)+

text \<open>Replaying a list of events of one kind.\<close>

lemma replay_pitch_added:
  "fold replay (map PitchAdded ps) v = v\<lparr>rv_pitches := set ps \<union> rv_pitches v\<rparr>"
  by (induction ps arbitrary: v) simp_all

lemma replay_pitch_removed:
  "fold replay (map PitchRemoved ps) v = v\<lparr>rv_pitches := rv_pitches v - set ps\<rparr>"
  by (induction ps arbitrary: v) (simp_all add: Diff_insert2 [symmetric])

end
