(* ===== verification/Projection.thy ===== *)
theory Projection
  imports Events "HOL-Library.Multiset" "HOL-Library.List_Lexorder" "HOL-Library.Char_ord"
begin

text \<open>
  \<open>src/src/room/projection.rs\<close>: the render and MIDI cache \<open>RoomProjection\<close>.

  The record \<open>room_projection\<close> has the fields of the struct; the broadcast and watch channels
  are third-party, so what is modelled of them is the calls made: \<open>emitted\<close> is the sequence of
  events handed to \<open>try_broadcast\<close>, \<open>notified\<close> counts the \<open>notify\<close> calls. The event channel itself keeps 256
  events and overflows; what it does with these calls, and with a reader that falls behind, is in \<open>Streams\<close>. A \<open>String\<close> is its
  UTF-8 bytes (\<open>string\<close>).

  A \<open>HashSet\<close> is a set and a \<open>HashMap\<close> a map; their iteration order is not specified, so an
  operation that iterates takes a \<open>hash_order\<close>, an enumeration of a set, and the properties hold
  for every order that lists each element once (\<open>order_ok\<close>). Further parameters are
  \<open>graphemes\<close> (crate \<open>unicode_segmentation\<close>), the fresh identifier of \<open>add_piece\<close> (crate
  \<open>uuid\<close>) and \<open>index\<close>, the method \<open>PitchClass::index\<close> of crate \<open>tutti_music\<close>.

  The main result is that the emitted events are a faithful log: replaying them yields the
  current toggles, piece pitches, voices and lock.
\<close>

section \<open>Data\<close>

record piece =
  piece_id :: string
  piece_pitch :: i32
  piece_emoji :: string

text \<open>\<open>None\<close> is the panic of \<open>rem_euclid(0)\<close>.\<close>

definition piece_pitch_class :: "piece \<Rightarrow> u8 \<Rightarrow> u8 option" where
  "piece_pitch_class p notes_per_octave =
     (if notes_per_octave = 0 then None
      else Some (word_of_int (rem_euclid (piece_pitch p - 60) (uint notes_per_octave))))"

definition octave :: "piece \<Rightarrow> i32" where
  "octave p = div_euclid (piece_pitch p - 60) 12 + 4"

record projection_snapshot =
  ss_pitches :: "pitch_class set"
  ss_pieces :: "string \<rightharpoonup> i32 \<times> string"
  ss_voices :: "string \<rightharpoonup> voice"
  ss_pieces_locked :: bool

record room_projection =
  local_actor :: string
  shared_pitches :: "pitch_class set"
  pieces :: "string \<rightharpoonup> piece"
  voices :: "string \<rightharpoonup> voice"
  tuning_scl :: string
  pieces_locked :: bool
  available_emojis :: "string list"
  emitted :: "room_event list"
  notified :: nat

record hash_order =
  iter_pitches :: "pitch_class set \<Rightarrow> pitch_class list"
  iter_ids :: "string set \<Rightarrow> string list"

definition order_ok :: "hash_order \<Rightarrow> bool" where
  "order_ok ho \<longleftrightarrow>
     (\<forall>A. finite A \<longrightarrow> set (iter_pitches ho A) = A \<and> distinct (iter_pitches ho A)) \<and>
     (\<forall>A. finite A \<longrightarrow> set (iter_ids ho A) = A \<and> distinct (iter_ids ho A))"

definition default_emojis :: "string list" where
  "default_emojis = map (map char_of)
     [[0xf0, 0x9f, 0xaa, 0xa8 :: nat], [0xf0, 0x9f, 0xa5, 0x9c], [0xf0, 0x9f, 0x90, 0x9a],
      [0xf0, 0x9f, 0x8c, 0xb1], [0xf0, 0x9f, 0xab, 0x9f], [0xf0, 0x9f, 0x8c, 0x80],
      [0xe2, 0x9c, 0xb3, 0xef, 0xb8, 0x8f], [0xf0, 0x9f, 0xab, 0xaf], [0xf0, 0x9f, 0xa7, 0xb6],
      [0xf0, 0x9f, 0x90, 0x9f], [0xf0, 0x9f, 0xa6, 0xa0], [0xf0, 0x9f, 0xa5, 0x91]]"

section \<open>Operations\<close>

definition projection_new :: "string \<Rightarrow> room_projection" where
  "projection_new actor =
     \<lparr>local_actor = actor, shared_pitches = {}, pieces = Map.empty, voices = Map.empty,
      tuning_scl = [], pieces_locked = False, available_emojis = default_emojis,
      emitted = [], notified = 0\<rparr>"

text \<open>One call of \<open>try_broadcast\<close>, whose result \<open>emit\<close> ignores.\<close>

definition emit :: "room_event \<Rightarrow> room_projection \<Rightarrow> room_projection" where
  "emit e r = r\<lparr>emitted := emitted r @ [e]\<rparr>"

definition notify :: "room_projection \<Rightarrow> room_projection" where
  "notify r = r\<lparr>notified := Suc (notified r)\<rparr>"

definition snapshot :: "room_projection \<Rightarrow> projection_snapshot" where
  "snapshot r =
     \<lparr>ss_pitches = shared_pitches r,
      ss_pieces = (\<lambda>i. map_option (\<lambda>p. (piece_pitch p, piece_emoji p)) (pieces r i)),
      ss_voices = voices r,
      ss_pieces_locked = pieces_locked r\<rparr>"

text \<open>The loops of \<open>emit_diffs\<close>, one per definition.\<close>

definition changed_piece :: "projection_snapshot \<Rightarrow> projection_snapshot \<Rightarrow> string \<Rightarrow> room_event list" where
  "changed_piece before after i =
     (case ss_pieces after i of
        None \<Rightarrow> []
      | Some (pitch, emoji) \<Rightarrow>
          (case ss_pieces before i of
             Some (old_pitch, _) \<Rightarrow>
               if old_pitch \<noteq> pitch then [PieceMoved i old_pitch pitch] else []
           | None \<Rightarrow> [PieceAdded i pitch emoji]))"

definition removed_piece :: "projection_snapshot \<Rightarrow> projection_snapshot \<Rightarrow> string \<Rightarrow> room_event list" where
  "removed_piece before after i =
     (case ss_pieces before i of
        None \<Rightarrow> []
      | Some (pitch, _) \<Rightarrow> if ss_pieces after i = None then [PieceRemoved i pitch] else [])"

definition changed_voice :: "projection_snapshot \<Rightarrow> projection_snapshot \<Rightarrow> string \<Rightarrow> room_event list" where
  "changed_voice before after a =
     (case ss_voices after a of
        None \<Rightarrow> []
      | Some (pitch, pitch_class) \<Rightarrow>
          if ss_voices before a \<noteq> Some (pitch, pitch_class) then
            (if pitch = None \<and> pitch_class = None
             then [VoiceCleared a (Option.bind (ss_voices before a) fst)]
             else [VoiceChanged a pitch pitch_class])
          else [])"

definition removed_voice :: "projection_snapshot \<Rightarrow> projection_snapshot \<Rightarrow> string \<Rightarrow> room_event list" where
  "removed_voice before after a =
     (case ss_voices before a of
        None \<Rightarrow> []
      | Some (pitch, _) \<Rightarrow> if ss_voices after a = None then [VoiceCleared a pitch] else [])"

definition diff_events ::
  "hash_order \<Rightarrow> hash_order \<Rightarrow> projection_snapshot \<Rightarrow> projection_snapshot \<Rightarrow> room_event list" where
  "diff_events ob oa before after =
     map PitchAdded (filter (\<lambda>pc. pc \<notin> ss_pitches before) (iter_pitches oa (ss_pitches after))) @
     map PitchRemoved (filter (\<lambda>pc. pc \<notin> ss_pitches after) (iter_pitches ob (ss_pitches before))) @
     concat (map (changed_piece before after) (iter_ids oa (dom (ss_pieces after)))) @
     concat (map (removed_piece before after) (iter_ids ob (dom (ss_pieces before)))) @
     concat (map (changed_voice before after) (iter_ids oa (dom (ss_voices after)))) @
     concat (map (removed_voice before after) (iter_ids ob (dom (ss_voices before)))) @
     (if ss_pieces_locked before \<noteq> ss_pieces_locked after
      then [PiecesLockChanged (ss_pieces_locked after)] else [])"

text \<open>The returned flag \<open>before != &after\<close> is the first component.\<close>

definition emit_diffs ::
  "hash_order \<Rightarrow> hash_order \<Rightarrow> projection_snapshot \<Rightarrow> room_projection \<Rightarrow> bool \<times> room_projection" where
  "emit_diffs ob oa before r =
     (before \<noteq> snapshot r, fold emit (diff_events ob oa before (snapshot r)) r)"

definition replace_replica_projection ::
  "hash_order \<Rightarrow> hash_order \<Rightarrow> (string \<Rightarrow> string list) \<Rightarrow> pitch_class list \<Rightarrow> piece list \<Rightarrow>
   (string \<times> voice) list \<Rightarrow> bool \<Rightarrow> string option \<Rightarrow> room_projection \<Rightarrow> room_projection" where
  "replace_replica_projection ob oa graphemes new_pitches new_pieces new_voices locked emojis r =
     (let before = snapshot r;
          old_emojis = available_emojis r;
          r1 = r\<lparr>shared_pitches := set new_pitches,
                 pieces := fold (\<lambda>p m. m(piece_id p \<mapsto> p)) new_pieces Map.empty,
                 voices := fold (\<lambda>(a, v) m. m(a \<mapsto> v)) new_voices Map.empty,
                 pieces_locked := locked,
                 available_emojis :=
                   (case emojis of
                      None \<Rightarrow> default_emojis
                    | Some s \<Rightarrow> if s = [] then default_emojis else graphemes s)\<rparr>
      in case emit_diffs ob oa before r1 of (changed, r2) \<Rightarrow>
           let emojis_changed = (old_emojis \<noteq> available_emojis r2);
               r3 = (if emojis_changed then emit (EmojisChanged (available_emojis r2)) r2 else r2)
           in if changed \<or> emojis_changed then notify r3 else r3)"

definition all_pieces :: "hash_order \<Rightarrow> room_projection \<Rightarrow> piece list" where
  "all_pieces ho r = sort_key piece_id (map (\<lambda>i. the (pieces r i)) (iter_ids ho (dom (pieces r))))"

definition emit_full_state_sync :: "hash_order \<Rightarrow> room_projection \<Rightarrow> room_projection" where
  "emit_full_state_sync ho r =
     emit (FullStateSync
             (iter_pitches ho (shared_pitches r))
             (map (\<lambda>p. (piece_id p, piece_pitch p, piece_emoji p)) (all_pieces ho r))
             (map (\<lambda>a. (a, the (voices r a))) (iter_ids ho (dom (voices r))))
             (pieces_locked r)) r"

definition add_pitch :: "pitch_class \<Rightarrow> room_projection \<Rightarrow> room_projection" where
  "add_pitch pc r =
     (if pc \<notin> shared_pitches r
      then notify (emit (PitchAdded pc) (r\<lparr>shared_pitches := insert pc (shared_pitches r)\<rparr>))
      else r)"

definition remove_pitch :: "pitch_class \<Rightarrow> room_projection \<Rightarrow> room_projection" where
  "remove_pitch pc r =
     (if pc \<in> shared_pitches r
      then notify (emit (PitchRemoved pc) (r\<lparr>shared_pitches := shared_pitches r - {pc}\<rparr>))
      else r)"

definition set_single_pitch ::
  "hash_order \<Rightarrow> hash_order \<Rightarrow> pitch_class \<Rightarrow> room_projection \<Rightarrow> room_projection" where
  "set_single_pitch ob oa pc r =
     notify (snd (emit_diffs ob oa (snapshot r) (r\<lparr>shared_pitches := {pc}\<rparr>)))"

definition clear_pitches :: "room_projection \<Rightarrow> room_projection" where
  "clear_pitches r =
     (if shared_pitches r \<noteq> {}
      then notify (emit PitchesCleared (r\<lparr>shared_pitches := {}\<rparr>)) else r)"

definition contains_pitch :: "pitch_class \<Rightarrow> room_projection \<Rightarrow> bool" where
  "contains_pitch pc r \<longleftrightarrow> pc \<in> shared_pitches r"

definition set_tuning_scl :: "string \<Rightarrow> room_projection \<Rightarrow> room_projection" where
  "set_tuning_scl scl r =
     (if tuning_scl r \<noteq> scl
      then notify (emit (TuningChanged scl) (r\<lparr>tuning_scl := scl\<rparr>)) else r)"

definition get_peer_voice :: "string \<Rightarrow> room_projection \<Rightarrow> voice" where
  "get_peer_voice actor r = (case voices r actor of None \<Rightarrow> (None, None) | Some v \<Rightarrow> v)"

definition local_voice :: "room_projection \<Rightarrow> voice" where
  "local_voice r = get_peer_voice (local_actor r) r"

definition set_voice ::
  "i32 option \<Rightarrow> pitch_class option \<Rightarrow> room_projection \<Rightarrow> room_projection" where
  "set_voice pitch pc r =
     (let previous = get_peer_voice (local_actor r) r
      in if previous = (pitch, pc) then r
         else if pitch = None \<and> pc = None
         then notify (emit (VoiceCleared (local_actor r) (fst previous))
                (r\<lparr>voices := (voices r)(local_actor r := None)\<rparr>))
         else notify (emit (VoiceChanged (local_actor r) pitch pc)
                (r\<lparr>voices := (voices r)(local_actor r \<mapsto> (pitch, pc))\<rparr>)))"

definition set_voice_pitch :: "i32 option \<Rightarrow> room_projection \<Rightarrow> room_projection" where
  "set_voice_pitch pitch r =
     set_voice pitch (map_option (\<lambda>p. PitchClass (word_of_int (rem_euclid p 12))) pitch) r"

definition set_voice_pitchclass ::
  "(pitch_class \<Rightarrow> u16) \<Rightarrow> pitch_class option \<Rightarrow> room_projection \<Rightarrow> room_projection" where
  "set_voice_pitchclass index pc r =
     set_voice (map_option (\<lambda>c. 60 + ucast (index c)) pc) pc r"

definition clear_voice :: "room_projection \<Rightarrow> room_projection" where
  "clear_voice r = set_voice None None r"

definition all_voice_pitch_classes :: "hash_order \<Rightarrow> room_projection \<Rightarrow> pitch_class list" where
  "all_voice_pitch_classes ho r =
     List.map_filter (\<lambda>a. snd (the (voices r a))) (iter_ids ho (dom (voices r)))"

definition all_voice_pitches :: "room_projection \<Rightarrow> i32 set" where
  "all_voice_pitches r = Option.these (fst ` ran (voices r))"

definition drop_voice :: "string \<Rightarrow> room_projection \<Rightarrow> room_projection" where
  "drop_voice actor r =
     emit (VoiceCleared actor (Option.bind (voices r actor) fst))
       (r\<lparr>voices := (voices r)(actor := None)\<rparr>)"

definition clear_voice_at_pitch_class ::
  "hash_order \<Rightarrow> pitch_class \<Rightarrow> room_projection \<Rightarrow> bool \<times> room_projection" where
  "clear_voice_at_pitch_class ho target r =
     (let actors = filter (\<lambda>a. snd (the (voices r a)) = Some target) (iter_ids ho (dom (voices r)));
          r' = fold drop_voice actors r
      in (actors \<noteq> [], if actors \<noteq> [] then notify r' else r'))"

definition has_piece_at :: "i32 \<Rightarrow> room_projection \<Rightarrow> bool" where
  "has_piece_at pitch r \<longleftrightarrow> (\<exists>p \<in> ran (pieces r). piece_pitch p = pitch)"

definition add_piece ::
  "string \<Rightarrow> i32 \<Rightarrow> string \<Rightarrow> room_projection \<Rightarrow> string option \<times> room_projection" where
  "add_piece new_id pitch emoji r =
     (if has_piece_at pitch r then (None, r)
      else (Some new_id,
            notify (emit (PieceAdded new_id pitch emoji)
              (r\<lparr>pieces := (pieces r)(new_id \<mapsto>
                   \<lparr>piece_id = new_id, piece_pitch = pitch, piece_emoji = emoji\<rparr>)\<rparr>))))"

definition remove_piece :: "string \<Rightarrow> room_projection \<Rightarrow> room_projection" where
  "remove_piece i r =
     (case pieces r i of
        None \<Rightarrow> r
      | Some p \<Rightarrow> notify (emit (PieceRemoved i (piece_pitch p)) (r\<lparr>pieces := (pieces r)(i := None)\<rparr>)))"

definition move_piece :: "string \<Rightarrow> i32 \<Rightarrow> room_projection \<Rightarrow> room_projection" where
  "move_piece i new_pitch r =
     (case pieces r i of
        None \<Rightarrow> r
      | Some p \<Rightarrow>
          if piece_pitch p = new_pitch then r
          else notify (emit (PieceMoved i (piece_pitch p) new_pitch)
                 (r\<lparr>pieces := (pieces r)(i \<mapsto> p\<lparr>piece_pitch := new_pitch\<rparr>)\<rparr>)))"

definition get_piece :: "string \<Rightarrow> room_projection \<Rightarrow> piece option" where
  "get_piece i r = pieces r i"

definition clear_pieces :: "room_projection \<Rightarrow> room_projection" where
  "clear_pieces r =
     (if dom (pieces r) \<noteq> {}
      then notify (emit PiecesCleared (r\<lparr>pieces := Map.empty\<rparr>)) else r)"

definition set_pieces_locked :: "bool \<Rightarrow> room_projection \<Rightarrow> room_projection" where
  "set_pieces_locked locked r =
     (if pieces_locked r \<noteq> locked
      then notify (emit (PiecesLockChanged locked) (r\<lparr>pieces_locked := locked\<rparr>)) else r)"

definition add_emoji_to_palette :: "string \<Rightarrow> room_projection \<Rightarrow> room_projection" where
  "add_emoji_to_palette emoji r =
     (if \<not> list_ex (\<lambda>candidate. candidate = emoji) (available_emojis r)
      then let es = available_emojis r @ [emoji]
           in notify (emit (EmojisChanged es) (r\<lparr>available_emojis := es\<rparr>))
      else r)"

text \<open>\<open>None\<close>: no piece of that class; the outer \<open>None\<close> is the panic for zero notes per octave.\<close>

definition find_piece_by_pitch_class ::
  "hash_order \<Rightarrow> u8 \<Rightarrow> u8 \<Rightarrow> room_projection \<Rightarrow> piece option option" where
  "find_piece_by_pitch_class ho target notes_per_octave r =
     (let ps = map (\<lambda>i. the (pieces r i)) (iter_ids ho (dom (pieces r)))
      in if notes_per_octave = 0 \<and> ps \<noteq> [] then None
         else Some (find (\<lambda>p. piece_pitch_class p notes_per_octave = Some target) ps))"

section \<open>The emitted events replay to the state\<close>

definition default_voice :: "voice option \<Rightarrow> voice" where
  "default_voice v = (case v of None \<Rightarrow> (None, None) | Some x \<Rightarrow> x)"

lemma default_voice_simps [simp]:
  "default_voice None = (None, None)" "default_voice (Some v) = v"
  by (simp_all add: default_voice_def)

definition snapshot_view :: "projection_snapshot \<Rightarrow> room_view" where
  "snapshot_view s =
     \<lparr>rv_pitches = ss_pitches s, rv_pieces = (\<lambda>i. map_option fst (ss_pieces s i)),
      rv_voice = (\<lambda>a. default_voice (ss_voices s a)), rv_locked = ss_pieces_locked s\<rparr>"

definition view :: "room_projection \<Rightarrow> room_view" where
  "view r = snapshot_view (snapshot r)"

lemma view_simps [simp]:
  "rv_pitches (view r) = shared_pitches r"
  "rv_pieces (view r) i = map_option piece_pitch (pieces r i)"
  "rv_voice (view r) a = default_voice (voices r a)"
  "rv_locked (view r) = pieces_locked r"
  by (simp_all add: view_def snapshot_view_def snapshot_def option.map_comp comp_def)

lemma view_eqI:
  assumes "rv_pitches v = rv_pitches w" and "\<And>i. rv_pieces v i = rv_pieces w i"
    and "\<And>a. rv_voice v a = rv_voice w a" and "rv_locked v = rv_locked w"
  shows "v = (w :: room_view)"
  using assms by (intro room_view.equality) auto

text \<open>A loop over distinct keys whose events rewrite one key each.\<close>

lemma replay_piece_loop:
  assumes "\<And>i v. i \<in> set is \<Longrightarrow> rv_pieces v i = f i \<Longrightarrow>
             fold replay (ev i) v = v\<lparr>rv_pieces := (rv_pieces v)(i := g i)\<rparr>"
    and "distinct is" and "\<And>i. i \<in> set is \<Longrightarrow> rv_pieces v i = f i"
  shows "fold replay (concat (map ev is)) v =
         v\<lparr>rv_pieces := (\<lambda>i. if i \<in> set is then g i else rv_pieces v i)\<rparr>"
  using assms
proof (induction "is" arbitrary: v)
  case Nil
  then show ?case by simp
next
  case (Cons i "is")
  let ?w = "v\<lparr>rv_pieces := (rv_pieces v)(i := g i)\<rparr>"
  have "fold replay (concat (map ev is)) ?w =
        ?w\<lparr>rv_pieces := (\<lambda>j. if j \<in> set is then g j else rv_pieces ?w j)\<rparr>"
    using Cons.prems by (intro Cons.IH) (auto simp: fun_upd_apply)
  moreover have "fold replay (ev i) v = ?w"
    using Cons.prems(3) by (intro Cons.prems(1)) simp_all
  moreover have "?w\<lparr>rv_pieces := (\<lambda>j. if j \<in> set is then g j else rv_pieces ?w j)\<rparr> =
                 v\<lparr>rv_pieces := (\<lambda>j. if j \<in> set (i # is) then g j else rv_pieces v j)\<rparr>"
    using Cons.prems(2) by (intro view_eqI) auto
  ultimately show ?case by simp
qed

lemma replay_voice_loop:
  assumes "\<And>a v. a \<in> set as \<Longrightarrow> rv_voice v a = f a \<Longrightarrow>
             fold replay (ev a) v = v\<lparr>rv_voice := (rv_voice v)(a := g a)\<rparr>"
    and "distinct as" and "\<And>a. a \<in> set as \<Longrightarrow> rv_voice v a = f a"
  shows "fold replay (concat (map ev as)) v =
         v\<lparr>rv_voice := (\<lambda>a. if a \<in> set as then g a else rv_voice v a)\<rparr>"
  using assms
proof (induction as arbitrary: v)
  case Nil
  then show ?case by simp
next
  case (Cons a as)
  let ?w = "v\<lparr>rv_voice := (rv_voice v)(a := g a)\<rparr>"
  have "fold replay (concat (map ev as)) ?w =
        ?w\<lparr>rv_voice := (\<lambda>b. if b \<in> set as then g b else rv_voice ?w b)\<rparr>"
    using Cons.prems by (intro Cons.IH) (auto simp: fun_upd_apply)
  moreover have "fold replay (ev a) v = ?w"
    using Cons.prems(3) by (intro Cons.prems(1)) simp_all
  moreover have "?w\<lparr>rv_voice := (\<lambda>b. if b \<in> set as then g b else rv_voice ?w b)\<rparr> =
                 v\<lparr>rv_voice := (\<lambda>b. if b \<in> set (a # as) then g b else rv_voice v b)\<rparr>"
    using Cons.prems(2) by (intro view_eqI) auto
  ultimately show ?case by simp
qed

lemma replay_pitch_part:
  assumes "set added = after" and "set removed = before"
  shows "fold replay (map PitchAdded (filter (\<lambda>pc. pc \<notin> before) added) @
             map PitchRemoved (filter (\<lambda>pc. pc \<notin> after) removed)) v =
         v\<lparr>rv_pitches := (rv_pitches v \<union> (after - before)) - (before - after)\<rparr>"
  using assms by (auto simp: replay_pitch_added replay_pitch_removed intro!: view_eqI)

lemma changed_piece_replay:
  assumes "rv_pieces v i = map_option fst (ss_pieces b i)"
  shows "fold replay (changed_piece b a i) v =
         v\<lparr>rv_pieces := (rv_pieces v)(i := case ss_pieces a i of
              None \<Rightarrow> map_option fst (ss_pieces b i) | Some x \<Rightarrow> Some (fst x))\<rparr>"
  using assms
  by (auto simp: changed_piece_def split: option.splits intro!: view_eqI)

lemma removed_piece_replay:
  assumes "i \<in> dom (ss_pieces b)"
  shows "fold replay (removed_piece b a i) v =
         v\<lparr>rv_pieces := (rv_pieces v)(i := if ss_pieces a i = None then None else rv_pieces v i)\<rparr>"
  using assms by (auto simp: removed_piece_def intro!: view_eqI)

lemma changed_voice_replay:
  assumes "rv_voice v x = default_voice (ss_voices b x)"
  shows "fold replay (changed_voice b a x) v =
         v\<lparr>rv_voice := (rv_voice v)(x := case ss_voices a x of
              None \<Rightarrow> default_voice (ss_voices b x) | Some w \<Rightarrow> w)\<rparr>"
  using assms
  by (auto simp: changed_voice_def split: option.splits intro!: view_eqI)

lemma removed_voice_replay:
  assumes "x \<in> dom (ss_voices b)"
  shows "fold replay (removed_voice b a x) v =
         v\<lparr>rv_voice := (rv_voice v)(x := if ss_voices a x = None then (None, None) else rv_voice v x)\<rparr>"
  using assms by (auto simp: removed_voice_def intro!: view_eqI)

lemma changed_pieces_replay:
  assumes "distinct is" and "set is = dom (ss_pieces a)"
    and "rv_pieces v = (\<lambda>i. map_option fst (ss_pieces b i))"
  shows "fold replay (concat (map (changed_piece b a) is)) v =
         v\<lparr>rv_pieces := (\<lambda>i. case ss_pieces a i of
              None \<Rightarrow> map_option fst (ss_pieces b i) | Some x \<Rightarrow> Some (fst x))\<rparr>"
proof -
  let ?g = "\<lambda>i. case ss_pieces a i of
              None \<Rightarrow> map_option fst (ss_pieces b i) | Some x \<Rightarrow> Some (fst x)"
  have "fold replay (concat (map (changed_piece b a) is)) v =
        v\<lparr>rv_pieces := (\<lambda>i. if i \<in> set is then ?g i else rv_pieces v i)\<rparr>"
    using assms
    by (intro replay_piece_loop [where f = "\<lambda>i. map_option fst (ss_pieces b i)"] changed_piece_replay) auto
  then show ?thesis
    using assms(2,3) by (auto intro!: view_eqI split: option.splits)
qed

lemma removed_pieces_replay:
  assumes "distinct is" and "set is = dom (ss_pieces b)"
  shows "fold replay (concat (map (removed_piece b a) is)) v =
         v\<lparr>rv_pieces := (\<lambda>i. if ss_pieces b i \<noteq> None \<and> ss_pieces a i = None then None else rv_pieces v i)\<rparr>"
proof -
  have "fold replay (concat (map (removed_piece b a) is)) v =
        v\<lparr>rv_pieces := (\<lambda>i. if i \<in> set is then if ss_pieces a i = None then None else rv_pieces v i
                               else rv_pieces v i)\<rparr>"
    using assms
    by (intro replay_piece_loop [where f = "rv_pieces v"]) (auto simp: removed_piece_replay)
  then show ?thesis
    using assms(2) by (auto intro!: view_eqI)
qed

lemma changed_voices_replay:
  assumes "distinct as" and "set as = dom (ss_voices a)"
    and "rv_voice v = (\<lambda>x. default_voice (ss_voices b x))"
  shows "fold replay (concat (map (changed_voice b a) as)) v =
         v\<lparr>rv_voice := (\<lambda>x. case ss_voices a x of None \<Rightarrow> default_voice (ss_voices b x) | Some w \<Rightarrow> w)\<rparr>"
proof -
  let ?g = "\<lambda>x. case ss_voices a x of None \<Rightarrow> default_voice (ss_voices b x) | Some w \<Rightarrow> w"
  have "fold replay (concat (map (changed_voice b a) as)) v =
        v\<lparr>rv_voice := (\<lambda>x. if x \<in> set as then ?g x else rv_voice v x)\<rparr>"
    using assms
    by (intro replay_voice_loop [where f = "\<lambda>x. default_voice (ss_voices b x)"] changed_voice_replay) auto
  then show ?thesis
    using assms(2,3) by (auto intro!: view_eqI split: option.splits)
qed

lemma removed_voices_replay:
  assumes "distinct as" and "set as = dom (ss_voices b)"
  shows "fold replay (concat (map (removed_voice b a) as)) v =
         v\<lparr>rv_voice := (\<lambda>x. if ss_voices b x \<noteq> None \<and> ss_voices a x = None then (None, None)
                              else rv_voice v x)\<rparr>"
proof -
  have "fold replay (concat (map (removed_voice b a) as)) v =
        v\<lparr>rv_voice := (\<lambda>x. if x \<in> set as then if ss_voices a x = None then (None, None) else rv_voice v x
                              else rv_voice v x)\<rparr>"
    using assms
    by (intro replay_voice_loop [where f = "rv_voice v"]) (auto simp: removed_voice_replay)
  then show ?thesis
    using assms(2) by (auto intro!: view_eqI)
qed

definition snapshot_finite :: "projection_snapshot \<Rightarrow> bool" where
  "snapshot_finite s \<longleftrightarrow> finite (ss_pitches s) \<and> finite (dom (ss_pieces s)) \<and> finite (dom (ss_voices s))"

lemma order_okD:
  assumes "order_ok ho"
  shows "finite A \<Longrightarrow> set (iter_pitches ho A) = A" "finite A \<Longrightarrow> distinct (iter_pitches ho A)"
    "finite B \<Longrightarrow> set (iter_ids ho B) = B" "finite B \<Longrightarrow> distinct (iter_ids ho B)"
  using assms by (auto simp: order_ok_def)

lemma diff_events_replay:
  assumes "order_ok ob" and "order_ok oa" and "snapshot_finite b" and "snapshot_finite a"
  shows "fold replay (diff_events ob oa b a) (snapshot_view b) = snapshot_view a"
proof -
  note o = order_okD [OF assms(1)] order_okD [OF assms(2)]
  have f: "finite (ss_pitches a)" "finite (ss_pitches b)" "finite (dom (ss_pieces a))"
      "finite (dom (ss_pieces b))" "finite (dom (ss_voices a))" "finite (dom (ss_voices b))"
    using assms(3,4) by (simp_all add: snapshot_finite_def)
  define v1 where "v1 = (snapshot_view b)\<lparr>rv_pitches := ss_pitches a\<rparr>"
  have 1: "fold replay (map PitchRemoved (filter (\<lambda>pc. pc \<notin> ss_pitches a) (iter_pitches ob (ss_pitches b))))
      (fold replay (map PitchAdded (filter (\<lambda>pc. pc \<notin> ss_pitches b) (iter_pitches oa (ss_pitches a))))
        (snapshot_view b)) = v1"
    using replay_pitch_part [of "iter_pitches oa (ss_pitches a)" "ss_pitches a"
        "iter_pitches ob (ss_pitches b)" "ss_pitches b" "snapshot_view b"] o f
    by (auto simp: v1_def snapshot_view_def)
  have "fold replay (diff_events ob oa b a) (snapshot_view b) =
    fold replay (if ss_pieces_locked b \<noteq> ss_pieces_locked a
      then [PiecesLockChanged (ss_pieces_locked a)] else [])
     (fold replay (concat (map (removed_voice b a) (iter_ids ob (dom (ss_voices b)))))
     (fold replay (concat (map (changed_voice b a) (iter_ids oa (dom (ss_voices a)))))
     (fold replay (concat (map (removed_piece b a) (iter_ids ob (dom (ss_pieces b)))))
     (fold replay (concat (map (changed_piece b a) (iter_ids oa (dom (ss_pieces a))))) v1))))"
    by (simp add: diff_events_def 1 del: fold.simps)
  also have "\<dots> = snapshot_view a"
    using o f
    by (auto simp: changed_pieces_replay removed_pieces_replay changed_voices_replay
        removed_voices_replay v1_def snapshot_view_def default_voice_def intro!: view_eqI ext split: option.splits cong: if_cong option.case_cong simp del: not_None_eq split_paired_All)
  finally show ?thesis .
qed

section \<open>Every operation keeps the log faithful\<close>

datatype projection_op =
    ReplaceReplica hash_order hash_order "pitch_class list" "piece list" "(string \<times> voice) list" bool
      "string option"
  | EmitFullStateSync hash_order
  | AddPitch pitch_class
  | RemovePitch pitch_class
  | SetSinglePitch hash_order hash_order pitch_class
  | ClearPitches
  | SetTuningScl string
  | SetVoicePitch "i32 option"
  | SetVoicePitchclass "pitch_class option"
  | SetVoice "i32 option" "pitch_class option"
  | ClearVoice
  | ClearVoiceAtPitchClass hash_order pitch_class
  | AddPiece string i32 string
  | RemovePiece string
  | MovePiece string i32
  | ClearPieces
  | SetPiecesLocked bool
  | AddEmojiToPalette string

fun projection_step ::
  "(string \<Rightarrow> string list) \<Rightarrow> (pitch_class \<Rightarrow> u16) \<Rightarrow> projection_op \<Rightarrow> room_projection \<Rightarrow> room_projection" where
  "projection_step graphemes index (ReplaceReplica ob oa ps is vs b es) r =
     replace_replica_projection ob oa graphemes ps is vs b es r"
| "projection_step graphemes index (EmitFullStateSync ho) r = emit_full_state_sync ho r"
| "projection_step graphemes index (AddPitch pc) r = add_pitch pc r"
| "projection_step graphemes index (RemovePitch pc) r = remove_pitch pc r"
| "projection_step graphemes index (SetSinglePitch ob oa pc) r = set_single_pitch ob oa pc r"
| "projection_step graphemes index ClearPitches r = clear_pitches r"
| "projection_step graphemes index (SetTuningScl s) r = set_tuning_scl s r"
| "projection_step graphemes index (SetVoicePitch p) r = set_voice_pitch p r"
| "projection_step graphemes index (SetVoicePitchclass c) r = set_voice_pitchclass index c r"
| "projection_step graphemes index (SetVoice p c) r = set_voice p c r"
| "projection_step graphemes index ClearVoice r = clear_voice r"
| "projection_step graphemes index (ClearVoiceAtPitchClass ho c) r = snd (clear_voice_at_pitch_class ho c r)"
| "projection_step graphemes index (AddPiece i p e) r = snd (add_piece i p e r)"
| "projection_step graphemes index (RemovePiece i) r = remove_piece i r"
| "projection_step graphemes index (MovePiece i p) r = move_piece i p r"
| "projection_step graphemes index ClearPieces r = clear_pieces r"
| "projection_step graphemes index (SetPiecesLocked b) r = set_pieces_locked b r"
| "projection_step graphemes index (AddEmojiToPalette e) r = add_emoji_to_palette e r"

fun op_ok :: "projection_op \<Rightarrow> bool" where
  "op_ok (ReplaceReplica ob oa _ _ _ _ _) \<longleftrightarrow> order_ok ob \<and> order_ok oa"
| "op_ok (EmitFullStateSync ho) \<longleftrightarrow> order_ok ho"
| "op_ok (SetSinglePitch ob oa _) \<longleftrightarrow> order_ok ob \<and> order_ok oa"
| "op_ok (ClearVoiceAtPitchClass ho _) \<longleftrightarrow> order_ok ho"
| "op_ok _ \<longleftrightarrow> True"

definition wf_projection :: "room_projection \<Rightarrow> bool" where
  "wf_projection r \<longleftrightarrow>
     finite (shared_pitches r) \<and> finite (dom (pieces r)) \<and> finite (dom (voices r)) \<and>
     (\<forall>i p. pieces r i = Some p \<longrightarrow> piece_id p = i)"

definition log_faithful :: "room_projection \<Rightarrow> bool" where
  "log_faithful r \<longleftrightarrow> wf_projection r \<and> fold replay (emitted r) empty_view = view r"

lemma emit_notify_simps [simp]:
  "shared_pitches (emit e r) = shared_pitches r" "pieces (emit e r) = pieces r"
  "voices (emit e r) = voices r" "pieces_locked (emit e r) = pieces_locked r"
  "available_emojis (emit e r) = available_emojis r" "emitted (emit e r) = emitted r @ [e]"
  "notified (emit e r) = notified r" "local_actor (emit e r) = local_actor r"
  "tuning_scl (emit e r) = tuning_scl r"
  "shared_pitches (notify r) = shared_pitches r" "pieces (notify r) = pieces r"
  "voices (notify r) = voices r" "pieces_locked (notify r) = pieces_locked r"
  "available_emojis (notify r) = available_emojis r" "emitted (notify r) = emitted r"
  "notified (notify r) = Suc (notified r)" "local_actor (notify r) = local_actor r"
  "tuning_scl (notify r) = tuning_scl r"
  by (simp_all add: emit_def notify_def)

lemma emit_all: "fold emit es r = r\<lparr>emitted := emitted r @ es\<rparr>"
  by (induction es arbitrary: r) (simp_all add: emit_def)

lemma snapshot_finite_iff [simp]:
  "snapshot_finite (snapshot r) \<longleftrightarrow>
     finite (shared_pitches r) \<and> finite (dom (pieces r)) \<and> finite (dom (voices r))"
  by (simp add: snapshot_finite_def snapshot_def dom_def)

lemma view_cong:
  "shared_pitches r = shared_pitches s \<Longrightarrow> pieces r = pieces s \<Longrightarrow> voices r = voices s \<Longrightarrow>
   pieces_locked r = pieces_locked s \<Longrightarrow> view r = view s"
  by (intro view_eqI) simp_all

lemma view_notify [simp]: "view (notify r) = view r"
  by (rule view_cong) simp_all

lemma log_faithful_notify [simp]: "log_faithful (notify r) = log_faithful r"
  by (simp add: log_faithful_def wf_projection_def)

text \<open>An operation that changes the state and emits one event.\<close>

lemma log_faithful_emit:
  assumes "log_faithful r" and "wf_projection r'" and "emitted r' = emitted r"
    and "replay e (view r) = view r'"
  shows "log_faithful (emit e r')"
  using assms view_cong [of "emit e r'" r']
  by (simp add: log_faithful_def wf_projection_def)

lemma log_faithful_new: "log_faithful (projection_new a)"
  by (auto simp: log_faithful_def wf_projection_def projection_new_def empty_view_def intro!: view_eqI)

lemma log_faithful_emit_diffs:
  assumes "log_faithful r" and "wf_projection r'" and "emitted r' = emitted r"
    and "order_ok ob" and "order_ok oa"
  shows "log_faithful (snd (emit_diffs ob oa (snapshot r) r'))"
proof -
  let ?s = "snd (emit_diffs ob oa (snapshot r) r')"
  have "fold replay (diff_events ob oa (snapshot r) (snapshot r')) (view r) = view r'"
    using assms diff_events_replay [of ob oa "snapshot r" "snapshot r'"]
    by (simp add: view_def log_faithful_def wf_projection_def)
  moreover have "emitted ?s = emitted r @ diff_events ob oa (snapshot r) (snapshot r')"
    using assms(3) by (simp add: emit_diffs_def emit_all)
  moreover have "view ?s = view r'"
    by (rule view_cong) (simp_all add: emit_diffs_def emit_all)
  moreover have "wf_projection ?s"
    using assms(2) by (simp add: wf_projection_def emit_diffs_def emit_all)
  ultimately show ?thesis
    using assms(1) by (simp add: log_faithful_def)
qed

lemma log_faithful_wf: "log_faithful r \<Longrightarrow> wf_projection r"
  by (simp add: log_faithful_def)

lemma finite_dom_insert: "finite (dom m) \<Longrightarrow> finite (dom (m(k := v)))"
  by (cases v) simp_all

lemma log_faithful_pitches:
  assumes "log_faithful r"
  shows "log_faithful (add_pitch pc r)" "log_faithful (remove_pitch pc r)"
    "log_faithful (clear_pitches r)"
  using assms log_faithful_wf [OF assms]
  by (auto simp: add_pitch_def remove_pitch_def clear_pitches_def wf_projection_def
      intro!: log_faithful_emit [OF assms] view_eqI)

lemma log_faithful_config:
  assumes "log_faithful r"
  shows "log_faithful (set_tuning_scl scl r)" "log_faithful (set_pieces_locked b r)"
    "log_faithful (add_emoji_to_palette em r)"
  using assms log_faithful_wf [OF assms]
  by (auto simp: set_tuning_scl_def set_pieces_locked_def add_emoji_to_palette_def Let_def
      wf_projection_def intro!: log_faithful_emit [OF assms] view_eqI)

lemma log_faithful_set_voice:
  assumes "log_faithful r"
  shows "log_faithful (set_voice p c r)"
  using assms log_faithful_wf [OF assms]
  by (auto simp: set_voice_def Let_def wf_projection_def finite_dom_insert simp del: dom_fun_upd
      intro!: log_faithful_emit [OF assms] view_eqI)

lemma log_faithful_pieces:
  assumes "log_faithful r"
  shows "log_faithful (snd (add_piece i p e r))" "log_faithful (remove_piece i r)"
    "log_faithful (move_piece i p r)" "log_faithful (clear_pieces r)"
  using assms log_faithful_wf [OF assms]
  by (auto simp: add_piece_def remove_piece_def move_piece_def clear_pieces_def
      wf_projection_def finite_dom_insert simp del: dom_fun_upd split: option.splits
      intro!: log_faithful_emit [OF assms] view_eqI)

lemma log_faithful_drop_voice:
  assumes "log_faithful r"
  shows "log_faithful (drop_voice a r)"
  using log_faithful_wf [OF assms]
  by (auto simp: drop_voice_def wf_projection_def finite_dom_insert simp del: dom_fun_upd
      intro!: log_faithful_emit [OF assms] view_eqI)

lemma log_faithful_drop_voices: "log_faithful r \<Longrightarrow> log_faithful (fold drop_voice as r)"
  by (induction as arbitrary: r) (simp_all add: log_faithful_drop_voice)

lemma log_faithful_clear_voice_at: "log_faithful r \<Longrightarrow> log_faithful (snd (clear_voice_at_pitch_class ho c r))"
  by (simp add: clear_voice_at_pitch_class_def Let_def log_faithful_drop_voices)

lemma set_all_pieces:
  assumes "wf_projection r" and "order_ok ho"
  shows "set (all_pieces ho r) = ran (pieces r)"
proof -
  have "set (all_pieces ho r) = (\<lambda>i. the (pieces r i)) ` dom (pieces r)"
    using assms order_okD(3) [OF assms(2), of "dom (pieces r)"]
    by (simp add: all_pieces_def wf_projection_def)
  then show ?thesis by (force simp: ran_def image_iff)
qed

lemma distinct_all_pieces:
  assumes "wf_projection r" and "order_ok ho"
  shows "distinct (map piece_id (all_pieces ho r))"
proof -
  let ?is = "iter_ids ho (dom (pieces r))"
  let ?ps = "map (\<lambda>i. the (pieces r i)) ?is"
  have "map piece_id ?ps = map id ?is"
    using assms order_okD(3) [OF assms(2), of "dom (pieces r)"]
    unfolding map_map by (intro map_cong) (auto simp: wf_projection_def)
  then have "distinct (map piece_id ?ps)"
    using assms(1) order_okD(4) [OF assms(2)] by (simp add: wf_projection_def)
  moreover have "mset (map piece_id (sort_key piece_id ?ps)) = mset (map piece_id ?ps)"
    by (simp only: mset_map mset_sort)
  ultimately show ?thesis
    unfolding all_pieces_def by (metis mset_eq_imp_distinct_iff)
qed

lemma lookup_all_pieces:
  assumes "wf_projection r" and "order_ok ho"
  shows "map_of (map (\<lambda>p. (piece_id p, piece_pitch p)) (all_pieces ho r)) i =
         map_option piece_pitch (pieces r i)"
proof (cases "pieces r i")
  case None
  then have "i \<notin> piece_id ` set (all_pieces ho r)"
    using assms by (auto simp: set_all_pieces ran_def wf_projection_def)
  with None show ?thesis by (auto simp: map_of_eq_None_iff image_comp comp_def)
next
  case (Some p)
  then have "(i, piece_pitch p) \<in> set (map (\<lambda>p. (piece_id p, piece_pitch p)) (all_pieces ho r))"
    using assms by (force simp: set_all_pieces ran_def wf_projection_def)
  with Some distinct_all_pieces [OF assms] show ?thesis by (simp add: map_of_is_SomeI comp_def)
qed

lemma lookup_listed_voices:
  assumes "wf_projection r" and "order_ok ho"
  shows "map_of (map (\<lambda>a. (a, the (voices r a))) (iter_ids ho (dom (voices r)))) a = voices r a"
  using assms order_okD(3) [OF assms(2), of "dom (voices r)"]
  by (auto simp: map_of_map_keys wf_projection_def)

lemma log_faithful_full_sync:
  assumes "log_faithful r" and "order_ok ho"
  shows "log_faithful (emit_full_state_sync ho r)"
proof -
  note w = log_faithful_wf [OF assms(1)]
  show ?thesis
    unfolding emit_full_state_sync_def
    using w order_okD(1) [OF assms(2)] lookup_all_pieces [OF w assms(2)]
      lookup_listed_voices [OF w assms(2)]
    by (intro log_faithful_emit [OF assms(1)] view_eqI)
       (simp_all add: wf_projection_def comp_def voice_list_def default_voice_def)
qed

lemma fold_pieces_keys:
  assumes "\<And>i p. m i = Some p \<Longrightarrow> piece_id p = i" and "fold (\<lambda>p m. m(piece_id p \<mapsto> p)) ps m i = Some p"
  shows "piece_id p = i"
  using assms
proof (induction ps arbitrary: m)
  case (Cons q ps)
  show ?case
    by (rule Cons.IH [of "m(piece_id q \<mapsto> q)"]) (use Cons.prems in \<open>auto split: if_splits\<close>)
qed simp

lemma fold_pieces_finite:
  "finite (dom m) \<Longrightarrow> finite (dom (fold (\<lambda>p m. m(piece_id p \<mapsto> p)) ps m))"
  by (induction ps arbitrary: m) simp_all

lemma fold_voices_finite:
  "finite (dom m) \<Longrightarrow> finite (dom (fold (\<lambda>(a, v) m. m(a \<mapsto> v)) vs m))"
  by (induction vs arbitrary: m) (auto split: prod.splits)

lemma log_faithful_replace:
  assumes "log_faithful r" and "order_ok ob" and "order_ok oa"
  shows "log_faithful (replace_replica_projection ob oa graphemes ps is vs b es r)"
proof -
  define r1 where "r1 = r\<lparr>shared_pitches := set ps,
                 pieces := fold (\<lambda>p m. m(piece_id p \<mapsto> p)) is Map.empty,
                 voices := fold (\<lambda>(a, v) m. m(a \<mapsto> v)) vs Map.empty,
                 pieces_locked := b,
                 available_emojis :=
                   (case es of None \<Rightarrow> default_emojis
                    | Some s \<Rightarrow> if s = [] then default_emojis else graphemes s)\<rparr>"
  have "wf_projection r1"
    using fold_pieces_keys [of Map.empty "is"] fold_pieces_finite [of Map.empty "is"]
      fold_voices_finite [of Map.empty vs]
    by (simp add: wf_projection_def r1_def)
  then have f: "log_faithful (snd (emit_diffs ob oa (snapshot r) r1))"
    using assms by (intro log_faithful_emit_diffs) (simp_all add: r1_def)
  then have "log_faithful (emit (EmojisChanged x) (snd (emit_diffs ob oa (snapshot r) r1)))" for x
    using log_faithful_wf [OF f] by (intro log_faithful_emit [OF f]) simp_all
  with f show ?thesis
    unfolding replace_replica_projection_def Let_def r1_def [symmetric]
    by (simp add: case_prod_unfold)
qed

lemma log_faithful_set_single:
  assumes "log_faithful r" and "order_ok ob" and "order_ok oa"
  shows "log_faithful (set_single_pitch ob oa pc r)"
  using assms log_faithful_wf [OF assms(1)]
  by (auto simp: set_single_pitch_def wf_projection_def intro!: log_faithful_emit_diffs)

lemma log_faithful_step:
  assumes "op_ok op" and "log_faithful r"
  shows "log_faithful (projection_step graphemes index op r)"
  using assms
  by (cases op)
     (simp_all add: log_faithful_replace log_faithful_full_sync log_faithful_pitches
       log_faithful_set_single log_faithful_config log_faithful_set_voice log_faithful_pieces
       log_faithful_clear_voice_at set_voice_pitch_def set_voice_pitchclass_def clear_voice_def)

interpretation room_log: guarded_machine "projection_new actor" "projection_step graphemes index" op_ok log_faithful
  by unfold_locales (rule log_faithful_new, rule log_faithful_step)

section \<open>Properties\<close>

definition sorted_order :: hash_order where
  "sorted_order = \<lparr>iter_pitches = sorted_list_of_set, iter_ids = sorted_list_of_set\<rparr>"

lemma sorted_order_ok: "order_ok sorted_order"
  by (simp add: sorted_order_def order_ok_def)

text \<open>C12: A subscriber that hears every emitted event knows the room. Whatever sequence of
  operations is applied to a fresh projection, and whatever the iteration order of the hash
  containers, replaying the emitted events gives the current pitch toggles, the pitch of every
  piece, every voice and the lock flag.\<close>

theorem emitted_events_replay_to_state:
  assumes "list_all op_ok ops" and "r = run (projection_step graphemes index) ops (projection_new actor)"
  shows "fold replay (emitted r) empty_view = view r"
  using room_log.ginvar_reached [OF assms(1)] unfolding assms(2) log_faithful_def by simp

theorem emitted_events_replay_to_state_witness:
  "list_all op_ok [AddPiece ''a'' 62 ''x'', SetSinglePitch sorted_order sorted_order (PitchClass 3)] \<and>
   (let r = run (projection_step (\<lambda>s. [s]) (\<lambda>_. 0))
              [AddPiece ''a'' 62 ''x'', SetSinglePitch sorted_order sorted_order (PitchClass 3)]
              (projection_new ''me'')
    in fold replay (emitted r) empty_view = view r)"
  using emitted_events_replay_to_state
    [of "[AddPiece ''a'' 62 ''x'', SetSinglePitch sorted_order sorted_order (PitchClass 3)]"
      _ "\<lambda>s. [s]" "\<lambda>_. 0" "''me''"] sorted_order_ok
  by (simp add: Let_def)

lemma snapshot_simps [simp]:
  "snapshot (emit e r) = snapshot r" "snapshot (notify r) = snapshot r"
  "snapshot (r\<lparr>emitted := es\<rparr>) = snapshot r"
  by (simp_all add: snapshot_def)

lemma emit_diffs_simps [simp]:
  "snapshot (snd (emit_diffs ob oa b r)) = snapshot r"
  "notified (snd (emit_diffs ob oa b r)) = notified r"
  "available_emojis (snd (emit_diffs ob oa b r)) = available_emojis r"
  "tuning_scl (snd (emit_diffs ob oa b r)) = tuning_scl r"
  "fst (emit_diffs ob oa b r) \<longleftrightarrow> b \<noteq> snapshot r"
  by (simp_all add: emit_diffs_def emit_all)

lemma drop_voices_simps [simp]:
  "notified (fold drop_voice as r) = notified r"
  "available_emojis (fold drop_voice as r) = available_emojis r"
  "tuning_scl (fold drop_voice as r) = tuning_scl r"
  "voices (fold drop_voice as r) = (\<lambda>a. if a \<in> set as then None else voices r a)"
  by (induction as arbitrary: r) (auto simp: drop_voice_def fun_eq_iff)

definition visible :: "room_projection \<Rightarrow> projection_snapshot \<times> string \<times> string list" where
  "visible r = (snapshot r, tuning_scl r, available_emojis r)"

lemma visible_replace:
  assumes "visible (replace_replica_projection ob oa graphemes ps is vs b es r) \<noteq> visible r"
  shows "notified (replace_replica_projection ob oa graphemes ps is vs b es r) = Suc (notified r)"
  using assms
  by (auto simp: replace_replica_projection_def Let_def case_prod_unfold visible_def split: if_splits)

lemma visible_clear_voice_at:
  assumes "visible (snd (clear_voice_at_pitch_class ho c r)) \<noteq> visible r"
  shows "notified (snd (clear_voice_at_pitch_class ho c r)) = Suc (notified r)"
proof (cases "filter (\<lambda>a. snd (the (voices r a)) = Some c) (iter_ids ho (dom (voices r))) = []")
  case True
  with assms show ?thesis by (simp add: clear_voice_at_pitch_class_def)
next
  case False
  then show ?thesis by (simp add: clear_voice_at_pitch_class_def Let_def del: filter_empty_conv)
qed

text \<open>No silent change. Whenever an operation changes a pitch toggle, a piece, a voice, the
  lock, the tuning or the emoji palette, the watch channel is notified, exactly once.\<close>

theorem every_change_notifies:
  assumes "r' = projection_step graphemes index op r" and "visible r' \<noteq> visible r"
  shows "notified r' = Suc (notified r)"
  using assms
  by (cases op)
     (auto simp: visible_replace visible_clear_voice_at emit_full_state_sync_def add_pitch_def
       remove_pitch_def set_single_pitch_def clear_pitches_def set_tuning_scl_def set_voice_pitch_def
       set_voice_pitchclass_def set_voice_def clear_voice_def add_piece_def remove_piece_def
       move_piece_def clear_pieces_def set_pieces_locked_def add_emoji_to_palette_def Let_def
       visible_def split: option.splits if_splits)

theorem every_change_notifies_witness:
  "visible (projection_step (\<lambda>s. [s]) (\<lambda>_. 0) (SetPiecesLocked True) (projection_new ''me''))
     \<noteq> visible (projection_new ''me'') \<and>
   notified (projection_step (\<lambda>s. [s]) (\<lambda>_. 0) (SetPiecesLocked True) (projection_new ''me'')) = Suc 0"
proof -
  have v: "visible (projection_step (\<lambda>s. [s]) (\<lambda>_. 0) (SetPiecesLocked True) (projection_new ''me''))
     \<noteq> visible (projection_new ''me'')"
    by (simp add: visible_def snapshot_def projection_new_def set_pieces_locked_def)
  with every_change_notifies [OF refl v] show ?thesis by (simp add: projection_new_def)
qed

text \<open>Clearing the voices at a pitch class removes exactly the voices that sing it: the others
  keep their value, the answer says whether there was one, and every removed voice is reported
  with the pitch it had.\<close>

theorem clear_voice_at_pitch_class_exact:
  assumes "order_ok ho" and "finite (dom (voices r))"
    and "clear_voice_at_pitch_class ho target r = (any, r')"
  shows "voices r' a = (if Option.bind (voices r a) snd = Some target then None else voices r a) \<and>
         (any \<longleftrightarrow> (\<exists>a. Option.bind (voices r a) snd = Some target)) \<and>
         shared_pitches r' = shared_pitches r \<and> pieces r' = pieces r \<and>
         set (emitted r') = set (emitted r) \<union>
           {VoiceCleared a p | a p. voices r a = Some (p, Some target)}"
proof -
  let ?as = "filter (\<lambda>a. snd (the (voices r a)) = Some target) (iter_ids ho (dom (voices r)))"
  have as: "a \<in> set ?as \<longleftrightarrow> (\<exists>p. voices r a = Some (p, Some target))" for a
    using order_okD(3) [OF assms(1,2)] by force
  have r': "r' = (if any then notify (fold drop_voice ?as r) else fold drop_voice ?as r)"
    and any: "any \<longleftrightarrow> ?as \<noteq> []"
    using assms(3) by (auto simp: clear_voice_at_pitch_class_def Let_def)
  have others: "shared_pitches (fold drop_voice as s) = shared_pitches s"
      "pieces (fold drop_voice as s) = pieces s" for as s
    by (induction as arbitrary: s) (simp_all add: drop_voice_def)
  have events: "distinct as \<Longrightarrow> emitted (fold drop_voice as s) =
      emitted s @ map (\<lambda>a. VoiceCleared a (Option.bind (voices s a) fst)) as" for as s
    by (induction as arbitrary: s) (auto simp: drop_voice_def)
  have "distinct ?as" using order_okD(4) [OF assms(1,2)] by simp
  then have "set (emitted r') = set (emitted r) \<union> (\<lambda>a. VoiceCleared a (Option.bind (voices r a) fst)) ` set ?as"
    by (simp add: r' events)
  moreover have "(\<lambda>a. VoiceCleared a (Option.bind (voices r a) fst)) ` set ?as =
      {VoiceCleared a p | a p. voices r a = Some (p, Some target)}"
    unfolding set_eq_iff image_iff Bex_def as by force
  moreover have "any \<longleftrightarrow> (\<exists>a. a \<in> set ?as)"
    unfolding any by (metis hd_in_set empty_iff list.set(1))
  ultimately show ?thesis
    unfolding as by (auto simp: r' others as bind_eq_Some_conv simp del: set_filter split: option.splits)
qed

definition two_voices :: room_projection where
  "two_voices = (projection_new ''me'')\<lparr>voices :=
     [''a'' \<mapsto> (Some 64, Some (PitchClass 4)), ''b'' \<mapsto> (Some 65, Some (PitchClass 5))]\<rparr>"

theorem clear_voice_at_pitch_class_exact_witness:
  "voices (snd (clear_voice_at_pitch_class sorted_order (PitchClass 4) two_voices)) ''a'' = None \<and>
   voices (snd (clear_voice_at_pitch_class sorted_order (PitchClass 4) two_voices)) ''b'' =
     Some (Some 65, Some (PitchClass 5)) \<and>
   fst (clear_voice_at_pitch_class sorted_order (PitchClass 4) two_voices)"
proof -
  have f: "finite (dom (voices two_voices))" by (simp add: two_voices_def)
  note exact = clear_voice_at_pitch_class_exact [OF sorted_order_ok f prod.collapse [symmetric]]
  have "\<exists>a. Option.bind (voices two_voices a) snd = Some (PitchClass 4)"
    by (rule exI [of _ "''a''"]) (simp add: two_voices_def)
  then show ?thesis
    using exact [of "PitchClass 4" "''a''"] exact [of "PitchClass 4" "''b''"]
    by (simp add: two_voices_def)
qed

text \<open>When the durable view changes only the emoji of a piece, the projection reports a change
  and notifies, but the event channel says nothing: no event is emitted for it, so a subscriber
  that recomputes on piece events keeps the old emoji.\<close>

theorem emoji_change_is_silent:
  assumes "order_ok ob" and "order_ok oa" and "snapshot_finite b" and "snapshot_finite (snapshot r)"
    and "ss_pitches (snapshot r) = ss_pitches b" and "ss_voices (snapshot r) = ss_voices b"
    and "ss_pieces_locked (snapshot r) = ss_pieces_locked b"
    and "\<And>i. map_option fst (ss_pieces (snapshot r) i) = map_option fst (ss_pieces b i)"
    and "ss_pieces (snapshot r) \<noteq> ss_pieces b"
  shows "emit_diffs ob oa b r = (True, r)"
proof -
  let ?a = "snapshot r"
  have f: "finite (ss_pitches b)" "finite (ss_pitches ?a)"
    using assms(3,4) by (simp_all only: snapshot_finite_def)
  have c: "changed_piece b ?a i = []" "removed_piece b ?a i = []" for i
    using assms(8) [of i] by (auto simp: changed_piece_def removed_piece_def split: option.splits)
  have v: "changed_voice b ?a i = []" "removed_voice b ?a i = []" for i
    using assms(6) by (auto simp: changed_voice_def removed_voice_def split: option.splits)
  have "diff_events ob oa b ?a = []"
    using order_okD(1) [OF assms(1) f(1)] order_okD(1) [OF assms(2) f(2)]
    by (simp add: diff_events_def c v assms(5,7) filter_empty_conv del: snapshot_finite_iff)
  moreover have "b \<noteq> ?a" using assms(9) by auto
  ultimately show ?thesis by (simp add: emit_diffs_def)
qed

definition one_piece :: "string \<Rightarrow> room_projection" where
  "one_piece emoji = (projection_new ''me'')\<lparr>pieces :=
     [''p'' \<mapsto> \<lparr>piece_id = ''p'', piece_pitch = 62, piece_emoji = emoji\<rparr>]\<rparr>"

theorem emoji_change_is_silent_witness:
  "emit_diffs sorted_order sorted_order (snapshot (one_piece ''x'')) (one_piece ''y'') = (True, one_piece ''y'')"
  by (rule emoji_change_is_silent [OF sorted_order_ok sorted_order_ok])
     (auto simp: one_piece_def projection_new_def snapshot_def snapshot_finite_def fun_eq_iff dom_def)

end
