(* ===== verification/Streams.thy ===== *)
theory Streams
  imports Projection
begin

text \<open>
  \<open>src/src/room/streams.rs\<close>: the streams and signals derived from the room projection.

  A stream of the code is polled: at every event it locks the room and reads its current state.
  A run of a stream is therefore a list of deliveries \<open>(event, room)\<close>, the room being the one
  seen when the event is handled; what the stream yields is a function of the room at
  subscription and the deliveries. The deliveries are those of a run of the projection, its event channel
  and the consumer, one action at a time (\<open>stream_step\<close>): the channel keeps 256 events and drops the oldest,
  and a consumer that missed one is at its end. The channel, crate \<open>async_broadcast\<close>, is the parameter \<open>Q\<close>. \<open>HashSet\<close> iteration is the parameter \<open>order\<close>; the method
  \<open>PitchClass::index\<close> of crate \<open>tutti_music\<close> is the parameter \<open>index\<close>.

  The delta structs \<open>PitchClassDelta\<close> and \<open>PitchDelta\<close> have the same two fields over \<open>u16\<close> and
  \<open>i32\<close>; they are two instances of one record.
\<close>

section \<open>Snapshots and deltas\<close>

record 'a delta =
  added :: "'a list"
  removed :: "'a list"

definition delta_is_empty :: "'a delta \<Rightarrow> bool" where
  "delta_is_empty d \<longleftrightarrow> added d = [] \<and> removed d = []"

record active_pitches_snapshot =
  toggle_pitch_classes :: "u16 set"
  piece_pitches :: "i32 set"
  voice_pitches :: "i32 set"

definition piece_pitch_classes :: "active_pitches_snapshot \<Rightarrow> u16 \<Rightarrow> u16 set" where
  "piece_pitch_classes s pitch_class_count =
     (let count = uint (max pitch_class_count 1)
      in (\<lambda>p. word_of_int (rem_euclid (p - 60) count)) ` piece_pitches s)"

definition unified_pitch_classes :: "active_pitches_snapshot \<Rightarrow> u16 \<Rightarrow> u16 set" where
  "unified_pitch_classes s pitch_class_count =
     toggle_pitch_classes s \<union> piece_pitch_classes s pitch_class_count"

definition voice_pitch_classes :: "active_pitches_snapshot \<Rightarrow> u16 set" where
  "voice_pitch_classes s = (\<lambda>p. word_of_int (rem_euclid p 12)) ` voice_pitches s"

definition snapshot_active_pitches ::
  "hash_order \<Rightarrow> (pitch_class \<Rightarrow> u16) \<Rightarrow> room_projection \<Rightarrow> active_pitches_snapshot" where
  "snapshot_active_pitches ho index room =
     \<lparr>toggle_pitch_classes = index ` shared_pitches room,
      piece_pitches = set (map piece_pitch (all_pieces ho room)),
      voice_pitches = all_voice_pitches room\<rparr>"

section \<open>Delta streams\<close>

text \<open>\<open>scan\<close> with the previous set as its state, then \<open>filter_map\<close> on the empty deltas. \<open>recompute\<close>
  is the closure's choice of the new set.\<close>

fun scan_deltas ::
  "('a set \<Rightarrow> 'a list) \<Rightarrow> ('d \<Rightarrow> 'a set \<Rightarrow> 'a set) \<Rightarrow> 'a set \<Rightarrow> 'd list \<Rightarrow> 'a delta list" where
  "scan_deltas order recompute prev [] = []"
| "scan_deltas order recompute prev (d # ds) =
     (let new = recompute d prev;
          delta = \<lparr>added = filter (\<lambda>x. x \<notin> prev) (order new),
                   removed = filter (\<lambda>x. x \<notin> new) (order prev)\<rparr>
      in (if delta_is_empty delta then [] else [delta]) @ scan_deltas order recompute new ds)"

definition initial_delta :: "('a set \<Rightarrow> 'a list) \<Rightarrow> 'a set \<Rightarrow> 'a delta list" where
  "initial_delta order initial =
     (if initial = {} then [] else [\<lparr>added = order initial, removed = []\<rparr>])"

type_synonym delivery = "room_event \<times> room_projection"

definition unified_of :: "hash_order \<Rightarrow> (pitch_class \<Rightarrow> u16) \<Rightarrow> u16 \<Rightarrow> room_projection \<Rightarrow> u16 set" where
  "unified_of ho index pitch_class_count room =
     unified_pitch_classes (snapshot_active_pitches ho index room) pitch_class_count"

definition unified_pitch_class_deltas ::
  "(u16 set \<Rightarrow> u16 list) \<Rightarrow> hash_order \<Rightarrow> (pitch_class \<Rightarrow> u16) \<Rightarrow> u16 \<Rightarrow> room_projection \<Rightarrow>
   delivery list \<Rightarrow> u16 delta list" where
  "unified_pitch_class_deltas order ho index pitch_class_count room events =
     (let initial_unified = unified_of ho index pitch_class_count room
      in initial_delta order initial_unified @
         scan_deltas order (\<lambda>(event, room) prev. unified_of ho index pitch_class_count room)
           initial_unified events)"

fun piece_event :: "room_event \<Rightarrow> bool" where
  "piece_event (PieceAdded _ _ _) = True"
| "piece_event (PieceMoved _ _ _) = True"
| "piece_event (PieceRemoved _ _) = True"
| "piece_event PiecesCleared = True"
| "piece_event (FullStateSync _ _ _ _) = True"
| "piece_event _ = False"

definition piece_pitch_deltas ::
  "(i32 set \<Rightarrow> i32 list) \<Rightarrow> hash_order \<Rightarrow> room_projection \<Rightarrow> delivery list \<Rightarrow> i32 delta list" where
  "piece_pitch_deltas order ho room events =
     (let initial = set (map piece_pitch (all_pieces ho room))
      in initial_delta order initial @
         scan_deltas order
           (\<lambda>(event, room) prev. if piece_event event then set (map piece_pitch (all_pieces ho room)) else prev)
           initial events)"

fun voice_event :: "room_event \<Rightarrow> bool" where
  "voice_event (VoiceChanged _ _ _) = True"
| "voice_event (VoiceCleared _ _) = True"
| "voice_event (FullStateSync _ _ _ _) = True"
| "voice_event _ = False"

definition voice_pitch_deltas ::
  "(i32 set \<Rightarrow> i32 list) \<Rightarrow> room_projection \<Rightarrow> delivery list \<Rightarrow> i32 delta list" where
  "voice_pitch_deltas order room events =
     (let initial = all_voice_pitches room
      in initial_delta order initial @
         scan_deltas order
           (\<lambda>(event, room) prev. if voice_event event then all_voice_pitches room else prev)
           initial events)"

section \<open>Signals\<close>

text \<open>The successive values of a signal: the initial one, then one per event that passes the filter.\<close>

definition unified_pitch_classes_signal ::
  "hash_order \<Rightarrow> (pitch_class \<Rightarrow> u16) \<Rightarrow> u16 \<Rightarrow> room_projection \<Rightarrow> delivery list \<Rightarrow> u16 set list" where
  "unified_pitch_classes_signal ho index pitch_class_count room events =
     unified_of ho index pitch_class_count room #
     map (\<lambda>(e, room). unified_of ho index pitch_class_count room)
       (filter (\<lambda>(e, room). affects_pitches e \<or> affects_voice e) events)"

fun toggle_event :: "room_event \<Rightarrow> bool" where
  "toggle_event (PitchAdded _) = True"
| "toggle_event (PitchRemoved _) = True"
| "toggle_event PitchesCleared = True"
| "toggle_event (FullStateSync _ _ _ _) = True"
| "toggle_event _ = False"

definition shared_pitches_signal :: "room_projection \<Rightarrow> delivery list \<Rightarrow> pitch_class set list" where
  "shared_pitches_signal room events =
     shared_pitches room #
     map (\<lambda>(e, room). shared_pitches room) (filter (\<lambda>(e, room). toggle_event e) events)"

definition pieces_signal :: "hash_order \<Rightarrow> room_projection \<Rightarrow> delivery list \<Rightarrow> piece list list" where
  "pieces_signal ho room events =
     all_pieces ho room #
     map (\<lambda>(e, room). all_pieces ho room) (filter (\<lambda>(e, room). affects_pieces e) events)"

fun lock_event :: "room_event \<Rightarrow> bool" where
  "lock_event (PiecesLockChanged _) = True"
| "lock_event (FullStateSync _ _ _ _) = True"
| "lock_event _ = False"

definition pieces_locked_signal :: "room_projection \<Rightarrow> delivery list \<Rightarrow> bool list" where
  "pieces_locked_signal room events =
     pieces_locked room #
     map (\<lambda>(e, room). pieces_locked room) (filter (\<lambda>(e, room). lock_event e) events)"

fun emojis_event :: "room_event \<Rightarrow> bool" where
  "emojis_event (EmojisChanged _) = True"
| "emojis_event (FullStateSync _ _ _ _) = True"
| "emojis_event _ = False"

definition available_emojis_signal :: "room_projection \<Rightarrow> delivery list \<Rightarrow> string list list" where
  "available_emojis_signal room events =
     available_emojis room #
     map (\<lambda>(e, room). available_emojis room) (filter (\<lambda>(e, room). emojis_event e) events)"

section \<open>The notes a consumer holds\<close>

definition apply_delta :: "'a delta \<Rightarrow> 'a set \<Rightarrow> 'a set" where
  "apply_delta d held = (held - set (removed d)) \<union> set (added d)"

text \<open>A delta is disciplined when it only starts silent notes and only stops sounding ones.\<close>

fun disciplined :: "'a set \<Rightarrow> 'a delta list \<Rightarrow> bool" where
  "disciplined held [] = True"
| "disciplined held (d # ds) \<longleftrightarrow>
     set (added d) \<inter> held = {} \<and> set (removed d) \<subseteq> held \<and> \<not> delta_is_empty d \<and>
     disciplined (apply_delta d held) ds"

definition last_read ::
  "(room_event \<Rightarrow> bool) \<Rightarrow> (room_projection \<Rightarrow> 'b) \<Rightarrow> 'b \<Rightarrow> delivery list \<Rightarrow> 'b" where
  "last_read relevant read init events =
     fold (\<lambda>(e, r) x. if relevant e then read r else x) events init"

definition lists_sets :: "('a set \<Rightarrow> 'a list) \<Rightarrow> bool" where
  "lists_sets order \<longleftrightarrow> (\<forall>A. finite A \<longrightarrow> set (order A) = A)"

lemma scan_deltas_telescope:
  assumes "lists_sets order" and "finite prev"
    and "\<And>d s. d \<in> set ds \<Longrightarrow> finite s \<Longrightarrow> finite (recompute d s)"
  shows "fold apply_delta (scan_deltas order recompute prev ds) prev = fold recompute ds prev \<and>
         disciplined prev (scan_deltas order recompute prev ds)"
  using assms(2,3)
proof (induction ds arbitrary: prev)
  case (Cons d ds)
  let ?new = "recompute d prev"
  let ?delta = "\<lparr>added = filter (\<lambda>x. x \<notin> prev) (order ?new), removed = filter (\<lambda>x. x \<notin> ?new) (order prev)\<rparr>"
  have sets: "set (order ?new) = ?new" "set (order prev) = prev"
    using assms(1) Cons.prems by (simp_all add: lists_sets_def)
  have step: "apply_delta ?delta prev = ?new"
    by (auto simp: apply_delta_def sets)
  have "delta_is_empty ?delta \<Longrightarrow> ?new = prev"
    using step by (auto simp: delta_is_empty_def apply_delta_def)
  moreover have "set (added ?delta) \<inter> prev = {}" "set (removed ?delta) \<subseteq> prev"
    by (auto simp: sets)
  moreover note Cons.IH [of ?new]
  ultimately show ?case
    using Cons.prems step by (auto simp: Let_def)
qed simp

lemma initial_delta_telescope:
  assumes "lists_sets order" and "finite initial"
  shows "fold apply_delta (initial_delta order initial) {} = initial \<and>
         disciplined {} (initial_delta order initial)"
  using assms by (auto simp: initial_delta_def apply_delta_def lists_sets_def delta_is_empty_def)

lemma disciplined_append:
  "disciplined held (ds @ es) \<longleftrightarrow> disciplined held ds \<and> disciplined (fold apply_delta ds held) es"
  by (induction ds arbitrary: held) auto

lemma stream_telescope:
  assumes "lists_sets order" and "finite initial"
    and "\<And>d s. d \<in> set ds \<Longrightarrow> finite s \<Longrightarrow> finite (recompute d s)"
  shows "fold apply_delta (initial_delta order initial @ scan_deltas order recompute initial ds) {}
           = fold recompute ds initial \<and>
         disciplined {} (initial_delta order initial @ scan_deltas order recompute initial ds)"
  using initial_delta_telescope [OF assms(1,2)] scan_deltas_telescope [OF assms]
  by (simp add: disciplined_append)

lemma last_signal_value:
  "last (read r0 # map (\<lambda>(e, r). read r) (filter (\<lambda>(e, r). relevant e) events)) =
   last_read relevant read (read r0) events"
proof (induction events rule: rev_induct)
  case (snoc d ds)
  then show ?case by (cases d) (auto simp: last_read_def split: if_splits)
qed (simp add: last_read_def)

section \<open>Streams of a projection\<close>

text \<open>The calls on the channel that the projection and its streams make. A receiver is a number.\<close>

datatype received = Received room_event | Nothing_Yet | Overflowed

record 'c broadcast_ops =
  bc_open :: "nat \<Rightarrow> 'c"
  bc_send :: "room_event \<Rightarrow> 'c \<Rightarrow> 'c"
  bc_join :: "'c \<Rightarrow> nat \<times> 'c"
  bc_recv :: "nat \<Rightarrow> 'c \<Rightarrow> received \<times> 'c"

text \<open>What the crate documents of a channel with \<open>set_overflow(true)\<close>, in terms of the events sent since a receiver's
  last one (\<open>backlog\<close>): a receiver gets them in order, and an error once there were more than the channel keeps.\<close>

definition overflow_broadcast :: "'c broadcast_ops \<Rightarrow> ('c \<Rightarrow> nat \<Rightarrow> room_event list) \<Rightarrow> ('c \<Rightarrow> nat) \<Rightarrow> bool" where
  "overflow_broadcast Q backlog capacity \<longleftrightarrow>
     (\<forall>n. capacity (bc_open Q n) = n) \<and>
     (\<forall>e c. capacity (bc_send Q e c) = capacity c \<and> (\<forall>i. backlog (bc_send Q e c) i = backlog c i @ [e])) \<and>
     (\<forall>c. capacity (snd (bc_join Q c)) = capacity c \<and> backlog (snd (bc_join Q c)) (fst (bc_join Q c)) = []) \<and>
     (\<forall>i c. capacity (snd (bc_recv Q i c)) = capacity c \<and>
        (case backlog c i of
           [] \<Rightarrow> fst (bc_recv Q i c) = Nothing_Yet \<and> backlog (snd (bc_recv Q i c)) i = []
         | e # es \<Rightarrow>
             if length (e # es) > capacity c then fst (bc_recv Q i c) = Overflowed
             else fst (bc_recv Q i c) = Received e \<and> backlog (snd (bc_recv Q i c)) i = es))"

lemma receives:
  assumes "overflow_broadcast Q backlog capacity" and "bc_recv Q i c = (a, c')"
  shows "capacity c' = capacity c \<and>
     (case backlog c i of
        [] \<Rightarrow> a = Nothing_Yet \<and> backlog c' i = []
      | e # es \<Rightarrow> if length (e # es) > capacity c then a = Overflowed else a = Received e \<and> backlog c' i = es)"
  using assms(1) [unfolded overflow_broadcast_def, THEN conjunct2, THEN conjunct2, THEN conjunct2, THEN spec, THEN spec,
      of i c] by (cases "backlog c i") (auto simp: assms(2) split: if_splits)

definition event_channel_capacity :: nat where
  "event_channel_capacity = 256"

text \<open>A projection, its channel and one stream: the events an operation has yet to send (it holds the write lock until
  the last is sent), the receiver, the event received for which the room was not read yet, whether the
  stream has ended, and the deliveries so far.\<close>

record 'c stream_run =
  sr_room :: room_projection
  sr_sending :: "room_event list"
  sr_channel :: 'c
  sr_receiver :: nat
  sr_hand :: "room_event option"
  sr_ended :: bool
  sr_seen :: "delivery list"

definition new_events :: "room_projection \<Rightarrow> room_projection \<Rightarrow> room_event list" where
  "new_events r r' = drop (length (emitted r)) (emitted r')"

text \<open>\<open>RoomProjection::new\<close> opens the channel, \<open>emit\<close> sends each event, \<open>events\<close> joins.\<close>

definition room_channel :: "'c broadcast_ops \<Rightarrow> room_projection \<Rightarrow> 'c" where
  "room_channel Q r = fold (bc_send Q) (emitted r) (bc_open Q event_channel_capacity)"

definition subscribe :: "'c broadcast_ops \<Rightarrow> room_projection \<Rightarrow> 'c stream_run" where
  "subscribe Q r =
     (case bc_join Q (room_channel Q r) of (i, c) \<Rightarrow>
        \<lparr>sr_room = r, sr_sending = [], sr_channel = c, sr_receiver = i, sr_hand = None, sr_ended = False, sr_seen = []\<rparr>)"

text \<open>The closure of \<open>events\<close>: \<open>recv().await.ok()\<close>, so any error ends the stream.\<close>

definition receive_event :: "'c broadcast_ops \<Rightarrow> 'c stream_run \<Rightarrow> 'c stream_run" where
  "receive_event Q s =
     (if sr_ended s \<or> sr_hand s \<noteq> None then s
      else case bc_recv Q (sr_receiver s) (sr_channel s) of
             (Received e, c) \<Rightarrow> s\<lparr>sr_channel := c, sr_hand := Some e\<rparr>
           | (Nothing_Yet, c) \<Rightarrow> s\<lparr>sr_channel := c\<rparr>
           | (Overflowed, c) \<Rightarrow> s\<lparr>sr_channel := c, sr_ended := True\<rparr>)"

text \<open>An operation starts when no other holds the lock; its events are sent one by one; the stream receives an event
  at any time, and reads the room when no operation holds the lock.\<close>

datatype stream_action = Operate projection_op | Broadcast | Receive | Read_Room

fun stream_step ::
  "'c broadcast_ops \<Rightarrow> (string \<Rightarrow> string list) \<Rightarrow> (pitch_class \<Rightarrow> u16) \<Rightarrow> stream_action \<Rightarrow> 'c stream_run \<Rightarrow> 'c stream_run" where
  "stream_step Q graphemes index (Operate op) s =
     (if sr_sending s \<noteq> [] then s
      else let r' = projection_step graphemes index op (sr_room s)
           in s\<lparr>sr_room := r', sr_sending := new_events (sr_room s) r'\<rparr>)"
| "stream_step Q graphemes index Broadcast s =
     (case sr_sending s of [] \<Rightarrow> s | e # es \<Rightarrow> s\<lparr>sr_sending := es, sr_channel := bc_send Q e (sr_channel s)\<rparr>)"
| "stream_step Q graphemes index Receive s = receive_event Q s"
| "stream_step Q graphemes index Read_Room s =
     (case sr_hand s of
        None \<Rightarrow> s
      | Some e \<Rightarrow> if sr_sending s \<noteq> [] then s
                  else s\<lparr>sr_hand := None, sr_seen := sr_seen s @ [(e, sr_room s)]\<rparr>)"

fun action_ok :: "stream_action \<Rightarrow> bool" where
  "action_ok (Operate op) = op_ok op"
| "action_ok _ = True"

text \<open>The events the stream has yet to handle.\<close>

definition unread :: "('c \<Rightarrow> nat \<Rightarrow> room_event list) \<Rightarrow> 'c stream_run \<Rightarrow> room_event list" where
  "unread backlog s = backlog (sr_channel s) (sr_receiver s)"

definition outstanding :: "('c \<Rightarrow> nat \<Rightarrow> room_event list) \<Rightarrow> 'c stream_run \<Rightarrow> room_event list" where
  "outstanding backlog s = (case sr_hand s of None \<Rightarrow> [] | Some e \<Rightarrow> [e]) @ unread backlog s @ sr_sending s"

lemma emitted_drop_voices: "\<exists>es. emitted (fold drop_voice as r) = emitted r @ es"
proof (induction as arbitrary: r)
  case (Cons a as)
  from Cons [of "drop_voice a r"] show ?case by (auto simp: drop_voice_def)
qed simp

lemma emitted_emit_diffs: "\<exists>es. emitted (snd (emit_diffs ob oa b r)) = emitted r @ es"
  by (simp add: emit_diffs_def emit_all)

lemma emitted_grows: "\<exists>es. emitted (projection_step graphemes index op r) = emitted r @ es"
proof (cases op)
  case (ReplaceReplica ob oa ps "is" vs b es)
  define r1 where "r1 = r\<lparr>shared_pitches := set ps,
                 pieces := fold (\<lambda>p m. m(piece_id p \<mapsto> p)) is Map.empty,
                 voices := fold (\<lambda>(a, v) m. m(a \<mapsto> v)) vs Map.empty,
                 pieces_locked := b,
                 available_emojis :=
                   (case es of None \<Rightarrow> default_emojis
                    | Some s \<Rightarrow> if s = [] then default_emojis else graphemes s)\<rparr>"
  have "emitted r1 = emitted r" by (simp add: r1_def)
  with emitted_emit_diffs [of ob oa "snapshot r" r1] show ?thesis
    unfolding ReplaceReplica projection_step.simps replace_replica_projection_def Let_def
      r1_def [symmetric]
    by (auto simp: case_prod_unfold)
next
  case (SetSinglePitch ob oa pc)
  with emitted_emit_diffs [of ob oa "snapshot r" "r\<lparr>shared_pitches := {pc}\<rparr>"]
  show ?thesis by (auto simp: set_single_pitch_def)
next
  case (ClearVoiceAtPitchClass ho c)
  with emitted_drop_voices show ?thesis
    by (auto simp: clear_voice_at_pitch_class_def Let_def)
qed (auto simp: emit_full_state_sync_def add_pitch_def remove_pitch_def clear_pitches_def
    set_tuning_scl_def set_voice_pitch_def set_voice_pitchclass_def set_voice_def clear_voice_def
    add_piece_def remove_piece_def move_piece_def clear_pieces_def set_pieces_locked_def
    add_emoji_to_palette_def Let_def split: option.splits)

lemma step_replays:
  assumes "op_ok op" and "log_faithful r"
  shows "fold replay (new_events r (projection_step graphemes index op r)) (view r) =
         view (projection_step graphemes index op r)"
proof -
  obtain es where es: "emitted (projection_step graphemes index op r) = emitted r @ es"
    using emitted_grows by blast
  moreover have "log_faithful (projection_step graphemes index op r)"
    by (rule log_faithful_step [OF assms])
  ultimately show ?thesis
    using assms(2) by (simp add: new_events_def log_faithful_def)
qed

text \<open>What a consumer needs to know of the room, and the events that make it read again. The law
  is that no other event changes what would be read.\<close>

locale room_reader =
  fixes relevant :: "room_event \<Rightarrow> bool"
    and seen :: "room_view \<Rightarrow> 'b"
  assumes irrelevant: "\<not> relevant e \<Longrightarrow> seen (replay e v) = seen v"
begin

definition reads :: "(room_projection \<Rightarrow> 'b) \<Rightarrow> bool" where
  "reads read \<longleftrightarrow> (\<forall>r. wf_projection r \<longrightarrow> read r = seen (view r))"

lemma irrelevant_events: "\<forall>e \<in> set es. \<not> relevant e \<Longrightarrow> seen (fold replay es v) = seen v"
  by (induction es arbitrary: v) (simp_all add: irrelevant)

lemma last_read_constant:
  "last_read relevant read x (map (\<lambda>e. (e, r)) es) = (if \<exists>e \<in> set es. relevant e then read r else x)"
  by (induction es arbitrary: x) (auto simp: last_read_def)

lemma last_read_step:
  assumes "reads read" and "op_ok op" and "log_faithful r" and "r' = projection_step graphemes index op r"
  shows "last_read relevant read (read r) (map (\<lambda>e. (e, r')) (new_events r r')) = read r'"
proof (cases "\<exists>e \<in> set (new_events r r'). relevant e")
  case False
  have "log_faithful r'" unfolding assms(4) by (rule log_faithful_step [OF assms(2,3)])
  then have "read r' = seen (fold replay (new_events r r') (view r))"
    using step_replays [OF assms(2,3)] assms(1) by (simp add: reads_def log_faithful_def assms(4))
  also have "\<dots> = read r"
    using False irrelevant_events assms(1,3) by (simp add: reads_def log_faithful_def)
  finally show ?thesis using False by (simp add: last_read_constant)
qed (simp add: last_read_constant)

lemma last_read_append:
  "last_read relevant read x (ds @ es) = last_read relevant read (last_read relevant read x ds) es"
  by (simp add: last_read_def)

text \<open>The deliveries and the outstanding events, read in the room as it is, give what the room shows.\<close>

definition tracks :: "('c \<Rightarrow> nat \<Rightarrow> room_event list) \<Rightarrow> (room_projection \<Rightarrow> 'b) \<Rightarrow> 'b \<Rightarrow> 'c stream_run \<Rightarrow> bool" where
  "tracks backlog read x s \<longleftrightarrow>
     last_read relevant read x (sr_seen s @ map (\<lambda>e. (e, sr_room s)) (outstanding backlog s)) = read (sr_room s)"

lemma tracks_operate:
  assumes "tracks backlog read x s" and "reads read" and "op_ok op" and "log_faithful (sr_room s)" and "sr_sending s = []"
    and "r' = projection_step graphemes index op (sr_room s)"
  shows "tracks backlog read x (s\<lparr>sr_room := r', sr_sending := new_events (sr_room s) r'\<rparr>)"
proof -
  let ?old = "outstanding backlog s" and ?new = "new_events (sr_room s) r'"
  have all: "outstanding backlog (s\<lparr>sr_room := r', sr_sending := ?new\<rparr>) = ?old @ ?new"
    using assms(5) by (simp add: outstanding_def unread_def)
  have old: "last_read relevant read (last_read relevant read x (sr_seen s)) (map (\<lambda>e. (e, sr_room s)) ?old) = read (sr_room s)"
    using assms(1) by (simp add: tracks_def last_read_append)
  show ?thesis
  proof (cases "\<exists>e \<in> set ?old. relevant e")
    case False
    then have "last_read relevant read x (sr_seen s) = read (sr_room s)"
      using old by (simp add: last_read_constant)
    then show ?thesis
      using False last_read_step [OF assms(2-4,6)] unfolding tracks_def all
      by (simp add: last_read_append last_read_constant)
  next
    case True
    then show ?thesis unfolding tracks_def all by (auto simp: last_read_append last_read_constant)
  qed
qed

end

section \<open>What every action keeps\<close>

locale event_stream =
  fixes Q :: "'c broadcast_ops" and backlog :: "'c \<Rightarrow> nat \<Rightarrow> room_event list" and capacity :: "'c \<Rightarrow> nat"
  assumes channel: "overflow_broadcast Q backlog capacity"
begin

abbreviation todo :: "'c stream_run \<Rightarrow> room_event list" where
  "todo \<equiv> unread backlog"

definition stream_inv :: "'c stream_run \<Rightarrow> bool" where
  "stream_inv s \<longleftrightarrow>
     log_faithful (sr_room s) \<and> (\<forall>d \<in> set (sr_seen s). wf_projection (snd d)) \<and>
     capacity (sr_channel s) = event_channel_capacity"

lemma capacity_room: "capacity (room_channel Q r) = event_channel_capacity"
proof -
  have "capacity (fold (bc_send Q) es c) = capacity c" for es c
    by (induction es arbitrary: c) (use channel in \<open>simp_all add: overflow_broadcast_def\<close>)
  then show ?thesis using channel by (simp add: room_channel_def overflow_broadcast_def)
qed

lemma subscribed:
  "sr_room (subscribe Q r) = r" "sr_seen (subscribe Q r) = []" "outstanding backlog (subscribe Q r) = []"
  "capacity (sr_channel (subscribe Q r)) = event_channel_capacity"
  using channel capacity_room [of r]
  by (auto simp: subscribe_def outstanding_def unread_def overflow_broadcast_def split: prod.split) (metis fst_conv snd_conv)+

lemma inv_subscribe: "log_faithful r \<Longrightarrow> stream_inv (subscribe Q r)"
  by (simp add: stream_inv_def subscribed)

text \<open>Receiving moves the first event that is to do into the hand, or ends the stream.\<close>

lemma receive_cases:
  assumes "stream_inv s"
  obtains (same) "receive_event Q s = s"
    | (none) c where "receive_event Q s = s\<lparr>sr_channel := c\<rparr>" "todo s = []" "backlog c (sr_receiver s) = []"
        "capacity c = event_channel_capacity"
    | (one) e es c where "receive_event Q s = s\<lparr>sr_channel := c, sr_hand := Some e\<rparr>" "sr_hand s = None" "todo s = e # es"
        "backlog c (sr_receiver s) = es" "capacity c = event_channel_capacity"
    | (lost) c where "receive_event Q s = s\<lparr>sr_channel := c, sr_ended := True\<rparr>" "length (todo s) > event_channel_capacity"
        "capacity c = event_channel_capacity" "\<not> sr_ended s"
proof (cases "sr_ended s \<or> sr_hand s \<noteq> None")
  case True
  then show ?thesis using same by (simp add: receive_event_def)
next
  case False
  obtain a c where r: "bc_recv Q (sr_receiver s) (sr_channel s) = (a, c)" by fastforce
  have law: "capacity c = event_channel_capacity"
    "case todo s of [] \<Rightarrow> a = Nothing_Yet \<and> backlog c (sr_receiver s) = []
     | e # es \<Rightarrow> if length (e # es) > event_channel_capacity then a = Overflowed else a = Received e \<and> backlog c (sr_receiver s) = es"
    using receives [OF channel r] assms by (cases "todo s"; simp add: stream_inv_def unread_def)+
  show ?thesis
  proof (cases "todo s")
    case Nil
    then show ?thesis using none [of c] False r law by (simp add: receive_event_def)
  next
    case (Cons e es)
    then show ?thesis
      using lost [of c] one [where c = c and e = e and es = es] False r law by (cases "length (e # es) > event_channel_capacity") (auto simp: receive_event_def)
  qed
qed

lemma inv_step:
  assumes "stream_inv s" and "action_ok action"
  shows "stream_inv (stream_step Q graphemes index action s)"
proof (cases action)
  case (Operate op)
  then show ?thesis using assms by (auto simp: stream_inv_def Let_def intro: log_faithful_step)
next
  case Receive
  show ?thesis
    using assms(1) by (cases rule: receive_cases) (use assms(1) Receive in \<open>simp_all add: stream_inv_def\<close>)
next
  case Broadcast
  then show ?thesis using assms channel by (auto simp: stream_inv_def overflow_broadcast_def split: list.split)
next
  case Read_Room
  then show ?thesis using assms by (auto simp: stream_inv_def log_faithful_def split: option.split)
qed

lemma inv_run: "list_all action_ok actions \<Longrightarrow> stream_inv s \<Longrightarrow> stream_inv (run (stream_step Q graphemes index) actions s)"
  by (induction actions arbitrary: s) (simp_all add: inv_step)

lemma outstanding_send: "sr_sending s = e # es \<Longrightarrow>
   outstanding backlog (s\<lparr>sr_sending := es, sr_channel := bc_send Q e (sr_channel s)\<rparr>) = outstanding backlog s"
  using channel by (simp add: outstanding_def unread_def overflow_broadcast_def split: option.split)

lemma step_ended: "sr_ended s \<Longrightarrow> sr_ended (stream_step Q graphemes index action s)"
  by (cases action) (auto simp: receive_event_def Let_def split: list.split option.split)

lemma tracks_step:
  assumes "room_reader relevant look" and "room_reader.reads look read" and "stream_inv s" and "action_ok action"
    and "\<not> sr_ended (stream_step Q graphemes index action s)" and "room_reader.tracks relevant backlog read x s"
  shows "room_reader.tracks relevant backlog read x (stream_step Q graphemes index action s)"
proof (cases action)
  case (Operate op)
  then show ?thesis
    using assms room_reader.tracks_operate [OF assms(1,6,2)] by (simp add: stream_inv_def Let_def)
next
  case Broadcast
  then show ?thesis
    using assms(6) outstanding_send [of s] unfolding room_reader.tracks_def [OF assms(1)] by (simp split: list.split)
next
  case Receive
  show ?thesis
    using assms(3)
  proof (cases rule: receive_cases)
    case (one e es c)
    then have "outstanding backlog (s\<lparr>sr_channel := c, sr_hand := Some e\<rparr>) = outstanding backlog s"
      by (simp add: outstanding_def unread_def)
    then show ?thesis using assms(6) one Receive unfolding room_reader.tracks_def [OF assms(1)] by simp
  next
    case (none c)
    then have "outstanding backlog (s\<lparr>sr_channel := c\<rparr>) = outstanding backlog s"
      by (simp add: outstanding_def unread_def)
    then show ?thesis using assms(6) none Receive unfolding room_reader.tracks_def [OF assms(1)] by simp
  qed (use assms(5,6) Receive in simp_all)
next
  case Read_Room
  then show ?thesis
    using assms(6) unfolding room_reader.tracks_def [OF assms(1)] by (auto simp: outstanding_def unread_def split: option.split)
qed

lemma tracks_run:
  assumes "room_reader relevant look" and "room_reader.reads look read" and "list_all action_ok actions" and "stream_inv s"
    and "\<not> sr_ended (run (stream_step Q graphemes index) actions s)" and "room_reader.tracks relevant backlog read x s"
  shows "room_reader.tracks relevant backlog read x (run (stream_step Q graphemes index) actions s)"
  using assms(3-6)
proof (induction actions arbitrary: s)
  case (Cons action actions)
  have "sr_ended t \<Longrightarrow> sr_ended (run (stream_step Q graphemes index) actions t)" for t
    by (induction actions arbitrary: t) (simp_all add: step_ended)
  then have "\<not> sr_ended (stream_step Q graphemes index action s)" using Cons.prems(3) by auto
  then show ?case
    using Cons tracks_step [OF assms(1,2)] by (simp add: inv_step)
qed simp

text \<open>What a consumer with nothing left to handle has read last.\<close>

lemma caught_up_read:
  assumes "room_reader relevant look" and "room_reader.reads look read" and "list_all action_ok actions" and "log_faithful r"
    and "s = run (stream_step Q graphemes index) actions (subscribe Q r)" and "\<not> sr_ended s" and "outstanding backlog s = []"
  shows "last_read relevant read (read r) (sr_seen s) = read (sr_room s)"
proof -
  have "room_reader.tracks relevant backlog read (read r) (subscribe Q r)"
    by (simp add: room_reader.tracks_def [OF assms(1)] subscribed last_read_def)
  then have "room_reader.tracks relevant backlog read (read r) s"
    using tracks_run [OF assms(1-3) inv_subscribe [OF assms(4)]] assms(5,6) by simp
  then show ?thesis
    using assms(7) by (simp add: room_reader.tracks_def [OF assms(1)])
qed

text \<open>A stream ends only when it has fallen behind by more than the channel keeps.\<close>

lemma ended_fell_behind:
  assumes "list_all action_ok actions" and "log_faithful r"
    and "sr_ended (run (stream_step Q graphemes index) actions (subscribe Q r))"
  shows "\<exists>k < length actions.
    event_channel_capacity < length (todo (run (stream_step Q graphemes index) (take k actions) (subscribe Q r)))"
  using assms(1,3)
proof (induction actions rule: rev_induct)
  case Nil
  then show ?case by (simp add: subscribe_def split: prod.splits)
next
  case (snoc action actions)
  let ?s = "run (stream_step Q graphemes index) actions (subscribe Q r)"
  show ?case
  proof (cases "sr_ended ?s")
    case True
    then obtain k where "k < length actions"
        "event_channel_capacity < length (todo (run (stream_step Q graphemes index) (take k actions) (subscribe Q r)))"
      using snoc by auto
    then show ?thesis by (intro exI [where x = k]) simp
  next
    case False
    have inv: "stream_inv ?s" using snoc.prems(1) assms(2) by (simp add: inv_run inv_subscribe)
    have e: "sr_ended (stream_step Q graphemes index action ?s)" using snoc.prems(2) by simp
    then have "action = Receive" using False by (cases action) (auto simp: Let_def split: list.splits option.splits if_splits)
    with inv e False have "event_channel_capacity < length (todo ?s)" by (cases rule: receive_cases [of ?s]) auto
    then show ?thesis by (intro exI [where x = "length actions"]) simp
  qed
qed

end

lemma piece_pitches_view:
  assumes "wf_projection r" and "order_ok ho"
  shows "set (map piece_pitch (all_pieces ho r)) = ran (rv_pieces (view r))"
proof -
  have "rv_pieces (view r) = (\<lambda>i. map_option piece_pitch (pieces r i))"
    by (simp add: fun_eq_iff)
  then show ?thesis using set_all_pieces [OF assms] by (force simp: ran_def)
qed

lemma all_voice_pitches_view:
  "all_voice_pitches r = {p. \<exists>a. fst (rv_voice (view r) a) = Some p}"
  by (force simp: all_voice_pitches_def Option.these_def ran_def default_voice_def image_iff
      split: option.splits)

definition sounding :: "(pitch_class \<Rightarrow> u16) \<Rightarrow> u16 \<Rightarrow> room_view \<Rightarrow> u16 set" where
  "sounding index pitch_class_count v =
     index ` rv_pitches v \<union>
     (\<lambda>p. word_of_int (rem_euclid (p - 60) (uint (max pitch_class_count 1)))) ` ran (rv_pieces v)"

lemma unified_of_view:
  assumes "wf_projection r" and "order_ok ho"
  shows "unified_of ho index n r = sounding index n (view r)"
  using piece_pitches_view [OF assms]
  by (simp add: unified_of_def unified_pitch_classes_def snapshot_active_pitches_def
      piece_pitch_classes_def sounding_def)

interpretation toggles: room_reader toggle_event rv_pitches
proof
  fix e v assume "\<not> toggle_event e"
  then show "rv_pitches (replay e v) = rv_pitches v" by (cases e) simp_all
qed

interpretation lock: room_reader lock_event rv_locked
proof
  fix e v assume "\<not> lock_event e"
  then show "rv_locked (replay e v) = rv_locked v" by (cases e) simp_all
qed

interpretation piece_pitch: room_reader piece_event "\<lambda>v. ran (rv_pieces v)"
proof
  fix e v assume "\<not> piece_event e"
  then show "ran (rv_pieces (replay e v)) = ran (rv_pieces v)" by (cases e) simp_all
qed

interpretation voice_pitch: room_reader voice_event "\<lambda>v. {p. \<exists>a. fst (rv_voice v a) = Some p}"
proof
  fix e v assume "\<not> voice_event e"
  then show "{p. \<exists>a. fst (rv_voice (replay e v) a) = Some p} = {p. \<exists>a. fst (rv_voice v a) = Some p}"
    by (cases e) simp_all
qed

interpretation unified_signal: room_reader "\<lambda>e. affects_pitches e \<or> affects_voice e" "sounding index n"
  by unfold_locales (simp add: sounding_def replay_unaffected)

interpretation unified_delta: room_reader "\<lambda>_. True" "sounding index n"
  by unfold_locales simp

section \<open>Properties\<close>

definition reachable :: "(string \<Rightarrow> string list) \<Rightarrow> (pitch_class \<Rightarrow> u16) \<Rightarrow> room_projection \<Rightarrow> bool" where
  "reachable graphemes index r \<longleftrightarrow>
     (\<exists>actor ops. list_all op_ok ops \<and> r = run (projection_step graphemes index) ops (projection_new actor))"

lemma reachable_faithful: "reachable graphemes index r \<Longrightarrow> log_faithful r"
  using room_log.ginvar_reached unfolding reachable_def by blast

lemma finite_reads:
  assumes "wf_projection r" and "order_ok ho"
  shows "finite (unified_of ho index n r)" "finite (set (map piece_pitch (all_pieces ho r)))"
    "finite (all_voice_pitches r)"
proof -
  show "finite (set (map piece_pitch (all_pieces ho r)))" by simp
  show "finite (unified_of ho index n r)"
    using assms(1) by (simp add: unified_of_def unified_pitch_classes_def snapshot_active_pitches_def
        piece_pitch_classes_def wf_projection_def)
  have "finite (ran (voices r))" using assms(1) by (simp add: wf_projection_def finite_ran)
  then show "finite (all_voice_pitches r)" by (simp add: all_voice_pitches_def Option.these_def)
qed

definition caught_up :: "('c \<Rightarrow> nat \<Rightarrow> room_event list) \<Rightarrow> 'c stream_run \<Rightarrow> bool" where
  "caught_up backlog s \<longleftrightarrow> \<not> sr_ended s \<and> outstanding backlog s = []"

lemma stream_wf:
  assumes "overflow_broadcast Q backlog capacity" and "list_all action_ok actions" and "log_faithful r"
  shows "let s = run (stream_step Q graphemes index) actions (subscribe Q r) in
     log_faithful (sr_room s) \<and> (\<forall>d \<in> set (sr_seen s). wf_projection (snd d))"
  using event_stream.inv_run [OF event_stream.intro [OF assms(1)] assms(2)
      event_stream.inv_subscribe [OF event_stream.intro [OF assms(1)] assms(3)]]
  unfolding event_stream.stream_inv_def [OF event_stream.intro [OF assms(1)]] Let_def by blast

text \<open>C13: The main MIDI output is right as long as it lasts. A subscriber joins any reachable room; operations, the
  sending of their events, its receiving and its reading of the room follow in any interleaving. At every
  moment the deltas it was given start no sounding note and stop no silent one. When nothing is outstanding and the
  stream has not ended, the notes it holds are exactly the sounding pitch classes of the room. The stream ends only if
  at some moment more than 256 events were unread.\<close>

theorem unified_deltas_track_room:
  assumes "overflow_broadcast Q backlog capacity" and "lists_sets order" and "order_ok ho"
    and "reachable graphemes index r" and "list_all action_ok actions"
    and "s = run (stream_step Q graphemes index) actions (subscribe Q r)"
    and "ds = unified_pitch_class_deltas order ho index n r (sr_seen s)"
  shows "disciplined {} ds \<and>
         (caught_up backlog s \<longrightarrow> fold apply_delta ds {} = unified_of ho index n (sr_room s)) \<and>
         (sr_ended s \<longrightarrow> (\<exists>k < length actions.
            256 < length (unread backlog (run (stream_step Q graphemes index) (take k actions) (subscribe Q r)))))"
proof -
  note f = reachable_faithful [OF assms(4)]
  note stream = event_stream.intro [OF assms(1)]
  let ?re = "\<lambda>(event, room) prev. unified_of ho index n room"
  have "unified_delta.reads index n (unified_of ho index n)"
    using assms(3) by (simp add: unified_delta.reads_def unified_of_view)
  then have "fold ?re (sr_seen s) (unified_of ho index n r) = unified_of ho index n (sr_room s)" if "caught_up backlog s"
    using event_stream.caught_up_read [OF stream unified_delta.room_reader_axioms _ assms(5) f assms(6)] that
    by (simp add: last_read_def caught_up_def)
  moreover have "finite (?re d x)" if "d \<in> set (sr_seen s)" for d x
    using stream_wf [OF assms(1,5) f, of graphemes index] finite_reads(1) [OF _ assms(3)] that
    unfolding assms(6) [symmetric] Let_def by (cases d) auto
  moreover have "finite (unified_of ho index n r)"
    using f assms(3) by (simp add: finite_reads log_faithful_def)
  moreover note event_stream.ended_fell_behind [OF stream assms(5) f, of graphemes index]
  ultimately show ?thesis
    using stream_telescope [OF assms(2), of "unified_of ho index n r" "sr_seen s" ?re]
    unfolding assms(7) unified_pitch_class_deltas_def Let_def event_channel_capacity_def assms(6) [symmetric] by auto
qed

text \<open>C17: The piece and the voice output, which recompute only on their own events, are right as long as they last. In
  every interleaving their deltas start no sounding note and stop no silent one, and a subscriber that has not been cut off
  and has nothing outstanding holds exactly the pitches of the pieces on the board and of the voices in the room.\<close>

theorem pitch_deltas_track_room:
  assumes "overflow_broadcast Q backlog capacity" and "lists_sets order" and "order_ok ho"
    and "reachable graphemes index r" and "list_all action_ok actions"
    and "s = run (stream_step Q graphemes index) actions (subscribe Q r)"
    and "ps = piece_pitch_deltas order ho r (sr_seen s)" and "vs = voice_pitch_deltas order r (sr_seen s)"
  shows "disciplined {} ps \<and> disciplined {} vs \<and>
         (caught_up backlog s \<longrightarrow>
            fold apply_delta ps {} = piece_pitch ` ran (pieces (sr_room s)) \<and>
            fold apply_delta vs {} = all_voice_pitches (sr_room s))"
proof -
  note f = reachable_faithful [OF assms(4)]
  note stream = event_stream.intro [OF assms(1)]
  let ?pp = "\<lambda>r. set (map piece_pitch (all_pieces ho r))"
  let ?p = "\<lambda>(event, room) prev. if piece_event event then ?pp room else prev"
  let ?v = "\<lambda>(event, room) prev. if voice_event event then all_voice_pitches room else prev"
  have wf: "log_faithful (sr_room s)" "\<forall>d \<in> set (sr_seen s). wf_projection (snd d)"
    using stream_wf [OF assms(1,5) f, of graphemes index] unfolding assms(6) [symmetric] Let_def by blast+
  have pp: "?pp (sr_room s) = piece_pitch ` ran (pieces (sr_room s))"
    using wf(1) assms(3) by (simp add: set_all_pieces log_faithful_def)
  have "piece_pitch.reads ?pp"
    using assms(3) by (simp add: piece_pitch.reads_def piece_pitches_view del: set_map)
  then have p: "fold ?p (sr_seen s) (?pp r) = ?pp (sr_room s)" if "caught_up backlog s"
    using event_stream.caught_up_read [OF stream piece_pitch.room_reader_axioms _ assms(5) f assms(6)] that
    unfolding last_read_def caught_up_def by blast
  have "voice_pitch.reads all_voice_pitches"
    by (simp add: voice_pitch.reads_def all_voice_pitches_view)
  then have v: "fold ?v (sr_seen s) (all_voice_pitches r) = all_voice_pitches (sr_room s)" if "caught_up backlog s"
    using event_stream.caught_up_read [OF stream voice_pitch.room_reader_axioms _ assms(5) f assms(6)] that
    unfolding last_read_def caught_up_def by blast
  have fin: "finite (?p d x)" "finite (?v d x)" if "d \<in> set (sr_seen s)" "finite x" for d x
    using finite_reads [OF _ assms(3)] wf(2) that by (cases d; force)+
  have "finite (?pp r)" "finite (all_voice_pitches r)"
    using f assms(3) by (simp_all add: finite_reads(3) log_faithful_def)
  then show ?thesis
    using stream_telescope [OF assms(2), of "?pp r" "sr_seen s" ?p]
      stream_telescope [OF assms(2), of "all_voice_pitches r" "sr_seen s" ?v] fin p v pp
    unfolding assms(7,8) piece_pitch_deltas_def voice_pitch_deltas_def Let_def by simp
qed

text \<open>While its stream lasts, the last value of the toggle, lock and sounding signals is the current one when nothing is
  outstanding: the event filter of each signal misses no change of what it shows.\<close>

theorem signals_show_current_state:
  assumes "overflow_broadcast Q backlog capacity" and "order_ok ho"
    and "reachable graphemes index r" and "list_all action_ok actions"
    and "s = run (stream_step Q graphemes index) actions (subscribe Q r)" and "caught_up backlog s"
  shows "last (shared_pitches_signal r (sr_seen s)) = shared_pitches (sr_room s) \<and>
         last (pieces_locked_signal r (sr_seen s)) = pieces_locked (sr_room s) \<and>
         last (unified_pitch_classes_signal ho index n r (sr_seen s)) = unified_of ho index n (sr_room s)"
proof -
  note f = reachable_faithful [OF assms(3)]
  have reads: "toggles.reads shared_pitches" "lock.reads pieces_locked"
      "unified_signal.reads index n (unified_of ho index n)"
    using assms(2)
    by (simp_all add: toggles.reads_def lock.reads_def unified_signal.reads_def unified_of_view)
  note tracked = event_stream.caught_up_read [OF event_stream.intro [OF assms(1)] _ _ assms(4) f assms(5)]
  show ?thesis
    unfolding shared_pitches_signal_def pieces_locked_signal_def unified_pitch_classes_signal_def
      last_signal_value [of shared_pitches] last_signal_value [of pieces_locked]
      last_signal_value [of "unified_of ho index n" _ "\<lambda>e. affects_pitches e \<or> affects_voice e"]
    using tracked [OF toggles.room_reader_axioms reads(1)] tracked [OF lock.room_reader_axioms reads(2)]
      tracked [OF unified_signal.room_reader_axioms reads(3)] assms(6) by (simp add: caught_up_def)
qed

text \<open>The stream of a consumer that has kept up so far ends for good at one operation with more than 256 events whose
  sending it does not interrupt: it is cut off from every later change.\<close>

lemma send_all:
  "overflow_broadcast Q backlog capacity \<Longrightarrow> sr_sending s = es \<Longrightarrow>
   \<exists>c. run (stream_step Q graphemes index) (replicate (length es) Broadcast) s = s\<lparr>sr_sending := [], sr_channel := c\<rparr> \<and>
     backlog c (sr_receiver s) = unread backlog s @ es \<and> capacity c = capacity (sr_channel s)"
proof (induction es arbitrary: s)
  case (Cons e es)
  let ?t = "s\<lparr>sr_sending := es, sr_channel := bc_send Q e (sr_channel s)\<rparr>"
  show ?case using Cons.IH [OF Cons.prems(1), of ?t] Cons.prems by (auto simp: unread_def overflow_broadcast_def)
next
  case Nil
  then show ?case by (intro exI [where x = "sr_channel s"]) (simp add: unread_def)
qed

theorem long_operation_ends_stream:
  assumes "overflow_broadcast Q backlog capacity" and "capacity (sr_channel s) = 256" and "caught_up backlog s"
    and "es = new_events (sr_room s) (projection_step graphemes index op (sr_room s))" and "256 < length es"
  shows "sr_ended (run (stream_step Q graphemes index) (Operate op # replicate (length es) Broadcast @ [Receive]) s) \<and>
         sr_seen (run (stream_step Q graphemes index) (Operate op # replicate (length es) Broadcast @ Receive # later) s) = sr_seen s"
proof -
  let ?step = "stream_step Q graphemes index"
  let ?t = "?step (Operate op) s"
  have c: "sr_sending s = []" "sr_hand s = None" "\<not> sr_ended s" "unread backlog s = []"
    using assms(3) by (auto simp: caught_up_def outstanding_def split: option.splits)
  have t: "?t = s\<lparr>sr_room := projection_step graphemes index op (sr_room s), sr_sending := es\<rparr>"
    using c by (simp add: assms(4) Let_def)
  obtain ch where sent: "run ?step (replicate (length es) Broadcast) ?t = ?t\<lparr>sr_sending := [], sr_channel := ch\<rparr>"
      "backlog ch (sr_receiver s) = es" "capacity ch = 256"
    using send_all [OF assms(1), of ?t es] c assms(2) unfolding t by (auto simp: unread_def)
  let ?u = "?t\<lparr>sr_sending := [], sr_channel := ch\<rparr>"
  have "fst (bc_recv Q (sr_receiver s) ch) = Overflowed"
    using receives [OF assms(1), of "sr_receiver s" ch] sent assms(5)
    by (cases "bc_recv Q (sr_receiver s) ch"; cases es) auto
  then have u: "sr_ended (?step Receive ?u) \<and> sr_hand (?step Receive ?u) = None \<and> sr_seen (?step Receive ?u) = sr_seen s"
    using c unfolding t by (cases "bc_recv Q (sr_receiver s) ch") (simp add: receive_event_def)
  have "sr_ended v \<and> sr_hand v = None \<Longrightarrow> sr_seen (run ?step later v) = sr_seen v" for v
  proof (induction later arbitrary: v)
    case (Cons a later)
    have "sr_ended (?step a v) \<and> sr_hand (?step a v) = None \<and> sr_seen (?step a v) = sr_seen v"
      using Cons.prems by (cases a) (auto simp: receive_event_def Let_def split: list.split)
    then show ?case using Cons.IH [of "?step a v"] by simp
  qed simp
  then show ?thesis using u sent(1) by simp
qed

text \<open>A slow consumer is safe too. Whatever states of the room the main output happens to read
  at its events, in any order and with any events in between, its deltas start no sounding note and
  stop no silent one, and they add up to the last state it read.\<close>

theorem unified_deltas_any_schedule:
  assumes "lists_sets order" and "order_ok ho" and "wf_projection r"
    and "\<forall>d \<in> set ds. wf_projection (snd d)"
  shows "disciplined {} (unified_pitch_class_deltas order ho index n r ds) \<and>
         fold apply_delta (unified_pitch_class_deltas order ho index n r ds) {} =
           unified_of ho index n (last (r # map snd ds))"
proof -
  let ?re = "\<lambda>(event, room) prev. unified_of ho index n room"
  have "finite (?re d s)" if "d \<in> set ds" for d s
    using finite_reads(1) [OF _ assms(2)] assms(4) that by (cases d) force
  moreover have "fold ?re ds x = (if ds = [] then x else unified_of ho index n (snd (last ds)))" for x
    by (induction ds arbitrary: x) auto
  ultimately show ?thesis
    using stream_telescope [OF assms(1), of "unified_of ho index n r" ds ?re] finite_reads(1) [OF assms(3,2)]
    unfolding unified_pitch_class_deltas_def Let_def by (simp add: last_map)
qed

section \<open>Witnesses\<close>

lemma lists_sets_sorted: "lists_sets (sorted_list_of_set :: 'a::linorder set \<Rightarrow> 'a list)"
  by (simp add: lists_sets_def)

lemma reachable_new: "reachable graphemes index (projection_new actor)"
  unfolding reachable_def by (intro exI [of _ actor] exI [of _ "[]"]) simp

definition demo_ops :: "projection_op list" where
  "demo_ops = [AddPitch (PitchClass 4), AddPiece ''a'' 67 ''x'', RemovePitch (PitchClass 4),
     SetVoicePitch (Some 69)]"

lemma demo_ops_ok: "list_all op_ok demo_ops"
  by (simp add: demo_ops_def)

lemma demo_run:
  "shared_pitches (run (projection_step (\<lambda>s. [s]) pc_number) demo_ops (projection_new ''me'')) = {}"
  "pieces (run (projection_step (\<lambda>s. [s]) pc_number) demo_ops (projection_new ''me'')) =
     [''a'' \<mapsto> \<lparr>piece_id = ''a'', piece_pitch = 67, piece_emoji = ''x''\<rparr>]"
  "pieces_locked (run (projection_step (\<lambda>s. [s]) pc_number) demo_ops (projection_new ''me'')) = False"
  by (simp_all add: demo_ops_def projection_new_def add_pitch_def remove_pitch_def add_piece_def
      has_piece_at_def set_voice_pitch_def set_voice_def get_peer_voice_def)

text \<open>A channel as the crate documents it: its capacity, the number of receivers and what each has not read, of which
  a receiver that lost events keeps the last ones.\<close>

type_synonym kept = "nat \<times> nat \<times> (nat \<Rightarrow> room_event list)"

definition kept_channel :: "kept broadcast_ops" where
  "kept_channel =
     \<lparr>bc_open = (\<lambda>n. (n, 0, \<lambda>_. [])),
      bc_send = (\<lambda>e (n, k, waits). (n, k, \<lambda>i. waits i @ [e])),
      bc_join = (\<lambda>(n, k, waits). (k, n, Suc k, waits(k := []))),
      bc_recv = (\<lambda>i (n, k, waits). case waits i of
         [] \<Rightarrow> (Nothing_Yet, n, k, waits)
       | e # es \<Rightarrow> if Suc (length es) > n then (Overflowed, n, k, waits(i := drop (Suc (length es) - n) (e # es)))
                  else (Received e, n, k, waits(i := es)))\<rparr>"

definition kept_backlog :: "kept \<Rightarrow> nat \<Rightarrow> room_event list" where
  "kept_backlog c i = snd (snd c) i"

lemma kept_law: "overflow_broadcast kept_channel kept_backlog fst"
  by (auto simp: overflow_broadcast_def kept_channel_def kept_backlog_def split: list.split)

interpretation kept: event_stream kept_channel kept_backlog fst
  by unfold_locales (rule kept_law)

definition demo_actions :: "stream_action list" where
  "demo_actions = concat (map (\<lambda>op. [Operate op, Broadcast, Receive, Read_Room]) demo_ops)"

definition demo_stream :: "kept stream_run" where
  "demo_stream = run (stream_step kept_channel (\<lambda>s. [s]) pc_number) demo_actions (subscribe kept_channel (projection_new ''me''))"

lemma demo_actions_ok: "list_all action_ok demo_actions"
  by (simp add: demo_actions_def demo_ops_def)

lemma demo_stream_state:
  "sr_room demo_stream = run (projection_step (\<lambda>s. [s]) pc_number) demo_ops (projection_new ''me'')"
  "caught_up kept_backlog demo_stream" "length (sr_seen demo_stream) = 4"
  by (simp_all add: demo_stream_def demo_actions_def demo_ops_def subscribe_def room_channel_def kept_channel_def
      event_channel_capacity_def caught_up_def outstanding_def unread_def kept_backlog_def receive_event_def new_events_def
      projection_new_def add_pitch_def remove_pitch_def add_piece_def has_piece_at_def set_voice_pitch_def set_voice_def
      get_peer_voice_def Let_def emit_def notify_def)

theorem unified_deltas_track_room_witness:
  "length (sr_seen demo_stream) = 4 \<and>
   fold apply_delta (unified_pitch_class_deltas sorted_list_of_set sorted_order pc_number 12 (projection_new ''me'')
     (sr_seen demo_stream)) {} = {7}"
proof -
  have "wf_projection (sr_room demo_stream)"
    using log_faithful_wf [OF room_log.ginvar_reached [OF demo_ops_ok]] by (simp add: demo_stream_state)
  then have "unified_of sorted_order pc_number 12 (sr_room demo_stream) = {7}"
    by (simp add: unified_of_view sorted_order_ok sounding_def demo_stream_state demo_run ran_def rem_euclid_def fun_eq_iff)
  then show ?thesis
    using unified_deltas_track_room [OF kept_law lists_sets_sorted sorted_order_ok reachable_new [of _ _ "''me''"] demo_actions_ok
        demo_stream_def refl, where n = 12] demo_stream_state by simp
qed

theorem pitch_deltas_track_room_witness:
  "fold apply_delta (piece_pitch_deltas sorted_list_of_set sorted_order (projection_new ''me'') (sr_seen demo_stream)) {} = {67}"
  using pitch_deltas_track_room [OF kept_law lists_sets_sorted sorted_order_ok reachable_new [of _ _ "''me''"] demo_actions_ok
      demo_stream_def refl refl] demo_stream_state by (simp add: demo_run)

theorem signals_show_current_state_witness:
  "last (shared_pitches_signal (projection_new ''me'') (sr_seen demo_stream)) = {} \<and>
   \<not> last (pieces_locked_signal (projection_new ''me'') (sr_seen demo_stream))"
  using signals_show_current_state [OF kept_law sorted_order_ok reachable_new [of _ _ "''me''"] demo_actions_ok demo_stream_def]
    demo_stream_state by (simp add: demo_run)

text \<open>A room of 257 pitches replaces an empty one.\<close>

definition many_pitches :: projection_op where
  "many_pitches = ReplaceReplica sorted_order sorted_order (map (\<lambda>i. PitchClass (of_nat i)) [0..<257]) [] [] False None"

lemma many_events:
  "length (new_events (projection_new ''me'') (projection_step (\<lambda>s. [s]) pc_number many_pitches (projection_new ''me''))) = 257"
proof -
  let ?ps = "map (\<lambda>i. PitchClass (of_nat i)) [0..<257]"
  have "inj_on (\<lambda>i. PitchClass (of_nat i)) {0..<257}"
    by (rule inj_onI) (simp add: word_of_nat_eq_iff take_bit_nat_eq_self)
  then have "card (set ?ps) = 257" by (simp add: card_image)
  then have "length (sorted_list_of_set (set ?ps)) = 257" by (simp only: length_sorted_list_of_set)
  then show ?thesis
    by (simp add: many_pitches_def new_events_def replace_replica_projection_def Let_def emit_diffs_def emit_all diff_events_def
        snapshot_def projection_new_def sorted_order_def emit_def notify_def)
qed

theorem long_operation_ends_stream_witness:
  "sr_ended (run (stream_step kept_channel (\<lambda>s. [s]) pc_number)
     (Operate many_pitches # replicate (length (new_events (projection_new ''me'')
        (projection_step (\<lambda>s. [s]) pc_number many_pitches (projection_new ''me'')))) Broadcast @ [Receive])
     (subscribe kept_channel (projection_new ''me'')))"
  using long_operation_ends_stream [OF kept_law _ _ refl, of "subscribe kept_channel (projection_new ''me'')" "\<lambda>s. [s]" pc_number
      many_pitches] many_events
  by (simp add: subscribe_def room_channel_def kept_channel_def event_channel_capacity_def caught_up_def outstanding_def
      unread_def kept_backlog_def projection_new_def del: replicate.simps)

theorem unified_deltas_any_schedule_witness:
  "disciplined {} (unified_pitch_class_deltas sorted_list_of_set sorted_order pc_number 12
     (projection_new ''me'') [(PitchesCleared, add_pitch (PitchClass 3) (projection_new ''me''))])"
proof -
  have "wf_projection (projection_new ''me'')" "wf_projection (add_pitch (PitchClass 3) (projection_new ''me''))"
    by (simp_all add: wf_projection_def projection_new_def add_pitch_def)
  then show ?thesis
    using unified_deltas_any_schedule [OF lists_sets_sorted sorted_order_ok, of "projection_new ''me''"
        "[(PitchesCleared, add_pitch (PitchClass 3) (projection_new ''me''))]"] by simp
qed

end
