(* ===== verification/Byte_Codec.thy ===== *)
theory Byte_Codec
  imports Prelude
begin

text \<open>
  Fixed-width integers on the wire (\<open>to_le_bytes\<close>, \<open>from_le_bytes\<close> and the big-endian pair of
  Rust's standard library), slices, and the interface \<open>domain_codec\<close> of the message formats that
  start with a domain tag: encoding and decoding are inverse, only the one canonical encoding of a
  message decodes, and it starts with the tag.
\<close>

section \<open>Integers\<close>

fun le_bytes :: "nat \<Rightarrow> nat \<Rightarrow> bytes" where
  "le_bytes 0 v = []"
| "le_bytes (Suc n) v = word_of_nat (v mod 256) # le_bytes n (v div 256)"

fun le_value :: "bytes \<Rightarrow> nat" where
  "le_value [] = 0"
| "le_value (b # bs) = unat b + 256 * le_value bs"

lemma length_le_bytes [simp]: "length (le_bytes n v) = n"
  by (induction n arbitrary: v) simp_all

lemma le_bytes_numeral:
  "le_bytes (numeral n) v = word_of_nat (v mod 256) # le_bytes (pred_numeral n) (v div 256)"
  by (simp only: numeral_eq_Suc [of n] le_bytes.simps)

lemma unat_u8_less: "unat (b :: u8) < 256"
  using unsigned_less [of b] by simp

lemma unat_u8_mod: "unat (word_of_nat (v mod 256) :: u8) = v mod 256"
  by (simp add: unat_of_nat)

lemma le_value_le_bytes: "le_value (le_bytes n v) = v mod 256 ^ n"
  by (induction n arbitrary: v) (simp_all add: unat_u8_mod mod_mult2_eq)

lemma le_value_bound: "le_value bs < 256 ^ length bs"
proof (induction bs)
  case (Cons b bs)
  have "unat b < 256" by (rule unat_u8_less)
  then show ?case using Cons by simp
qed simp

lemma le_bytes_le_value: "le_bytes (length bs) (le_value bs) = bs"
proof (induction bs)
  case (Cons b bs)
  have b: "unat b < 256" by (rule unat_u8_less)
  then have "(unat b + 256 * le_value bs) mod 256 = unat b" "(unat b + 256 * le_value bs) div 256 = le_value bs"
    by simp_all
  then show ?case using Cons by simp
qed simp

definition to_le :: "'a::len word \<Rightarrow> bytes" where
  "to_le w = le_bytes (LENGTH('a) div 8) (unat w)"

definition from_le :: "bytes \<Rightarrow> 'a::len word" where
  "from_le bs = word_of_nat (le_value bs)"

definition to_be :: "'a::len word \<Rightarrow> bytes" where
  "to_be w = rev (to_le w)"

definition from_be :: "bytes \<Rightarrow> 'a::len word" where
  "from_be bs = from_le (rev bs)"

lemma length_to_le [simp]: "length (to_le (w :: 'a::len word)) = LENGTH('a) div 8"
  by (simp add: to_le_def)

lemma length_to_be [simp]: "length (to_be (w :: 'a::len word)) = LENGTH('a) div 8"
  by (simp add: to_be_def)

lemma from_le_to_le: "8 dvd LENGTH('a) \<Longrightarrow> from_le (to_le w) = (w :: 'a::len word)"
proof -
  assume d: "8 dvd LENGTH('a)"
  have "(256 :: nat) ^ (LENGTH('a) div 8) = 2 ^ (8 * (LENGTH('a) div 8))"
    by (simp add: power_mult)
  also have "\<dots> = 2 ^ LENGTH('a)" using d by simp
  finally have "unat w mod 256 ^ (LENGTH('a) div 8) = unat w" by simp
  then show ?thesis by (simp add: from_le_def to_le_def le_value_le_bytes)
qed

lemma to_le_from_le:
  assumes "8 dvd LENGTH('a)" and "length bs = LENGTH('a) div 8"
  shows "to_le (from_le bs :: 'a::len word) = bs"
proof -
  have "(256 :: nat) ^ (LENGTH('a) div 8) = 2 ^ (8 * (LENGTH('a) div 8))"
    by (simp add: power_mult)
  also have "\<dots> = 2 ^ LENGTH('a)" using assms(1) by simp
  finally have "le_value bs < 2 ^ LENGTH('a)" using le_value_bound [of bs] assms(2) by simp
  then have "unat (from_le bs :: 'a word) = le_value bs"
    by (simp add: from_le_def unat_of_nat)
  then show ?thesis using le_bytes_le_value [of bs] assms(2) by (simp add: to_le_def)
qed

lemma le_inverse [simp]:
  "from_le (to_le (w16 :: u16)) = w16" "from_le (to_le (w32 :: u32)) = w32"
  "from_le (to_le (w64 :: u64)) = w64" "from_be (to_be w32) = w32"
  by (simp_all add: from_le_to_le from_be_def to_be_def)

lemma le_canonical:
  "length bs = 2 \<Longrightarrow> to_le (from_le bs :: u16) = bs"
  "length bs = 4 \<Longrightarrow> to_le (from_le bs :: u32) = bs"
  "length bs = 8 \<Longrightarrow> to_le (from_le bs :: u64) = bs"
  by (simp_all add: to_le_from_le)

section \<open>Slices\<close>

definition slice :: "'a list \<Rightarrow> nat \<Rightarrow> nat \<Rightarrow> 'a list" where
  "slice bs i j = take (j - i) (drop i bs)"

lemma length_slice [simp]: "i \<le> j \<Longrightarrow> j \<le> length bs \<Longrightarrow> length (slice bs i j) = j - i"
  by (simp add: slice_def)

lemma slice_append: "i = length xs \<Longrightarrow> j = i + length ys \<Longrightarrow> slice (xs @ ys @ zs) i j = ys"
  by (simp add: slice_def)

lemma slice_split: "i \<le> j \<Longrightarrow> drop i bs = slice bs i j @ drop j bs"
proof -
  assume "i \<le> j"
  then have "drop j bs = drop (j - i) (drop i bs)" by simp
  then show ?thesis by (simp only: slice_def append_take_drop_id)
qed

section \<open>Messages with a domain tag\<close>

lemma starts_with_drop: "starts_with bs domain \<Longrightarrow> bs = domain @ drop (length domain) bs"
  by (metis starts_with_def append_take_drop_id)

text \<open>Two tags that differ within their common length never start the same message.\<close>

definition separated :: "bytes \<Rightarrow> bytes \<Rightarrow> bool" where
  "separated d e \<longleftrightarrow> take (length e) d \<noteq> take (length d) e"

lemma separated_starts:
  assumes "separated d e" and "starts_with bs d"
  shows "\<not> starts_with bs e"
proof
  assume "starts_with bs e"
  then have "take (length d) e = take (length d) (take (length e) bs)" by (simp add: starts_with_def)
  also have "\<dots> = take (length e) (take (length d) bs)" by (simp add: min.commute)
  also have "\<dots> = take (length e) d" using assms(2) by (simp add: starts_with_def)
  finally show False using assms(1) by (simp add: separated_def)
qed

locale domain_codec =
  fixes domain :: bytes
    and enc :: "'m \<Rightarrow> bytes"
    and dec :: "bytes \<Rightarrow> 'm option"
    and valid :: "'m \<Rightarrow> bool"
  assumes roundtrip: "valid m \<Longrightarrow> dec (enc m) = Some m"
    and canonical: "dec bs = Some m \<Longrightarrow> valid m \<and> enc m = bs"
    and tagged: "starts_with (enc m) domain"
begin

lemma enc_inj: "valid m \<Longrightarrow> valid n \<Longrightarrow> enc m = enc n \<Longrightarrow> m = n"
  by (metis roundtrip option.inject)

lemma dec_inj: "dec bs = Some m \<Longrightarrow> dec cs = Some m \<Longrightarrow> bs = cs"
  using canonical by blast

lemma dec_iff: "dec bs = Some m \<longleftrightarrow> valid m \<and> enc m = bs"
  using canonical roundtrip by blast

lemma dec_tagged: "dec bs = Some m \<Longrightarrow> starts_with bs domain"
  using canonical tagged by metis

lemma dec_foreign: "separated other domain \<Longrightarrow> starts_with bs other \<Longrightarrow> dec bs = None"
  using dec_tagged separated_starts by (metis not_None_eq)

end

end
