(* ===== verification/Replica_Wire.thy ===== *)
theory Replica_Wire
  imports Byte_Codec "HOL-Library.List_Lexorder"
begin

text \<open>
  \<open>src/src/net/replica.rs\<close> and the lane identities of \<open>src/src/room/v5.rs\<close>: the gossip messages of
  the replica carrier (repair hints, repair probes, live records), the repair protocol table and the
  choice of the repair initiator. \<open>PeerId\<close>, \<open>EntryHash\<close> and \<open>Digest\<close> wrap \<open>[u8; 32]\<close>: byte lists of
  length 32, ordered lexicographically. Parameters: the constant \<open>music_alpn\<close> of crate
  \<open>tutti_music_hhhs\<close> and the record codec of crate \<open>hhhs_replica\<close>.
\<close>

section \<open>Lanes\<close>

datatype room_lane = Music | Extension

definition room_protocol_generation :: u32 where
  "room_protocol_generation = 5"

fun tag :: "room_lane \<Rightarrow> u8" where
  "tag Music = 0x01"
| "tag Extension = 0x02"

definition extension_repair_alpn :: bytes where
  "extension_repair_alpn = ascii_bytes ''walkie/extension/hhhs-replica/5/repair-2''"

fun repair_alpn :: "bytes \<Rightarrow> room_lane \<Rightarrow> bytes" where
  "repair_alpn music_alpn Music = music_alpn"
| "repair_alpn music_alpn Extension = extension_repair_alpn"

datatype protocol_support = ProtocolSupport (support_bits: u8)

definition protocol_support_walkie :: protocol_support where
  "protocol_support_walkie = ProtocolSupport (or (tag Music) (tag Extension))"

definition from_bits :: "u8 \<Rightarrow> protocol_support option" where
  "from_bits bits =
     (if bits = 0 \<or> and bits (not (support_bits protocol_support_walkie)) \<noteq> 0 then None
      else Some (ProtocolSupport bits))"

definition supports :: "protocol_support \<Rightarrow> room_lane \<Rightarrow> bool" where
  "supports s lane \<longleftrightarrow> and (support_bits s) (tag lane) \<noteq> 0"

datatype replica_protocol = Repair room_lane

fun alpn :: "bytes \<Rightarrow> replica_protocol \<Rightarrow> bytes" where
  "alpn music_alpn (Repair lane) = repair_alpn music_alpn lane"

definition from_alpn :: "bytes \<Rightarrow> bytes \<Rightarrow> replica_protocol option" where
  "from_alpn music_alpn a =
     map_option Repair (find (\<lambda>lane. repair_alpn music_alpn lane = a) [Music, Extension])"

definition is_routine_repair_initiator :: "bytes \<Rightarrow> bytes \<Rightarrow> bool" where
  "is_routine_repair_initiator local remote \<longleftrightarrow> local < remote"

section \<open>Messages\<close>

record repair_hint =
  rh_lane :: room_lane
  rh_source :: bytes
  rh_entry :: bytes

record repair_probe =
  rp_lane :: room_lane
  rp_source :: bytes
  rp_frontier :: bytes

record 'r live_record =
  lr_lane :: room_lane
  lr_source :: bytes
  lr_record :: 'r

definition repair_hint_domain :: bytes where
  "repair_hint_domain = ascii_bytes ''walkie replica repair hint v5'' @ [0]"

definition repair_probe_domain :: bytes where
  "repair_probe_domain = ascii_bytes ''walkie replica repair probe v5'' @ [0]"

definition live_record_domain :: bytes where
  "live_record_domain = ascii_bytes ''walkie replica live record v5'' @ [0]"

definition repair_hint_bytes :: nat where
  "repair_hint_bytes = length repair_hint_domain + 4 + 1 + 32 + 32"

definition repair_probe_bytes :: nat where
  "repair_probe_bytes = length repair_probe_domain + 4 + 1 + 32 + 32"

definition live_record_header_bytes :: nat where
  "live_record_header_bytes = length live_record_domain + 4 + 1 + 32"

definition hint_encode :: "repair_hint \<Rightarrow> bytes" where
  "hint_encode h =
     repair_hint_domain @ to_le room_protocol_generation @ [tag (rh_lane h)] @ rh_source h @ rh_entry h"

definition probe_encode :: "repair_probe \<Rightarrow> bytes" where
  "probe_encode p =
     repair_probe_domain @ to_le room_protocol_generation @ [tag (rp_lane p)] @ rp_source p @ rp_frontier p"

definition live_encode :: "('r \<Rightarrow> bytes) \<Rightarrow> 'r live_record \<Rightarrow> bytes" where
  "live_encode record_encode l =
     live_record_domain @ to_le room_protocol_generation @ [tag (lr_lane l)] @ lr_source l @
     record_encode (lr_record l)"

definition lane_of_tag :: "u8 \<Rightarrow> room_lane option" where
  "lane_of_tag b = (if b = tag Music then Some Music else if b = tag Extension then Some Extension else None)"

text \<open>The part the three decoders share, from the cursor after the domain: the generation, the lane
  and the source; the result has the cursor after the source.\<close>

definition decode_header :: "bytes \<Rightarrow> nat \<Rightarrow> (room_lane \<times> bytes \<times> nat) option" where
  "decode_header bs cursor =
     (if from_le (slice bs cursor (cursor + 4)) \<noteq> room_protocol_generation then None
      else case lane_of_tag (bs ! (cursor + 4)) of
             None \<Rightarrow> None
           | Some lane \<Rightarrow> Some (lane, slice bs (cursor + 5) (cursor + 37), cursor + 37))"

definition hint_decode :: "bytes \<Rightarrow> repair_hint option" where
  "hint_decode bs =
     (if length bs \<noteq> repair_hint_bytes \<or> \<not> starts_with bs repair_hint_domain then None
      else case decode_header bs (length repair_hint_domain) of
             None \<Rightarrow> None
           | Some (lane, source, cursor) \<Rightarrow>
               Some \<lparr>rh_lane = lane, rh_source = source, rh_entry = slice bs cursor (cursor + 32)\<rparr>)"

definition probe_decode :: "bytes \<Rightarrow> repair_probe option" where
  "probe_decode bs =
     (if length bs \<noteq> repair_probe_bytes \<or> \<not> starts_with bs repair_probe_domain then None
      else case decode_header bs (length repair_probe_domain) of
             None \<Rightarrow> None
           | Some (lane, source, cursor) \<Rightarrow>
               Some \<lparr>rp_lane = lane, rp_source = source, rp_frontier = slice bs cursor (cursor + 32)\<rparr>)"

definition live_decode :: "(bytes \<Rightarrow> 'r option) \<Rightarrow> bytes \<Rightarrow> 'r live_record option" where
  "live_decode record_decode bs =
     (if length bs \<le> live_record_header_bytes \<or> \<not> starts_with bs live_record_domain then None
      else case decode_header bs (length live_record_domain) of
             None \<Rightarrow> None
           | Some (lane, source, cursor) \<Rightarrow>
               (case record_decode (drop cursor bs) of
                  None \<Rightarrow> None
                | Some r \<Rightarrow> Some \<lparr>lr_lane = lane, lr_source = source, lr_record = r\<rparr>))"

section \<open>The shared header\<close>

lemma lane_of_tag [simp]: "lane_of_tag (tag lane) = Some lane"
  by (cases lane) (simp_all add: lane_of_tag_def)

lemma lane_of_tag_Some: "lane_of_tag b = Some lane \<longleftrightarrow> b = tag lane"
  by (cases lane) (auto simp: lane_of_tag_def)

lemma decode_header_encoded:
  assumes "length source = 32" and "cursor = length domain"
  shows "decode_header (domain @ to_le room_protocol_generation @ [tag lane] @ source @ rest) cursor =
         Some (lane, source, cursor + 37)"
proof -
  let ?g = "to_le room_protocol_generation"
  let ?bs = "domain @ ?g @ [tag lane] @ source @ rest"
  have "slice ?bs cursor (cursor + 4) = ?g"
    by (rule slice_append) (simp_all add: assms)
  moreover have "?bs ! (cursor + 4) = tag lane"
    by (simp add: assms nth_append)
  moreover have "slice ((domain @ ?g @ [tag lane]) @ source @ rest) (cursor + 5) (cursor + 37) = source"
    by (rule slice_append) (simp_all add: assms)
  ultimately show ?thesis by (simp add: decode_header_def)
qed

lemma decode_header_canonical:
  assumes "decode_header bs cursor = Some (lane, source, c)" and "cursor + 37 \<le> length bs"
  shows "c = cursor + 37 \<and> length source = 32 \<and>
         drop cursor bs = to_le room_protocol_generation @ [tag lane] @ source @ drop c bs"
proof -
  have g: "from_le (slice bs cursor (cursor + 4)) = room_protocol_generation"
    and t: "bs ! (cursor + 4) = tag lane" and s: "source = slice bs (cursor + 5) (cursor + 37)"
    and c: "c = cursor + 37"
    using assms(1) by (auto simp: decode_header_def lane_of_tag_Some split: if_splits option.splits)
  have "slice bs cursor (cursor + 4) = to_le room_protocol_generation"
    using le_canonical(2) [of "slice bs cursor (cursor + 4)"] assms(2) g by simp
  moreover have "drop cursor bs = slice bs cursor (cursor + 4) @ drop (cursor + 4) bs"
    by (rule slice_split) simp
  moreover have "drop (cursor + 4) bs = bs ! (cursor + 4) # drop (cursor + 5) bs"
    using assms(2) Cons_nth_drop_Suc [of "cursor + 4" bs] by (simp add: add.commute)
  moreover have "drop (cursor + 5) bs = source @ drop (cursor + 37) bs"
    unfolding s by (rule slice_split) simp
  ultimately show ?thesis
    using assms(2) t c by (simp add: s)
qed

section \<open>The three formats\<close>

definition hint_valid :: "repair_hint \<Rightarrow> bool" where
  "hint_valid h \<longleftrightarrow> length (rh_source h) = 32 \<and> length (rh_entry h) = 32"

definition probe_valid :: "repair_probe \<Rightarrow> bool" where
  "probe_valid p \<longleftrightarrow> length (rp_source p) = 32 \<and> length (rp_frontier p) = 32"

lemma hint_roundtrip: "hint_valid h \<Longrightarrow> hint_decode (hint_encode h) = Some h"
proof -
  assume v: "hint_valid h"
  let ?d = "repair_hint_domain" and ?g = "to_le room_protocol_generation"
  have "slice ((?d @ ?g @ [tag (rh_lane h)] @ rh_source h) @ rh_entry h @ []) (length ?d + 37) (length ?d + 37 + 32)
      = rh_entry h"
    using v by (intro slice_append) (simp_all add: hint_valid_def)
  then show ?thesis
    using v decode_header_encoded [of "rh_source h" "length ?d" ?d "rh_lane h" "rh_entry h"]
    by (simp add: hint_decode_def hint_encode_def hint_valid_def repair_hint_bytes_def)
qed

lemma probe_roundtrip: "probe_valid p \<Longrightarrow> probe_decode (probe_encode p) = Some p"
proof -
  assume v: "probe_valid p"
  let ?d = "repair_probe_domain" and ?g = "to_le room_protocol_generation"
  have "slice ((?d @ ?g @ [tag (rp_lane p)] @ rp_source p) @ rp_frontier p @ []) (length ?d + 37) (length ?d + 37 + 32)
      = rp_frontier p"
    using v by (intro slice_append) (simp_all add: probe_valid_def)
  then show ?thesis
    using v decode_header_encoded [of "rp_source p" "length ?d" ?d "rp_lane p" "rp_frontier p"]
    by (simp add: probe_decode_def probe_encode_def probe_valid_def repair_probe_bytes_def)
qed

lemma tail_slice: "length bs = c + n \<Longrightarrow> slice bs c (c + n) = drop c bs"
  by (simp add: slice_def)

lemma hint_canonical: "hint_decode bs = Some h \<Longrightarrow> hint_valid h \<and> hint_encode h = bs"
proof -
  assume d: "hint_decode bs = Some h"
  then obtain lane source c where len: "length bs = repair_hint_bytes" and st: "starts_with bs repair_hint_domain"
    and hd: "decode_header bs (length repair_hint_domain) = Some (lane, source, c)"
    and h: "h = \<lparr>rh_lane = lane, rh_source = source, rh_entry = slice bs c (c + 32)\<rparr>"
    by (auto simp: hint_decode_def split: if_splits option.splits)
  note k = decode_header_canonical [OF hd]
  show ?thesis
    using len k st starts_with_drop [OF st] tail_slice [of bs c 32]
    by (simp add: hint_valid_def hint_encode_def h repair_hint_bytes_def)
qed

lemma probe_canonical: "probe_decode bs = Some p \<Longrightarrow> probe_valid p \<and> probe_encode p = bs"
proof -
  assume d: "probe_decode bs = Some p"
  then obtain lane source c where len: "length bs = repair_probe_bytes" and st: "starts_with bs repair_probe_domain"
    and hd: "decode_header bs (length repair_probe_domain) = Some (lane, source, c)"
    and p: "p = \<lparr>rp_lane = lane, rp_source = source, rp_frontier = slice bs c (c + 32)\<rparr>"
    by (auto simp: probe_decode_def split: if_splits option.splits)
  note k = decode_header_canonical [OF hd]
  show ?thesis
    using len k st starts_with_drop [OF st] tail_slice [of bs c 32]
    by (simp add: probe_valid_def probe_encode_def p repair_probe_bytes_def)
qed

interpretation hint: domain_codec repair_hint_domain hint_encode hint_decode hint_valid
  by unfold_locales (fact hint_roundtrip, fact hint_canonical, simp add: hint_encode_def)

interpretation probe: domain_codec repair_probe_domain probe_encode probe_decode probe_valid
  by unfold_locales (fact probe_roundtrip, fact probe_canonical, simp add: probe_encode_def)

lemma live_tagged: "live_decode record_decode bs = Some l \<Longrightarrow> starts_with bs live_record_domain"
  by (auto simp: live_decode_def split: if_splits)

lemma domains_separated:
  "separated repair_hint_domain repair_probe_domain" "separated repair_probe_domain repair_hint_domain"
  "separated repair_hint_domain live_record_domain" "separated live_record_domain repair_hint_domain"
  "separated repair_probe_domain live_record_domain" "separated live_record_domain repair_probe_domain"
  by (simp_all add: separated_def repair_hint_domain_def repair_probe_domain_def live_record_domain_def
      ascii_bytes_def)

section \<open>Properties\<close>

text \<open>Repair hints and probes have exactly one wire form: what is encoded decodes to itself, and a
  byte string that decodes at all is the encoding of the message it decodes to, so nothing may be
  appended, truncated or altered unnoticed.\<close>

theorem hint_probe_strict:
  "(hint_decode bs = Some h \<longleftrightarrow> hint_valid h \<and> hint_encode h = bs) \<and>
   (probe_decode bs = Some p \<longleftrightarrow> probe_valid p \<and> probe_encode p = bs)"
  using hint.dec_iff probe.dec_iff by simp

text \<open>A live record decodes to the record it carries, whenever the record codec is invertible and
  no record has an empty encoding; and what decodes carries the generation, lane and source it shows.\<close>

theorem live_record_roundtrip:
  assumes "\<And>r. record_decode (record_encode r) = Some r" and "\<And>r. record_encode r \<noteq> []"
    and "length (lr_source l) = 32"
  shows "live_decode record_decode (live_encode record_encode l) = Some l"
proof -
  let ?d = "live_record_domain"
  have "record_encode (lr_record l) \<noteq> []" by (rule assms(2))
  moreover have "drop (length ?d + 37) (live_encode record_encode l) = record_encode (lr_record l)"
    using assms(3) by (simp add: live_encode_def)
  ultimately show ?thesis
    using assms decode_header_encoded [of "lr_source l" "length ?d" ?d "lr_lane l" "record_encode (lr_record l)"]
    by (simp add: live_decode_def live_encode_def live_record_header_bytes_def)
qed

text \<open>No gossip message is taken for another: a byte string decodes as at most one of hint, probe
  and live record, whatever the record decoder does.\<close>

theorem replica_messages_disjoint:
  "(hint_decode bs \<noteq> None \<longrightarrow> probe_decode bs = None \<and> live_decode record_decode bs = None) \<and>
   (probe_decode bs \<noteq> None \<longrightarrow> live_decode record_decode bs = None)"
  using hint.dec_tagged probe.dec_tagged live_tagged [of record_decode bs] domains_separated separated_starts
  by (metis not_None_eq)

text \<open>For two different peers exactly one initiates a routine repair, and a peer never initiates
  one with itself.\<close>

theorem one_repair_initiator:
  "is_routine_repair_initiator a b \<noteq> is_routine_repair_initiator b a \<longleftrightarrow> a \<noteq> b"
  by (auto simp: is_routine_repair_initiator_def)

theorem live_record_roundtrip_witness:
  "live_decode (\<lambda>bs. case bs of [b] \<Rightarrow> Some b | _ \<Rightarrow> None)
     (live_encode (\<lambda>b. [b]) \<lparr>lr_lane = Extension, lr_source = replicate 32 7, lr_record = 9 :: u8\<rparr>) =
   Some \<lparr>lr_lane = Extension, lr_source = replicate 32 7, lr_record = 9\<rparr>"
  by (rule live_record_roundtrip) simp_all

theorem replica_messages_disjoint_witness:
  "probe_decode (hint_encode \<lparr>rh_lane = Music, rh_source = replicate 32 7, rh_entry = replicate 32 8\<rparr>) = None \<and>
   live_decode (\<lambda>bs. Some bs)
     (hint_encode \<lparr>rh_lane = Music, rh_source = replicate 32 7, rh_entry = replicate 32 8\<rparr>) = None"
proof -
  let ?h = "\<lparr>rh_lane = Music, rh_source = replicate 32 7, rh_entry = replicate 32 8\<rparr>"
  have "hint_decode (hint_encode ?h) \<noteq> None" by (simp add: hint_roundtrip hint_valid_def)
  then show ?thesis
    using replica_messages_disjoint [of "hint_encode ?h" "\<lambda>bs. Some bs"] by blast
qed

end
