(* ===== verification/Realtime_Wire.thy ===== *)
theory Realtime_Wire
  imports Replica_Wire
begin

text \<open>
  \<open>src/src/net/realtime.rs\<close>: signed realtime messages of a room. The signature scheme (crate
  \<open>ed25519_dalek\<close>) and the frame codec (crate \<open>tutti_realtime\<close>) are parameters, the record \<open>scheme\<close>;
  what the code relies on is \<open>scheme_ok\<close>: keys have 32 and signatures 64 bytes, a signature verifies
  under the key of its signer, and an encoded frame decodes to itself. No assumption is made about
  forgeries: the theorems say what is covered by the signature that was checked.
\<close>

record ('sk, 'vk, 'f) scheme =
  verifying_key :: "'sk \<Rightarrow> bytes"
  sign :: "'sk \<Rightarrow> bytes \<Rightarrow> bytes"
  key_from_bytes :: "bytes \<Rightarrow> 'vk option"
  verify :: "'vk \<Rightarrow> bytes \<Rightarrow> bytes \<Rightarrow> bool"
  frame_encode :: "'f \<Rightarrow> bytes option"
  frame_decode :: "bytes \<Rightarrow> 'f option"

definition scheme_ok :: "('sk, 'vk, 'f) scheme \<Rightarrow> bool" where
  "scheme_ok c \<longleftrightarrow>
     (\<forall>sk. length (verifying_key c sk) = 32) \<and> (\<forall>sk m. length (sign c sk m) = 64) \<and>
     (\<forall>sk. \<exists>vk. key_from_bytes c (verifying_key c sk) = Some vk \<and> (\<forall>m. verify c vk m (sign c sk m))) \<and>
     (\<forall>f p. frame_encode c f = Some p \<longrightarrow> frame_decode c p = Some f)"

record 'f room_realtime =
  rt_source :: bytes
  rt_session :: u64
  rt_sequence :: u64
  rt_frame :: 'f

datatype room_realtime_error = Malformed | WrongRoom | InvalidSignature

definition realtime_domain :: bytes where
  "realtime_domain = ascii_bytes ''walkie room realtime v1'' @ [0]"

definition signature_bytes :: nat where
  "signature_bytes = 64"

definition fixed_bytes :: nat where
  "fixed_bytes = length realtime_domain + 4 + 32 + 32 + 8 + 8 + 2 + signature_bytes"

definition realtime_encode ::
  "('sk, 'vk, 'f) scheme \<Rightarrow> bytes \<Rightarrow> 'sk \<Rightarrow> u64 \<Rightarrow> u64 \<Rightarrow> 'f \<Rightarrow> room_realtime_error + bytes" where
  "realtime_encode c room_object signing_key session sequence frame =
     (case frame_encode c frame of
        None \<Rightarrow> Inl Malformed
      | Some payload \<Rightarrow>
          if length payload \<ge> 2 ^ 16 then Inl Malformed
          else
            let signed = realtime_domain @ to_le room_protocol_generation @ room_object @
                  verifying_key c signing_key @ to_le session @ to_le sequence @
                  to_le (word_of_nat (length payload) :: u16) @ payload
            in Inr (signed @ sign c signing_key signed))"

definition take_array :: "nat \<Rightarrow> bytes \<Rightarrow> nat \<Rightarrow> room_realtime_error + bytes \<times> nat" where
  "take_array n bs cursor =
     (if cursor + n \<le> length bs then Inr (slice bs cursor (cursor + n), cursor + n) else Inl Malformed)"

definition take_word :: "nat \<Rightarrow> bytes \<Rightarrow> nat \<Rightarrow> room_realtime_error + 'w::len word \<times> nat" where
  "take_word n bs cursor =
     (case take_array n bs cursor of Inl e \<Rightarrow> Inl e | Inr (a, c) \<Rightarrow> Inr (from_le a, c))"

definition realtime_decode ::
  "('sk, 'vk, 'f) scheme \<Rightarrow> bytes \<Rightarrow> bytes \<Rightarrow> room_realtime_error + 'f room_realtime" where
  "realtime_decode c room_object bs =
     (if length bs < fixed_bytes \<or> \<not> starts_with bs realtime_domain then Inl Malformed else
      case take_word 4 bs (length realtime_domain) of Inl e \<Rightarrow> Inl e | Inr (generation, c1) \<Rightarrow>
      case take_array 32 bs c1 of Inl e \<Rightarrow> Inl e | Inr (object, c2) \<Rightarrow>
      if generation \<noteq> room_protocol_generation \<or> object \<noteq> room_object then Inl WrongRoom else
      case take_array 32 bs c2 of Inl e \<Rightarrow> Inl e | Inr (source, c3) \<Rightarrow>
      case take_word 8 bs c3 of Inl e \<Rightarrow> Inl e | Inr (session, c4) \<Rightarrow>
      case take_word 8 bs c4 of Inl e \<Rightarrow> Inl e | Inr (sequence, c5) \<Rightarrow>
      case take_word 2 bs c5 of Inl e \<Rightarrow> Inl e | Inr (payload_len :: u16, cursor) \<Rightarrow>
      let signed_len = cursor + unat payload_len in
      if signed_len + signature_bytes \<noteq> length bs then Inl Malformed else
      let payload = slice bs cursor signed_len; signature = drop signed_len bs in
      case key_from_bytes c source of None \<Rightarrow> Inl InvalidSignature | Some vk \<Rightarrow>
      if \<not> verify c vk (take signed_len bs) signature then Inl InvalidSignature else
      case frame_decode c payload of None \<Rightarrow> Inl Malformed | Some frame \<Rightarrow>
      Inr \<lparr>rt_source = source, rt_session = session, rt_sequence = sequence, rt_frame = frame\<rparr>)"

section \<open>Layout\<close>

lemma take_array_at:
  assumes "bs = xs @ ys @ zs" and "cursor = length xs" and "n = length ys" and "d = cursor + n"
  shows "take_array n bs cursor = Inr (ys, d)"
  using assms slice_append [OF assms(2), of "cursor + n" ys zs] by (simp add: take_array_def)

text \<open>The fields in order, with \<open>len\<close> the two bytes of the payload length.\<close>

definition layout :: "bytes \<Rightarrow> bytes \<Rightarrow> bytes \<Rightarrow> bytes \<Rightarrow> bytes \<Rightarrow> bytes \<Rightarrow> bytes \<Rightarrow> bytes \<Rightarrow> bytes" where
  "layout gen obj src ses seq len payload sig =
     realtime_domain @ gen @ obj @ src @ ses @ seq @ len @ payload @ sig"

lemma fields_at:
  assumes "length gen = 4" "length obj = 32" "length src = 32" "length ses = 8" "length seq = 8" "length len = 2"
  shows "take_array 4 (layout gen obj src ses seq len payload sig) (length realtime_domain)
           = Inr (gen, length realtime_domain + 4)"
    and "take_array 32 (layout gen obj src ses seq len payload sig) (length realtime_domain + 4)
           = Inr (obj, length realtime_domain + 36)"
    and "take_array 32 (layout gen obj src ses seq len payload sig) (length realtime_domain + 36)
           = Inr (src, length realtime_domain + 68)"
    and "take_array 8 (layout gen obj src ses seq len payload sig) (length realtime_domain + 68)
           = Inr (ses, length realtime_domain + 76)"
    and "take_array 8 (layout gen obj src ses seq len payload sig) (length realtime_domain + 76)
           = Inr (seq, length realtime_domain + 84)"
    and "take_array 2 (layout gen obj src ses seq len payload sig) (length realtime_domain + 84)
           = Inr (len, length realtime_domain + 86)"
  subgoal by (rule take_array_at [where xs = "realtime_domain" and zs = "obj @ src @ ses @ seq @ len @ payload @ sig"]) (simp_all add: layout_def assms)
  subgoal by (rule take_array_at [where xs = "realtime_domain @ gen" and zs = "src @ ses @ seq @ len @ payload @ sig"]) (simp_all add: layout_def assms)
  subgoal by (rule take_array_at [where xs = "realtime_domain @ gen @ obj" and zs = "ses @ seq @ len @ payload @ sig"]) (simp_all add: layout_def assms)
  subgoal by (rule take_array_at [where xs = "realtime_domain @ gen @ obj @ src" and zs = "seq @ len @ payload @ sig"]) (simp_all add: layout_def assms)
  subgoal by (rule take_array_at [where xs = "realtime_domain @ gen @ obj @ src @ ses" and zs = "len @ payload @ sig"]) (simp_all add: layout_def assms)
  subgoal by (rule take_array_at [where xs = "realtime_domain @ gen @ obj @ src @ ses @ seq" and zs = "payload @ sig"]) (simp_all add: layout_def assms)
  done

lemma layout_exists:
  assumes "starts_with bs realtime_domain" and "length bs \<ge> length realtime_domain + 86 + n"
  obtains gen obj src ses seq len payload sig where
    "bs = layout gen obj src ses seq len payload sig" "length gen = 4" "length obj = 32" "length src = 32"
    "length ses = 8" "length seq = 8" "length len = 2" "length payload = n"
proof -
  define r0 where "r0 = drop (length realtime_domain) bs"
  have "bs = realtime_domain @ r0" using starts_with_drop [OF assms(1)] by (simp add: r0_def)
  moreover have "length r0 \<ge> 86 + n" using assms(2) by (simp add: r0_def)
  moreover have "r0 = slice r0 0 4 @ slice r0 4 36 @ slice r0 36 68 @ slice r0 68 76 @ slice r0 76 84 @
      slice r0 84 86 @ slice r0 86 (86 + n) @ drop (86 + n) r0"
    using slice_split [of 0 4 r0] slice_split [of 4 36 r0] slice_split [of 36 68 r0]
      slice_split [of 68 76 r0] slice_split [of 76 84 r0] slice_split [of 84 86 r0]
      slice_split [of 86 "86 + n" r0] by simp
  ultimately show thesis
    by (intro that [of "slice r0 0 4" "slice r0 4 36" "slice r0 36 68" "slice r0 68 76"
          "slice r0 76 84" "slice r0 84 86" "slice r0 86 (86 + n)" "drop (86 + n) r0"])
       (simp_all add: layout_def)
qed

text \<open>Decoding a laid out message.\<close>

lemma decode_layout:
  assumes "length gen = 4" "length obj = 32" "length src = 32" "length ses = 8" "length seq = 8" "length len = 2"
    and "unat (from_le len :: u16) = length payload" and "length sig = 64"
  shows "realtime_decode c room (layout gen obj src ses seq len payload sig) =
    (if from_le gen \<noteq> room_protocol_generation \<or> obj \<noteq> room then Inl WrongRoom
     else case key_from_bytes c src of None \<Rightarrow> Inl InvalidSignature | Some vk \<Rightarrow>
       if \<not> verify c vk (layout gen obj src ses seq len payload []) sig then Inl InvalidSignature
       else case frame_decode c payload of None \<Rightarrow> Inl Malformed | Some frame \<Rightarrow>
         Inr \<lparr>rt_source = src, rt_session = from_le ses, rt_sequence = from_le seq, rt_frame = frame\<rparr>)"
proof -
  let ?n = "length realtime_domain"
  let ?bs = "layout gen obj src ses seq len payload sig"
  have len: "length ?bs = ?n + 86 + length payload + 64"
    using assms by (simp add: layout_def)
  have "slice ((realtime_domain @ gen @ obj @ src @ ses @ seq @ len) @ payload @ sig)
      (?n + 86) (?n + 86 + length payload) = payload"
    using assms by (intro slice_append) simp_all
  then have payload: "slice ?bs (?n + 86) (?n + 86 + length payload) = payload" by (simp add: layout_def)
  have sig: "drop (?n + 86 + length payload) ?bs = sig"
    "take (?n + 86 + length payload) ?bs = layout gen obj src ses seq len payload []"
    using assms by (simp_all add: layout_def)
  have st: "starts_with ?bs realtime_domain" by (simp add: layout_def)
  show ?thesis
    unfolding realtime_decode_def take_word_def fields_at [OF assms(1-6)] Let_def sum.case prod.case
      assms(7) payload sig len fixed_bytes_def signature_bytes_def
    using st by simp
qed

lemma decode_accepts_layout:
  assumes "realtime_decode c room bs = Inr m"
  obtains gen obj src ses seq len payload sig where
    "bs = layout gen obj src ses seq len payload sig" "length gen = 4" "length obj = 32" "length src = 32"
    "length ses = 8" "length seq = 8" "length len = 2" "unat (from_le len :: u16) = length payload"
    "length sig = 64"
proof -
  have st: "starts_with bs realtime_domain" and n: "fixed_bytes \<le> length bs"
    using assms by (auto simp: realtime_decode_def split: if_splits)
  let ?n = "length realtime_domain"
  have b: "?n + 86 + 0 \<le> length bs" using n by (simp add: fixed_bytes_def)
  obtain gen obj src ses seq len p s where l: "bs = layout gen obj src ses seq len p s" "length gen = 4"
      "length obj = 32" "length src = 32" "length ses = 8" "length seq = 8" "length len = 2" "length p = 0"
    by (rule layout_exists [OF st b])
  define k where "k = unat (from_le len :: u16)"
  have "?n + 86 + k + 64 = length bs"
    using assms unfolding l(1) realtime_decode_def take_word_def fields_at [OF l(2-7)] Let_def sum.case prod.case
      k_def signature_bytes_def by (auto split: if_splits)
  then have s: "length s = k + 64" using l by (simp add: layout_def)
  show thesis
    by (rule that [of gen obj src ses seq len "take k s" "drop k s"])
       (use l s in \<open>simp_all add: layout_def k_def\<close>)
qed

lemma decode_encoded:
  assumes "scheme_ok c" and "length room = 32" and "realtime_encode c room sk session sequence frame = Inr bs"
  shows "realtime_decode c room bs =
           Inr \<lparr>rt_source = verifying_key c sk, rt_session = session, rt_sequence = sequence, rt_frame = frame\<rparr>
         \<and> (room' \<noteq> room \<longrightarrow> realtime_decode c room' bs = Inl WrongRoom)"
proof -
  from assms(3) obtain payload where p: "frame_encode c frame = Some payload" "length payload < 2 ^ 16"
    by (auto simp: realtime_encode_def split: option.splits if_splits)
  let ?l = "layout (to_le room_protocol_generation) room (verifying_key c sk) (to_le session) (to_le sequence)
      (to_le (word_of_nat (length payload) :: u16)) payload"
  from assms(3) p have bs: "bs = ?l (sign c sk (?l []))"
    by (simp add: realtime_encode_def layout_def Let_def)
  have len: "unat (from_le (to_le (word_of_nat (length payload) :: u16)) :: u16) = length payload"
    using p(2) by (simp add: unat_of_nat)
  obtain vk where vk: "key_from_bytes c (verifying_key c sk) = Some vk" "\<And>m. verify c vk m (sign c sk m)"
    using assms(1) unfolding scheme_ok_def by blast
  have "length (verifying_key c sk) = 32" "length (sign c sk (?l [])) = 64" "frame_decode c payload = Some frame"
    using assms(1) p(1) unfolding scheme_ok_def by blast+
  then show ?thesis
    unfolding bs using len vk by (subst (1 2) decode_layout) (simp_all add: assms(2))
qed

section \<open>Properties\<close>

text \<open>A realtime message signed for a room decodes there to the signer's identity, session,
  sequence number and frame, and every other room refuses it.\<close>

theorem realtime_roundtrip:
  assumes "scheme_ok c" and "length room = 32" and "realtime_encode c room sk session sequence frame = Inr bs"
  shows "realtime_decode c room bs =
           Inr \<lparr>rt_source = verifying_key c sk, rt_session = session, rt_sequence = sequence, rt_frame = frame\<rparr>
         \<and> (room' \<noteq> room \<longrightarrow> realtime_decode c room' bs = Inl WrongRoom)"
  using decode_encoded [OF assms] .

text \<open>C38: Everything a decoded message shows is covered by the signature that was checked: the bytes
  before the last 64 are the domain, this protocol generation, this room, the shown source, session
  and sequence and a payload that decodes to the shown frame, and they verify under the shown source.\<close>

theorem realtime_accepts_only_signed:
  assumes "realtime_decode c room bs = Inr m"
  shows "\<exists>payload sig vk. bs = realtime_domain @ to_le room_protocol_generation @ room @ rt_source m @
             to_le (rt_session m) @ to_le (rt_sequence m) @ to_le (word_of_nat (length payload) :: u16) @
             payload @ sig \<and> length sig = 64 \<and>
           key_from_bytes c (rt_source m) = Some vk \<and>
           verify c vk (take (length bs - 64) bs) sig \<and> frame_decode c payload = Some (rt_frame m)"
proof -
  obtain gen obj src ses seq len payload sig where l:
    "bs = layout gen obj src ses seq len payload sig" "length gen = 4" "length obj = 32" "length src = 32"
    "length ses = 8" "length seq = 8" "length len = 2" "unat (from_le len :: u16) = length payload"
    "length sig = 64"
    using decode_accepts_layout [OF assms] by metis
  note d = assms [unfolded l(1) decode_layout [OF l(2-9)]]
  then obtain vk where m: "from_le gen = room_protocol_generation" "obj = room" "key_from_bytes c src = Some vk"
      "verify c vk (layout gen obj src ses seq len payload []) sig" "frame_decode c payload = Some (rt_frame m)"
      "rt_source m = src" "rt_session m = from_le ses" "rt_sequence m = from_le seq"
    by (auto split: if_splits option.splits)
  have g: "gen = to_le room_protocol_generation" using le_canonical(2) [OF l(2)] m(1) by simp
  have "len = to_le (from_le len :: u16)" using le_canonical(1) [OF l(7)] by simp
  also have "(from_le len :: u16) = word_of_nat (length payload)"
    unfolding l(8) [symmetric] by simp
  finally have n: "len = to_le (word_of_nat (length payload) :: u16)" .
  have "take (length bs - 64) bs = layout gen obj src ses seq len payload []"
    using l(9) unfolding l(1) layout_def by simp
  then show ?thesis
    using m l(1,9) g n le_canonical(3) [OF l(5)] le_canonical(3) [OF l(6)]
    by (intro exI [of _ payload] exI [of _ sig] exI [of _ vk]) (simp add: layout_def)
qed

section \<open>Witnesses\<close>

definition toy_scheme :: "(u8, u8, u8) scheme" where
  "toy_scheme = \<lparr>verifying_key = (\<lambda>sk. replicate 32 sk), sign = (\<lambda>sk m. replicate 64 sk),
     key_from_bytes = (\<lambda>bs. case bs of [] \<Rightarrow> None | b # _ \<Rightarrow> Some b),
     verify = (\<lambda>vk m s. s = replicate 64 vk),
     frame_encode = (\<lambda>f. Some [f]), frame_decode = (\<lambda>p. case p of [f] \<Rightarrow> Some f | _ \<Rightarrow> None)\<rparr>"

lemma toy_scheme_ok: "scheme_ok toy_scheme"
  by (simp add: scheme_ok_def toy_scheme_def numeral_eq_Suc)

definition toy_message :: bytes where
  "toy_message = (case realtime_encode toy_scheme (replicate 32 1) 7 3 4 9 of Inr bs \<Rightarrow> bs | Inl _ \<Rightarrow> [])"

lemma toy_message: "realtime_encode toy_scheme (replicate 32 1) 7 3 4 9 = Inr toy_message"
  by (simp add: toy_message_def realtime_encode_def toy_scheme_def Let_def)

theorem realtime_roundtrip_witness:
  "realtime_decode toy_scheme (replicate 32 1) toy_message =
     Inr \<lparr>rt_source = replicate 32 7, rt_session = 3, rt_sequence = 4, rt_frame = 9\<rparr> \<and>
   realtime_decode toy_scheme (replicate 32 2) toy_message = Inl WrongRoom"
proof -
  have "replicate 32 2 \<noteq> replicate 32 (1 :: u8)" by (simp add: replicate_eq_replicate)
  moreover have "verifying_key toy_scheme 7 = replicate 32 7" by (simp add: toy_scheme_def)
  ultimately show ?thesis
    using realtime_roundtrip [OF toy_scheme_ok _ toy_message, of "replicate 32 2"] by simp
qed

theorem realtime_accepts_only_signed_witness:
  "realtime_decode toy_scheme (replicate 32 1) toy_message =
     Inr \<lparr>rt_source = replicate 32 7, rt_session = 3, rt_sequence = 4, rt_frame = 9\<rparr> \<and>
   (\<exists>payload. frame_decode toy_scheme payload = Some 9)"
proof -
  have "verifying_key toy_scheme 7 = replicate 32 7" by (simp add: toy_scheme_def)
  then have d: "realtime_decode toy_scheme (replicate 32 1) toy_message =
      Inr \<lparr>rt_source = replicate 32 7, rt_session = 3, rt_sequence = 4, rt_frame = 9\<rparr>"
    using decode_encoded [OF toy_scheme_ok _ toy_message] by simp
  with realtime_accepts_only_signed [OF d] show ?thesis by auto
qed

end
