(* ===== verification/Repair_Framing.thy ===== *)
theory Repair_Framing
  imports Byte_Codec
begin

text \<open>
  \<open>src/src/net/repair.rs\<close>: length-prefixed frames on a QUIC stream. The receiving half of the stream
  (crate \<open>iroh\<close>) is a list of chunks, the pieces in which the bytes happen to arrive: a \<open>read\<close> into a
  buffer takes at most the buffer's length from the first chunk and is \<open>None\<close> after the last one. The
  sending half is the bytes written so far. The frame cap of crate \<open>hhhs_sync\<close> is the parameter
  \<open>max_frame\<close>. The I/O errors a stream may return at any time are not part of the chunk model; the two
  errors the code raises itself are.
\<close>

datatype repair_error = Io string | FrameTooLarge nat nat

datatype transport_error = Closed | TransportFrameTooLarge nat nat | Unreachable string | Backend string

fun transport_error_from :: "repair_error \<Rightarrow> transport_error" where
  "transport_error_from (FrameTooLarge actual limit) = TransportFrameTooLarge actual limit"
| "transport_error_from (Io message) = Backend message"

section \<open>Writing\<close>

definition write_frame :: "nat \<Rightarrow> bytes \<Rightarrow> bytes \<Rightarrow> (repair_error + unit) \<times> bytes" where
  "write_frame max_frame bs stream =
     (if length bs > max_frame then (Inl (FrameTooLarge (length bs) max_frame), stream)
      else (Inr (), stream @ to_be (word_of_nat (length bs) :: u32) @ bs))"

fun write_sync_frames :: "nat \<Rightarrow> bytes list \<Rightarrow> bytes \<Rightarrow> (repair_error + unit) \<times> bytes" where
  "write_sync_frames max_frame [] stream = (Inr (), stream)"
| "write_sync_frames max_frame (f # fs) stream =
     (case write_frame max_frame f stream of
        (Inl e, stream') \<Rightarrow> (Inl e, stream')
      | (Inr _, stream') \<Rightarrow> write_sync_frames max_frame fs stream')"

section \<open>Reading\<close>

type_synonym chunks = "bytes list"

fun stream_read :: "nat \<Rightarrow> chunks \<Rightarrow> (bytes \<times> chunks) option" where
  "stream_read n [] = None"
| "stream_read n (c # cs) = Some (take n c, if length c \<le> n then cs else drop n c # cs)"

definition chunk_weight :: "chunks \<Rightarrow> nat" where
  "chunk_weight cs = length (concat cs) + length cs"

lemma stream_read_weight:
  "stream_read n cs = Some (bs, cs') \<Longrightarrow> 0 < n \<Longrightarrow> chunk_weight cs' < chunk_weight cs"
  by (cases cs) (auto simp: chunk_weight_def split: if_splits)

text \<open>The loop that fills the four length bytes.\<close>

function read_length :: "bytes \<Rightarrow> chunks \<Rightarrow> (repair_error + bytes option) \<times> chunks" where
  "read_length got cs =
     (if length got < 4 then
        (case stream_read (4 - length got) cs of
           None \<Rightarrow> (if got = [] then Inr None
                    else Inl (Io ''repair stream ended inside a frame length''), cs)
         | Some (bs, cs') \<Rightarrow> read_length (got @ bs) cs')
      else (Inr (Some got), cs))"
  by pat_completeness auto

termination
  by (relation "measure (\<lambda>(got, cs). chunk_weight cs)") (auto intro: stream_read_weight)

declare read_length.simps [simp del]

text \<open>\<open>read_exact\<close> fails when the stream ends before the buffer is full;
  \<open>early\<close> is the message crate \<open>iroh\<close> gives that error.\<close>

function read_exact :: "string \<Rightarrow> nat \<Rightarrow> bytes \<Rightarrow> chunks \<Rightarrow> (repair_error + bytes) \<times> chunks" where
  "read_exact early n got cs =
     (if length got < n then
        (case stream_read (n - length got) cs of
           None \<Rightarrow> (Inl (Io early), cs)
         | Some (bs, cs') \<Rightarrow> read_exact early n (got @ bs) cs')
      else (Inr got, cs))"
  by pat_completeness auto

termination
  by (relation "measure (\<lambda>(early, n, got, cs). chunk_weight cs)") (auto intro: stream_read_weight)

declare read_exact.simps [simp del]

definition read_frame :: "string \<Rightarrow> nat \<Rightarrow> chunks \<Rightarrow> (repair_error + bytes option) \<times> chunks" where
  "read_frame early max_frame cs =
     (case read_length [] cs of
        (Inl e, cs') \<Rightarrow> (Inl e, cs')
      | (Inr None, cs') \<Rightarrow> (Inr None, cs')
      | (Inr (Some length_bytes), cs') \<Rightarrow>
          let n = unat (from_be length_bytes :: u32)
          in if n > max_frame then (Inl (FrameTooLarge n max_frame), cs')
             else (case read_exact early n [] cs' of
                     (Inl e, cs'') \<Rightarrow> (Inl e, cs'')
                   | (Inr bs, cs'') \<Rightarrow> (Inr (Some bs), cs'')))"

section \<open>Chunking does not matter\<close>

lemma stream_read_concat:
  assumes "stream_read n cs = Some (bs, cs')"
  shows "concat cs = bs @ concat cs' \<and> length bs \<le> n"
  using assms by (cases cs) (auto split: if_splits)

lemma read_length_full:
  assumes "4 \<le> length got + length (concat cs)" and "length got \<le> 4"
  shows "\<exists>cs'. read_length got cs = (Inr (Some (take 4 (got @ concat cs))), cs') \<and>
           concat cs' = drop (4 - length got) (concat cs)"
  using assms
proof (induction got cs rule: read_length.induct)
  case (1 got cs)
  show ?case
  proof (cases "length got < 4")
    case True
    then have "cs \<noteq> []" using "1.prems" by auto
    then obtain bs cs' where r: "stream_read (4 - length got) cs = Some (bs, cs')"
      by (cases cs) simp_all
    note k = stream_read_concat [OF r]
    have "4 \<le> length (got @ bs) + length (concat cs')" "length (got @ bs) \<le> 4"
      using "1.prems" k True by auto
    from "1.IH" [OF True r refl this] obtain cs'' where
      "read_length (got @ bs) cs' = (Inr (Some (take 4 ((got @ bs) @ concat cs'))), cs'')"
      "concat cs'' = drop (4 - length (got @ bs)) (concat cs')" by blast
    with True r k show ?thesis
      by (subst read_length.simps) (auto simp: drop_append)
  next
    case False
    with "1.prems" show ?thesis by (subst read_length.simps) simp
  qed
qed

lemma read_exact_full:
  assumes "n \<le> length got + length (concat cs)" and "length got \<le> n"
  shows "\<exists>cs'. read_exact early n got cs = (Inr (take n (got @ concat cs)), cs') \<and>
           concat cs' = drop (n - length got) (concat cs)"
  using assms
proof (induction early n got cs rule: read_exact.induct)
  case (1 early n got cs)
  show ?case
  proof (cases "length got < n")
    case True
    then have "cs \<noteq> []" using "1.prems" by auto
    then obtain bs cs' where r: "stream_read (n - length got) cs = Some (bs, cs')"
      by (cases cs) simp_all
    note k = stream_read_concat [OF r]
    have "n \<le> length (got @ bs) + length (concat cs')" "length (got @ bs) \<le> n"
      using "1.prems" k True by auto
    from "1.IH" [OF True r refl this] obtain cs'' where
      "read_exact early n (got @ bs) cs' = (Inr (take n ((got @ bs) @ concat cs')), cs'')"
      "concat cs'' = drop (n - length (got @ bs)) (concat cs')" by blast
    with True r k show ?thesis
      by (subst read_exact.simps) (auto simp: drop_append)
  next
    case False
    with "1.prems" show ?thesis by (subst read_exact.simps) simp
  qed
qed

lemma read_length_end: "concat cs = [] \<Longrightarrow> \<exists>cs'. read_length [] cs = (Inr None, cs') \<and> concat cs' = []"
proof (induction cs)
  case Nil
  then show ?case by (subst read_length.simps) simp
next
  case (Cons c cs)
  then show ?case by (subst read_length.simps) simp
qed

definition frame_bytes :: "bytes \<Rightarrow> bytes" where
  "frame_bytes f = to_be (word_of_nat (length f) :: u32) @ f"

lemma write_frames_bytes:
  "\<forall>f \<in> set fs. length f \<le> max_frame \<Longrightarrow>
   write_sync_frames max_frame fs stream = (Inr (), stream @ concat (map frame_bytes fs))"
  by (induction fs arbitrary: stream) (auto simp: write_frame_def frame_bytes_def)

lemma read_frame_at:
  assumes "concat cs = frame_bytes f @ rest" and "length f \<le> max_frame" and "max_frame < 2 ^ 32"
  shows "\<exists>cs'. read_frame early max_frame cs = (Inr (Some f), cs') \<and> concat cs' = rest"
proof -
  let ?h = "to_be (word_of_nat (length f) :: u32)"
  have len: "length ?h = 4" by simp
  obtain cs1 where 1: "read_length [] cs = (Inr (Some ?h), cs1)" "concat cs1 = f @ rest"
    using read_length_full [of "[]" cs] assms(1) len by (auto simp: frame_bytes_def)
  obtain cs2 where 2: "read_exact early (length f) [] cs1 = (Inr f, cs2)" "concat cs2 = rest"
    using read_exact_full [of "length f" "[]" cs1 early] 1(2) by auto
  have "unat (from_be ?h :: u32) = length f"
    using assms(2,3) by (simp add: unat_of_nat)
  with 1 2 assms(2) show ?thesis by (simp add: read_frame_def)
qed

section \<open>Reading all frames\<close>

text \<open>A reader that calls \<open>read_frame\<close> until the clean end of the stream or an error. Every successful
  call consumes at least the four length bytes, which bounds the number of calls.\<close>

fun read_frames :: "string \<Rightarrow> nat \<Rightarrow> nat \<Rightarrow> chunks \<Rightarrow> (repair_error + bytes list) option" where
  "read_frames early max_frame 0 cs = None"
| "read_frames early max_frame (Suc fuel) cs =
     (case read_frame early max_frame cs of
        (Inl e, _) \<Rightarrow> Some (Inl e)
      | (Inr None, _) \<Rightarrow> Some (Inr [])
      | (Inr (Some f), cs') \<Rightarrow>
          (case read_frames early max_frame fuel cs' of
             None \<Rightarrow> None | Some (Inl e) \<Rightarrow> Some (Inl e) | Some (Inr fs) \<Rightarrow> Some (Inr (f # fs))))"

lemma read_frames_all:
  "concat cs = concat (map frame_bytes fs) \<Longrightarrow> \<forall>f \<in> set fs. length f \<le> max_frame \<Longrightarrow>
   max_frame < 2 ^ 32 \<Longrightarrow> length fs < fuel \<Longrightarrow> read_frames early max_frame fuel cs = Some (Inr fs)"
proof (induction fs arbitrary: cs fuel)
  case Nil
  then obtain k where k: "fuel = Suc k" by (cases fuel) simp_all
  from Nil obtain cs' where "read_length [] cs = (Inr None, cs')" using read_length_end [of cs] by auto
  then show ?case by (simp add: k read_frame_def)
next
  case (Cons f fs)
  then obtain k where k: "fuel = Suc k" by (cases fuel) simp_all
  obtain cs' where "read_frame early max_frame cs = (Inr (Some f), cs')" "concat cs' = concat (map frame_bytes fs)"
    using read_frame_at [of cs f "concat (map frame_bytes fs)" max_frame early] Cons.prems by auto
  then show ?case using Cons.IH [of cs' k] Cons.prems by (simp add: k)
qed

section \<open>Properties\<close>

text \<open>Frames survive the stream. If every frame is within the cap, writing them succeeds, and however
  the stream cuts the written bytes into chunks, reading returns exactly these frames in order and then
  the clean end.\<close>

theorem frames_roundtrip:
  assumes "\<forall>f \<in> set frames. length f \<le> max_frame" and "max_frame < 2 ^ 32"
    and "write_sync_frames max_frame frames [] = (res, written)" and "concat chunks = written"
    and "length frames < fuel"
  shows "res = Inr () \<and> read_frames early max_frame fuel chunks = Some (Inr frames)"
  using write_frames_bytes [OF assms(1), of "[]"] read_frames_all [OF _ assms(1,2,5), of chunks early] assms(3,4)
  by simp

text \<open>The cap holds on both sides: an oversized frame is refused and nothing is written for it, and
  a length prefix above the cap is refused before any payload is read.\<close>

theorem frame_cap_enforced:
  assumes "n < 2 ^ 32" and "n > max_frame"
  shows "(length f = n \<longrightarrow> write_frame max_frame f stream = (Inl (FrameTooLarge n max_frame), stream)) \<and>
         (concat chunks = to_be (word_of_nat n :: u32) @ rest \<longrightarrow>
            (\<exists>chunks'. read_frame early max_frame chunks = (Inl (FrameTooLarge n max_frame), chunks') \<and>
               concat chunks' = rest))"
proof -
  have len: "length (to_be (word_of_nat n :: u32)) = 4" by simp
  have "unat (from_be (to_be (word_of_nat n :: u32)) :: u32) = n" using assms(1) by (simp add: unat_of_nat)
  moreover have "\<exists>chunks'. read_length [] chunks = (Inr (Some (to_be (word_of_nat n :: u32))), chunks') \<and>
      concat chunks' = rest" if "concat chunks = to_be (word_of_nat n :: u32) @ rest"
    using read_length_full [of "[]" chunks] that len by auto
  ultimately show ?thesis
    using assms(2) by (auto simp: write_frame_def read_frame_def)
qed

lemma read_length_short:
  assumes "got \<noteq> [] \<or> concat cs \<noteq> []" and "length got + length (concat cs) < 4"
  shows "\<exists>cs'. read_length got cs = (Inl (Io ''repair stream ended inside a frame length''), cs')"
  using assms
proof (induction got cs rule: read_length.induct)
  case (1 got cs)
  show ?case
  proof (cases "stream_read (4 - length got) cs")
    case None
    then have "cs = []" by (cases cs) simp_all
    with "1.prems" None show ?thesis by (subst read_length.simps) auto
  next
    case (Some p)
    then obtain bs cs' where r: "stream_read (4 - length got) cs = Some (bs, cs')" by (cases p) auto
    note k = stream_read_concat [OF r]
    have lt: "length got < 4" using "1.prems" by simp
    have "got @ bs \<noteq> [] \<or> concat cs' \<noteq> []" "length (got @ bs) + length (concat cs') < 4"
      using "1.prems" k by auto
    from "1.IH" [OF lt r refl this] show ?thesis
      using r lt by (subst read_length.simps) auto
  qed
qed

lemma read_exact_short:
  assumes "length got + length (concat cs) < n"
  shows "\<exists>cs'. read_exact early n got cs = (Inl (Io early), cs')"
  using assms
proof (induction early n got cs rule: read_exact.induct)
  case (1 early n got cs)
  show ?case
  proof (cases "stream_read (n - length got) cs")
    case None
    with "1.prems" show ?thesis by (subst read_exact.simps) auto
  next
    case (Some p)
    then obtain bs cs' where r: "stream_read (n - length got) cs = Some (bs, cs')" by (cases p) auto
    note k = stream_read_concat [OF r]
    have lt: "length got < n" using "1.prems" by simp
    have "length (got @ bs) + length (concat cs') < n" using "1.prems" k by auto
    from "1.IH" [OF lt r refl this] show ?thesis
      using r lt by (subst read_exact.simps) auto
  qed
qed

text \<open>A stream that stops inside a length prefix or inside a payload is an error, never a shorter
  frame and never the clean end.\<close>

theorem truncated_stream_is_error:
  assumes "concat chunks = take k (frame_bytes f)" and "0 < k" and "k < length (frame_bytes f)"
    and "length f \<le> max_frame" and "max_frame < 2 ^ 32"
  shows "\<exists>m. fst (read_frame early max_frame chunks) = Inl (Io m)"
proof (cases "k < 4")
  case True
  then have "concat chunks \<noteq> []" "length (concat chunks) < 4"
    using assms(1-3) by auto
  then show ?thesis
    using read_length_short [of "[]" chunks] by (auto simp: read_frame_def)
next
  case False
  let ?h = "to_be (word_of_nat (length f) :: u32)"
  have len: "length ?h = 4" by simp
  have c: "concat chunks = ?h @ take (k - 4) f"
    using assms(1) False by (simp add: frame_bytes_def)
  obtain cs1 where 1: "read_length [] chunks = (Inr (Some ?h), cs1)" "concat cs1 = take (k - 4) f"
    using read_length_full [of "[]" chunks] c len by auto
  have "length (concat cs1) < length f" using 1(2) assms(3) False by (simp add: frame_bytes_def)
  then obtain cs2 where "read_exact early (length f) [] cs1 = (Inl (Io early), cs2)"
    using read_exact_short [of "[]" cs1 "length f" early] by auto
  moreover have "unat (from_be ?h :: u32) = length f"
    using assms(4,5) by (simp add: unat_of_nat)
  ultimately show ?thesis using 1 assms(4) by (simp add: read_frame_def)
qed

section \<open>Witnesses\<close>

theorem frames_roundtrip_witness:
  "read_frames [] 10 3 [[0], [0, 0, 2, 7], [8, 0, 0, 0], [1, 9]] = Some (Inr [[7, 8], [9]])"
proof -
  have w: "write_sync_frames 10 [[7, 8], [9]] [] = (Inr (), concat [[0], [0, 0, 2, 7], [8, 0, 0, 0], [1, 9]])"
    by (simp add: write_frame_def to_be_def to_le_def le_bytes_numeral)
  show ?thesis using frames_roundtrip [OF _ _ w refl, of 3 "[]"] by simp
qed

theorem frame_cap_enforced_witness:
  "write_frame 1 [7, 8] [] = (Inl (FrameTooLarge 2 1), []) \<and>
   (\<exists>cs. read_frame [] 1 [to_be (2 :: u32) @ [7, 8]] = (Inl (FrameTooLarge 2 1), cs) \<and> concat cs = [7, 8])"
  using frame_cap_enforced [of 2 1 "[7, 8]" "[]" "[to_be (2 :: u32) @ [7, 8]]" "[7, 8]" "[]"] by simp

theorem truncated_stream_is_error_witness:
  "\<exists>m. fst (read_frame [] 10 [[0, 0], [0]]) = Inl (Io m)"
proof -
  have "concat [[0, 0], [0]] = take 3 (frame_bytes [7])"
    by (simp add: frame_bytes_def to_be_def to_le_def le_bytes_numeral)
  then show ?thesis
    by (rule truncated_stream_is_error) (simp_all add: frame_bytes_def)
qed

end
