(* ===== verification/Identity.thy ===== *)
theory Identity
  imports Prelude
begin

text \<open>
  \<open>src/src/net/identity.rs\<close>: the persisted identity seed. A store is its two operations on a state:
  \<open>load\<close> may fail, \<open>save\<close> may fail and changes the state even then. \<open>rand::random\<close> is the parameter
  \<open>fresh\<close>, the bytes it returns.

  The file store works on a file system: the files by path, and the points where the operating system
  may refuse (\<open>fs_fault\<close>, a set of the calls that fail this time). Its calls are those of the code in
  their order: create the parent directory, create the temporary file exclusively, write, sync, link
  into place (which fails when the target exists), remove the temporary, sync the directory.
\<close>

section \<open>Seeds and stores\<close>

type_synonym seed = bytes

record walkie_identity =
  identity_seed :: seed

record ('s, 'e) seed_store =
  load :: "'s \<Rightarrow> 'e + seed option"
  save :: "seed \<Rightarrow> 's \<Rightarrow> ('e + unit) \<times> 's"

definition load_or_create ::
  "seed \<Rightarrow> ('s, 'e) seed_store \<Rightarrow> 's \<Rightarrow> ('e + walkie_identity) \<times> 's" where
  "load_or_create fresh store s =
     (case load store s of
        Inl e \<Rightarrow> (Inl e, s)
      | Inr (Some seed) \<Rightarrow> (Inr \<lparr>identity_seed = seed\<rparr>, s)
      | Inr None \<Rightarrow>
          (case save store fresh s of
             (Inl e, s') \<Rightarrow> (Inl e, s')
           | (Inr _, s') \<Rightarrow> (Inr \<lparr>identity_seed = fresh\<rparr>, s')))"

definition memory_seed_store :: "(seed option, 'e) seed_store" where
  "memory_seed_store = \<lparr>load = (\<lambda>s. Inr s), save = (\<lambda>seed s. (Inr (), Some seed))\<rparr>"

section \<open>The file store\<close>

datatype fs_call = ReadFile | CreateDir | CreateTemp | WriteTemp | SyncTemp | HardLink | RemoveTemp | SyncDir

datatype io_error = NotFound | InvalidData nat | AlreadyExists | OtherIo fs_call | NoParent

record file_system =
  files :: "string \<rightharpoonup> bytes"
  faults :: "fs_call set"

record file_seed_store =
  seed_path :: string
  has_parent :: bool

definition fs_read :: "string \<Rightarrow> file_system \<Rightarrow> io_error + bytes" where
  "fs_read path fs =
     (if ReadFile \<in> faults fs then Inl (OtherIo ReadFile)
      else case files fs path of None \<Rightarrow> Inl NotFound | Some bs \<Rightarrow> Inr bs)"

definition file_load :: "file_seed_store \<Rightarrow> file_system \<Rightarrow> io_error + seed option" where
  "file_load st fs =
     (case fs_read (seed_path st) fs of
        Inr bs \<Rightarrow> if length bs = 32 then Inr (Some bs) else Inl (InvalidData (length bs))
      | Inl NotFound \<Rightarrow> Inr None
      | Inl e \<Rightarrow> Inl e)"

definition ensure_parent :: "file_seed_store \<Rightarrow> file_system \<Rightarrow> io_error + unit" where
  "ensure_parent st fs =
     (if \<not> has_parent st then Inl NoParent
      else if CreateDir \<in> faults fs then Inl (OtherIo CreateDir) else Inr ())"

text \<open>The closure of \<open>save\<close>: the calls on the temporary file, which \<open>?\<close> ends at the first error.\<close>

definition save_calls :: "string \<Rightarrow> string \<Rightarrow> seed \<Rightarrow> file_system \<Rightarrow> (io_error + unit) \<times> file_system" where
  "save_calls temporary path seed fs =
     (if CreateTemp \<in> faults fs then (Inl (OtherIo CreateTemp), fs)
      else if files fs temporary \<noteq> None then (Inl AlreadyExists, fs)
      else let fs1 = fs\<lparr>files := (files fs)(temporary \<mapsto> [])\<rparr>
      in if WriteTemp \<in> faults fs then (Inl (OtherIo WriteTemp), fs1)
      else let fs2 = fs1\<lparr>files := (files fs1)(temporary \<mapsto> seed)\<rparr>
      in if SyncTemp \<in> faults fs then (Inl (OtherIo SyncTemp), fs2)
      else if HardLink \<in> faults fs then (Inl (OtherIo HardLink), fs2)
      else if files fs2 path \<noteq> None then (Inl AlreadyExists, fs2)
      else let fs3 = fs2\<lparr>files := (files fs2)(path \<mapsto> seed)\<rparr>
      in if RemoveTemp \<in> faults fs then (Inl (OtherIo RemoveTemp), fs3)
      else let fs4 = fs3\<lparr>files := (files fs3)(temporary := None)\<rparr>
      in if SyncDir \<in> faults fs then (Inl (OtherIo SyncDir), fs4)
      else (Inr (), fs4))"

text \<open>On an error the temporary file is removed, if the system lets it.\<close>

definition file_save ::
  "string \<Rightarrow> file_seed_store \<Rightarrow> seed \<Rightarrow> file_system \<Rightarrow> (io_error + unit) \<times> file_system" where
  "file_save temporary st seed fs =
     (case ensure_parent st fs of
        Inl e \<Rightarrow> (Inl e, fs)
      | Inr _ \<Rightarrow>
          (case save_calls temporary (seed_path st) seed fs of
             (Inl e, fs') \<Rightarrow>
               (Inl e, if RemoveTemp \<in> faults fs' then fs'
                       else fs'\<lparr>files := (files fs')(temporary := None)\<rparr>)
           | (Inr _, fs') \<Rightarrow> (Inr (), fs')))"

definition file_store :: "string \<Rightarrow> file_seed_store \<Rightarrow> (file_system, io_error) seed_store" where
  "file_store temporary st = \<lparr>load = file_load st, save = file_save temporary st\<rparr>"

section \<open>The contract of a store\<close>

text \<open>\<open>usable\<close> is the condition under which a store keeps the contract.\<close>

locale seed_contract =
  fixes store :: "('s, 'e) seed_store"
    and usable :: bool
  assumes saved: "usable \<Longrightarrow> length seed = 32 \<Longrightarrow> load store s = Inr None \<Longrightarrow>
    save store seed s = (Inr (), s') \<Longrightarrow> load store s' = Inr (Some seed)"
begin

text \<open>An identity, once created or loaded, is the one every later start finds.\<close>

lemma stable:
  assumes "usable" and "length fresh = 32" and "load_or_create fresh store s = (Inr i, s')"
  shows "load_or_create fresh' store s' = (Inr i, s')"
proof (cases "load store s")
  case (Inr r)
  show ?thesis
  proof (cases r)
    case None
    with assms(3) Inr have "save store fresh s = (Inr (), s')" "i = \<lparr>identity_seed = fresh\<rparr>"
      by (auto simp: load_or_create_def split: prod.splits sum.splits)
    with saved [OF assms(1,2)] Inr None show ?thesis by (simp add: load_or_create_def)
  next
    case (Some seed)
    with assms(3) Inr show ?thesis by (auto simp: load_or_create_def)
  qed
qed (use assms(3) in \<open>simp add: load_or_create_def\<close>)

end

interpretation memory: seed_contract memory_seed_store True
  by unfold_locales (simp add: memory_seed_store_def)

lemma save_calls_path:
  assumes "temporary \<noteq> path" and "save_calls temporary path seed fs = (res, fs')"
  shows "faults fs' = faults fs \<and>
    (case files fs path of
       Some old \<Rightarrow> files fs' path = Some old \<and> res \<noteq> Inr ()
     | None \<Rightarrow> files fs' path = None \<and> res \<noteq> Inr () \<or> files fs' path = Some seed)"
  using assms by (auto simp: save_calls_def Let_def split: if_splits option.splits)

lemma file_save_path:
  assumes "temporary \<noteq> seed_path st" and "file_save temporary st seed fs = (res, fs')"
  shows "faults fs' = faults fs \<and>
    (case files fs (seed_path st) of
       Some old \<Rightarrow> files fs' (seed_path st) = Some old \<and> res \<noteq> Inr ()
     | None \<Rightarrow> files fs' (seed_path st) = None \<and> res \<noteq> Inr () \<or> files fs' (seed_path st) = Some seed)"
proof (cases "ensure_parent st fs")
  case (Inl e)
  with assms(2) show ?thesis by (auto simp: file_save_def split: option.splits)
next
  case (Inr u)
  obtain r f where c: "save_calls temporary (seed_path st) seed fs = (r, f)" by fastforce
  let ?g = "if RemoveTemp \<in> faults f then f else f\<lparr>files := (files f)(temporary := None)\<rparr>"
  have "res = r \<and> fs' = (if isl r then ?g else f)"
    using assms(2) [unfolded file_save_def Inr c] by (cases r) (auto split: if_splits)
  then have "res = r" "faults fs' = faults f" "files fs' (seed_path st) = files f (seed_path st)"
    using assms(1) by (simp_all split: if_split)
  with save_calls_path [OF assms(1) c] show ?thesis by (auto split: option.splits)
qed

interpretation seed_file: seed_contract "file_store temporary st" "temporary \<noteq> seed_path st"
proof
  fix seed s s'
  assume t: "temporary \<noteq> seed_path st" and l: "length seed = 32"
    and n: "load (file_store temporary st) s = Inr None"
    and v: "save (file_store temporary st) seed s = (Inr (), s')"
  have "ReadFile \<notin> faults s" and "files s (seed_path st) = None"
    using n by (auto simp: file_store_def file_load_def fs_read_def split: if_splits option.splits)
  moreover have "faults s' = faults s" "files s' (seed_path st) = Some seed"
    using file_save_path [OF t, of seed s "Inr ()" s'] v calculation by (simp_all add: file_store_def)
  ultimately show "load (file_store temporary st) s' = Inr (Some seed)"
    using l by (simp add: file_store_def file_load_def fs_read_def)
qed

section \<open>Properties\<close>

text \<open>An identity is stable: whatever the file system refused on the way, once \<open>load_or_create\<close> has
  returned an identity, every later call on the file store returns the same one, with the same files,
  whatever random bytes it drew.\<close>

theorem file_identity_stable:
  assumes "temporary \<noteq> seed_path st" and "length fresh = 32"
    and "load_or_create fresh (file_store temporary st) fs = (Inr i, fs')"
  shows "load_or_create fresh' (file_store temporary st) fs' = (Inr i, fs')"
  using assms by (rule seed_file.stable)

text \<open>A save never damages an identity. If a seed file exists, \<open>save\<close> reports an error and the file
  keeps its bytes; if none exists, it ends up absent or complete, and it is complete when \<open>save\<close>
  succeeds. The interface, in contrast, says that \<open>save\<close> overwrites.\<close>

theorem file_save_never_replaces:
  assumes "temporary \<noteq> seed_path st" and "file_save temporary st seed fs = (res, fs')"
  shows "(files fs (seed_path st) = Some old \<longrightarrow> files fs' (seed_path st) = Some old \<and> res \<noteq> Inr ()) \<and>
         (files fs (seed_path st) = None \<longrightarrow>
            files fs' (seed_path st) \<in> {None, Some seed} \<and>
            (res = Inr () \<longrightarrow> files fs' (seed_path st) = Some seed))"
  using file_save_path [OF assms] by auto

definition demo_store :: file_seed_store where
  "demo_store = \<lparr>seed_path = ''seed'', has_parent = True\<rparr>"

theorem file_identity_stable_witness:
  "\<exists>fs'. load_or_create (replicate 32 1) (file_store ''tmp'' demo_store) \<lparr>files = Map.empty, faults = {}\<rparr> =
     (Inr \<lparr>identity_seed = replicate 32 1\<rparr>, fs') \<and>
   load_or_create (replicate 32 2) (file_store ''tmp'' demo_store) fs' =
     (Inr \<lparr>identity_seed = replicate 32 1\<rparr>, fs')"
proof -
  let ?fs = "\<lparr>files = [''seed'' \<mapsto> replicate 32 1], faults = {}\<rparr>"
  have c: "load_or_create (replicate 32 1) (file_store ''tmp'' demo_store) \<lparr>files = Map.empty, faults = {}\<rparr> =
     (Inr \<lparr>identity_seed = replicate 32 1\<rparr>, ?fs)"
    by (simp add: load_or_create_def file_store_def file_load_def fs_read_def file_save_def ensure_parent_def
        save_calls_def demo_store_def Let_def fun_upd_twist fun_upd_idem)
  show ?thesis
    by (intro exI conjI, rule c, rule file_identity_stable [OF _ _ c]) (simp_all add: demo_store_def)
qed

theorem file_save_never_replaces_witness:
  "files (snd (file_save ''tmp'' demo_store (replicate 32 2)
      \<lparr>files = [''seed'' \<mapsto> replicate 32 1], faults = {}\<rparr>)) ''seed'' = Some (replicate 32 1)"
  using file_save_never_replaces [OF _ prod.collapse [symmetric], where temporary = "''tmp''" and
      st = demo_store and seed = "replicate 32 2" and old = "replicate 32 1" and
      fs = "\<lparr>files = [''seed'' \<mapsto> replicate 32 1], faults = {}\<rparr>"]
  by (simp add: demo_store_def)

end
