(* ===== verification/Bridge_Types.thy ===== *)
theory Bridge_Types
  imports Prelude
begin

text \<open>
  \<open>src/src/bridge/mod.rs\<close> and \<open>src/src/bridge/ble.rs\<close>, the vocabulary of the bridge: the protocol
  profile and its compatibility check, link states, MIDI events, commands, transport events, errors,
  the \<open>BridgeTransport\<close> interface and the transport that is never available.

  Types of other crates are type parameters of the datatypes that carry them: \<open>'f\<close> the round-table
  frame, \<open>'c\<close> its configuration, \<open>'p\<close> a tuned pitch, \<open>'s\<close> the shared pitch set, \<open>'h\<close> the hello of a
  board. An \<open>f32\<close> is its 32 bits; no arithmetic is done on it here.
\<close>

section \<open>Protocol profile\<close>

record protocol_profile =
  music_generation :: u32
  music_vocabulary_generation :: u32
  hhhs_strategy_version :: u32
  hhhs_repair_generation :: u32
  room_generation :: u32
  capabilities :: u32

text \<open>The capability bits are constants of crate \<open>tutti_ble\<close>.\<close>

record profile_caps =
  cap_music :: u32
  cap_hhhs_repair :: u32
  cap_walkie_extension :: u32

datatype protocol_mismatch =
    MusicGeneration u32 u32
  | MusicVocabularyGeneration u32 u32
  | HhhsStrategy u32 u32
  | HhhsRepairGeneration u32 u32
  | RoomGeneration u32 u32

definition both_have :: "u32 \<Rightarrow> protocol_profile \<Rightarrow> protocol_profile \<Rightarrow> bool" where
  "both_have cap local remote \<longleftrightarrow> and (capabilities local) cap \<noteq> 0 \<and> and (capabilities remote) cap \<noteq> 0"

definition check_compatible ::
  "profile_caps \<Rightarrow> protocol_profile \<Rightarrow> protocol_profile \<Rightarrow> protocol_mismatch + unit" where
  "check_compatible caps local remote =
     (if both_have (cap_music caps) local remote \<and> music_generation local \<noteq> music_generation remote
      then Inl (MusicGeneration (music_generation local) (music_generation remote))
      else if hhhs_strategy_version local \<noteq> hhhs_strategy_version remote
      then Inl (HhhsStrategy (hhhs_strategy_version local) (hhhs_strategy_version remote))
      else if both_have (cap_music caps) local remote \<and>
              music_vocabulary_generation local \<noteq> music_vocabulary_generation remote
      then Inl (MusicVocabularyGeneration (music_vocabulary_generation local) (music_vocabulary_generation remote))
      else if both_have (cap_hhhs_repair caps) local remote \<and>
              hhhs_repair_generation local \<noteq> hhhs_repair_generation remote
      then Inl (HhhsRepairGeneration (hhhs_repair_generation local) (hhhs_repair_generation remote))
      else if both_have (cap_walkie_extension caps) local remote \<and>
              room_generation local \<noteq> room_generation remote
      then Inl (RoomGeneration (room_generation local) (room_generation remote))
      else Inr ())"

section \<open>Link state and MIDI\<close>

datatype link_state = Offline | Discovering | Connecting | Authenticating | Repairing | Ready | Refused | Failed

fun link_as_u8 :: "link_state \<Rightarrow> u8" where
  "link_as_u8 Offline = 0" | "link_as_u8 Discovering = 1" | "link_as_u8 Connecting = 2"
| "link_as_u8 Authenticating = 3" | "link_as_u8 Repairing = 4" | "link_as_u8 Ready = 5"
| "link_as_u8 Refused = 6" | "link_as_u8 Failed = 7"

definition link_from_u8 :: "u8 \<Rightarrow> link_state" where
  "link_from_u8 v =
     (if v = 1 then Discovering else if v = 2 then Connecting else if v = 3 then Authenticating
      else if v = 4 then Repairing else if v = 5 then Ready else if v = 6 then Refused
      else if v = 7 then Failed else Offline)"

datatype realtime_midi_kind = NoteOn | NoteOff | Choke | PolyPressure | PitchBend | ChannelPressure

datatype midi_input_mode = ToggleSet | GateSet | Perform

fun mode_as_u8 :: "midi_input_mode \<Rightarrow> u8" where
  "mode_as_u8 ToggleSet = 0" | "mode_as_u8 GateSet = 1" | "mode_as_u8 Perform = 2"

definition mode_from_u8 :: "u8 \<Rightarrow> midi_input_mode" where
  "mode_from_u8 v = (if v = 1 then GateSet else if v = 2 then Perform else ToggleSet)"

record realtime_midi =
  midi_timing :: u32
  midi_voice_id :: i32
  midi_channel :: u8
  midi_note :: u8
  midi_kind :: realtime_midi_kind
  midi_value :: u32

definition membership_voice_base :: i32 where
  "membership_voice_base = 0x54550000"

definition membership_voice_id :: "u8 \<Rightarrow> i32" where
  "membership_voice_id note = or membership_voice_base (ucast note)"

definition is_membership_projection :: "realtime_midi \<Rightarrow> bool" where
  "is_membership_projection m \<longleftrightarrow>
     and (midi_voice_id m) (not 0x7f) = membership_voice_base \<and>
     ucast (midi_note m) = and (midi_voice_id m) 0x7f \<and>
     midi_kind m \<in> {NoteOn, NoteOff}"

definition is_release :: "realtime_midi \<Rightarrow> bool" where
  "is_release m \<longleftrightarrow> midi_kind m \<in> {NoteOff, Choke}"

section \<open>Commands, events, errors\<close>

record board_session_binding =
  bs_identity :: bytes
  bs_boot_nonce :: u64
  bs_session_id :: u64

datatype ble_address = BleAddress string

record ble_scan_result =
  scan_address :: ble_address
  display_name :: "string option"
  signal_dbm :: "16 word option"

datatype ('f, 'c, 'p) bridge_command =
    ConfigureRoomIdentity bytes
  | SelectRoom string
  | LeaveRoom
  | StartBoardScan
  | ConnectBoard ble_address
  | TrustBoard bytes
  | ForgetBoard bytes
  | DisconnectBoard
  | PrepareBoardProvisioning board_session_binding
  | SendBoardCapabilityBundle board_session_binding bytes
  | StartBoardRepair board_session_binding
  | SendBoardRepairFrame board_session_binding bytes
  | ObserveBoardRepairFrame board_session_binding bytes
  | FinishBoardRepair board_session_binding
  | ConfirmBoardRepairClose board_session_binding
  | CompleteBoardRepair board_session_binding
  | AbortBoardRepair board_session_binding
  | PublishRoundTable 'f
  | PublishBoardEdit u64 'f "'c option" "('p \<times> bool) list"
  | SendBoardRoundTable 'f
  | SetSharedPitch u64 'p bool
  | ConfigureBle bytes "bytes list"

datatype bridge_error = QueueFull string | Unavailable string | Transport string

datatype pitch_intent_outcome = Applied | Rejected string

datatype ('f, 's, 'h) transport_event =
    RoomLink link_state
  | RoomSelected string
  | BoardLink link_state
  | RoomPeers u32
  | TrustedBoards u32
  | Midi realtime_midi
  | BoardDiscovered ble_scan_result
  | TrustRequired 'h
  | RemoteProfile protocol_profile
  | BoardProvisioningRequired board_session_binding
  | BoardCapabilityBundlePrepared board_session_binding bytes
  | BoardProvisioningFailed board_session_binding string
  | BoardProvisioned board_session_binding
  | BoardRepairOutbound board_session_binding bytes
  | BoardRepairInbound board_session_binding bytes
  | BoardRepairTerminal board_session_binding
  | BoardRepairCarrierClosed board_session_binding
  | BoardRepairSynchronized board_session_binding
  | BoardRepairFailed board_session_binding string
  | RoundTable 'f
  | RoomPitchSet 's
  | BoardRoundTable 'f
  | PitchIntentOutcome u64 pitch_intent_outcome
  | PitchIntentReset u64
  | Diagnostic string

text \<open>The \<open>Display\<close> text of an error.\<close>

fun display_error :: "bridge_error \<Rightarrow> string" where
  "display_error (QueueFull queue) = ''the bounded '' @ queue @ '' queue is full''"
| "display_error (Unavailable reason) = ''bridge transport is unavailable: '' @ reason"
| "display_error (Transport reason) = ''bridge transport failed: '' @ reason"

section \<open>The transport interface\<close>

text \<open>A \<open>BridgeTransport\<close> with state \<open>'t\<close>: each method gives its result and the state it leaves.\<close>

record ('t, 'cmd, 'ev) bridge_transport =
  start :: "'t \<Rightarrow> (bridge_error + unit) \<times> 't"
  handle_command :: "'cmd \<Rightarrow> 't \<Rightarrow> (bridge_error + unit) \<times> 't"
  send_realtime :: "realtime_midi \<Rightarrow> 't \<Rightarrow> (bridge_error + unit) \<times> 't"
  poll_event :: "'t \<Rightarrow> 'ev option \<times> 't"
  shutdown :: "'t \<Rightarrow> 't"

definition unavailable_transport :: "(unit, 'cmd, 'ev) bridge_transport" where
  "unavailable_transport =
     \<lparr>start = (\<lambda>t. (Inr (), t)),
      handle_command = (\<lambda>c t. (Inl (Unavailable ''no native Iroh/BLE bridge adapter is configured''), t)),
      send_realtime = (\<lambda>e t. (Inl (Unavailable ''no realtime carrier is connected''), t)),
      poll_event = (\<lambda>t. (None, t)),
      shutdown = (\<lambda>t. t)\<rparr>"

text \<open>The calls a bridge makes on a transport, and the contract of a transport that keeps an
  invariant over them.\<close>

datatype 'cmd transport_call = Start | Command 'cmd | Realtime realtime_midi | Poll | Shutdown

fun transport_step :: "('t, 'cmd, 'ev) bridge_transport \<Rightarrow> 'cmd transport_call \<Rightarrow> 't \<Rightarrow> 't" where
  "transport_step T Start t = snd (start T t)"
| "transport_step T (Command c) t = snd (handle_command T c t)"
| "transport_step T (Realtime m) t = snd (send_realtime T m t)"
| "transport_step T Poll t = snd (poll_event T t)"
| "transport_step T Shutdown t = shutdown T t"

locale transport_contract =
  fixes T :: "('t, 'cmd, 'ev) bridge_transport"
    and tinv :: "'t \<Rightarrow> bool"
  assumes keeps_start: "tinv t \<Longrightarrow> tinv (snd (start T t))"
    and keeps_command: "tinv t \<Longrightarrow> tinv (snd (handle_command T c t))"
    and keeps_realtime: "tinv t \<Longrightarrow> tinv (snd (send_realtime T m t))"
    and keeps_poll: "tinv t \<Longrightarrow> tinv (snd (poll_event T t))"
    and keeps_shutdown: "tinv t \<Longrightarrow> tinv (shutdown T t)"
begin

lemma tinv_step: "tinv t \<Longrightarrow> tinv (transport_step T call t)"
  by (cases call) (simp_all add: keeps_start keeps_command keeps_realtime keeps_poll keeps_shutdown)

lemma tinv_run: "tinv t \<Longrightarrow> tinv (run (transport_step T) calls t)"
  by (induction calls arbitrary: t) (simp_all add: tinv_step)

end

interpretation unavailable: transport_contract unavailable_transport "\<lambda>_. True"
  by unfold_locales simp_all

section \<open>Properties\<close>

lemma link_u8 [simp]: "link_from_u8 (link_as_u8 l) = l"
  by (cases l) (simp_all add: link_from_u8_def)

lemma mode_u8 [simp]: "mode_from_u8 (mode_as_u8 m) = m"
  by (cases m) (simp_all add: mode_from_u8_def)

fun mirror :: "protocol_mismatch \<Rightarrow> protocol_mismatch" where
  "mirror (MusicGeneration a b) = MusicGeneration b a"
| "mirror (MusicVocabularyGeneration a b) = MusicVocabularyGeneration b a"
| "mirror (HhhsStrategy a b) = HhhsStrategy b a"
| "mirror (HhhsRepairGeneration a b) = HhhsRepairGeneration b a"
| "mirror (RoomGeneration a b) = RoomGeneration b a"

lemma both_have_commute: "both_have cap a b = both_have cap b a"
  by (auto simp: both_have_def)

text \<open>The two ends of a link agree on compatibility: if one accepts the other's profile so does
  the other, and if one refuses, the other refuses for the same reason with the sides exchanged.\<close>

theorem compatibility_symmetric:
  "check_compatible caps remote local = map_sum mirror id (check_compatible caps local remote)"
  by (simp add: check_compatible_def both_have_commute [of _ remote local] eq_commute [of _ "_ remote"])

lemma low_bits: "w < 128 \<Longrightarrow> and w 0x7f = w" for w :: i32
proof -
  assume "w < 128"
  then have "unat w < 2 ^ 7" by (simp add: word_less_nat_alt)
  then have "take_bit 7 w = w"
    by (simp add: word_unat_eq_iff unsigned_take_bit_eq take_bit_nat_eq_self)
  moreover have "(0x7f :: i32) = mask 7" by (simp add: mask_eq_exp_minus_1)
  ultimately show ?thesis by (simp add: take_bit_eq_mask)
qed

lemma no_high_bits: "w < 128 \<Longrightarrow> and w (not 0x7f) = 0" for w :: i32
proof -
  assume "w < 128"
  then have "and w (not 0x7f) = and (and w 0x7f) (not 0x7f)" by (simp only: low_bits)
  also have "\<dots> = and w (and 0x7f (not 0x7f))" by (simp only: and.assoc)
  also have "\<dots> = 0" by simp
  finally show ?thesis .
qed

lemma unat_ucast_u8: "unat (ucast (n :: u8) :: i32) = unat n"
proof -
  have "unat n < 2 ^ LENGTH(8)" by (rule unsigned_less)
  then have "unat n < 2 ^ 32" by simp
  then show ?thesis by (simp add: unsigned_ucast_eq take_bit_nat_eq_self)
qed

lemma ucast_note_less: "n < 128 \<Longrightarrow> (ucast (n :: u8) :: i32) < 128"
  by (simp add: word_less_nat_alt unat_ucast_u8)

lemma membership_voice_parts:
  assumes "n < 128"
  shows "and (membership_voice_id n) 0x7f = ucast n"
    and "and (membership_voice_id n) (not 0x7f) = membership_voice_base"
proof -
  have b: "and membership_voice_base 0x7f = 0" "and membership_voice_base (not 0x7f) = membership_voice_base"
    by (simp_all add: membership_voice_base_def)
  show "and (membership_voice_id n) 0x7f = ucast n"
    by (simp only: membership_voice_id_def bit.conj_disj_distrib2 b low_bits [OF ucast_note_less [OF assms]]) simp
  show "and (membership_voice_id n) (not 0x7f) = membership_voice_base"
    by (simp only: membership_voice_id_def bit.conj_disj_distrib2 b no_high_bits [OF ucast_note_less [OF assms]]) simp
qed

lemma ucast_u8_inject: "(ucast (a :: u8) :: i32) = ucast b \<longleftrightarrow> a = b"
  by (metis unat_ucast_u8 word_unat_eq_iff)

text \<open>Notes of the confirmed room projection are recognised and nothing else is taken for them: for
  a MIDI note (below 128) the voice identifier the projection stamps on its edges passes
  \<open>is_membership_projection\<close>, for that note only, and an event without a voice never does.\<close>

theorem membership_voice_recognised:
  assumes "midi_kind m \<in> {NoteOn, NoteOff}" and "n < 128"
  shows "(is_membership_projection (m\<lparr>midi_voice_id := membership_voice_id n\<rparr>) \<longleftrightarrow> midi_note m = n) \<and>
         \<not> is_membership_projection (m\<lparr>midi_voice_id := - 1\<rparr>)"
proof -
  have "and (- 1) (not 0x7f) \<noteq> membership_voice_base" by (simp add: membership_voice_base_def)
  then show ?thesis
    using assms(1) membership_voice_parts [OF assms(2)] ucast_u8_inject [of "midi_note m" n]
    by (auto simp: is_membership_projection_def)
qed

definition edge :: realtime_midi where
  "edge = \<lparr>midi_timing = 0, midi_voice_id = - 1, midi_channel = 0, midi_note = 60, midi_kind = NoteOn,
     midi_value = 0\<rparr>"

theorem membership_voice_recognised_witness:
  "is_membership_projection (edge\<lparr>midi_voice_id := membership_voice_id 60\<rparr>) \<and>
   \<not> is_membership_projection (edge\<lparr>midi_voice_id := - 1\<rparr>)"
  using membership_voice_recognised [of edge 60] by (simp add: edge_def)

end
