(* ===== verification/Composite.thy ===== *)
theory Composite
  imports Bridge_Types
begin

text \<open>
  \<open>src/src/bridge/composite.rs\<close>: a carrier leg that may be absent, and the transport composed of a
  room leg and a board leg. The legs are arbitrary transports: their methods are the parameters \<open>R\<close>
  and \<open>B\<close>, their states fields of the composite. A \<open>VecDeque\<close> is a list, its front the head.
\<close>

section \<open>A leg\<close>

datatype carrier_leg_kind = Room | Board

record ('t, 'ev) carrier_leg =
  leg_transport :: "'t option"
  unavailable_reason :: "string option"
  leg_pending :: "'ev list"

definition leg_available :: "'t \<Rightarrow> ('t, 'ev) carrier_leg" where
  "leg_available t = \<lparr>leg_transport = Some t, unavailable_reason = None, leg_pending = []\<rparr>"

definition failed_link :: "carrier_leg_kind \<Rightarrow> ('f, 's, 'h) transport_event" where
  "failed_link kind = (case kind of Room \<Rightarrow> RoomLink Failed | Board \<Rightarrow> BoardLink Failed)"

definition leg_unavailable :: "carrier_leg_kind \<Rightarrow> string \<Rightarrow> ('t, ('f, 's, 'h) transport_event) carrier_leg" where
  "leg_unavailable kind reason =
     \<lparr>leg_transport = None, unavailable_reason = Some reason,
      leg_pending = [failed_link kind, Diagnostic reason]\<rparr>"

definition on_leg ::
  "'r \<Rightarrow> ('t \<Rightarrow> 'r \<times> 't) \<Rightarrow> ('t, 'ev) carrier_leg \<Rightarrow> 'r \<times> ('t, 'ev) carrier_leg" where
  "on_leg absent call leg =
     (case leg_transport leg of
        None \<Rightarrow> (absent, leg)
      | Some t \<Rightarrow> (case call t of (r, t') \<Rightarrow> (r, leg\<lparr>leg_transport := Some t'\<rparr>)))"

definition carrier_leg_transport ::
  "('t, 'cmd, 'ev) bridge_transport \<Rightarrow> (('t, 'ev) carrier_leg, 'cmd, 'ev) bridge_transport" where
  "carrier_leg_transport T =
     \<lparr>start = on_leg (Inr ()) (start T),
      handle_command = (\<lambda>c leg. on_leg
        (Inl (Unavailable (case unavailable_reason leg of
                 Some reason \<Rightarrow> reason | None \<Rightarrow> ''carrier leg is unavailable'')))
        (handle_command T c) leg),
      send_realtime = (\<lambda>m. on_leg (Inr ()) (send_realtime T m)),
      poll_event = (\<lambda>leg. case leg_pending leg of
          e # es \<Rightarrow> (Some e, leg\<lparr>leg_pending := es\<rparr>)
        | [] \<Rightarrow> on_leg None (poll_event T) leg),
      shutdown = (\<lambda>leg. case leg_transport leg of
          Some t \<Rightarrow> leg\<lparr>leg_transport := Some (shutdown T t)\<rparr>
        | None \<Rightarrow> leg)\<rparr>"

section \<open>The composite\<close>

definition pending_event_capacity :: nat where
  "pending_event_capacity = 64"

record ('r, 'b, 'ev) composite_transport =
  room :: 'r
  board :: 'b
  pending :: "'ev list"
  poll_room_first :: bool
  room_ready :: bool
  board_binding :: "board_session_binding option"
  provisioning_requested :: "board_session_binding option"

definition composite_new :: "'r \<Rightarrow> 'b \<Rightarrow> ('r, 'b, 'ev) composite_transport" where
  "composite_new r b =
     \<lparr>room = r, board = b, pending = [], poll_room_first = True, room_ready = False,
      board_binding = None, provisioning_requested = None\<rparr>"

text \<open>The eviction of the oldest event from a full queue, then the push.\<close>

definition push_pending :: "'ev \<Rightarrow> ('r, 'b, 'ev) composite_transport \<Rightarrow> ('r, 'b, 'ev) composite_transport" where
  "push_pending e t =
     t\<lparr>pending := (if length (pending t) = pending_event_capacity then tl (pending t) else pending t) @ [e]\<rparr>"

definition diagnostic ::
  "string \<Rightarrow> bridge_error \<Rightarrow> ('r, 'b, ('f, 's, 'h) transport_event) composite_transport \<Rightarrow>
   ('r, 'b, ('f, 's, 'h) transport_event) composite_transport" where
  "diagnostic leg error t =
     (case error of
        Unavailable _ \<Rightarrow> t
      | _ \<Rightarrow> push_pending (Diagnostic (leg @ '': '' @ display_error error)) t)"

text \<open>A command to one leg; the result is \<open>Some error\<close> when it failed.\<close>

definition room_command ::
  "('r, 'cmd, 'ev) bridge_transport \<Rightarrow> 'cmd \<Rightarrow> ('r, 'b, 'ev) composite_transport \<Rightarrow>
   bridge_error option \<times> ('r, 'b, 'ev) composite_transport" where
  "room_command R c t =
     (case handle_command R c (room t) of (res, r') \<Rightarrow>
        (case res of Inl e \<Rightarrow> Some e | Inr _ \<Rightarrow> None, t\<lparr>room := r'\<rparr>))"

definition board_command ::
  "('b, 'cmd, 'ev) bridge_transport \<Rightarrow> 'cmd \<Rightarrow> ('r, 'b, 'ev) composite_transport \<Rightarrow>
   bridge_error option \<times> ('r, 'b, 'ev) composite_transport" where
  "board_command B c t =
     (case handle_command B c (board t) of (res, b') \<Rightarrow>
        (case res of Inl e \<Rightarrow> Some e | Inr _ \<Rightarrow> None, t\<lparr>board := b'\<rparr>))"

type_synonym ('f, 'c, 'p) cmd = "('f, 'c, 'p) bridge_command"
type_synonym ('f, 's, 'h) ev = "('f, 's, 'h) transport_event"

definition request_board_provisioning ::
  "('r, ('f, 'c, 'p) cmd, ('f, 's, 'h) ev) bridge_transport \<Rightarrow>
   ('r, 'b, ('f, 's, 'h) ev) composite_transport \<Rightarrow> ('r, 'b, ('f, 's, 'h) ev) composite_transport" where
  "request_board_provisioning R t =
     (case board_binding t of
        None \<Rightarrow> t
      | Some binding \<Rightarrow>
          if \<not> room_ready t \<or> provisioning_requested t = Some binding then t
          else case room_command R (PrepareBoardProvisioning binding) t of
                 (None, t') \<Rightarrow> t'\<lparr>provisioning_requested := Some binding\<rparr>
               | (Some e, t') \<Rightarrow> diagnostic ''room provisioning'' e t')"

definition fence_board_repair ::
  "('r, ('f, 'c, 'p) cmd, ('f, 's, 'h) ev) bridge_transport \<Rightarrow>
   ('b, ('f, 'c, 'p) cmd, ('f, 's, 'h) ev) bridge_transport \<Rightarrow>
   board_session_binding \<Rightarrow> string \<Rightarrow> bridge_error \<Rightarrow>
   ('r, 'b, ('f, 's, 'h) ev) composite_transport \<Rightarrow> ('r, 'b, ('f, 's, 'h) ev) composite_transport" where
  "fence_board_repair R B binding leg error t =
     (if board_binding t \<noteq> Some binding then t
      else diagnostic leg error
             (snd (board_command B (AbortBoardRepair binding)
               (snd (room_command R (AbortBoardRepair binding) t)))))"

definition start_failed ::
  "carrier_leg_kind \<Rightarrow> bridge_error \<Rightarrow> ('r, 'b, ('f, 's, 'h) ev) composite_transport \<Rightarrow>
   ('r, 'b, ('f, 's, 'h) ev) composite_transport" where
  "start_failed leg error t =
     push_pending (Diagnostic ((case leg of Room \<Rightarrow> ''Room'' | Board \<Rightarrow> ''Board'') @ '' startup: '' @
        display_error error))
       (push_pending (failed_link leg) t)"

text \<open>A command that is only sent for the current binding, with what to do when it fails.\<close>

definition if_current ::
  "board_session_binding \<Rightarrow>
   (('r, 'b, 'ev) composite_transport \<Rightarrow> bridge_error option \<times> ('r, 'b, 'ev) composite_transport) \<Rightarrow>
   (bridge_error \<Rightarrow> ('r, 'b, 'ev) composite_transport \<Rightarrow> ('r, 'b, 'ev) composite_transport) \<Rightarrow>
   ('r, 'b, 'ev) composite_transport \<Rightarrow> ('r, 'b, 'ev) composite_transport" where
  "if_current binding call failed t =
     (if board_binding t = Some binding
      then (case call t of (Some e, t') \<Rightarrow> failed e t' | (None, t') \<Rightarrow> t')
      else t)"

definition route_room_event ::
  "('r, ('f, 'c, 'p) cmd, ('f, 's, 'h) ev) bridge_transport \<Rightarrow>
   ('b, ('f, 'c, 'p) cmd, ('f, 's, 'h) ev) bridge_transport \<Rightarrow>
   ('f, 's, 'h) ev \<Rightarrow> ('r, 'b, ('f, 's, 'h) ev) composite_transport \<Rightarrow>
   ('f, 's, 'h) ev \<times> ('r, 'b, ('f, 's, 'h) ev) composite_transport" where
  "route_room_event R B event t =
     (event,
      case event of
        RoomLink link \<Rightarrow>
          if link = Ready
          then request_board_provisioning R (t\<lparr>room_ready := True, provisioning_requested := None\<rparr>)
          else t\<lparr>room_ready := False, provisioning_requested := None\<rparr>
      | RoomSelected _ \<Rightarrow> request_board_provisioning R (t\<lparr>provisioning_requested := None\<rparr>)
      | BoardCapabilityBundlePrepared binding bundle \<Rightarrow>
          if_current binding (board_command B (SendBoardCapabilityBundle binding bundle))
            (\<lambda>e t'. diagnostic ''board provisioning'' e (t'\<lparr>provisioning_requested := None\<rparr>)) t
      | BoardProvisioningFailed binding _ \<Rightarrow>
          if board_binding t = Some binding then t\<lparr>provisioning_requested := None\<rparr> else t
      | BoardRepairOutbound binding frame \<Rightarrow>
          if_current binding (board_command B (SendBoardRepairFrame binding frame))
            (fence_board_repair R B binding ''board repair output'') t
      | BoardRepairTerminal binding \<Rightarrow>
          if_current binding (board_command B (FinishBoardRepair binding))
            (fence_board_repair R B binding ''board repair close'') t
      | BoardRepairFailed binding _ \<Rightarrow>
          if_current binding (board_command B (AbortBoardRepair binding))
            (diagnostic ''board repair failure fence'') t
      | BoardRepairSynchronized binding \<Rightarrow>
          if_current binding (board_command B (CompleteBoardRepair binding))
            (fence_board_repair R B binding ''board repair completion'') t
      | Midi midi \<Rightarrow>
          (case send_realtime B midi (board t) of (res, b') \<Rightarrow>
             let t' = t\<lparr>board := b'\<rparr>
             in case res of Inl e \<Rightarrow> diagnostic ''board forwarding'' e t' | Inr _ \<Rightarrow> t')
      | _ \<Rightarrow> t)"

definition route_board_event ::
  "('r, ('f, 'c, 'p) cmd, ('f, 's, 'h) ev) bridge_transport \<Rightarrow>
   ('b, ('f, 'c, 'p) cmd, ('f, 's, 'h) ev) bridge_transport \<Rightarrow>
   ('f, 's, 'h) ev \<Rightarrow> ('r, 'b, ('f, 's, 'h) ev) composite_transport \<Rightarrow>
   ('f, 's, 'h) ev \<times> ('r, 'b, ('f, 's, 'h) ev) composite_transport" where
  "route_board_event R B event t =
     (case event of
        BoardProvisioningRequired binding \<Rightarrow>
          (event, request_board_provisioning R
             (t\<lparr>board_binding := Some binding, provisioning_requested := None\<rparr>))
      | BoardProvisioned binding \<Rightarrow>
          (event,
           if board_binding t \<noteq> Some binding
           then diagnostic ''board provisioning''
                  (Transport ''stale board provisioning completion was ignored'') t
           else (case room_command R (StartBoardRepair binding) t of
                   (Some e, t') \<Rightarrow> fence_board_repair R B binding ''board repair start'' e t'
                 | (None, t') \<Rightarrow> t'))
      | BoardRepairInbound binding frame \<Rightarrow>
          (event, if_current binding (room_command R (ObserveBoardRepairFrame binding frame))
             (fence_board_repair R B binding ''board repair input'') t)
      | BoardRepairCarrierClosed binding \<Rightarrow>
          (event, if_current binding (room_command R (ConfirmBoardRepairClose binding))
             (fence_board_repair R B binding ''board repair confirmation'') t)
      | BoardLink link \<Rightarrow>
          (event,
           if link \<noteq> Ready \<and> link \<noteq> Repairing
           then (case board_binding t of
                   None \<Rightarrow> t
                 | Some binding \<Rightarrow>
                     (case room_command R (AbortBoardRepair binding) t of
                        (Some e, t') \<Rightarrow> diagnostic ''board repair abandonment'' e t'
                      | (None, t') \<Rightarrow> t'))\<lparr>board_binding := None, provisioning_requested := None\<rparr>
           else t)
      | Midi midi \<Rightarrow>
          (event,
           (case send_realtime R midi (room t) of (res, r') \<Rightarrow>
              let t' = t\<lparr>room := r'\<rparr>
              in case res of Inl e \<Rightarrow> diagnostic ''room forwarding'' e t' | Inr _ \<Rightarrow> t'))
      | RoundTable frame \<Rightarrow> (BoardRoundTable frame, t)
      | _ \<Rightarrow> (event, t))"

definition composite_start ::
  "('r, ('f, 'c, 'p) cmd, ('f, 's, 'h) ev) bridge_transport \<Rightarrow>
   ('b, ('f, 'c, 'p) cmd, ('f, 's, 'h) ev) bridge_transport \<Rightarrow>
   ('r, 'b, ('f, 's, 'h) ev) composite_transport \<Rightarrow>
   (bridge_error + unit) \<times> ('r, 'b, ('f, 's, 'h) ev) composite_transport" where
  "composite_start R B t =
     (case start R (room t) of (room_res, r') \<Rightarrow>
      case start B (board t) of (board_res, b') \<Rightarrow>
        let t0 = t\<lparr>room := r', board := b'\<rparr>;
            t1 = (case room_res of Inl e \<Rightarrow> start_failed Room e t0 | Inr _ \<Rightarrow> t0);
            t2 = (case board_res of Inl e \<Rightarrow> start_failed Board e t1 | Inr _ \<Rightarrow> t1)
        in (Inr (), t2))"

fun room_owned :: "('f, 'c, 'p) cmd \<Rightarrow> bool" where
  "room_owned (ConfigureRoomIdentity _) = True"
| "room_owned (SelectRoom _) = True"
| "room_owned LeaveRoom = True"
| "room_owned (PrepareBoardProvisioning _) = True"
| "room_owned (StartBoardRepair _) = True"
| "room_owned (ObserveBoardRepairFrame _ _) = True"
| "room_owned (ConfirmBoardRepairClose _) = True"
| "room_owned (AbortBoardRepair _) = True"
| "room_owned (PublishRoundTable _) = True"
| "room_owned (PublishBoardEdit _ _ _ _) = True"
| "room_owned (SetSharedPitch _ _ _) = True"
| "room_owned _ = False"

definition composite_handle_command ::
  "('r, ('f, 'c, 'p) cmd, ('f, 's, 'h) ev) bridge_transport \<Rightarrow>
   ('b, ('f, 'c, 'p) cmd, ('f, 's, 'h) ev) bridge_transport \<Rightarrow>
   ('f, 'c, 'p) cmd \<Rightarrow> ('r, 'b, ('f, 's, 'h) ev) composite_transport \<Rightarrow>
   (bridge_error + unit) \<times> ('r, 'b, ('f, 's, 'h) ev) composite_transport" where
  "composite_handle_command R B c t =
     (if room_owned c
      then (case handle_command R c (room t) of (res, r') \<Rightarrow> (res, t\<lparr>room := r'\<rparr>))
      else (case handle_command B c (board t) of (res, b') \<Rightarrow> (res, t\<lparr>board := b'\<rparr>)))"

definition composite_send_realtime ::
  "('r, 'cmd, 'ev) bridge_transport \<Rightarrow> ('b, 'cmd, 'ev) bridge_transport \<Rightarrow>
   realtime_midi \<Rightarrow> ('r, 'b, 'ev) composite_transport \<Rightarrow>
   (bridge_error + unit) \<times> ('r, 'b, 'ev) composite_transport" where
  "composite_send_realtime R B m t =
     (case send_realtime R m (room t) of (room_res, r') \<Rightarrow>
      case send_realtime B m (board t) of (board_res, b') \<Rightarrow>
        (case (room_res, board_res) of
           (Inl left, Inl right) \<Rightarrow> (case left of Unavailable _ \<Rightarrow> Inr () | _ \<Rightarrow> Inl left)
         | _ \<Rightarrow> Inr (),
         t\<lparr>room := r', board := b'\<rparr>))"

text \<open>The leg that is asked first, then the other; the flag of the result says that the event is the
  room's.\<close>

definition poll_legs ::
  "('r, 'cmd, 'ev) bridge_transport \<Rightarrow> ('b, 'cmd, 'ev) bridge_transport \<Rightarrow>
   ('r, 'b, 'ev) composite_transport \<Rightarrow> (bool \<times> 'ev) option \<times> ('r, 'b, 'ev) composite_transport" where
  "poll_legs R B t =
     (if poll_room_first t
      then (case poll_event R (room t) of
              (Some e, r') \<Rightarrow> (Some (True, e), t\<lparr>room := r'\<rparr>)
            | (None, r') \<Rightarrow>
                (case poll_event B (board t) of
                   (e, b') \<Rightarrow> (map_option (Pair False) e, t\<lparr>room := r', board := b'\<rparr>)))
      else (case poll_event B (board t) of
              (Some e, b') \<Rightarrow> (Some (False, e), t\<lparr>board := b'\<rparr>)
            | (None, b') \<Rightarrow>
                (case poll_event R (room t) of
                   (e, r') \<Rightarrow> (map_option (Pair True) e, t\<lparr>board := b', room := r'\<rparr>))))"

definition composite_poll_event ::
  "('r, ('f, 'c, 'p) cmd, ('f, 's, 'h) ev) bridge_transport \<Rightarrow>
   ('b, ('f, 'c, 'p) cmd, ('f, 's, 'h) ev) bridge_transport \<Rightarrow>
   ('r, 'b, ('f, 's, 'h) ev) composite_transport \<Rightarrow>
   ('f, 's, 'h) ev option \<times> ('r, 'b, ('f, 's, 'h) ev) composite_transport" where
  "composite_poll_event R B t =
     (case pending t of
        e # es \<Rightarrow> (Some e, t\<lparr>pending := es\<rparr>)
      | [] \<Rightarrow>
          (case poll_legs R B t of
             (None, t') \<Rightarrow> (None, t')
           | (Some (from_room, e), t') \<Rightarrow>
               let t'' = t'\<lparr>poll_room_first := \<not> poll_room_first t'\<rparr>
               in case (if from_room then route_room_event R B e t'' else route_board_event R B e t'') of
                    (e', u) \<Rightarrow> (Some e', u)))"

definition composite_shutdown ::
  "('r, 'cmd, 'ev) bridge_transport \<Rightarrow> ('b, 'cmd, 'ev) bridge_transport \<Rightarrow>
   ('r, 'b, 'ev) composite_transport \<Rightarrow> ('r, 'b, 'ev) composite_transport" where
  "composite_shutdown R B t = t\<lparr>room := shutdown R (room t), board := shutdown B (board t)\<rparr>"

definition composite_ops ::
  "('r, ('f, 'c, 'p) cmd, ('f, 's, 'h) ev) bridge_transport \<Rightarrow>
   ('b, ('f, 'c, 'p) cmd, ('f, 's, 'h) ev) bridge_transport \<Rightarrow>
   (('r, 'b, ('f, 's, 'h) ev) composite_transport, ('f, 'c, 'p) cmd, ('f, 's, 'h) ev) bridge_transport" where
  "composite_ops R B =
     \<lparr>start = composite_start R B, handle_command = composite_handle_command R B,
      send_realtime = composite_send_realtime R B, poll_event = composite_poll_event R B,
      shutdown = composite_shutdown R B\<rparr>"

section \<open>The invariant\<close>

definition composite_inv :: "('r, 'b, 'ev) composite_transport \<Rightarrow> bool" where
  "composite_inv t \<longleftrightarrow>
     length (pending t) \<le> pending_event_capacity \<and>
     (\<forall>b. provisioning_requested t = Some b \<longrightarrow> room_ready t \<and> board_binding t = Some b)"

lemma composite_inv_push: "composite_inv t \<Longrightarrow> composite_inv (push_pending e t)"
  by (auto simp: composite_inv_def push_pending_def pending_event_capacity_def)

lemma composite_inv_diagnostic: "composite_inv t \<Longrightarrow> composite_inv (diagnostic leg e t)"
  by (cases e) (simp_all add: diagnostic_def composite_inv_push)

text \<open>What the legs do does not touch the bookkeeping.\<close>

lemma composite_inv_legs [simp]:
  "composite_inv (t\<lparr>room := r\<rparr>) = composite_inv t" "composite_inv (t\<lparr>board := b\<rparr>) = composite_inv t"
  "composite_inv (t\<lparr>poll_room_first := x\<rparr>) = composite_inv t"
  by (simp_all add: composite_inv_def)

lemma composite_inv_commands [simp]:
  "composite_inv (snd (room_command R c t)) = composite_inv t"
  "composite_inv (snd (board_command B c t)) = composite_inv t"
  by (simp_all add: room_command_def board_command_def split: prod.splits)

lemma command_bookkeeping [simp]:
  "board_binding (snd (room_command R c t)) = board_binding t"
  "room_ready (snd (room_command R c t)) = room_ready t"
  "pending (snd (room_command R c t)) = pending t"
  "provisioning_requested (snd (room_command R c t)) = provisioning_requested t"
  "board_binding (snd (board_command B c t)) = board_binding t"
  "room_ready (snd (board_command B c t)) = room_ready t"
  "pending (snd (board_command B c t)) = pending t"
  "provisioning_requested (snd (board_command B c t)) = provisioning_requested t"
  by (simp_all add: room_command_def board_command_def split: prod.splits)

lemma composite_inv_reset:
  "composite_inv t \<Longrightarrow> composite_inv (t\<lparr>provisioning_requested := None\<rparr>)"
  "composite_inv t \<Longrightarrow> composite_inv (t\<lparr>room_ready := x, provisioning_requested := None\<rparr>)"
  "composite_inv t \<Longrightarrow> composite_inv (t\<lparr>board_binding := y, provisioning_requested := None\<rparr>)"
  by (simp_all add: composite_inv_def)

lemma composite_inv_requested:
  "composite_inv t \<Longrightarrow> room_ready t \<Longrightarrow> board_binding t = Some b \<Longrightarrow>
   composite_inv (t\<lparr>provisioning_requested := Some b\<rparr>)"
  by (simp add: composite_inv_def)

lemma composite_inv_request: "composite_inv t \<Longrightarrow> composite_inv (request_board_provisioning R t)"
proof -
  assume i: "composite_inv t"
  show ?thesis
  proof (cases "board_binding t")
    case (Some b)
    obtain res t' where c: "room_command R (PrepareBoardProvisioning b) t = (res, t')" by fastforce
    have "composite_inv t'" "board_binding t' = Some b" "room_ready t' = room_ready t"
      using i Some composite_inv_commands(1) [of R "PrepareBoardProvisioning b" t]
        command_bookkeeping(1,2) [of R "PrepareBoardProvisioning b" t] c by simp_all
    then show ?thesis
      using i Some c by (cases res) (auto simp: request_board_provisioning_def composite_inv_diagnostic composite_inv_requested)
  qed (use i in \<open>simp add: request_board_provisioning_def\<close>)
qed

lemma composite_inv_fence: "composite_inv t \<Longrightarrow> composite_inv (fence_board_repair R B b leg e t)"
  by (simp add: fence_board_repair_def composite_inv_diagnostic)

lemma composite_inv_if_current:
  assumes "composite_inv t" and "\<And>t. composite_inv t \<Longrightarrow> composite_inv (snd (call t))"
    and "\<And>e t. composite_inv t \<Longrightarrow> composite_inv (failed e t)"
  shows "composite_inv (if_current b call failed t)"
  using assms(1) assms(2) [OF assms(1)] assms(3) by (auto simp: if_current_def split: prod.splits option.splits)

lemma composite_inv_route_room: "composite_inv t \<Longrightarrow> composite_inv (snd (route_room_event R B e t))"
  by (cases e)
     (auto simp: route_room_event_def Let_def composite_inv_reset composite_inv_diagnostic composite_inv_fence
       intro!: composite_inv_request composite_inv_if_current split: prod.splits sum.splits)

lemma room_command_inv: "room_command R c t = (res, t') \<Longrightarrow> composite_inv t' = composite_inv t"
  using composite_inv_commands(1) [of R c t] by simp

lemma composite_inv_abandon:
  "composite_inv t \<Longrightarrow>
   composite_inv (case room_command R c t of (Some e, t') \<Rightarrow> diagnostic leg e t' | (None, t') \<Rightarrow> t')"
  by (auto simp: composite_inv_diagnostic room_command_inv split: prod.splits option.splits)

lemma composite_inv_started:
  "composite_inv t \<Longrightarrow>
   composite_inv (case room_command R c t of (Some e, t') \<Rightarrow> fence_board_repair R B b leg e t' | (None, t') \<Rightarrow> t')"
  by (auto simp: composite_inv_fence room_command_inv split: prod.splits option.splits)

lemma composite_inv_route_board: "composite_inv t \<Longrightarrow> composite_inv (snd (route_board_event R B e t))"
  by (cases e)
     (auto simp: route_board_event_def Let_def composite_inv_diagnostic composite_inv_fence composite_inv_started
       room_command_inv
       intro!: composite_inv_request composite_inv_if_current composite_inv_reset composite_inv_abandon
       split: prod.splits sum.splits option.split)

lemma composite_inv_start_failed: "composite_inv t \<Longrightarrow> composite_inv (start_failed leg e t)"
  by (simp add: start_failed_def composite_inv_push)

lemma composite_inv_poll_legs: "composite_inv t \<Longrightarrow> composite_inv (snd (poll_legs R B t))"
  by (simp add: poll_legs_def split: prod.splits option.splits)

lemma composite_inv_poll: "composite_inv t \<Longrightarrow> composite_inv (snd (composite_poll_event R B t))"
proof (cases "pending t")
  case Nil
  assume i: "composite_inv t"
  obtain res t' where p: "poll_legs R B t = (res, t')" by fastforce
  with composite_inv_poll_legs [OF i, of R B] have "composite_inv t'" by simp
  then show ?thesis
    using Nil p
    by (auto simp: composite_poll_event_def Let_def case_prod_unfold composite_inv_route_room
        composite_inv_route_board split: option.splits)
qed (simp add: composite_poll_event_def composite_inv_def)

lemma composite_inv_start: "composite_inv t \<Longrightarrow> composite_inv (snd (composite_start R B t))"
  by (auto simp: composite_start_def Let_def composite_inv_start_failed split: prod.splits sum.splits)

lemma composite_inv_calls:
  "composite_inv (snd (composite_handle_command R B c t)) = composite_inv t"
  "composite_inv (snd (composite_send_realtime R B m t)) = composite_inv t"
  "composite_inv (composite_shutdown R B t) = composite_inv t"
  by (simp_all add: composite_handle_command_def composite_send_realtime_def composite_shutdown_def
      split: prod.splits)

interpretation composite: transport_contract "composite_ops R B" composite_inv
  by unfold_locales (simp_all add: composite_ops_def composite_inv_start composite_inv_calls composite_inv_poll)

lemma composite_inv_new: "composite_inv (composite_new r b)"
  by (simp add: composite_inv_def composite_new_def)

text \<open>A leg never loses its transport, and never gains one.\<close>

interpretation leg: transport_contract "carrier_leg_transport T"
  "\<lambda>leg. (leg_transport leg = None) = absent \<and> length (leg_pending leg) \<le> n"
  by unfold_locales
     (auto simp: carrier_leg_transport_def on_leg_def split: option.splits prod.splits list.splits)

lemma diagnostic_fields [simp]:
  "room (diagnostic leg x t) = room t" "board (diagnostic leg x t) = board t"
  "board_binding (diagnostic leg x t) = board_binding t" "room_ready (diagnostic leg x t) = room_ready t"
  "poll_room_first (diagnostic leg x t) = poll_room_first t"
  "provisioning_requested (diagnostic leg x t) = provisioning_requested t"
  by (cases x; simp add: diagnostic_def push_pending_def)+

lemma poll_room_first_commands [simp]:
  "poll_room_first (snd (room_command R c t)) = poll_room_first t"
  "poll_room_first (snd (board_command B c t)) = poll_room_first t"
  by (simp_all add: room_command_def board_command_def split: prod.splits)

lemma command_results:
  "room_command R c t = (res, t') \<Longrightarrow> poll_room_first t' = poll_room_first t"
  "board_command B c t = (res, t') \<Longrightarrow> poll_room_first t' = poll_room_first t"
  using poll_room_first_commands(1) [of R c t] poll_room_first_commands(2) [of B c t] by simp_all

lemma poll_room_first_request [simp]: "poll_room_first (request_board_provisioning R t) = poll_room_first t"
  by (auto simp: request_board_provisioning_def command_results split: option.splits prod.splits)

lemma poll_room_first_fence [simp]: "poll_room_first (fence_board_repair R B b leg e t) = poll_room_first t"
  by (simp add: fence_board_repair_def)

lemma poll_room_first_routed [simp]:
  "poll_room_first (snd (route_room_event R B x t)) = poll_room_first t"
  "poll_room_first (snd (route_board_event R B x t)) = poll_room_first t"
  by (cases x;
      auto simp: route_room_event_def route_board_event_def if_current_def Let_def command_results
        split: option.splits prod.splits sum.splits)+

lemma routed_event:
  "fst (route_room_event R B x t) = x"
  "fst (route_board_event R B x t) = (case x of RoundTable f \<Rightarrow> BoardRoundTable f | _ \<Rightarrow> x)"
  by (simp_all add: route_room_event_def route_board_event_def split: transport_event.split)

section \<open>Properties\<close>

text \<open>C29: Whatever the two legs do and however the bridge calls the composite, its queue of pending
  diagnostics holds at most 64 events, and a provisioning request is outstanding only while the room is
  ready and only for the board placement that is bound.\<close>

theorem composite_invariant:
  "composite_inv (run (transport_step (composite_ops R B)) calls (composite_new r b))"
  by (rule composite.tinv_run [OF composite_inv_new])

text \<open>The placement an event speaks of: every event of a board boot and session.\<close>

fun event_binding :: "('f, 's, 'h) ev \<Rightarrow> board_session_binding option" where
  "event_binding (BoardProvisioningRequired b) = Some b"
| "event_binding (BoardCapabilityBundlePrepared b _) = Some b"
| "event_binding (BoardProvisioningFailed b _) = Some b"
| "event_binding (BoardProvisioned b) = Some b"
| "event_binding (BoardRepairOutbound b _) = Some b"
| "event_binding (BoardRepairInbound b _) = Some b"
| "event_binding (BoardRepairTerminal b) = Some b"
| "event_binding (BoardRepairCarrierClosed b) = Some b"
| "event_binding (BoardRepairSynchronized b) = Some b"
| "event_binding (BoardRepairFailed b _) = Some b"
| "event_binding _ = None"

text \<open>C30: Events of an older board boot or session are fenced. Of the events that speak of a placement other than the
  bound one, the board's request for provisioning is the one that opens a new placement: that placement becomes the
  bound one, the board leg is not called, and the room leg is at most asked to prepare that provisioning. From the room
  leg, and for every other such event, nothing is called and nothing changes, except that a stale provisioning
  completion of the board adds one diagnostic.\<close>

theorem stale_binding_fenced:
  assumes "event_binding e = Some b" and "board_binding t \<noteq> Some b"
  shows "route_room_event R B e t = (e, t) \<and>
         (if e = BoardProvisioningRequired b
          then \<exists>t'. route_board_event R B e t = (e, t') \<and> board_binding t' = Some b \<and> board t' = board t \<and>
                 (room t' = room t \<or> room t' = snd (handle_command R (PrepareBoardProvisioning b) (room t)))
          else route_board_event R B e t =
            (e, if e = BoardProvisioned b
                then push_pending (Diagnostic (''board provisioning: bridge transport failed: '' @
                       ''stale board provisioning completion was ignored'')) t
                else t))"
  using assms
  by (cases e) (auto simp: route_room_event_def route_board_event_def if_current_def diagnostic_def
      request_board_provisioning_def room_command_def push_pending_def Let_def
      split: prod.splits sum.splits option.splits bridge_error.splits)

text \<open>Board repair fails closed. When the board refuses a repair frame, the end or the completion of
  the repair for the bound placement, the repair is aborted on both legs, the room first, before the
  event is passed on.\<close>

theorem repair_failure_fences_both_legs:
  assumes "board_binding t = Some b"
    and "(e, c) \<in> {(BoardRepairOutbound b frame, SendBoardRepairFrame b frame),
                    (BoardRepairTerminal b, FinishBoardRepair b),
                    (BoardRepairSynchronized b, CompleteBoardRepair b)}"
    and "handle_command B c (board t) = (Inl err, b1)"
  shows "room (snd (route_room_event R B e t)) = snd (handle_command R (AbortBoardRepair b) (room t)) \<and>
         board (snd (route_room_event R B e t)) = snd (handle_command B (AbortBoardRepair b) b1) \<and>
         board_binding (snd (route_room_event R B e t)) = Some b"
proof -
  obtain r1 b2 where "snd (handle_command R (AbortBoardRepair b) (room t)) = r1"
      "snd (handle_command B (AbortBoardRepair b) b1) = b2" by blast
  then show ?thesis
    using assms by (auto simp: route_room_event_def if_current_def board_command_def room_command_def
        fence_board_repair_def case_prod_unfold)
qed

text \<open>Neither leg starves the other. Without pending diagnostics, a poll that delivers an event of
  one leg makes the other leg the first to be asked by the next poll, the leg asked first is the one
  served when it has an event (a round-table frame of the board marked as such), and a poll that finds
  nothing asked both legs.\<close>

theorem poll_alternates:
  assumes "pending t = []" and "composite_poll_event R B t = (res, t')"
  shows "(res = None \<longrightarrow> fst (poll_event R (room t)) = None \<and> fst (poll_event B (board t)) = None \<and>
                         poll_room_first t' = poll_room_first t) \<and>
         (res \<noteq> None \<longrightarrow> poll_room_first t' = (\<not> poll_room_first t)) \<and>
         (\<not> poll_room_first t \<and> fst (poll_event B (board t)) = Some e \<longrightarrow>
            res = Some (case e of RoundTable f \<Rightarrow> BoardRoundTable f | _ \<Rightarrow> e)) \<and>
         (poll_room_first t \<and> fst (poll_event R (room t)) = Some e \<longrightarrow> res = Some e)"
proof -
  obtain p u where p: "poll_legs R B t = (p, u)" by fastforce
  have u: "poll_room_first u = poll_room_first t"
    using p by (auto simp: poll_legs_def split: if_splits prod.splits option.splits)
  have none: "p = None \<Longrightarrow> fst (poll_event R (room t)) = None \<and> fst (poll_event B (board t)) = None"
    using p by (auto simp: poll_legs_def split: if_splits prod.splits option.splits)
  have first: "\<not> poll_room_first t \<and> fst (poll_event B (board t)) = Some e \<Longrightarrow> p = Some (False, e)"
    "poll_room_first t \<and> fst (poll_event R (room t)) = Some e \<Longrightarrow> p = Some (True, e)"
    using p by (auto simp: poll_legs_def split: if_splits prod.splits option.splits)
  let ?v = "u\<lparr>poll_room_first := \<not> poll_room_first u\<rparr>"
  consider "p = None" | x where "p = Some (True, x)" | x where "p = Some (False, x)"
    by (metis option.exhaust prod.exhaust)
  then show ?thesis
  proof cases
    case 1
    then have "res = None" "t' = u"
      using assms p by (simp_all add: composite_poll_event_def)
    then show ?thesis using u none [OF 1] by simp
  next
    case (2 x)
    then have "(res, t') = (Some (fst (route_room_event R B x ?v)), snd (route_room_event R B x ?v))"
      using assms p by (simp add: composite_poll_event_def Let_def case_prod_unfold)
    then show ?thesis using 2 u first by (auto simp: routed_event)
  next
    case (3 x)
    then have "(res, t') = (Some (fst (route_board_event R B x ?v)), snd (route_board_event R B x ?v))"
      using assms p by (simp add: composite_poll_event_def Let_def case_prod_unfold)
    then show ?thesis using 3 u first by (auto simp: routed_event)
  qed
qed

section \<open>Witnesses\<close>

text \<open>Legs that keep the commands they get; the board refuses everything.\<close>

definition recorder :: "bool \<Rightarrow> 'ev option \<Rightarrow> ('cmd list, 'cmd, 'ev) bridge_transport" where
  "recorder refuses ready_event =
     \<lparr>start = (\<lambda>t. (Inr (), t)),
      handle_command = (\<lambda>c t. (if refuses then Inl (Transport ''refused'') else Inr (), t @ [c])),
      send_realtime = (\<lambda>m t. (Inr (), t)), poll_event = (\<lambda>t. (ready_event, t)), shutdown = (\<lambda>t. t)\<rparr>"

type_synonym demo_cmd = "(unit, unit, unit) cmd"
type_synonym demo_ev = "(unit, unit, unit) ev"

definition demo_binding :: "u64 \<Rightarrow> board_session_binding" where
  "demo_binding n = \<lparr>bs_identity = [], bs_boot_nonce = n, bs_session_id = 1\<rparr>"

definition demo_composite :: "(demo_cmd list, demo_cmd list, demo_ev) composite_transport" where
  "demo_composite = (composite_new [] [])\<lparr>board_binding := Some (demo_binding 1), room_ready := True\<rparr>"

theorem stale_binding_fenced_witness:
  "route_room_event (recorder False None) (recorder True None) (BoardRepairTerminal (demo_binding 0)) demo_composite
     = (BoardRepairTerminal (demo_binding 0), demo_composite)"
  using stale_binding_fenced [of "BoardRepairTerminal (demo_binding 0)" "demo_binding 0" demo_composite
      "recorder False None" "recorder True None"]
  by (simp add: demo_composite_def demo_binding_def)

theorem repair_failure_fences_both_legs_witness:
  "room (snd (route_room_event (recorder False None) (recorder True None)
     (BoardRepairTerminal (demo_binding 1)) demo_composite)) = [AbortBoardRepair (demo_binding 1)] \<and>
   board (snd (route_room_event (recorder False None) (recorder True None)
     (BoardRepairTerminal (demo_binding 1)) demo_composite)) =
     [FinishBoardRepair (demo_binding 1), AbortBoardRepair (demo_binding 1)]"
  using repair_failure_fences_both_legs [of demo_composite "demo_binding 1" "BoardRepairTerminal (demo_binding 1)"
      "FinishBoardRepair (demo_binding 1)" "[]" "recorder True None" "Transport ''refused''"
      "[FinishBoardRepair (demo_binding 1)]" "recorder False None"]
  by (simp add: demo_composite_def composite_new_def recorder_def)

theorem poll_alternates_witness:
  "fst (composite_poll_event (recorder False (Some (RoomPeers 1))) (recorder True (Some (TrustedBoards 1)))
     demo_composite) = Some (RoomPeers 1) \<and>
   \<not> poll_room_first (snd (composite_poll_event (recorder False (Some (RoomPeers 1)))
     (recorder True (Some (TrustedBoards 1))) demo_composite))"
  using poll_alternates [OF _ prod.collapse [symmetric], of demo_composite "recorder False (Some (RoomPeers 1))"
      "recorder True (Some (TrustedBoards 1))" "RoomPeers 1"]
  by (simp add: demo_composite_def composite_new_def recorder_def)

end
