(* ===== verification/Ble_Tx.thy ===== *)
theory Ble_Tx
  imports Prelude "HOL-Library.Multiset"
begin

text \<open>
  \<open>src/src/bridge/ble_btleplug.rs\<close> and the message type of \<open>src/src/bridge/ble.rs\<close>: the bounded
  transmit path of the BLE host, from the reservation a client makes to the fragment scheduler.

  The two shared atomic counters are the \<open>budget\<close>; every method is one step, \<open>write_rx_message\<close>
  (reserve, two atomic updates, send) included; the driver thread running between the two updates of one method,
  where it can only give shares back, is not modelled. A reservation gives
  its share back when it is dropped (\<open>impl Drop\<close>), so every operation that discards a message releases
  it explicitly. The channel to the driver thread is the list of the reserved messages sent and not yet
  received. The fragment cursor of crate \<open>tutti_ble\<close> is the parameter record \<open>cursor_ops\<close>, its wire
  limit the parameter \<open>hard_max\<close>; whether the channel accepts a message is the outcome of
  \<open>try_send\<close>, a parameter of the step.
\<close>

section \<open>Data\<close>

datatype ble_write_priority = Control | Realtime | Repair

record ble_write_message =
  bw_message_id :: u16
  bw_wire :: bytes
  bw_value_bytes :: nat
  bw_priority :: ble_write_priority

datatype ble_host_error = PermissionDenied | HostUnavailable string | Operation string

text \<open>\<open>cur_new\<close> may refuse; \<open>cur_next\<close> gives an error, \<open>Some\<close> of the next fragment value, or \<open>None\<close> when the
  message is complete, and the advanced cursor.\<close>

record 'cur cursor_ops =
  cur_new :: "u16 \<Rightarrow> bytes \<Rightarrow> nat \<Rightarrow> string + 'cur"
  cur_next :: "'cur \<Rightarrow> (string + bytes option) \<times> 'cur"
  cur_complete :: "'cur \<Rightarrow> bool"

definition write_message_new ::
  "'cur cursor_ops \<Rightarrow> u16 \<Rightarrow> bytes \<Rightarrow> nat \<Rightarrow> ble_write_priority \<Rightarrow> ble_host_error + ble_write_message" where
  "write_message_new C message_id wire value_bytes priority =
     (case cur_new C message_id wire value_bytes of
        Inl e \<Rightarrow> Inl (Operation e)
      | Inr _ \<Rightarrow> Inr \<lparr>bw_message_id = message_id, bw_wire = wire, bw_value_bytes = value_bytes,
                      bw_priority = priority\<rparr>)"

definition into_cursor ::
  "'cur cursor_ops \<Rightarrow> ble_write_message \<Rightarrow> ble_host_error + ble_write_priority \<times> 'cur" where
  "into_cursor C m =
     (case cur_new C (bw_message_id m) (bw_wire m) (bw_value_bytes m) of
        Inl e \<Rightarrow> Inl (Operation e)
      | Inr cursor \<Rightarrow> Inr (bw_priority m, cursor))"

definition tx_message_capacity :: nat where
  "tx_message_capacity = 8"

definition max_tx_retained_bytes :: "nat \<Rightarrow> nat" where
  "max_tx_retained_bytes hard_max = hard_max * 4"

record budget =
  queued_messages :: nat
  queued_bytes :: nat

record reserved_write_message =
  rw_message :: ble_write_message
  rw_retained_bytes :: nat

text \<open>\<open>fetch_update\<close> with \<open>checked_add\<close> and the bound.\<close>

definition reserve_bounded :: "nat \<Rightarrow> nat \<Rightarrow> nat \<Rightarrow> string \<Rightarrow> ble_host_error + nat" where
  "reserve_bounded counter amount maximum label =
     (if counter + amount \<le> maximum then Inr (counter + amount)
      else Inl (Operation (label @ '' queue is full'')))"

definition reserve ::
  "nat \<Rightarrow> ble_write_message \<Rightarrow> budget \<Rightarrow> (ble_host_error + reserved_write_message) \<times> budget" where
  "reserve hard_max message b =
     (let retained = length (bw_wire message)
      in case reserve_bounded (queued_messages b) 1 tx_message_capacity ''BLE TX message'' of
           Inl e \<Rightarrow> (Inl e, b)
         | Inr n \<Rightarrow>
             let b1 = b\<lparr>queued_messages := n\<rparr>
             in case reserve_bounded (queued_bytes b1) retained (max_tx_retained_bytes hard_max)
                       ''BLE TX retained-byte'' of
                  Inl e \<Rightarrow> (Inl e, b1\<lparr>queued_messages := queued_messages b1 - 1\<rparr>)
                | Inr k \<Rightarrow> (Inr \<lparr>rw_message = message, rw_retained_bytes = retained\<rparr>,
                             b1\<lparr>queued_bytes := k\<rparr>))"

definition drop_reserved :: "reserved_write_message \<Rightarrow> budget \<Rightarrow> budget" where
  "drop_reserved r b =
     b\<lparr>queued_messages := queued_messages b - 1, queued_bytes := queued_bytes b - rw_retained_bytes r\<rparr>"

section \<open>The scheduler\<close>

record 'cur driver_tx_message =
  tm_reservation :: reserved_write_message
  tm_message_id :: u16
  tm_cursor :: 'cur

record prepared_tx_fragment =
  pf_priority :: ble_write_priority
  pf_message_id :: u16
  pf_completes_message :: bool
  pf_value :: bytes

record 'cur driver_tx_scheduler =
  control :: "'cur driver_tx_message list"
  realtime :: "'cur driver_tx_message list"
  repair :: "'cur driver_tx_message list"
  pending :: "prepared_tx_fragment option"
  prefer_realtime :: bool
  faulted :: bool

definition scheduler_default :: "'cur driver_tx_scheduler" where
  "scheduler_default =
     \<lparr>control = [], realtime = [], repair = [], pending = None, prefer_realtime = True, faulted = True\<rparr>"

fun queue_of :: "ble_write_priority \<Rightarrow> 'cur driver_tx_scheduler \<Rightarrow> 'cur driver_tx_message list" where
  "queue_of Control s = control s"
| "queue_of Realtime s = realtime s"
| "queue_of Repair s = repair s"

fun set_queue ::
  "ble_write_priority \<Rightarrow> 'cur driver_tx_message list \<Rightarrow> 'cur driver_tx_scheduler \<Rightarrow> 'cur driver_tx_scheduler" where
  "set_queue Control q s = s\<lparr>control := q\<rparr>"
| "set_queue Realtime q s = s\<lparr>realtime := q\<rparr>"
| "set_queue Repair q s = s\<lparr>repair := q\<rparr>"

text \<open>Operations that may discard messages also give the budget they leave.\<close>

definition enqueue ::
  "'cur cursor_ops \<Rightarrow> reserved_write_message \<Rightarrow> 'cur driver_tx_scheduler \<Rightarrow> budget \<Rightarrow>
   (ble_host_error + unit) \<times> 'cur driver_tx_scheduler \<times> budget" where
  "enqueue C reserved s b =
     (if faulted s
      then (Inl (Operation ''BLE TX stream is faulted until a fresh connection''), s, drop_reserved reserved b)
      else case into_cursor C (rw_message reserved) of
             Inl e \<Rightarrow> (Inl e, s, drop_reserved reserved b)
           | Inr (priority, cursor) \<Rightarrow>
               (Inr (),
                set_queue priority
                  (queue_of priority s @ [\<lparr>tm_reservation = reserved,
                     tm_message_id = bw_message_id (rw_message reserved), tm_cursor = cursor\<rparr>]) s, b))"

definition is_empty :: "'cur driver_tx_scheduler \<Rightarrow> bool" where
  "is_empty s \<longleftrightarrow> control s = [] \<and> realtime s = [] \<and> repair s = []"

definition next_priority ::
  "'cur driver_tx_scheduler \<Rightarrow> ble_write_priority option \<times> 'cur driver_tx_scheduler" where
  "next_priority s =
     (if control s \<noteq> [] then (Some Control, s)
      else case (realtime s = [], repair s = []) of
             (False, False) \<Rightarrow>
               (Some (if prefer_realtime s then Realtime else Repair),
                s\<lparr>prefer_realtime := \<not> prefer_realtime s\<rparr>)
           | (False, True) \<Rightarrow> (Some Realtime, s)
           | (True, False) \<Rightarrow> (Some Repair, s)
           | (True, True) \<Rightarrow> (None, s))"

text \<open>The \<open>expect\<close> on the selected queue is shown as an error; \<open>next_priority\<close> never selects an empty
  queue, so it is not reached.\<close>

definition prepare_next ::
  "'cur cursor_ops \<Rightarrow> 'cur driver_tx_scheduler \<Rightarrow>
   (ble_host_error + prepared_tx_fragment option) \<times> 'cur driver_tx_scheduler" where
  "prepare_next C s =
     (case pending s of
        Some p \<Rightarrow> (Inr (Some p), s)
      | None \<Rightarrow>
          (case next_priority s of
             (None, s') \<Rightarrow> (Inr None, s')
           | (Some priority, s') \<Rightarrow>
               (case queue_of priority s' of
                  [] \<Rightarrow> (Inl (Operation ''selected BLE TX queue is non-empty''), s')
                | message # rest \<Rightarrow>
                    (case cur_next C (tm_cursor message) of (res, cursor) \<Rightarrow>
                       let s'' = set_queue priority (message\<lparr>tm_cursor := cursor\<rparr> # rest) s'
                       in case res of
                            Inl e \<Rightarrow> (Inl (Operation e), s'')
                          | Inr None \<Rightarrow> (Inl (Operation ''completed BLE TX cursor was retained''), s'')
                          | Inr (Some value) \<Rightarrow>
                              let p = \<lparr>pf_priority = priority, pf_message_id = tm_message_id message,
                                       pf_completes_message = cur_complete C cursor, pf_value = value\<rparr>
                              in (Inr (Some p), s''\<lparr>pending := Some p\<rparr>)))))"

definition confirm_pending ::
  "'cur driver_tx_scheduler \<Rightarrow> budget \<Rightarrow> u16 option \<times> 'cur driver_tx_scheduler \<times> budget" where
  "confirm_pending s b =
     (case pending s of
        None \<Rightarrow> (None, s, b)
      | Some prepared \<Rightarrow>
          let s' = s\<lparr>pending := None\<rparr>
          in if pf_completes_message prepared
             then (Some (pf_message_id prepared),
                   set_queue (pf_priority prepared) (tl (queue_of (pf_priority prepared) s')) s',
                   (case queue_of (pf_priority prepared) s' of
                      [] \<Rightarrow> b | m # _ \<Rightarrow> drop_reserved (tm_reservation m) b))
             else (None, s', b))"

definition queued :: "'cur driver_tx_scheduler \<Rightarrow> 'cur driver_tx_message list" where
  "queued s = control s @ realtime s @ repair s"

definition clear :: "'cur driver_tx_scheduler \<Rightarrow> budget \<Rightarrow> 'cur driver_tx_scheduler \<times> budget" where
  "clear s b =
     (s\<lparr>control := [], realtime := [], repair := [], pending := None\<rparr>,
      fold drop_reserved (map tm_reservation (queued s)) b)"

definition fault :: "'cur driver_tx_scheduler \<Rightarrow> budget \<Rightarrow> 'cur driver_tx_scheduler \<times> budget" where
  "fault s b = (case clear s b of (s', b') \<Rightarrow> (s'\<lparr>faulted := True\<rparr>, b'))"

definition fresh_connection :: "'cur driver_tx_scheduler \<Rightarrow> budget \<Rightarrow> 'cur driver_tx_scheduler \<times> budget" where
  "fresh_connection s b = (case clear s b of (s', b') \<Rightarrow> (s'\<lparr>prefer_realtime := True, faulted := False\<rparr>, b'))"

section \<open>Client, channel and driver\<close>

record 'cur tx_path =
  tx_budget :: budget
  tx_channel :: "reserved_write_message list"
  tx_connected :: bool
  tx :: "'cur driver_tx_scheduler"

definition tx_init :: "'cur tx_path" where
  "tx_init = \<lparr>tx_budget = \<lparr>queued_messages = 0, queued_bytes = 0\<rparr>, tx_channel = [], tx_connected = False,
     tx = scheduler_default\<rparr>"

text \<open>\<open>write_rx_message\<close>: a message the channel does not take is dropped with its reservation.\<close>

definition write_rx_message ::
  "nat \<Rightarrow> ble_host_error option \<Rightarrow> ble_write_message \<Rightarrow> 'cur tx_path \<Rightarrow> (ble_host_error + unit) \<times> 'cur tx_path" where
  "write_rx_message hard_max refused message p =
     (case reserve hard_max message (tx_budget p) of
        (Inl e, b) \<Rightarrow> (Inl e, p\<lparr>tx_budget := b\<rparr>)
      | (Inr reserved, b) \<Rightarrow>
          (case refused of
             Some e \<Rightarrow> (Inl e, p\<lparr>tx_budget := drop_reserved reserved b\<rparr>)
           | None \<Rightarrow> (Inr (), p\<lparr>tx_budget := b, tx_channel := tx_channel p @ [reserved]\<rparr>)))"

text \<open>The driver's arm for \<open>WriteMessage\<close>; the result is the error it reports.\<close>

definition receive_message :: "'cur cursor_ops \<Rightarrow> 'cur tx_path \<Rightarrow> ble_host_error option \<times> 'cur tx_path" where
  "receive_message C p =
     (case tx_channel p of
        [] \<Rightarrow> (None, p)
      | reserved # rest \<Rightarrow>
          if \<not> tx_connected p
          then (Some (Operation ''cannot write: no board is connected''),
                p\<lparr>tx_channel := rest, tx_budget := drop_reserved reserved (tx_budget p)\<rparr>)
          else (case enqueue C reserved (tx p) (tx_budget p) of
                  (res, s, b) \<Rightarrow>
                    (case res of Inl e \<Rightarrow> Some e | Inr _ \<Rightarrow> None,
                     p\<lparr>tx_channel := rest, tx := s, tx_budget := b\<rparr>)))"

text \<open>The driver's transmit arm: it runs when the scheduler is not empty and a connection is installed;
  \<open>written\<close> is the outcome of the platform's write. The result has the fragment written and the message
  whose completion is reported.\<close>

definition transmit ::
  "'cur cursor_ops \<Rightarrow> bool \<Rightarrow> 'cur tx_path \<Rightarrow> (prepared_tx_fragment option \<times> u16 option) \<times> 'cur tx_path" where
  "transmit C written p =
     (if is_empty (tx p) \<or> \<not> tx_connected p then ((None, None), p)
      else case prepare_next C (tx p) of
             (Inl e, s) \<Rightarrow>
               (case fault s (tx_budget p) of
                  (s', b) \<Rightarrow> ((None, None), p\<lparr>tx := s', tx_budget := b, tx_connected := False\<rparr>))
           | (Inr None, s) \<Rightarrow> ((None, None), p\<lparr>tx := s\<rparr>)
           | (Inr (Some prepared), s) \<Rightarrow>
               if written
               then (case confirm_pending s (tx_budget p) of
                       (done, s', b) \<Rightarrow> ((Some prepared, done), p\<lparr>tx := s', tx_budget := b\<rparr>))
               else (case fault s (tx_budget p) of
                       (s', b) \<Rightarrow> ((None, None), p\<lparr>tx := s', tx_budget := b, tx_connected := False\<rparr>)))"

definition connected_fresh :: "'cur tx_path \<Rightarrow> 'cur tx_path" where
  "connected_fresh p =
     (case fresh_connection (tx p) (tx_budget p) of
        (s, b) \<Rightarrow> p\<lparr>tx := s, tx_budget := b, tx_connected := True\<rparr>)"

definition disconnected :: "'cur tx_path \<Rightarrow> 'cur tx_path" where
  "disconnected p =
     (case fault (tx p) (tx_budget p) of (s, b) \<Rightarrow> p\<lparr>tx := s, tx_budget := b, tx_connected := False\<rparr>)"

section \<open>Accounting\<close>

definition accounts :: "budget \<Rightarrow> reserved_write_message multiset \<Rightarrow> bool" where
  "accounts b rs \<longleftrightarrow> queued_messages b = size rs \<and> queued_bytes b = (\<Sum>r \<in># rs. rw_retained_bytes r)"

definition live :: "'cur tx_path \<Rightarrow> reserved_write_message multiset" where
  "live p = mset (tx_channel p) + mset (map tm_reservation (queued (tx p)))"

definition fenced :: "'cur cursor_ops \<Rightarrow> 'cur driver_tx_scheduler \<Rightarrow> bool" where
  "fenced C s \<longleftrightarrow>
     (case pending s of
        None \<Rightarrow> True
      | Some f \<Rightarrow>
          (case queue_of (pf_priority f) s of
             [] \<Rightarrow> False
           | m # _ \<Rightarrow> tm_message_id m = pf_message_id f \<and>
                        cur_complete C (tm_cursor m) = pf_completes_message f))"

definition tx_inv :: "nat \<Rightarrow> 'cur cursor_ops \<Rightarrow> 'cur tx_path \<Rightarrow> bool" where
  "tx_inv hard_max C p \<longleftrightarrow>
     accounts (tx_budget p) (live p) \<and> fenced C (tx p) \<and>
     queued_messages (tx_budget p) \<le> tx_message_capacity \<and>
     queued_bytes (tx_budget p) \<le> max_tx_retained_bytes hard_max"

lemma accounts_drop: "accounts b (add_mset r rs) \<Longrightarrow> accounts (drop_reserved r b) rs"
  by (simp add: accounts_def drop_reserved_def)

lemma accounts_drop_all: "accounts b (others + mset rs) \<Longrightarrow> accounts (fold drop_reserved rs b) others"
  by (induction rs arbitrary: b) (simp_all add: accounts_drop)

lemma reserve_ok:
  assumes "reserve hard_max m b = (Inr r, b')" and "accounts b rs"
  shows "accounts b' (add_mset r rs) \<and> queued_messages b' \<le> tx_message_capacity \<and>
         queued_bytes b' \<le> max_tx_retained_bytes hard_max \<and> rw_message r = m"
  using assms by (auto simp: reserve_def reserve_bounded_def accounts_def Let_def split: if_splits)

lemma reserve_refused: "reserve hard_max m b = (Inl e, b') \<Longrightarrow> b' = b"
  by (auto simp: reserve_def reserve_bounded_def Let_def split: if_splits)

lemma drop_le [simp]:
  "queued_messages (drop_reserved r b) \<le> queued_messages b" "queued_bytes (drop_reserved r b) \<le> queued_bytes b"
  by (simp_all add: drop_reserved_def)

lemma fold_drop_le:
  "queued_messages (fold drop_reserved rs b) \<le> queued_messages b"
  "queued_bytes (fold drop_reserved rs b) \<le> queued_bytes b"
  by (induction rs arbitrary: b) (auto intro: order_trans [OF _ drop_le(1)] order_trans [OF _ drop_le(2)])

lemma queue_set_queue [simp]:
  "queue_of pr (set_queue pr' q s) = (if pr = pr' then q else queue_of pr s)"
  "pending (set_queue pr q s) = pending s"
  by (cases pr; cases pr'; simp)+

lemma queued_set_queue:
  "mset (queued (set_queue pr q s)) + mset (queue_of pr s) = mset (queued s) + mset q"
  by (cases pr) (simp_all add: queued_def)

lemma queued_pending [simp]: "queued (s\<lparr>pending := x\<rparr>) = queued s" "queued (s\<lparr>prefer_realtime := y\<rparr>) = queued s"
  "queue_of pr (s\<lparr>pending := x\<rparr>) = queue_of pr s" "queue_of pr (s\<lparr>prefer_realtime := y\<rparr>) = queue_of pr s"
  by (simp_all add: queued_def) (cases pr; simp)+

text \<open>The reservations of the scheduler.\<close>

definition held :: "'cur driver_tx_scheduler \<Rightarrow> reserved_write_message multiset" where
  "held s = image_mset tm_reservation (mset (queued s))"

lemma held_set_queue:
  "held (set_queue pr q s) + image_mset tm_reservation (mset (queue_of pr s)) =
   held s + image_mset tm_reservation (mset q)"
  using queued_set_queue [of pr q s]
  by (simp add: held_def flip: image_mset_union)

lemma held_snoc: "held (set_queue pr (queue_of pr s @ [m]) s) = add_mset (tm_reservation m) (held s)"
  using held_set_queue [of pr "queue_of pr s @ [m]" s] by simp

lemma held_tl: "queue_of pr s = m # q \<Longrightarrow> held s = add_mset (tm_reservation m) (held (set_queue pr q s))"
  using held_set_queue [of pr q s] by simp

lemma held_cursor:
  "queue_of pr s = m # q \<Longrightarrow> held (set_queue pr (m\<lparr>tm_cursor := c\<rparr> # q) s) = held s"
  using held_set_queue [of pr "m\<lparr>tm_cursor := c\<rparr> # q" s] by simp

lemma held_simps [simp]: "held (s\<lparr>pending := x\<rparr>) = held s" "held (s\<lparr>prefer_realtime := y\<rparr>) = held s"
  by (simp_all add: held_def)

lemma flag_simps [simp]:
  "queue_of pr (s\<lparr>faulted := y\<rparr>) = queue_of pr s" "held (s\<lparr>faulted := y\<rparr>) = held s"
  "fenced C (s\<lparr>faulted := y\<rparr>) = fenced C s" "fenced C (s\<lparr>prefer_realtime := x\<rparr>) = fenced C s"
proof -
  show q: "queue_of pr (s\<lparr>faulted := y\<rparr>) = queue_of pr s" for pr by (cases pr) simp_all
  show "held (s\<lparr>faulted := y\<rparr>) = held s" by (simp add: held_def queued_def)
  show "fenced C (s\<lparr>faulted := y\<rparr>) = fenced C s" by (simp add: fenced_def q split: option.split)
  show "fenced C (s\<lparr>prefer_realtime := x\<rparr>) = fenced C s" by (simp add: fenced_def split: option.split)
qed

lemma live_held: "live p = mset (tx_channel p) + held (tx p)"
  by (simp add: live_def held_def)

lemma enqueue_accounts:
  assumes "enqueue C r s b = (res, s', b')" and "accounts b (add_mset r (others + held s))" and "fenced C s"
  shows "accounts b' (others + held s') \<and> fenced C s' \<and>
         queued_messages b' \<le> queued_messages b \<and> queued_bytes b' \<le> queued_bytes b"
proof (cases "faulted s \<or> (\<exists>e. into_cursor C (rw_message r) = Inl e)")
  case True
  then have "s' = s" "b' = drop_reserved r b"
    using assms(1) by (auto simp: enqueue_def split: if_splits)
  then show ?thesis using assms(2,3) by (simp add: accounts_drop)
next
  case False
  then obtain pr c where c: "into_cursor C (rw_message r) = Inr (pr, c)"
    by (metis sum.exhaust prod.exhaust)
  let ?m = "\<lparr>tm_reservation = r, tm_message_id = bw_message_id (rw_message r), tm_cursor = c\<rparr>"
  have s': "s' = set_queue pr (queue_of pr s @ [?m]) s" "b' = b"
    using assms(1) False c by (auto simp: enqueue_def)
  have "fenced C s'"
    using assms(3) by (auto simp: fenced_def s' split: option.splits list.splits)
  then show ?thesis using assms(2) by (simp add: s' held_snoc)
qed

lemma next_priority_effect:
  assumes "next_priority s = (pr, s')"
  shows "held s' = held s \<and> (\<forall>x. queue_of x s' = queue_of x s) \<and> pending s' = pending s \<and>
         (case pr of None \<Rightarrow> is_empty s | Some x \<Rightarrow> queue_of x s \<noteq> [])"
  using assms by (cases "realtime s = []"; cases "repair s = []") (auto simp: next_priority_def is_empty_def split: if_splits)

lemma prepare_next_effect:
  assumes "prepare_next C s = (res, s')" and "fenced C s"
  shows "held s' = held s \<and> (\<forall>f. res = Inr (Some f) \<longrightarrow> fenced C s' \<and> pending s' = Some f) \<and>
         (res = Inr None \<longrightarrow> fenced C s')"
proof (cases "pending s")
  case (Some f)
  then show ?thesis using assms by (auto simp: prepare_next_def)
next
  case None
  obtain pr s1 where n: "next_priority s = (pr, s1)" by fastforce
  note e = next_priority_effect [OF n]
  show ?thesis
  proof (cases pr)
    case None
    then show ?thesis
      using assms(1) n e \<open>pending s = None\<close> by (auto simp: prepare_next_def fenced_def)
  next
    case (Some x)
    then obtain m q where q: "queue_of x s1 = m # q" using e by (cases "queue_of x s") auto
    obtain r c where c: "cur_next C (tm_cursor m) = (r, c)" by fastforce
    show ?thesis
      using assms(1) n e \<open>pending s = None\<close> Some q c held_cursor [OF q, of c]
      by (cases r) (auto simp: prepare_next_def fenced_def Let_def split: option.splits)
  qed
qed

lemma clear_accounts:
  assumes "clear s b = (s', b')" and "accounts b (others + held s)"
  shows "accounts b' others \<and> held s' = {#} \<and> fenced C s' \<and>
         queued_messages b' \<le> queued_messages b \<and> queued_bytes b' \<le> queued_bytes b"
proof -
  have b': "b' = fold drop_reserved (map tm_reservation (queued s)) b"
    and s': "s' = s\<lparr>control := [], realtime := [], repair := [], pending := None\<rparr>"
    using assms(1) by (simp_all add: clear_def)
  have "accounts b' others"
    unfolding b' using assms(2) by (intro accounts_drop_all) (simp add: held_def)
  moreover have "held s' = {#}" "fenced C s'" by (simp_all add: s' held_def queued_def fenced_def)
  ultimately show ?thesis unfolding b' using fold_drop_le by blast
qed

lemma confirm_accounts:
  assumes "confirm_pending s b = (d, s', b')" and "accounts b (others + held s)" and "fenced C s"
  shows "accounts b' (others + held s') \<and> fenced C s' \<and>
         queued_messages b' \<le> queued_messages b \<and> queued_bytes b' \<le> queued_bytes b"
proof (cases "pending s")
  case (Some f)
  then obtain m q where q: "queue_of (pf_priority f) s = m # q"
    using assms(3) by (auto simp: fenced_def split: list.splits)
  then have h: "held s = add_mset (tm_reservation m) (held (set_queue (pf_priority f) q (s\<lparr>pending := None\<rparr>)))"
    using held_tl [of "pf_priority f" "s\<lparr>pending := None\<rparr>" m q] by simp
  show ?thesis
    using assms(1,2) Some q h by (auto simp: confirm_pending_def Let_def fenced_def accounts_drop split: if_splits)
qed (use assms in \<open>simp add: confirm_pending_def\<close>)

datatype tx_input =
    WriteRxMessage "ble_host_error option" ble_write_message
  | ReceiveMessage
  | Transmit bool
  | ConnectedFresh
  | Disconnected

fun tx_step :: "nat \<Rightarrow> 'cur cursor_ops \<Rightarrow> tx_input \<Rightarrow> 'cur tx_path \<Rightarrow> 'cur tx_path" where
  "tx_step hard_max C (WriteRxMessage refused m) p = snd (write_rx_message hard_max refused m p)"
| "tx_step hard_max C ReceiveMessage p = snd (receive_message C p)"
| "tx_step hard_max C (Transmit written) p = snd (transmit C written p)"
| "tx_step hard_max C ConnectedFresh p = connected_fresh p"
| "tx_step hard_max C Disconnected p = disconnected p"

lemma tx_invI:
  assumes "tx_inv hard_max C p" and "accounts b (mset ch + held s)" and "fenced C s"
    and "queued_messages b \<le> queued_messages (tx_budget p)" and "queued_bytes b \<le> queued_bytes (tx_budget p)"
  shows "tx_inv hard_max C (p\<lparr>tx_budget := b, tx_channel := ch, tx_connected := k, tx := s\<rparr>)"
  using assms by (auto simp: tx_inv_def live_held)

lemma tx_inv_write: "tx_inv hard_max C p \<Longrightarrow> tx_inv hard_max C (snd (write_rx_message hard_max refused m p))"
proof -
  assume i: "tx_inv hard_max C p"
  obtain res b where r: "reserve hard_max m (tx_budget p) = (res, b)" by fastforce
  show ?thesis
  proof (cases res)
    case (Inl e)
    then show ?thesis
      using i r reserve_refused [of hard_max m "tx_budget p" e b] by (simp add: write_rx_message_def)
  next
    case (Inr x)
    have k: "accounts b (add_mset x (live p)) \<and> queued_messages b \<le> tx_message_capacity \<and>
        queued_bytes b \<le> max_tx_retained_bytes hard_max"
      using reserve_ok [of hard_max m "tx_budget p" x b "live p"] r Inr i by (simp add: tx_inv_def)
    then have "accounts (drop_reserved x b) (live p)" by (simp add: accounts_drop)
    with k i Inr r show ?thesis
      by (cases refused) (auto simp: write_rx_message_def tx_inv_def live_held
          intro: order_trans [OF drop_le(1)] order_trans [OF drop_le(2)])
  qed
qed

lemma tx_inv_receive: "tx_inv hard_max C p \<Longrightarrow> tx_inv hard_max C (snd (receive_message C p))"
proof (cases "tx_channel p")
  case (Cons r rest)
  assume i: "tx_inv hard_max C p"
  have a: "accounts (tx_budget p) (add_mset r (mset rest + held (tx p)))" "fenced C (tx p)"
    using i Cons by (simp_all add: tx_inv_def live_held)
  obtain res s b where q: "enqueue C r (tx p) (tx_budget p) = (res, s, b)" by (metis prod.exhaust)
  note e = enqueue_accounts [OF q a]
  show ?thesis
    using i Cons q e a accounts_drop [OF a(1)]
    by (auto simp: receive_message_def tx_inv_def live_held
        intro: order_trans [OF drop_le(1)] order_trans [OF drop_le(2)])
qed (simp add: receive_message_def)

lemma tx_inv_cleared:
  assumes "tx_inv hard_max C p" and "clear s (tx_budget p) = (s', b)" and "held s = held (tx p)"
  shows "tx_inv hard_max C (p\<lparr>tx := s'\<lparr>prefer_realtime := x, faulted := y\<rparr>, tx_budget := b, tx_connected := k\<rparr>)"
proof -
  have "accounts (tx_budget p) (mset (tx_channel p) + held s)" using assms(1,3) by (simp add: tx_inv_def live_held)
  from clear_accounts [OF assms(2) this, of C] assms(1) show ?thesis
    by (auto simp: tx_inv_def live_held)
qed

lemma tx_inv_fault:
  assumes "tx_inv hard_max C p" and "fault s (tx_budget p) = (s', b)" and "held s = held (tx p)"
  shows "tx_inv hard_max C (p\<lparr>tx := s', tx_budget := b, tx_connected := k\<rparr>)"
proof -
  obtain s1 b1 where c: "clear s (tx_budget p) = (s1, b1)" by fastforce
  have "s' = s1\<lparr>prefer_realtime := prefer_realtime s1, faulted := True\<rparr>" "b = b1"
    using assms(2) c by (simp_all add: fault_def)
  with tx_inv_cleared [OF assms(1) c assms(3), where x = "prefer_realtime s1" and y = True and k = k] show ?thesis by simp
qed

lemma tx_inv_transmit: "tx_inv hard_max C p \<Longrightarrow> tx_inv hard_max C (snd (transmit C written p))"
proof -
  assume i: "tx_inv hard_max C p"
  then have f: "fenced C (tx p)" and a: "accounts (tx_budget p) (mset (tx_channel p) + held (tx p))"
    by (simp_all add: tx_inv_def live_held)
  obtain res s where n: "prepare_next C (tx p) = (res, s)" by fastforce
  note e = prepare_next_effect [OF n f]
  obtain s1 b1 where ft: "fault s (tx_budget p) = (s1, b1)" by fastforce
  obtain d s2 b2 where cf: "confirm_pending s (tx_budget p) = (d, s2, b2)" by (metis prod.exhaust)
  have fault_ok: "tx_inv hard_max C (p\<lparr>tx := s1, tx_budget := b1, tx_connected := k\<rparr>)" for k
    using e by (intro tx_inv_fault [OF i ft]) simp
  have confirm_ok: "tx_inv hard_max C (p\<lparr>tx := s2, tx_budget := b2\<rparr>)" if "fenced C s"
    using confirm_accounts [OF cf _ that, of "mset (tx_channel p)"] a e i by (auto simp: tx_inv_def live_held)
  consider "is_empty (tx p) \<or> \<not> tx_connected p" | x where "\<not> (is_empty (tx p) \<or> \<not> tx_connected p)" "res = Inl x"
    | "\<not> (is_empty (tx p) \<or> \<not> tx_connected p)" "res = Inr None"
    | x where "\<not> (is_empty (tx p) \<or> \<not> tx_connected p)" "res = Inr (Some x)"
    by (metis sum.exhaust option.exhaust)
  then show ?thesis
  proof cases
    case 1
    then show ?thesis using i by (simp add: transmit_def)
  next
    case 2
    then show ?thesis using fault_ok n ft by (simp add: transmit_def)
  next
    case 3
    then have "tx_inv hard_max C (p\<lparr>tx := s\<rparr>)" using i e by (simp add: tx_inv_def live_held)
    then show ?thesis using 3 n by (simp add: transmit_def)
  next
    case 4
    then show ?thesis using fault_ok confirm_ok e n ft cf by (simp add: transmit_def)
  qed
qed

lemma tx_inv_step: "tx_inv hard_max C p \<Longrightarrow> tx_inv hard_max C (tx_step hard_max C e p)"
proof (cases e)
  case ConnectedFresh
  assume i: "tx_inv hard_max C p"
  obtain s b where "clear (tx p) (tx_budget p) = (s, b)" by fastforce
  with tx_inv_cleared [OF i this refl, where x = True and y = False and k = True] show ?thesis
    by (simp add: ConnectedFresh connected_fresh_def fresh_connection_def)
next
  case Disconnected
  assume i: "tx_inv hard_max C p"
  obtain s b where "fault (tx p) (tx_budget p) = (s, b)" by fastforce
  with tx_inv_fault [OF i this refl, of False] show ?thesis by (simp add: Disconnected disconnected_def)
qed (simp_all add: tx_inv_write tx_inv_receive tx_inv_transmit)

lemma tx_inv_init: "tx_inv hard_max C tx_init"
  by (simp add: tx_inv_def tx_init_def scheduler_default_def accounts_def live_def queued_def fenced_def)

interpretation tx_path: machine tx_init "tx_step hard_max C" "tx_inv hard_max C"
  by unfold_locales (rule tx_inv_init, rule tx_inv_step)

section \<open>Properties\<close>

text \<open>C25: Memory on the transmit path is bounded and never leaks. In every state the clients, the
  driver and the platform can reach, the two counters are exactly the number and the total size of the
  messages in the channel and the scheduler, at most 8 messages and four maximal wire messages, and a
  prepared fragment belongs to the message at the front of its queue.\<close>

theorem tx_path_bounded:
  "let p = run (tx_step hard_max C) steps tx_init in
     queued_messages (tx_budget p) = length (tx_channel p) + length (queued (tx p)) \<and>
     queued_bytes (tx_budget p) =
       (\<Sum>r \<leftarrow> tx_channel p @ map tm_reservation (queued (tx p)). rw_retained_bytes r) \<and>
     queued_messages (tx_budget p) \<le> 8 \<and> queued_bytes (tx_budget p) \<le> 4 * hard_max \<and> fenced C (tx p)"
proof -
  let ?p = "run (tx_step hard_max C) steps tx_init"
  have "tx_inv hard_max C ?p" by (rule tx_path.invar_reached)
  then show ?thesis
    by (simp add: Let_def tx_inv_def accounts_def live_def tx_message_capacity_def max_tx_retained_bytes_def
        mult.commute sum_mset_sum_list flip: mset_map sum_mset_sum_list)
qed

text \<open>Control messages go first, and neither of the other two lanes starves: whenever realtime and
  repair messages both wait, two consecutive picks serve both; a pick is empty only when nothing waits.\<close>

theorem scheduling_fair:
  "(control s \<noteq> [] \<longrightarrow> fst (next_priority s) = Some Control) \<and>
   (control s = [] \<and> realtime s \<noteq> [] \<and> repair s \<noteq> [] \<longrightarrow>
      {fst (next_priority s), fst (next_priority (snd (next_priority s)))} = {Some Realtime, Some Repair}) \<and>
   (fst (next_priority s) = None \<longleftrightarrow> is_empty s)"
  by (cases "realtime s = []"; cases "repair s = []")
     (auto simp: next_priority_def is_empty_def)

text \<open>A fragment is never skipped or altered by a retry: until it is confirmed, preparing again
  gives the same fragment and changes nothing. Confirming reports a message exactly when its last
  fragment was written, and then removes that message, and no other, from the front of its queue.\<close>

theorem retry_then_confirm:
  assumes "fenced C s" and "prepare_next C s = (Inr (Some f), s')"
    and "confirm_pending s' b = (reported, s'', b')"
  shows "prepare_next C s' = (Inr (Some f), s') \<and>
         (reported = (if pf_completes_message f then Some (pf_message_id f) else None)) \<and>
         pending s'' = None \<and>
         queue_of lane s'' =
           (if pf_completes_message f \<and> lane = pf_priority f then tl (queue_of lane s') else queue_of lane s') \<and>
         tm_message_id (hd (queue_of (pf_priority f) s')) = pf_message_id f"
proof -
  have f: "fenced C s'" "pending s' = Some f"
    using prepare_next_effect [OF assms(2,1)] by auto
  then have "tm_message_id (hd (queue_of (pf_priority f) s')) = pf_message_id f"
    by (auto simp: fenced_def split: list.splits)
  with f assms(3) show ?thesis
    by (auto simp: prepare_next_def confirm_pending_def Let_def split: if_splits)
qed

section \<open>Witnesses\<close>

text \<open>A cursor that sends one byte per fragment.\<close>

definition byte_cursor :: "bytes cursor_ops" where
  "byte_cursor = \<lparr>cur_new = (\<lambda>i wire n. Inr wire),
     cur_next = (\<lambda>w. case w of [] \<Rightarrow> (Inr None, []) | b # bs \<Rightarrow> (Inr (Some [b]), bs)),
     cur_complete = (\<lambda>w. w = [])\<rparr>"

definition demo_tx :: "bytes driver_tx_scheduler" where
  "demo_tx =
     (let m = \<lambda>i w. \<lparr>tm_reservation = \<lparr>rw_message = \<lparr>bw_message_id = i, bw_wire = w, bw_value_bytes = 20,
                bw_priority = Realtime\<rparr>, rw_retained_bytes = length w\<rparr>, tm_message_id = i, tm_cursor = w\<rparr>
      in \<lparr>control = [], realtime = [m 1 [9]], repair = [m 2 [7, 8]], pending = None, prefer_realtime = True,
          faulted = False\<rparr>)"

theorem scheduling_fair_witness:
  "{fst (next_priority demo_tx), fst (next_priority (snd (next_priority demo_tx)))} = {Some Realtime, Some Repair}"
  using scheduling_fair [of demo_tx] by (simp add: demo_tx_def)

theorem retry_then_confirm_witness:
  "\<exists>f s' s'' b'. prepare_next byte_cursor demo_tx = (Inr (Some f), s') \<and>
     prepare_next byte_cursor s' = (Inr (Some f), s') \<and>
     confirm_pending s' \<lparr>queued_messages = 2, queued_bytes = 3\<rparr> = (Some 1, s'', b') \<and> queue_of Realtime s'' = []"
proof -
  obtain f s' where p: "prepare_next byte_cursor demo_tx = (Inr (Some f), s')" "pf_completes_message f"
      "pf_message_id f = 1" "pf_priority f = Realtime" "tl (queue_of Realtime s') = []"
    by (simp add: prepare_next_def next_priority_def demo_tx_def byte_cursor_def Let_def)
  have "fenced byte_cursor demo_tx" by (simp add: fenced_def demo_tx_def Let_def)
  moreover obtain r s'' b' where c: "confirm_pending s' \<lparr>queued_messages = 2, queued_bytes = 3\<rparr> = (r, s'', b')"
    by (metis prod.exhaust)
  ultimately show ?thesis
    using retry_then_confirm [OF _ p(1) c, of Realtime] p c by auto
qed

end
