(* ===== verification/Effects.thy ===== *)
theory Effects
  imports Prelude
begin

text \<open>
  Methods on \<open>&mut self\<close> that return a \<open>Result\<close> and may panic: functions from a state to an outcome and
  the state it leaves. \<open>bnd\<close> is the \<open>?\<close> operator: an error or a panic ends the method and keeps the state
  reached so far. \<open>wp\<close> is the weakest precondition of such a method for a postcondition on success and one
  on error; it is false where the method panics. The rules of \<open>wp\<close> are the collection \<open>wps\<close>.
\<close>

named_theorems wps

datatype 'e fault = Panic | Err 'e

type_synonym ('s, 'e, 'a) eff = "'s \<Rightarrow> ('e fault + 'a) \<times> 's"

definition ret :: "'a \<Rightarrow> ('s, 'e, 'a) eff" where
  "ret a s = (Inr a, s)"

definition throw :: "'e \<Rightarrow> ('s, 'e, 'a) eff" where
  "throw e s = (Inl (Err e), s)"

definition panic :: "('s, 'e, 'a) eff" where
  "panic s = (Inl Panic, s)"

definition gets :: "('s \<Rightarrow> 'a) \<Rightarrow> ('s, 'e, 'a) eff" where
  "gets f s = (Inr (f s), s)"

definition modify :: "('s \<Rightarrow> 's) \<Rightarrow> ('s, 'e, unit) eff" where
  "modify f s = (Inr (), f s)"

definition bnd :: "('s, 'e, 'a) eff \<Rightarrow> ('a \<Rightarrow> ('s, 'e, 'b) eff) \<Rightarrow> ('s, 'e, 'b) eff" where
  "bnd m k s = (case m s of (Inl e, s') \<Rightarrow> (Inl e, s') | (Inr a, s') \<Rightarrow> k a s')"

definition andthen :: "('s, 'e, unit) eff \<Rightarrow> ('s, 'e, 'b) eff \<Rightarrow> ('s, 'e, 'b) eff" where
  "andthen m k = bnd m (\<lambda>_. k)"

text \<open>\<open>if b { return Err(e) }\<close>; \<open>Result\<close> of a pure call; \<open>Option::ok_or\<close>; \<open>Option::expect\<close>.\<close>

definition refuse :: "bool \<Rightarrow> 'e \<Rightarrow> ('s, 'e, unit) eff" where
  "refuse b e = (if b then throw e else ret ())"

definition lift_result :: "('x \<Rightarrow> 'e) \<Rightarrow> 'x + 'a \<Rightarrow> ('s, 'e, 'a) eff" where
  "lift_result f r = (case r of Inl x \<Rightarrow> throw (f x) | Inr a \<Rightarrow> ret a)"

definition ok_or :: "'e \<Rightarrow> 'a option \<Rightarrow> ('s, 'e, 'a) eff" where
  "ok_or e x = (case x of None \<Rightarrow> throw e | Some a \<Rightarrow> ret a)"

definition expect :: "'a option \<Rightarrow> ('s, 'e, 'a) eff" where
  "expect x = (case x of None \<Rightarrow> panic | Some a \<Rightarrow> ret a)"

text \<open>A fallible call on a part of the state, which keeps what the call did to the part even on error.\<close>

definition on_part ::
  "('s \<Rightarrow> 'p) \<Rightarrow> ('p \<Rightarrow> 's \<Rightarrow> 's) \<Rightarrow> ('x \<Rightarrow> 'e) \<Rightarrow> ('p \<Rightarrow> ('x + 'a) \<times> 'p) \<Rightarrow> ('s, 'e, 'a) eff" where
  "on_part get put f call s =
     (case call (get s) of
        (Inl x, p) \<Rightarrow> (Inl (Err (f x)), put p s)
      | (Inr a, p) \<Rightarrow> (Inr a, put p s))"

text \<open>A method of a part of the state; a call on a part whose result is not \<open>?\<close>-ed; a result inspected by the
  caller; the \<open>?\<close> of pure calls; loops over a collection.\<close>

definition zoom :: "('s \<Rightarrow> 'p) \<Rightarrow> ('p \<Rightarrow> 's \<Rightarrow> 's) \<Rightarrow> ('p, 'e, 'a) eff \<Rightarrow> ('s, 'e, 'a) eff" where
  "zoom get put m s = (case m (get s) of (r, p) \<Rightarrow> (r, put p s))"

definition calling :: "('s \<Rightarrow> 'p) \<Rightarrow> ('p \<Rightarrow> 's \<Rightarrow> 's) \<Rightarrow> ('p \<Rightarrow> 'r \<times> 'p) \<Rightarrow> ('s, 'e, 'r) eff" where
  "calling get put call s = (case call (get s) of (r, p) \<Rightarrow> (Inr r, put p s))"

definition inspect :: "('s, 'e, 'a) eff \<Rightarrow> ('s, 'f, 'e + 'a) eff" where
  "inspect m s =
     (case m s of
        (Inl Panic, t) \<Rightarrow> (Inl Panic, t)
      | (Inl (Err e), t) \<Rightarrow> (Inr (Inl e), t)
      | (Inr a, t) \<Rightarrow> (Inr (Inr a), t))"

definition attempt :: "'e + 'a \<Rightarrow> ('a \<Rightarrow> 'e + 'b) \<Rightarrow> 'e + 'b" where
  "attempt r k = (case r of Inl e \<Rightarrow> Inl e | Inr a \<Rightarrow> k a)"

fun each :: "('x \<Rightarrow> ('s, 'e, unit) eff) \<Rightarrow> 'x list \<Rightarrow> ('s, 'e, unit) eff" where
  "each f [] = ret ()"
| "each f (x # xs) = andthen (f x) (each f xs)"

fun collect :: "('x \<Rightarrow> ('s, 'e, 'a) eff) \<Rightarrow> 'x list \<Rightarrow> ('s, 'e, 'a list) eff" where
  "collect f [] = ret []"
| "collect f (x # xs) = bnd (f x) (\<lambda>a. bnd (collect f xs) (\<lambda>as. ret (a # as)))"

section \<open>Successful runs\<close>

text \<open>The collection \<open>oks\<close> says what a method did when it returned a value.\<close>

named_theorems oks

lemma bnd_ok [oks]: "bnd m k s = (Inr b, t) \<longleftrightarrow> (\<exists>a u. m s = (Inr a, u) \<and> k a u = (Inr b, t))"
  by (auto simp: bnd_def split: prod.split sum.split)

lemma andthen_ok [oks]: "andthen m k s = (Inr b, t) \<longleftrightarrow> (\<exists>a u. m s = (Inr a, u) \<and> k u = (Inr b, t))"
  by (simp add: andthen_def bnd_ok)

lemma basic_ok [oks]:
  "ret a s = (Inr b, t) \<longleftrightarrow> b = a \<and> t = s" "throw e s \<noteq> (Inr b, t)" "panic s \<noteq> (Inr b, t)"
  "gets f s = (Inr x, t) \<longleftrightarrow> x = f s \<and> t = s" "modify g s = (Inr u, t) \<longleftrightarrow> t = g s"
  by (auto simp: ret_def throw_def panic_def gets_def modify_def)

lemma result_ok [oks]:
  "refuse c e s = (Inr u, t) \<longleftrightarrow> \<not> c \<and> t = s"
  "lift_result f r s = (Inr a, t) \<longleftrightarrow> r = Inr a \<and> t = s"
  "ok_or e x s = (Inr a, t) \<longleftrightarrow> x = Some a \<and> t = s" "expect x s = (Inr a, t) \<longleftrightarrow> x = Some a \<and> t = s"
  by (auto simp: refuse_def lift_result_def ok_or_def expect_def basic_ok split: sum.split option.split)

lemma part_ok [oks]:
  "zoom get put m s = (Inr b, t) \<longleftrightarrow> (\<exists>p. m (get s) = (Inr b, p) \<and> t = put p s)"
  "calling get put call s = (Inr r, t) \<longleftrightarrow> (\<exists>p. call (get s) = (r, p) \<and> t = put p s)"
  by (auto simp: zoom_def calling_def split: prod.split)

lemma attempt_ok [simp]: "attempt r k = Inr b \<longleftrightarrow> (\<exists>a. r = Inr a \<and> k a = Inr b)"
  by (simp add: attempt_def split: sum.split)

section \<open>Weakest preconditions\<close>

definition wp :: "('s, 'e, 'a) eff \<Rightarrow> ('a \<Rightarrow> 's \<Rightarrow> bool) \<Rightarrow> ('e \<Rightarrow> 's \<Rightarrow> bool) \<Rightarrow> 's \<Rightarrow> bool" where
  "wp m Q E s =
     (case m s of (Inr a, s') \<Rightarrow> Q a s' | (Inl (Err e), s') \<Rightarrow> E e s' | (Inl Panic, _) \<Rightarrow> False)"

lemma wp_ret [wps]: "wp (ret a) Q E s = Q a s"
  by (simp add: wp_def ret_def)

lemma wp_throw [wps]: "wp (throw e) Q E s = E e s"
  by (simp add: wp_def throw_def)

lemma wp_panic [wps]: "wp panic Q E s = False"
  by (simp add: wp_def panic_def)

lemma wp_gets [wps]: "wp (gets f) Q E s = Q (f s) s"
  by (simp add: wp_def gets_def)

lemma wp_modify [wps]: "wp (modify f) Q E s = Q () (f s)"
  by (simp add: wp_def modify_def)

lemma wp_bnd [wps]: "wp (bnd m k) Q E s = wp m (\<lambda>a. wp (k a) Q E) E s"
  by (auto simp: wp_def bnd_def split: prod.splits sum.splits fault.splits)

lemma wp_andthen [wps]: "wp (andthen m k) Q E s = wp m (\<lambda>_. wp k Q E) E s"
  by (simp add: andthen_def wp_bnd)

lemma wp_refuse [wps]: "wp (refuse b e) Q E s = (if b then E e s else Q () s)"
  by (simp add: refuse_def wp_throw wp_ret)

lemma wp_lift_result [wps]:
  "wp (lift_result f r) Q E s = (case r of Inl x \<Rightarrow> E (f x) s | Inr a \<Rightarrow> Q a s)"
  by (simp add: lift_result_def wp_throw wp_ret split: sum.split)

lemma wp_ok_or [wps]: "wp (ok_or e x) Q E s = (case x of None \<Rightarrow> E e s | Some a \<Rightarrow> Q a s)"
  by (simp add: ok_or_def wp_throw wp_ret split: option.split)

lemma wp_expect [wps]: "wp (expect x) Q E s = (case x of None \<Rightarrow> False | Some a \<Rightarrow> Q a s)"
  by (simp add: expect_def wp_panic wp_ret split: option.split)

lemma wp_on_part [wps]:
  "wp (on_part get put f call) Q E s =
     (case call (get s) of (Inl x, p) \<Rightarrow> E (f x) (put p s) | (Inr a, p) \<Rightarrow> Q a (put p s))"
  by (auto simp: wp_def on_part_def split: prod.splits sum.splits)

lemma wp_zoom [wps]:
  "wp (zoom get put m) Q E s = wp m (\<lambda>a p. Q a (put p s)) (\<lambda>e p. E e (put p s)) (get s)"
  by (auto simp: wp_def zoom_def split: prod.splits sum.splits fault.splits)

lemma wp_calling [wps]:
  "wp (calling get put call) Q E s = (case call (get s) of (r, p) \<Rightarrow> Q r (put p s))"
  by (auto simp: wp_def calling_def split: prod.splits)

lemma wp_inspect [wps]: "wp (inspect m) Q E s = wp m (\<lambda>a. Q (Inr a)) (\<lambda>e. Q (Inl e)) s"
  by (auto simp: wp_def inspect_def split: prod.splits sum.splits fault.splits)

lemma wp_if [wps]: "wp (if b then m else n) Q E s = (if b then wp m Q E s else wp n Q E s)"
  by simp

lemma wp_case_option [wps]:
  "wp (case x of None \<Rightarrow> m | Some a \<Rightarrow> k a) Q E s = (case x of None \<Rightarrow> wp m Q E s | Some a \<Rightarrow> wp (k a) Q E s)"
  by (simp split: option.split)

lemma wp_case_prod [wps]: "wp (case x of (a, b) \<Rightarrow> k a b) Q E s = (case x of (a, b) \<Rightarrow> wp (k a b) Q E s)"
  by (simp split: prod.split)

lemma wp_mono:
  assumes "wp m Q E s" and "\<And>a t. Q a t \<Longrightarrow> Q' a t" and "\<And>e t. E e t \<Longrightarrow> E' e t"
  shows "wp m Q' E' s"
  using assms by (auto simp: wp_def split: prod.splits sum.splits fault.splits)

lemma wp_conj: "wp m Q E s \<Longrightarrow> wp m Q' E' s \<Longrightarrow> wp m (\<lambda>a t. Q a t \<and> Q' a t) (\<lambda>e t. E e t \<and> E' e t) s"
  by (auto simp: wp_def split: prod.splits sum.splits fault.splits)

text \<open>The rule of a loop: an invariant every pass keeps.\<close>

lemma wp_each:
  assumes "I s" and "\<And>x t. x \<in> set xs \<Longrightarrow> I t \<Longrightarrow> wp (f x) (\<lambda>_. I) E t"
  shows "wp (each f xs) (\<lambda>_. I) E s"
  using assms
proof (induction xs arbitrary: s)
  case Nil
  then show ?case by (simp add: wp_ret)
next
  case (Cons x xs)
  from Cons.prems have "wp (f x) (\<lambda>_. I) E s" by simp
  then show ?case
    unfolding each.simps wp_andthen
  proof (rule wp_mono)
    fix t assume "I t"
    then show "wp (each f xs) (\<lambda>_. I) E t" by (intro Cons.IH Cons.prems(2)) simp_all
  qed
qed

lemma wp_collect:
  assumes "I s" and "\<And>x t. x \<in> set xs \<Longrightarrow> I t \<Longrightarrow> wp (f x) (\<lambda>a t. I t \<and> P x a) E t"
  shows "wp (collect f xs) (\<lambda>as t. I t \<and> list_all2 P xs as) E s"
  using assms
proof (induction xs arbitrary: s)
  case Nil
  then show ?case by (simp add: wp_ret)
next
  case (Cons x xs)
  from Cons.prems have "wp (f x) (\<lambda>a t. I t \<and> P x a) E s" by simp
  then show ?case
    unfolding collect.simps wp_bnd wp_ret
  proof (rule wp_mono)
    fix a t assume t: "I t \<and> P x a"
    have "wp (collect f xs) (\<lambda>as t. I t \<and> list_all2 P xs as) E t"
      using t by (intro Cons.IH Cons.prems(2)) simp_all
    then show "wp (collect f xs) (\<lambda>as u. I u \<and> list_all2 P (x # xs) (a # as)) E t"
      using t by (rule_tac wp_mono) auto
  qed
qed

text \<open>A method that keeps a property whatever it returns, and does not panic.\<close>

abbreviation keeps :: "('s \<Rightarrow> bool) \<Rightarrow> ('s, 'e, 'a) eff \<Rightarrow> 's \<Rightarrow> bool" where
  "keeps P m \<equiv> wp m (\<lambda>_. P) (\<lambda>_. P)"

lemma keepsD: "keeps P m s \<Longrightarrow> P (snd (m s)) \<and> fst (m s) \<noteq> Inl Panic"
  by (auto simp: wp_def split: prod.splits sum.splits fault.splits)

section \<open>Reasoning about sequences\<close>

text \<open>One rule for each way a handler goes on; the collection \<open>wp_steps\<close> is applied with \<open>intro\<close>.\<close>

named_theorems wp_steps

lemma wp_step_lift [wp_steps]:
  "(\<And>x. r = Inl x \<Longrightarrow> E (f x) s) \<Longrightarrow> (\<And>a. r = Inr a \<Longrightarrow> wp (k a) Q E s) \<Longrightarrow> wp (bnd (lift_result f r) k) Q E s"
  by (simp add: wps split: sum.split)

lemma wp_step_ok_or [wp_steps]:
  "(x = None \<Longrightarrow> E e s) \<Longrightarrow> (\<And>a. x = Some a \<Longrightarrow> wp (k a) Q E s) \<Longrightarrow> wp (bnd (ok_or e x) k) Q E s"
  by (simp add: wps split: option.split)

lemma wp_step_refuse [wp_steps]:
  "(b \<Longrightarrow> E e s) \<Longrightarrow> (\<not> b \<Longrightarrow> wp k Q E s) \<Longrightarrow> wp (andthen (refuse b e) k) Q E s"
  by (simp add: wps)

lemma wp_step_gets [wp_steps]: "(\<And>x. x = f s \<Longrightarrow> wp (k x) Q E s) \<Longrightarrow> wp (bnd (gets f) k) Q E s"
  by (simp add: wps)

lemma wp_step_ret [wp_steps]: "Q a s \<Longrightarrow> wp (ret a) Q E s"
  by (simp add: wps)

lemma wp_step_throw [wp_steps]: "E e s \<Longrightarrow> wp (throw e) Q E s"
  by (simp add: wps)

lemma wp_step_if [wp_steps]:
  "(b \<Longrightarrow> wp m Q E s) \<Longrightarrow> (\<not> b \<Longrightarrow> wp n Q E s) \<Longrightarrow> wp (if b then m else n) Q E s"
  by simp

lemma wp_step_option [wp_steps]:
  "(x = None \<Longrightarrow> wp m Q E s) \<Longrightarrow> (\<And>a. x = Some a \<Longrightarrow> wp (k a) Q E s) \<Longrightarrow>
   wp (case x of None \<Rightarrow> m | Some a \<Rightarrow> k a) Q E s"
  by (simp split: option.split)

lemma wp_step_sum [wp_steps]:
  "(\<And>e. x = Inl e \<Longrightarrow> wp (m e) Q E s) \<Longrightarrow> (\<And>a. x = Inr a \<Longrightarrow> wp (k a) Q E s) \<Longrightarrow>
   wp (case x of Inl e \<Rightarrow> m e | Inr a \<Rightarrow> k a) Q E s"
  by (simp split: sum.split)

lemma wp_step_prod [wp_steps]:
  "(\<And>a b. x = (a, b) \<Longrightarrow> wp (k a b) Q E s) \<Longrightarrow> wp (case x of (a, b) \<Rightarrow> k a b) Q E s"
  by (simp split: prod.split)

lemma wp_step_modify: "wp k Q E (f s) \<Longrightarrow> wp (andthen (modify f) k) Q E s"
  by (simp add: wps)

lemma wp_call: "wp m P E s \<Longrightarrow> (\<And>a t. P a t \<Longrightarrow> wp (k a) Q E t) \<Longrightarrow> wp (bnd m k) Q E s"
  unfolding wp_bnd by (rule wp_mono)

lemma wp_then: "wp m (\<lambda>_. P) E s \<Longrightarrow> (\<And>t. P t \<Longrightarrow> wp k Q E t) \<Longrightarrow> wp (andthen m k) Q E s"
  unfolding wp_andthen by (rule wp_mono)

lemma wp_step_expect: "x = Some a \<Longrightarrow> wp (k a) Q E s \<Longrightarrow> wp (bnd (expect x) k) Q E s"
  by (simp add: wps)

lemma wp_then_post: "wp m P E s \<Longrightarrow> (\<And>a t. P a t \<Longrightarrow> wp k Q E t) \<Longrightarrow> wp (andthen m k) Q E s"
  unfolding wp_andthen by (rule wp_mono)

lemma wp_then_at: "wp m (\<lambda>_ t. t = u) E s \<Longrightarrow> wp k Q E u \<Longrightarrow> wp (andthen m k) Q E s"
  unfolding wp_andthen by (erule wp_mono) simp_all

end
