(* ===== verification/Ble_Link.thy ===== *)
theory Ble_Link
  imports Bridge_Types Ble_Tx Effects
begin

text \<open>
  \<open>src/src/bridge/ble_transport.rs\<close>: the authenticated session pump over a BLE host, from the first
  advertisement of a board to a closed repair, with every method of \<open>BleLinkTransport\<close> and the host
  interface of \<open>src/src/bridge/ble.rs\<close>.

  Parameters are the host, \<open>H\<close>, and what is used of crates \<open>tutti_ble\<close>, \<open>tutti_session\<close>, \<open>tutti_realtime\<close> and
  \<open>hhhs\<close>, the record \<open>C\<close>: constants, codecs, the handshake, the reassembler, the session codec and the
  repair close state. The texts of their errors are strings. \<open>rand::random\<close> and \<open>Instant::now\<close> are two
  streams of \<open>C\<close>; the state counts how many values of each were read. Times are in milliseconds.
  A \<open>VecDeque\<close> is a list, its front the head; a \<open>BTreeSet\<close> is a set.
\<close>

section \<open>The host\<close>

datatype ble_host_event =
    ScanResult ble_scan_result
  | Connected ble_address u16
  | Disconnected ble_address "string option"
  | Info bytes
  | Notification bytes
  | WriteComplete u16
  | HostDiagnostic string
  | HostPermissionDenied
  | EventsDropped u64
  | HostError ble_host_error

fun display_host_error :: "ble_host_error \<Rightarrow> string" where
  "display_host_error PermissionDenied = ''Bluetooth permission was denied''"
| "display_host_error (HostUnavailable reason) = ''Bluetooth is unavailable: '' @ reason"
| "display_host_error (Operation reason) = ''Bluetooth operation failed: '' @ reason"

record 'h ble_host =
  start_scan :: "'h \<Rightarrow> (ble_host_error + unit) \<times> 'h"
  stop_scan :: "'h \<Rightarrow> (ble_host_error + unit) \<times> 'h"
  connect :: "ble_address \<Rightarrow> 'h \<Rightarrow> (ble_host_error + unit) \<times> 'h"
  disconnect :: "'h \<Rightarrow> (ble_host_error + unit) \<times> 'h"
  write_rx_message :: "ble_write_message \<Rightarrow> 'h \<Rightarrow> (ble_host_error + unit) \<times> 'h"
  host_poll :: "'h \<Rightarrow> ble_host_event option \<times> 'h"

section \<open>What is used of other crates\<close>

datatype lane = Control | Realtime | HhhsRepair

record peer_hello =
  hello_identity :: bytes
  hello_boot_nonce :: u64
  max_fragment_value_bytes :: u16
  hello_capabilities :: u32

record lane_profile =
  lp_music_generation :: u32
  lp_music_vocabulary_generation :: u32
  max_replica_record_bytes :: u32
  lp_hhhs_strategy_version :: u32
  lp_hhhs_repair_generation :: u32
  application_generation :: u32
  lp_capabilities :: u32
  max_authenticated_payload_bytes :: u32
  max_repair_frame_bytes :: u32

datatype ('fin, 'ack) control_frame =
    Profile lane_profile
  | CapabilityBundle bytes
  | CapabilityReady bytes
  | RepairFin 'fin
  | RepairAck 'ack

datatype ('mf, 'f) realtime_frame = MidiFrame 'mf | RoundTableFrame 'f

text \<open>Constants.\<close>

record ble_constants =
  hard_max_payload_bytes :: nat
  hard_max_wire_bytes :: nat
  default_max_payload_bytes :: nat
  min_fragment_value_bytes :: u16
  complete_wire_ceiling :: "nat \<Rightarrow> nat option"
  capability_realtime :: u32
  capability_hhhs_repair :: u32
  walkie_profile :: protocol_profile
  profile_cap_realtime :: u32
  other_caps :: profile_caps
  wire_generation :: u32
  realtime_generation :: "u32 \<Rightarrow> u32"
  with_realtime_generation :: "u32 \<Rightarrow> u32 \<Rightarrow> u32"
  vocabulary_record_bytes :: nat

text \<open>The hello exchange and the handshake of the initiator. An offer and the session keys are opaque bytes.\<close>

record ('key, 'pend) handshake_ops =
  hello_supports :: "peer_hello \<Rightarrow> u32 \<Rightarrow> bool"
  hello_encode :: "peer_hello \<Rightarrow> bytes"
  hello_decode :: "bytes \<Rightarrow> string + peer_hello"
  boot_nonce_of :: "bytes \<Rightarrow> u64"
  signing_key_from :: "bytes \<Rightarrow> 'key"
  identity_from :: "'key \<Rightarrow> bytes"
  channel_binding :: "peer_hello \<Rightarrow> peer_hello \<Rightarrow> bytes"
  initiator_begin :: "'key \<Rightarrow> bytes \<Rightarrow> bytes \<Rightarrow> bytes \<Rightarrow> 'pend \<times> bytes"
  encode_offer :: "bytes \<Rightarrow> bytes"
  decode_answer :: "bytes \<Rightarrow> string + bytes"
  initiator_complete :: "'pend \<Rightarrow> bytes \<Rightarrow> bytes \<Rightarrow> string + bytes"

text \<open>The session codec, the reassembler of fragments and the control frames.\<close>

record ('codec, 'rsm, 'budget, 'cur) session_ops =
  codec_new :: "bytes \<Rightarrow> nat \<Rightarrow> string + 'codec"
  session_id :: "'codec \<Rightarrow> u64"
  encode_with_sequence :: "lane \<Rightarrow> bytes \<Rightarrow> 'codec \<Rightarrow> (string + u64 \<times> bytes) \<times> 'codec"
  codec_decode :: "bytes \<Rightarrow> 'codec \<Rightarrow> (string + lane \<times> u64 \<times> bytes) \<times> 'codec"
  restrict_max_payload_bytes :: "nat \<Rightarrow> 'codec \<Rightarrow> (string + unit) \<times> 'codec"
  budget_new :: "nat \<Rightarrow> nat \<Rightarrow> nat \<Rightarrow> string + 'budget"
  with_budget :: "'budget \<Rightarrow> string + 'rsm"
  restrict_budget :: "'budget \<Rightarrow> 'rsm \<Rightarrow> (string + unit) \<times> 'rsm"
  reassembler_push :: "bytes \<Rightarrow> 'rsm \<Rightarrow> (string + bytes option) \<times> 'rsm"
  reassembler_reset :: "'rsm \<Rightarrow> 'rsm"
  cursors :: "'cur cursor_ops"
  bundle_receiver :: "bytes \<Rightarrow> string + bytes"
  digest_of :: "bytes \<Rightarrow> bytes"

text \<open>The close protocol of a repair attempt.\<close>

record ('close, 'fin, 'ack) repair_ops =
  repair_attempt_id :: "u64 \<Rightarrow> bytes \<Rightarrow> bytes"
  close_new :: "bytes \<Rightarrow> 'close"
  observe_local_repair :: "u64 \<Rightarrow> 'close \<Rightarrow> (string + unit) \<times> 'close"
  observe_remote_repair :: "u64 \<Rightarrow> 'close \<Rightarrow> (string + unit) \<times> 'close"
  mark_local_terminal :: "'close \<Rightarrow> 'close"
  local_fin_pending :: "'close \<Rightarrow> bool"
  local_fin :: "'close \<Rightarrow> string + 'fin"
  observe_local_fin_encoded :: "u64 \<Rightarrow> 'close \<Rightarrow> (string + unit) \<times> 'close"
  observe_remote_fin :: "'fin \<Rightarrow> u64 \<Rightarrow> 'close \<Rightarrow> (string + unit) \<times> 'close"
  observe_local_fin_ack :: "'ack \<Rightarrow> 'close \<Rightarrow> (string + unit) \<times> 'close"
  remote_ack_pending :: "'close \<Rightarrow> bool"
  remote_ack :: "'close \<Rightarrow> string + 'ack"
  observe_remote_ack_encoded :: "u64 \<Rightarrow> 'close \<Rightarrow> (string + unit) \<times> 'close"
  confirm_remote_ack_sent :: "u64 \<Rightarrow> 'close \<Rightarrow> (string + unit) \<times> 'close"
  is_confirmed_closed :: "'close \<Rightarrow> bool"

text \<open>Frames of the control and the realtime lane.\<close>

record ('fin, 'ack, 'mf, 'f) frame_ops =
  encode_control_profile :: "lane_profile \<Rightarrow> bytes"
  encode_control_capability_bundle :: "bytes \<Rightarrow> string + bytes"
  encode_control_repair_fin :: "'fin \<Rightarrow> bytes"
  encode_control_repair_ack :: "'ack \<Rightarrow> bytes"
  decode_control_frame :: "bytes \<Rightarrow> string + ('fin, 'ack) control_frame"
  realtime_encode :: "('mf, 'f) realtime_frame \<Rightarrow> string + bytes"
  realtime_decode :: "bytes \<Rightarrow> string + ('mf, 'f) realtime_frame"
  from_normalized :: "i32 \<Rightarrow> u8 \<Rightarrow> u8 \<Rightarrow> realtime_midi_kind \<Rightarrow> u32 \<Rightarrow> string + 'mf"
  mf_voice_id :: "'mf \<Rightarrow> i32"
  mf_channel :: "'mf \<Rightarrow> u8"
  mf_note :: "'mf \<Rightarrow> u8"
  mf_kind :: "'mf \<Rightarrow> realtime_midi_kind"
  normalized_value :: "'mf \<Rightarrow> u32"

record ('key, 'pend, 'codec, 'rsm, 'budget, 'cur, 'close, 'fin, 'ack, 'mf, 'f) tutti =
  random :: "nat \<Rightarrow> bytes"
  clock :: "nat \<Rightarrow> nat"
  limits :: ble_constants
  handshake :: "('key, 'pend) handshake_ops"
  session :: "('codec, 'rsm, 'budget, 'cur) session_ops"
  closing :: "('close, 'fin, 'ack) repair_ops"
  frames :: "('fin, 'ack, 'mf, 'f) frame_ops"

section \<open>State\<close>

definition transport_event_capacity :: nat where
  "transport_event_capacity = 256"

definition repair_close_timeout :: nat where
  "repair_close_timeout = 30000"

record ble_link_config =
  cfg_identity_seed :: bytes
  cfg_trusted_boards :: "bytes set"
  cfg_local_profile :: protocol_profile
  cfg_max_payload_bytes :: nat
  cfg_max_repair_frame_bytes :: nat

record ('h, 'key, 'pend, 'codec, 'rsm, 'close, 'ev) ble_link =
  bl_host :: 'h
  bl_events :: "'ev list"
  bl_trusted :: "bytes set"
  bl_signing_key :: 'key
  bl_local_hello :: peer_hello
  bl_local_profile :: protocol_profile
  bl_local_lane_profile :: lane_profile
  bl_remote_hello :: "peer_hello option"
  bl_trust_candidate :: "bytes option"
  bl_remote_lane_profile :: "lane_profile option"
  bl_pending_provisioning :: "(board_session_binding \<times> bytes) option"
  bl_pending :: "'pend option"
  bl_codec :: "'codec option"
  bl_reassembler :: 'rsm
  bl_negotiated_repair_frame_bytes :: nat
  bl_repair_close :: "(board_session_binding \<times> 'close) option"
  bl_repair_ack_write :: "(u16 \<times> u64) option"
  bl_repair_awaiting_confirmation :: "board_session_binding option"
  bl_repair_deadline :: "nat option"
  bl_next_message_id :: u16
  bl_dropped_events :: u64
  bl_desired_address :: "ble_address option"
  bl_scan_requested :: bool
  bl_connect_pending :: bool
  bl_link_connected :: bool
  bl_draws :: nat
  bl_clock_reads :: nat

text \<open>\<open>walkie\<close> and \<open>validate\<close>.\<close>

definition config_walkie where
  "config_walkie C identity_seed trusted_boards =
     \<lparr>cfg_identity_seed = identity_seed, cfg_trusted_boards = set trusted_boards,
      cfg_local_profile = walkie_profile (limits C), cfg_max_payload_bytes = default_max_payload_bytes (limits C),
      cfg_max_repair_frame_bytes = default_max_payload_bytes (limits C)\<rparr>"

definition config_validate where
  "config_validate C cfg =
     (if cfg_max_payload_bytes cfg = 0 \<or> cfg_max_payload_bytes cfg > hard_max_payload_bytes (limits C)
      then Inl (Transport (''BLE payload budget must be within 1..='' @ decimal (hard_max_payload_bytes (limits C))))
      else if cfg_max_repair_frame_bytes cfg = 0 \<or> cfg_max_repair_frame_bytes cfg > cfg_max_payload_bytes cfg \<or>
              cfg_max_repair_frame_bytes cfg > hard_max_wire_bytes (limits C)
      then Inl (Transport ''BLE repair-frame budget must fit the authenticated payload budget'')
      else Inr ())"

definition u32_try_from :: "nat \<Rightarrow> u32 option" where
  "u32_try_from n = (if n < 2 ^ 32 then Some (of_nat n) else None)"

definition make_lane_profile where
  "make_lane_profile C profile max_payload max_repair =
     (case u32_try_from (vocabulary_record_bytes (limits C)) of
        None \<Rightarrow> Inl (Transport ''music record budget does not fit the profile wire'')
      | Some record_bytes \<Rightarrow>
          (case u32_try_from max_payload of
             None \<Rightarrow> Inl (Transport ''BLE payload budget does not fit the profile wire'')
           | Some payload_bytes \<Rightarrow>
               (case u32_try_from max_repair of
                  None \<Rightarrow> Inl (Transport ''BLE repair budget does not fit the profile wire'')
                | Some repair_bytes \<Rightarrow> Inr
                    \<lparr>lp_music_generation = music_generation profile,
                     lp_music_vocabulary_generation = music_vocabulary_generation profile,
                     max_replica_record_bytes = record_bytes,
                     lp_hhhs_strategy_version = hhhs_strategy_version profile,
                     lp_hhhs_repair_generation = hhhs_repair_generation profile,
                     application_generation = room_generation profile,
                     lp_capabilities = with_realtime_generation (limits C) (capabilities profile) (wire_generation (limits C)),
                     max_authenticated_payload_bytes = payload_bytes,
                     max_repair_frame_bytes = repair_bytes\<rparr>)))"

text \<open>The first random value is the boot nonce.\<close>

definition ble_link_new where
  "ble_link_new C h cfg =
     (case config_validate C cfg of Inl e \<Rightarrow> Inl e | Inr _ \<Rightarrow>
      case make_lane_profile C (cfg_local_profile cfg) (cfg_max_payload_bytes cfg) (cfg_max_repair_frame_bytes cfg) of
        Inl e \<Rightarrow> Inl e
      | Inr local_lane_profile \<Rightarrow>
      case (case complete_wire_ceiling (limits C) (cfg_max_payload_bytes cfg) of
              Some ceiling \<Rightarrow> if ceiling \<le> hard_max_wire_bytes (limits C) then Some ceiling else None
            | None \<Rightarrow> None) of
        None \<Rightarrow> Inl (Transport ''BLE complete-wire ceiling is invalid'')
      | Some ceiling \<Rightarrow>
      case budget_new (session C) ceiling 3 (ceiling * 3) of Inl e \<Rightarrow> Inl (Transport e) | Inr budget \<Rightarrow>
      case with_budget (session C) budget of Inl e \<Rightarrow> Inl (Transport e) | Inr rsm \<Rightarrow>
        let key = signing_key_from (handshake C) (cfg_identity_seed cfg) in
        Inr \<lparr>bl_host = h, bl_events = [], bl_trusted = cfg_trusted_boards cfg, bl_signing_key = key,
             bl_local_hello =
               \<lparr>hello_identity = identity_from (handshake C) key, hello_boot_nonce = boot_nonce_of (handshake C) (random C 0),
                max_fragment_value_bytes = min_fragment_value_bytes (limits C),
                hello_capabilities = or (capability_realtime (limits C)) (capability_hhhs_repair (limits C))\<rparr>,
             bl_local_profile = cfg_local_profile cfg, bl_local_lane_profile = local_lane_profile,
             bl_remote_hello = None, bl_trust_candidate = None, bl_remote_lane_profile = None,
             bl_pending_provisioning = None, bl_pending = None, bl_codec = None, bl_reassembler = rsm,
             bl_negotiated_repair_frame_bytes = cfg_max_repair_frame_bytes cfg, bl_repair_close = None,
             bl_repair_ack_write = None, bl_repair_awaiting_confirmation = None, bl_repair_deadline = None,
             bl_next_message_id = 0, bl_dropped_events = 0, bl_desired_address = None,
             bl_scan_requested = False, bl_connect_pending = False, bl_link_connected = False,
             bl_draws = 1, bl_clock_reads = 0\<rparr>)"

section \<open>Events, reset and failure\<close>

definition ble_error :: "ble_host_error \<Rightarrow> bridge_error" where
  "ble_error e = Transport (display_host_error e)"

definition publish where
  "publish event s =
     (let t = (if length (bl_events s) = transport_event_capacity
               then s\<lparr>bl_events := tl (bl_events s),
                      bl_dropped_events := (if bl_dropped_events s = - 1 then - 1 else bl_dropped_events s + 1)\<rparr>
               else s)
      in t\<lparr>bl_events := bl_events t @ [event]\<rparr>)"

definition publish_repair where
  "publish_repair event =
     bnd (gets (\<lambda>s. length (bl_events s) = transport_event_capacity)) (\<lambda>full.
     andthen (refuse full (QueueFull ''BLE transport events''))
       (modify (\<lambda>s. s\<lparr>bl_events := bl_events s @ [event]\<rparr>)))"

definition reset_session where
  "reset_session C s =
     s\<lparr>bl_remote_hello := None, bl_remote_lane_profile := None, bl_pending_provisioning := None,
       bl_pending := None, bl_codec := None,
       bl_reassembler := reassembler_reset (session C) (bl_reassembler s),
       bl_repair_close := None, bl_repair_ack_write := None, bl_repair_awaiting_confirmation := None,
       bl_repair_deadline := None, bl_next_message_id := 0,
       bl_negotiated_repair_frame_bytes := unat (max_repair_frame_bytes (bl_local_lane_profile s))\<rparr>"

definition link_fail where
  "link_fail C H message s =
     (let t = s\<lparr>bl_pending := None, bl_codec := None, bl_remote_lane_profile := None,
                bl_pending_provisioning := None, bl_repair_close := None, bl_repair_ack_write := None,
                bl_repair_awaiting_confirmation := None, bl_repair_deadline := None,
                bl_reassembler := reassembler_reset (session C) (bl_reassembler s),
                bl_scan_requested := False, bl_connect_pending := False, bl_link_connected := False\<rparr>;
          u = publish (Diagnostic message) (publish (BoardLink Failed) t)
      in u\<lparr>bl_desired_address := None, bl_host := snd (disconnect H (bl_host u))\<rparr>)"

text \<open>A call on the host.\<close>

definition on_host where
  "on_host call = on_part bl_host (\<lambda>h s. s\<lparr>bl_host := h\<rparr>) ble_error call"

definition resume_desired_connection where
  "resume_desired_connection H s =
     (if bl_desired_address s \<noteq> None \<and> \<not> bl_scan_requested s \<and> \<not> bl_connect_pending s \<and> \<not> bl_link_connected s
      then (case start_scan H (bl_host s) of
              (Inr _, h) \<Rightarrow> publish (BoardLink Discovering) (s\<lparr>bl_host := h, bl_scan_requested := True\<rparr>)
            | (Inl e, h) \<Rightarrow> publish (Diagnostic (display_error (ble_error e))) (s\<lparr>bl_host := h\<rparr>))
      else s)"

section \<open>Sending\<close>

definition send_wire_tracked where
  "send_wire_tracked C H wire priority =
     bnd (gets bl_remote_hello) (\<lambda>hello.
     bnd (ok_or (Transport ''cannot send before the board hello'') hello) (\<lambda>remote.
     bnd (gets bl_next_message_id) (\<lambda>message_id.
     andthen (modify (\<lambda>s. s\<lparr>bl_next_message_id := message_id + 1\<rparr>))
     (bnd (lift_result ble_error (write_message_new (cursors (session C)) message_id wire
             (unat (max_fragment_value_bytes remote)) priority)) (\<lambda>message.
     andthen (on_host (write_rx_message H message)) (ret message_id))))))"

definition send_wire where
  "send_wire C H wire priority = bnd (send_wire_tracked C H wire priority) (\<lambda>_. ret ())"

text \<open>A fallible call on the session codec, with the error for a session that is not authenticated.\<close>

definition on_codec where
  "on_codec missing call =
     bnd (gets bl_codec) (\<lambda>codec. bnd (ok_or missing codec) (\<lambda>codec.
       on_part (\<lambda>_. codec) (\<lambda>c s. s\<lparr>bl_codec := Some c\<rparr>) Transport call))"

definition send_authenticated_tracked_with_priority where
  "send_authenticated_tracked_with_priority C H lane payload priority =
     bnd (gets bl_remote_lane_profile) (\<lambda>profile.
     andthen (refuse (profile = None \<and> lane \<noteq> Control) (Unavailable ''BLE lanes are not compatible and ready''))
     (bnd (on_codec (Unavailable ''BLE session is not authenticated'')
            (encode_with_sequence (session C) lane payload)) (\<lambda>(sequence, wire).
      bnd (send_wire_tracked C H wire priority) (\<lambda>message_id. ret (sequence, message_id)))))"

fun lane_priority :: "lane \<Rightarrow> ble_write_priority" where
  "lane_priority Control = Ble_Tx.Control"
| "lane_priority Realtime = Ble_Tx.Realtime"
| "lane_priority HhhsRepair = Repair"

definition send_authenticated_tracked where
  "send_authenticated_tracked C H lane payload =
     send_authenticated_tracked_with_priority C H lane payload (lane_priority lane)"

definition send_authenticated where
  "send_authenticated C H lane payload = bnd (send_authenticated_tracked C H lane payload) (\<lambda>_. ret ())"

definition send_round_table where
  "send_round_table C H frame =
     bnd (lift_result Transport (realtime_encode (frames C) (RoundTableFrame frame))) (\<lambda>encoded.
       send_authenticated C H Realtime encoded)"

section \<open>The board's placement and provisioning\<close>

definition current_board_binding where
  "current_board_binding C s =
     (case bl_remote_hello s of None \<Rightarrow> None | Some hello \<Rightarrow>
      case bl_codec s of None \<Rightarrow> None | Some codec \<Rightarrow>
        Some \<lparr>bs_identity = hello_identity hello, bs_boot_nonce = hello_boot_nonce hello,
              bs_session_id = session_id (session C) codec\<rparr>)"

definition send_capability_bundle where
  "send_capability_bundle C H binding bundle =
     bnd (gets (current_board_binding C)) (\<lambda>current.
     andthen (refuse (current \<noteq> Some binding) (Transport ''capability bundle belongs to a stale board placement''))
     (bnd (gets bl_remote_lane_profile) (\<lambda>profile.
     andthen (refuse (profile = None) (Unavailable ''board profile is not established for provisioning''))
     (bnd (lift_result Transport (bundle_receiver (session C) bundle)) (\<lambda>receiver.
     andthen (refuse (receiver \<noteq> bs_identity binding)
                (Transport ''capability bundle receiver differs from the authenticated board''))
     (bnd (gets bl_pending_provisioning) (\<lambda>provisioning.
      let digest = digest_of (session C) bundle in
      case provisioning of
        Some (pending_binding, pending_digest) \<Rightarrow>
          if pending_binding = binding \<and> pending_digest = digest then ret ()
          else throw (Transport ''another capability bundle is already pending for this session'')
      | None \<Rightarrow>
          bnd (lift_result Transport (encode_control_capability_bundle (frames C) bundle)) (\<lambda>control.
          andthen (send_authenticated C H Control control)
            (modify (\<lambda>s. s\<lparr>bl_pending_provisioning := Some (binding, digest)\<rparr>))))))))))"

section \<open>Repair\<close>

text \<open>\<open>self.repair_close.as_mut().expect(..).1\<close> and a fallible call on it.\<close>

definition on_close where
  "on_close call =
     bnd (gets bl_repair_close) (\<lambda>attempt. bnd (expect attempt) (\<lambda>(binding, close).
       on_part (\<lambda>_. close) (\<lambda>c s. s\<lparr>bl_repair_close := Some (binding, c)\<rparr>) Transport call))"

definition open_repair where
  "open_repair C binding frame s =
     publish (BoardLink Repairing)
       (s\<lparr>bl_repair_awaiting_confirmation := None,
          bl_repair_close := Some (binding, close_new (closing C) (repair_attempt_id (closing C) (bs_session_id binding) frame)),
          bl_repair_deadline := Some (clock C (bl_clock_reads s) + repair_close_timeout),
          bl_clock_reads := Suc (bl_clock_reads s)\<rparr>)"

definition send_board_repair_frame where
  "send_board_repair_frame C H binding frame =
     bnd (gets (current_board_binding C)) (\<lambda>current.
     andthen (refuse (current \<noteq> Some binding) (Transport ''repair frame belongs to a stale board placement''))
     (bnd (gets bl_negotiated_repair_frame_bytes) (\<lambda>limit.
     andthen (refuse (length frame > limit)
        (Transport (''BLE repair frame is '' @ decimal (length frame) @ '' bytes; negotiated limit is '' @ decimal limit)))
     (bnd (gets bl_repair_close) (\<lambda>attempt.
     andthen (if attempt = None then modify (open_repair C binding frame) else ret ())
     (bnd (gets bl_repair_close) (\<lambda>attempt.
     andthen (refuse (case attempt of None \<Rightarrow> False | Some (current, _) \<Rightarrow> current \<noteq> binding)
        (Transport ''another board repair attempt is still active''))
     (bnd (send_authenticated_tracked C H HhhsRepair frame) (\<lambda>(sequence, _).
        on_close (observe_local_repair (closing C) sequence))))))))))"

definition maybe_send_repair_ack where
  "maybe_send_repair_ack C H =
     bnd (gets bl_repair_close) (\<lambda>attempt.
     case attempt of None \<Rightarrow> ret () | Some (_, close) \<Rightarrow>
       if \<not> remote_ack_pending (closing C) close then ret ()
       else
         bnd (lift_result Transport (remote_ack (closing C) close)) (\<lambda>ack.
         bnd (send_authenticated_tracked C H Control (encode_control_repair_ack (frames C) ack)) (\<lambda>(sequence, message_id).
         andthen (on_close (observe_remote_ack_encoded (closing C) sequence))
           (modify (\<lambda>s. s\<lparr>bl_repair_ack_write := Some (message_id, sequence)\<rparr>)))))"

definition maybe_publish_repair_closed where
  "maybe_publish_repair_closed C =
     modify (\<lambda>s. case bl_repair_close s of
        None \<Rightarrow> s
      | Some (binding, close) \<Rightarrow>
          if is_confirmed_closed (closing C) close
          then publish (BoardRepairCarrierClosed binding)
                 (s\<lparr>bl_repair_close := None, bl_repair_ack_write := None,
                    bl_repair_awaiting_confirmation := Some binding\<rparr>)
          else s)"

definition finish_board_repair where
  "finish_board_repair C H binding =
     bnd (gets bl_repair_close) (\<lambda>attempt.
     bnd (ok_or (Unavailable ''no board repair attempt is active'') attempt) (\<lambda>(current, close0).
     andthen (refuse (current \<noteq> binding) (Transport ''repair terminal outcome belongs to a stale board placement''))
     (let close = mark_local_terminal (closing C) close0 in
      andthen (modify (\<lambda>s. s\<lparr>bl_repair_close := Some (current, close)\<rparr>))
      (andthen
        (if local_fin_pending (closing C) close
         then bnd (lift_result Transport (local_fin (closing C) close)) (\<lambda>fin.
              bnd (send_authenticated_tracked_with_priority C H Control (encode_control_repair_fin (frames C) fin) Repair)
                (\<lambda>(sequence, _). on_close (observe_local_fin_encoded (closing C) sequence)))
         else ret ())
      (andthen (maybe_send_repair_ack C H) (maybe_publish_repair_closed C))))))"

text \<open>The error of a fallible call on the attempt that is known to exist, as \<open>close\<close> in the source.\<close>

definition handle_repair_control where
  "handle_repair_control C H sequence message =
     bnd (gets bl_repair_close) (\<lambda>attempt.
     andthen (refuse (attempt = None) (Transport ''repair lifecycle control arrived without an active attempt''))
     (andthen
       (case message of
          RepairFin fin \<Rightarrow> on_close (observe_remote_fin (closing C) fin sequence)
        | RepairAck ack \<Rightarrow> on_close (observe_local_fin_ack (closing C) ack)
        | _ \<Rightarrow> panic)
     (andthen (maybe_send_repair_ack C H) (maybe_publish_repair_closed C))))"

section \<open>Handshake and inbound traffic\<close>

text \<open>Two random values are drawn, the nonce of the offer and the ephemeral secret.\<close>

definition begin_authentication where
  "begin_authentication C H =
     bnd (gets bl_link_connected) (\<lambda>is_up.
     andthen (refuse (\<not> is_up)
       (Transport ''cannot authenticate before the BLE connected event establishes fragmentation''))
     (bnd (gets bl_remote_hello) (\<lambda>hello.
     bnd (ok_or (Transport ''board hello has not been received'') hello) (\<lambda>remote.
     andthen (refuse (\<not> hello_supports (handshake C) remote (capability_realtime (limits C)))
       (Transport ''board does not advertise the realtime lane''))
     (bnd (gets bl_local_hello) (\<lambda>local_hello.
     andthen (send_wire C H (hello_encode (handshake C) local_hello) Ble_Tx.Control)
     (bnd (gets bl_signing_key) (\<lambda>key.
     bnd (gets bl_draws) (\<lambda>n.
     (case initiator_begin (handshake C) key (channel_binding (handshake C) local_hello remote)
            (random C n) (random C (Suc n)) of
        (initiator, offer) \<Rightarrow>
          andthen (modify (\<lambda>s. s\<lparr>bl_draws := n + 2, bl_pending := Some initiator\<rparr>))
          (andthen (send_wire C H (encode_offer (handshake C) offer) Ble_Tx.Control)
             (modify (publish (BoardLink Authenticating))))))))))))))"

definition continue_after_hello where
  "continue_after_hello C H hello =
     bnd (gets bl_trusted) (\<lambda>trusted.
     if hello_identity hello \<in> trusted
     then andthen (modify (\<lambda>s. s\<lparr>bl_trust_candidate := None\<rparr>)) (begin_authentication C H)
     else modify (\<lambda>s. publish (TrustRequired hello) (s\<lparr>bl_trust_candidate := Some (hello_identity hello)\<rparr>)))"

definition handle_info where
  "handle_info C H bs =
     bnd (lift_result Transport (hello_decode (handshake C) bs)) (\<lambda>hello.
     bnd (gets bl_remote_hello) (\<lambda>remote.
     if remote = Some hello then ret ()
     else
       bnd (gets (\<lambda>s. remote \<noteq> None \<or> bl_pending s \<noteq> None \<or> bl_codec s \<noteq> None)) (\<lambda>in_session.
       andthen (refuse in_session (Transport ''board identity or boot hello changed during a connection''))
       (andthen (modify (\<lambda>s. s\<lparr>bl_remote_hello := Some hello\<rparr>))
       (bnd (gets bl_link_connected) (\<lambda>is_up.
         if \<not> is_up then ret () else continue_after_hello C H hello))))))"

definition profile_of :: "lane_profile \<Rightarrow> protocol_profile" where
  "profile_of p =
     \<lparr>music_generation = lp_music_generation p, music_vocabulary_generation = lp_music_vocabulary_generation p,
      hhhs_strategy_version = lp_hhhs_strategy_version p, hhhs_repair_generation = lp_hhhs_repair_generation p,
      room_generation = application_generation p, capabilities = lp_capabilities p\<rparr>"

fun display_mismatch :: "protocol_mismatch \<Rightarrow> string" where
  "display_mismatch (MusicGeneration a b) =
     ''music generation differs (local '' @ decimal (unat a) @ '', remote '' @ decimal (unat b) @ '')''"
| "display_mismatch (MusicVocabularyGeneration a b) =
     ''music vocabulary differs (local '' @ decimal (unat a) @ '', remote '' @ decimal (unat b) @ '')''"
| "display_mismatch (HhhsStrategy a b) =
     ''HHHS lane strategy differs (local '' @ decimal (unat a) @ '', remote '' @ decimal (unat b) @ '')''"
| "display_mismatch (HhhsRepairGeneration a b) =
     ''HHHS repair wire generation differs (local '' @ decimal (unat a) @ '', remote '' @ decimal (unat b) @ '')''"
| "display_mismatch (RoomGeneration a b) =
     ''Walkie room generation differs (local '' @ decimal (unat a) @ '', remote '' @ decimal (unat b) @ '')''"

text \<open>The three refusals of a profile, in the order of the checks.\<close>

definition profile_refusal where
  "profile_refusal C local_profile local_lane p =
     (if and (lp_capabilities p) (profile_cap_realtime (limits C)) \<noteq> 0 \<and>
         realtime_generation (limits C) (lp_capabilities p) \<noteq> wire_generation (limits C)
      then Some (''realtime wire generation differs (local '' @ decimal (unat (wire_generation (limits C))) @
             '', remote '' @ decimal (unat (realtime_generation (limits C) (lp_capabilities p))) @ '')'')
      else case check_compatible (other_caps (limits C)) local_profile (profile_of p) of
             Inl reason \<Rightarrow> Some (display_mismatch reason)
           | Inr _ \<Rightarrow>
               if max_replica_record_bytes p \<noteq> max_replica_record_bytes local_lane
               then Some (''music record admission ceiling differs (local '' @
                      decimal (unat (max_replica_record_bytes local_lane)) @ '', remote '' @
                      decimal (unat (max_replica_record_bytes p)) @ '')'')
               else None)"

definition handle_remote_profile where
  "handle_remote_profile C p =
     bnd (gets bl_remote_lane_profile) (\<lambda>known.
     if known = Some p then ret ()
     else
       andthen (refuse (known \<noteq> None) (Transport ''board changed its protocol profile within one session''))
       (andthen (modify (publish (RemoteProfile (profile_of p))))
       (bnd (gets (\<lambda>s. (bl_local_profile s, bl_local_lane_profile s))) (\<lambda>(local_profile, local_lane).
        case profile_refusal C local_profile local_lane p of
          Some reason \<Rightarrow> modify (\<lambda>s. publish (Diagnostic reason) (publish (BoardLink Refused) s))
        | None \<Rightarrow>
            (let payload = min (unat (max_authenticated_payload_bytes p))
                               (unat (max_authenticated_payload_bytes local_lane)) in
             andthen (on_codec (Transport ''profile arrived before authentication'')
                        (restrict_max_payload_bytes (session C) payload))
             (bnd (ok_or (Transport ''negotiated BLE wire ceiling overflow'')
                      (complete_wire_ceiling (limits C) payload)) (\<lambda>wire.
              bnd (lift_result Transport (budget_new (session C) wire 3 (wire * 3))) (\<lambda>budget.
              andthen (on_part bl_reassembler (\<lambda>r s. s\<lparr>bl_reassembler := r\<rparr>) Transport
                         (restrict_budget (session C) budget))
              (andthen (modify (\<lambda>s. s\<lparr>bl_negotiated_repair_frame_bytes :=
                            min (min (unat (max_repair_frame_bytes p)) (unat (max_repair_frame_bytes local_lane))) payload,
                          bl_remote_lane_profile := Some p\<rparr>))
              (bnd (gets (current_board_binding C)) (\<lambda>current.
               bnd (ok_or (Transport ''profile established without an authenticated placement'') current) (\<lambda>binding.
                 modify (publish (BoardProvisioningRequired binding))))))))))))))"

definition handle_remote_control where
  "handle_remote_control C H sequence bs =
     bnd (lift_result Transport (decode_control_frame (frames C) bs)) (\<lambda>frame.
     case frame of
       Profile p \<Rightarrow> handle_remote_profile C p
     | CapabilityBundle _ \<Rightarrow> throw (Transport ''board sent a capability bundle to the provisioning host'')
     | RepairFin fin \<Rightarrow> handle_repair_control C H sequence (RepairFin fin)
     | RepairAck ack \<Rightarrow> handle_repair_control C H sequence (RepairAck ack)
     | CapabilityReady digest \<Rightarrow>
         bnd (gets bl_pending_provisioning) (\<lambda>provisioning.
         bnd (ok_or (Transport ''board acknowledged capability provisioning without a pending bundle'') provisioning)
           (\<lambda>(binding, expected_digest).
         bnd (gets (current_board_binding C)) (\<lambda>current.
         andthen (refuse (current \<noteq> Some binding \<or> digest \<noteq> expected_digest)
           (Transport ''board capability acknowledgement is stale or names another bundle''))
         (modify (\<lambda>s. publish (BoardLink Repairing) (publish (BoardProvisioned binding)
            (s\<lparr>bl_pending_provisioning := None\<rparr>))))))))"

definition from_midi where
  "from_midi C m =
     \<lparr>midi_timing = 0, midi_voice_id = mf_voice_id (frames C) m, midi_channel = mf_channel (frames C) m,
      midi_note = mf_note (frames C) m, midi_kind = mf_kind (frames C) m, midi_value = normalized_value (frames C) m\<rparr>"

definition to_midi where
  "to_midi C m = from_normalized (frames C) (midi_voice_id m) (midi_channel m) (midi_note m) (midi_kind m) (midi_value m)"

definition handle_realtime where
  "handle_realtime C bs =
     bnd (gets bl_remote_lane_profile) (\<lambda>profile.
     andthen (refuse (profile = None) (Transport ''realtime payload arrived before profile agreement''))
     (bnd (lift_result Transport (realtime_decode (frames C) bs)) (\<lambda>frame.
      case frame of
        MidiFrame m \<Rightarrow> modify (publish (Midi (from_midi C m)))
      | RoundTableFrame f \<Rightarrow> modify (publish (RoundTable f)))))"

definition handle_repair_frame where
  "handle_repair_frame C H sequence frame =
     bnd (gets bl_remote_hello) (\<lambda>hello.
     andthen (refuse (\<not> (case hello of None \<Rightarrow> False
                          | Some h \<Rightarrow> hello_supports (handshake C) h (capability_hhhs_repair (limits C))))
       (Transport ''peer sent HHHS repair without advertising a repair driver''))
     (bnd (gets bl_remote_lane_profile) (\<lambda>profile.
     andthen (refuse (profile = None) (Transport ''repair frame arrived before profile agreement''))
     (bnd (gets bl_negotiated_repair_frame_bytes) (\<lambda>limit.
     andthen (refuse (length frame > limit)
       (Transport (''received BLE repair frame of '' @ decimal (length frame) @ '' bytes; negotiated limit is '' @ decimal limit)))
     (bnd (gets (current_board_binding C)) (\<lambda>current.
     bnd (ok_or (Transport ''repair frame has no authenticated board placement'') current) (\<lambda>binding.
     bnd (gets bl_repair_close) (\<lambda>attempt.
     bnd (ok_or (Transport ''board sent repair before the room opened an attempt'') attempt) (\<lambda>(owner, _).
     andthen (refuse (owner \<noteq> binding) (Transport ''repair frame belongs to a stale board placement''))
     (andthen (on_close (observe_remote_repair (closing C) sequence))
     (andthen (publish_repair (BoardRepairInbound binding frame))
       (maybe_send_repair_ack C H)))))))))))))"

definition handle_wire where
  "handle_wire C H wire =
     bnd (gets bl_pending) (\<lambda>waiting.
     case waiting of
       Some initiator \<Rightarrow>
         andthen (modify (\<lambda>s. s\<lparr>bl_pending := None\<rparr>))
         (bnd (gets bl_remote_hello) (\<lambda>hello.
          bnd (ok_or (Transport ''answer arrived before the board hello'') hello) (\<lambda>remote.
          bnd (lift_result Transport (decode_answer (handshake C) wire)) (\<lambda>answer.
          bnd (lift_result Transport (initiator_complete (handshake C) initiator answer (hello_identity remote))) (\<lambda>keys.
          bnd (gets bl_local_lane_profile) (\<lambda>local_lane.
          bnd (lift_result Transport (codec_new (session C) keys (unat (max_authenticated_payload_bytes local_lane)))) (\<lambda>codec.
          andthen (modify (\<lambda>s. publish (BoardLink Repairing) (s\<lparr>bl_codec := Some codec\<rparr>)))
            (send_authenticated C H Control (encode_control_profile (frames C) local_lane)))))))))
     | None \<Rightarrow>
         bnd (on_codec (Transport ''unexpected pre-session notification'') (codec_decode (session C) wire))
           (\<lambda>(lane, sequence, payload).
         case lane of
           Control \<Rightarrow> handle_remote_control C H sequence payload
         | Realtime \<Rightarrow> handle_realtime C payload
         | HhhsRepair \<Rightarrow> handle_repair_frame C H sequence payload))"

definition handle_notification where
  "handle_notification C H bs =
     bnd (on_part bl_reassembler (\<lambda>r s. s\<lparr>bl_reassembler := r\<rparr>) Transport (reassembler_push (session C) bs)) (\<lambda>wire.
     case wire of None \<Rightarrow> ret () | Some w \<Rightarrow> handle_wire C H w)"

section \<open>Host events\<close>

definition handle_scan_result where
  "handle_scan_result C H result =
     bnd (gets (\<lambda>s. \<not> bl_connect_pending s \<and> bl_desired_address s = Some (scan_address result))) (\<lambda>reconnect.
     andthen (modify (publish (BoardDiscovered result)))
     (if reconnect
      then andthen (modify (\<lambda>s. s\<lparr>bl_scan_requested := False\<rparr>))
        (modify (\<lambda>s. case connect H (scan_address result) (bl_host s) of
             (Inr _, h) \<Rightarrow> publish (BoardLink Connecting) (s\<lparr>bl_host := h, bl_connect_pending := True\<rparr>)
           | (Inl e, h) \<Rightarrow> link_fail C H (display_error (ble_error e)) (s\<lparr>bl_host := h\<rparr>)))
      else ret ()))"

definition handle_connected where
  "handle_connected C H value_bytes =
     bnd (gets bl_remote_hello) (\<lambda>early_hello.
     andthen (modify (\<lambda>s. (reset_session C s)\<lparr>bl_remote_hello := early_hello, bl_scan_requested := False,
                bl_connect_pending := False, bl_link_connected := True\<rparr>))
     (andthen (refuse (value_bytes < min_fragment_value_bytes (limits C))
        (Transport (''negotiated GATT value is '' @ decimal (unat value_bytes) @ '' bytes'')))
     (andthen (modify (\<lambda>s. publish (BoardLink Authenticating)
          (s\<lparr>bl_local_hello := (bl_local_hello s)\<lparr>max_fragment_value_bytes := value_bytes\<rparr>\<rparr>)))
     (case early_hello of Some hello \<Rightarrow> continue_after_hello C H hello | None \<Rightarrow> ret ()))))"

definition handle_disconnected where
  "handle_disconnected C H reason s =
     (let t = publish (BoardLink Offline)
                ((reset_session C (s\<lparr>bl_scan_requested := False, bl_link_connected := False\<rparr>))\<lparr>bl_connect_pending := False\<rparr>);
          u = (case reason of Some r \<Rightarrow> publish (Diagnostic r) t | None \<Rightarrow> t)
      in resume_desired_connection H u)"

definition handle_write_complete where
  "handle_write_complete C message_id =
     bnd (gets bl_repair_ack_write) (\<lambda>waiting.
     case waiting of
       None \<Rightarrow> ret ()
     | Some (expected, sequence) \<Rightarrow>
         if message_id \<noteq> expected then ret ()
         else
           bnd (gets bl_repair_close) (\<lambda>attempt.
           andthen (refuse (attempt = None) (Transport ''repair ACK completed after attempt abandonment''))
           (andthen (on_close (confirm_remote_ack_sent (closing C) sequence))
           (andthen (modify (\<lambda>s. s\<lparr>bl_repair_ack_write := None\<rparr>))
              (maybe_publish_repair_closed C)))))"

definition host_event_result where
  "host_event_result C H event =
     (case event of
        ScanResult result \<Rightarrow> handle_scan_result C H result
      | Connected _ value_bytes \<Rightarrow> handle_connected C H value_bytes
      | Disconnected _ reason \<Rightarrow> modify (handle_disconnected C H reason)
      | Info bs \<Rightarrow> handle_info C H bs
      | Notification bs \<Rightarrow> handle_notification C H bs
      | WriteComplete message_id \<Rightarrow> handle_write_complete C message_id
      | HostDiagnostic message \<Rightarrow> modify (publish (Diagnostic message))
      | HostPermissionDenied \<Rightarrow> throw (ble_error PermissionDenied)
      | EventsDropped n \<Rightarrow> throw (Transport (''desktop BLE event queue dropped '' @ decimal (unat n) @ '' values''))
      | HostError e \<Rightarrow> throw (ble_error e))"

text \<open>An error ends the connection.\<close>

definition or_fail where
  "or_fail C H m s =
     (case m s of
        (Inl (Err e), t) \<Rightarrow> (Inr (), link_fail C H (display_error e) t)
      | (Inl Panic, t) \<Rightarrow> (Inl (Panic :: bridge_error fault), t)
      | (Inr _, t) \<Rightarrow> (Inr (), t))"

definition handle_host_event where
  "handle_host_event C H event = or_fail C H (host_event_result C H event)"

section \<open>The transport methods\<close>

definition trusted_count where
  "trusted_count s = (if card (bl_trusted s) < 2 ^ 32 then of_nat (card (bl_trusted s)) else - 1)"

definition publish_trusted where
  "publish_trusted s = publish (TrustedBoards (trusted_count s)) s"

definition link_start where
  "link_start = modify publish_trusted"

definition start_board_scan where
  "start_board_scan H =
     bnd (gets (\<lambda>s. bl_scan_requested s \<or> bl_connect_pending s \<or> bl_link_connected s)) (\<lambda>busy.
     if busy then ret ()
     else andthen (on_host (start_scan H))
            (modify (\<lambda>s. publish (BoardLink Discovering) (s\<lparr>bl_scan_requested := True\<rparr>))))"

definition connect_board where
  "connect_board C H address =
     bnd (gets (\<lambda>s. bl_desired_address s = Some address \<and> (bl_connect_pending s \<or> bl_link_connected s))) (\<lambda>already.
     if already then ret ()
     else
       andthen (modify (\<lambda>s. reset_session C (s\<lparr>bl_desired_address := Some address, bl_scan_requested := False,
                  bl_connect_pending := True, bl_link_connected := False, bl_trust_candidate := None\<rparr>)))
       (bnd (gets bl_host) (\<lambda>h.
        case connect H address h of
          (Inl e, h') \<Rightarrow> andthen (modify (\<lambda>s. s\<lparr>bl_host := h', bl_connect_pending := False\<rparr>)) (throw (ble_error e))
        | (Inr _, h') \<Rightarrow> modify (\<lambda>s. publish (BoardLink Connecting) (s\<lparr>bl_host := h'\<rparr>)))))"

definition disconnect_board where
  "disconnect_board H =
     andthen (modify (\<lambda>s. s\<lparr>bl_desired_address := None, bl_scan_requested := False, bl_connect_pending := False,
                bl_link_connected := False, bl_trust_candidate := None\<rparr>))
       (on_host (disconnect H))"

definition trust_known_board where
  "trust_known_board C H board =
     bnd (gets bl_remote_hello) (\<lambda>remote.
     case remote of
       None \<Rightarrow> ret ()
     | Some hello \<Rightarrow>
         andthen (refuse (hello_identity hello \<noteq> board) (Transport ''trust decision does not match the connected board''))
         (bnd (gets (\<lambda>s. bl_pending s \<noteq> None \<or> bl_codec s \<noteq> None)) (\<lambda>in_session.
          if in_session then ret ()
          else bnd (gets bl_link_connected) (\<lambda>is_up. if is_up then begin_authentication C H else ret ()))))"

definition trust_board where
  "trust_board C H board =
     bnd (gets bl_trusted) (\<lambda>trusted.
     if board \<in> trusted then trust_known_board C H board
     else
       bnd (gets (\<lambda>s. case bl_remote_hello s of Some hello \<Rightarrow> Some (hello_identity hello) | None \<Rightarrow> bl_trust_candidate s)) (\<lambda>observed.
       andthen (refuse (observed \<noteq> Some board)
         (Transport ''trust decision does not match a board identity shown by this session''))
       (andthen (modify (\<lambda>s. publish_trusted (s\<lparr>bl_trusted := insert board (bl_trusted s), bl_trust_candidate := None\<rparr>)))
       (bnd (gets (\<lambda>s. (bl_remote_hello s \<noteq> None, bl_link_connected s))) (\<lambda>(has_hello, is_up).
          if has_hello \<and> is_up then begin_authentication C H
          else if \<not> has_hello then modify (resume_desired_connection H)
          else ret ())))))"

definition forget_board where
  "forget_board board = modify (\<lambda>s. publish_trusted (s\<lparr>bl_trusted := bl_trusted s - {board}\<rparr>))"

definition complete_board_repair where
  "complete_board_repair C binding =
     bnd (gets (\<lambda>s. current_board_binding C s \<noteq> Some binding \<or> bl_repair_awaiting_confirmation s \<noteq> Some binding)) (\<lambda>stale.
     andthen (refuse stale (Transport ''repair completion belongs to an unconfirmed or stale board attempt''))
       (modify (\<lambda>s. publish (BoardLink Ready)
          (s\<lparr>bl_repair_awaiting_confirmation := None, bl_repair_deadline := None\<rparr>))))"

definition abort_board_repair where
  "abort_board_repair C H binding =
     modify (\<lambda>s. if current_board_binding C s = Some binding
       then link_fail C H ''board HHHS repair attempt was abandoned''
              (s\<lparr>bl_repair_close := None, bl_repair_ack_write := None, bl_repair_awaiting_confirmation := None,
                 bl_repair_deadline := None\<rparr>)
       else s)"

definition configure_ble where
  "configure_ble C seed boards =
     bnd (gets (\<lambda>s. bl_remote_hello s \<noteq> None \<or> bl_pending s \<noteq> None \<or> bl_codec s \<noteq> None)) (\<lambda>in_session.
     andthen (refuse in_session (Transport ''cannot replace BLE identity or trust while connected''))
       (modify (\<lambda>s. let key = signing_key_from (handshake C) seed in
          publish_trusted (s\<lparr>bl_signing_key := key,
            bl_local_hello := (bl_local_hello s)\<lparr>hello_identity := identity_from (handshake C) key,
              hello_boot_nonce := boot_nonce_of (handshake C) (random C (bl_draws s))\<rparr>,
            bl_draws := Suc (bl_draws s), bl_trusted := set boards, bl_trust_candidate := None\<rparr>))))"

definition link_command where
  "link_command C H command =
     (case command of
        StartBoardScan \<Rightarrow> start_board_scan H
      | ConnectBoard address \<Rightarrow> connect_board C H address
      | DisconnectBoard \<Rightarrow> disconnect_board H
      | TrustBoard board \<Rightarrow> trust_board C H board
      | ForgetBoard board \<Rightarrow> forget_board board
      | SendBoardCapabilityBundle binding bundle \<Rightarrow> send_capability_bundle C H binding bundle
      | SendBoardRepairFrame binding frame \<Rightarrow> send_board_repair_frame C H binding frame
      | FinishBoardRepair binding \<Rightarrow> finish_board_repair C H binding
      | CompleteBoardRepair binding \<Rightarrow> complete_board_repair C binding
      | AbortBoardRepair binding \<Rightarrow> abort_board_repair C H binding
      | SendBoardRoundTable frame \<Rightarrow> send_round_table C H frame
      | ConfigureBle seed boards \<Rightarrow> configure_ble C seed boards
      | _ \<Rightarrow> throw (Unavailable ''native Iroh bridge is not enabled in this adapter''))"

definition link_realtime where
  "link_realtime C H m =
     bnd (lift_result Transport (to_midi C m)) (\<lambda>midi.
     bnd (lift_result Transport (realtime_encode (frames C) (MidiFrame midi))) (\<lambda>encoded.
       send_authenticated C H Realtime encoded))"

text \<open>The loop of \<open>poll_event\<close>, with the bound of the source as fuel.\<close>

fun poll_loop where
  "poll_loop C H 0 s =
     (case bl_events s of [] \<Rightarrow> (Inr None, s) | e # es \<Rightarrow> (Inr (Some e), s\<lparr>bl_events := es\<rparr>))"
| "poll_loop C H (Suc n) s =
     (case bl_events s of
        e # es \<Rightarrow> (Inr (Some e), s\<lparr>bl_events := es\<rparr>)
      | [] \<Rightarrow>
          (case host_poll H (bl_host s) of
             (None, h) \<Rightarrow> (Inr None, s\<lparr>bl_host := h\<rparr>)
           | (Some event, h) \<Rightarrow>
               bnd (handle_host_event C H event) (\<lambda>_. poll_loop C H n) (s\<lparr>bl_host := h\<rparr>)))"

definition poll_budget :: nat where
  "poll_budget = 64"

definition expire_repair where
  "expire_repair C H s =
     (case bl_repair_deadline s of
        None \<Rightarrow> s
      | Some deadline \<Rightarrow>
          let t = s\<lparr>bl_clock_reads := Suc (bl_clock_reads s)\<rparr>
          in if deadline \<le> clock C (bl_clock_reads s)
             then link_fail C H (''board HHHS repair did not close within '' @ decimal (repair_close_timeout div 1000) @ '' seconds'') t
             else t)"

definition link_poll where
  "link_poll C H =
     andthen (modify (expire_repair C H))
     (bnd (gets bl_dropped_events) (\<lambda>dropped.
      if dropped \<noteq> 0
      then andthen (modify (\<lambda>s. s\<lparr>bl_dropped_events := 0\<rparr>))
             (ret (Some (Diagnostic (''BLE transport event queue dropped '' @ decimal (unat dropped) @ '' values''))))
      else poll_loop C H poll_budget))"

definition link_shutdown where
  "link_shutdown C H s =
     (let h = snd (disconnect H (snd (stop_scan H (bl_host s))))
      in reset_session C (s\<lparr>bl_desired_address := None, bl_scan_requested := False, bl_connect_pending := False,
           bl_host := h, bl_link_connected := False\<rparr>))"

text \<open>The methods as a \<open>BridgeTransport\<close>, one call each. A method that panics does not return, and the interface
  has no value for that, so the call is given an error here; that no method panics is part of the invariant
  (shown in \<open>Ble_Session\<close>). A statement about runs that must show panics uses \<open>ble_leg_transport\<close> of
  \<open>Composite_Legs\<close>, whose state is \<open>None\<close> from the first panic on.\<close>

definition returned :: "(bridge_error fault + 'a) \<times> 's \<Rightarrow> (bridge_error + 'a) \<times> 's" where
  "returned r =
     (case r of (Inr a, s) \<Rightarrow> (Inr a, s) | (Inl (Err e), s) \<Rightarrow> (Inl e, s) | (Inl Panic, s) \<Rightarrow> (Inl (Transport ''panic''), s))"

definition ble_link_transport where
  "ble_link_transport C H =
     \<lparr>start = (\<lambda>s. returned (link_start s)),
      handle_command = (\<lambda>c s. returned (link_command C H c s)),
      send_realtime = (\<lambda>m s. returned (link_realtime C H m s)),
      poll_event = (\<lambda>s. case returned (link_poll C H s) of (Inr e, t) \<Rightarrow> (e, t) | (Inl _, t) \<Rightarrow> (None, t)),
      shutdown = link_shutdown C H\<rparr>"

end
