(* ===== verification/Ble_Session.thy ===== *)
theory Ble_Session
  imports Ble_Link
begin

text \<open>
  What the session pump of \<open>Ble_Link\<close> guarantees, for every host, every behaviour of the crates and every
  sequence of calls: the invariant of the link and its consequences, shown method by method with the weakest
  preconditions of \<open>Effects\<close>. Methods that only send share one frame rule (\<open>only_sends\<close>, collection
  \<open>sending\<close>). The link is a \<open>BridgeTransport\<close> (interpretation \<open>ble_leg\<close>).
\<close>

section \<open>The invariant\<close>

text \<open>
  \<open>F\<close> is a set of identities that may have been forgotten. Events fit their queue; a handshake or a session
  is with a board that said hello and is trusted, or was forgotten since; lanes open only on a session and
  only for a profile that was not refused, and the limit for repair frames is within both sides' limits; an
  open or unconfirmed repair belongs to a session and has a deadline; an acknowledgement in flight belongs to
  an open repair.
\<close>

definition link_inv where
  "link_inv C F s \<longleftrightarrow>
     length (bl_events s) \<le> transport_event_capacity \<and>
     (bl_pending s \<noteq> None \<or> bl_codec s \<noteq> None \<longrightarrow>
        (\<exists>hello. bl_remote_hello s = Some hello \<and> hello_identity hello \<in> bl_trusted s \<union> F)) \<and>
     (\<forall>p. bl_remote_lane_profile s = Some p \<longrightarrow>
        bl_codec s \<noteq> None \<and> profile_refusal C (bl_local_profile s) (bl_local_lane_profile s) p = None \<and>
        bl_negotiated_repair_frame_bytes s \<le> unat (max_repair_frame_bytes p)) \<and>
     bl_negotiated_repair_frame_bytes s \<le> unat (max_repair_frame_bytes (bl_local_lane_profile s)) \<and>
     (bl_repair_close s \<noteq> None \<or> bl_repair_awaiting_confirmation s \<noteq> None \<longrightarrow> bl_codec s \<noteq> None) \<and>
     (bl_repair_deadline s \<noteq> None \<longleftrightarrow> bl_repair_close s \<noteq> None \<or> bl_repair_awaiting_confirmation s \<noteq> None) \<and>
     (bl_repair_close s = None \<or> bl_repair_awaiting_confirmation s = None) \<and>
     (bl_repair_ack_write s \<noteq> None \<longrightarrow> bl_repair_close s \<noteq> None)"

lemma published_length: "length (bl_events s) \<le> 256 \<Longrightarrow> length (bl_events (publish e s)) \<le> 256"
  by (auto simp: publish_def transport_event_capacity_def)

lemma link_publish_fields [simp]:
  "bl_trusted (publish e s) = bl_trusted s" "bl_pending (publish e s) = bl_pending s" "bl_codec (publish e s) = bl_codec s"
  "bl_remote_hello (publish e s) = bl_remote_hello s" "bl_remote_lane_profile (publish e s) = bl_remote_lane_profile s"
  "bl_local_profile (publish e s) = bl_local_profile s" "bl_local_lane_profile (publish e s) = bl_local_lane_profile s"
  "bl_negotiated_repair_frame_bytes (publish e s) = bl_negotiated_repair_frame_bytes s"
  "bl_repair_close (publish e s) = bl_repair_close s" "bl_repair_deadline (publish e s) = bl_repair_deadline s"
  "bl_repair_awaiting_confirmation (publish e s) = bl_repair_awaiting_confirmation s"
  "bl_repair_ack_write (publish e s) = bl_repair_ack_write s" "bl_host (publish e s) = bl_host s"
  "bl_link_connected (publish e s) = bl_link_connected s" "bl_desired_address (publish e s) = bl_desired_address s"
  "bl_scan_requested (publish e s) = bl_scan_requested s" "bl_connect_pending (publish e s) = bl_connect_pending s"
  "bl_pending_provisioning (publish e s) = bl_pending_provisioning s"
  "bl_clock_reads (publish e s) = bl_clock_reads s"
  by (simp_all add: publish_def)

lemma link_inv_publish [simp]: "link_inv C F s \<Longrightarrow> link_inv C F (publish e s)"
  by (auto simp: link_inv_def transport_event_capacity_def published_length)

lemma link_inv_host [simp]: "link_inv C F (s\<lparr>bl_host := h\<rparr>) = link_inv C F s"
  by (simp add: link_inv_def)

lemma link_inv_flags [simp]:
  "link_inv C F (s\<lparr>bl_scan_requested := b\<rparr>) = link_inv C F s"
  "link_inv C F (s\<lparr>bl_connect_pending := b\<rparr>) = link_inv C F s"
  "link_inv C F (s\<lparr>bl_link_connected := b\<rparr>) = link_inv C F s"
  "link_inv C F (s\<lparr>bl_desired_address := a\<rparr>) = link_inv C F s"
  "link_inv C F (s\<lparr>bl_trust_candidate := t\<rparr>) = link_inv C F s"
  "link_inv C F (s\<lparr>bl_pending_provisioning := pp\<rparr>) = link_inv C F s"
  "link_inv C F (s\<lparr>bl_reassembler := r\<rparr>) = link_inv C F s"
  "link_inv C F (s\<lparr>bl_local_hello := l\<rparr>) = link_inv C F s"
  "link_inv C F (s\<lparr>bl_dropped_events := d\<rparr>) = link_inv C F s"
  "link_inv C F (s\<lparr>bl_clock_reads := k\<rparr>) = link_inv C F s"
  by (simp_all add: link_inv_def)

lemma link_inv_less_events: "link_inv C F s \<Longrightarrow> bl_events s = e # es \<Longrightarrow> link_inv C F (s\<lparr>bl_events := es\<rparr>)"
  by (auto simp: link_inv_def)

text \<open>A state without a session.\<close>

definition no_session where
  "no_session s \<longleftrightarrow> bl_pending s = None \<and> bl_codec s = None \<and> bl_remote_lane_profile s = None \<and> bl_repair_close s = None \<and>
     bl_repair_ack_write s = None \<and> bl_repair_awaiting_confirmation s = None \<and> bl_repair_deadline s = None"

lemma link_inv_no_session:
  "no_session s \<Longrightarrow> link_inv C F s \<longleftrightarrow> length (bl_events s) \<le> transport_event_capacity \<and>
     bl_negotiated_repair_frame_bytes s \<le> unat (max_repair_frame_bytes (bl_local_lane_profile s))"
  by (auto simp: link_inv_def no_session_def)

lemma no_session_reset [simp]: "no_session (reset_session C s)"
  by (simp add: no_session_def reset_session_def)

lemma no_session_fail [simp]: "no_session (link_fail C H m s)"
  by (simp add: no_session_def link_fail_def Let_def)

lemma link_inv_reset [simp]: "link_inv C F s \<Longrightarrow> link_inv C F (reset_session C s)"
  unfolding link_inv_no_session [OF no_session_reset] by (simp add: link_inv_def reset_session_def)

lemma link_inv_fail [simp]: "link_inv C F s \<Longrightarrow> link_inv C F (link_fail C H m s)"
  unfolding link_inv_no_session [OF no_session_fail]
  by (simp add: link_inv_def link_fail_def Let_def transport_event_capacity_def published_length)

lemma link_inv_resume [simp]: "link_inv C F s \<Longrightarrow> link_inv C F (resume_desired_connection H s)"
  by (auto simp: resume_desired_connection_def split: prod.splits sum.splits)

section \<open>Sending\<close>

text \<open>What sending may change: the host, the message counter and the codec of the session.\<close>

definition sends where
  "sends s t \<longleftrightarrow> (\<exists>h n c. t = s\<lparr>bl_host := h, bl_next_message_id := n, bl_codec := c\<rparr> \<and> (c = None \<longleftrightarrow> bl_codec s = None))"

lemma sends_refl: "sends s s"
  unfolding sends_def by (rule exI [of _ "bl_host s"], rule exI [of _ "bl_next_message_id s"], rule exI [of _ "bl_codec s"]) simp

lemma sends_trans:
  assumes "sends s t" and "sends t u"
  shows "sends s u"
proof -
  obtain h n c where t: "t = s\<lparr>bl_host := h, bl_next_message_id := n, bl_codec := c\<rparr>" "c = None \<longleftrightarrow> bl_codec s = None"
    using assms(1) unfolding sends_def by (elim exE conjE) (rule that)
  obtain h' n' c' where u: "u = t\<lparr>bl_host := h', bl_next_message_id := n', bl_codec := c'\<rparr>" "c' = None \<longleftrightarrow> bl_codec t = None"
    using assms(2) unfolding sends_def by (elim exE conjE) (rule that)
  have "u = s\<lparr>bl_host := h', bl_next_message_id := n', bl_codec := c'\<rparr>" using t(1) u(1) by simp
  moreover have "c' = None \<longleftrightarrow> bl_codec s = None" using t u(2) by simp
  ultimately show ?thesis unfolding sends_def by (intro exI conjI)
qed

lemma sends_host: "sends s (s\<lparr>bl_host := h\<rparr>)"
  unfolding sends_def by (rule exI [of _ h], rule exI [of _ "bl_next_message_id s"], rule exI [of _ "bl_codec s"]) simp

lemma sends_id: "sends s (s\<lparr>bl_next_message_id := n\<rparr>)"
  unfolding sends_def by (rule exI [of _ "bl_host s"], rule exI [of _ n], rule exI [of _ "bl_codec s"]) simp

lemma sends_codec: "bl_codec s \<noteq> None \<Longrightarrow> sends s (s\<lparr>bl_codec := Some c\<rparr>)"
  unfolding sends_def by (rule exI [of _ "bl_host s"], rule exI [of _ "bl_next_message_id s"], rule exI [of _ "Some c"]) simp

lemma sends_fields:
  assumes "sends s t"
  shows "bl_repair_close t = bl_repair_close s" "bl_remote_hello t = bl_remote_hello s"
    "bl_codec t = None \<longleftrightarrow> bl_codec s = None" "bl_remote_lane_profile t = bl_remote_lane_profile s"
    "bl_events t = bl_events s" "bl_negotiated_repair_frame_bytes t = bl_negotiated_repair_frame_bytes s"
    "bl_trusted t = bl_trusted s" "bl_link_connected t = bl_link_connected s" "bl_pending t = bl_pending s"
    "bl_repair_awaiting_confirmation t = bl_repair_awaiting_confirmation s"
    "bl_repair_deadline t = bl_repair_deadline s" "bl_repair_ack_write t = bl_repair_ack_write s"
    "bl_local_profile t = bl_local_profile s" "bl_local_lane_profile t = bl_local_lane_profile s"
proof -
  obtain h n c where "t = s\<lparr>bl_host := h, bl_next_message_id := n, bl_codec := c\<rparr>" "c = None \<longleftrightarrow> bl_codec s = None"
    using assms unfolding sends_def by (elim exE conjE) (rule that)
  then show "bl_repair_close t = bl_repair_close s" "bl_remote_hello t = bl_remote_hello s"
    "bl_codec t = None \<longleftrightarrow> bl_codec s = None" "bl_remote_lane_profile t = bl_remote_lane_profile s"
    "bl_events t = bl_events s" "bl_negotiated_repair_frame_bytes t = bl_negotiated_repair_frame_bytes s"
    "bl_trusted t = bl_trusted s" "bl_link_connected t = bl_link_connected s" "bl_pending t = bl_pending s"
    "bl_repair_awaiting_confirmation t = bl_repair_awaiting_confirmation s"
    "bl_repair_deadline t = bl_repair_deadline s" "bl_repair_ack_write t = bl_repair_ack_write s"
    "bl_local_profile t = bl_local_profile s" "bl_local_lane_profile t = bl_local_lane_profile s"
    by simp_all
qed

lemma link_inv_sends:
  assumes "sends s t" and "link_inv C F s"
  shows "link_inv C F t"
  using assms(2) unfolding link_inv_def sends_fields [OF assms(1)] .

definition only_sends where
  "only_sends m \<longleftrightarrow> (\<forall>s. wp m (\<lambda>_. sends s) (\<lambda>_. sends s) s)"

text \<open>The rule for a method that only sends.\<close>

lemma wp_only_sends:
  "only_sends m \<Longrightarrow> (\<And>a t. sends s t \<Longrightarrow> Q a t) \<Longrightarrow> (\<And>e t. sends s t \<Longrightarrow> E e t) \<Longrightarrow> wp m Q E s"
  by (rule wp_mono [where Q = "\<lambda>_. sends s" and E = "\<lambda>_. sends s"]) (simp_all add: only_sends_def)

named_theorems sending

lemma only_sends_bnd [sending]: "only_sends m \<Longrightarrow> (\<And>a. only_sends (k a)) \<Longrightarrow> only_sends (bnd m k)"
  unfolding only_sends_def [of "bnd m k"] wp_bnd
  by (intro allI) (erule wp_only_sends, rule wp_only_sends, assumption, erule (1) sends_trans, erule (1) sends_trans, assumption)

lemma only_sends_andthen [sending]: "only_sends m \<Longrightarrow> only_sends k \<Longrightarrow> only_sends (andthen m k)"
  by (simp add: andthen_def only_sends_bnd)

lemma only_sends_basic [sending]:
  "only_sends (ret a)" "only_sends (throw e)" "only_sends (gets f)" "only_sends (refuse b e)"
  "only_sends (lift_result g r)" "only_sends (ok_or e x)"
  by (auto simp: only_sends_def wps sends_refl split: sum.split option.split)

lemma only_sends_id [sending]: "only_sends (modify (\<lambda>s. s\<lparr>bl_next_message_id := n\<rparr>))"
  by (simp add: only_sends_def wps sends_id)

lemma only_sends_host [sending]: "only_sends (on_host call)"
  by (auto simp: only_sends_def on_host_def wps sends_host split: sum.split prod.split)

lemma only_sends_codec [sending]: "only_sends (on_codec missing call)"
  by (auto simp: only_sends_def on_codec_def wps sends_refl split: option.splits sum.splits prod.splits intro: sends_codec)

lemma only_sends_prod [sending]: "(\<And>a b. only_sends (k a b)) \<Longrightarrow> only_sends (case p of (a, b) \<Rightarrow> k a b)"
  by (cases p) simp

lemma only_sends_wire [sending]: "only_sends (send_wire_tracked C H wire prio)"
  unfolding send_wire_tracked_def by (intro sending)

lemma only_sends_wire_untracked [sending]: "only_sends (send_wire C H wire prio)"
  unfolding send_wire_def by (intro sending)

lemma only_sends_prio [sending]: "only_sends (send_authenticated_tracked_with_priority C H lane payload prio)"
  unfolding send_authenticated_tracked_with_priority_def by (intro sending)

lemma only_sends_tracked [sending]: "only_sends (send_authenticated_tracked C H lane payload)"
  unfolding send_authenticated_tracked_def by (intro sending)

lemma only_sends_authenticated [sending]: "only_sends (send_authenticated C H lane payload)"
  unfolding send_authenticated_def by (intro sending)

lemma only_sends_round_table [sending]: "only_sends (send_round_table C H frame)"
  unfolding send_round_table_def by (intro sending)

lemma only_sends_realtime [sending]: "only_sends (link_realtime C H m)"
  unfolding link_realtime_def by (intro sending)

lemma only_sends_keeps: "only_sends m \<Longrightarrow> link_inv C F s \<Longrightarrow> keeps (link_inv C F) m s"
  by (erule wp_only_sends) (auto intro: link_inv_sends)
section \<open>Every operation keeps the invariant\<close>

text \<open>A fallible call on the open attempt keeps it open.\<close>

lemma on_close_open:
  assumes "link_inv C F s" and "bl_repair_close s \<noteq> None"
  shows "wp (on_close call) (\<lambda>_ t. link_inv C F t \<and> bl_repair_close t \<noteq> None) (\<lambda>_. link_inv C F) s"
  using assms by (auto simp: on_close_def wps link_inv_def split: prod.split sum.split)

lemma wp_on_close:
  assumes "link_inv C F s" and "bl_repair_close s \<noteq> None"
    and "\<And>a t. link_inv C F t \<Longrightarrow> bl_repair_close t \<noteq> None \<Longrightarrow> Q a t" and "\<And>e t. link_inv C F t \<Longrightarrow> E e t"
  shows "wp (on_close call) Q E s"
  by (rule wp_mono [OF on_close_open [OF assms(1,2)]]) (simp_all add: assms(3,4))

lemma link_inv_ack_write:
  "link_inv C F s \<Longrightarrow> bl_repair_close s \<noteq> None \<Longrightarrow> link_inv C F (s\<lparr>bl_repair_ack_write := w\<rparr>)"
  by (auto simp: link_inv_def)

lemma keeps_ack: "link_inv C F s \<Longrightarrow> keeps (link_inv C F) (maybe_send_repair_ack C H) s"
  unfolding maybe_send_repair_ack_def
  by (auto simp: wps sends_fields link_inv_ack_write split: option.split sum.split
      intro!: wp_only_sends [OF only_sends_tracked] wp_on_close [where C = C and F = F] elim: link_inv_sends)

lemma keeps_closed: "link_inv C F s \<Longrightarrow> keeps (link_inv C F) (maybe_publish_repair_closed C) s"
  by (auto simp: maybe_publish_repair_closed_def wps link_inv_def transport_event_capacity_def published_length
      split: option.split)

text \<open>The two methods at the end of every repair step.\<close>

lemma keeps_settle:
  "link_inv C F s \<Longrightarrow>
     wp (maybe_send_repair_ack C H) (\<lambda>_. keeps (link_inv C F) (maybe_publish_repair_closed C)) (\<lambda>_. link_inv C F) s"
  by (rule wp_mono [OF keeps_ack], assumption, erule keeps_closed, assumption)

lemma keeps_send_frame:
  assumes "link_inv C F s"
  shows "keeps (link_inv C F) (send_board_repair_frame C H binding frame) s"
proof -
  have "link_inv C F (open_repair C binding frame s)" if "current_board_binding C s = Some binding" "bl_repair_close s = None"
    using assms that by (auto simp: link_inv_def open_repair_def current_board_binding_def
        transport_event_capacity_def published_length split: option.splits)
  moreover have "bl_repair_close (open_repair C binding frame s) \<noteq> None" by (simp add: open_repair_def)
  ultimately show ?thesis
    using assms unfolding send_board_repair_frame_def
    by (auto simp: wps sends_fields
      intro!: wp_only_sends [OF only_sends_tracked] wp_on_close [where C = C and F = F] elim: link_inv_sends)
qed

lemma keeps_finish:
  assumes inv: "link_inv C F s"
  shows "keeps (link_inv C F) (finish_board_repair C H binding) s"
proof (cases "bl_repair_close s")
  case None
  then show ?thesis using inv by (simp add: finish_board_repair_def wps)
next
  case (Some attempt)
  obtain current close where attempt: "attempt = (current, close)" by fastforce
  define s' where "s' = s\<lparr>bl_repair_close := Some (current, mark_local_terminal (closing C) close)\<rparr>"
  have s': "link_inv C F s'" "bl_repair_close s' \<noteq> None" using inv Some by (auto simp: link_inv_def s'_def)
  have "keeps (link_inv C F) (finish_board_repair C H current) s"
    using s' Some unfolding finish_board_repair_def
    by (auto simp: wps attempt Let_def s'_def [symmetric] sends_fields split: sum.split
        intro!: wp_only_sends [OF only_sends_prio] wp_on_close [where C = C and F = F] keeps_settle
        elim: link_inv_sends)
  then show ?thesis using inv Some by (cases "current = binding") (simp_all add: finish_board_repair_def wps attempt)
qed

lemma keeps_control:
  "link_inv C F s \<Longrightarrow> message = RepairFin fin \<or> message = RepairAck ack \<Longrightarrow>
   keeps (link_inv C F) (handle_repair_control C H sequence message) s"
  unfolding handle_repair_control_def
  by (auto simp: wps intro!: wp_on_close [where C = C and F = F] keeps_settle)

lemma keeps_provisioning: "link_inv C F s \<Longrightarrow> keeps (link_inv C F) (send_capability_bundle C H binding bundle) s"
  unfolding send_capability_bundle_def
  by (auto simp: wps Let_def split: option.split sum.split prod.split
      intro!: wp_only_sends [OF only_sends_authenticated] elim: link_inv_sends)

text \<open>The handshake is begun with a trusted board only.\<close>

lemma keeps_handshake:
  assumes "link_inv C F s" and "\<And>hello. bl_remote_hello s = Some hello \<Longrightarrow> hello_identity hello \<in> bl_trusted s"
  shows "keeps (link_inv C F) (begin_authentication C H) s"
proof -
  have begun: "link_inv C F u"
    if "sends s t" "bl_remote_hello s = Some hello" "sends (t\<lparr>bl_draws := n, bl_pending := Some i\<rparr>) u" for t n i hello u
  proof (rule link_inv_sends [OF that(3)])
    show "link_inv C F (t\<lparr>bl_draws := n, bl_pending := Some i\<rparr>)"
      using link_inv_sends [OF that(1) assms(1)] assms(2) [OF that(2)] that(2) sends_fields [OF that(1)]
      by (auto simp: link_inv_def)
  qed
  show ?thesis
    using assms(1) unfolding begin_authentication_def
    by (auto simp: wps split: option.split prod.split intro!: wp_only_sends [OF only_sends_wire_untracked]
        elim: link_inv_sends) (rule link_inv_publish | erule (2) begun)+
qed

lemma keeps_continue:
  "link_inv C F s \<Longrightarrow> bl_remote_hello s = Some hello \<Longrightarrow> keeps (link_inv C F) (continue_after_hello C H hello) s"
  unfolding continue_after_hello_def by (auto simp: wps intro!: keeps_handshake)

lemma link_inv_hello:
  "link_inv C F s \<Longrightarrow> bl_pending s = None \<Longrightarrow> bl_codec s = None \<Longrightarrow> link_inv C F (s\<lparr>bl_remote_hello := h\<rparr>)"
  by (auto simp: link_inv_def)

lemma keeps_info: "link_inv C F s \<Longrightarrow> keeps (link_inv C F) (handle_info C H bs) s"
  unfolding handle_info_def
  by (auto simp: wps link_inv_hello split: sum.split intro!: keeps_continue)

lemma wp_on_codec:
  "(\<And>a c. bl_codec s \<noteq> None \<Longrightarrow> Q a (s\<lparr>bl_codec := Some c\<rparr>)) \<Longrightarrow>
   (\<And>e t. sends s t \<Longrightarrow> E e t) \<Longrightarrow> wp (on_codec missing call) Q E s"
  by (auto simp: on_codec_def wps sends_refl sends_codec split: option.split sum.split prod.split)

text \<open>Lanes open for a profile that was not refused.\<close>

lemma link_inv_profile:
  assumes "link_inv C F s" and "bl_codec s \<noteq> None"
    and "profile_refusal C (bl_local_profile s) (bl_local_lane_profile s) p = None"
    and "k \<le> unat (max_repair_frame_bytes p)" and "k \<le> unat (max_repair_frame_bytes (bl_local_lane_profile s))"
  shows "link_inv C F (s\<lparr>bl_negotiated_repair_frame_bytes := k, bl_remote_lane_profile := Some p\<rparr>)"
  using assms by (auto simp: link_inv_def)

lemma link_inv_codec: "link_inv C F s \<Longrightarrow> bl_codec s \<noteq> None \<Longrightarrow> link_inv C F (s\<lparr>bl_codec := Some c\<rparr>)"
  by (auto simp: link_inv_def)

lemma keeps_profile: "link_inv C F s \<Longrightarrow> keeps (link_inv C F) (handle_remote_profile C p) s"
  unfolding handle_remote_profile_def
  by (auto simp: wps Let_def link_inv_codec split: option.split sum.split prod.split
      intro!: wp_on_codec link_inv_profile link_inv_publish elim: link_inv_sends)

lemma keeps_remote_control: "link_inv C F s \<Longrightarrow> keeps (link_inv C F) (handle_remote_control C H sequence bs) s"
  unfolding handle_remote_control_def
  by (auto simp: wps keeps_profile keeps_control split: option.split sum.split prod.split control_frame.split)

lemma keeps_realtime: "link_inv C F s \<Longrightarrow> keeps (link_inv C F) (handle_realtime C bs) s"
  unfolding handle_realtime_def by (auto simp: wps split: sum.split realtime_frame.split)

lemma keeps_publish_repair: "link_inv C F s \<Longrightarrow> keeps (link_inv C F) (publish_repair event) s"
  by (auto simp: publish_repair_def wps link_inv_def)

lemma keeps_repair_frame: "link_inv C F s \<Longrightarrow> keeps (link_inv C F) (handle_repair_frame C H sequence frame) s"
  unfolding handle_repair_frame_def
  by (auto simp: wps split: option.split prod.split intro!: wp_on_close [where C = C and F = F] wp_mono [OF keeps_publish_repair] keeps_ack)

lemma link_inv_pending: "link_inv C F s \<Longrightarrow> link_inv C F (s\<lparr>bl_pending := None\<rparr>)"
  by (auto simp: link_inv_def)

lemma keeps_wire: 
  assumes "link_inv C F s"
  shows "keeps (link_inv C F) (handle_wire C H wire) s"
proof -
  have answered: "link_inv C F (s\<lparr>bl_pending := None, bl_codec := Some c\<rparr>)" if "bl_pending s \<noteq> None" for c
    using assms that by (auto simp: link_inv_def)
  show ?thesis
    using assms unfolding handle_wire_def
    by (auto simp: wps answered link_inv_pending link_inv_codec keeps_remote_control keeps_realtime keeps_repair_frame
        split: option.split sum.split prod.split lane.split
        intro!: wp_on_codec only_sends_keeps [OF only_sends_authenticated] elim: link_inv_sends)
qed

lemma keeps_notification: "link_inv C F s \<Longrightarrow> keeps (link_inv C F) (handle_notification C H bs) s"
  unfolding handle_notification_def by (auto simp: wps keeps_wire split: option.split sum.split prod.split)

lemma keeps_write_complete: "link_inv C F s \<Longrightarrow> keeps (link_inv C F) (handle_write_complete C message_id) s"
proof -
  have "link_inv C F t \<Longrightarrow> keeps (link_inv C F) (maybe_publish_repair_closed C) (t\<lparr>bl_repair_ack_write := None\<rparr>)" for t
    by (rule keeps_closed) (auto simp: link_inv_def)
  then show "link_inv C F s \<Longrightarrow> ?thesis"
    unfolding handle_write_complete_def
    by (auto simp: wps split: option.split prod.split intro!: wp_on_close [where C = C and F = F])
qed

lemma keeps_scan_result: "link_inv C F s \<Longrightarrow> keeps (link_inv C F) (handle_scan_result C H result) s"
  unfolding handle_scan_result_def by (auto simp: wps split: sum.split prod.split)

lemma keeps_connected: 
  assumes "link_inv C F s"
  shows "keeps (link_inv C F) (handle_connected C H value_bytes) s"
proof -
  have "link_inv C F ((reset_session C s)\<lparr>bl_remote_hello := h\<rparr>)" for h
    using link_inv_hello [OF link_inv_reset [OF assms]] by (simp add: reset_session_def)
  then show ?thesis
    unfolding handle_connected_def
    by (auto simp: wps split: option.split intro!: keeps_continue)
qed

lemma link_inv_disconnected: "link_inv C F s \<Longrightarrow> link_inv C F (handle_disconnected C H reason s)"
  by (simp add: handle_disconnected_def Let_def split: option.split)

lemma keeps_result: "link_inv C F s \<Longrightarrow> keeps (link_inv C F) (host_event_result C H event) s"
  unfolding host_event_result_def
  by (auto simp: wps keeps_scan_result keeps_connected link_inv_disconnected keeps_info keeps_notification keeps_write_complete
      split: ble_host_event.split)

lemma keeps_or_fail: "keeps (link_inv C F) m s \<Longrightarrow> wp (or_fail C H m) (\<lambda>_. link_inv C F) (\<lambda>_ _. False) s"
  by (auto simp: wp_def or_fail_def split: prod.splits sum.splits fault.splits)

lemma keeps_host_event: "link_inv C F s \<Longrightarrow> wp (handle_host_event C H event) (\<lambda>_. link_inv C F) (\<lambda>_ _. False) s"
  unfolding handle_host_event_def by (rule keeps_or_fail, rule keeps_result)

section \<open>The transport keeps the invariant\<close>

lemma link_inv_trusted:
  "link_inv C F s \<Longrightarrow> bl_trusted s \<subseteq> T \<union> F \<Longrightarrow> link_inv C F (s\<lparr>bl_trusted := T\<rparr>)"
  by (auto simp: link_inv_def)

lemma link_inv_publish_trusted [simp]: "link_inv C F s \<Longrightarrow> link_inv C F (publish_trusted s)"
  by (simp add: publish_trusted_def)

lemma publish_trusted_fields [simp]:
  "bl_remote_hello (publish_trusted s) = bl_remote_hello s" "bl_trusted (publish_trusted s) = bl_trusted s"
  "bl_link_connected (publish_trusted s) = bl_link_connected s"
  by (simp_all add: publish_trusted_def)

lemma keeps_trust_known:
  "link_inv C F s \<Longrightarrow> board \<in> bl_trusted s \<Longrightarrow> keeps (link_inv C F) (trust_known_board C H board) s"
  unfolding trust_known_board_def by (auto simp: wps split: option.split intro!: keeps_handshake)

lemma keeps_trust:
  assumes "link_inv C F s"
  shows "keeps (link_inv C F) (trust_board C H board) s"
proof -
  have "link_inv C F (publish_trusted (s\<lparr>bl_trusted := insert board (bl_trusted s), bl_trust_candidate := None\<rparr>))"
    using link_inv_trusted [OF assms, of "insert board (bl_trusted s)"]
    by (intro link_inv_publish_trusted) (simp add: subset_iff)
  then show ?thesis
    using assms unfolding trust_board_def
    by (auto simp: wps keeps_trust_known split: option.split intro!: keeps_handshake)
qed

lemma keeps_complete: "link_inv C F s \<Longrightarrow> keeps (link_inv C F) (complete_board_repair C binding) s"
  unfolding complete_board_repair_def by (auto simp: wps link_inv_def transport_event_capacity_def intro!: published_length)

lemma link_inv_fail_cleared: 
  "link_inv C F s \<Longrightarrow> link_inv C F (link_fail C H m (s\<lparr>bl_repair_close := None, bl_repair_ack_write := None,
     bl_repair_awaiting_confirmation := None, bl_repair_deadline := None\<rparr>))"
  by (rule link_inv_fail) (auto simp: link_inv_def)

lemma keeps_configure:
  assumes "link_inv C F s"
  shows "keeps (link_inv C F) (configure_ble C seed boards) s"
  using assms unfolding configure_ble_def
  by (auto simp: wps Let_def intro!: link_inv_publish_trusted) (auto simp: link_inv_def)

text \<open>A command that forgets a board forgets one of \<open>F\<close>.\<close>

definition forgets_in where
  "forgets_in F c \<longleftrightarrow> (case c of ForgetBoard board \<Rightarrow> board \<in> F | _ \<Rightarrow> True)"

lemma keeps_forget: "link_inv C F s \<Longrightarrow> board \<in> F \<Longrightarrow> keeps (link_inv C F) (forget_board board) s"
  unfolding forget_board_def by (auto simp: wps intro!: link_inv_publish_trusted link_inv_trusted)

lemma keeps_link_command:
  assumes "link_inv C F s" and "forgets_in F c"
  shows "keeps (link_inv C F) (link_command C H c) s"
proof -
  have "keeps (link_inv C F) (start_board_scan H) s"
    using assms(1) by (auto simp: start_board_scan_def on_host_def wps split: sum.split prod.split)
  moreover have "keeps (link_inv C F) (connect_board C H a) s" for a
    using assms(1) by (auto simp: connect_board_def wps split: sum.split prod.split)
  moreover have "keeps (link_inv C F) (disconnect_board H) s"
    using assms(1) by (auto simp: disconnect_board_def on_host_def wps split: sum.split prod.split)
  moreover have "keeps (link_inv C F) (abort_board_repair C H b) s" for b
    using assms(1) by (simp add: abort_board_repair_def wps link_inv_fail_cleared)
  ultimately show ?thesis
    using assms unfolding link_command_def forgets_in_def
    by (cases c) (simp_all add: wps keeps_trust keeps_forget keeps_provisioning keeps_send_frame keeps_finish
        keeps_complete keeps_configure only_sends_keeps [OF only_sends_round_table])
qed

lemma wp_same: "m s = n t \<Longrightarrow> wp m Q E s = wp n Q E t"
  by (simp add: wp_def)

lemma keeps_poll_loop: "link_inv C F s \<Longrightarrow> wp (poll_loop C H n) (\<lambda>_. link_inv C F) (\<lambda>_ _. False) s"
proof (induction n arbitrary: s)
  case 0
  then show ?case by (auto simp: wp_def link_inv_less_events split: list.split)
next
  case (Suc n)
  show ?case
  proof (cases "bl_events s = [] \<and> fst (host_poll H (bl_host s)) \<noteq> None")
    case True
    then obtain event h where "bl_events s = []" "host_poll H (bl_host s) = (Some event, h)"
      by (metis not_None_eq prod.collapse)
    then have eq: "poll_loop C H (Suc n) s = bnd (handle_host_event C H event) (\<lambda>_. poll_loop C H n) (s\<lparr>bl_host := h\<rparr>)"
      by simp
    show ?thesis
      unfolding wp_same [of "poll_loop C H (Suc n)" s "bnd (handle_host_event C H event) (\<lambda>_. poll_loop C H n)" "s\<lparr>bl_host := h\<rparr>", OF eq] wp_bnd
      by (rule wp_mono [OF keeps_host_event [of C F]]) (simp_all add: Suc)
  next
    case False
    then show ?thesis
      using Suc.prems by (auto simp: wp_def link_inv_less_events split: list.split option.split prod.split)
  qed
qed

lemma link_inv_expire: "link_inv C F s \<Longrightarrow> link_inv C F (expire_repair C H s)"
  by (auto simp: expire_repair_def Let_def split: option.split)

lemma keeps_link_poll: "link_inv C F s \<Longrightarrow> wp (link_poll C H) (\<lambda>_. link_inv C F) (\<lambda>_ _. False) s"
  unfolding link_poll_def by (auto simp: wps link_inv_expire intro!: keeps_poll_loop)

lemma link_inv_shutdown: "link_inv C F s \<Longrightarrow> link_inv C F (link_shutdown C H s)"
  by (simp add: link_shutdown_def Let_def)

lemma link_inv_new:
  assumes "ble_link_new C h cfg = Inr s"
  shows "link_inv C F s"
proof -
  have "u32_try_from n = Some k \<Longrightarrow> unat k = n" for n k
    by (auto simp: u32_try_from_def unsigned_of_nat take_bit_nat_eq_self split: if_splits)
  then show ?thesis
    using assms by (auto simp: ble_link_new_def Let_def make_lane_profile_def link_inv_def transport_event_capacity_def
        split: sum.splits option.splits if_splits)
qed

lemma returned_keeps: "keeps P m s \<Longrightarrow> P (snd (returned (m s)))"
  by (auto simp: wp_def returned_def split: prod.splits sum.splits fault.splits)

text \<open>The commands of a call, and of the runs that forget nothing outside \<open>F\<close>.\<close>

fun call_forgets_in where
  "call_forgets_in F (Command c) = forgets_in F c"
| "call_forgets_in F _ = True"

lemma transport_keeps:
  assumes inv: "link_inv C F s"
  shows "link_inv C F (snd (start (ble_link_transport C H) s))"
    and "forgets_in F c \<Longrightarrow> link_inv C F (snd (handle_command (ble_link_transport C H) c s))"
    and "link_inv C F (snd (send_realtime (ble_link_transport C H) m s))"
    and "link_inv C F (snd (poll_event (ble_link_transport C H) s))"
    and "link_inv C F (shutdown (ble_link_transport C H) s)"
proof -
  show "link_inv C F (snd (start (ble_link_transport C H) s))"
    using inv by (simp add: ble_link_transport_def link_start_def returned_keeps wps)
  show "forgets_in F c \<Longrightarrow> link_inv C F (snd (handle_command (ble_link_transport C H) c s))"
    using keeps_link_command [OF inv, of c H] by (simp add: ble_link_transport_def returned_keeps)
  show "link_inv C F (snd (send_realtime (ble_link_transport C H) m s))"
    using only_sends_keeps [OF only_sends_realtime [of C H m] inv]
    by (simp add: ble_link_transport_def returned_keeps)
  show "link_inv C F (snd (poll_event (ble_link_transport C H) s))"
    using keeps_link_poll [OF inv, of H]
    by (auto simp: ble_link_transport_def wp_def returned_def split: prod.splits sum.splits fault.splits)
  show "link_inv C F (shutdown (ble_link_transport C H) s)"
    using inv by (simp add: ble_link_transport_def link_inv_shutdown)
qed

lemma forgets_in_UNIV: "forgets_in UNIV c"
  by (simp add: forgets_in_def split: bridge_command.split)

interpretation ble_leg: transport_contract "ble_link_transport C H" "link_inv C UNIV"
  by unfold_locales (simp_all add: transport_keeps forgets_in_UNIV)

lemma link_inv_step:
  "link_inv C F s \<Longrightarrow> call_forgets_in F call \<Longrightarrow> link_inv C F (transport_step (ble_link_transport C H) call s)"
  by (cases call) (simp_all add: transport_keeps)

lemma link_inv_run:
  "link_inv C F s \<Longrightarrow> list_all (call_forgets_in F) calls \<Longrightarrow>
   link_inv C F (run (transport_step (ble_link_transport C H)) calls s)"
  by (induction calls arbitrary: s) (simp_all add: link_inv_step)

text \<open>A reachable state keeps the invariant for the boards its commands forgot.\<close>

lemma link_inv_reachable:
  assumes "ble_link_new C h cfg = Inr s"
  shows "link_inv C {board. Command (ForgetBoard board) \<in> set calls} (run (transport_step (ble_link_transport C H)) calls s)"
proof (rule link_inv_run [OF link_inv_new [OF assms]])
  have "call_forgets_in {board. Command (ForgetBoard board) \<in> set calls} call" if "call \<in> set calls" for call
    by (cases call) (use that in \<open>auto simp: forgets_in_def split: bridge_command.split\<close>)
  then show "list_all (call_forgets_in {board. Command (ForgetBoard board) \<in> set calls}) calls"
    by (simp add: list_all_iff)
qed

section \<open>Properties\<close>

text \<open>C19: No session without trust. Whatever the host reports and the board sends, and in whatever order commands
  arrive, a handshake or a session exists only while the link holds the hello of a board whose identity is trusted, or
  was until a command of the run forgot that very identity. The hello need not be of the present connection: the link
  also starts from one that a failed connection left (\<open>failed_hello_outlives_connection\<close>).\<close>

theorem session_needs_trust:
  assumes "ble_link_new C h cfg = Inr s0"
  shows "let s = run (transport_step (ble_link_transport C H)) calls s0 in
           bl_pending s = None \<and> bl_codec s = None \<or>
           (\<exists>hello. bl_remote_hello s = Some hello \<and>
              (hello_identity hello \<in> bl_trusted s \<or> Command (ForgetBoard (hello_identity hello)) \<in> set calls))"
  using link_inv_reachable [OF assms, of calls H] unfolding link_inv_def Let_def by blast

text \<open>C21: The link in every reachable state. The event queue is within its bound; lanes are open only on a session
  whose board's profile none of the checks refuses, with a frame limit within both sides' limits; a repair
  that is open or waits for its confirmation has a deadline and belongs to a session, and an acknowledgement
  in flight belongs to an open repair. No command and no poll panics.\<close>

theorem ble_link_invariant:
  assumes "ble_link_new C h cfg = Inr s0"
  shows "let s = run (transport_step (ble_link_transport C H)) calls s0 in
           length (bl_events s) \<le> 256 \<and>
           (\<forall>p. bl_remote_lane_profile s = Some p \<longrightarrow>
              bl_codec s \<noteq> None \<and> profile_refusal C (bl_local_profile s) (bl_local_lane_profile s) p = None \<and>
              bl_negotiated_repair_frame_bytes s \<le> unat (max_repair_frame_bytes p)) \<and>
           bl_negotiated_repair_frame_bytes s \<le> unat (max_repair_frame_bytes (bl_local_lane_profile s)) \<and>
           (bl_repair_deadline s = None \<longleftrightarrow> bl_repair_close s = None \<and> bl_repair_awaiting_confirmation s = None) \<and>
           (bl_repair_deadline s = None \<or> bl_codec s \<noteq> None) \<and>
           (bl_repair_ack_write s = None \<or> bl_repair_close s \<noteq> None) \<and>
           fst (link_command C H c s) \<noteq> Inl Panic \<and> fst (link_poll C H s) \<noteq> Inl Panic"
proof -
  define s where "s = run (transport_step (ble_link_transport C H)) calls s0"
  have inv: "link_inv C UNIV s"
    unfolding s_def by (rule ble_leg.tinv_run) (rule link_inv_new [OF assms])
  have "fst (link_command C H c s) \<noteq> Inl Panic"
    using keepsD [OF keeps_link_command [OF inv forgets_in_UNIV, of H c]] by blast
  moreover have "fst (link_poll C H s) \<noteq> Inl Panic"
    using keeps_link_poll [OF inv, of H] by (auto simp: wp_def)
  ultimately show ?thesis
    using inv unfolding s_def [symmetric] Let_def link_inv_def transport_event_capacity_def by blast
qed

lemma events_publish: "bl_events (publish e s) \<noteq> []"
  by (simp add: publish_def Let_def)

lemma publish_keeps_last: "bl_events s = xs @ [x] \<Longrightarrow> x \<in> set (bl_events (publish e s))"
  by (cases xs) (simp_all add: publish_def Let_def transport_event_capacity_def)

lemma fail_announced: "BoardLink Failed \<in> set (bl_events (link_fail C H m s))"
proof -
  have "\<exists>xs. bl_events (publish (BoardLink Failed) t) = xs @ [BoardLink Failed]" for t
    by (simp add: publish_def Let_def)
  then show ?thesis by (auto simp: link_fail_def Let_def intro: publish_keeps_last)
qed

lemma poll_loop_queued:
  "bl_events s \<noteq> [] \<Longrightarrow> poll_loop C H n s = (Inr (Some (hd (bl_events s))), s\<lparr>bl_events := tl (bl_events s)\<rparr>)"
  by (cases n) (auto split: list.split)

lemma poll_expired:
  assumes "bl_repair_deadline s = Some d" and "d \<le> clock C (bl_clock_reads s)"
    and poll: "poll_event (ble_link_transport C H) s = (e, t)"
  shows "bl_codec t = None \<and> bl_repair_close t = None \<and> bl_repair_awaiting_confirmation t = None \<and>
    \<not> bl_link_connected t \<and> bl_desired_address t = None \<and> BoardLink Failed \<in> set_option e \<union> set (bl_events t)"
proof -
  have "\<exists>m u. expire_repair C H s = link_fail C H m u"
    by (simp add: expire_repair_def assms Let_def) (intro exI, rule refl)
  then obtain m u where u: "expire_repair C H s = link_fail C H m u" by blast
  define v where "v = link_fail C H m u"
  have fields: "bl_codec v = None" "bl_repair_close v = None" "bl_repair_awaiting_confirmation v = None"
      "\<not> bl_link_connected v" "bl_desired_address v = None"
    by (simp_all add: v_def link_fail_def Let_def)
  have failed: "BoardLink Failed \<in> set (bl_events v)" unfolding v_def by (rule fail_announced)
  then have queued: "bl_events v \<noteq> []" by auto
  have "link_poll C H s =
      (if bl_dropped_events v \<noteq> 0
       then (Inr (Some (Diagnostic (''BLE transport event queue dropped '' @ decimal (unat (bl_dropped_events v)) @ '' values''))),
             v\<lparr>bl_dropped_events := 0\<rparr>)
       else (Inr (Some (hd (bl_events v))), v\<lparr>bl_events := tl (bl_events v)\<rparr>))"
    by (simp add: link_poll_def andthen_def bnd_def modify_def gets_def ret_def u v_def [symmetric] poll_loop_queued [OF queued])
  then have "if bl_dropped_events v \<noteq> 0 then e \<noteq> None \<and> t = v\<lparr>bl_dropped_events := 0\<rparr>
      else e = Some (hd (bl_events v)) \<and> t = v\<lparr>bl_events := tl (bl_events v)\<rparr>"
    using poll by (auto simp: ble_link_transport_def returned_def split: if_splits)
  moreover obtain x xs where "bl_events v = x # xs" using queued by (cases "bl_events v") simp_all
  ultimately show ?thesis using fields failed by (auto split: if_splits)
qed

text \<open>C22: A repair cannot hang. In every reachable state a repair that is open or waits for its confirmation has a
  deadline, and the first poll at or after the deadline ends the session and the repair, gives up the
  connection, and announces the failed link.\<close>

theorem repair_expires:
  assumes "ble_link_new C h cfg = Inr s0"
  shows "let T = ble_link_transport C H; s = run (transport_step T) calls s0; (e, t) = poll_event T s in
           bl_repair_close s = None \<and> bl_repair_awaiting_confirmation s = None \<or>
           (\<exists>deadline. bl_repair_deadline s = Some deadline \<and>
              (clock C (bl_clock_reads s) < deadline \<or>
               bl_codec t = None \<and> bl_repair_close t = None \<and> bl_repair_awaiting_confirmation t = None \<and>
               \<not> bl_link_connected t \<and> bl_desired_address t = None \<and>
               BoardLink Failed \<in> set_option e \<union> set (bl_events t)))"
proof -
  define s where "s = run (transport_step (ble_link_transport C H)) calls s0"
  have inv: "link_inv C UNIV s"
    unfolding s_def by (rule ble_leg.tinv_run) (rule link_inv_new [OF assms])
  show ?thesis
  proof (cases "bl_repair_deadline s")
    case None
    then have "bl_repair_close s = None \<and> bl_repair_awaiting_confirmation s = None"
      using inv unfolding link_inv_def by metis
    then show ?thesis unfolding s_def [symmetric] Let_def by (simp split: prod.split)
  next
    case (Some deadline)
    then show ?thesis
      unfolding s_def [symmetric] Let_def by (auto simp: not_less split: prod.split dest: poll_expired [OF Some])
  qed
qed

lemma repair_lane_open:
  "send_authenticated_tracked C H HhhsRepair payload s = (Inr a, t) \<Longrightarrow> bl_remote_lane_profile s \<noteq> None"
  by (auto simp: send_authenticated_tracked_def send_authenticated_tracked_with_priority_def oks)


text \<open>A host that takes every write.\<close>

definition accepts_writes where
  "accepts_writes C H \<longleftrightarrow>
     (\<forall>m h. fst (write_rx_message H m h) = Inr ()) \<and> (\<forall>i wire n. \<exists>c. cur_new (cursors (session C)) i wire n = Inr c)"

lemma sending_succeeds:
  assumes "accepts_writes C H" and "bl_remote_hello s \<noteq> None"
  shows "\<exists>t. send_wire C H wire prio s = (Inr (), t) \<and> sends s t"
proof -
  have "\<exists>t. send_wire C H wire prio s = (Inr (), t)"
    using assms by (auto simp: send_wire_def send_wire_tracked_def on_host_def accepts_writes_def write_message_new_def
        bnd_def andthen_def gets_def modify_def lift_result_def ok_or_def on_part_def ret_def split: sum.split prod.split option.split)
      (metis Inl_Inr_False fst_conv sum.distinct(1))+
  then obtain t where "send_wire C H wire prio s = (Inr (), t)" by blast
  moreover from this have "sends s t"
    using only_sends_wire_untracked [of C H wire prio, unfolded only_sends_def wp_def, rule_format, of s] by simp
  ultimately show ?thesis by blast
qed

text \<open>Trusting a board again restarts its session. While a session with a trusted board is up, \<open>TrustBoard\<close> for
  that board changes nothing, as the code means it to. After \<open>ForgetBoard\<close>, which leaves the session running,
  the same \<open>TrustBoard\<close> begins a second handshake beside the session: the next message of the board is taken
  for the answer to it, and unless it is one the session ends.\<close>

theorem forget_then_trust_restarts:
  assumes "bl_remote_hello s = Some hello" and "hello_identity hello \<in> bl_trusted s" and "bl_codec s = Some codec"
    and "bl_pending s = None" and "bl_link_connected s"
    and "hello_supports (handshake C) hello (capability_realtime (limits C))" and "accepts_writes C H"
  shows "let T = ble_link_transport C H; trust = Command (TrustBoard (hello_identity hello));
             t = run (transport_step T) [Command (ForgetBoard (hello_identity hello)), trust] s in
           transport_step T trust s = s \<and>
           bl_codec t \<noteq> None \<and> bl_pending t \<noteq> None \<and>
           (\<forall>wire. (\<exists>e. decode_answer (handshake C) wire = Inl e) \<longrightarrow>
              bl_codec (snd (or_fail C H (handle_wire C H wire) t)) = None)"
proof -
  let ?T = "ble_link_transport C H"
  define board where "board = hello_identity hello"
  define s1 where "s1 = publish_trusted (s\<lparr>bl_trusted := bl_trusted s - {board}\<rparr>)"
  define s2 where "s2 = publish_trusted (s1\<lparr>bl_trusted := insert board (bl_trusted s1), bl_trust_candidate := None\<rparr>)"
  have same: "transport_step ?T (Command (TrustBoard board)) s = s"
    using assms by (simp add: board_def ble_link_transport_def link_command_def trust_board_def trust_known_board_def
        bnd_def andthen_def gets_def refuse_def ret_def returned_def)
  have forgotten: "transport_step ?T (Command (ForgetBoard board)) s = s1"
    by (simp add: ble_link_transport_def link_command_def forget_board_def modify_def returned_def s1_def)
  have fields: "bl_remote_hello s2 = Some hello" "bl_link_connected s2" "bl_codec s2 = Some codec" "board \<notin> bl_trusted s1"
      "bl_remote_hello s1 = Some hello" "bl_link_connected s1"
    using assms by (simp_all add: s1_def s2_def publish_trusted_def)
  obtain t1 where t1: "send_wire C H (hello_encode (handshake C) (bl_local_hello s2)) Ble_Tx.Control s2 = (Inr (), t1)" "sends s2 t1"
    using sending_succeeds [OF assms(7), of s2] fields(1) by blast
  obtain i offer where begun: "initiator_begin (handshake C) (bl_signing_key t1)
        (channel_binding (handshake C) (bl_local_hello s2) hello) (random C (bl_draws t1)) (random C (Suc (bl_draws t1))) = (i, offer)"
    by fastforce
  define t2 where "t2 = t1\<lparr>bl_draws := bl_draws t1 + 2, bl_pending := Some i\<rparr>"
  have "bl_remote_hello t2 \<noteq> None" using fields(1) sends_fields(2) [OF t1(2)] by (simp add: t2_def)
  then obtain t3 where t3: "send_wire C H (encode_offer (handshake C) offer) Ble_Tx.Control t2 = (Inr (), t3)" "sends t2 t3"
    using sending_succeeds [OF assms(7)] by blast
  define t where "t = publish (BoardLink Authenticating) t3"
  have "begin_authentication C H s2 = (Inr (), t)"
    using fields assms(6) t1(1) t3(1) begun
    by (simp add: begin_authentication_def bnd_def andthen_def gets_def refuse_def ret_def ok_or_def modify_def t2_def t_def)
  then have trusted: "transport_step ?T (Command (TrustBoard board)) s1 = t"
    using fields by (simp add: ble_link_transport_def link_command_def trust_board_def bnd_def andthen_def gets_def
        refuse_def ret_def modify_def returned_def board_def [symmetric] s2_def [symmetric])
  have session: "bl_codec t \<noteq> None" "bl_pending t = Some i" "bl_remote_hello t = Some hello"
    using fields sends_fields [OF t1(2)] sends_fields [OF t3(2)] by (simp_all add: t_def t2_def)
  have "bl_codec (snd (or_fail C H (handle_wire C H wire) t)) = None" if "decode_answer (handshake C) wire = Inl e" for wire e
    using that session(2,3) by (simp add: or_fail_def handle_wire_def bnd_def andthen_def gets_def modify_def ok_or_def
        lift_result_def ret_def throw_def link_fail_def Let_def)
  with same forgotten trusted session show ?thesis
    unfolding Let_def board_def [symmetric] by auto
qed

text \<open>A refused connection is silent. When the host refuses to connect to another board, the session that was up
  is gone and the command fails, but no link event is published: whoever follows the events still takes the
  board of before for connected.\<close>

theorem refused_connect_is_silent:
  assumes "bl_desired_address s \<noteq> Some address" and "connect H address (bl_host s) = (Inl e, h)"
  shows "let (result, t) = handle_command (ble_link_transport C H) (ConnectBoard address) s in
           result = Inl (ble_error e) \<and> bl_codec t = None \<and> \<not> bl_link_connected t \<and> \<not> bl_connect_pending t \<and>
           bl_events t = bl_events s"
  using assms by (simp add: ble_link_transport_def link_command_def connect_board_def bnd_def andthen_def gets_def modify_def
      throw_def returned_def reset_session_def)

text \<open>A failed link keeps the hello it has read, and the next connection starts from it, although it was not read from
  the board of that connection: the reset of a new link preserves a hello that may have come early, and a failure does
  not clear it.\<close>

theorem failed_hello_outlives_connection:
  assumes "bl_remote_hello s = Some hello" and "min_fragment_value_bytes (limits C) \<le> value_bytes"
  shows "\<exists>t. handle_connected C H value_bytes (link_fail C H message s) = continue_after_hello C H hello t \<and>
           bl_remote_hello t = Some hello \<and> bl_link_connected t \<and> bl_trusted t = bl_trusted s"
proof -
  define u where "u = link_fail C H message s"
  have "bl_remote_hello u = Some hello" "bl_trusted u = bl_trusted s"
    using assms(1) by (simp_all add: u_def link_fail_def Let_def)
  then show ?thesis
    using linorder_not_less [THEN iffD2, OF assms(2)] unfolding u_def [symmetric]
    by (simp add: handle_connected_def bnd_def andthen_def gets_def modify_def refuse_def ret_def)
      (intro exI conjI, rule refl, simp_all add: reset_session_def)
qed

section \<open>A small link\<close>

text \<open>A host that reports what its list holds and takes every write; on it a board says hello, answers the
  handshake and agrees to the profile.\<close>

definition list_host :: "ble_host_event list ble_host" where
  "list_host =
     \<lparr>start_scan = (\<lambda>h. (Inr (), h)), stop_scan = (\<lambda>h. (Inr (), h)),
      connect = (\<lambda>a h. if a = BleAddress ''gone'' then (Inl (Operation ''no such device''), h) else (Inr (), h)),
      disconnect = (\<lambda>h. (Inr (), h)), write_rx_message = (\<lambda>m h. (Inr (), h)),
      host_poll = (\<lambda>h. case h of [] \<Rightarrow> (None, []) | e # es \<Rightarrow> (Some e, es))\<rparr>"

definition small_constants :: ble_constants where
  "small_constants =
     \<lparr>hard_max_payload_bytes = 100, hard_max_wire_bytes = 100, default_max_payload_bytes = 50,
      min_fragment_value_bytes = 20, complete_wire_ceiling = Some, capability_realtime = 1, capability_hhhs_repair = 2,
      walkie_profile = \<lparr>music_generation = 1, music_vocabulary_generation = 1, hhhs_strategy_version = 1,
        hhhs_repair_generation = 1, room_generation = 1, capabilities = 7\<rparr>,
      profile_cap_realtime = 1, other_caps = \<lparr>cap_music = 2, cap_hhhs_repair = 4, cap_walkie_extension = 8\<rparr>,
      wire_generation = 1, realtime_generation = (\<lambda>_. 1), with_realtime_generation = (\<lambda>c _. c),
      vocabulary_record_bytes = 10\<rparr>"

definition small_lane :: lane_profile where
  "small_lane =
     \<lparr>lp_music_generation = 1, lp_music_vocabulary_generation = 1, max_replica_record_bytes = 10,
      lp_hhhs_strategy_version = 1, lp_hhhs_repair_generation = 1, application_generation = 1, lp_capabilities = 7,
      max_authenticated_payload_bytes = 40, max_repair_frame_bytes = 30\<rparr>"

type_synonym 'f tiny_tutti = "(bytes, unit, u64, unit, unit, unit, unit, unit, unit, unit, 'f) tutti"

definition tiny_tutti :: "'f tiny_tutti" where
  "tiny_tutti =
     \<lparr>random = (\<lambda>n. [of_nat n]), clock = (\<lambda>n. 20000 * n), limits = small_constants,
      handshake =
        \<lparr>hello_supports = (\<lambda>_ _. True), hello_encode = hello_identity,
         hello_decode = (\<lambda>bs. Inr \<lparr>hello_identity = bs, hello_boot_nonce = 0, max_fragment_value_bytes = 20, hello_capabilities = 3\<rparr>),
         boot_nonce_of = (\<lambda>_. 0), signing_key_from = id, identity_from = id, channel_binding = (\<lambda>_ _. []),
         initiator_begin = (\<lambda>_ _ _ _. ((), [])), encode_offer = id,
         decode_answer = (\<lambda>bs. if bs = [9] then Inr bs else Inl ''malformed answer''),
         initiator_complete = (\<lambda>_ _ _. Inr [])\<rparr>,
      session =
        \<lparr>codec_new = (\<lambda>_ _. Inr 5), session_id = id, encode_with_sequence = (\<lambda>l bs c. (Inr (0, bs), c)),
         codec_decode = (\<lambda>bs c. case bs of [] \<Rightarrow> (Inl ''empty'', c)
           | b # bs' \<Rightarrow> (Inr (if b = 0 then Control else if b = 1 then Realtime else HhhsRepair, 0, bs'), c)),
         restrict_max_payload_bytes = (\<lambda>_ c. (Inr (), c)), budget_new = (\<lambda>_ _ _. Inr ()), with_budget = (\<lambda>_. Inr ()),
         restrict_budget = (\<lambda>_ r. (Inr (), r)), reassembler_push = (\<lambda>bs r. (Inr (Some bs), r)), reassembler_reset = id,
         cursors = \<lparr>cur_new = (\<lambda>_ _ _. Inr ()), cur_next = (\<lambda>c. (Inr None, c)), cur_complete = (\<lambda>_. True)\<rparr>,
         bundle_receiver = Inr, digest_of = id\<rparr>,
      closing =
        \<lparr>repair_attempt_id = (\<lambda>_ bs. bs), close_new = (\<lambda>_. ()), observe_local_repair = (\<lambda>_ c. (Inr (), c)),
         observe_remote_repair = (\<lambda>_ c. (Inr (), c)), mark_local_terminal = id, local_fin_pending = (\<lambda>_. False),
         local_fin = Inr, observe_local_fin_encoded = (\<lambda>_ c. (Inr (), c)), observe_remote_fin = (\<lambda>_ _ c. (Inr (), c)),
         observe_local_fin_ack = (\<lambda>_ c. (Inr (), c)), remote_ack_pending = (\<lambda>_. False), remote_ack = Inr,
         observe_remote_ack_encoded = (\<lambda>_ c. (Inr (), c)), confirm_remote_ack_sent = (\<lambda>_ c. (Inr (), c)),
         is_confirmed_closed = (\<lambda>_. False)\<rparr>,
      frames =
        \<lparr>encode_control_profile = (\<lambda>_. []), encode_control_capability_bundle = Inr, encode_control_repair_fin = (\<lambda>_. []),
         encode_control_repair_ack = (\<lambda>_. []), decode_control_frame = (\<lambda>_. Inr (Profile small_lane)),
         realtime_encode = (\<lambda>_. Inr []), realtime_decode = (\<lambda>_. Inr (MidiFrame ())),
         from_normalized = (\<lambda>_ _ _ _ _. Inr ()), mf_voice_id = (\<lambda>_. 0), mf_channel = (\<lambda>_. 0), mf_note = (\<lambda>_. 60),
         mf_kind = (\<lambda>_. NoteOn), normalized_value = (\<lambda>_. 0)\<rparr>\<rparr>"

definition small_tutti :: "unit tiny_tutti" where
  "small_tutti = tiny_tutti"

definition small_config :: ble_link_config where
  "small_config = config_walkie small_tutti [3] [[7]]"

type_synonym ('f, 's) link_of_small =
  "(ble_host_event list, bytes, unit, u64, unit, unit, ('f, 's, peer_hello) transport_event) ble_link"
type_synonym small_link = "(unit, unit) link_of_small"

definition tiny_start :: "('f, 's) link_of_small" where
  "tiny_start =
     \<lparr>bl_host = [Connected (BleAddress ''board'') 20, Info [7], Notification [9], Notification [0]],
      bl_events = [], bl_trusted = {[7]}, bl_signing_key = [3],
      bl_local_hello = \<lparr>hello_identity = [3], hello_boot_nonce = 0, max_fragment_value_bytes = 20, hello_capabilities = 3\<rparr>,
      bl_local_profile = walkie_profile small_constants,
      bl_local_lane_profile = small_lane\<lparr>max_authenticated_payload_bytes := 50, max_repair_frame_bytes := 50\<rparr>,
      bl_remote_hello = None, bl_trust_candidate = None, bl_remote_lane_profile = None, bl_pending_provisioning = None,
      bl_pending = None, bl_codec = None, bl_reassembler = (), bl_negotiated_repair_frame_bytes = 50,
      bl_repair_close = None, bl_repair_ack_write = None, bl_repair_awaiting_confirmation = None,
      bl_repair_deadline = None, bl_next_message_id = 0, bl_dropped_events = 0, bl_desired_address = None,
      bl_scan_requested = False, bl_connect_pending = False, bl_link_connected = False, bl_draws = 1,
      bl_clock_reads = 0\<rparr>"

definition small_start :: small_link where
  "small_start = tiny_start"

text \<open>What the small instance computes, selector by selector.\<close>

lemma small_selectors [simp]:
  "random small_tutti n = [of_nat n]" "clock small_tutti n = 20000 * n" "limits small_tutti = small_constants"
  "hello_supports (handshake small_tutti) h capability" "hello_encode (handshake small_tutti) = hello_identity"
  "hello_decode (handshake small_tutti) bs =
     Inr \<lparr>hello_identity = bs, hello_boot_nonce = 0, max_fragment_value_bytes = 20, hello_capabilities = 3\<rparr>"
  "boot_nonce_of (handshake small_tutti) bs = 0" "signing_key_from (handshake small_tutti) = id"
  "identity_from (handshake small_tutti) = id" "initiator_begin (handshake small_tutti) a b c d = ((), [])"
  "encode_offer (handshake small_tutti) = id"
  "decode_answer (handshake small_tutti) bs = (if bs = [9] then Inr bs else Inl ''malformed answer'')"
  "initiator_complete (handshake small_tutti) x y z = Inr []"
  by (simp_all add: small_tutti_def tiny_tutti_def)

lemma small_session_selectors [simp]:
  "codec_new (session small_tutti) ks n = Inr 5" "session_id (session small_tutti) = id"
  "encode_with_sequence (session small_tutti) l bs c = (Inr (0, bs), c)"
  "codec_decode (session small_tutti) [] c = (Inl ''empty'', c)"
  "codec_decode (session small_tutti) (b # bs) c =
     (Inr (if b = 0 then Control else if b = 1 then Realtime else HhhsRepair, 0, bs), c)"
  "restrict_max_payload_bytes (session small_tutti) n c = (Inr (), c)" "budget_new (session small_tutti) a k d = Inr ()"
  "with_budget (session small_tutti) u = Inr ()" "restrict_budget (session small_tutti) u r = (Inr (), r)"
  "reassembler_push (session small_tutti) bs r = (Inr (Some bs), r)" "reassembler_reset (session small_tutti) = id"
  "cur_new (cursors (session small_tutti)) i w n = Inr ()"
  "decode_control_frame (frames small_tutti) bs = Inr (Profile small_lane)"
  "repair_attempt_id (closing small_tutti) sid bs = bs" "close_new (closing small_tutti) bs = ()"
  "observe_local_repair (closing small_tutti) q v = (Inr (), v)"
  by (simp_all add: small_tutti_def tiny_tutti_def)

lemma list_host_selectors [simp]:
  "connect list_host (BleAddress ''board'') h = (Inr (), h)"
  "connect list_host (BleAddress ''gone'') h = (Inl (Operation ''no such device''), h)"
  "disconnect list_host h = (Inr (), h)" "write_rx_message list_host m h = (Inr (), h)"
  "host_poll list_host [] = (None, [])" "host_poll list_host (e # es) = (Some e, es)"
  by (simp_all add: list_host_def)

lemma tiny_start_new:
  "ble_link_new tiny_tutti [Connected (BleAddress ''board'') 20, Info [7], Notification [9], Notification [0]] small_config =
     Inr tiny_start"
  by (simp add: ble_link_new_def config_validate_def small_config_def config_walkie_def make_lane_profile_def
      u32_try_from_def small_constants_def small_lane_def tiny_start_def tiny_tutti_def small_tutti_def Let_def)

lemma small_link_new:
  "ble_link_new small_tutti [Connected (BleAddress ''board'') 20, Info [7], Notification [9], Notification [0]] small_config =
     Inr small_start"
  unfolding small_tutti_def small_start_def by (rule tiny_start_new)

definition small_binding :: board_session_binding where
  "small_binding = \<lparr>bs_identity = [7], bs_boot_nonce = 0, bs_session_id = 5\<rparr>"

definition small_calls :: "(unit, unit, unit) bridge_command transport_call list" where
  "small_calls = [Start, Command (ConnectBoard (BleAddress ''board'')), Poll, Poll, Poll, Poll, Poll, Poll, Poll]"

definition small_run :: "(unit, unit, unit) bridge_command transport_call list \<Rightarrow> small_link \<Rightarrow> small_link" where
  "small_run = run (transport_step (ble_link_transport small_tutti list_host))"

definition small_session :: small_link where
  "small_session = small_run small_calls small_start"

lemmas eff_evals = bnd_def andthen_def gets_def modify_def refuse_def lift_result_def ok_or_def expect_def ret_def throw_def
  on_part_def returned_def

lemmas link_evals = ble_link_transport_def link_start_def link_command_def connect_board_def link_poll_def expire_repair_def
  publish_trusted_def trusted_count_def publish_def transport_event_capacity_def reset_session_def

text \<open>A poll that hands out a queued event, and one that takes an event of the host.\<close>

lemma poll_queued:
  "bl_repair_deadline s = None \<Longrightarrow> bl_dropped_events s = 0 \<Longrightarrow> bl_events s = e # es \<Longrightarrow>
   transport_step (ble_link_transport C H) Poll s = s\<lparr>bl_events := es\<rparr>"
  by (simp add: ble_link_transport_def link_poll_def expire_repair_def eff_evals poll_loop_queued)

lemma poll_host:
  assumes "bl_repair_deadline s = None" and "bl_dropped_events s = 0" and "bl_events s = []"
    and "host_poll H (bl_host s) = (Some event, h)"
    and "handle_host_event C H event (s\<lparr>bl_host := h\<rparr>) = (Inr (), t)" and "bl_events t = e # es"
  shows "transport_step (ble_link_transport C H) Poll s = t\<lparr>bl_events := es\<rparr>"
proof -
  obtain n where "poll_budget = Suc n" by (simp add: poll_budget_def numeral_eq_Suc)
  then have budget: "poll_loop C H poll_budget s = (Inr (Some e), t\<lparr>bl_events := es\<rparr>)"
    by (rule ssubst) (simp add: assms bnd_def poll_loop_queued)
  show ?thesis
    by (simp add: ble_link_transport_def link_poll_def expire_repair_def eff_evals assms(1,2) budget)
qed

definition small_s2 :: small_link where
  "small_s2 = small_start\<lparr>bl_desired_address := Some (BleAddress ''board''), bl_connect_pending := True\<rparr>"

definition small_s3 :: small_link where
  "small_s3 = small_start\<lparr>bl_host := [Info [7], Notification [9], Notification [0]],
     bl_desired_address := Some (BleAddress ''board''), bl_link_connected := True\<rparr>"

definition small_s4 :: small_link where
  "small_s4 = small_s3\<lparr>bl_host := [Notification [9], Notification [0]],
     bl_remote_hello := Some \<lparr>hello_identity = [7], hello_boot_nonce = 0, max_fragment_value_bytes = 20, hello_capabilities = 3\<rparr>,
     bl_pending := Some (), bl_next_message_id := 2, bl_draws := 3\<rparr>"

definition small_s5 :: small_link where
  "small_s5 = small_s4\<lparr>bl_host := [Notification [0]], bl_pending := None, bl_codec := Some 5, bl_next_message_id := 3\<rparr>"

definition small_s6 :: small_link where
  "small_s6 = small_s5\<lparr>bl_host := [], bl_negotiated_repair_frame_bytes := 30, bl_remote_lane_profile := Some small_lane\<rparr>"

abbreviation small_step :: "(unit, unit, unit) bridge_command transport_call \<Rightarrow> small_link \<Rightarrow> small_link" where
  "small_step \<equiv> transport_step (ble_link_transport small_tutti list_host)"

lemma small_step1: "small_step Start small_start = small_start\<lparr>bl_events := [TrustedBoards 1]\<rparr>"
  by (simp add: small_start_def tiny_start_def ble_link_transport_def link_start_def publish_trusted_def trusted_count_def publish_def
      transport_event_capacity_def eff_evals)

lemma small_step2:
  "small_step (Command (ConnectBoard (BleAddress ''board''))) (small_start\<lparr>bl_events := [TrustedBoards 1]\<rparr>) =
     small_s2\<lparr>bl_events := [TrustedBoards 1, BoardLink Connecting]\<rparr>"
  by (simp add: small_start_def tiny_start_def small_s2_def small_lane_def ble_link_transport_def link_command_def connect_board_def
      publish_def transport_event_capacity_def reset_session_def eff_evals)

lemma small_clean:
  "bl_repair_deadline small_s2 = None" "bl_dropped_events small_s2 = 0" "bl_events small_s2 = []"
  "bl_repair_deadline small_s3 = None" "bl_dropped_events small_s3 = 0" "bl_events small_s3 = []"
  "bl_repair_deadline small_s4 = None" "bl_dropped_events small_s4 = 0" "bl_events small_s4 = []"
  "bl_repair_deadline small_s5 = None" "bl_dropped_events small_s5 = 0" "bl_events small_s5 = []"
  "bl_repair_deadline small_s6 = None" "bl_dropped_events small_s6 = 0" "bl_events small_s6 = []"
  by (simp_all add: small_s2_def small_s3_def small_s4_def small_s5_def small_s6_def small_start_def tiny_start_def)

lemmas host_evals = handle_host_event_def or_fail_def host_event_result_def publish_def transport_event_capacity_def

lemmas small_states = small_s2_def small_s3_def small_s4_def small_s5_def small_s6_def small_start_def tiny_start_def

lemma small_drained: "small_s2\<lparr>bl_events := []\<rparr> = small_s2" "small_s6\<lparr>bl_events := []\<rparr> = small_s6"
  by (simp_all add: small_states)

lemma small_poll3: "small_step Poll small_s2 = small_s3"
proof -
  have "handle_host_event small_tutti list_host (Connected (BleAddress ''board'') 20)
      (small_s2\<lparr>bl_host := [Info [7], Notification [9], Notification [0]]\<rparr>) =
      (Inr (), small_s3\<lparr>bl_events := [BoardLink Authenticating]\<rparr>)"
    by (simp add: host_evals handle_connected_def eff_evals reset_session_def small_states small_lane_def small_constants_def)
  from poll_host [OF _ _ _ _ this] show ?thesis by (simp add: small_states del: transport_step.simps)
qed

lemmas send_evals = send_wire_def send_wire_tracked_def on_host_def write_message_new_def send_authenticated_def
  send_authenticated_tracked_def send_authenticated_tracked_with_priority_def on_codec_def

lemma small_poll4: "small_step Poll small_s3 = small_s4"
proof -
  have "handle_host_event small_tutti list_host (Info [7]) (small_s3\<lparr>bl_host := [Notification [9], Notification [0]]\<rparr>) =
      (Inr (), small_s4\<lparr>bl_events := [BoardLink Authenticating]\<rparr>)"
    by (simp add: host_evals handle_info_def continue_after_hello_def begin_authentication_def send_evals eff_evals small_states)
  from poll_host [OF _ _ _ _ this] show ?thesis by (simp add: small_states del: transport_step.simps)
qed

lemma small_poll5: "small_step Poll small_s4 = small_s5"
proof -
  have "handle_host_event small_tutti list_host (Notification [9]) (small_s4\<lparr>bl_host := [Notification [0]]\<rparr>) =
      (Inr (), small_s5\<lparr>bl_events := [BoardLink Repairing]\<rparr>)"
    by (simp add: host_evals handle_notification_def handle_wire_def send_evals eff_evals small_states)
  from poll_host [OF _ _ _ _ this] show ?thesis by (simp add: small_states del: transport_step.simps)
qed

lemma small_poll6:
  "small_step Poll small_s5 = small_s6\<lparr>bl_events := [BoardProvisioningRequired small_binding]\<rparr>"
proof -
  have "handle_host_event small_tutti list_host (Notification [0]) (small_s5\<lparr>bl_host := []\<rparr>) =
      (Inr (), small_s6\<lparr>bl_events := [RemoteProfile (profile_of small_lane), BoardProvisioningRequired small_binding]\<rparr>)"
    by (simp add: host_evals handle_notification_def handle_wire_def handle_remote_control_def handle_remote_profile_def
        profile_refusal_def check_compatible_def both_have_def profile_of_def small_lane_def small_constants_def
        current_board_binding_def small_binding_def Let_def send_evals eff_evals small_states)
  from poll_host [OF _ _ _ _ this] show ?thesis by (simp add: small_states del: transport_step.simps)
qed

lemma small_session_up: "small_session = small_s6"
  by (simp add: small_session_def small_run_def small_calls_def small_step1 small_step2 small_poll3 small_poll4 small_poll5
      small_poll6 poll_queued small_clean small_drained del: transport_step.simps)

lemma small_session_run:
  "run (transport_step (ble_link_transport small_tutti list_host)) small_calls small_start = small_s6"
  using small_session_up by (simp add: small_session_def small_run_def)

theorem session_needs_trust_witness:
  "bl_codec small_s6 = Some 5 \<and>
   (\<exists>hello. bl_remote_hello small_s6 = Some hello \<and>
      (hello_identity hello \<in> bl_trusted small_s6 \<or> Command (ForgetBoard (hello_identity hello)) \<in> set small_calls))"
  using session_needs_trust [OF small_link_new, of list_host small_calls] unfolding small_session_run
  by (simp add: small_states)

theorem ble_link_invariant_witness:
  "bl_remote_lane_profile small_s6 = Some small_lane \<and>
   profile_refusal small_tutti (bl_local_profile small_s6) (bl_local_lane_profile small_s6) small_lane = None \<and>
   fst (link_command small_tutti list_host (AbortBoardRepair small_binding) small_s6) \<noteq> Inl Panic"
proof -
  have "bl_remote_lane_profile small_s6 = Some small_lane" by (simp add: small_s6_def)
  then show ?thesis
    using ble_link_invariant [OF small_link_new, of list_host small_calls "AbortBoardRepair small_binding"]
    unfolding small_session_run Let_def by blast
qed

text \<open>On the open session the room begins a repair; the deadline is the clock at its first frame and thirty seconds.\<close>

definition small_repair :: small_link where
  "small_repair = small_step (Command (SendBoardRepairFrame small_binding [1])) small_s6"

lemma small_repair:
  "send_board_repair_frame small_tutti list_host small_binding [1] small_s6 = (Inr (), small_repair) \<and>
   bl_repair_close small_repair = Some (small_binding, ()) \<and> bl_repair_deadline small_repair = Some 30000"
  by (simp add: small_repair_def ble_link_transport_def link_command_def send_board_repair_frame_def open_repair_def on_close_def
      repair_close_timeout_def publish_def transport_event_capacity_def current_board_binding_def small_binding_def
      send_evals eff_evals small_states)


theorem repair_expires_witness:
  "let (e, t) = poll_event (ble_link_transport small_tutti list_host :: (small_link, (unit, unit, unit) bridge_command, _) bridge_transport) small_repair in
     \<exists>deadline. bl_repair_deadline small_repair = Some deadline \<and>
       (clock small_tutti (bl_clock_reads small_repair) < deadline \<or> BoardLink Failed \<in> set_option e \<union> set (bl_events t))"
proof -
  have "run (transport_step (ble_link_transport small_tutti list_host))
      (small_calls @ [Command (SendBoardRepairFrame small_binding [1])]) small_start = small_repair"
    using small_session_run by (simp add: run_def small_repair_def del: transport_step.simps)
  then show ?thesis
    using repair_expires [OF small_link_new, of list_host "small_calls @ [Command (SendBoardRepairFrame small_binding [1])]"]
      small_repair by (auto simp: Let_def)
qed

definition small_hello :: peer_hello where
  "small_hello = \<lparr>hello_identity = [7], hello_boot_nonce = 0, max_fragment_value_bytes = 20, hello_capabilities = 3\<rparr>"

theorem forget_then_trust_restarts_witness:
  "let T = ble_link_transport small_tutti list_host; trust = Command (TrustBoard (hello_identity small_hello));
       t = run (transport_step T) [Command (ForgetBoard (hello_identity small_hello)), trust] small_s6 in
     transport_step T trust small_s6 = small_s6 \<and> bl_codec t \<noteq> None \<and> bl_pending t \<noteq> None \<and>
     (\<forall>wire. (\<exists>e. decode_answer (handshake small_tutti) wire = Inl e) \<longrightarrow>
        bl_codec (snd (or_fail small_tutti list_host (handle_wire small_tutti list_host wire) t)) = None)"
  by (rule forget_then_trust_restarts [where codec = 5])
     (simp_all add: small_hello_def small_states accepts_writes_def)

theorem failed_hello_outlives_connection_witness:
  "bl_remote_hello small_s6 = Some small_hello \<and>
   (\<exists>t. handle_connected small_tutti list_host 20 (link_fail small_tutti list_host ''cut'' small_s6) =
      continue_after_hello small_tutti list_host small_hello t \<and> bl_remote_hello t = Some small_hello)"
proof -
  have hello: "bl_remote_hello small_s6 = Some small_hello" by (simp add: small_hello_def small_states)
  moreover have "min_fragment_value_bytes (limits small_tutti) \<le> 20" by (simp add: small_states small_constants_def)
  ultimately show ?thesis using failed_hello_outlives_connection by blast
qed

theorem refused_connect_is_silent_witness:
  "bl_codec small_s6 = Some 5 \<and>
   (let (result, t) = handle_command (ble_link_transport small_tutti list_host) (ConnectBoard (BleAddress ''gone'')) small_s6 in
     result = Inl (ble_error (Operation ''no such device'')) \<and> bl_codec t = None \<and> \<not> bl_link_connected t \<and>
     \<not> bl_connect_pending t \<and> bl_events t = bl_events small_s6)"
  by (intro conjI, simp add: small_states) (rule refused_connect_is_silent [where h = "[]"], simp_all add: small_states)

end
