(* ===== verification/Composite_Legs.thy ===== *)
theory Composite_Legs
  imports Composite Ble_Session
begin

text \<open>
  The composite transport over legs with contracts of their own: whatever each leg keeps, the composite
  keeps for it, since it changes a leg only through the leg's methods. The locale extends the contract of a
  transport by a second leg, and gives the contract of the composite (\<open>sublocale\<close>). It is interpreted for a
  board reached by the BLE link of \<open>Ble_Link\<close> and any room leg.
\<close>

definition legs_ok :: "('r \<Rightarrow> bool) \<Rightarrow> ('b \<Rightarrow> bool) \<Rightarrow> ('r, 'b, 'ev) composite_transport \<Rightarrow> bool" where
  "legs_ok rinv binv t \<longleftrightarrow> rinv (room t) \<and> binv (board t)"

lemma legs_ok_fields [simp]:
  "legs_ok rinv binv (t\<lparr>composite_transport.pending := es\<rparr>) = legs_ok rinv binv t"
  "legs_ok rinv binv (t\<lparr>poll_room_first := x\<rparr>) = legs_ok rinv binv t"
  "legs_ok rinv binv (t\<lparr>room_ready := x\<rparr>) = legs_ok rinv binv t"
  "legs_ok rinv binv (t\<lparr>board_binding := bd\<rparr>) = legs_ok rinv binv t"
  "legs_ok rinv binv (t\<lparr>provisioning_requested := bd\<rparr>) = legs_ok rinv binv t"
  by (simp_all add: legs_ok_def)

lemma legs_ok_push [simp]:
  "legs_ok rinv binv (push_pending e t) = legs_ok rinv binv t"
  "legs_ok rinv binv (diagnostic leg x t) = legs_ok rinv binv t"
  "legs_ok rinv binv (start_failed kind x t) = legs_ok rinv binv t"
  by (simp_all add: legs_ok_def push_pending_def start_failed_def)

locale composite_legs = rleg: transport_contract R rinv + bleg: transport_contract B binv
  for R :: "('r, ('f, 'c, 'p) bridge_command, ('f, 's, 'h) transport_event) bridge_transport"
    and rinv :: "'r \<Rightarrow> bool"
    and B :: "('b, ('f, 'c, 'p) bridge_command, ('f, 's, 'h) transport_event) bridge_transport"
    and binv :: "'b \<Rightarrow> bool"
begin

lemma legs_commands:
  assumes "legs_ok rinv binv t"
  shows "legs_ok rinv binv (snd (room_command R c t))" and "legs_ok rinv binv (snd (board_command B c t))"
  using assms rleg.keeps_command [of "room t" c] bleg.keeps_command [of "board t" c]
  by (auto simp: legs_ok_def room_command_def board_command_def split: prod.splits)

lemma legs_command_results:
  "legs_ok rinv binv t \<Longrightarrow> room_command R c t = (res, t') \<Longrightarrow> legs_ok rinv binv t'"
  "legs_ok rinv binv t \<Longrightarrow> board_command B c t = (res, t') \<Longrightarrow> legs_ok rinv binv t'"
  using legs_commands [of t c] by simp_all

lemma legs_request: "legs_ok rinv binv t \<Longrightarrow> legs_ok rinv binv (request_board_provisioning R t)"
  by (auto simp: request_board_provisioning_def dest: legs_command_results(1) split: option.splits prod.splits)

lemma legs_fence: "legs_ok rinv binv t \<Longrightarrow> legs_ok rinv binv (fence_board_repair R B b leg e t)"
  by (simp add: fence_board_repair_def legs_commands)

lemma legs_if_current:
  assumes "legs_ok rinv binv t" and "\<And>t. legs_ok rinv binv t \<Longrightarrow> legs_ok rinv binv (snd (call t))"
    and "\<And>e t. legs_ok rinv binv t \<Longrightarrow> legs_ok rinv binv (failed e t)"
  shows "legs_ok rinv binv (if_current b call failed t)"
  using assms(1) assms(2) [OF assms(1)] assms(3) by (auto simp: if_current_def split: prod.splits option.splits)

lemma legs_realtime:
  "legs_ok rinv binv t \<Longrightarrow> send_realtime R m (room t) = (res, r) \<Longrightarrow> legs_ok rinv binv (t\<lparr>room := r\<rparr>)"
  "legs_ok rinv binv t \<Longrightarrow> send_realtime B m (board t) = (res, b) \<Longrightarrow> legs_ok rinv binv (t\<lparr>board := b\<rparr>)"
  using rleg.keeps_realtime [of "room t" m] bleg.keeps_realtime [of "board t" m] by (simp_all add: legs_ok_def)

lemma legs_route_room: "legs_ok rinv binv t \<Longrightarrow> legs_ok rinv binv (snd (route_room_event R B e t))"
  by (cases e)
    (auto simp: route_room_event_def Let_def legs_commands legs_fence
      intro!: legs_request legs_if_current dest: legs_realtime split: prod.splits sum.splits)

lemma legs_route_board: "legs_ok rinv binv t \<Longrightarrow> legs_ok rinv binv (snd (route_board_event R B e t))"
  by (cases e)
    (auto simp: route_board_event_def Let_def legs_commands legs_fence
      intro!: legs_request legs_if_current legs_fence dest: legs_realtime legs_command_results
      split: prod.splits sum.splits option.splits)

lemma legs_poll:
  assumes "legs_ok rinv binv t"
  shows "legs_ok rinv binv (snd (composite_poll_event R B t))"
proof (cases "composite_transport.pending t")
  case Nil
  obtain res t' where polled: "poll_legs R B t = (res, t')" by fastforce
  have "legs_ok rinv binv t'"
    using polled assms rleg.keeps_poll [of "room t"] bleg.keeps_poll [of "board t"]
    by (auto simp: poll_legs_def legs_ok_def split: if_splits prod.splits option.splits)
  then show ?thesis
    using Nil polled by (auto simp: composite_poll_event_def Let_def case_prod_unfold legs_route_room legs_route_board
        split: option.splits)
qed (use assms in \<open>simp add: composite_poll_event_def\<close>)

lemma legs_start: "legs_ok rinv binv t \<Longrightarrow> legs_ok rinv binv (snd (composite_start R B t))"
  using rleg.keeps_start [of "room t"] bleg.keeps_start [of "board t"]
  by (auto simp: composite_start_def Let_def legs_ok_def start_failed_def push_pending_def split: prod.splits sum.splits)

lemma legs_calls:
  assumes "legs_ok rinv binv t"
  shows "legs_ok rinv binv (snd (composite_handle_command R B c t))"
    and "legs_ok rinv binv (snd (composite_send_realtime R B m t))"
    and "legs_ok rinv binv (composite_shutdown R B t)"
  using assms rleg.keeps_command [of "room t" c] bleg.keeps_command [of "board t" c]
    rleg.keeps_realtime [of "room t" m] bleg.keeps_realtime [of "board t" m]
    rleg.keeps_shutdown [of "room t"] bleg.keeps_shutdown [of "board t"]
  by (auto simp: legs_ok_def composite_handle_command_def composite_send_realtime_def composite_shutdown_def
      split: prod.splits)

lemma both_contract: "transport_contract (composite_ops R B) (\<lambda>t. composite_inv t \<and> legs_ok rinv binv t)"
  by unfold_locales
    (simp_all add: composite_ops_def legs_start legs_calls legs_poll composite_inv_start composite_inv_calls composite_inv_poll)

end

sublocale composite_legs \<subseteq> both: transport_contract "composite_ops R B" "\<lambda>t. composite_inv t \<and> legs_ok rinv binv t"
  by (rule both_contract)

section \<open>The BLE link as a leg\<close>

text \<open>The leg whose methods may panic: the panic unwinds the thread, so no later call finds a link (\<open>None\<close>). Beside
  \<open>ble_link_transport\<close>, where a panic is an error of the one call, it shows in the state whether any call ever panicked.\<close>

definition leg_call ::
  "'r \<Rightarrow> ('l \<Rightarrow> (bridge_error fault + 'a) \<times> 'l) \<Rightarrow> (bridge_error \<Rightarrow> 'r) \<Rightarrow> ('a \<Rightarrow> 'r) \<Rightarrow> 'l option \<Rightarrow> 'r \<times> 'l option" where
  "leg_call unwound call failed returned_with leg =
     (case leg of
        None \<Rightarrow> (unwound, None)
      | Some link \<Rightarrow>
          (case call link of
             (Inr a, link') \<Rightarrow> (returned_with a, Some link')
           | (Inl (Err e), link') \<Rightarrow> (failed e, Some link')
           | (Inl Panic, _) \<Rightarrow> (unwound, None)))"

definition ble_leg_transport where
  "ble_leg_transport C H =
     \<lparr>start = leg_call (Inl (Transport ''panic'')) link_start Inl Inr,
      handle_command = (\<lambda>c. leg_call (Inl (Transport ''panic'')) (link_command C H c) Inl Inr),
      send_realtime = (\<lambda>m. leg_call (Inl (Transport ''panic'')) (link_realtime C H m) Inl Inr),
      poll_event = leg_call None (link_poll C H) (\<lambda>_. None) (\<lambda>e. e),
      shutdown = map_option (link_shutdown C H)\<rparr>"

text \<open>No call has panicked, and the link is in its invariant.\<close>

definition leg_alive where
  "leg_alive C leg \<longleftrightarrow> (\<exists>link. leg = Some link \<and> link_inv C UNIV link)"

lemma leg_call_alive:
  assumes "leg_alive C leg" and "\<And>link. link_inv C UNIV link \<Longrightarrow> keeps (link_inv C UNIV) call link"
  shows "leg_alive C (snd (leg_call unwound call failed returned_with leg))"
proof -
  obtain link where link: "leg = Some link" "link_inv C UNIV link" using assms(1) by (auto simp: leg_alive_def)
  then show ?thesis
    using keepsD [OF assms(2) [OF link(2)]]
    by (cases "call link") (auto simp: leg_call_def leg_alive_def split: sum.splits fault.splits)
qed

lemma leg_keeps:
  assumes alive: "leg_alive C leg"
  shows "leg_alive C (snd (start (ble_leg_transport C H) leg))"
    and "leg_alive C (snd (handle_command (ble_leg_transport C H) c leg))"
    and "leg_alive C (snd (send_realtime (ble_leg_transport C H) m leg))"
    and "leg_alive C (snd (poll_event (ble_leg_transport C H) leg))"
    and "leg_alive C (shutdown (ble_leg_transport C H) leg)"
proof -
  show "leg_alive C (snd (start (ble_leg_transport C H) leg))"
    unfolding ble_leg_transport_def bridge_transport.simps
    by (rule leg_call_alive [OF alive]) (use ble_leg.keeps_start in \<open>simp add: link_start_def wps ble_link_transport_def returned_def modify_def\<close>)
  show "leg_alive C (snd (handle_command (ble_leg_transport C H) c leg))"
    unfolding ble_leg_transport_def bridge_transport.simps
    by (rule leg_call_alive [OF alive keeps_link_command [OF _ forgets_in_UNIV]])
  show "leg_alive C (snd (send_realtime (ble_leg_transport C H) m leg))"
    unfolding ble_leg_transport_def bridge_transport.simps
    by (rule leg_call_alive [OF alive only_sends_keeps [OF only_sends_realtime]])
  show "leg_alive C (snd (poll_event (ble_leg_transport C H) leg))"
    unfolding ble_leg_transport_def bridge_transport.simps
    by (rule leg_call_alive [OF alive], rule wp_mono [OF keeps_link_poll]) simp_all
  show "leg_alive C (shutdown (ble_leg_transport C H) leg)"
    using alive by (auto simp: ble_leg_transport_def leg_alive_def link_inv_shutdown)
qed

lemma ble_leg_contract: "transport_contract (ble_leg_transport C H) (leg_alive C)"
  by unfold_locales (simp_all add: leg_keeps)

text \<open>The bridge of the application: the board leg is the BLE link, the room leg any transport.\<close>

lemma beside_ble: "composite_legs R (\<lambda>_. True) (ble_leg_transport C H) (leg_alive C)"
  by (rule composite_legs.intro [OF _ ble_leg_contract]) (unfold_locales, simp_all)

interpretation ble_composite: composite_legs R "\<lambda>_. True" "ble_leg_transport C H" "leg_alive C"
  by (rule beside_ble)

end
