(* ===== verification/Pitch_State.thy ===== *)
theory Pitch_State
  imports Bridge_Types
begin

text \<open>
  \<open>src/src/bridge/mod.rs\<close>, the pitch state of the bridge worker: held host keys, pending pitch intents,
  the confirmed room set, the board target, and the notes sent to the host.

  What is used of crates \<open>tutti_music\<close> and \<open>tutti_roundtable\<close> is the parameter record \<open>music\<close>: the
  twelve-tone tuning, degrees and their indices, rounding to a MIDI note, patterns and
  configurations. The bounded queues of crate \<open>crossbeam_queue\<close> are the parameter \<open>queue_ops\<close>, which
  behaves as a bounded first-in first-out queue (\<open>fifo\<close>). \<open>Instant::now()\<close> is the parameter \<open>now\<close>, in
  milliseconds. An outer \<open>None\<close> is a panic.
\<close>

section \<open>Parameters\<close>

record ('t, 'x) tuned =
  tuning_id :: 't
  tuned_item :: 'x

text \<open>\<open>TunedPeriodicPitch\<close> and \<open>TunedDegree\<close>; a shared set has members of both kinds.\<close>

type_synonym ('t, 'p) tuned_pitch = "('t, 'p) tuned"
type_synonym ('t, 'd) tuned_degree = "('t, 'd) tuned"

record ('t, 'p, 'd) shared_pitch_set =
  pitch_classes :: "('t, 'd) tuned_degree set"
  pitches :: "('t, 'p) tuned_pitch set"

record ('t, 'p, 'd, 'pat, 'cfg) music =
  twelve_id :: 't
  periodic_pitch_for_midi :: "u8 \<Rightarrow> 'p option"
  degree :: "'p \<Rightarrow> 'd"
  degree_index :: "'d \<Rightarrow> u16"
  rounded_midi :: "'p \<Rightarrow> nat option"
  cleared_pattern :: 'pat
  toggled :: "'pat \<Rightarrow> u8 \<Rightarrow> 'pat option"
  pattern_contains :: "'pat \<Rightarrow> u8 \<Rightarrow> bool"
  pattern_of :: "'cfg \<Rightarrow> 'pat"
  with_pattern :: "'pat \<Rightarrow> 'cfg \<Rightarrow> 'cfg"
  default_config :: 'cfg

text \<open>\<open>rounded_midi\<close> is \<open>Some n\<close> when the rounded fractional note is in \<open>0.0..=127.0\<close>.\<close>

record ('q, 'a) queue_ops =
  push :: "'a \<Rightarrow> 'q \<Rightarrow> bool \<times> 'q"
  pop :: "'q \<Rightarrow> 'a option \<times> 'q"

definition fifo :: "('q, 'a) queue_ops \<Rightarrow> ('q \<Rightarrow> 'a list) \<Rightarrow> nat \<Rightarrow> bool" where
  "fifo Q items cap \<longleftrightarrow>
     (\<forall>x q. length (items q) \<le> cap \<longrightarrow>
        (if length (items q) < cap then fst (push Q x q) \<and> items (snd (push Q x q)) = items q @ [x]
         else \<not> fst (push Q x q) \<and> items (snd (push Q x q)) = items q)) \<and>
     (\<forall>q. case items q of
            [] \<Rightarrow> fst (pop Q q) = None \<and> items (snd (pop Q q)) = []
          | x # xs \<Rightarrow> fst (pop Q q) = Some x \<and> items (snd (pop Q q)) = xs)"

section \<open>State\<close>

datatype pitch_intent_source = Host | Board

record pending_pitch_intent =
  pi_active :: bool
  pi_token :: u64
  pi_source :: pitch_intent_source

record ('t, 'p, 'd, 'cfg) bridge_pitch_state =
  board_confirmed :: "'cfg option"
  board_target :: "'cfg option"
  board_retry_at :: "nat option"
  board_snapshot_revision :: "u64 option"
  host_held :: "u64 list"
  pending_classes :: "('t, 'd) tuned_degree \<rightharpoonup> pending_pitch_intent"
  next_intent_token :: u64
  shared_room :: "('t, 'p, 'd) shared_pitch_set"
  room_config :: 'cfg
  output_notes :: "bool list"

record ('t, 'p, 'cfg) board_edit_plan =
  plan_settings :: "'cfg option"
  plan_pitch_edits :: "(('t, 'p) tuned_pitch \<times> bool) list"

datatype board_config_observation = ObservedConfirmed | StaleEcho | BoardEdit

definition pitch_state_default :: "('t, 'p, 'd, 'pat, 'cfg) music \<Rightarrow> ('t, 'p, 'd, 'cfg) bridge_pitch_state" where
  "pitch_state_default M =
     \<lparr>board_confirmed = None, board_target = None, board_retry_at = None, board_snapshot_revision = None,
      host_held = [0, 0], pending_classes = Map.empty, next_intent_token = 1,
      shared_room = \<lparr>pitch_classes = {}, pitches = {}\<rparr>, room_config = default_config M,
      output_notes = replicate 128 False\<rparr>"

section \<open>Operations\<close>

definition note_mask :: "nat \<Rightarrow> u64" where
  "note_mask index = push_bit (index mod 64) 1"

definition set_host_held ::
  "u8 \<Rightarrow> bool \<Rightarrow> ('t, 'p, 'd, 'cfg) bridge_pitch_state \<Rightarrow> (bool \<times> ('t, 'p, 'd, 'cfg) bridge_pitch_state) option" where
  "set_host_held note is_held s =
     (let index = unat note; k = index div 64; mask = note_mask index
      in if length (host_held s) \<le> k then None
         else let word = host_held s ! k;
                  word' = (if is_held then or word mask else and word (not mask))
              in Some (and word mask \<noteq> 0, s\<lparr>host_held := (host_held s)[k := word']\<rparr>))"

definition pitch_for_midi ::
  "('t, 'p, 'd, 'pat, 'cfg) music \<Rightarrow> u8 \<Rightarrow> bridge_error + ('t, 'p) tuned_pitch" where
  "pitch_for_midi M note =
     (case periodic_pitch_for_midi M note of
        None \<Rightarrow> Inl (Transport (''MIDI note '' @ decimal (unat note) @ '' is outside the active tuning''))
      | Some p \<Rightarrow> Inr \<lparr>tuning_id = twelve_id M, tuned_item = p\<rparr>)"

definition shared_degree ::
  "('t, 'p, 'd, 'pat, 'cfg) music \<Rightarrow> ('t, 'p) tuned_pitch \<Rightarrow> ('t, 'd) tuned_degree" where
  "shared_degree M pitch = \<lparr>tuning_id = tuning_id pitch, tuned_item = degree M (tuned_item pitch)\<rparr>"

definition set_contains ::
  "('t, 'p, 'd, 'pat, 'cfg) music \<Rightarrow> ('t, 'p, 'd) shared_pitch_set \<Rightarrow> ('t, 'd) tuned_degree \<Rightarrow> bool" where
  "set_contains M shared d \<longleftrightarrow>
     d \<in> pitch_classes shared \<or>
     (\<exists>candidate \<in> pitches shared. tuning_id candidate = tuning_id d \<and> degree M (tuned_item candidate) = tuned_item d)"

definition confirmed_contains_pitch_class ::
  "('t, 'p, 'd, 'pat, 'cfg) music \<Rightarrow> ('t, 'd) tuned_degree \<Rightarrow> ('t, 'p, 'd, 'cfg) bridge_pitch_state \<Rightarrow> bool" where
  "confirmed_contains_pitch_class M d s = set_contains M (shared_room s) d"

definition contains_optimistic_degree ::
  "('t, 'p, 'd, 'pat, 'cfg) music \<Rightarrow> ('t, 'd) tuned_degree \<Rightarrow> ('t, 'p, 'd, 'cfg) bridge_pitch_state \<Rightarrow> bool" where
  "contains_optimistic_degree M d s =
     (case pending_classes s d of
        Some intent \<Rightarrow> pi_active intent
      | None \<Rightarrow> confirmed_contains_pitch_class M d s)"

definition contains_optimistic_pitch_class ::
  "('t, 'p, 'd, 'pat, 'cfg) music \<Rightarrow> ('t, 'p) tuned_pitch \<Rightarrow> ('t, 'p, 'd, 'cfg) bridge_pitch_state \<Rightarrow> bool" where
  "contains_optimistic_pitch_class M pitch s = contains_optimistic_degree M (shared_degree M pitch) s"

definition allocate_intent_token ::
  "('t, 'p, 'd, 'cfg) bridge_pitch_state \<Rightarrow> (bridge_error + u64) \<times> ('t, 'p, 'd, 'cfg) bridge_pitch_state" where
  "allocate_intent_token s =
     (let token = next_intent_token s
      in case checked_succ token of
           None \<Rightarrow> (Inl (Transport ''pitch intent correlation space exhausted''), s)
         | Some n \<Rightarrow> (Inr token, s\<lparr>next_intent_token := n\<rparr>))"

definition track_pitch_intent ::
  "('t, 'p, 'd, 'pat, 'cfg) music \<Rightarrow> u64 \<Rightarrow> pitch_intent_source \<Rightarrow> (('t, 'p) tuned_pitch \<times> bool) list \<Rightarrow>
   ('t, 'p, 'd, 'cfg) bridge_pitch_state \<Rightarrow> ('t, 'p, 'd, 'cfg) bridge_pitch_state" where
  "track_pitch_intent M token source edits s =
     s\<lparr>pending_classes := fold (\<lambda>(pitch, active) m. m(shared_degree M pitch \<mapsto>
          \<lparr>pi_active = active, pi_token = token, pi_source = source\<rparr>)) edits (pending_classes s)\<rparr>"

definition retain_intents ::
  "(('t, 'd) tuned_degree \<Rightarrow> pending_pitch_intent \<Rightarrow> bool) \<Rightarrow>
   ('t, 'p, 'd, 'cfg) bridge_pitch_state \<Rightarrow> ('t, 'p, 'd, 'cfg) bridge_pitch_state" where
  "retain_intents keep s =
     s\<lparr>pending_classes := (\<lambda>d. case pending_classes s d of
         Some i \<Rightarrow> if keep d i then Some i else None | None \<Rightarrow> None)\<rparr>"

definition reject_pitch_intent ::
  "u64 \<Rightarrow> ('t, 'p, 'd, 'cfg) bridge_pitch_state \<Rightarrow> ('t, 'p, 'd, 'cfg) bridge_pitch_state" where
  "reject_pitch_intent token = retain_intents (\<lambda>d i. pi_token i \<noteq> token)"

definition abandon_pitch_intents ::
  "('t, 'p, 'd, 'cfg) bridge_pitch_state \<Rightarrow> ('t, 'p, 'd, 'cfg) bridge_pitch_state" where
  "abandon_pitch_intents s = s\<lparr>pending_classes := Map.empty\<rparr>"

definition abandon_board_pitch_intents ::
  "('t, 'p, 'd, 'cfg) bridge_pitch_state \<Rightarrow> ('t, 'p, 'd, 'cfg) bridge_pitch_state" where
  "abandon_board_pitch_intents = retain_intents (\<lambda>d i. pi_source i \<noteq> Board)"

definition abandon_pitch_intents_through ::
  "u64 \<Rightarrow> ('t, 'p, 'd, 'cfg) bridge_pitch_state \<Rightarrow> ('t, 'p, 'd, 'cfg) bridge_pitch_state" where
  "abandon_pitch_intents_through through = retain_intents (\<lambda>d i. pi_token i > through)"

definition has_pending_pitch_intent :: "('t, 'p, 'd, 'cfg) bridge_pitch_state \<Rightarrow> bool" where
  "has_pending_pitch_intent s \<longleftrightarrow> dom (pending_classes s) \<noteq> {}"

definition apply_confirmed_room ::
  "('t, 'p, 'd, 'pat, 'cfg) music \<Rightarrow> ('t, 'p, 'd) shared_pitch_set \<Rightarrow>
   ('t, 'p, 'd, 'cfg) bridge_pitch_state \<Rightarrow> bool \<times> ('t, 'p, 'd, 'cfg) bridge_pitch_state" where
  "apply_confirmed_room M new_room s =
     (shared_room s \<noteq> new_room,
      retain_intents (\<lambda>d i. set_contains M new_room d \<noteq> pi_active i) (s\<lparr>shared_room := new_room\<rparr>))"

text \<open>Whether a key is held, as the code reads the two words.\<close>

definition key_held :: "('t, 'p, 'd, 'cfg) bridge_pitch_state \<Rightarrow> nat \<Rightarrow> bool" where
  "key_held s index \<longleftrightarrow> and (host_held s ! (index div 64)) (note_mask index) \<noteq> 0"

definition has_held_pitch_class ::
  "('t, 'p, 'd, 'pat, 'cfg) music \<Rightarrow> ('t, 'p) tuned_pitch \<Rightarrow> ('t, 'p, 'd, 'cfg) bridge_pitch_state \<Rightarrow> bool" where
  "has_held_pitch_class M pitch s =
     list_ex (\<lambda>note. key_held s note \<and>
         (case pitch_for_midi M (word_of_nat note) of
            Inr candidate \<Rightarrow> degree M (tuned_item candidate) = degree M (tuned_item pitch)
          | Inl _ \<Rightarrow> False)) [0..<128]"

text \<open>The two loops that set notes of the array, as what ends up set; \<open>48_u16.saturating_add(index)\<close>.\<close>

definition room_midi_notes ::
  "('t, 'p, 'd, 'pat, 'cfg) music \<Rightarrow> ('t, 'p, 'd, 'cfg) bridge_pitch_state \<Rightarrow> bool list" where
  "room_midi_notes M s =
     map (\<lambda>note.
        (\<exists>d \<in> pitch_classes (shared_room s). tuning_id d = twelve_id M \<and>
           min (48 + unat (degree_index M (tuned_item d))) 65535 = note) \<or>
        (\<exists>p \<in> pitches (shared_room s). tuning_id p = twelve_id M \<and> rounded_midi M (tuned_item p) = Some note))
       [0..<128]"

definition board_config ::
  "('t, 'p, 'd, 'pat, 'cfg) music \<Rightarrow> ('t, 'p, 'd, 'cfg) bridge_pitch_state \<Rightarrow> 'cfg" where
  "board_config M s =
     (let notes = room_midi_notes M s;
          pattern = fold (\<lambda>(note, active) pattern.
              if active then (case toggled M pattern (word_of_nat note) of Some q \<Rightarrow> q | None \<Rightarrow> pattern)
              else pattern) (enumerate 0 notes) (cleared_pattern M)
      in with_pattern M pattern (room_config s))"

definition room_pattern ::
  "('t, 'p, 'd, 'pat, 'cfg) music \<Rightarrow> ('t, 'p, 'd, 'cfg) bridge_pitch_state \<Rightarrow> 'pat" where
  "room_pattern M s = pattern_of M (board_config M s)"

definition settings_only :: "('t, 'p, 'd, 'pat, 'cfg) music \<Rightarrow> 'cfg \<Rightarrow> 'cfg" where
  "settings_only M config = with_pattern M (cleared_pattern M) config"

fun plan_edits ::
  "('t, 'p, 'd, 'pat, 'cfg) music \<Rightarrow> 'pat \<Rightarrow> 'pat \<Rightarrow> nat list \<Rightarrow>
   bridge_error + (('t, 'p) tuned_pitch \<times> bool) list" where
  "plan_edits M before after [] = Inr []"
| "plan_edits M before after (pitch_class # cs) =
     (let note = 48 + word_of_nat pitch_class
      in if pattern_contains M before note \<noteq> pattern_contains M after note
         then (case pitch_for_midi M note of
                 Inl e \<Rightarrow> Inl e
               | Inr pitch \<Rightarrow>
                   (case plan_edits M before after cs of
                      Inl e \<Rightarrow> Inl e
                    | Inr edits \<Rightarrow> Inr ((pitch, pattern_contains M after note) # edits)))
         else plan_edits M before after cs)"

definition plan_board_edit ::
  "('t, 'p, 'd, 'pat, 'cfg) music \<Rightarrow> 'cfg \<Rightarrow> ('t, 'p, 'd, 'cfg) bridge_pitch_state \<Rightarrow>
   bridge_error + ('t, 'p, 'cfg) board_edit_plan" where
  "plan_board_edit M config s =
     (let settings = settings_only M config;
          current = settings_only M (room_config s)
      in case plan_edits M (room_pattern M s) (pattern_of M config) [0..<12] of
           Inl e \<Rightarrow> Inl e
         | Inr edits \<Rightarrow>
             Inr \<lparr>plan_settings = (if settings \<noteq> current then Some settings else None),
                  plan_pitch_edits = edits\<rparr>)"

definition stage_board_target ::
  "('t, 'p, 'd, 'pat, 'cfg) music \<Rightarrow> nat \<Rightarrow> ('t, 'p, 'd, 'cfg) bridge_pitch_state \<Rightarrow>
   ('t, 'p, 'd, 'cfg) bridge_pitch_state" where
  "stage_board_target M now s =
     (if has_pending_pitch_intent s then s\<lparr>board_target := None, board_retry_at := None\<rparr>
      else let target = board_config M s
           in if board_confirmed s = Some target \<and> board_target s = None then s
              else s\<lparr>board_target := Some target, board_retry_at := Some now\<rparr>)"

definition board_target_due ::
  "nat \<Rightarrow> ('t, 'p, 'd, 'cfg) bridge_pitch_state \<Rightarrow> 'cfg option \<times> ('t, 'p, 'd, 'cfg) bridge_pitch_state" where
  "board_target_due now s =
     (case board_target s of
        None \<Rightarrow> (None, s)
      | Some target \<Rightarrow>
          if (case board_retry_at s of Some deadline \<Rightarrow> now < deadline | None \<Rightarrow> False) then (None, s)
          else (Some target, s\<lparr>board_retry_at := Some (now + 250)\<rparr>))"

definition observe_board_config ::
  "'cfg \<Rightarrow> ('t, 'p, 'd, 'cfg) bridge_pitch_state \<Rightarrow>
   board_config_observation \<times> ('t, 'p, 'd, 'cfg) bridge_pitch_state" where
  "observe_board_config config s =
     (if board_target s = None \<and> board_confirmed s = Some config then (ObservedConfirmed, s)
      else (BoardEdit, s\<lparr>board_confirmed := Some config, board_target := None, board_retry_at := None\<rparr>))"

definition observe_board_snapshot ::
  "('t, 'p, 'd, 'pat, 'cfg) music \<Rightarrow> nat \<Rightarrow> u64 \<Rightarrow> 'cfg \<Rightarrow> ('t, 'p, 'd, 'cfg) bridge_pitch_state \<Rightarrow>
   board_config_observation \<times> ('t, 'p, 'd, 'cfg) bridge_pitch_state" where
  "observe_board_snapshot M now revision config s =
     (if (case board_snapshot_revision s of Some seen \<Rightarrow> revision \<le> seen | None \<Rightarrow> False) then (StaleEcho, s)
      else let s1 = s\<lparr>board_snapshot_revision := Some revision\<rparr>
           in if board_target s1 = Some config
              then (ObservedConfirmed, s1\<lparr>board_confirmed := Some config, board_target := None, board_retry_at := None\<rparr>)
              else if board_target s1 \<noteq> None then (StaleEcho, s1\<lparr>board_retry_at := Some now\<rparr>)
              else if board_confirmed s1 = Some config then (ObservedConfirmed, s1)
              else (StaleEcho, stage_board_target M now (s1\<lparr>board_confirmed := Some config\<rparr>)))"

section \<open>Host notes\<close>

definition apply_shared_pitch_intent ::
  "('t, 'p, 'd, 'pat, 'cfg) music \<Rightarrow>
   ('tr, ('f, 'cfg, ('t, 'p) tuned_pitch) bridge_command, 'ev) bridge_transport \<Rightarrow>
   ('t, 'p) tuned_pitch \<Rightarrow> bool \<Rightarrow> ('t, 'p, 'd, 'cfg) bridge_pitch_state \<times> 'tr \<Rightarrow>
   (bridge_error + unit) \<times> ('t, 'p, 'd, 'cfg) bridge_pitch_state \<times> 'tr" where
  "apply_shared_pitch_intent M T pitch active st =
     (case st of (s, t) \<Rightarrow>
      case allocate_intent_token s of
        (Inl e, s1) \<Rightarrow> (Inl e, s1, t)
      | (Inr token, s1) \<Rightarrow>
          (case handle_command T (SetSharedPitch token pitch active) t of
             (Inl e, t') \<Rightarrow> (Inl e, s1, t')
           | (Inr _, t') \<Rightarrow> (Inr (), track_pitch_intent M token Host [(pitch, active)] s1, t')))"

definition handle_host_note_release ::
  "('t, 'p, 'd, 'pat, 'cfg) music \<Rightarrow>
   ('tr, ('f, 'cfg, ('t, 'p) tuned_pitch) bridge_command, 'ev) bridge_transport \<Rightarrow>
   midi_input_mode \<Rightarrow> u8 \<Rightarrow> ('t, 'p, 'd, 'cfg) bridge_pitch_state \<times> 'tr \<Rightarrow>
   ((bridge_error + unit) \<times> ('t, 'p, 'd, 'cfg) bridge_pitch_state \<times> 'tr) option" where
  "handle_host_note_release M T mode note st =
     (case st of (s, t) \<Rightarrow>
      case set_host_held note False s of
        None \<Rightarrow> None
      | Some (was_held, s1) \<Rightarrow>
          Some (if mode \<noteq> GateSet \<or> \<not> was_held then (Inr (), s1, t)
                else case pitch_for_midi M note of
                       Inl e \<Rightarrow> (Inl e, s1, t)
                     | Inr pitch \<Rightarrow>
                         if \<not> has_held_pitch_class M pitch s1 \<and> contains_optimistic_pitch_class M pitch s1
                         then apply_shared_pitch_intent M T pitch False (s1, t)
                         else (Inr (), s1, t)))"

definition handle_host_note_on ::
  "('t, 'p, 'd, 'pat, 'cfg) music \<Rightarrow>
   ('tr, ('f, 'cfg, ('t, 'p) tuned_pitch) bridge_command, 'ev) bridge_transport \<Rightarrow>
   midi_input_mode \<Rightarrow> u8 \<Rightarrow> ('t, 'p, 'd, 'cfg) bridge_pitch_state \<times> 'tr \<Rightarrow>
   ((bridge_error + unit) \<times> ('t, 'p, 'd, 'cfg) bridge_pitch_state \<times> 'tr) option" where
  "handle_host_note_on M T mode note st =
     (case st of (s, t) \<Rightarrow>
      case set_host_held note True s of
        None \<Rightarrow> None
      | Some (was_held, s1) \<Rightarrow>
          Some (if was_held then (Inr (), s1, t)
                else case pitch_for_midi M note of
                       Inl e \<Rightarrow> (Inl e, s1, t)
                     | Inr pitch \<Rightarrow>
                         let present = contains_optimistic_pitch_class M pitch s1
                         in case mode of
                              ToggleSet \<Rightarrow> apply_shared_pitch_intent M T pitch (\<not> present) (s1, t)
                            | GateSet \<Rightarrow>
                                if \<not> present then apply_shared_pitch_intent M T pitch True (s1, t)
                                else (Inr (), s1, t)
                            | Perform \<Rightarrow> (Inr (), s1, t)))"

definition should_forward_room_realtime :: "midi_input_mode \<Rightarrow> realtime_midi \<Rightarrow> bool" where
  "should_forward_room_realtime mode event \<longleftrightarrow> mode = Perform \<or> is_release event"

text \<open>\<open>value <= 0.0\<close> on the bits of an \<open>f32\<close>: not a NaN, and zero or negative.\<close>

definition f32_le_zero :: "u32 \<Rightarrow> bool" where
  "f32_le_zero v \<longleftrightarrow> \<not> (and v 0x7fffffff > 0x7f800000) \<and> (v = 0 \<or> bit v 31)"

section \<open>The input queues\<close>

text \<open>One event of \<open>release_in\<close> and one of \<open>realtime_in\<close>, as the worker's two loops handle them; the
  result has the error published as a diagnostic, if any.\<close>

definition handle_release_in ::
  "('t, 'p, 'd, 'pat, 'cfg) music \<Rightarrow>
   ('tr, ('f, 'cfg, ('t, 'p) tuned_pitch) bridge_command, 'ev) bridge_transport \<Rightarrow>
   midi_input_mode \<Rightarrow> realtime_midi \<Rightarrow> ('t, 'p, 'd, 'cfg) bridge_pitch_state \<times> 'tr \<Rightarrow>
   ((bridge_error + unit) \<times> ('t, 'p, 'd, 'cfg) bridge_pitch_state \<times> 'tr) option" where
  "handle_release_in M T mode event st =
     (case st of (s, t) \<Rightarrow>
      if mode = Perform then (case send_realtime T event t of (res, t') \<Rightarrow> Some (res, s, t'))
      else if midi_kind event \<in> {NoteOff, Choke} then handle_host_note_release M T mode (midi_note event) (s, t)
      else (case send_realtime T event t of (res, t') \<Rightarrow> Some (res, s, t')))"

definition handle_realtime_in ::
  "('t, 'p, 'd, 'pat, 'cfg) music \<Rightarrow>
   ('tr, ('f, 'cfg, ('t, 'p) tuned_pitch) bridge_command, 'ev) bridge_transport \<Rightarrow>
   midi_input_mode \<Rightarrow> realtime_midi \<Rightarrow> ('t, 'p, 'd, 'cfg) bridge_pitch_state \<times> 'tr \<Rightarrow>
   ((bridge_error + unit) \<times> ('t, 'p, 'd, 'cfg) bridge_pitch_state \<times> 'tr) option" where
  "handle_realtime_in M T mode event st =
     (case st of (s, t) \<Rightarrow>
      if midi_kind event = NoteOn
      then (if mode = Perform then (case send_realtime T event t of (res, t') \<Rightarrow> Some (res, s, t'))
            else if f32_le_zero (midi_value event) then handle_host_note_release M T mode (midi_note event) (s, t)
            else handle_host_note_on M T mode (midi_note event) (s, t))
      else (case send_realtime T event t of (res, t') \<Rightarrow> Some (res, s, t')))"

text \<open>A loop over the events a queue holds, in order.\<close>

fun drain_in ::
  "('e \<Rightarrow> 'st \<Rightarrow> ((bridge_error + unit) \<times> 'st) option) \<Rightarrow> 'e list \<Rightarrow> 'st \<Rightarrow>
   (bridge_error list \<times> 'st) option" where
  "drain_in handle [] st = Some ([], st)"
| "drain_in handle (e # es) st =
     (case handle e st of
        None \<Rightarrow> None
      | Some (res, st') \<Rightarrow>
          (case drain_in handle es st' of
             None \<Rightarrow> None
           | Some (errors, st'') \<Rightarrow> Some ((case res of Inl x \<Rightarrow> [x] | Inr _ \<Rightarrow> []) @ errors, st'')))"

text \<open>The part of one pass of \<open>run_bridge\<close> that takes host input: all releases, then everything else. The
  atomic input mode is read again for every event, so an event comes with the mode read for it.\<close>

definition host_input_pass ::
  "('t, 'p, 'd, 'pat, 'cfg) music \<Rightarrow>
   ('tr, ('f, 'cfg, ('t, 'p) tuned_pitch) bridge_command, 'ev) bridge_transport \<Rightarrow>
   (midi_input_mode \<times> realtime_midi) list \<Rightarrow> (midi_input_mode \<times> realtime_midi) list \<Rightarrow>
   ('t, 'p, 'd, 'cfg) bridge_pitch_state \<times> 'tr \<Rightarrow>
   (bridge_error list \<times> ('t, 'p, 'd, 'cfg) bridge_pitch_state \<times> 'tr) option" where
  "host_input_pass M T release_in realtime_in st =
     (case drain_in (\<lambda>(mode, e). handle_release_in M T mode e) release_in st of
        None \<Rightarrow> None
      | Some (errors, st') \<Rightarrow>
          (case drain_in (\<lambda>(mode, e). handle_realtime_in M T mode e) realtime_in st' of
             None \<Rightarrow> None
           | Some (errors', st'') \<Rightarrow> Some (errors @ errors', st'')))"

section \<open>Board snapshots\<close>

text \<open>Within one board connection only snapshots touch the revision; the flag says that the snapshot was
  newer than every one before.\<close>

definition take_snapshot ::
  "('t, 'p, 'd, 'pat, 'cfg) music \<Rightarrow> nat \<times> u64 \<times> 'cfg \<Rightarrow> ('t, 'p, 'd, 'cfg) bridge_pitch_state \<Rightarrow>
   bool \<times> ('t, 'p, 'd, 'cfg) bridge_pitch_state" where
  "take_snapshot M m s =
     (case m of (now, revision, config) \<Rightarrow>
        (above (board_snapshot_revision s) revision, snd (observe_board_snapshot M now revision config s)))"

lemma stage_revision [simp]:
  "board_snapshot_revision (stage_board_target M now s) = board_snapshot_revision s"
  by (simp add: stage_board_target_def Let_def)

lemma observe_revision:
  "board_snapshot_revision (snd (observe_board_snapshot M now revision config s)) =
     (if above (board_snapshot_revision s) revision then Some revision else board_snapshot_revision s)"
  by (auto simp: observe_board_snapshot_def above_def Let_def split: option.splits)

interpretation snapshots: monotone_filter "take_snapshot M" board_snapshot_revision "\<lambda>m. fst (snd m)"
  by unfold_locales (auto simp: take_snapshot_def observe_revision split: prod.splits if_splits)

lemma observe_stale:
  "\<not> above (board_snapshot_revision s) revision \<Longrightarrow> observe_board_snapshot M now revision config s = (StaleEcho, s)"
  by (auto simp: observe_board_snapshot_def above_def split: option.splits)

section \<open>Keys\<close>

lemma masked: "and w (note_mask index) \<noteq> 0 \<longleftrightarrow> bit w (index mod 64)"
  by (simp add: note_mask_def push_bit_eq_mult and_exp_eq_0_iff_not_bit)

lemma masked_words:
  "or w (note_mask index) = set_bit (index mod 64) w" "and w (not (note_mask index)) = unset_bit (index mod 64) w"
  by (simp_all add: note_mask_def set_bit_eq_or unset_bit_eq_and_not)

lemma key_held_bit: "key_held s index \<longleftrightarrow> bit (host_held s ! (index div 64)) (index mod 64)"
  by (simp add: key_held_def masked)

text \<open>The two words are a set of keys.\<close>

lemma set_host_held_key:
  assumes "set_host_held note b s = Some (was, s')" and "length (host_held s) = 2"
  shows "was = key_held s (unat note)"
    and "i < 128 \<Longrightarrow> key_held s' i = (if i = unat note then b else key_held s i)"
    and "length (host_held s') = 2"
proof -
  let ?k = "unat note div 64" and ?m = "unat note mod 64"
  have k: "?k < 2" and was: "was = (and (host_held s ! ?k) (note_mask (unat note)) \<noteq> 0)"
    and s': "s' = s\<lparr>host_held := (host_held s)[?k := if b then set_bit ?m (host_held s ! ?k)
               else unset_bit ?m (host_held s ! ?k)]\<rparr>"
    using assms by (auto simp: set_host_held_def Let_def masked_words split: if_splits)
  show "was = key_held s (unat note)" by (simp add: was key_held_def)
  show "length (host_held s') = 2" using assms(2) by (simp add: s')
  show "key_held s' i = (if i = unat note then b else key_held s i)" if "i < 128"
  proof (cases "i div 64 = ?k")
    case False
    then have "i \<noteq> unat note" by auto
    then show ?thesis using False k assms(2) by (auto simp: key_held_bit s')
  next
    case True
    then have "i = unat note \<longleftrightarrow> i mod 64 = ?m" by (metis div_mod_decomp)
    moreover have "i mod 64 < LENGTH(64)" by simp
    ultimately show ?thesis
      using True k assms(2) by (auto simp: key_held_bit s' bit_set_bit_iff bit_unset_bit_iff possible_bit_word)
  qed
qed

lemma set_host_held_other [simp]:
  assumes "set_host_held note b s = Some (was, s')"
  shows "pending_classes s' = pending_classes s" "shared_room s' = shared_room s"
    "next_intent_token s' = next_intent_token s" "output_notes s' = output_notes s"
    "board_target s' = board_target s"
  using assms by (auto simp: set_host_held_def Let_def split: if_splits)

lemma set_host_held_some:
  assumes "length (host_held s) = 2" and "unat note < 128"
  shows "\<exists>s'. set_host_held note b s = Some (key_held s (unat note), s')"
  using assms by (auto simp: set_host_held_def Let_def key_held_def)

lemma optimistic_cong:
  assumes "pending_classes s' = pending_classes s" and "shared_room s' = shared_room s"
  shows "contains_optimistic_pitch_class M pitch s' = contains_optimistic_pitch_class M pitch s"
  using assms by (simp add: contains_optimistic_pitch_class_def contains_optimistic_degree_def
      confirmed_contains_pitch_class_def split: option.splits)

lemma tracked_optimistic:
  "contains_optimistic_pitch_class M pitch (track_pitch_intent M token source [(pitch, active)] s) = active"
  by (simp add: contains_optimistic_pitch_class_def contains_optimistic_degree_def track_pitch_intent_def)

lemma key_held_cong: "host_held s' = host_held s \<Longrightarrow> key_held s' i = key_held s i"
  by (simp add: key_held_def)

text \<open>An accepted intent is the optimistic level at once and leaves the keys alone.\<close>

lemma apply_intent_accepted:
  assumes "checked_succ (next_intent_token s) = Some next"
    and "handle_command T (SetSharedPitch (next_intent_token s) pitch active) t = (Inr u, t')"
  shows "\<exists>s'. apply_shared_pitch_intent M T pitch active (s, t) = (Inr (), s', t') \<and>
           host_held s' = host_held s \<and> contains_optimistic_pitch_class M pitch s' = active"
  using assms by (simp add: apply_shared_pitch_intent_def allocate_intent_token_def Let_def tracked_optimistic)
    (simp add: track_pitch_intent_def)

section \<open>The worker over any transport\<close>

text \<open>The two arrays have their lengths, every pending intent carries a token that was handed out, and
  while an edit made on the board is pending nothing is staged for the board.\<close>

definition pitch_inv :: "('t, 'p, 'd, 'cfg) bridge_pitch_state \<Rightarrow> bool" where
  "pitch_inv s \<longleftrightarrow> length (host_held s) = 2 \<and> length (output_notes s) = 128 \<and>
     (\<forall>i \<in> ran (pending_classes s). pi_token i < next_intent_token s \<and>
        (pi_source i = Board \<longrightarrow> board_target s = None))"

lemma pitch_inv_default: "pitch_inv (pitch_state_default M)"
  by (simp add: pitch_inv_def pitch_state_default_def)

lemma pitch_inv_retain: "pitch_inv s \<Longrightarrow> pitch_inv (retain_intents keep s)"
  by (auto simp: pitch_inv_def retain_intents_def ran_def split: option.splits if_splits)

lemma pitch_inv_apply_room: "pitch_inv s \<Longrightarrow> pitch_inv (snd (apply_confirmed_room M shared s))"
  unfolding apply_confirmed_room_def snd_conv by (rule pitch_inv_retain) (simp add: pitch_inv_def)

lemma pitch_inv_held:
  assumes "pitch_inv s" and "set_host_held note b s = Some (was, s')"
  shows "pitch_inv s'"
proof -
  have "length (host_held s') = 2"
    using set_host_held_key(3) [OF assms(2)] assms(1) by (simp add: pitch_inv_def)
  then show ?thesis
    using assms(1) set_host_held_other [OF assms(2)] by (simp add: pitch_inv_def)
qed

lemma pitch_inv_allocate:
  assumes "pitch_inv s" and "allocate_intent_token s = (res, s')"
  shows "pitch_inv s'" and "res = Inr token \<Longrightarrow> token < next_intent_token s'"
proof -
  have "pitch_inv s' \<and> (res = Inr token \<longrightarrow> token < next_intent_token s')"
  proof (cases "checked_succ (next_intent_token s)")
    case None
    then show ?thesis using assms by (auto simp: allocate_intent_token_def Let_def)
  next
    case (Some n)
    then have s': "s' = s\<lparr>next_intent_token := n\<rparr>" "res = Inr (next_intent_token s)"
      using assms(2) by (auto simp: allocate_intent_token_def Let_def)
    show ?thesis
      using checked_succ_less [OF Some] assms(1) less_trans [OF _ checked_succ_less [OF Some]]
      by (auto simp: pitch_inv_def s')
  qed
  then show "pitch_inv s'" and "res = Inr token \<Longrightarrow> token < next_intent_token s'" by simp_all
qed

lemma pitch_inv_track:
  assumes "pitch_inv s" and "token < next_intent_token s" and "source = Board \<Longrightarrow> board_target s = None"
  shows "pitch_inv (track_pitch_intent M token source edits s)"
proof -
  let ?P = "\<lambda>m. \<forall>i \<in> ran m. pi_token i < next_intent_token s \<and> (pi_source i = Board \<longrightarrow> board_target s = None)"
  let ?f = "\<lambda>(pitch, active) m. m(shared_degree M pitch \<mapsto> \<lparr>pi_active = active, pi_token = token, pi_source = source\<rparr>)"
  have keep: "?P m \<Longrightarrow> ?P (fold ?f edits m)" for m
  proof (induction edits arbitrary: m)
    case (Cons e edits)
    have "?P (?f e m)" using Cons.prems assms(2,3) by (auto simp: ran_def split: prod.splits if_splits)
    from Cons.IH [OF this] show ?case by (simp only: fold_simps)
  qed simp
  show ?thesis using keep [of "pending_classes s"] assms(1) by (simp add: pitch_inv_def track_pitch_intent_def)
qed

text \<open>The worker and its state, over a transport with an invariant. \<open>worker_inv\<close> is the invariant of both.\<close>

definition worker_inv :: "('tr \<Rightarrow> bool) \<Rightarrow> ('t, 'p, 'd, 'cfg) bridge_pitch_state \<times> 'tr \<Rightarrow> bool" where
  "worker_inv tinv st \<longleftrightarrow> pitch_inv (fst st) \<and> tinv (snd st)"

text \<open>A MIDI note of the host is below 128.\<close>

definition note_ok :: "midi_input_mode \<times> realtime_midi \<Rightarrow> bool" where
  "note_ok e \<longleftrightarrow> unat (midi_note (snd e)) < 128"

lemma worker_inv_pair [simp]: "worker_inv tinv (s, t) \<longleftrightarrow> pitch_inv s \<and> tinv t"
  by (simp add: worker_inv_def)

locale host_worker = transport_contract T tinv
  for T :: "('tr, ('f, 'cfg, ('t, 'p) tuned_pitch) bridge_command, 'ev) bridge_transport"
    and tinv :: "'tr \<Rightarrow> bool"
begin

lemma inv_command: "tinv t \<Longrightarrow> handle_command T c t = (res, t') \<Longrightarrow> tinv t'"
  using keeps_command [of t c] by simp

lemma inv_send:
  assumes "worker_inv tinv (s, t)"
  shows "\<exists>res st'. (case send_realtime T m t of (res, t') \<Rightarrow> Some (res, s, t')) = Some (res, st') \<and> worker_inv tinv st'"
  using assms keeps_realtime [of t m] by (cases "send_realtime T m t") simp

lemma inv_intent:
  "worker_inv tinv st \<Longrightarrow> worker_inv tinv (snd (apply_shared_pitch_intent M T pitch active st))"
  by (auto simp: apply_shared_pitch_intent_def worker_inv_def inv_command pitch_inv_allocate(1)
      intro!: pitch_inv_track pitch_inv_allocate(2) split: prod.splits sum.splits)

lemma inv_intent_pair:
  assumes "worker_inv tinv st"
  shows "\<exists>res st'. apply_shared_pitch_intent M T pitch active st = (res, st') \<and> worker_inv tinv st'"
  using inv_intent [OF assms, of M pitch active] by (metis prod.collapse)

lemma held_some:
  assumes "worker_inv tinv (s, t)" and "unat note < 128"
  obtains was s' where "set_host_held note b s = Some (was, s')" and "worker_inv tinv (s', t)"
  using assms set_host_held_some [of s "note" b] pitch_inv_held [of s "note" b]
  by (auto simp: pitch_inv_def)

lemma inv_release:
  assumes "worker_inv tinv st" and "unat note < 128"
  shows "\<exists>res st'. handle_host_note_release M T mode note st = Some (res, st') \<and> worker_inv tinv st'"
proof -
  obtain s t where st: "st = (s, t)" by fastforce
  obtain was s' where h: "set_host_held note False s = Some (was, s')" "worker_inv tinv (s', t)"
    using held_some assms unfolding st by blast
  show ?thesis
    using h inv_intent_pair [OF h(2)] unfolding st
    by (cases "pitch_for_midi M note"; simp add: handle_host_note_release_def; blast)
qed

lemma inv_note_on:
  assumes "worker_inv tinv st" and "unat note < 128"
  shows "\<exists>res st'. handle_host_note_on M T mode note st = Some (res, st') \<and> worker_inv tinv st'"
proof -
  obtain s t where st: "st = (s, t)" by fastforce
  obtain was s' where h: "set_host_held note True s = Some (was, s')" "worker_inv tinv (s', t)"
    using held_some assms unfolding st by blast
  show ?thesis
    using h inv_intent_pair [OF h(2)] unfolding st
    by (cases "pitch_for_midi M note"; cases mode; simp add: handle_host_note_on_def Let_def; blast)
qed

lemma inv_release_in:
  assumes "worker_inv tinv st" and "unat (midi_note e) < 128"
  shows "\<exists>res st'. handle_release_in M T mode e st = Some (res, st') \<and> worker_inv tinv st'"
proof (cases "mode \<noteq> Perform \<and> midi_kind e \<in> {NoteOff, Choke}")
  case True
  then show ?thesis using inv_release [OF assms, of M mode] by (cases st) (auto simp: handle_release_in_def)
next
  case False
  then show ?thesis using inv_send [of "fst st" "snd st" e] assms(1) by (cases st) (auto simp: handle_release_in_def)
qed

lemma inv_realtime_in:
  assumes "worker_inv tinv st" and "unat (midi_note e) < 128"
  shows "\<exists>res st'. handle_realtime_in M T mode e st = Some (res, st') \<and> worker_inv tinv st'"
proof (cases "midi_kind e = NoteOn \<and> mode \<noteq> Perform")
  case True
  then show ?thesis
    using inv_release [OF assms, of M mode] inv_note_on [OF assms, of M mode]
    by (cases st; cases "f32_le_zero (midi_value e)") (simp_all add: handle_realtime_in_def)
next
  case False
  then show ?thesis using inv_send [of "fst st" "snd st" e] assms(1) by (cases st) (simp add: handle_realtime_in_def)
qed

lemma inv_drain:
  assumes "\<And>e st. worker_inv tinv st \<Longrightarrow> ok e \<Longrightarrow> \<exists>res st'. handle e st = Some (res, st') \<and> worker_inv tinv st'"
    and "worker_inv tinv st" and "list_all ok es"
  shows "\<exists>errors st'. drain_in handle es st = Some (errors, st') \<and> worker_inv tinv st'"
  using assms(2,3)
proof (induction es arbitrary: st)
  case (Cons e es)
  obtain res st1 where 1: "handle e st = Some (res, st1)" "worker_inv tinv st1"
    using assms(1) [of st e] Cons.prems by auto
  obtain errors st2 where 2: "drain_in handle es st1 = Some (errors, st2)" "worker_inv tinv st2"
    using Cons.IH [OF 1(2)] Cons.prems by auto
  show ?case using 1 2 by simp
qed simp

lemma inv_input_pass:
  assumes "worker_inv tinv st" and "list_all note_ok (release_in @ realtime_in)"
  shows "\<exists>errors st'. host_input_pass M T release_in realtime_in st = Some (errors, st') \<and> worker_inv tinv st'"
proof -
  have rel: "\<exists>res st'. (case e of (mode, m) \<Rightarrow> handle_release_in M T mode m) st = Some (res, st') \<and> worker_inv tinv st'"
    if "worker_inv tinv st" and "note_ok e" for e st
    using that inv_release_in by (cases e) (simp add: note_ok_def)
  have rt: "\<exists>res st'. (case e of (mode, m) \<Rightarrow> handle_realtime_in M T mode m) st = Some (res, st') \<and> worker_inv tinv st'"
    if "worker_inv tinv st" and "note_ok e" for e st
    using that inv_realtime_in by (cases e) (simp add: note_ok_def)
  obtain errors st1 where 1: "drain_in (\<lambda>(mode, e). handle_release_in M T mode e) release_in st = Some (errors, st1)"
      "worker_inv tinv st1"
    using inv_drain [where handle = "\<lambda>(mode, e). handle_release_in M T mode e" and ok = note_ok and es = release_in,
        OF rel assms(1)] assms(2) by auto
  obtain errors' st2 where 2: "drain_in (\<lambda>(mode, e). handle_realtime_in M T mode e) realtime_in st1 = Some (errors', st2)"
      "worker_inv tinv st2"
    using inv_drain [where handle = "\<lambda>(mode, e). handle_realtime_in M T mode e" and ok = note_ok and es = realtime_in,
        OF rt 1(2)] assms(2) by auto
  show ?thesis using 1 2 by (simp add: host_input_pass_def)
qed

end

section \<open>Properties\<close>

text \<open>Installing a confirmed room never changes what the next gesture is measured against. For
  every pitch class with a pending intent the optimistic answer stays the level that was asked for,
  whether the intent is confirmed and retired or still open; every other class has the confirmed level.\<close>

theorem confirmation_keeps_intents:
  "contains_optimistic_degree M d (snd (apply_confirmed_room M confirmed s)) =
     (case pending_classes s d of Some intent \<Rightarrow> pi_active intent | None \<Rightarrow> set_contains M confirmed d)"
  by (auto simp: contains_optimistic_degree_def apply_confirmed_room_def retain_intents_def
      confirmed_contains_pitch_class_def split: option.splits)

text \<open>Board snapshots are taken in order. After one was taken, a snapshot with the same or an older
  revision is a stale echo and changes nothing, whatever snapshots arrived in between.\<close>

theorem board_snapshot_never_replayed:
  assumes "above (board_snapshot_revision s) revision" and "old \<le> revision"
    and "s' = run (\<lambda>(n, r, c) s. snd (observe_board_snapshot M n r c s)) later
                (snd (observe_board_snapshot M now revision config s))"
  shows "observe_board_snapshot M now' old config' s' = (StaleEcho, s')"
proof -
  have "(\<lambda>m s. snd (take_snapshot M m s)) = (\<lambda>(n, r, c) s. snd (observe_board_snapshot M n r c s))"
    by (auto simp: take_snapshot_def fun_eq_iff)
  then have "\<not> fst (take_snapshot M (now', old, config') s')"
    using snapshots.never_again [of M "(now, revision, config)" s _ "(now', old, config')" later] assms
    by (simp add: take_snapshot_def)
  then show ?thesis by (intro observe_stale) (simp add: take_snapshot_def)
qed

text \<open>A small tuning for concrete runs: pitches are MIDI numbers, patterns and configurations are sets of
  notes.\<close>

definition twelve_tone :: "(unit, u8, u8, u8 set, u8 set) music" where
  "twelve_tone =
     \<lparr>twelve_id = (), periodic_pitch_for_midi = (\<lambda>n. if n < 128 then Some n else None),
      degree = (\<lambda>p. p mod 12), degree_index = (\<lambda>d. ucast d), rounded_midi = (\<lambda>p. Some (unat p)),
      cleared_pattern = {}, toggled = (\<lambda>P n. Some (if n \<in> P then P - {n} else insert n P)),
      pattern_contains = (\<lambda>P n. n \<in> P), pattern_of = (\<lambda>c. c), with_pattern = (\<lambda>P c. P), default_config = {}\<rparr>"

theorem board_snapshot_never_replayed_witness:
  "observe_board_snapshot twelve_tone 9 4 {60}
     (snd (observe_board_snapshot twelve_tone 8 7 {} (snd (observe_board_snapshot twelve_tone 1 5 {61}
        (pitch_state_default twelve_tone))))) =
   (StaleEcho, snd (observe_board_snapshot twelve_tone 8 7 {} (snd (observe_board_snapshot twelve_tone 1 5 {61}
        (pitch_state_default twelve_tone)))))"
  using board_snapshot_never_replayed [of "pitch_state_default twelve_tone" 5 4 _ twelve_tone "[(8, 7, {})]" 1 "{61}" 9 "{60}"]
  by (simp add: pitch_state_default_def above_def)

text \<open>C32: In gate mode a tap whose note-on and note-off reach the worker in the same pass leaves the note
  on. The releases are handled before the note-ons, so the release finds no held key and does nothing, and
  the note-on then marks the key as held and asks for the pitch class, although the player let go.\<close>

theorem tap_within_pass:
  assumes "length (host_held s) = 2" and "unat note < 128" and "\<not> key_held s (unat note)"
    and "pitch_for_midi M note = Inr pitch" and "\<not> contains_optimistic_pitch_class M pitch s"
    and "checked_succ (next_intent_token s) = Some n"
    and "handle_command T (SetSharedPitch (next_intent_token s) pitch True) t = (Inr u, t')"
    and "midi_kind on = NoteOn" and "midi_note on = note" and "\<not> f32_le_zero (midi_value on)"
    and "midi_kind off = NoteOff" and "midi_note off = note"
  shows "\<exists>s'. host_input_pass M T [(GateSet, off)] [(GateSet, on)] (s, t) = Some ([], s', t') \<and>
           key_held s' (unat note) \<and> contains_optimistic_pitch_class M pitch s'"
proof -
  obtain s1 where 1: "set_host_held note False s = Some (False, s1)"
    using set_host_held_some [OF assms(1,2), of False] assms(3) by auto
  note k1 = set_host_held_key [OF 1 assms(1)]
  have h1: "\<not> key_held s1 (unat note)" using k1(2) [of "unat note"] assms(2) by simp
  obtain s2 where 2: "set_host_held note True s1 = Some (False, s2)"
    using set_host_held_some [OF k1(3) assms(2), of True] h1 by auto
  have h2: "key_held s2 (unat note)"
    using set_host_held_key(2) [OF 2 k1(3), of "unat note"] assms(2) by simp
  have tok: "next_intent_token s2 = next_intent_token s" using 1 2 by simp
  have opt: "\<not> contains_optimistic_pitch_class M pitch s2"
    using assms(5) 1 2 by (simp add: optimistic_cong [of s2 s])
  obtain s3 where 3: "apply_shared_pitch_intent M T pitch True (s2, t) = (Inr (), s3, t')"
      "host_held s3 = host_held s2" "contains_optimistic_pitch_class M pitch s3 = True"
    using apply_intent_accepted [of s2 n T pitch True t u t' M] assms(6,7) tok by auto
  have "handle_release_in M T GateSet off (s, t) = Some (Inr (), s1, t)"
    using assms(11,12) 1 by (simp add: handle_release_in_def handle_host_note_release_def)
  moreover have "handle_realtime_in M T GateSet on (s1, t) = Some (Inr (), s3, t')"
    using assms(4,8-10) 2 opt 3(1)
    by (simp add: handle_realtime_in_def handle_host_note_on_def Let_def)
  ultimately show ?thesis
    using h2 3 by (simp add: host_input_pass_def key_held_cong [OF 3(2)])
qed

text \<open>Middle C tapped within one pass, over a transport that accepts every command.\<close>

definition accepting :: "(unit, 'cmd, 'ev) bridge_transport" where
  "accepting = (unavailable_transport :: (unit, 'cmd, 'ev) bridge_transport)
     \<lparr>handle_command := (\<lambda>c t. (Inr (), t)), send_realtime := (\<lambda>e t. (Inr (), t))\<rparr>"

definition edge :: "realtime_midi_kind \<Rightarrow> u32 \<Rightarrow> realtime_midi" where
  "edge kind v = \<lparr>midi_timing = 0, midi_voice_id = 0, midi_channel = 0, midi_note = 60, midi_kind = kind, midi_value = v\<rparr>"

theorem tap_within_pass_witness:
  "\<exists>s'. host_input_pass twelve_tone (accepting :: (unit, (unit, u8 set, (unit, u8) tuned_pitch) bridge_command, unit) bridge_transport)
           [(GateSet, edge NoteOff 0)] [(GateSet, edge NoteOn 0x3f4ccccd)] (pitch_state_default twelve_tone, ()) = Some ([], s', ()) \<and>
         key_held s' 60 \<and> contains_optimistic_pitch_class twelve_tone \<lparr>tuning_id = (), tuned_item = 60\<rparr> s'"
  using tap_within_pass [of "pitch_state_default twelve_tone" 60 twelve_tone "\<lparr>tuning_id = (), tuned_item = 60\<rparr>" 2
      "accepting :: (unit, (unit, u8 set, (unit, u8) tuned_pitch) bridge_command, unit) bridge_transport" "()" "()" "()"
      "edge NoteOn 0x3f4ccccd" "edge NoteOff 0"]
  by (simp add: pitch_state_default_def key_held_def pitch_for_midi_def twelve_tone_def accepting_def edge_def
      contains_optimistic_pitch_class_def contains_optimistic_degree_def confirmed_contains_pitch_class_def
      set_contains_def checked_succ_def f32_le_zero_def)

end
