(* ===== verification/Host_Output.thy ===== *)
theory Host_Output
  imports Pitch_State
begin

text \<open>
  \<open>src/src/bridge/mod.rs\<close>, the output side: \<open>reconcile_host_output\<close> pushes note edges until the host has
  the notes of the room, and the audio port hands them out, releases first. The two bounded queues are
  parameters (\<open>fifo\<close>), each with its own capacity.
\<close>

section \<open>Queues and port\<close>

record ('q, 'r) host_queues =
  release_out :: 'q
  realtime_out :: 'r
  egress_events :: u64
  egress_dropped :: u64

definition membership_edge :: "nat \<Rightarrow> realtime_midi_kind \<Rightarrow> u32 \<Rightarrow> realtime_midi" where
  "membership_edge note kind v =
     \<lparr>midi_timing = 0, midi_voice_id = membership_voice_id (word_of_nat note), midi_channel = 0,
      midi_note = word_of_nat note, midi_kind = kind, midi_value = v\<rparr>"

text \<open>The bits of \<open>0.0\<close> and \<open>0.8\<close>.\<close>

definition f32_zero :: u32 where "f32_zero = 0"
definition f32_point_eight :: u32 where "f32_point_eight = 0x3f4ccccd"

text \<open>The two loops; the flag is \<open>False\<close> when a full queue ended the function.\<close>

fun release_loop ::
  "('q, realtime_midi) queue_ops \<Rightarrow> bool list \<Rightarrow> nat list \<Rightarrow> bool list \<times> ('q, 'r) host_queues \<Rightarrow>
   bool \<times> bool list \<times> ('q, 'r) host_queues" where
  "release_loop Q target [] st = (True, st)"
| "release_loop Q target (note # notes) (out, h) =
     (if out ! note \<and> \<not> target ! note
      then (case push Q (membership_edge note NoteOff f32_zero) (release_out h) of
              (ok, q) \<Rightarrow>
                if ok
                then release_loop Q target notes
                       (out[note := False], h\<lparr>release_out := q, egress_events := egress_events h + 1\<rparr>)
                else (False, out, h\<lparr>release_out := q, egress_dropped := egress_dropped h + 1\<rparr>))
      else release_loop Q target notes (out, h))"

fun add_loop ::
  "('r, realtime_midi) queue_ops \<Rightarrow> bool list \<Rightarrow> nat list \<Rightarrow> bool list \<times> ('q, 'r) host_queues \<Rightarrow>
   bool \<times> bool list \<times> ('q, 'r) host_queues" where
  "add_loop Q target [] st = (True, st)"
| "add_loop Q target (note # notes) (out, h) =
     (if \<not> out ! note \<and> target ! note
      then (case push Q (membership_edge note NoteOn f32_point_eight) (realtime_out h) of
              (ok, q) \<Rightarrow>
                if ok
                then add_loop Q target notes
                       (out[note := True], h\<lparr>realtime_out := q, egress_events := egress_events h + 1\<rparr>)
                else (False, out, h\<lparr>realtime_out := q, egress_dropped := egress_dropped h + 1\<rparr>))
      else add_loop Q target notes (out, h))"

definition reconcile_host_output ::
  "('t, 'p, 'd, 'pat, 'cfg) music \<Rightarrow> ('q, realtime_midi) queue_ops \<Rightarrow> ('r, realtime_midi) queue_ops \<Rightarrow> bool \<Rightarrow>
   ('t, 'p, 'd, 'cfg) bridge_pitch_state \<times> ('q, 'r) host_queues \<Rightarrow>
   ('t, 'p, 'd, 'cfg) bridge_pitch_state \<times> ('q, 'r) host_queues" where
  "reconcile_host_output M QR QN output_enabled st =
     (case st of (s, h) \<Rightarrow>
      let target = (if output_enabled then room_midi_notes M s else replicate 128 False)
      in case release_loop QR target [0..<128] (output_notes s, h) of
           (False, out, h') \<Rightarrow> (s\<lparr>output_notes := out\<rparr>, h')
         | (True, out, h') \<Rightarrow>
             (case add_loop QN target [0..<128] (out, h') of
                (_, out', h'') \<Rightarrow> (s\<lparr>output_notes := out'\<rparr>, h'')))"

text \<open>\<open>AudioBridgePort::try_recv\<close>.\<close>

definition try_recv ::
  "('q, realtime_midi) queue_ops \<Rightarrow> ('r, realtime_midi) queue_ops \<Rightarrow> ('q, 'r) host_queues \<Rightarrow>
   realtime_midi option \<times> ('q, 'r) host_queues" where
  "try_recv QR QN h =
     (case pop QR (release_out h) of
        (Some e, q) \<Rightarrow> (Some e, h\<lparr>release_out := q\<rparr>)
      | (None, q) \<Rightarrow>
          (case pop QN (realtime_out h) of
             (e, q') \<Rightarrow> (e, h\<lparr>release_out := q, realtime_out := q'\<rparr>)))"

section \<open>A listener\<close>

text \<open>What a host that receives the edges has sounding.\<close>

definition hear :: "realtime_midi \<Rightarrow> nat set \<Rightarrow> nat set" where
  "hear e sounding =
     (if midi_kind e = NoteOn then insert (unat (midi_note e)) sounding
      else if is_release e then sounding - {unat (midi_note e)} else sounding)"

fun receive ::
  "('q, realtime_midi) queue_ops \<Rightarrow> ('r, realtime_midi) queue_ops \<Rightarrow> nat \<Rightarrow> ('q, 'r) host_queues \<Rightarrow> realtime_midi list" where
  "receive QR QN 0 h = []"
| "receive QR QN (Suc n) h =
     (case try_recv QR QN h of (None, h') \<Rightarrow> [] | (Some e, h') \<Rightarrow> e # receive QR QN n h')"

definition notes_on :: "bool list \<Rightarrow> nat set" where
  "notes_on out = {n. n < length out \<and> out ! n}"

lemma notes_on_update:
  "n < length out \<Longrightarrow> notes_on (out[n := b]) = (if b then insert n (notes_on out) else notes_on out - {n})"
  by (auto simp: notes_on_def nth_list_update split: if_splits)

lemma unat_note: "n < 128 \<Longrightarrow> unat (word_of_nat n :: u8) = n"
  by (simp add: unat_of_nat)

lemma hear_edges [simp]:
  "n < 128 \<Longrightarrow> hear (membership_edge n NoteOn v) X = insert n X"
  "n < 128 \<Longrightarrow> hear (membership_edge n NoteOff v) X = X - {n}"
  by (simp_all add: hear_def membership_edge_def is_release_def unat_note)

lemma fifo_push:
  assumes "fifo Q items cap" and "length (items q) \<le> cap" and "push Q x q = (ok, q')"
  shows "ok \<longleftrightarrow> length (items q) < cap" and "items q' = (if ok then items q @ [x] else items q)"
    and "length (items q') \<le> cap"
  using assms unfolding fifo_def by (auto split: if_splits dest!: spec [where x = x] spec [where x = q])

lemma receive_all:
  assumes "fifo QR ir cr" and "fifo QN iN cn"
  shows "receive QR QN (length (ir (release_out h)) + length (iN (realtime_out h))) h =
         ir (release_out h) @ iN (realtime_out h)"
proof (induction "length (ir (release_out h)) + length (iN (realtime_out h))" arbitrary: h)
  case 0
  then show ?case by simp
next
  case (Suc k)
  have popR: "\<And>q. case ir q of [] \<Rightarrow> fst (pop QR q) = None \<and> ir (snd (pop QR q)) = []
      | x # xs \<Rightarrow> fst (pop QR q) = Some x \<and> ir (snd (pop QR q)) = xs"
    and popN: "\<And>q. case iN q of [] \<Rightarrow> fst (pop QN q) = None \<and> iN (snd (pop QN q)) = []
      | x # xs \<Rightarrow> fst (pop QN q) = Some x \<and> iN (snd (pop QN q)) = xs"
    using assms by (auto simp: fifo_def)
  obtain r q1 where 1: "pop QR (release_out h) = (r, q1)" by fastforce
  obtain n q2 where 2: "pop QN (realtime_out h) = (n, q2)" by fastforce
  show ?case
  proof (cases "ir (release_out h)")
    case (Cons x xs)
    with popR [of "release_out h"] 1 have p: "r = Some x" "ir q1 = xs" by simp_all
    let ?h = "h\<lparr>release_out := q1\<rparr>"
    have "k = length (ir (release_out ?h)) + length (iN (realtime_out ?h))"
      using Suc.hyps(2) Cons p by simp
    from Suc.hyps(1) [OF this] Suc.hyps(2) Cons p 1 show ?thesis
      by (simp add: try_recv_def)
  next
    case Nil
    with popR [of "release_out h"] 1 have p: "r = None" "ir q1 = []" by simp_all
    obtain x xs where c: "iN (realtime_out h) = x # xs"
      using Nil Suc.hyps(2) by (cases "iN (realtime_out h)") simp_all
    with popN [of "realtime_out h"] 2 have q: "n = Some x" "iN q2 = xs" by simp_all
    let ?h = "h\<lparr>release_out := q1, realtime_out := q2\<rparr>"
    have "k = length (ir (release_out ?h)) + length (iN (realtime_out ?h))"
      using Suc.hyps(2) Nil c p q by simp
    from Suc.hyps(1) [OF this] Suc.hyps(2) Nil c p q 1 2 show ?thesis
      by (simp add: try_recv_def)
  qed
qed

section \<open>The loops\<close>

lemma release_loop_effect:
  assumes "fifo Q items cap" and "length (items (release_out h)) \<le> cap" and "set notes \<subseteq> {..<length out}"
    and "length out = 128" and "fold hear (items (release_out h)) X = notes_on out"
    and "release_loop Q target notes (out, h) = (ok, out', h')"
  shows "fold hear (items (release_out h')) X = notes_on out' \<and> length out' = 128 \<and>
         realtime_out h' = realtime_out h \<and> length (items (release_out h')) \<le> cap \<and>
         (ok \<longrightarrow> (\<forall>n < 128. out' ! n = (out ! n \<and> (n \<in> set notes \<longrightarrow> target ! n)))) \<and>
         (length (items (release_out h)) + length notes \<le> cap \<longrightarrow> ok)"
  using assms(2-)
proof (induction "notes" arbitrary: out h)
  case Nil
  then show ?case by simp
next
  case (Cons n ns)
  show ?case
  proof (cases "out ! n \<and> \<not> target ! n")
    case False
    then show ?thesis using Cons.IH [of h out] Cons.prems by auto
  next
    case True
    obtain k q where p: "push Q (membership_edge n NoteOff f32_zero) (release_out h) = (k, q)" by fastforce
    note f = fifo_push [OF assms(1) Cons.prems(1) p]
    have n: "n < 128" using Cons.prems by simp
    show ?thesis
    proof (cases k)
      case False
      then show ?thesis using True p f Cons.prems by auto
    next
      case k: True
      let ?h = "h\<lparr>release_out := q, egress_events := egress_events h + 1\<rparr>"
      have "fold hear (items (release_out ?h)) X = notes_on (out[n := False])"
        using f k n Cons.prems by (simp add: notes_on_update)
      then show ?thesis
        using Cons.IH [of ?h "out[n := False]"] True p k f n Cons.prems by (auto simp: nth_list_update)
    qed
  qed
qed

lemma add_loop_effect:
  assumes "fifo Q items cap" and "length (items (realtime_out h)) \<le> cap" and "set notes \<subseteq> {..<length out}"
    and "length out = 128" and "fold hear (items (realtime_out h)) X = notes_on out"
    and "add_loop Q target notes (out, h) = (ok, out', h')"
  shows "fold hear (items (realtime_out h')) X = notes_on out' \<and> length out' = 128 \<and>
         release_out h' = release_out h \<and>
         (ok \<longrightarrow> (\<forall>n < 128. out' ! n = (out ! n \<or> n \<in> set notes \<and> target ! n))) \<and>
         (length (items (realtime_out h)) + length notes \<le> cap \<longrightarrow> ok)"
  using assms(2-)
proof (induction "notes" arbitrary: out h)
  case Nil
  then show ?case by simp
next
  case (Cons n ns)
  show ?case
  proof (cases "\<not> out ! n \<and> target ! n")
    case False
    then show ?thesis using Cons.IH [of h out] Cons.prems by auto
  next
    case True
    obtain k q where p: "push Q (membership_edge n NoteOn f32_point_eight) (realtime_out h) = (k, q)" by fastforce
    note f = fifo_push [OF assms(1) Cons.prems(1) p]
    have n: "n < 128" using Cons.prems by simp
    show ?thesis
    proof (cases k)
      case False
      then show ?thesis using True p f Cons.prems by auto
    next
      case k: True
      let ?h = "h\<lparr>realtime_out := q, egress_events := egress_events h + 1\<rparr>"
      have "fold hear (items (realtime_out ?h)) X = notes_on (out[n := True])"
        using f k n Cons.prems by (simp add: notes_on_update)
      then show ?thesis
        using Cons.IH [of ?h "out[n := True]"] True p k f n Cons.prems by (auto simp: nth_list_update)
    qed
  qed
qed

lemma release_loop_idle:
  "\<forall>n \<in> set notes. out ! n \<longrightarrow> target ! n \<Longrightarrow> release_loop Q target notes (out, h) = (True, out, h)"
  by (induction "notes") auto

lemma add_loop_idle:
  "\<forall>n \<in> set notes. target ! n \<longrightarrow> out ! n \<Longrightarrow> add_loop Q target notes (out, h) = (True, out, h)"
  by (induction "notes") auto

lemma hear_mono: "X \<subseteq> Y \<Longrightarrow> hear e X \<subseteq> hear e Y"
  by (auto simp: hear_def)

lemma fold_hear_mono: "X \<subseteq> Y \<Longrightarrow> fold hear es X \<subseteq> fold hear es Y"
  by (induction es arbitrary: X Y) (auto simp: hear_mono)

lemma length_room_midi_notes [simp]: "length (room_midi_notes M s) = 128"
  by (simp add: room_midi_notes_def)

lemma room_midi_notes_output [simp]: "room_midi_notes M (s\<lparr>output_notes := out\<rparr>) = room_midi_notes M s"
  by (simp add: room_midi_notes_def)

lemma notes_on_none [simp]: "notes_on (replicate n False) = {}"
  by (auto simp: notes_on_def)

lemma two_loops_reach_target:
  assumes "length out = 128" and "length out1 = 128" and "length out2 = 128" and "length target = 128"
    and "\<forall>n < 128. out1 ! n = (out ! n \<and> target ! n)" and "\<forall>n < 128. out2 ! n = (out1 ! n \<or> target ! n)"
  shows "out2 = target"
  using assms by (auto intro: nth_equalityI)

section \<open>Properties\<close>

text \<open>C31: Host output follows the room. From drained queues one pass of the reconciler pushes edges
  that, once received, take a host from the notes of the old shadow exactly to the notes of the new one,
  also when a full queue ends the pass early; when both queues have room for every note the new shadow is
  the target: the notes of the room while output is enabled, none otherwise.\<close>

theorem reconcile_faithful:
  assumes "fifo QR ir cr" and "fifo QN iN cn"
    and "ir (release_out h) = []" and "iN (realtime_out h) = []" and "length (output_notes s) = 128"
    and "reconcile_host_output M QR QN enabled (s, h) = (s', h')"
  shows "fold hear (receive QR QN (length (ir (release_out h')) + length (iN (realtime_out h'))) h')
           (notes_on (output_notes s)) = notes_on (output_notes s') \<and>
         (128 \<le> cr \<and> 128 \<le> cn \<longrightarrow>
            output_notes s' = (if enabled then room_midi_notes M s else replicate 128 False))"
proof -
  let ?target = "if enabled then room_midi_notes M s else replicate 128 False"
  obtain ok out1 h1 where 1: "release_loop QR ?target [0..<128] (output_notes s, h) = (ok, out1, h1)"
    by (metis prod_cases3)
  obtain ok2 out2 h2 where 2: "add_loop QN ?target [0..<128] (out1, h1) = (ok2, out2, h2)"
    by (metis prod_cases3)
  note r = release_loop_effect [OF assms(1) _ _ assms(5) _ 1, of "notes_on (output_notes s)"]
  have r': "fold hear (ir (release_out h1)) (notes_on (output_notes s)) = notes_on out1"
      "length out1 = 128" "realtime_out h1 = realtime_out h"
      "ok \<Longrightarrow> \<forall>n < 128. out1 ! n = (output_notes s ! n \<and> ?target ! n)" "128 \<le> cr \<Longrightarrow> ok"
    using r assms(3,5) by (auto simp: lessThan_atLeast0)
  have a: "fold hear (iN (realtime_out h2)) (notes_on out1) = notes_on out2" "length out2 = 128"
      "release_out h2 = release_out h1"
      "ok2 \<Longrightarrow> \<forall>n < 128. out2 ! n = (out1 ! n \<or> ?target ! n)" "128 \<le> cn \<Longrightarrow> ok2"
    using add_loop_effect [OF assms(2) _ _ r'(2) _ 2, of "notes_on out1"] assms(4) r'(2,3)
    by (auto simp: lessThan_atLeast0)
  have res: "(s', h') = (if ok then (s\<lparr>output_notes := out2\<rparr>, h2) else (s\<lparr>output_notes := out1\<rparr>, h1))"
    using assms(6) 1 2 by (auto simp: reconcile_host_output_def Let_def split: bool.splits if_splits)
  have "fold hear (receive QR QN (length (ir (release_out h')) + length (iN (realtime_out h'))) h')
           (notes_on (output_notes s)) = notes_on (output_notes s')"
    unfolding receive_all [OF assms(1,2)] using res r' a assms(4) by (auto split: if_splits)
  moreover have "output_notes s' = ?target" if "128 \<le> cr" and "128 \<le> cn"
    using two_loops_reach_target [OF assms(5) r'(2) a(2), of ?target] r'(4,5) a(4,5) that res by auto
  ultimately show ?thesis by blast
qed

text \<open>A bounded queue and a room with the pitch class of C, for concrete runs.\<close>

definition list_queue :: "nat \<Rightarrow> ('a list, 'a) queue_ops" where
  "list_queue cap =
     \<lparr>push = (\<lambda>x q. if length q < cap then (True, q @ [x]) else (False, q)),
      pop = (\<lambda>q. case q of [] \<Rightarrow> (None, []) | x # xs \<Rightarrow> (Some x, xs))\<rparr>"

definition empty_queues :: "(realtime_midi list, realtime_midi list) host_queues" where
  "empty_queues = \<lparr>release_out = [], realtime_out = [], egress_events = 0, egress_dropped = 0\<rparr>"

definition c_room :: "(unit, u8, u8, u8 set) bridge_pitch_state" where
  "c_room = (pitch_state_default twelve_tone)
     \<lparr>shared_room := \<lparr>pitch_classes = {\<lparr>tuning_id = (), tuned_item = 0\<rparr>}, pitches = {}\<rparr>\<rparr>"

lemma list_queue_fifo: "fifo (list_queue cap) (\<lambda>q. q) cap"
  by (auto simp: fifo_def list_queue_def split: list.splits)

lemma empty_queues_sel [simp]: "release_out empty_queues = []" "realtime_out empty_queues = []"
  by (simp_all add: empty_queues_def)

lemma c_room_output [simp]: "output_notes c_room = replicate 128 False"
  by (simp add: c_room_def pitch_state_default_def)

lemma c_room_notes: "notes_on (room_midi_notes twelve_tone c_room) = {48}"
  by (auto simp: notes_on_def room_midi_notes_def c_room_def twelve_tone_def)

theorem reconcile_faithful_witness:
  "output_notes (fst (reconcile_host_output twelve_tone (list_queue 128) (list_queue 512) True (c_room, empty_queues))) =
     room_midi_notes twelve_tone c_room"
proof -
  obtain s' h' where r: "reconcile_host_output twelve_tone (list_queue 128) (list_queue 512) True (c_room, empty_queues) = (s', h')"
    by fastforce
  show ?thesis
    using reconcile_faithful [OF list_queue_fifo list_queue_fifo _ _ _ r] by (simp add: r)
qed

text \<open>A release can overtake its note-on. When output is disabled in the pass after the one that
  added the notes of the room, and the audio port has drained neither queue in between, the shadow ends
  empty while the port hands out the releases first: the host is left sounding every note of the room,
  and no later pass with output disabled releases them.\<close>

theorem release_overtakes_note_on:
  assumes "fifo QR ir cr" and "fifo QN iN cn" and "128 \<le> cr" and "128 \<le> cn"
    and "ir (release_out h) = []" and "iN (realtime_out h) = []" and "output_notes s = replicate 128 False"
    and "reconcile_host_output M QR QN True (s, h) = (s1, h1)"
    and "reconcile_host_output M QR QN False (s1, h1) = (s2, h2)"
  shows "output_notes s2 = replicate 128 False \<and>
         fold hear (receive QR QN (length (ir (release_out h2)) + length (iN (realtime_out h2))) h2) {} =
           notes_on (room_midi_notes M s) \<and>
         reconcile_host_output M QR QN False (s2, h3) = (s2, h3)"
proof -
  let ?none = "replicate 128 False"
  have idle: "release_loop QR t [0..<128] (?none, g) = (True, ?none, g)" for t and g :: "('a, 'b) host_queues"
    by (intro release_loop_idle) simp
  have idle': "add_loop QN ?none [0..<128] (out, g) = (True, out, g)" for out and g :: "('a, 'b) host_queues"
    by (intro add_loop_idle) simp
  obtain ok out g where 1: "add_loop QN (room_midi_notes M s) [0..<128] (?none, h) = (ok, out, g)"
    by (metis prod_cases3)
  have a: "fold hear (iN (realtime_out g)) {} = notes_on out" "length out = 128" "release_out g = release_out h"
      "\<forall>n < 128. out ! n = room_midi_notes M s ! n"
    using add_loop_effect [OF assms(2) _ _ _ _ 1, of "{}"] assms(4,6) by (auto simp: lessThan_atLeast0)
  have out: "out = room_midi_notes M s" using a(2,4) by (auto intro: nth_equalityI)
  have s1: "s1 = s\<lparr>output_notes := out\<rparr>" "h1 = g"
    using assms(7,8) 1 by (simp_all add: reconcile_host_output_def idle)
  obtain ok2 out2 g2 where 2: "release_loop QR ?none [0..<128] (out, g) = (ok2, out2, g2)"
    by (metis prod_cases3)
  have r: "fold hear (ir (release_out g2)) (notes_on out) = notes_on out2" "length out2 = 128"
      "realtime_out g2 = realtime_out g" "\<forall>n < 128. \<not> out2 ! n" ok2
    using release_loop_effect [OF assms(1) _ _ a(2) _ 2, of "notes_on out"] assms(3,5) a(2,3)
    by (auto simp: lessThan_atLeast0)
  have out2: "out2 = ?none" using r(2,4) by (auto intro: nth_equalityI)
  have s2: "s2 = s\<lparr>output_notes := ?none\<rparr>" "h2 = g2"
    using assms(9) s1 2 r(5) out2 by (simp_all add: reconcile_host_output_def idle')
  have "fold hear (ir (release_out g2)) {} = {}"
    using fold_hear_mono [of "{}" "notes_on out" "ir (release_out g2)"] r(1) out2 by simp
  then have "fold hear (ir (release_out h2) @ iN (realtime_out h2)) {} = notes_on (room_midi_notes M s)"
    using s2 r(3) a(1) out by simp
  then show ?thesis
    unfolding receive_all [OF assms(1,2)] using s2 by (simp add: reconcile_host_output_def idle idle')
qed

theorem release_overtakes_note_on_witness:
  "let R = list_queue 128; N = list_queue 512;
       (s1, h1) = reconcile_host_output twelve_tone R N True (c_room, empty_queues);
       (s2, h2) = reconcile_host_output twelve_tone R N False (s1, h1)
   in notes_on (output_notes s2) = {} \<and>
      fold hear (receive R N (length (release_out h2) + length (realtime_out h2)) h2) {} = {48}"
proof -
  obtain s1 h1 where 1: "reconcile_host_output twelve_tone (list_queue 128) (list_queue 512) True (c_room, empty_queues) = (s1, h1)"
    by fastforce
  obtain s2 h2 where 2: "reconcile_host_output twelve_tone (list_queue 128) (list_queue 512) False (s1, h1) = (s2, h2)"
    by fastforce
  show ?thesis
    using release_overtakes_note_on [OF list_queue_fifo list_queue_fifo _ _ _ _ _ 1 2]
    by (simp add: 1 2 c_room_notes)
qed

end
