(* ===== verification/Bridge_Worker.thy ===== *)
theory Bridge_Worker
  imports Host_Output
begin

text \<open>
  \<open>src/src/bridge/mod.rs\<close>, the worker thread: \<open>run_bridge\<close> with everything one pass does, the event
  dispatcher \<open>handle_transport_event\<close>, the published status and the handle of the user interface.

  The transport, the music crates and the three queues the worker writes are parameters (\<open>bridge_env\<close>). The
  three queues it reads appear as what a pass pops from them (\<open>pass_input\<close>), together with the values
  the pass reads from the clock and from the two atomic switches. A \<open>tutti_roundtable\<close> frame is the
  constructors and fields the code matches on; other fields are type parameters. The flag
  \<open>progressed\<close> only decides whether the thread sleeps before the next pass and is left out. The two
  egress counters of the status are fields of \<open>host_queues\<close>. An outer \<open>None\<close> is a panic.
\<close>

section \<open>Data\<close>

datatype ('run, 'pulse, 'cfg) round_table_frame =
    Run 'run 'cfg
  | Config 'cfg
  | ConfigSnapshot u64 'cfg
  | Pulse 'pulse

record atomic_bridge_status =
  at_revision :: u64
  at_room_link :: u8
  at_board_link :: u8
  at_room_peers :: u32
  at_trusted_boards :: u32
  at_ingress_events :: u64
  at_ingress_dropped :: u64
  at_ui_events_dropped :: u64

record bridge_status =
  bs_revision :: u64
  bs_room_link :: link_state
  bs_board_link :: link_state
  bs_room_peers :: u32
  bs_trusted_boards :: u32
  bs_ingress_events :: u64
  bs_egress_events :: u64
  bs_ingress_dropped :: u64
  bs_egress_dropped :: u64
  bs_ui_events_dropped :: u64

datatype ('f, 's, 'h) bridge_event =
    StatusEvent bridge_status
  | RoomSelectedEvent string
  | BoardDiscoveredEvent ble_scan_result
  | TrustRequiredEvent 'h
  | ProtocolRefusedEvent protocol_profile protocol_profile protocol_mismatch
  | DiagnosticEvent string
  | RoundTableEvent 'f
  | PitchSetEvent 's

type_synonym ('run, 'pulse, 't, 'p, 'cfg) worker_command =
  "(('run, 'pulse, 'cfg) round_table_frame, 'cfg, ('t, 'p) tuned_pitch) bridge_command"
type_synonym ('run, 'pulse, 't, 'p, 'd, 'cfg, 'h) worker_event =
  "(('run, 'pulse, 'cfg) round_table_frame, ('t, 'p, 'd) shared_pitch_set, 'h) transport_event"
type_synonym ('run, 'pulse, 't, 'p, 'd, 'cfg, 'h) ui_event =
  "(('run, 'pulse, 'cfg) round_table_frame, ('t, 'p, 'd) shared_pitch_set, 'h) bridge_event"

text \<open>The parameters: the music crates, the transport, the queues, and the profile constants.\<close>

record ('t, 'p, 'd, 'pat, 'cfg, 'tr, 'q, 'r, 'u, 'run, 'pulse, 'h) bridge_env =
  env_music :: "('t, 'p, 'd, 'pat, 'cfg) music"
  env_transport :: "('tr, ('run, 'pulse, 't, 'p, 'cfg) worker_command,
                     ('run, 'pulse, 't, 'p, 'd, 'cfg, 'h) worker_event) bridge_transport"
  env_release :: "('q, realtime_midi) queue_ops"
  env_realtime :: "('r, realtime_midi) queue_ops"
  env_ui :: "('u, ('run, 'pulse, 't, 'p, 'd, 'cfg, 'h) ui_event) queue_ops"
  env_walkie :: protocol_profile
  env_caps :: profile_caps

record ('t, 'p, 'd, 'cfg, 'tr, 'q, 'r, 'u) bridge_worker =
  bw_pitches :: "('t, 'p, 'd, 'cfg) bridge_pitch_state"
  bw_transport :: 'tr
  bw_host :: "('q, 'r) host_queues"
  bw_ui :: 'u
  bw_status :: atomic_bridge_status

record ('run, 'pulse, 't, 'p, 'cfg) pass_input =
  in_commands :: "('run, 'pulse, 't, 'p, 'cfg) worker_command list"
  in_releases :: "(midi_input_mode \<times> realtime_midi) list"
  in_realtime :: "(midi_input_mode \<times> realtime_midi) list"
  in_polls :: "(nat \<times> midi_input_mode) list"
  in_now :: nat
  in_output_enabled :: bool

section \<open>Status and user-interface events\<close>

definition status_default :: atomic_bridge_status where
  "status_default =
     \<lparr>at_revision = 0, at_room_link = link_as_u8 Offline, at_board_link = link_as_u8 Offline, at_room_peers = 0,
      at_trusted_boards = 0, at_ingress_events = 0, at_ingress_dropped = 0, at_ui_events_dropped = 0\<rparr>"

definition load_status :: "atomic_bridge_status \<Rightarrow> ('q, 'r) host_queues \<Rightarrow> bridge_status" where
  "load_status st h =
     \<lparr>bs_revision = at_revision st, bs_room_link = link_from_u8 (at_room_link st),
      bs_board_link = link_from_u8 (at_board_link st), bs_room_peers = at_room_peers st,
      bs_trusted_boards = at_trusted_boards st, bs_ingress_events = at_ingress_events st,
      bs_egress_events = egress_events h, bs_ingress_dropped = at_ingress_dropped st,
      bs_egress_dropped = egress_dropped h, bs_ui_events_dropped = at_ui_events_dropped st\<rparr>"

definition revise :: "atomic_bridge_status \<Rightarrow> atomic_bridge_status" where
  "revise st = st\<lparr>at_revision := at_revision st + 1\<rparr>"

definition publish_event ::
  "('u, 'e) queue_ops \<Rightarrow> 'e \<Rightarrow> 'u \<times> atomic_bridge_status \<Rightarrow> 'u \<times> atomic_bridge_status" where
  "publish_event Q event st =
     (case st of (u, status) \<Rightarrow>
      case push Q event u of
        (True, u') \<Rightarrow> (u', status)
      | (False, u') \<Rightarrow>
          (snd (push Q event (snd (pop Q u'))),
           status\<lparr>at_ui_events_dropped := at_ui_events_dropped status + 1\<rparr>))"

definition publish where
  "publish E event w =
     (case publish_event (env_ui E) event (bw_ui w, bw_status w) of
        (u, status) \<Rightarrow> w\<lparr>bw_ui := u, bw_status := status\<rparr>)"

text \<open>\<open>if let Err(error) = ... { publish_event(.., Diagnostic(error.to_string())) }\<close>\<close>

definition report_error where
  "report_error E res w =
     (case res of Inl e \<Rightarrow> publish E (DiagnosticEvent (display_error e)) w | Inr _ \<Rightarrow> w)"

definition on_pitches where
  "on_pitches f w = w\<lparr>bw_pitches := f (bw_pitches w)\<rparr>"

definition command where
  "command E c w =
     (case handle_command (env_transport E) c (bw_transport w) of (res, t) \<Rightarrow> (res, w\<lparr>bw_transport := t\<rparr>))"

text \<open>The four events that store a value of the status, revise it and publish it.\<close>

definition store_status where
  "store_status E f w =
     (let status = revise (f (bw_status w))
      in publish E (StatusEvent (load_status status (bw_host w))) (w\<lparr>bw_status := status\<rparr>))"

definition forward_midi where
  "forward_midi E event w =
     (let h = bw_host w
      in if is_release event
         then (case push (env_release E) event (release_out h) of
                 (ok, q) \<Rightarrow> w\<lparr>bw_host := (if ok then h\<lparr>release_out := q, egress_events := egress_events h + 1\<rparr>
                                       else h\<lparr>release_out := q, egress_dropped := egress_dropped h + 1\<rparr>)\<rparr>)
         else (case push (env_realtime E) event (realtime_out h) of
                 (ok, q) \<Rightarrow> w\<lparr>bw_host := (if ok then h\<lparr>realtime_out := q, egress_events := egress_events h + 1\<rparr>
                                       else h\<lparr>realtime_out := q, egress_dropped := egress_dropped h + 1\<rparr>)\<rparr>))"

definition handle_transport_event where
  "handle_transport_event E event w =
     (case event of
        RoomLink link \<Rightarrow> store_status E (\<lambda>st. st\<lparr>at_room_link := link_as_u8 link\<rparr>) w
      | RoomSelected name \<Rightarrow> publish E (RoomSelectedEvent name) w
      | BoardLink link \<Rightarrow> store_status E (\<lambda>st. st\<lparr>at_board_link := link_as_u8 link\<rparr>) w
      | RoomPeers n \<Rightarrow> store_status E (\<lambda>st. st\<lparr>at_room_peers := n\<rparr>) w
      | TrustedBoards n \<Rightarrow> store_status E (\<lambda>st. st\<lparr>at_trusted_boards := n\<rparr>) w
      | Midi m \<Rightarrow> forward_midi E m w
      | BoardDiscovered b \<Rightarrow> publish E (BoardDiscoveredEvent b) w
      | TrustRequired hello \<Rightarrow> publish E (TrustRequiredEvent hello) w
      | RemoteProfile remote \<Rightarrow>
          (case check_compatible (env_caps E) (env_walkie E) remote of
             Inr _ \<Rightarrow> w
           | Inl reason \<Rightarrow>
               publish E (ProtocolRefusedEvent (env_walkie E) remote reason)
                 (w\<lparr>bw_status := revise ((bw_status w)\<lparr>at_board_link := link_as_u8 Refused\<rparr>)\<rparr>))
      | RoundTable frame \<Rightarrow> publish E (RoundTableEvent frame) w
      | RoomPitchSet shared \<Rightarrow> publish E (PitchSetEvent shared) w
      | BoardRepairFailed binding reason \<Rightarrow> publish E (DiagnosticEvent (''board HHHS repair failed: '' @ reason)) w
      | Diagnostic message \<Rightarrow> publish E (DiagnosticEvent message) w
      | _ \<Rightarrow> w)"

section \<open>A frame from the board\<close>

definition observe_frame where
  "observe_frame M now frame s =
     (case frame of
        Run _ config \<Rightarrow> (case observe_board_config config s of (o', s') \<Rightarrow> (Some (config, o'), s'))
      | Config config \<Rightarrow> (case observe_board_config config s of (o', s') \<Rightarrow> (Some (config, o'), s'))
      | ConfigSnapshot revision config \<Rightarrow>
          (case observe_board_snapshot M now revision config s of (o', s') \<Rightarrow> (Some (config, o'), s'))
      | Pulse _ \<Rightarrow> (None, s))"

definition publish_board_edit where
  "publish_board_edit E frame config w =
     (case plan_board_edit (env_music E) config (bw_pitches w) of
        Inl e \<Rightarrow> Some (report_error E (Inl e :: bridge_error + unit) w)
      | Inr plan \<Rightarrow>
          (case frame of
             Pulse _ \<Rightarrow> None
           | ConfigSnapshot _ _ \<Rightarrow>
               Some (report_error E (Inl (Transport ''passive board snapshot cannot author a room edit'')
                 :: bridge_error + unit) w)
           | _ \<Rightarrow>
               (case allocate_intent_token (bw_pitches w) of
                  (Inl e, s) \<Rightarrow> Some (report_error E (Inl e :: bridge_error + unit) (w\<lparr>bw_pitches := s\<rparr>))
                | (Inr token, s) \<Rightarrow>
                    (case command E (PublishBoardEdit token frame (plan_settings plan) (plan_pitch_edits plan))
                            (w\<lparr>bw_pitches := s\<rparr>) of
                       (Inl e, w') \<Rightarrow> Some (report_error E (Inl e :: bridge_error + unit) w')
                     | (Inr _, w') \<Rightarrow>
                         Some (on_pitches (track_pitch_intent (env_music E) token Board (plan_pitch_edits plan)) w')))))"

definition forward_board_frame where
  "forward_board_frame E frame w =
     (case command E (PublishRoundTable frame) w of (res, w') \<Rightarrow> report_error E res w')"

definition handle_board_frame where
  "handle_board_frame E now frame w =
     (case observe_frame (env_music E) now frame (bw_pitches w) of
        (observed, s) \<Rightarrow>
          let w' = w\<lparr>bw_pitches := s\<rparr>
          in case observed of
               Some (config, BoardEdit) \<Rightarrow> publish_board_edit E frame config w'
             | _ \<Rightarrow>
                 (case frame of
                    Run _ _ \<Rightarrow> Some (forward_board_frame E frame w')
                  | Pulse _ \<Rightarrow> Some (forward_board_frame E frame w')
                  | _ \<Rightarrow> Some w'))"

section \<open>Transport events\<close>

definition reset_target where
  "reset_target s = s\<lparr>board_target := None, board_retry_at := None\<rparr>"

definition room_replaced where
  "room_replaced M now s = stage_board_target M now (reset_target (abandon_pitch_intents s))"

definition handle_event where
  "handle_event E now mode event w =
     (let M = env_music E
      in case event of
        RoomLink link \<Rightarrow>
          Some (handle_transport_event E event (if link = Ready then w else on_pitches (room_replaced M now) w))
      | RoomSelected name \<Rightarrow> Some (handle_transport_event E event (on_pitches (room_replaced M now) w))
      | BoardLink link \<Rightarrow>
          (if link = Ready
           then Some (on_pitches (\<lambda>s. stage_board_target M now
                       (s\<lparr>board_confirmed := None, board_snapshot_revision := None\<rparr>))
                     (handle_transport_event E event w))
           else Some (handle_transport_event E event
                     (on_pitches (\<lambda>s. (reset_target (abandon_board_pitch_intents s))
                        \<lparr>board_confirmed := None, board_snapshot_revision := None\<rparr>) w)))
      | BoardRoundTable frame \<Rightarrow> handle_board_frame E now frame w
      | PitchIntentOutcome token outcome \<Rightarrow>
          (case outcome of
             Applied \<Rightarrow> Some w
           | Rejected error \<Rightarrow>
               Some (publish E (DiagnosticEvent (''pitch intent '' @ decimal (unat token) @ '' was rejected: '' @ error))
                 (on_pitches (\<lambda>s. stage_board_target M now (reject_pitch_intent token s)) w)))
      | PitchIntentReset through \<Rightarrow>
          Some (publish E (DiagnosticEvent (''pitch intent outcomes through '' @ decimal (unat through) @ '' were abandoned''))
            (on_pitches (\<lambda>s. stage_board_target M now (abandon_pitch_intents_through through s)) w))
      | RoomPitchSet shared \<Rightarrow>
          (case apply_confirmed_room M shared (bw_pitches w) of
             (changed, s) \<Rightarrow>
               let w' = w\<lparr>bw_pitches := s\<rparr>
               in Some (if changed then on_pitches (stage_board_target M now) (publish E (PitchSetEvent shared) w')
                        else w'))
      | RoundTable frame \<Rightarrow>
          Some (handle_transport_event E event
            (on_pitches (\<lambda>s. stage_board_target M now
               (case frame of
                  Run _ config \<Rightarrow> s\<lparr>room_config := config\<rparr>
                | Config config \<Rightarrow> s\<lparr>room_config := config\<rparr>
                | _ \<Rightarrow> s)) w))
      | Midi m \<Rightarrow>
          Some (if should_forward_room_realtime mode m then handle_transport_event E event w else w)
      | _ \<Rightarrow> Some (handle_transport_event E event w))"

text \<open>The poll loop: one entry of the list per iteration, with the time and the mode read there.\<close>

fun poll_loop where
  "poll_loop E [] w = Some w"
| "poll_loop E ((now, mode) # polls) w =
     (case poll_event (env_transport E) (bw_transport w) of
        (None, t) \<Rightarrow> Some (w\<lparr>bw_transport := t\<rparr>)
      | (Some event, t) \<Rightarrow>
          (case handle_event E now mode event (w\<lparr>bw_transport := t\<rparr>) of
             None \<Rightarrow> None
           | Some w' \<Rightarrow> poll_loop E polls w'))"

section \<open>A pass, and the thread\<close>

definition ui_command where
  "ui_command E c w = (case command E c w of (res, w') \<Rightarrow> report_error E res w')"

definition host_input where
  "host_input E releases notes w =
     (case host_input_pass (env_music E) (env_transport E) releases notes (bw_pitches w, bw_transport w) of
        None \<Rightarrow> None
      | Some (errors, s, t) \<Rightarrow>
          Some (fold (\<lambda>e. publish E (DiagnosticEvent (display_error e))) errors
            (w\<lparr>bw_pitches := s, bw_transport := t\<rparr>)))"

definition send_board_target where
  "send_board_target E now w =
     (case board_target_due now (bw_pitches w) of
        (None, s) \<Rightarrow> w\<lparr>bw_pitches := s\<rparr>
      | (Some target, s) \<Rightarrow>
          (case command E (SendBoardRoundTable (Config target)) (w\<lparr>bw_pitches := s\<rparr>) of
             (res, w') \<Rightarrow> report_error E res w'))"

definition reconcile where
  "reconcile E enabled w =
     (case reconcile_host_output (env_music E) (env_release E) (env_realtime E) enabled (bw_pitches w, bw_host w) of
        (s, h) \<Rightarrow> w\<lparr>bw_pitches := s, bw_host := h\<rparr>)"

definition bridge_pass where
  "bridge_pass E input w =
     (case host_input E (in_releases input) (in_realtime input) (fold (ui_command E) (in_commands input) w) of
        None \<Rightarrow> None
      | Some w1 \<Rightarrow>
          (case poll_loop E (in_polls input) w1 of
             None \<Rightarrow> None
           | Some w2 \<Rightarrow> Some (reconcile E (in_output_enabled input) (send_board_target E (in_now input) w2))))"

definition start_bridge where
  "start_bridge E w =
     (case start (env_transport E) (bw_transport w) of
        (Inr _, t) \<Rightarrow> w\<lparr>bw_transport := t\<rparr>
      | (Inl e, t) \<Rightarrow>
          publish E (DiagnosticEvent (display_error e))
            (w\<lparr>bw_transport := t, bw_status := (bw_status w)\<lparr>at_room_link := link_as_u8 Failed, at_board_link := link_as_u8 Failed\<rparr>\<rparr>))"

fun bridge_passes where
  "bridge_passes E [] w = Some w"
| "bridge_passes E (input # inputs) w =
     (case bridge_pass E input w of None \<Rightarrow> None | Some w' \<Rightarrow> bridge_passes E inputs w')"

definition stop_bridge where
  "stop_bridge E w =
     w\<lparr>bw_transport := shutdown (env_transport E) (bw_transport w),
       bw_status := revise ((bw_status w)\<lparr>at_room_link := link_as_u8 Offline, at_board_link := link_as_u8 Offline\<rparr>)\<rparr>"

definition worker_new where
  "worker_new E t h u =
     \<lparr>bw_pitches = pitch_state_default (env_music E), bw_transport = t, bw_host = h, bw_ui = u, bw_status = status_default\<rparr>"

definition run_bridge where
  "run_bridge E inputs t h u =
     map_option (stop_bridge E) (bridge_passes E inputs (start_bridge E (worker_new E t h u)))"

section \<open>The endpoints\<close>

record bridge_config =
  ui_command_capacity :: nat
  ui_event_capacity :: nat
  realtime_capacity :: nat
  release_capacity :: nat
  poll_interval :: nat

text \<open>\<open>poll_interval\<close> in milliseconds. \<open>validate\<close> is false where the assertions panic.\<close>

definition config_default :: bridge_config where
  "config_default =
     \<lparr>ui_command_capacity = 64, ui_event_capacity = 128, realtime_capacity = 512, release_capacity = 128,
      poll_interval = 1\<rparr>"

definition validate :: "bridge_config \<Rightarrow> bool" where
  "validate c \<longleftrightarrow> ui_command_capacity c > 0 \<and> ui_event_capacity c > 0 \<and> realtime_capacity c > 0 \<and>
     release_capacity c > 0 \<and> poll_interval c \<noteq> 0"

definition try_command :: "('k, 'c) queue_ops \<Rightarrow> 'c \<Rightarrow> 'k \<Rightarrow> (bridge_error + unit) \<times> 'k" where
  "try_command Q c k = (case push Q c k of (ok, k') \<Rightarrow> (if ok then Inr () else Inl (QueueFull ''UI command''), k'))"

text \<open>\<open>AudioBridgePort::try_send\<close> on the two input queues and the status.\<close>

definition try_send ::
  "('q, realtime_midi) queue_ops \<Rightarrow> ('r, realtime_midi) queue_ops \<Rightarrow> realtime_midi \<Rightarrow>
   'q \<times> 'r \<times> atomic_bridge_status \<Rightarrow> (realtime_midi + unit) \<times> 'q \<times> 'r \<times> atomic_bridge_status" where
  "try_send QR QN event st =
     (case st of (release_in, realtime_in, status) \<Rightarrow>
      case (if is_release event then (case push QR event release_in of (ok, q) \<Rightarrow> (ok, q, realtime_in))
            else (case push QN event realtime_in of (ok, q) \<Rightarrow> (ok, release_in, q))) of
        (ok, q, r) \<Rightarrow>
          (if ok then (Inr (), q, r, status\<lparr>at_ingress_events := at_ingress_events status + 1\<rparr>)
           else (Inl event, q, r, status\<lparr>at_ingress_dropped := at_ingress_dropped status + 1\<rparr>)))"

text \<open>\<open>BridgeRuntime::unavailable\<close>: the status and the event queue it leaves.\<close>

definition unavailable_runtime :: "('u, ('f, 's, 'h) bridge_event) queue_ops \<Rightarrow> string \<Rightarrow> 'u \<Rightarrow> 'u \<times> atomic_bridge_status" where
  "unavailable_runtime Q error u =
     publish_event Q (DiagnosticEvent error)
       (u, revise (status_default\<lparr>at_room_link := link_as_u8 Failed, at_board_link := link_as_u8 Failed\<rparr>))"

section \<open>User-interface events\<close>

lemma fifo_pop:
  assumes "fifo Q items cap" and "items q = x # xs"
  shows "items (snd (pop Q q)) = xs"
proof -
  have "case items q of [] \<Rightarrow> fst (pop Q q) = None \<and> items (snd (pop Q q)) = []
      | x # xs \<Rightarrow> fst (pop Q q) = Some x \<and> items (snd (pop Q q)) = xs"
    using assms(1) unfolding fifo_def by blast
  with assms(2) show ?thesis by simp
qed

lemma publish_event_items:
  assumes "fifo Q items cap" and "0 < cap" and "length (items u) \<le> cap"
    and "publish_event Q e (u, status) = (u', status')"
  shows "items u' = (if length (items u) < cap then items u else tl (items u)) @ [e]"
    and "length (items u') \<le> cap"
    and "at_ui_events_dropped status' =
           at_ui_events_dropped status + (if length (items u) < cap then 0 else 1)"
proof -
  obtain ok u1 where p: "push Q e u = (ok, u1)" by fastforce
  note f = fifo_push [OF assms(1,3) p]
  have "items u' = (if length (items u) < cap then items u else tl (items u)) @ [e] \<and> length (items u') \<le> cap \<and>
     at_ui_events_dropped status' = at_ui_events_dropped status + (if length (items u) < cap then 0 else 1)"
  proof (cases ok)
    case True
    then show ?thesis using assms(4) p f by (simp add: publish_event_def)
  next
    case False
    then have full: "length (items u1) = cap" "items u1 = items u" using f assms(3) by auto
    then obtain x xs where x: "items u1 = x # xs" using assms(2) by (metis length_greater_0_conv list.exhaust)
    note popped = fifo_pop [OF assms(1) x]
    obtain ok2 u2 where p2: "push Q e (snd (pop Q u1)) = (ok2, u2)" by fastforce
    have "length (items (snd (pop Q u1))) < cap" using popped x full by simp
    then have "items u2 = xs @ [e]" "length (items u2) \<le> cap"
      using fifo_push [OF assms(1) _ p2] popped by auto
    moreover have "xs = tl (items u)" using x full(2) by (metis list.sel(3))
    ultimately show ?thesis using assms(4) p p2 False f full by (auto simp: publish_event_def)
  qed
  then show "items u' = (if length (items u) < cap then items u else tl (items u)) @ [e]"
    and "length (items u') \<le> cap"
    and "at_ui_events_dropped status' = at_ui_events_dropped status + (if length (items u) < cap then 0 else 1)"
    by blast+
qed

section \<open>What each step leaves alone\<close>

lemma publish_fields [simp]:
  "bw_pitches (publish E e w) = bw_pitches w" "bw_transport (publish E e w) = bw_transport w"
  "bw_host (publish E e w) = bw_host w"
  by (simp_all add: publish_def split: prod.splits)

lemma report_error_fields [simp]:
  "bw_pitches (report_error E r w) = bw_pitches w" "bw_transport (report_error E r w) = bw_transport w"
  "bw_host (report_error E r w) = bw_host w"
  by (simp_all add: report_error_def split: sum.splits)

lemma fold_publish_fields [simp]:
  "bw_pitches (fold (\<lambda>e. publish E (f e)) es w) = bw_pitches w"
  "bw_transport (fold (\<lambda>e. publish E (f e)) es w) = bw_transport w"
  by (induction es arbitrary: w) simp_all

lemma on_pitches_fields [simp]:
  "bw_pitches (on_pitches f w) = f (bw_pitches w)" "bw_transport (on_pitches f w) = bw_transport w"
  "bw_ui (on_pitches f w) = bw_ui w"
  by (simp_all add: on_pitches_def)

lemma forward_midi_fields [simp]:
  "bw_pitches (forward_midi E m w) = bw_pitches w" "bw_transport (forward_midi E m w) = bw_transport w"
  "bw_ui (forward_midi E m w) = bw_ui w"
  by (simp_all add: forward_midi_def Let_def split: prod.splits)

lemma store_status_fields [simp]:
  "bw_pitches (store_status E f w) = bw_pitches w" "bw_transport (store_status E f w) = bw_transport w"
  by (simp_all add: store_status_def Let_def)

lemma handle_transport_event_fields [simp]:
  "bw_pitches (handle_transport_event E event w) = bw_pitches w"
  "bw_transport (handle_transport_event E event w) = bw_transport w"
  by (cases event; simp add: handle_transport_event_def split: sum.split)+

section \<open>The pitch state over all events\<close>

lemma pitch_inv_stage: "pitch_inv s \<Longrightarrow> pitch_inv (stage_board_target M now s)"
  by (auto simp: pitch_inv_def stage_board_target_def has_pending_pitch_intent_def Let_def ran_def)

lemma pitch_inv_confirmed [simp]:
  "pitch_inv (s\<lparr>board_confirmed := x\<rparr>) = pitch_inv s" "pitch_inv (s\<lparr>board_snapshot_revision := y\<rparr>) = pitch_inv s"
  "pitch_inv (s\<lparr>board_retry_at := z\<rparr>) = pitch_inv s" "pitch_inv (s\<lparr>room_config := c\<rparr>) = pitch_inv s"
  by (simp_all add: pitch_inv_def)

lemma pitch_inv_no_target: "pitch_inv s \<Longrightarrow> pitch_inv (s\<lparr>board_target := None\<rparr>)"
  by (simp add: pitch_inv_def)

lemma pitch_inv_abandon: "pitch_inv s \<Longrightarrow> pitch_inv (abandon_pitch_intents s)"
  by (simp add: pitch_inv_def abandon_pitch_intents_def)

lemma pitch_inv_observe_config: "pitch_inv s \<Longrightarrow> pitch_inv (snd (observe_board_config c s))"
  by (simp add: observe_board_config_def pitch_inv_no_target)

lemma pitch_inv_observe_snapshot: "pitch_inv s \<Longrightarrow> pitch_inv (snd (observe_board_snapshot M now r c s))"
  by (simp add: observe_board_snapshot_def pitch_inv_no_target pitch_inv_stage Let_def)

lemma pitch_inv_due: "pitch_inv s \<Longrightarrow> pitch_inv (snd (board_target_due now s))"
  by (simp add: board_target_due_def split: option.splits)

lemma observed_edit_no_target:
  "observe_board_config c s = (BoardEdit, s') \<Longrightarrow> board_target s' = None"
  by (auto simp: observe_board_config_def split: if_splits)

lemma snapshot_never_edit [simp]: "observe_board_snapshot M now r c s \<noteq> (BoardEdit, s')"
  by (auto simp: observe_board_snapshot_def Let_def)

lemma observe_frame_edit:
  "observe_frame M now frame s = (Some (c, BoardEdit), s') \<Longrightarrow> board_target s' = None \<and> (\<forall>x. frame \<noteq> Pulse x)"
  by (cases frame) (auto simp: observe_frame_def dest: observed_edit_no_target split: prod.splits)

lemma pitch_inv_observed:
  "pitch_inv s \<Longrightarrow> observe_board_config c s = (x, s') \<Longrightarrow> pitch_inv s'"
  "pitch_inv s \<Longrightarrow> observe_board_snapshot M now r c s = (x, s') \<Longrightarrow> pitch_inv s'"
  using pitch_inv_observe_config [of s c] pitch_inv_observe_snapshot [of s M now r c] by simp_all

lemma pitch_inv_observe_frame:
  assumes "pitch_inv s" and "observe_frame M now frame s = (observed, s')"
  shows "pitch_inv s'"
  using assms by (cases frame) (auto simp: observe_frame_def dest: pitch_inv_observed split: prod.splits)

definition bridge_inv where
  "bridge_inv tinv ui_items ui_cap w \<longleftrightarrow>
     pitch_inv (bw_pitches w) \<and> tinv (bw_transport w) \<and> length (ui_items (bw_ui w)) \<le> ui_cap"

text \<open>The host events of a pass are for notes below 128.\<close>

definition input_ok where
  "input_ok input \<longleftrightarrow> list_all note_ok (in_releases input @ in_realtime input)"

lemma release_loop_length: "release_loop Q target ns (out, h) = (ok, out', h') \<Longrightarrow> length out' = length out"
  by (induction Q target ns "(out, h)" arbitrary: out h rule: release_loop.induct)
     (auto split: if_splits prod.splits)

lemma add_loop_length: "add_loop Q target ns (out, h) = (ok, out', h') \<Longrightarrow> length out' = length out"
  by (induction Q target ns "(out, h)" arbitrary: out h rule: add_loop.induct)
     (auto split: if_splits prod.splits)

lemma pitch_inv_output: "pitch_inv s \<Longrightarrow> length out = 128 \<Longrightarrow> pitch_inv (s\<lparr>output_notes := out\<rparr>)"
  by (simp add: pitch_inv_def)

lemma pitch_inv_reconcile:
  assumes "pitch_inv s" and "reconcile_host_output M QR QN enabled (s, h) = (s', h')"
  shows "pitch_inv s'"
proof -
  have "length (output_notes s) = 128" using assms(1) by (simp add: pitch_inv_def)
  then show ?thesis
    using assms
    by (auto simp: reconcile_host_output_def Let_def split: prod.splits bool.splits
        dest!: release_loop_length add_loop_length intro!: pitch_inv_output)
qed

section \<open>The thread keeps its invariant\<close>

text \<open>The thread over a transport with an invariant and a bounded queue to the user interface.\<close>

locale bridge_thread = host_worker "env_transport E" tinv
  for E :: "('t, 'p, 'd, 'pat, 'cfg, 'tr, 'q, 'r, 'u, 'run, 'pulse, 'h) bridge_env"
    and tinv :: "'tr \<Rightarrow> bool" +
  fixes ui_items :: "'u \<Rightarrow> ('run, 'pulse, 't, 'p, 'd, 'cfg, 'h) ui_event list"
    and ui_cap :: nat
  assumes ui_fifo: "fifo (env_ui E) ui_items ui_cap"
    and ui_cap: "0 < ui_cap"
begin

abbreviation thread_inv :: "('t, 'p, 'd, 'cfg, 'tr, 'q, 'r, 'u) bridge_worker \<Rightarrow> bool" where
  "thread_inv w \<equiv> bridge_inv tinv ui_items ui_cap w"

lemma inv_publish: "thread_inv w \<Longrightarrow> thread_inv (publish E e w)"
  using publish_event_items(2) [OF ui_fifo ui_cap, of "bw_ui w" e "bw_status w"]
  by (auto simp: bridge_inv_def publish_def split: prod.splits)

lemma inv_report: "thread_inv w \<Longrightarrow> thread_inv (report_error E r w)"
  by (simp add: report_error_def inv_publish split: sum.splits)

lemma inv_fold_publish: "thread_inv w \<Longrightarrow> thread_inv (fold (\<lambda>e. publish E (f e)) es w)"
  by (induction es arbitrary: w) (simp_all add: inv_publish)

lemma inv_on_pitches: "thread_inv w \<Longrightarrow> pitch_inv (f (bw_pitches w)) \<Longrightarrow> thread_inv (on_pitches f w)"
  by (simp add: bridge_inv_def)

lemma inv_pitches: "thread_inv w \<Longrightarrow> pitch_inv s \<Longrightarrow> thread_inv (w\<lparr>bw_pitches := s\<rparr>)"
  by (simp add: bridge_inv_def)

lemma inv_status: "thread_inv w \<Longrightarrow> thread_inv (w\<lparr>bw_status := st\<rparr>)"
  by (simp add: bridge_inv_def)

lemma inv_send_command: "thread_inv w \<Longrightarrow> command E c w = (res, w') \<Longrightarrow> thread_inv w' \<and> bw_pitches w' = bw_pitches w"
  using inv_command [of "bw_transport w" c] by (auto simp: bridge_inv_def command_def split: prod.splits)

lemma inv_transport_event: "thread_inv w \<Longrightarrow> thread_inv (handle_transport_event E event w)"
proof (cases event)
  case (Midi m)
  assume "thread_inv w"
  then show ?thesis by (simp add: Midi handle_transport_event_def bridge_inv_def)
qed (simp_all add: handle_transport_event_def store_status_def Let_def inv_publish inv_status split: sum.split)

lemma inv_board_edit:
  assumes "thread_inv w" and "board_target (bw_pitches w) = None" and "\<And>x. frame \<noteq> Pulse x"
  shows "\<exists>w'. publish_board_edit E frame config w = Some w' \<and> thread_inv w'"
proof (cases "plan_board_edit (env_music E) config (bw_pitches w)")
  case (Inl e)
  then show ?thesis using assms(1) by (simp add: publish_board_edit_def inv_report)
next
  case (Inr plan)
  obtain res s where a: "allocate_intent_token (bw_pitches w) = (res, s)" by fastforce
  have s: "pitch_inv s" "board_target s = None"
    using pitch_inv_allocate(1) [OF _ a] assms(1,2) a
    by (auto simp: bridge_inv_def allocate_intent_token_def Let_def split: option.splits)
  have edit: "\<exists>w'. (case res of
       Inl e \<Rightarrow> Some (report_error E (Inl e :: bridge_error + unit) (w\<lparr>bw_pitches := s\<rparr>))
     | Inr token \<Rightarrow>
         (case command E (PublishBoardEdit token frame (plan_settings plan) (plan_pitch_edits plan))
                 (w\<lparr>bw_pitches := s\<rparr>) of
            (Inl e, w') \<Rightarrow> Some (report_error E (Inl e :: bridge_error + unit) w')
          | (Inr _, w') \<Rightarrow>
              Some (on_pitches (track_pitch_intent (env_music E) token Board (plan_pitch_edits plan)) w'))) = Some w' \<and>
     thread_inv w'"
  proof (cases res)
    case (Inl e)
    then show ?thesis using assms(1) s by (simp add: inv_report inv_pitches)
  next
    case (Inr token)
    have t: "token < next_intent_token s" using pitch_inv_allocate(2) [OF _ a Inr] assms(1) by (simp add: bridge_inv_def)
    obtain res' w' where c: "command E (PublishBoardEdit token frame (plan_settings plan) (plan_pitch_edits plan))
        (w\<lparr>bw_pitches := s\<rparr>) = (res', w')" by fastforce
    note w' = inv_send_command [OF inv_pitches [OF assms(1) s(1)] c]
    show ?thesis
      using Inr c w' t s by (auto simp: inv_report inv_on_pitches pitch_inv_track split: sum.split)
  qed
  show ?thesis
    using assms(1,3) Inr a edit by (cases frame) (auto simp: publish_board_edit_def inv_report split: sum.splits)
qed

lemma inv_forward: "thread_inv w \<Longrightarrow> thread_inv (forward_board_frame E frame w)"
  using inv_send_command by (auto simp: forward_board_frame_def inv_report split: prod.splits)

lemma inv_board_frame:
  assumes "thread_inv w"
  shows "\<exists>w'. handle_board_frame E now frame w = Some w' \<and> thread_inv w'"
proof -
  obtain observed s where ob: "observe_frame (env_music E) now frame (bw_pitches w) = (observed, s)" by fastforce
  have s: "pitch_inv s" using pitch_inv_observe_frame [OF _ ob] assms by (simp add: bridge_inv_def)
  have edit: "board_target s = None \<and> (\<forall>x. frame \<noteq> Pulse x)" if "observed = Some (config, BoardEdit)" for config
    by (rule observe_frame_edit) (use ob that in simp)
  show ?thesis
  proof (cases "\<exists>config. observed = Some (config, BoardEdit)")
    case True
    then obtain config where c: "observed = Some (config, BoardEdit)" by blast
    then have "handle_board_frame E now frame w = publish_board_edit E frame config (w\<lparr>bw_pitches := s\<rparr>)"
      using ob by (simp add: handle_board_frame_def)
    moreover have "\<exists>w'. publish_board_edit E frame config (w\<lparr>bw_pitches := s\<rparr>) = Some w' \<and> thread_inv w'"
      by (rule inv_board_edit [OF inv_pitches [OF assms s]]) (use edit [OF c] in auto)
    ultimately show ?thesis by (simp only:)
  next
    case False
    have "handle_board_frame E now frame w =
        (case frame of Run _ _ \<Rightarrow> Some (forward_board_frame E frame (w\<lparr>bw_pitches := s\<rparr>))
           | Pulse _ \<Rightarrow> Some (forward_board_frame E frame (w\<lparr>bw_pitches := s\<rparr>)) | _ \<Rightarrow> Some (w\<lparr>bw_pitches := s\<rparr>))"
      using False ob
      by (cases observed) (auto simp: handle_board_frame_def Let_def split: board_config_observation.split)
    then show ?thesis
      using inv_pitches [OF assms s] inv_forward [OF inv_pitches [OF assms s]] by (cases frame) auto
  qed
qed

lemmas pitch_steps =
  pitch_inv_stage pitch_inv_no_target pitch_inv_abandon pitch_inv_retain

lemma inv_event:
  assumes "thread_inv w"
  shows "\<exists>w'. handle_event E now mode event w = Some w' \<and> thread_inv w'"
proof -
  have p: "pitch_inv (bw_pitches w)" using assms by (simp add: bridge_inv_def)
  show ?thesis
  proof (cases event)
    case (RoomPitchSet shared)
    obtain changed s where a: "apply_confirmed_room (env_music E) shared (bw_pitches w) = (changed, s)" by fastforce
    have "pitch_inv s" using pitch_inv_apply_room [OF p] a by (metis snd_conv)
    then show ?thesis
      using RoomPitchSet a assms
      by (simp add: handle_event_def Let_def inv_on_pitches inv_publish inv_pitches pitch_inv_stage)
  next
    case (BoardRoundTable frame)
    then show ?thesis using inv_board_frame [OF assms] by (simp add: handle_event_def)
  next
    case (RoundTable frame)
    then show ?thesis
      using assms p
      by (cases frame) (simp_all add: handle_event_def inv_transport_event inv_on_pitches pitch_inv_stage)
  next
    case (PitchIntentOutcome token outcome)
    then show ?thesis
      using assms p
      by (cases outcome)
         (simp_all add: handle_event_def Let_def inv_publish inv_on_pitches pitch_steps reject_pitch_intent_def)
  qed (use assms p in \<open>simp_all add: handle_event_def Let_def inv_transport_event inv_on_pitches inv_publish pitch_steps
         room_replaced_def reset_target_def abandon_board_pitch_intents_def abandon_pitch_intents_through_def\<close>)
qed

lemma inv_poll_loop:
  assumes "thread_inv w"
  shows "\<exists>w'. poll_loop E polls w = Some w' \<and> thread_inv w'"
  using assms
proof (induction polls arbitrary: w)
  case (Cons p polls)
  obtain now mode where p: "p = (now, mode)" by fastforce
  obtain res t where e: "poll_event (env_transport E) (bw_transport w) = (res, t)" by fastforce
  have t: "thread_inv (w\<lparr>bw_transport := t\<rparr>)"
    using Cons.prems e keeps_poll [of "bw_transport w"] by (simp add: bridge_inv_def)
  show ?case
  proof (cases res)
    case None
    then show ?thesis using p e t by simp
  next
    case (Some event)
    obtain w' where "handle_event E now mode event (w\<lparr>bw_transport := t\<rparr>) = Some w'" "thread_inv w'"
      using inv_event [OF t] by blast
    then show ?thesis using Cons.IH p e Some by simp
  qed
qed simp

lemma inv_host_input:
  assumes "thread_inv w" and "list_all note_ok (releases @ notes')"
  shows "\<exists>w'. host_input E releases notes' w = Some w' \<and> thread_inv w'"
proof -
  obtain errors s t where h: "host_input_pass (env_music E) (env_transport E) releases notes' (bw_pitches w, bw_transport w)
      = Some (errors, s, t)" "pitch_inv s" "tinv t"
    using inv_input_pass [of "(bw_pitches w, bw_transport w)" releases notes' "env_music E"] assms
    by (auto simp: bridge_inv_def)
  then have "thread_inv (w\<lparr>bw_pitches := s, bw_transport := t\<rparr>)" using assms(1) by (simp add: bridge_inv_def)
  then show ?thesis using h(1) by (simp add: host_input_def inv_fold_publish)
qed

lemma inv_ui_command: "thread_inv w \<Longrightarrow> thread_inv (ui_command E c w)"
  using inv_send_command by (auto simp: ui_command_def inv_report split: prod.splits)

lemma inv_ui_commands: "thread_inv w \<Longrightarrow> thread_inv (fold (ui_command E) cs w)"
  by (induction cs arbitrary: w) (simp_all add: inv_ui_command)

lemma inv_send_target:
  assumes "thread_inv w"
  shows "thread_inv (send_board_target E now w)"
proof -
  obtain due s where d: "board_target_due now (bw_pitches w) = (due, s)" by fastforce
  have s: "thread_inv (w\<lparr>bw_pitches := s\<rparr>)"
    using pitch_inv_due [of "bw_pitches w" now] d assms by (simp add: bridge_inv_def)
  show ?thesis
  proof (cases due)
    case None
    then show ?thesis using d s by (simp add: send_board_target_def)
  next
    case (Some target)
    obtain res w' where c: "command E (SendBoardRoundTable (Config target)) (w\<lparr>bw_pitches := s\<rparr>) = (res, w')" by fastforce
    show ?thesis using inv_send_command [OF s c] Some d c by (simp add: send_board_target_def inv_report)
  qed
qed

lemma inv_reconcile: "thread_inv w \<Longrightarrow> thread_inv (reconcile E enabled w)"
  by (auto simp: reconcile_def bridge_inv_def pitch_inv_reconcile split: prod.splits)

lemma inv_pass:
  assumes "thread_inv w" and "input_ok input"
  shows "\<exists>w'. bridge_pass E input w = Some w' \<and> thread_inv w'"
proof -
  obtain w1 where 1: "host_input E (in_releases input) (in_realtime input) (fold (ui_command E) (in_commands input) w) = Some w1"
      "thread_inv w1"
    using inv_host_input [OF inv_ui_commands [OF assms(1)], of "in_releases input" "in_realtime input"] assms(2)
    by (auto simp: input_ok_def)
  obtain w2 where 2: "poll_loop E (in_polls input) w1 = Some w2" "thread_inv w2"
    using inv_poll_loop [OF 1(2)] by blast
  show ?thesis using 1 2 by (simp add: bridge_pass_def inv_reconcile inv_send_target)
qed

lemma inv_passes:
  assumes "thread_inv w" and "list_all input_ok inputs"
  shows "\<exists>w'. bridge_passes E inputs w = Some w' \<and> thread_inv w'"
  using assms
proof (induction inputs arbitrary: w)
  case (Cons input inputs)
  obtain w1 where 1: "bridge_pass E input w = Some w1" "thread_inv w1"
    using inv_pass [OF Cons.prems(1)] Cons.prems(2) by auto
  then show ?case using Cons.IH [OF 1(2)] Cons.prems(2) by simp
qed simp

lemma inv_start:
  assumes "tinv t" and "length (ui_items u) \<le> ui_cap"
  shows "thread_inv (start_bridge E (worker_new E t h u))"
proof -
  obtain res t' where r: "start (env_transport E) t = (res, t')" "tinv t'"
    using keeps_start [OF assms(1)] by (metis prod.collapse)
  have "thread_inv ((worker_new E t h u)\<lparr>bw_transport := t', bw_status := status\<rparr>)" for status
    using assms(2) r(2) by (simp add: bridge_inv_def worker_new_def pitch_inv_default)
  from this [of "bw_status (worker_new E t h u)"] this r(1) show ?thesis
    by (cases res) (simp_all add: start_bridge_def worker_new_def inv_publish)
qed

end

section \<open>Staging for the board\<close>

text \<open>While an intent is pending nothing is staged. Otherwise the configuration of the room is on its way
  to the board, or the board has it.\<close>

definition board_staged where
  "board_staged M s \<longleftrightarrow>
     (if has_pending_pitch_intent s then board_target s = None
      else board_target s = Some (board_config M s) \<or>
           board_target s = None \<and> board_confirmed s = Some (board_config M s))"

lemma board_config_updates [simp]:
  "board_config M (s\<lparr>board_target := x\<rparr>) = board_config M s" "board_config M (s\<lparr>board_retry_at := y\<rparr>) = board_config M s"
  by (simp_all add: board_config_def room_midi_notes_def)

lemma stage_staged: "board_staged M (stage_board_target M now s)"
  by (simp add: board_staged_def stage_board_target_def Let_def has_pending_pitch_intent_def)

lemma board_staged_cong:
  "pending_classes t = pending_classes s \<Longrightarrow> board_target t = board_target s \<Longrightarrow> board_confirmed t = board_confirmed s \<Longrightarrow>
   board_config M t = board_config M s \<Longrightarrow> board_staged M t = board_staged M s"
  by (simp add: board_staged_def has_pending_pitch_intent_def)

lemma board_config_cong:
  "room_config t = room_config s \<Longrightarrow> shared_room t = shared_room s \<Longrightarrow> board_config M t = board_config M s"
  by (simp add: board_config_def room_midi_notes_def)

lemma pending_tracked: "board_target s = None \<Longrightarrow> has_pending_pitch_intent s \<Longrightarrow> board_staged M s"
  by (simp add: board_staged_def)

text \<open>The events after which the staging is right whatever it was: the room was replaced or its configuration changed, a board
  came up, or intents were given up.\<close>

fun settles where
  "settles s (RoomLink link) = (link \<noteq> Ready)"
| "settles s (RoomSelected name) = True"
| "settles s (BoardLink link) = (link = Ready)"
| "settles s (PitchIntentOutcome token outcome) = (outcome \<noteq> Applied)"
| "settles s (PitchIntentReset through) = True"
| "settles s (RoomPitchSet shared) = (shared_room s \<noteq> shared)"
| "settles s (RoundTable frame) = True"
| "settles s event = False"

text \<open>The events that take the target away: the board leaves; the board is edited; the room confirms the last pending intent by
  a set it already had.\<close>

fun unsettles where
  "unsettles M now s s' (BoardLink link) = (link \<noteq> Ready)"
| "unsettles M now s s' (BoardRoundTable frame) = (\<exists>config. fst (observe_frame M now frame s) = Some (config, BoardEdit))"
| "unsettles M now s s' (RoomPitchSet shared) =
     (shared_room s = shared \<and> has_pending_pitch_intent s \<and> \<not> has_pending_pitch_intent s')"
| "unsettles M now s s' event = False"

lemma snapshot_staged:
  assumes "board_staged M s"
  shows "board_staged M (snd (observe_board_snapshot M now revision config s))"
proof -
  define s1 where "s1 = s\<lparr>board_snapshot_revision := Some revision\<rparr>"
  have s1: "board_staged M s1"
    using assms board_staged_cong [of s1 s M] board_config_cong [of s1 s M] by (simp add: s1_def)
  have "board_staged M (s1\<lparr>board_confirmed := Some config, board_target := None, board_retry_at := None\<rparr>)"
    if "board_target s1 = Some config"
    using s1 that board_config_cong [of "s1\<lparr>board_confirmed := Some config, board_target := None, board_retry_at := None\<rparr>" s1 M]
    by (auto simp: board_staged_def has_pending_pitch_intent_def split: if_splits)
  moreover have "board_staged M (s1\<lparr>board_retry_at := Some now\<rparr>)"
    using s1 board_staged_cong [of "s1\<lparr>board_retry_at := Some now\<rparr>" s1 M] by simp
  ultimately show ?thesis
    using assms s1 unfolding observe_board_snapshot_def Let_def s1_def [symmetric] by (simp add: stage_staged)
qed

lemma frame_staged:
  assumes "board_staged M s" and "observe_frame M now frame s = (observed, s')"
  shows "board_staged M s' \<or> (\<exists>config. observed = Some (config, BoardEdit) \<and> board_target s' = None)"
proof (cases frame)
  case (ConfigSnapshot revision config)
  then show ?thesis
    using snapshot_staged [OF assms(1), of now revision config] assms(2) by (auto simp: observe_frame_def split: prod.splits)
qed (use assms in \<open>auto simp: observe_frame_def observe_board_config_def split: prod.splits if_splits\<close>)

lemma command_pitches: "command E c w = (res, w') \<Longrightarrow> bw_pitches w' = bw_pitches w"
  by (auto simp: command_def split: prod.splits)

lemma edit_target:
  assumes "publish_board_edit E frame config w = Some w'"
  shows "board_target (bw_pitches w') = board_target (bw_pitches w)"
  using assms
  by (auto simp: publish_board_edit_def allocate_intent_token_def Let_def track_pitch_intent_def dest!: command_pitches
      split: sum.splits round_table_frame.splits prod.splits option.splits)

lemma board_frame_staged:
  assumes "board_staged (env_music E) (bw_pitches w)" and "handle_board_frame E now frame w = Some w'"
  shows "board_staged (env_music E) (bw_pitches w') \<or>
     board_target (bw_pitches w') = None \<and> (\<exists>config. fst (observe_frame (env_music E) now frame (bw_pitches w)) = Some (config, BoardEdit))"
proof -
  obtain observed s where ob: "observe_frame (env_music E) now frame (bw_pitches w) = (observed, s)" by fastforce
  show ?thesis
  proof (cases "\<exists>config. observed = Some (config, BoardEdit)")
    case True
    then obtain config where c: "observed = Some (config, BoardEdit)" by blast
    have "board_target s = None"
      using ob c by (cases frame) (auto simp: observe_frame_def observe_board_config_def observe_board_snapshot_def Let_def
          split: prod.splits if_splits)
    then show ?thesis
      using assms(2) ob c edit_target [of E frame config "w\<lparr>bw_pitches := s\<rparr>" w']
      by (simp add: handle_board_frame_def)
  next
    case False
    then have "bw_pitches w' = s"
      using assms(2) ob by (auto simp: handle_board_frame_def Let_def forward_board_frame_def dest!: command_pitches
          split: option.splits prod.splits board_config_observation.splits round_table_frame.splits)
    then show ?thesis using frame_staged [OF assms(1) ob] False by blast
  qed
qed

lemma applied_staged:
  assumes "board_staged M s" and "apply_confirmed_room M (shared_room s) s = (changed, s')"
  shows "board_staged M s' \<or> board_target s' = None \<and> has_pending_pitch_intent s \<and> \<not> has_pending_pitch_intent s'"
proof -
  have s': "s' = retain_intents (\<lambda>d i. set_contains M (shared_room s) d \<noteq> pi_active i) s"
    using assms(2) by (auto simp: apply_confirmed_room_def)
  have "board_target s' = board_target s" "board_confirmed s' = board_confirmed s" "board_config M s' = board_config M s"
    by (simp_all add: s' retain_intents_def board_config_def room_midi_notes_def)
  moreover have "has_pending_pitch_intent s' \<Longrightarrow> has_pending_pitch_intent s"
    by (auto simp: s' has_pending_pitch_intent_def retain_intents_def split: option.splits)
  ultimately show ?thesis using assms(1) by (auto simp: board_staged_def split: if_splits)
qed

section \<open>A sequence of transport events\<close>

fun handle_events where
  "handle_events E [] w = Some w"
| "handle_events E ((now, mode, event) # events) w =
     (case handle_event E now mode event w of None \<Rightarrow> None | Some w' \<Rightarrow> handle_events E events w')"

text \<open>Events that neither retire the intent \<open>i\<close> of class \<open>d\<close> nor replace it.\<close>

fun keeps_intent where
  "keeps_intent M d i (RoomLink link) = (link = Ready)"
| "keeps_intent M d i (RoomSelected name) = False"
| "keeps_intent M d i (BoardLink link) = (link = Ready \<or> pi_source i \<noteq> Board)"
| "keeps_intent M d i (PitchIntentOutcome token outcome) = (outcome = Applied \<or> token \<noteq> pi_token i)"
| "keeps_intent M d i (PitchIntentReset through) = (through < pi_token i)"
| "keeps_intent M d i (RoomPitchSet shared) = (set_contains M shared d \<noteq> pi_active i)"
| "keeps_intent M d i (BoardRoundTable frame) = (\<exists>revision config. frame = ConfigSnapshot revision config)"
| "keeps_intent M d i event = True"

definition fenced where
  "fenced d i s \<longleftrightarrow> pending_classes s d = Some i \<and> board_target s = None"

lemma fenced_pending: "fenced d i s \<Longrightarrow> has_pending_pitch_intent s"
  by (auto simp: fenced_def has_pending_pitch_intent_def)

lemma stage_pending [simp]: "pending_classes (stage_board_target M now s) = pending_classes s"
  by (simp add: stage_board_target_def Let_def)

lemma stage_no_target: "pending_classes s d = Some i \<Longrightarrow> board_target (stage_board_target M now s) = None"
  by (auto simp: stage_board_target_def has_pending_pitch_intent_def)

lemma fenced_stage: "pending_classes s d = Some i \<Longrightarrow> fenced d i (stage_board_target M now s)"
  by (simp add: fenced_def stage_no_target)

lemma fenced_snapshot: "fenced d i s \<Longrightarrow> fenced d i (snd (observe_board_snapshot M now r c s))"
  using stage_no_target [of _ d i M now] by (auto simp: observe_board_snapshot_def Let_def fenced_def)

lemma fenced_event:
  assumes "fenced d i (bw_pitches w)" and "keeps_intent (env_music E) d i event"
  shows "\<exists>w'. handle_event E now mode event w = Some w' \<and> fenced d i (bw_pitches w')"
proof -
  have p: "pending_classes (bw_pitches w) d = Some i" "board_target (bw_pitches w) = None"
    using assms(1) by (simp_all add: fenced_def)
  show ?thesis
  proof (cases event)
    case (BoardRoundTable frame)
    then obtain r c where f: "frame = ConfigSnapshot r c" using assms(2) by auto
    obtain x s where ob: "observe_board_snapshot (env_music E) now r c (bw_pitches w) = (x, s)" by fastforce
    then have "x \<noteq> BoardEdit" by auto
    then show ?thesis
      using ob fenced_snapshot [OF assms(1), of "env_music E" now r c] BoardRoundTable f
      by (cases x) (simp_all add: handle_event_def handle_board_frame_def observe_frame_def Let_def)
  next
    case (RoundTable frame)
    then show ?thesis
      using p by (cases frame) (simp_all add: handle_event_def fenced_stage)
  next
    case (BoardLink link)
    then show ?thesis
      using p assms(2) stage_no_target [of _ d i "env_music E" now]
      by (auto simp: handle_event_def fenced_def reset_target_def abandon_board_pitch_intents_def retain_intents_def)
  next
    case (PitchIntentOutcome token outcome)
    then show ?thesis
      using p assms by (cases outcome) (auto simp: handle_event_def Let_def reject_pitch_intent_def retain_intents_def
          intro!: fenced_stage)
  qed (use p assms stage_no_target [of _ d i "env_music E" now] in \<open>auto simp: handle_event_def Let_def
         abandon_pitch_intents_through_def apply_confirmed_room_def retain_intents_def fenced_def\<close>)
qed

lemma fenced_events:
  assumes "fenced d i (bw_pitches w)" and "list_all (\<lambda>(now, mode, event). keeps_intent (env_music E) d i event) events"
  shows "\<exists>w'. handle_events E events w = Some w' \<and> fenced d i (bw_pitches w')"
  using assms
proof (induction events arbitrary: w)
  case (Cons e events)
  obtain now mode event where e: "e = (now, mode, event)" by (metis prod_cases3)
  obtain w1 where "handle_event E now mode event w = Some w1" "fenced d i (bw_pitches w1)"
    using fenced_event [OF Cons.prems(1), of E event now mode] Cons.prems(2) e by auto
  then show ?case using Cons.IH [of w1] Cons.prems(2) e by simp
qed simp

section \<open>Properties\<close>

text \<open>The event queue of the user interface keeps the newest events. After any sequence of events
  published to an empty queue it holds exactly the last ones, as many as it has room for, in order, and the
  status counts every event that was displaced.\<close>

theorem ui_queue_keeps_newest:
  assumes "fifo Q items cap" and "0 < cap" and "items u = []"
    and "fold (publish_event Q) events (u, status) = (u', status')"
  shows "items u' = drop (length events - cap) events \<and>
         at_ui_events_dropped status' = at_ui_events_dropped status + of_nat (length events - cap)"
  using assms(4)
proof (induction events arbitrary: u' status' rule: rev_induct)
  case Nil
  then show ?case using assms(3) by simp
next
  case (snoc e events)
  obtain u1 status1 where 1: "fold (publish_event Q) events (u, status) = (u1, status1)" by fastforce
  then have p: "publish_event Q e (u1, status1) = (u', status')" using snoc.prems by simp
  note IH = snoc.IH [OF 1]
  have le: "length (items u1) \<le> cap" using IH by simp
  note r = publish_event_items [OF assms(1,2) le p]
  show ?case
  proof (cases "length events < cap")
    case True
    then show ?thesis using r IH by simp
  next
    case False
    then have "Suc (length events) - cap = Suc (length events - cap)" by simp
    moreover have "tl (drop (length events - cap) events) = drop (Suc (length events - cap)) events"
      by (simp add: drop_Suc tl_drop)
    ultimately show ?thesis using r IH False assms(2) by simp
  qed
qed

text \<open>C27: The board follows the room. The staging is right when, while an intent is pending, nothing is staged for the board, and
  otherwise the configuration of the room is staged or the board has confirmed it. Every transport event the worker
  handles keeps it right, and a new room, a change of the room's set or configuration, a board that comes up and intents that are
  rejected or abandoned make it right whatever it was. There are three exceptions, all of which leave nothing staged:
  the board leaves; the board was edited, and its edit is on the way to the room; the room confirms the last pending intent by a
  set it already had.\<close>

theorem board_follows_room:
  assumes "handle_event E now mode event w = Some w'"
    and "board_staged (env_music E) (bw_pitches w) \<or> settles (bw_pitches w) event"
  shows "board_staged (env_music E) (bw_pitches w') \<or>
     board_target (bw_pitches w') = None \<and> unsettles (env_music E) now (bw_pitches w) (bw_pitches w') event"
proof (cases event)
  case (RoomPitchSet shared)
  obtain changed s where a: "apply_confirmed_room (env_music E) shared (bw_pitches w) = (changed, s)" by fastforce
  show ?thesis
  proof (cases "shared_room (bw_pitches w) = shared")
    case True
    then have "bw_pitches w' = s" "board_staged (env_music E) (bw_pitches w)"
      using assms RoomPitchSet a by (auto simp: handle_event_def Let_def apply_confirmed_room_def)
    then show ?thesis using applied_staged [of "env_music E" "bw_pitches w"] a True RoomPitchSet by auto
  next
    case False
    then show ?thesis
      using assms(1) RoomPitchSet by (auto simp: handle_event_def Let_def apply_confirmed_room_def stage_staged)
  qed
next
  case (BoardRoundTable frame)
  then show ?thesis using assms board_frame_staged [of E w now frame w'] by (simp add: handle_event_def)
next
  case (PitchIntentOutcome token outcome)
  then show ?thesis
    using assms by (cases outcome) (auto simp: handle_event_def Let_def stage_staged)
qed (use assms in \<open>auto simp: handle_event_def Let_def room_replaced_def stage_staged reset_target_def split: if_splits\<close>)

text \<open>The last exception strands the board. When the room confirms the only pending intents by the set it already had, as it does
  for a class that also sounds from a piece, the intents are retired but nothing is staged, although the
  configuration of the room may have changed while they were pending: the periodic sender has nothing to send.\<close>

theorem unchanged_room_strands_board:
  assumes "\<forall>i \<in> ran (pending_classes (bw_pitches w)). \<forall>d. pending_classes (bw_pitches w) d = Some i \<longrightarrow>
      set_contains (env_music E) (shared_room (bw_pitches w)) d = pi_active i"
    and "board_target (bw_pitches w) = None" and "board_confirmed (bw_pitches w) \<noteq> Some (board_config (env_music E) (bw_pitches w))"
  shows "\<exists>w'. handle_event E now mode (RoomPitchSet (shared_room (bw_pitches w))) w = Some w' \<and>
     \<not> has_pending_pitch_intent (bw_pitches w') \<and>
     board_confirmed (bw_pitches w') \<noteq> Some (board_config (env_music E) (bw_pitches w')) \<and> send_board_target E later w' = w'"
proof -
  let ?s = "retain_intents (\<lambda>d i. set_contains (env_music E) (shared_room (bw_pitches w)) d \<noteq> pi_active i) (bw_pitches w)"
  have "pending_classes ?s d = None" for d
    using assms(1) by (auto simp: retain_intents_def ran_def split: option.split)
  then have "\<not> has_pending_pitch_intent ?s" by (simp add: has_pending_pitch_intent_def fun_eq_iff)
  moreover have "board_config (env_music E) ?s = board_config (env_music E) (bw_pitches w)"
    by (rule board_config_cong) (simp_all add: retain_intents_def)
  ultimately show ?thesis
    using assms(2,3) by (simp add: handle_event_def apply_confirmed_room_def send_board_target_def board_target_due_def)
      (simp add: retain_intents_def)
qed

text \<open>C26: An edit made on the board is not painted over while it waits. In every state a thread reaches
  from its start, whatever the transport answers, as long as an intent of the board is pending the
  periodic sender sends nothing to the board.\<close>

theorem board_edit_not_repainted:
  fixes E :: "('t, 'p, 'd, 'pat, 'cfg, 'tr, 'q, 'r, 'u, 'run, 'pulse, 'h) bridge_env"
  assumes "list_all input_ok inputs" and "bridge_passes E inputs (start_bridge E (worker_new E t h u)) = Some w"
    and "fifo (env_ui E) items cap" and "0 < cap" and "items u = []"
    and "i \<in> ran (pending_classes (bw_pitches w))" and "pi_source i = Board"
  shows "send_board_target E now w = w"
proof -
  have thread: "bridge_thread E (\<lambda>_. True) items cap"
    by unfold_locales (simp_all add: assms(3,4))
  have start: "bridge_inv (\<lambda>_. True) items cap (start_bridge E (worker_new E t h u))"
    using bridge_thread.inv_start [OF thread] assms(5) by simp
  have "pitch_inv (bw_pitches w)"
    using bridge_thread.inv_passes [OF thread start assms(1)] assms(2) by (auto simp: bridge_inv_def)
  then have "board_target (bw_pitches w) = None" using assms(6,7) by (simp add: pitch_inv_def)
  then show ?thesis by (simp add: send_board_target_def board_target_due_def)
qed

text \<open>C28: An intent the room never confirms blocks the board. Once an intent is pending with nothing
  staged, the outcome \<open>Applied\<close> does not retire it, and as long as every confirmed set of the room
  disagrees with it (a class that also sounds from a piece, say, stays in the set after it was removed) the
  intent stays pending and nothing is ever staged for the board, through any number of snapshots,
  configuration changes of the room and new sessions of the board.\<close>

theorem unconfirmed_intent_blocks_board:
  assumes "pending_classes (bw_pitches w) d = Some i" and "board_target (bw_pitches w) = None"
    and "list_all (\<lambda>(now, mode, event). keeps_intent (env_music E) d i event) events"
  shows "\<exists>w'. handle_events E events w = Some w' \<and> pending_classes (bw_pitches w') d = Some i \<and>
           send_board_target E later w' = w'"
proof -
  obtain w' where w': "handle_events E events w = Some w'" "fenced d i (bw_pitches w')"
    using fenced_events [of d i w E events] assms by (auto simp: fenced_def)
  then have "send_board_target E later w' = w'"
    by (simp add: fenced_def send_board_target_def board_target_due_def)
  with w' show ?thesis by (auto simp: fenced_def)
qed

text \<open>A thread over a transport that accepts every command and delivers a script of events, for concrete
  runs.\<close>

definition scripted :: "('ev list, 'cmd, 'ev) bridge_transport" where
  "scripted =
     \<lparr>start = (\<lambda>t. (Inr (), t)), handle_command = (\<lambda>c t. (Inr (), t)), send_realtime = (\<lambda>e t. (Inr (), t)),
      poll_event = (\<lambda>t. case t of [] \<Rightarrow> (None, []) | e # es \<Rightarrow> (Some e, es)), shutdown = (\<lambda>t. t)\<rparr>"

definition small_env ::
  "(unit, u8, u8, u8 set, u8 set, (unit, unit, unit, u8, u8, u8 set, unit) worker_event list,
    realtime_midi list, realtime_midi list,
    (unit, unit, unit, u8, u8, u8 set, unit) ui_event list, unit, unit, unit) bridge_env" where
  "small_env =
     \<lparr>env_music = twelve_tone, env_transport = scripted, env_release = list_queue 128, env_realtime = list_queue 512,
      env_ui = list_queue 2,
      env_walkie = \<lparr>music_generation = 1, music_vocabulary_generation = 1, hhhs_strategy_version = 1,
         hhhs_repair_generation = 1, room_generation = 5, capabilities = 15\<rparr>,
      env_caps = \<lparr>cap_music = 1, cap_hhhs_repair = 2, cap_walkie_extension = 8\<rparr>\<rparr>"

definition one_poll :: "(unit, unit, unit, u8, u8 set) pass_input" where
  "one_poll = \<lparr>in_commands = [], in_releases = [], in_realtime = [], in_polls = [(0, GateSet)], in_now = 0,
     in_output_enabled = True\<rparr>"

definition small_worker ::
  "(unit, unit, unit, u8, u8, u8 set, unit) worker_event list \<Rightarrow>
   (unit, u8, u8, u8 set, (unit, unit, unit, u8, u8, u8 set, unit) worker_event list,
    realtime_midi list, realtime_midi list, (unit, unit, unit, u8, u8, u8 set, unit) ui_event list) bridge_worker" where
  "small_worker script = worker_new small_env script empty_queues []"

lemma small_env_sel [simp]:
  "env_music small_env = twelve_tone" "env_transport small_env = scripted" "env_ui small_env = list_queue 2"
  by (simp_all add: small_env_def)

lemma empty_room_pattern: "room_pattern twelve_tone (pitch_state_default twelve_tone) = {}"
proof -
  have "room_midi_notes twelve_tone (pitch_state_default twelve_tone) = replicate 128 False"
    by (intro nth_equalityI) (simp_all add: room_midi_notes_def pitch_state_default_def)
  moreover have "fold (\<lambda>(note, active) pattern. if active then f pattern note else pattern)
      (enumerate n (replicate k False)) p = (p :: u8 set)" for f n k p
    by (induction k arbitrary: n) simp_all
  ultimately show ?thesis by (simp add: room_pattern_def board_config_def twelve_tone_def)
qed

theorem ui_queue_keeps_newest_witness:
  "fst (fold (publish_event (list_queue 2)) [1, 2, 3 :: nat] ([], status_default)) = [2, 3]"
proof -
  obtain u st where r: "fold (publish_event (list_queue 2)) [1, 2, 3 :: nat] ([], status_default) = (u, st)" by fastforce
  show ?thesis using ui_queue_keeps_newest [OF list_queue_fifo _ _ r] r by simp
qed

theorem board_follows_room_witness:
  "board_staged twelve_tone (bw_pitches (handle_transport_event small_env (RoomSelected ''a'')
     (on_pitches (room_replaced twelve_tone 7) (small_worker []))))"
  using board_follows_room [of small_env 7 GateSet "RoomSelected ''a''" "small_worker []"]
  by (simp add: handle_event_def)

theorem unchanged_room_strands_board_witness:
  "\<exists>w'. handle_event small_env 0 GateSet (RoomPitchSet (shared_room (bw_pitches (small_worker [])))) (small_worker []) = Some w' \<and>
     send_board_target small_env 9 w' = w'"
proof -
  have "pending_classes (bw_pitches (small_worker [])) = Map.empty" "board_target (bw_pitches (small_worker [])) = None"
    "board_confirmed (bw_pitches (small_worker [])) = None"
    by (simp_all add: small_worker_def worker_new_def pitch_state_default_def)
  then show ?thesis
    using unchanged_room_strands_board [of "small_worker []" small_env 0 GateSet 9] by auto
qed

lemma pending_after_pass [simp]:
  "pending_classes (bw_pitches (reconcile E enabled w)) = pending_classes (bw_pitches w)"
  "pending_classes (bw_pitches (send_board_target E now w)) = pending_classes (bw_pitches w)"
  by (auto simp: reconcile_def reconcile_host_output_def send_board_target_def board_target_due_def command_def
      Let_def split: prod.splits bool.splits option.splits)

lemma small_start [simp]: "start_bridge small_env (worker_new small_env script empty_queues []) = small_worker script"
  by (simp add: start_bridge_def scripted_def small_worker_def worker_new_def)

text \<open>The board adds the pitch class of C in the first pass.\<close>

lemma board_plan:
  assumes "pending_classes s = Map.empty" and "shared_room s = shared_room (pitch_state_default twelve_tone)"
    and "room_config s = {}"
  shows "plan_board_edit twelve_tone {48} s =
     Inr \<lparr>plan_settings = None, plan_pitch_edits = [(\<lparr>tuning_id = (), tuned_item = 48\<rparr>, True)]\<rparr>"
proof -
  have "room_pattern twelve_tone s = room_pattern twelve_tone (pitch_state_default twelve_tone)"
    using assms(2) by (simp add: room_pattern_def board_config_def room_midi_notes_def twelve_tone_def)
  then have p: "room_pattern twelve_tone s = {}" by (simp add: empty_room_pattern)
  show ?thesis
    unfolding plan_board_edit_def p
    by (simp add: upt_rec [of 0 12] twelve_tone_def settings_only_def pitch_for_midi_def assms upt_conv_Cons)
qed

lemma twelve_tone_default [simp]: "default_config twelve_tone = {}"
  by (simp add: twelve_tone_def)

lemma board_edit_event:
  "\<exists>w. handle_event small_env 0 GateSet (BoardRoundTable (Config {48})) (small_worker []) = Some w \<and>
       (\<exists>i \<in> ran (pending_classes (bw_pitches w)). pi_source i = Board)"
  by (simp add: scripted_def small_worker_def
      worker_new_def handle_event_def handle_board_frame_def observe_frame_def observe_board_config_def
      pitch_state_default_def publish_board_edit_def board_plan allocate_intent_token_def command_def
      track_pitch_intent_def checked_succ_def ran_def Let_def on_pitches_def)

lemma small_worker_transport [simp]:
  "bw_transport (small_worker script) = script" "(small_worker script)\<lparr>bw_transport := t\<rparr> = small_worker t"
  by (simp_all add: small_worker_def worker_new_def)

lemma board_edit_run:
  "\<exists>w. bridge_passes small_env [one_poll] (start_bridge small_env
         (worker_new small_env [BoardRoundTable (Config {48})] empty_queues [])) = Some w \<and>
       (\<exists>i \<in> ran (pending_classes (bw_pitches w)). pi_source i = Board)"
proof -
  obtain w where w: "handle_event small_env 0 GateSet (BoardRoundTable (Config {48})) (small_worker []) = Some w"
      "\<exists>i \<in> ran (pending_classes (bw_pitches w)). pi_source i = Board"
    using board_edit_event by blast
  have "host_input small_env [] [] (small_worker script) = Some (small_worker script)" for script
    by (simp add: host_input_def host_input_pass_def)
  then show ?thesis
    using w by (simp add: one_poll_def bridge_pass_def scripted_def)
qed

theorem board_edit_not_repainted_witness:
  "\<exists>w. bridge_passes small_env [one_poll] (start_bridge small_env
         (worker_new small_env [BoardRoundTable (Config {48})] empty_queues [])) = Some w \<and>
       send_board_target small_env 9 w = w"
proof -
  obtain w i where w: "bridge_passes small_env [one_poll] (start_bridge small_env
         (worker_new small_env [BoardRoundTable (Config {48})] empty_queues [])) = Some w"
      "i \<in> ran (pending_classes (bw_pitches w))" "pi_source i = Board"
    using board_edit_run by blast
  have "fifo (env_ui small_env) (\<lambda>q. q) 2" by (simp add: list_queue_fifo)
  from board_edit_not_repainted [OF _ w(1) this _ _ w(2,3)] w(1) show ?thesis
    by (simp add: one_poll_def input_ok_def)
qed

text \<open>The class of C is sounding from a piece and the host asked to remove it.\<close>

definition piece_room :: "(unit, u8, u8) shared_pitch_set" where
  "piece_room = \<lparr>pitch_classes = {\<lparr>tuning_id = (), tuned_item = 0\<rparr>}, pitches = {}\<rparr>"

theorem unconfirmed_intent_blocks_board_witness:
  "\<exists>w'. handle_events small_env
      [(0, GateSet, PitchIntentOutcome 1 Applied), (1, GateSet, RoomPitchSet piece_room), (2, GateSet, BoardLink Ready)]
      (on_pitches (\<lambda>s. s\<lparr>pending_classes := [\<lparr>tuning_id = (), tuned_item = 0\<rparr> \<mapsto>
         \<lparr>pi_active = False, pi_token = 1, pi_source = Host\<rparr>]\<rparr>) (small_worker [])) = Some w' \<and>
    pending_classes (bw_pitches w') \<lparr>tuning_id = (), tuned_item = 0\<rparr> =
      Some \<lparr>pi_active = False, pi_token = 1, pi_source = Host\<rparr> \<and>
    send_board_target small_env 1000 w' = w'"
  by (rule unconfirmed_intent_blocks_board)
     (simp_all add: small_worker_def worker_new_def pitch_state_default_def piece_room_def set_contains_def)

end
