(* ===== verification/Session_Pitches.thy ===== *)
theory Session_Pitches
  imports Pitch_State
begin

text \<open>
  The speculative pitch projection of \<open>src/src/room/session.rs\<close>: \<open>PitchProjectionState\<close>, the projector of a
  session, and the decoding of pitch edits.

  A fact is identified by the manifest of its session, its dot and its event digest. The causal context an
  event carries (crate \<open>hhhs_session\<close>) is the parameter field \<open>observes\<close> of the event, the predicate the
  code asks of it. \<open>MusicOp\<close> (crate \<open>tutti_music\<close>) is the four pitch edits the code matches on and a
  constructor for every other command. A \<open>BTreeMap\<close> is a map, a \<open>BTreeSet\<close> a set.
\<close>

section \<open>Data\<close>

datatype ('t, 'p, 'd, 'o) music_op =
    AddDegree "('t, 'd) tuned_degree"
  | RemoveDegree "('t, 'd) tuned_degree"
  | AddPitch "('t, 'p) tuned_pitch"
  | RemovePitch "('t, 'p) tuned_pitch"
  | OtherOp 'o

record 'dot pending_pitch_fact_id =
  pf_manifest :: bytes
  pf_dot :: 'dot
  pf_event :: bytes

record ('t, 'p, 'd, 'o, 'dot) session_event =
  payload :: "('t, 'p, 'd, 'o) music_op"
  observes :: "'dot \<Rightarrow> bool"

type_synonym ('t, 'p, 'd, 'o, 'dot) session_fact =
  "'dot pending_pitch_fact_id \<times> ('t, 'p, 'd, 'o, 'dot) session_event"

record ('t, 'p, 'd, 'dot) pitch_projection_state =
  pp_base :: "('t, 'p, 'd) shared_pitch_set"
  removed_base_degrees :: "('t, 'd) tuned_degree set"
  removed_base_pitches :: "('t, 'p) tuned_pitch set"
  degree_adds :: "'dot pending_pitch_fact_id \<rightharpoonup> ('t, 'd) tuned_degree"
  pitch_adds :: "'dot pending_pitch_fact_id \<rightharpoonup> ('t, 'p) tuned_pitch"
  pp_visible :: "('t, 'p, 'd) shared_pitch_set"

section \<open>Operations\<close>

definition durable :: "('t, 'p, 'd) shared_pitch_set \<Rightarrow> ('t, 'p, 'd, 'dot) pitch_projection_state" where
  "durable base =
     \<lparr>pp_base = base, removed_base_degrees = {}, removed_base_pitches = {}, degree_adds = Map.empty,
      pitch_adds = Map.empty, pp_visible = base\<rparr>"

definition rebuild_visible ::
  "('t, 'p, 'd, 'dot) pitch_projection_state \<Rightarrow> ('t, 'p, 'd, 'dot) pitch_projection_state" where
  "rebuild_visible s =
     s\<lparr>pp_visible :=
         \<lparr>pitch_classes = pitch_classes (pp_base s) - removed_base_degrees s \<union> ran (degree_adds s),
          pitches = pitches (pp_base s) - removed_base_pitches s \<union> ran (pitch_adds s)\<rparr>\<rparr>"

text \<open>The closure of the two \<open>retain\<close> calls, on the map of adds.\<close>

definition retain_unobserved ::
  "'dot pending_pitch_fact_id \<Rightarrow> ('dot \<Rightarrow> bool) \<Rightarrow> 'x \<Rightarrow>
   ('dot pending_pitch_fact_id \<rightharpoonup> 'x) \<Rightarrow> ('dot pending_pitch_fact_id \<rightharpoonup> 'x)" where
  "retain_unobserved f sees x adds =
     (\<lambda>add. case adds add of
        None \<Rightarrow> None
      | Some candidate \<Rightarrow>
          if candidate \<noteq> x \<or> pf_manifest add \<noteq> pf_manifest f \<or> \<not> sees (pf_dot add) then Some candidate else None)"

definition apply_event ::
  "('t, 'p, 'd, 'o, 'dot) session_fact \<Rightarrow> ('t, 'p, 'd, 'dot) pitch_projection_state \<Rightarrow>
   (string + unit) \<times> ('t, 'p, 'd, 'dot) pitch_projection_state" where
  "apply_event fe s =
     (case fe of (f, event) \<Rightarrow>
      case payload event of
        AddDegree d \<Rightarrow> (Inr (), rebuild_visible (s\<lparr>degree_adds := (degree_adds s)(f \<mapsto> d)\<rparr>))
      | RemoveDegree d \<Rightarrow>
          (Inr (), rebuild_visible (s\<lparr>removed_base_degrees := insert d (removed_base_degrees s),
             degree_adds := retain_unobserved f (observes event) d (degree_adds s)\<rparr>))
      | AddPitch p \<Rightarrow> (Inr (), rebuild_visible (s\<lparr>pitch_adds := (pitch_adds s)(f \<mapsto> p)\<rparr>))
      | RemovePitch p \<Rightarrow>
          (Inr (), rebuild_visible (s\<lparr>removed_base_pitches := insert p (removed_base_pitches s),
             pitch_adds := retain_unobserved f (observes event) p (pitch_adds s)\<rparr>))
      | OtherOp _ \<Rightarrow> (Inl ''non-pitch command entered the pitch session projector'', s))"

fun is_pitch_edit :: "('t, 'p, 'd, 'o) music_op \<Rightarrow> bool" where
  "is_pitch_edit (OtherOp _) = False"
| "is_pitch_edit _ = True"

text \<open>\<open>decode\<close> of the command is a parameter, as in the carrier codec.\<close>

definition decode_pitch_edit ::
  "'code \<Rightarrow> (bytes \<Rightarrow> ('t, 'p, 'd, 'o) music_op option) \<Rightarrow> 'code \<Rightarrow> bytes \<Rightarrow> string + ('t, 'p, 'd, 'o) music_op" where
  "decode_pitch_edit pitch_edit decode_op code bs =
     (if code \<noteq> pitch_edit then Inl ''unknown pitch session event code''
      else case decode_op bs of
             None \<Rightarrow> Inl ''malformed pitch session command''
           | Some c \<Rightarrow> if is_pitch_edit c then Inr c else Inl ''non-pitch command in pitch session'')"

text \<open>The projector over a sequence of facts; it stops at the first error.\<close>

fun project ::
  "('t, 'p, 'd, 'o, 'dot) session_fact list \<Rightarrow> ('t, 'p, 'd, 'dot) pitch_projection_state \<Rightarrow>
   (string + unit) \<times> ('t, 'p, 'd, 'dot) pitch_projection_state" where
  "project [] s = (Inr (), s)"
| "project (fe # fes) s =
     (case apply_event fe s of (Inl e, s') \<Rightarrow> (Inl e, s') | (Inr _, s') \<Rightarrow> project fes s')"

section \<open>Adds and removes of one kind\<close>

text \<open>Degrees and pitches are two instances of the same set with observed removes. \<open>view\<close> says what an
  event is for one of them.\<close>

datatype 'x edit = Add 'x | Remove 'x | Neither

definition degree_edit :: "('t, 'p, 'd, 'o, 'dot) session_event \<Rightarrow> ('t, 'd) tuned_degree edit" where
  "degree_edit e = (case payload e of AddDegree d \<Rightarrow> Add d | RemoveDegree d \<Rightarrow> Remove d | _ \<Rightarrow> Neither)"

definition pitch_edit :: "('t, 'p, 'd, 'o, 'dot) session_event \<Rightarrow> ('t, 'p) tuned_pitch edit" where
  "pitch_edit e = (case payload e of AddPitch p \<Rightarrow> Add p | RemovePitch p \<Rightarrow> Remove p | _ \<Rightarrow> Neither)"

text \<open>The remove \<open>r\<close> cancels the add \<open>a\<close>: same member, same session, and the remove observed the add.\<close>

definition cancels where
  "cancels view r a \<longleftrightarrow>
     (\<exists>x. view (snd r) = Remove x \<and> view (snd a) = Add x) \<and>
     pf_manifest (fst a) = pf_manifest (fst r) \<and> observes (snd r) (pf_dot (fst a))"

text \<open>The specification: the add \<open>f\<close> of \<open>x\<close> is live among the facts.\<close>

definition live_add where
  "live_add view fes f x \<longleftrightarrow> (\<exists>e. (f, e) \<in> fes \<and> view e = Add x \<and> (\<forall>r \<in> fes. \<not> cancels view r (f, e)))"

text \<open>What one fact does to a map of adds.\<close>

definition adds_step where
  "adds_step view fe adds =
     (case view (snd fe) of
        Add x \<Rightarrow> adds(fst fe \<mapsto> x)
      | Remove x \<Rightarrow> retain_unobserved (fst fe) (observes (snd fe)) x adds
      | Neither \<Rightarrow> adds)"

text \<open>Delivery respects causality: no remove comes before an add it observed.\<close>

definition causal where
  "causal view fes \<longleftrightarrow> sorted_wrt (\<lambda>r a. \<not> cancels view r a) fes"

lemma causal_snoc: "causal view (fes @ [a]) \<longleftrightarrow> causal view fes \<and> (\<forall>r \<in> set fes. \<not> cancels view r a)"
  by (auto simp: causal_def sorted_wrt_append)

lemma adds_step_spec:
  assumes "causal view (fes @ [fe])" and "distinct (map fst (fes @ [fe]))"
    and "\<And>g x. adds g = Some x \<longleftrightarrow> live_add view (set fes) g x"
  shows "adds_step view fe adds g = Some x \<longleftrightarrow> live_add view (set (fes @ [fe])) g x"
proof -
  obtain f e where fe: "fe = (f, e)" by fastforce
  have new: "f \<notin> fst ` set fes" using assms(2) fe by auto
  have adds: "\<forall>r \<in> set fes. \<not> cancels view r (f, e)" using assms(1) fe by (simp add: causal_snoc)
  show ?thesis
  proof (cases "view e")
    case (Add y)
    have no: "\<not> cancels view (f, e) a" for a using Add by (simp add: cancels_def)
    have out: "(f, e') \<notin> set fes" for e' using new by force
    show ?thesis
    proof (cases "g = f")
      case True
      then show ?thesis using Add no out adds by (auto simp: adds_step_def fe live_add_def)
    next
      case False
      then show ?thesis using Add no assms(3) [of g x] by (auto simp: adds_step_def fe live_add_def)
    qed
  next
    case (Remove y)
    have k: "cancels view (f, e) (g, e') \<longleftrightarrow> view e' = Add y \<and> pf_manifest g = pf_manifest f \<and> observes e (pf_dot g)" for e'
      using Remove by (auto simp: cancels_def)
    have "adds_step view fe adds g = Some x \<longleftrightarrow>
        adds g = Some x \<and> \<not> (x = y \<and> pf_manifest g = pf_manifest f \<and> observes e (pf_dot g))"
      using Remove by (auto simp: adds_step_def fe retain_unobserved_def split: option.splits if_splits)
    then show ?thesis
      unfolding assms(3) [of g x] using Remove by (auto simp: fe live_add_def k)
  next
    case Neither
    have "\<not> cancels view (f, e) a" for a using Neither by (simp add: cancels_def)
    then show ?thesis
      using assms(3) [of g x] Neither by (auto simp: adds_step_def fe live_add_def)
  qed
qed

lemma adds_run_spec:
  assumes "causal view fes" and "distinct (map fst fes)"
  shows "fold (adds_step view) fes Map.empty g = Some x \<longleftrightarrow> live_add view (set fes) g x"
  using assms
proof (induction fes arbitrary: g x rule: rev_induct)
  case Nil
  then show ?case by (simp add: live_add_def)
next
  case (snoc fe fes)
  have "fold (adds_step view) fes Map.empty g = Some x \<longleftrightarrow> live_add view (set fes) g x" for g x
    using snoc.IH snoc.prems by (simp add: causal_snoc)
  from adds_step_spec [OF snoc.prems this] show ?case by simp
qed

section \<open>The projection\<close>

definition removed_in where
  "removed_in view fes = {x. \<exists>fe \<in> fes. view (snd fe) = Remove x}"

definition members where
  "members view base fes = base - removed_in view fes \<union> {x. \<exists>f. live_add view fes f x}"

lemma rebuild_fields [simp]:
  "degree_adds (rebuild_visible s) = degree_adds s" "pitch_adds (rebuild_visible s) = pitch_adds s"
  "removed_base_degrees (rebuild_visible s) = removed_base_degrees s"
  "removed_base_pitches (rebuild_visible s) = removed_base_pitches s" "pp_base (rebuild_visible s) = pp_base s"
  by (simp_all add: rebuild_visible_def)

definition rebuilt where
  "rebuilt s \<longleftrightarrow> rebuild_visible s = s"

lemma rebuild_rebuilt [simp]: "rebuilt (rebuild_visible s)"
  by (simp add: rebuilt_def rebuild_visible_def)

lemma durable_rebuilt: "rebuilt (durable base)"
  by (cases base) (simp add: rebuilt_def rebuild_visible_def durable_def)

definition projected where
  "projected fes s s' \<longleftrightarrow> rebuilt s' \<and> pp_base s' = pp_base s \<and>
     degree_adds s' = fold (adds_step degree_edit) fes (degree_adds s) \<and>
     pitch_adds s' = fold (adds_step pitch_edit) fes (pitch_adds s) \<and>
     removed_base_degrees s' = removed_in degree_edit (set fes) \<union> removed_base_degrees s \<and>
     removed_base_pitches s' = removed_in pitch_edit (set fes) \<union> removed_base_pitches s"

lemma removed_in_Cons: "removed_in view (insert fe fes) = removed_in view fes \<union> removed_in view {fe}"
  by (auto simp: removed_in_def)

lemma projected_Nil: "rebuilt s \<Longrightarrow> projected [] s s"
  by (simp add: projected_def removed_in_def)

lemma projected_Cons: "projected [fe] s s1 \<Longrightarrow> projected fes s1 s2 \<Longrightarrow> projected (fe # fes) s s2"
  by (simp add: projected_def removed_in_Cons [of _ fe "set fes"] Un_assoc)

lemma apply_event_effect:
  assumes "is_pitch_edit (payload (snd fe))"
  shows "\<exists>s'. apply_event fe s = (Inr (), s') \<and> projected [fe] s s'"
proof -
  obtain f e where fe: "fe = (f, e)" by fastforce
  show ?thesis
    using assms
    by (cases "payload e")
       (auto simp: fe apply_event_def adds_step_def removed_in_def degree_edit_def pitch_edit_def projected_def)
qed

lemma project_effect:
  assumes "list_all (\<lambda>fe. is_pitch_edit (payload (snd fe))) fes" and "rebuilt s"
  shows "\<exists>s'. project fes s = (Inr (), s') \<and> projected fes s s'"
  using assms
proof (induction fes arbitrary: s)
  case Nil
  then show ?case by (simp add: projected_Nil)
next
  case (Cons fe fes)
  obtain s1 where 1: "apply_event fe s = (Inr (), s1)" "projected [fe] s s1"
    using apply_event_effect [of fe s] Cons.prems by auto
  then have "rebuilt s1" by (simp add: projected_def)
  then obtain s2 where "project fes s1 = (Inr (), s2)" "projected fes s1 s2"
    using Cons.IH [of s1] Cons.prems by auto
  then show ?case using 1(1) projected_Cons [OF 1(2)] by simp
qed

lemma members_of_projection:
  assumes "list_all (\<lambda>fe. is_pitch_edit (payload (snd fe))) fes" and "distinct (map fst fes)"
    and "causal degree_edit fes" and "causal pitch_edit fes"
  shows "\<exists>s. project fes (durable base) = (Inr (), s) \<and>
     pp_visible s = \<lparr>pitch_classes = members degree_edit (pitch_classes base) (set fes),
                     pitches = members pitch_edit (pitches base) (set fes)\<rparr>"
proof -
  from project_effect [OF assms(1) durable_rebuilt [of base]] obtain s where s: "project fes (durable base) = (Inr (), s)" "rebuilt s" "pp_base s = base"
      "degree_adds s = fold (adds_step degree_edit) fes Map.empty" "pitch_adds s = fold (adds_step pitch_edit) fes Map.empty"
      "removed_base_degrees s = removed_in degree_edit (set fes)" "removed_base_pitches s = removed_in pitch_edit (set fes)"
    by (auto simp: projected_def durable_def)
  have "pp_visible s = pp_visible (rebuild_visible s)" using s(2) by (simp add: rebuilt_def)
  also have "\<dots> = \<lparr>pitch_classes = members degree_edit (pitch_classes base) (set fes),
                     pitches = members pitch_edit (pitches base) (set fes)\<rparr>"
    using adds_run_spec [OF assms(3,2)] adds_run_spec [OF assms(4,2)]
    by (simp add: rebuild_visible_def s members_def ran_def)
  finally show ?thesis using s(1) by blast
qed

section \<open>Properties\<close>

text \<open>C18: The speculative set is a set with observed removes. After any causally ordered sequence of
  distinct pitch edits on a durable base the projector succeeds and shows exactly: the members of the base
  that no edit removed, and the members with an add that no remove of the same session observed. An add
  concurrent with a remove therefore wins.\<close>

theorem projection_members:
  assumes "list_all (\<lambda>fe. is_pitch_edit (payload (snd fe))) fes" and "distinct (map fst fes)"
    and "causal degree_edit fes" and "causal pitch_edit fes"
  shows "\<exists>s. project fes (durable base) = (Inr (), s) \<and>
     pp_visible s = \<lparr>pitch_classes = members degree_edit (pitch_classes base) (set fes),
                     pitches = members pitch_edit (pitches base) (set fes)\<rparr>"
  using members_of_projection [OF assms] .

text \<open>C20: Both sides of a session see the same set. Two causally ordered deliveries of the same edits,
  in whatever order, end with the same visible set.\<close>

theorem projection_converges:
  assumes "list_all (\<lambda>fe. is_pitch_edit (payload (snd fe))) fes" and "distinct (map fst fes)"
    and "causal degree_edit fes" and "causal pitch_edit fes"
    and "distinct (map fst fes')" and "causal degree_edit fes'" and "causal pitch_edit fes'"
    and "set fes' = set fes"
  shows "pp_visible (snd (project fes' (durable base))) = pp_visible (snd (project fes (durable base)))"
proof -
  have "list_all (\<lambda>fe. is_pitch_edit (payload (snd fe))) fes'" using assms(1,8) by (simp add: list_all_iff)
  then obtain s' where s': "project fes' (durable base) = (Inr (), s')"
     "pp_visible s' = \<lparr>pitch_classes = members degree_edit (pitch_classes base) (set fes'),
                     pitches = members pitch_edit (pitches base) (set fes')\<rparr>"
    using members_of_projection [OF _ assms(5-7)] by blast
  obtain s where "project fes (durable base) = (Inr (), s)"
     "pp_visible s = \<lparr>pitch_classes = members degree_edit (pitch_classes base) (set fes),
                     pitches = members pitch_edit (pitches base) (set fes)\<rparr>"
    using members_of_projection [OF assms(1-4)] by blast
  then show ?thesis using s' assms(8) by simp
qed

text \<open>One side adds a class while the other removes it, neither having seen the other.\<close>

definition fact_at :: "nat \<Rightarrow> nat pending_pitch_fact_id" where
  "fact_at n = \<lparr>pf_manifest = [], pf_dot = n, pf_event = []\<rparr>"

definition blind :: "(unit, u8, u8, unit) music_op \<Rightarrow> (unit, u8, u8, unit, nat) session_event" where
  "blind op = \<lparr>payload = op, observes = (\<lambda>_. False)\<rparr>"

abbreviation c_class :: "(unit, u8) tuned_degree" where
  "c_class \<equiv> \<lparr>tuning_id = (), tuned_item = 0\<rparr>"

definition race :: "(unit, u8, u8, unit, nat) session_fact list" where
  "race = [(fact_at 1, blind (AddDegree c_class)), (fact_at 2, blind (RemoveDegree c_class))]"

lemma race_ok:
  "list_all (\<lambda>fe. is_pitch_edit (payload (snd fe))) race" "distinct (map fst race)" "distinct (map fst (rev race))"
  "causal view race" "causal view (rev race)"
  by (simp_all add: race_def blind_def fact_at_def causal_def cancels_def)

theorem projection_members_witness:
  "\<exists>s. project race (durable \<lparr>pitch_classes = {c_class}, pitches = {}\<rparr>) = (Inr (), s) \<and>
       c_class \<in> pitch_classes (pp_visible s)"
proof -
  have "live_add degree_edit (set race) (fact_at 1) c_class"
    by (auto simp: live_add_def race_def blind_def degree_edit_def cancels_def)
  then show ?thesis
    using projection_members [OF race_ok(1,2,4,4), of "\<lparr>pitch_classes = {c_class}, pitches = {}\<rparr>"]
    by (auto simp: members_def)
qed

theorem projection_converges_witness:
  "pp_visible (snd (project (rev race) (durable \<lparr>pitch_classes = {}, pitches = {}\<rparr>))) =
   pp_visible (snd (project race (durable \<lparr>pitch_classes = {}, pitches = {}\<rparr>)))"
  by (rule projection_converges) (simp_all add: race_ok)

end
