(* ===== verification/Session_Crates.thy ===== *)
theory Session_Crates
  imports Session_Pitches Session_Carrier Session_Gate Feedback Byte_Codec Effects "HOL-Library.List_Lexorder"
begin

text \<open>
  What the session task of \<open>src/src/room/session.rs\<close> exchanges and what it uses of other crates.

  Values of crates \<open>hhhs\<close>, \<open>hhhs_cap\<close>, \<open>hhhs_proof\<close>, \<open>hhhs_replica\<close>, \<open>hhhs_session\<close> and \<open>tutti_session\<close> are
  opaque to the task. They are all of one type \<open>'x\<close>, so that one parameter record, \<open>hhhs\<close>, has the functions
  of these crates; a theorem for every \<open>'x\<close> and every such record holds for the disjoint union of the
  crates' types. \<open>'d\<close> is \<open>SessionDot\<close>, which the code uses as an ordered key. An actor, a digest and an entry
  hash are byte strings, ordered like the arrays of the source. Errors of other crates are their texts; the
  text of a CBOR error is left out.

  The ports of the task (renewal store, clocks, randomness, application frames, the reification queue) are
  the record \<open>session_ports\<close> of functions on a world \<open>'w\<close>. The task awaits each call before its next step
  and is the only one to change its state, so a handler is a sequence of such calls.
\<close>

section \<open>Messages\<close>

type_synonym 'x pitch_op = "('x, 'x, 'x, 'x) music_op"
type_synonym 'x pitch_view = "('x, 'x, 'x) shared_pitch_set"
type_synonym ('x, 'd) pitch_state = "('x, 'x, 'x, 'd) pitch_projection_state"
type_synonym 'x projection = "'x pitch_view session_projection"
type_synonym ('x, 'd) projector =
  "('x, 'x, 'x, 'x, 'd) session_fact \<Rightarrow> ('x, 'd) pitch_state \<Rightarrow> (string + unit) \<times> ('x, 'd) pitch_state"

record room_identity =
  id_object :: bytes
  id_music :: bytes
  id_extension :: bytes

record 'x foundation =
  fo_identity :: room_identity
  fo_local :: bytes
  fo_peer :: bytes
  fo_signing_key :: 'x
  fo_history :: 'x
  fo_music_root :: bytes
  fo_local_grants :: "bytes list"
  fo_peer_grants :: "bytes list"
  fo_durable_view :: "'x pitch_view"
  fo_durable_revision :: u64

record renewal_key =
  rk_room :: bytes
  rk_local :: bytes
  rk_peer :: bytes

record durable_correlation =
  dc_manifest :: bytes
  dc_epoch :: u32
  dc_seat :: u8
  dc_counter :: u32
  dc_event :: bytes

record epoch_identity =
  ei_peer :: bytes
  ei_manifest :: bytes
  ei_session_id :: u64
  ei_epoch :: u32

record trace_token =
  tt_scope :: u64
  tt_sequence :: u64

datatype trace_direction = Local | Remote

record compact_trace =
  ct_token :: "trace_token option"
  ct_correlation :: durable_correlation
  ct_direction :: trace_direction
  ct_worker_accepted :: "u64 option"
  ct_carrier_received :: "u64 option"
  ct_worker_authenticated :: "u64 option"
  ct_worker_authorized :: "u64 option"
  ct_worker_interpreted :: "u64 option"
  ct_worker_projected :: "u64 option"

datatype renewal_trace_stage = RecoveredFloor | OfferStarted | StaleOfferRefused | SessionInstalled

record renewal_trace =
  rt_stage :: renewal_trace_stage
  rt_peer :: bytes
  rt_epoch :: u32
  rt_floor_epoch :: "u32 option"

datatype renewal_store_operation = Load | Persist "bytes list" bytes | MigrateLegacy bytes

record renewal_store_request =
  rq_request :: u64
  rq_key :: renewal_key
  rq_operation :: renewal_store_operation

record 'x realtime_egress =
  re_projection :: "'x projection"
  re_carrier :: "bytes option"
  re_durable :: "durable_correlation list"
  re_intent_token :: "intent_token option"
  re_trace :: "compact_trace option"

datatype 'x session_ingress =
    LocalPitchEdit "'x pitch_op" intent_token "trace_token option"
  | CarrierFrame bytes "u64 option"

datatype 'x session_egress =
    CarrierOut bytes
  | RealtimeOut "'x realtime_egress"
  | FallbackDurable "'x pitch_op" intent_token
  | IntentRejected intent_token string
  | RenewalStore renewal_store_request
  | DiagnosticOut string
  | RenewalTrace renewal_trace

record 'x reification =
  rf_peer :: bytes
  rf_session :: epoch_identity
  rf_plan :: 'x
  rf_command :: "'x pitch_op"
  rf_intent_token :: "intent_token option"

section \<open>What is used of other crates\<close>

text \<open>Arguments of the builders of \<open>SessionManifest\<close> and \<open>SessionPolicy\<close>.\<close>

record 'x manifest_spec =
  ms_epoch :: u32
  ms_namespace :: bytes
  ms_base :: 'x
  ms_rules :: bytes
  ms_vocabulary :: bytes
  ms_area :: 'x
  ms_allowed :: 'x
  ms_lease :: "u64 \<times> u64"
  ms_max_events_per_seat :: u32
  ms_max_message_bytes :: u32
  ms_security_profile :: 'x
  ms_channel_binding :: bytes
  ms_seats :: "('x \<times> 'x) list"

record 'x policy_spec =
  ps_namespace :: bytes
  ps_rules :: bytes
  ps_vocabulary :: bytes
  ps_area :: 'x
  ps_supported :: 'x
  ps_foundation_profiles :: "'x list"
  ps_security_profiles :: "'x list"
  ps_max_seats :: nat
  ps_max_duration :: u64
  ps_max_events_per_seat :: u32
  ps_max_message_bytes :: u32

text \<open>\<open>DurableProjection\<close> and the snapshot of a projection host.\<close>

record ('x, 'd) durable_projection =
  dp_revision :: u64
  dp_frontier :: 'x
  dp_root :: bytes
  dp_view :: "('x, 'd) pitch_state"

record ('x, 'd) projection_snapshot =
  sn_generation :: u64
  sn_sequence :: u64
  sn_durable :: "('x, 'd) durable_projection"
  sn_view :: "('x, 'd) pitch_state"

datatype projection_change =
    ChangePredicted
  | ChangeSimulationAdvanced
  | ChangeConfirmed
  | ChangeCorrected
  | ChangeRejected
  | ChangeDurableAdvanced
  | ChangeReset
  | ChangeOther

datatype reification_error = UnreifiedDependency | OtherReification string

text \<open>The serde representations behind \<open>encode\<close> and \<open>decode\<close>.\<close>

record 'x session_serde =
  write_egress :: "'x session_egress versioned \<Rightarrow> bytes option"
  read_ingress :: "bytes \<Rightarrow> 'x session_ingress versioned option"
  write_carrier :: "bytes carrier_body versioned \<Rightarrow> bytes option"
  read_carrier :: "bytes \<Rightarrow> bytes carrier_body versioned option"
  write_op :: "'x pitch_op versioned \<Rightarrow> bytes option"
  read_op :: "bytes \<Rightarrow> 'x pitch_op versioned option"

text \<open>History, capabilities, proofs, manifests and renewal floors. \<open>renewal_install\<close> is what
  \<open>install_with_async\<close> hands to its closure (the expected frontier and the floor's bytes), \<open>renewal_parts\<close> the
  session and the floor it gives when the closure succeeded.\<close>

record 'x authority_ops =
  digest_of :: "bytes \<Rightarrow> bytes"
  profile_for_domain :: "bytes \<Rightarrow> 'x"
  security_profile_id :: 'x
  notes_area :: "bytes \<Rightarrow> 'x"
  root_area :: "bytes \<Rightarrow> 'x"
  durable_command :: 'x
  receiver_of :: "bytes \<Rightarrow> 'x"
  frontier :: "'x \<Rightarrow> 'x"
  history_root :: "'x \<Rightarrow> bytes"
  position_entries :: "'x \<Rightarrow> bytes list"
  manifest_build :: "'x manifest_spec \<Rightarrow> string + 'x"
  manifest_epoch :: "'x \<Rightarrow> u32"
  manifest_base :: "'x \<Rightarrow> 'x"
  manifest_digest :: "'x \<Rightarrow> bytes"
  manifest_channel_binding :: "'x \<Rightarrow> bytes"
  manifest_rules :: "'x \<Rightarrow> bytes"
  manifest_vocabulary :: "'x \<Rightarrow> bytes"
  claim_new :: "u8 \<Rightarrow> 'x \<Rightarrow> 'x \<Rightarrow> bytes list \<Rightarrow> bytes \<Rightarrow> 'x \<Rightarrow> string + 'x"
  claim_bytes :: "'x \<Rightarrow> bytes"
  claim_receiver :: "'x \<Rightarrow> 'x"
  claim_presented :: "'x \<Rightarrow> bytes list"
  context_new :: "bytes \<Rightarrow> bytes \<Rightarrow> 'x \<Rightarrow> 'x \<Rightarrow> string + 'x"
  present :: "'x \<Rightarrow> bytes list \<Rightarrow> 'x \<Rightarrow> string + 'x"
  presentation_encode :: "'x \<Rightarrow> bytes"
  presentation_decode :: "bytes \<Rightarrow> string + 'x"
  register_verifier :: "string + unit"
  verify_presentation :: "'x \<Rightarrow> 'x \<Rightarrow> string + 'x"
  verified_receiver :: "'x \<Rightarrow> 'x"
  verified_presented :: "'x \<Rightarrow> bytes list"
  verified_context :: "'x \<Rightarrow> 'x"
  assume_verified :: "'x \<Rightarrow> 'x"
  policy_build :: "'x policy_spec \<Rightarrow> string + 'x"
  capture :: "'x \<Rightarrow> bytes list \<Rightarrow> 'x"
  authorize_session :: "'x \<Rightarrow> 'x \<Rightarrow> 'x \<Rightarrow> 'x list \<Rightarrow> string + 'x"
  authorize_session_renewal :: "'x \<Rightarrow> 'x \<Rightarrow> 'x \<Rightarrow> 'x \<Rightarrow> 'x list \<Rightarrow> string + 'x"
  renewal_install :: "'x \<Rightarrow> 'x \<times> bytes"
  renewal_parts :: "'x \<Rightarrow> 'x \<times> 'x"
  floor_from_authorized :: "'x \<Rightarrow> 'x"
  floor_epoch :: "'x \<Rightarrow> u32"
  floor_base :: "'x \<Rightarrow> 'x"
  floor_next_epoch :: "'x \<Rightarrow> string + u32"
  floor_to_bytes :: "'x \<Rightarrow> bytes"
  floor_from_bytes :: "bytes \<Rightarrow> string + 'x"
  auth_manifest :: "'x \<Rightarrow> 'x"

text \<open>The handshake.\<close>

record 'x establishment_ops =
  protocol_derive :: "bytes \<Rightarrow> 'x"
  channel_binding_derive :: "bytes \<Rightarrow> bytes"
  initiator_begin :: "'x \<Rightarrow> 'x \<Rightarrow> bytes \<Rightarrow> u64 \<Rightarrow> bytes \<Rightarrow> 'x \<times> bytes"
  offer_decode :: "bytes \<Rightarrow> string + 'x"
  offer_verify :: "'x \<Rightarrow> bytes \<Rightarrow> 'x \<Rightarrow> string + 'x"
  offer_identity :: "'x \<Rightarrow> bytes"
  offer_respond :: "'x \<Rightarrow> bytes \<Rightarrow> 'x \<Rightarrow> string + bytes \<times> 'x"
  initiator_complete :: "bytes \<Rightarrow> bytes \<Rightarrow> 'x \<Rightarrow> string + 'x"
  export_directional :: "bytes \<Rightarrow> 'x \<Rightarrow> bytes \<times> bytes"

text \<open>The lanes, the kernel, the projection host and the planner of a session.\<close>

record ('x, 'd) runtime_ops =
  binding_new :: "'x \<Rightarrow> u32 \<Rightarrow> u8 \<Rightarrow> u8 \<Rightarrow> string + 'x"
  key_from_bytes :: "bytes \<Rightarrow> 'x"
  nonce_source :: "'x \<Rightarrow> string + 'x"
  cipher_profile :: "'x \<Rightarrow> 'x"
  sender_new :: "'x \<Rightarrow> 'x \<Rightarrow> 'x \<Rightarrow> string + 'x"
  receiver_new :: "'x \<Rightarrow> 'x \<Rightarrow> 'x \<Rightarrow> string + 'x"
  packet_codec :: "'x \<Rightarrow> string + 'x"
  kernel_new :: "'x \<Rightarrow> string + 'x"
  initial_cut :: "'x \<Rightarrow> string + 'x"
  projection_new :: "'x \<Rightarrow> 'x \<Rightarrow> u64 \<Rightarrow> u64 \<Rightarrow> ('x, 'd) durable_projection \<Rightarrow> string + 'x"
  planner_new :: "'x \<Rightarrow> string + 'x"
  remaining_causal_events :: "'x \<Rightarrow> u32"
  highest_sealed_counter :: "'x \<Rightarrow> u32"
  event_budget_exhausted :: "'x \<Rightarrow> bool"
  remaining_event_budget :: "u8 \<Rightarrow> 'x \<Rightarrow> u32 option"
  ready_cut :: "'x \<Rightarrow> 'x"
  cut_context :: "'x \<Rightarrow> 'x"
  header_new :: "'x \<Rightarrow> u32 \<Rightarrow> 'x \<Rightarrow> nat \<Rightarrow> u64 \<Rightarrow> string + 'x"
  seal :: "'x \<Rightarrow> bytes \<Rightarrow> 'x \<Rightarrow> (string + 'x) \<times> 'x"
  packet_encode :: "'x \<Rightarrow> 'x \<Rightarrow> 'x \<Rightarrow> string + bytes"
  packet_decode :: "'x \<Rightarrow> 'x \<Rightarrow> bytes \<Rightarrow> string + 'x"
  packet_effective_at :: "'x \<Rightarrow> u64"
  receive :: "'x \<Rightarrow> 'x \<Rightarrow> (string + 'x) \<times> 'x"
  received_fresh :: "'x \<Rightarrow> bool"
  received_code :: "'x \<Rightarrow> nat"
  received_payload :: "'x \<Rightarrow> bytes"
  with_payload :: "'x \<Rightarrow> 'x pitch_op \<Rightarrow> 'x"
  permit_event :: "'x \<Rightarrow> u64 \<Rightarrow> 'x \<Rightarrow> nat \<Rightarrow> string + 'x"
  permitted_dot :: "'x \<Rightarrow> 'd"
  permitted_manifest :: "'x \<Rightarrow> bytes"
  permitted_identity :: "'x \<Rightarrow> bytes"
  dot_epoch :: "'d \<Rightarrow> u32"
  dot_seat :: "'d \<Rightarrow> u8"
  dot_counter :: "'d \<Rightarrow> u32"
  kernel_ingest :: "'x \<Rightarrow> 'x \<Rightarrow> (string + bool) \<times> 'x"
  snapshot_of :: "'x \<Rightarrow> ('x, 'd) projection_snapshot"
  durable_of :: "'x \<Rightarrow> ('x, 'd) durable_projection"
  projected_cut :: "'x \<Rightarrow> 'x"
  pending_len :: "'x \<Rightarrow> nat"
  advance_simulation :: "u64 \<Rightarrow> ('x, 'd) projector \<Rightarrow> 'x \<Rightarrow> (string + projection_change option) \<times> 'x"
  predict_between :: "'x \<Rightarrow> 'x \<Rightarrow> 'x \<Rightarrow> ('x, 'd) projector \<Rightarrow> 'x \<Rightarrow> (string + projection_change option) \<times> 'x"
  projection_confirm ::
    "'x \<Rightarrow> ('x, 'd) durable_projection \<Rightarrow> ('x, 'd) projector \<Rightarrow> 'x \<Rightarrow> (string + projection_change option) \<times> 'x"
  projection_advance_durable ::
    "('x, 'd) durable_projection \<Rightarrow> ('x, 'd) projector \<Rightarrow> 'x \<Rightarrow> (string + projection_change) \<times> 'x"
  projection_resynchronize ::
    "u64 \<Rightarrow> 'x \<Rightarrow> u64 \<Rightarrow> ('x, 'd) durable_projection \<Rightarrow> 'x \<Rightarrow> nat \<Rightarrow> ('x, 'd) projector \<Rightarrow> 'x \<Rightarrow>
     (string + projection_change) \<times> 'x"
  planner_plan :: "'x \<Rightarrow> 'd \<Rightarrow> 'x \<Rightarrow> (reification_error + 'x) \<times> 'x"
  plan_manifest :: "'x \<Rightarrow> bytes"
  plan_dot :: "'x \<Rightarrow> 'd"
  plan_event :: "'x \<Rightarrow> bytes"
  record_admission :: "'x \<Rightarrow> 'x \<Rightarrow> 'x \<Rightarrow> 'x \<Rightarrow> (string + 'x) \<times> 'x"
  record_observed_admission :: "'x \<Rightarrow> 'x \<Rightarrow> 'x \<Rightarrow> 'x \<Rightarrow> (string + 'x) \<times> 'x"
  admission_from_replica :: "'x \<Rightarrow> 'x \<Rightarrow> nat \<Rightarrow> string + 'x"
  has_session_domain :: "'x \<Rightarrow> bool"
  reified_manifest :: "'x \<Rightarrow> nat \<Rightarrow> string + bytes"

record ('x, 'd) hhhs =
  serde :: "'x session_serde"
  authority :: "'x authority_ops"
  establishment :: "'x establishment_ops"
  runtime :: "('x, 'd) runtime_ops"

text \<open>The ports. \<open>queue_ready\<close> is the wait for a free place in the reification queue and says whether the
  queue is open; the two ways to send say whether the item was taken. \<open>emit_error\<close> is the ordinary event lane
  of the worker and \<open>reply_reset\<close> the one-shot reply, whose results the code ignores.\<close>

record ('x, 'w) session_ports =
  store_configure :: "'x \<Rightarrow> 'w \<Rightarrow> 'w"
  store_load :: "renewal_key \<Rightarrow> 'w \<Rightarrow> (string + bytes option) \<times> 'w"
  store_persist :: "renewal_key \<Rightarrow> 'x \<Rightarrow> bytes \<Rightarrow> 'w \<Rightarrow> (string + unit) \<times> 'w"
  now_ticks :: "'w \<Rightarrow> (string + u64) \<times> 'w"
  now_micros :: "'w \<Rightarrow> u64 option \<times> 'w"
  fill_random :: "nat \<Rightarrow> 'w \<Rightarrow> (string + bytes) \<times> 'w"
  port_generation :: "'x \<Rightarrow> u64"
  send_application_frame :: "'x \<Rightarrow> u32 \<Rightarrow> bytes \<Rightarrow> 'w \<Rightarrow> (string + unit) \<times> 'w"
  emit_error :: "'x \<Rightarrow> bytes \<Rightarrow> 'w \<Rightarrow> 'w"
  queue_ready :: "'w \<Rightarrow> bool \<times> 'w"
  queue_start_send :: "'x reification \<Rightarrow> 'w \<Rightarrow> bool \<times> 'w"
  queue_send :: "'x reification \<Rightarrow> 'w \<Rightarrow> bool \<times> 'w"
  reply_reset :: "'x \<Rightarrow> string + bool \<Rightarrow> 'w \<Rightarrow> 'w"

section \<open>Constants\<close>

definition room_session_channel :: u32 where "room_session_channel = 0x54555454"
definition session_protocol_label :: bytes where
  "session_protocol_label = ascii_bytes ''walkie hhhs pitch session establishment v1''"
definition session_rules :: bytes where
  "session_rules = ascii_bytes ''tutti observed-remove shared pitch set v1''"
definition session_vocabulary :: bytes where
  "session_vocabulary = ascii_bytes ''tutti canonical pitch edit cbor v1''"
definition foundation_profile :: bytes where
  "foundation_profile = ascii_bytes ''walkie hhhs ed25519 seat foundation v1''"
definition export_domain :: bytes where
  "export_domain = ascii_bytes ''walkie hhhs xchacha exporter context v1''"
definition pitch_edit_code :: nat where "pitch_edit_code = 1"
definition max_events_per_seat :: u32 where "max_events_per_seat = 64"
definition session_renewal_reserve :: u32 where "session_renewal_reserve = 1"
definition max_session_message_bytes :: nat where "max_session_message_bytes = 2048"
definition session_capacity :: nat where "session_capacity = 128"
definition lease_start :: u64 where "lease_start = 100"
definition lease_end :: u64 where "lease_end = 100000"

definition saturating_add :: "'a::len word \<Rightarrow> 'a word \<Rightarrow> 'a word" where
  "saturating_add a b = (if unat a + unat b < 2 ^ LENGTH('a) then a + b else - 1)"

text \<open>The texts of the errors of \<open>encode\<close> and \<open>decode\<close>.\<close>

fun display_carrier_error :: "carrier_error \<Rightarrow> string" where
  "display_carrier_error EncodingFailed = ''session payload encoding failed''"
| "display_carrier_error DecodingFailed = ''session payload decoding failed''"
| "display_carrier_error (UnsupportedVersion v w) =
     ''unsupported session payload version '' @ decimal (unat v) @ ''; expected '' @ decimal (unat w)"
| "display_carrier_error NotSessionCarrier = ''not a Walkie HHHS session carrier frame''"

definition show_errors :: "carrier_error + 'a \<Rightarrow> string + 'a" where
  "show_errors r = (case r of Inl e \<Rightarrow> Inl (display_carrier_error e) | Inr a \<Rightarrow> Inr a)"

definition with_prefix :: "string \<Rightarrow> string + 'a \<Rightarrow> string + 'a" where
  "with_prefix p r = (case r of Inl e \<Rightarrow> Inl (p @ e) | Inr a \<Rightarrow> Inr a)"

section \<open>Manifests, foundations and authorization\<close>

definition ordered :: "bytes \<Rightarrow> bytes \<Rightarrow> bytes \<times> bytes" where
  "ordered left right = (if left \<le> right then (left, right) else (right, left))"

definition seat_for :: "bytes \<Rightarrow> bytes \<Rightarrow> u8" where
  "seat_for actor other = (if other < actor then 1 else 0)"

definition hash_bytes :: "bytes list \<Rightarrow> bytes list" where
  "hash_bytes hashes = map (\<lambda>entry. entry) hashes"

definition position_bytes where
  "position_bytes K place = map (\<lambda>entry. entry) (position_entries (authority K) place)"

definition establishment_binding where
  "establishment_binding K identity left right session_id =
     (case ordered left right of (first, second) \<Rightarrow>
        channel_binding_derive (establishment K)
          (session_protocol_label @ id_object identity @ first @ second @ to_le (session_id :: u64)))"

definition export_context :: "bytes \<Rightarrow> bytes \<Rightarrow> bytes" where
  "export_context manifest binding = export_domain @ manifest @ binding"

definition renewal_key :: "'x foundation \<Rightarrow> renewal_key" where
  "renewal_key foundation =
     \<lparr>rk_room = id_object (fo_identity foundation), rk_local = fo_local foundation, rk_peer = fo_peer foundation\<rparr>"

definition proposed_epoch where
  "proposed_epoch K floor = (case floor of Some f \<Rightarrow> floor_next_epoch (authority K) f | None \<Rightarrow> Inr 1)"

definition prefer_incoming_offer :: "bytes \<Rightarrow> bytes \<Rightarrow> u32 \<Rightarrow> u32 \<Rightarrow> bool" where
  "prefer_incoming_offer me remote incoming pending \<longleftrightarrow>
     pending < incoming \<or> incoming = pending \<and> remote < me"

definition build_manifest where
  "build_manifest K foundation session_id epoch =
     (let A = authority K; profile = profile_for_domain A foundation_profile; identity = fo_identity foundation in
      case ordered (fo_local foundation) (fo_peer foundation) of (first, second) \<Rightarrow>
      manifest_build A
        \<lparr>ms_epoch = epoch, ms_namespace = id_music identity, ms_base = frontier A (fo_history foundation),
         ms_rules = digest_of A session_rules, ms_vocabulary = digest_of A session_vocabulary,
         ms_area = notes_area A (id_music identity), ms_allowed = durable_command A,
         ms_lease = (lease_start, lease_end), ms_max_events_per_seat = max_events_per_seat,
         ms_max_message_bytes = of_nat max_session_message_bytes, ms_security_profile = security_profile_id A,
         ms_channel_binding = establishment_binding K identity first second session_id,
         ms_seats = [(receiver_of A first, profile), (receiver_of A second, profile)]\<rparr>)"

definition foundation_context where
  "foundation_context K namespace manifest claim =
     (let A = authority K in
      with_prefix ''session foundation context failed: ''
        (context_new A namespace (digest_of A (claim_bytes A claim)) (manifest_base A manifest) (notes_area A namespace)))"

definition verify_claim where
  "verify_claim K claim presentation context =
     (let A = authority K in
      attempt (with_prefix ''session verifier registration failed: '' (register_verifier A)) (\<lambda>_.
      attempt (with_prefix ''session foundation verification failed: '' (verify_presentation A presentation context)) (\<lambda>verified.
      if verified_receiver A verified \<noteq> claim_receiver A claim \<or>
         verified_presented A verified \<noteq> claim_presented A claim \<or> verified_context A verified \<noteq> context
      then Inl ''session foundation proof claims do not match the manifest seat''
      else Inr (assume_verified A claim))))"

definition local_foundation where
  "local_foundation K foundation manifest =
     (let A = authority K in
      attempt (claim_new A (seat_for (fo_local foundation) (fo_peer foundation)) (receiver_of A (fo_local foundation))
        (profile_for_domain A foundation_profile) (fo_local_grants foundation) (manifest_digest A manifest)
        (manifest_base A manifest)) (\<lambda>claim.
      attempt (foundation_context K (id_music (fo_identity foundation)) manifest claim) (\<lambda>context.
      attempt (with_prefix ''session foundation signing failed: ''
        (present A (fo_signing_key foundation) (fo_local_grants foundation) context)) (\<lambda>presentation.
      attempt (verify_claim K claim presentation context) (\<lambda>verified.
      Inr (verified, presentation_encode A presentation))))))"

definition verify_foundation where
  "verify_foundation K foundation manifest actor grants encoded =
     (let A = authority K in
      attempt (claim_new A (seat_for actor (fo_local foundation)) (receiver_of A actor)
        (profile_for_domain A foundation_profile) grants (manifest_digest A manifest) (manifest_base A manifest)) (\<lambda>claim.
      attempt (foundation_context K (id_music (fo_identity foundation)) manifest claim) (\<lambda>context.
      attempt (with_prefix ''session foundation decoding failed: '' (presentation_decode A encoded)) (\<lambda>presentation.
      verify_claim K claim presentation context))))"

datatype 'x pair_authorization = Initial 'x 'x | Renewal 'x

definition authorize_pair where
  "authorize_pair K foundation manifest mine remote renewal_floor =
     (let A = authority K; namespace = id_music (fo_identity foundation) in
      attempt (policy_build A
        \<lparr>ps_namespace = namespace, ps_rules = manifest_rules A manifest, ps_vocabulary = manifest_vocabulary A manifest,
         ps_area = root_area A namespace, ps_supported = durable_command A,
         ps_foundation_profiles = [profile_for_domain A foundation_profile],
         ps_security_profiles = [security_profile_id A], ps_max_seats = 2,
         ps_max_duration = lease_end - lease_start, ps_max_events_per_seat = max_events_per_seat,
         ps_max_message_bytes = of_nat max_session_message_bytes\<rparr>) (\<lambda>policy.
      let capabilities = capture A (fo_history foundation) [fo_music_root foundation];
          foundations = (if seat_for (fo_local foundation) (fo_peer foundation) = 0 then [mine, remote] else [remote, mine])
      in case renewal_floor of
           Some floor \<Rightarrow>
             attempt (authorize_session_renewal A capabilities policy floor manifest foundations) (\<lambda>renewal. Inr (Renewal renewal))
         | None \<Rightarrow>
             attempt (authorize_session A capabilities policy manifest foundations) (\<lambda>session.
               Inr (Initial session (floor_from_authorized A session)))))"

end
