(* ===== verification/Session_Active.thy ===== *)
theory Session_Active
  imports Session_Crates
begin

text \<open>
  \<open>ActiveSession\<close> of \<open>src/src/room/session.rs\<close>: one established epoch with a peer, with every method. A method
  that reads the trace clock works on the pair of the world and the session.
\<close>

section \<open>State\<close>

record ('x, 'd) active_session =
  as_foundation :: "'x foundation"
  as_session :: 'x
  as_session_id :: u64
  as_local_seat :: u8
  as_remote_seat :: u8
  as_sender_binding :: 'x
  as_receiver_binding :: 'x
  as_sender_codec :: 'x
  as_receiver_codec :: 'x
  as_sender :: 'x
  as_echo_receiver :: 'x
  as_receiver :: 'x
  as_kernel :: 'x
  as_projection :: 'x
  as_planner :: 'x
  as_logical_time :: u64
  as_lease_clock_origin :: u64
  as_lease_clock_last :: u64
  as_durable_revision :: u64
  as_awaiting :: "'d \<rightharpoonup> 'x pitch_op \<times> intent_token option"

record 'x local_session_event =
  le_command :: "'x pitch_op"
  le_frame :: bytes
  le_plan :: "'x option"
  le_trace :: "compact_trace option"

record remote_session_event =
  rm_changed :: "projection_kind option"
  rm_trace :: "compact_trace option"

datatype remote_ingest_failure = BeforeMutation string | ContinuityLost string

section \<open>Identity and construction\<close>

definition session_manifest where
  "session_manifest K a = auth_manifest (authority K) (as_session a)"

definition active_identity where
  "active_identity K a =
     \<lparr>ei_peer = fo_peer (as_foundation a), ei_manifest = manifest_digest (authority K) (session_manifest K a),
      ei_session_id = as_session_id a, ei_epoch = manifest_epoch (authority K) (session_manifest K a)\<rparr>"

definition durable_projection_of where
  "durable_projection_of K revision history view =
     \<lparr>dp_revision = revision, dp_frontier = frontier (authority K) history, dp_root = history_root (authority K) history,
      dp_view = durable view\<rparr>"

definition active_new where
  "active_new K foundation session sid keys origin =
     (let A = authority K; R = runtime K; manifest = auth_manifest A session;
          local_seat = seat_for (fo_local foundation) (fo_peer foundation); remote_seat = 1 - local_seat in
      attempt (binding_new R session 1 local_seat remote_seat) (\<lambda>sender_binding.
      attempt (binding_new R session 1 remote_seat local_seat) (\<lambda>receiver_binding.
      case export_directional (establishment K)
             (export_context (manifest_digest A manifest) (manifest_channel_binding A manifest)) keys of
        (send, recv) \<Rightarrow>
      attempt (nonce_source R sender_binding) (\<lambda>n1.
      attempt (sender_new R sender_binding (cipher_profile R n1) (key_from_bytes R send)) (\<lambda>sender.
      attempt (nonce_source R sender_binding) (\<lambda>n2.
      attempt (receiver_new R sender_binding (cipher_profile R n2) (key_from_bytes R send)) (\<lambda>echo_receiver.
      attempt (nonce_source R receiver_binding) (\<lambda>n3.
      attempt (receiver_new R receiver_binding (cipher_profile R n3) (key_from_bytes R recv)) (\<lambda>receiver.
      attempt (packet_codec R sender_binding) (\<lambda>sender_codec.
      attempt (packet_codec R receiver_binding) (\<lambda>receiver_codec.
      attempt (kernel_new R session) (\<lambda>kernel.
      attempt (initial_cut R kernel) (\<lambda>cut.
      attempt (projection_new R session cut 1 lease_start
        \<lparr>dp_revision = fo_durable_revision foundation, dp_frontier = manifest_base A manifest,
         dp_root = history_root A (fo_history foundation), dp_view = durable (fo_durable_view foundation)\<rparr>) (\<lambda>projection.
      attempt (planner_new R session) (\<lambda>planner.
      Inr \<lparr>as_foundation = foundation, as_session = session, as_session_id = sid, as_local_seat = local_seat,
           as_remote_seat = remote_seat, as_sender_binding = sender_binding, as_receiver_binding = receiver_binding,
           as_sender_codec = sender_codec, as_receiver_codec = receiver_codec, as_sender = sender,
           as_echo_receiver = echo_receiver, as_receiver = receiver, as_kernel = kernel, as_projection = projection,
           as_planner = planner, as_logical_time = lease_start, as_lease_clock_origin = origin,
           as_lease_clock_last = origin, as_durable_revision = fo_durable_revision foundation,
           as_awaiting = Map.empty\<rparr>)))))))))))))))"

section \<open>Queries\<close>

definition is_drained where
  "is_drained K a \<longleftrightarrow> pending_len (runtime K) (as_projection a) = 0 \<and> as_awaiting a = Map.empty"

definition has_local_reification_wait where
  "has_local_reification_wait a \<longleftrightarrow> as_awaiting a \<noteq> Map.empty"

definition is_saturated where
  "is_saturated K a \<longleftrightarrow>
     remaining_causal_events (runtime K) (as_sender a) = 0 \<or> event_budget_exhausted (runtime K) (as_kernel a)"

definition preflight_local_event where
  "preflight_local_event K a =
     (if is_saturated K a then Inl ''session epoch is saturated; use durable fallback until renewal''
      else if card (dom (as_awaiting a)) \<ge> session_capacity
      then Inl (''session has '' @ decimal session_capacity @ '' local events awaiting durable causal dependencies'')
      else Inr ())"

definition needs_renewal where
  "needs_renewal K a \<longleftrightarrow>
     remaining_causal_events (runtime K) (as_sender a) \<le> session_renewal_reserve \<or>
     (\<exists>seat \<in> {as_local_seat a, as_remote_seat a}.
        case remaining_event_budget (runtime K) seat (as_kernel a) of
          None \<Rightarrow> False | Some remaining \<Rightarrow> remaining \<le> session_renewal_reserve)"

section \<open>Projections\<close>

fun projection_kind_of :: "projection_change \<Rightarrow> projection_kind" where
  "projection_kind_of ChangePredicted = Predicted"
| "projection_kind_of ChangeSimulationAdvanced = Predicted"
| "projection_kind_of ChangeConfirmed = Confirmed"
| "projection_kind_of ChangeCorrected = Corrected"
| "projection_kind_of ChangeRejected = Corrected"
| "projection_kind_of ChangeDurableAdvanced = Advanced"
| "projection_kind_of ChangeReset = Session_Gate.Reset"
| "projection_kind_of ChangeOther = Session_Gate.Reset"

definition projection_event where
  "projection_event K kind a =
     (let snapshot = snapshot_of (runtime K) (as_projection a); m = session_manifest K a in
      \<lparr>pj_manifest = manifest_digest (authority K) m, pj_session_id = as_session_id a,
       pj_epoch = manifest_epoch (authority K) m, pj_generation = sn_generation snapshot,
       pj_sequence = sn_sequence snapshot, pj_durable_revision = dp_revision (sn_durable snapshot),
       pj_durable_root = dp_root (sn_durable snapshot), pj_kind = kind, pj_view = pp_visible (sn_view snapshot)\<rparr>)"

definition on_projection where
  "on_projection call = on_part as_projection (\<lambda>p a. a\<lparr>as_projection := p\<rparr>) id call"

definition resynchronize where
  "resynchronize K revision history horizon =
     bnd (gets id) (\<lambda>a.
     let generation = sn_generation (snapshot_of (runtime K) (as_projection a)) in
     bnd (on_projection (projection_resynchronize (runtime K) (saturating_add generation 1) (as_kernel a)
            (as_logical_time a) horizon history max_session_message_bytes Session_Pitches.apply_event)) (\<lambda>change.
     andthen (refuse (change \<noteq> ChangeReset) ''session projection resynchronization did not produce a reset'')
       (modify (\<lambda>a. a\<lparr>as_durable_revision := revision\<rparr>))))"

definition set_horizon where
  "set_horizon K revision history a =
     a\<lparr>as_foundation := (as_foundation a)\<lparr>fo_history := history,
         fo_durable_view := pp_visible (dp_view (durable_of (runtime K) (as_projection a))),
         fo_durable_revision := revision\<rparr>\<rparr>"

definition confirm where
  "confirm K admission revision history view =
     bnd (gets as_durable_revision) (\<lambda>known.
     if revision \<le> known then ret None
     else
       let durable = durable_projection_of K revision history view in
       bnd (if revision = saturating_add known 1
            then bnd (on_projection (projection_confirm (runtime K) admission durable Session_Pitches.apply_event))
                   (\<lambda>transition. ret (map_option projection_kind_of transition))
            else andthen (resynchronize K revision history durable) (ret (Some Session_Gate.Reset))) (\<lambda>kind.
       andthen (modify (\<lambda>a. set_horizon K revision history (a\<lparr>as_durable_revision := revision\<rparr>))) (ret kind)))"

definition advance_durable where
  "advance_durable K revision history view =
     bnd (gets as_durable_revision) (\<lambda>known.
     if revision \<le> known then ret None
     else
       let durable = durable_projection_of K revision history view in
       bnd (if revision = saturating_add known 1
            then bnd (on_projection (projection_advance_durable (runtime K) durable Session_Pitches.apply_event))
                   (\<lambda>change. ret (Some (projection_kind_of change)))
            else andthen (resynchronize K revision history durable) (ret (Some Session_Gate.Reset))) (\<lambda>kind.
       andthen (modify (\<lambda>a. set_horizon K revision history (a\<lparr>as_durable_revision := revision\<rparr>))) (ret kind)))"

definition reset_projection where
  "reset_projection K =
     bnd (gets id) (\<lambda>a.
     andthen (resynchronize K (as_durable_revision a) (fo_history (as_foundation a)) (durable_of (runtime K) (as_projection a)))
       (gets (projection_event K Session_Gate.Reset)))"

definition retirement_projection where
  "retirement_projection K a =
     (let m = session_manifest K a; f = as_foundation a in
      case checked_succ (sn_generation (snapshot_of (runtime K) (as_projection a))) of
        None \<Rightarrow> Inl ''session projection generation exhausted during retirement''
      | Some generation \<Rightarrow>
          Inr \<lparr>pj_manifest = manifest_digest (authority K) m, pj_session_id = as_session_id a,
               pj_epoch = manifest_epoch (authority K) m, pj_generation = generation, pj_sequence = 0,
               pj_durable_revision = fo_durable_revision f, pj_durable_root = history_root (authority K) (fo_history f),
               pj_kind = Session_Gate.Reset, pj_view = fo_durable_view f\<rparr>)"

definition resynchronize_exact where
  "resynchronize_exact K revision history view =
     andthen (resynchronize K revision history (durable_projection_of K revision history view))
     (andthen (modify (set_horizon K revision history)) (gets (projection_event K Session_Gate.Reset)))"

section \<open>Events\<close>

definition durable_correlation_of where
  "durable_correlation_of K plan =
     (let R = runtime K; dot = plan_dot R plan in
      \<lparr>dc_manifest = plan_manifest R plan, dc_epoch = dot_epoch R dot, dc_seat = dot_seat R dot,
       dc_counter = dot_counter R dot, dc_event = plan_event R plan\<rparr>)"

definition compact_correlation where
  "compact_correlation K permitted =
     (let R = runtime K; dot = permitted_dot R permitted in
      \<lparr>dc_manifest = permitted_manifest R permitted, dc_epoch = dot_epoch R dot, dc_seat = dot_seat R dot,
       dc_counter = dot_counter R dot, dc_event = permitted_identity R permitted\<rparr>)"

definition receiver_lease_time where
  "receiver_lease_time ticks =
     bnd (gets id) (\<lambda>a.
     andthen (refuse (ticks < as_lease_clock_last a) ''receiver session lease clock moved backwards'')
     (andthen (modify (\<lambda>a. a\<lparr>as_lease_clock_last := ticks\<rparr>))
       (ret (saturating_add lease_start
               (if as_lease_clock_origin a \<le> ticks then ticks - as_lease_clock_origin a else 0)))))"

definition ingest where
  "ingest K permitted =
     bnd (gets as_logical_time) (\<lambda>now.
     bnd (on_projection (advance_simulation (runtime K) now Session_Pitches.apply_event)) (\<lambda>simulated.
     bnd (gets (\<lambda>a. projected_cut (runtime K) (as_projection a))) (\<lambda>before.
     bnd (on_part as_kernel (\<lambda>k a. a\<lparr>as_kernel := k\<rparr>) id (kernel_ingest (runtime K) permitted)) (\<lambda>advanced.
     if \<not> advanced then ret (if simulated \<noteq> None then Some Predicted else None)
     else
       bnd (gets as_kernel) (\<lambda>kernel.
       bnd (on_projection (predict_between (runtime K) kernel before (ready_cut (runtime K) kernel) Session_Pitches.apply_event)) (\<lambda>transition.
       ret (if simulated \<noteq> None \<or> transition \<noteq> None then Some Predicted else None)))))))"

definition read_op_bytes where
  "read_op_bytes K bs = (case decode (read_op (serde K)) bs of Inl _ \<Rightarrow> None | Inr c \<Rightarrow> Some c)"

text \<open>\<open>try_decode(decode_pitch_edit)\<close> on a received packet.\<close>

definition try_decode where
  "try_decode K received =
     (let R = runtime K in
      attempt (decode_pitch_edit pitch_edit_code (read_op_bytes K) (received_code R received) (received_payload R received))
        (\<lambda>c. Inr (with_payload R received c)))"

text \<open>\<open>trace_enabled.then(|| clock.now_micros()).flatten()\<close> on the first component of the state.\<close>

definition trace_now where
  "trace_now W on = (if on then calling fst (\<lambda>w (_, a). (w, a)) (now_micros W) else ret None)"

abbreviation in_session where
  "in_session m \<equiv> zoom snd (\<lambda>a (w, _). (w, a)) m"

definition local_event where
  "local_event K W command token ticks trace_on trace accepted_at =
     (let R = runtime K in
      bnd (gets snd) (\<lambda>a.
      bnd (lift_result id (preflight_local_event K a)) (\<lambda>_.
      andthen (in_session (modify (\<lambda>a. a\<lparr>as_logical_time := saturating_add (as_logical_time a) 1\<rparr>)))
      (bnd (gets snd) (\<lambda>a.
      bnd (lift_result id (header_new R (as_sender_binding a) (saturating_add (highest_sealed_counter R (as_sender a)) 1)
             (cut_context R (ready_cut R (as_kernel a))) pitch_edit_code (as_logical_time a))) (\<lambda>header.
      bnd (lift_result id (show_errors (encode (write_op (serde K)) command))) (\<lambda>payload.
      bnd (in_session (on_part as_sender (\<lambda>x a. a\<lparr>as_sender := x\<rparr>) id (seal R header payload))) (\<lambda>packet.
      bnd (lift_result id (packet_encode R (as_sender_codec a) (as_sender_binding a) packet)) (\<lambda>frame.
      bnd (lift_result id (packet_decode R (as_sender_codec a) (as_sender_binding a) frame)) (\<lambda>decoded.
      bnd (in_session (on_part as_echo_receiver (\<lambda>x a. a\<lparr>as_echo_receiver := x\<rparr>) id (receive R decoded))) (\<lambda>received.
      bnd (trace_now W trace_on) (\<lambda>authenticated_at.
      bnd (in_session (receiver_lease_time ticks)) (\<lambda>receiver_now.
      bnd (lift_result id (try_decode K received)) (\<lambda>event.
      bnd (trace_now W trace_on) (\<lambda>interpreted_at.
      bnd (lift_result id (permit_event R (as_session a) receiver_now event (length frame))) (\<lambda>permitted.
      bnd (trace_now W trace_on) (\<lambda>authorized_at.
      let trace = (if trace_on then Some
             \<lparr>ct_token = trace, ct_correlation = compact_correlation K permitted, ct_direction = Local,
              ct_worker_accepted = accepted_at, ct_carrier_received = None, ct_worker_authenticated = authenticated_at,
              ct_worker_authorized = authorized_at, ct_worker_interpreted = interpreted_at, ct_worker_projected = None\<rparr>
           else None);
          dot = permitted_dot R permitted
      in
      bnd (in_session (ingest K permitted)) (\<lambda>_.
      bnd (in_session (bnd (gets as_kernel) (\<lambda>kernel.
             calling as_planner (\<lambda>x a. a\<lparr>as_planner := x\<rparr>) (planner_plan R kernel dot)))) (\<lambda>planned.
      bnd (case planned of
             Inr plan \<Rightarrow> ret (Some plan)
           | Inl UnreifiedDependency \<Rightarrow>
               andthen (in_session (modify (\<lambda>a. a\<lparr>as_awaiting := (as_awaiting a)(dot \<mapsto> (command, Some token))\<rparr>))) (ret None)
           | Inl (OtherReification e) \<Rightarrow> throw e) (\<lambda>plan.
      ret \<lparr>le_command = command, le_frame = frame, le_plan = plan, le_trace = trace\<rparr>))))))))))))))))))))"

text \<open>One waiting dot of \<open>retry_reifications\<close>; \<open>None\<close> when its dependency is still unreified.\<close>

definition retry_reification where
  "retry_reification K dot =
     bnd (gets as_kernel) (\<lambda>kernel.
     bnd (calling as_planner (\<lambda>x a. a\<lparr>as_planner := x\<rparr>) (planner_plan (runtime K) kernel dot)) (\<lambda>planned.
     case planned of
       Inr plan \<Rightarrow>
         bnd (gets (\<lambda>a. as_awaiting a dot)) (\<lambda>waiting.
         bnd (expect waiting) (\<lambda>(command, token).
         andthen (modify (\<lambda>a. a\<lparr>as_awaiting := (as_awaiting a)(dot := None)\<rparr>)) (ret (Some (plan, command, token)))))
     | Inl UnreifiedDependency \<Rightarrow> ret None
     | Inl (OtherReification e) \<Rightarrow> throw e))"

definition retry_reifications where
  "retry_reifications K =
     bnd (gets (\<lambda>a. sorted_list_of_set (dom (as_awaiting a)))) (\<lambda>dots.
     bnd (collect (retry_reification K) dots) (\<lambda>ready. ret (List.map_filter id ready)))"

text \<open>The errors of \<open>ingest_remote\<close>: a call that fails before, or after, the replay state was consumed.\<close>

definition failing_as where
  "failing_as f m = bnd (inspect m) (lift_result f)"

definition ingest_remote where
  "ingest_remote K W frame ticks trace_on accepted_at received_at =
     (let R = runtime K in
      bnd (gets snd) (\<lambda>a.
      bnd (lift_result BeforeMutation (packet_decode R (as_receiver_codec a) (as_receiver_binding a) frame)) (\<lambda>packet.
      let at = packet_effective_at R packet in
      bnd (in_session (on_part as_receiver (\<lambda>x a. a\<lparr>as_receiver := x\<rparr>) BeforeMutation (receive R packet))) (\<lambda>received.
      if \<not> received_fresh R received then ret None
      else
        bnd (trace_now W trace_on) (\<lambda>authenticated_at.
        bnd (in_session (failing_as ContinuityLost (receiver_lease_time ticks))) (\<lambda>receiver_now.
        bnd (lift_result ContinuityLost (try_decode K received)) (\<lambda>event.
        bnd (trace_now W trace_on) (\<lambda>interpreted_at.
        bnd (lift_result ContinuityLost (permit_event R (as_session a) receiver_now event (length frame))) (\<lambda>permitted.
        bnd (trace_now W trace_on) (\<lambda>authorized_at.
        let trace = (if trace_on then Some
               \<lparr>ct_token = None, ct_correlation = compact_correlation K permitted, ct_direction = Remote,
                ct_worker_accepted = accepted_at, ct_carrier_received = received_at,
                ct_worker_authenticated = authenticated_at, ct_worker_authorized = authorized_at,
                ct_worker_interpreted = interpreted_at, ct_worker_projected = None\<rparr>
             else None)
        in
        andthen (in_session (modify (\<lambda>a. a\<lparr>as_logical_time := max (as_logical_time a) at\<rparr>)))
        (bnd (in_session (failing_as ContinuityLost (ingest K permitted))) (\<lambda>changed.
        ret (Some \<lparr>rm_changed = changed, rm_trace = trace\<rparr>)))))))))))))"

end
