(* ===== verification/Session_Task.thy ===== *)
theory Session_Task
  imports Session_Active
begin

text \<open>
  \<open>RoomSessionTask\<close> of \<open>src/src/room/session.rs\<close>: the task that owns every session of a room, with every
  handler and the loop around them. The crash cut of the browser acceptance tests, which no ordinary build
  contains, is left out. A \<open>BTreeMap\<close> is a map; the loops over one visit its keys in order.
\<close>

section \<open>State\<close>

record 'x pending_session =
  pe_foundation :: "'x foundation"
  pe_pending :: 'x
  pe_session_id :: u64
  pe_manifest :: 'x
  pe_local_foundation :: 'x
  pe_renewal_floor :: "'x option"
  pe_offer_carrier :: bytes

record ('x, 'd) retired_session =
  rs_active :: "('x, 'd) active_session"
  rs_projection :: "'x projection"
  rs_outstanding :: "durable_correlation set"

record ('x, 'd, 'w) session_task =
  ts_events :: "'x option"
  ts_foundations :: "bytes \<rightharpoonup> 'x foundation"
  ts_pending :: "bytes \<rightharpoonup> 'x pending_session"
  ts_active :: "bytes \<rightharpoonup> ('x, 'd) active_session"
  ts_retired :: "epoch_identity \<rightharpoonup> ('x, 'd) retired_session"
  ts_inflight :: "epoch_identity \<rightharpoonup> durable_correlation set"
  ts_presentation_peer :: "bytes option"
  ts_trace_enabled :: bool
  ts_renewal_floors :: "bytes \<rightharpoonup> 'x option"
  ts_renewal_needed :: "bytes set"
  ts_world :: 'w

datatype 'x task_input =
    Configure 'x bool
  | StartPeer "'x foundation"
  | Application u32 bytes
  | LocalCommitted bytes epoch_identity 'x "intent_token option" 'x 'x 'x "'x pitch_view" u64
  | Observed 'x 'x 'x "'x pitch_view" u64
  | DurableAdvanced 'x "'x pitch_view" u64
  | ResetProjection 'x "'x pitch_view" u64 'x
  | RepairResynchronized 'x "'x pitch_view" u64
  | RefreshFoundations "'x foundation list"
  | Shutdown

definition task_new :: "'w \<Rightarrow> ('x, 'd, 'w) session_task" where
  "task_new w =
     \<lparr>ts_events = None, ts_foundations = Map.empty, ts_pending = Map.empty, ts_active = Map.empty,
      ts_retired = Map.empty, ts_inflight = Map.empty, ts_presentation_peer = None, ts_trace_enabled = False,
      ts_renewal_floors = Map.empty, ts_renewal_needed = {}, ts_world = w\<rparr>"

section \<open>Ports\<close>

text \<open>A call on a port; one that may fail; one whose result the code ignores.\<close>

definition port where
  "port call = calling ts_world (\<lambda>w s. s\<lparr>ts_world := w\<rparr>) call"

definition try_port where
  "try_port call = on_part ts_world (\<lambda>w s. s\<lparr>ts_world := w\<rparr>) id call"

definition silent_port where
  "silent_port call = modify (\<lambda>s. s\<lparr>ts_world := call (ts_world s)\<rparr>)"

definition emit where
  "emit K W event =
     bnd (gets ts_events) (\<lambda>events.
     bnd (ok_or ''worker session event port is not configured'' events) (\<lambda>out.
     bnd (lift_result id (show_errors (encode (write_egress (serde K)) event))) (\<lambda>frame.
     try_port (send_application_frame W out room_session_channel frame))))"

definition emit_renewal_trace where
  "emit_renewal_trace K W stage peer epoch mark =
     bnd (gets ts_trace_enabled) (\<lambda>on.
     if \<not> on then ret ()
     else emit K W (RenewalTrace
            \<lparr>rt_stage = stage, rt_peer = peer, rt_epoch = epoch, rt_floor_epoch = mark\<rparr>))"

definition diagnostic where
  "diagnostic K W message = bnd (inspect (emit K W (DiagnosticOut message))) (\<lambda>_. ret ())"

definition reject_intent where
  "reject_intent K W token reason = emit K W (IntentRejected token reason)"

definition clear_generation where
  "clear_generation s =
     s\<lparr>ts_events := None, ts_pending := Map.empty, ts_active := Map.empty, ts_retired := Map.empty,
       ts_inflight := Map.empty, ts_presentation_peer := None, ts_renewal_needed := {}\<rparr>"

definition fail_session_generation where
  "fail_session_generation W reason =
     (let terminal = reason @
        ''; compact generation terminated; reopen canonical state, repair, and establish a fresh epoch'' in
      bnd (gets ts_events) (\<lambda>events.
      andthen (case events of None \<Rightarrow> ret () | Some out \<Rightarrow> silent_port (emit_error W out (ascii_bytes terminal)))
      (andthen (modify clear_generation) (throw terminal))))"

definition emit_realtime_or_fail_generation where
  "emit_realtime_or_fail_generation K W event =
     bnd (inspect (emit K W (RealtimeOut event))) (\<lambda>first.
     case first of
       Inr _ \<Rightarrow> ret ()
     | Inl e \<Rightarrow> fail_session_generation W
         (''combined session carrier/projection frame was rejected before window acceptance: '' @ e))"

definition plain_realtime where
  "plain_realtime projection =
     \<lparr>re_projection = projection, re_carrier = None, re_durable = [], re_intent_token = None, re_trace = None\<rparr>"

text \<open>A method of the active session of a peer that is known to be there.\<close>

definition on_active where
  "on_active peer m =
     bnd (gets (\<lambda>s. ts_active s peer)) (\<lambda>found. bnd (expect found) (\<lambda>_.
     zoom (\<lambda>s. the (ts_active s peer)) (\<lambda>a s. s\<lparr>ts_active := (ts_active s)(peer \<mapsto> a)\<rparr>) m))"

definition on_active_clocked where
  "on_active_clocked peer m =
     bnd (gets (\<lambda>s. ts_active s peer)) (\<lambda>found. bnd (expect found) (\<lambda>_.
     zoom (\<lambda>s. (ts_world s, the (ts_active s peer)))
       (\<lambda>(w, a) s. s\<lparr>ts_world := w, ts_active := (ts_active s)(peer \<mapsto> a)\<rparr>) m))"

definition active_peers where
  "active_peers s = sorted_list_of_set (dom (ts_active s))"

section \<open>Renewal\<close>

definition waits_on_reification where
  "waits_on_reification s peer \<longleftrightarrow>
     (case ts_active s peer of None \<Rightarrow> False | Some a \<Rightarrow> has_local_reification_wait a)"

definition peer_has_recovery_work where
  "peer_has_recovery_work s peer \<longleftrightarrow>
     (\<exists>session \<in> dom (ts_retired s). ei_peer session = peer \<and>
        (case ts_retired s session of None \<Rightarrow> False | Some retired \<Rightarrow>
           rs_outstanding retired \<noteq> {} \<or> has_local_reification_wait (rs_active retired))) \<or>
     (\<exists>session \<in> dom (ts_inflight s). ei_peer session = peer \<and>
        (case ts_inflight s session of None \<Rightarrow> False | Some inflight \<Rightarrow> inflight \<noteq> {}))"

definition incoming_renewal_has_local_obligations where
  "incoming_renewal_has_local_obligations s peer \<longleftrightarrow> waits_on_reification s peer \<or> peer_has_recovery_work s peer"

definition load_renewal_floor where
  "load_renewal_floor K W foundation =
     (let A = authority K; peer = fo_peer foundation in
      bnd (gets (\<lambda>s. ts_renewal_floors s peer)) (\<lambda>cached.
      case cached of
        Some floor \<Rightarrow> ret floor
      | None \<Rightarrow>
          bnd (try_port (store_load W (renewal_key foundation))) (\<lambda>encoded.
          bnd (case encoded of
                 None \<Rightarrow> ret None
               | Some bs \<Rightarrow> bnd (lift_result id (with_prefix ''invalid persisted session renewal floor: '' (floor_from_bytes A bs)))
                              (\<lambda>f. ret (Some f))) (\<lambda>floor.
          andthen (case floor of
                     None \<Rightarrow> ret ()
                   | Some recovered \<Rightarrow>
                       emit_renewal_trace K W RecoveredFloor peer (floor_epoch A recovered) (Some (floor_epoch A recovered)))
          (andthen (modify (\<lambda>s. s\<lparr>ts_renewal_floors := (ts_renewal_floors s)(peer \<mapsto> floor)\<rparr>)) (ret floor))))))"

definition need_renewal where
  "need_renewal peer = modify (\<lambda>s. s\<lparr>ts_renewal_needed := insert peer (ts_renewal_needed s)\<rparr>)"

definition begin_session where
  "begin_session K W foundation =
     (let A = authority K; peer = fo_peer foundation; me = fo_local foundation in
      bnd (gets id) (\<lambda>s.
      if ts_pending s peer \<noteq> None then ret ()
      else
        andthen (refuse (peer_has_recovery_work s peer)
          ''session renewal requires every retired/in-flight recovery to drain'')
        (andthen (refuse (waits_on_reification s peer) ''session renewal requires the old local durable suffix to drain'')
        (bnd (load_renewal_floor K W foundation) (\<lambda>renewal_floor.
        andthen (refuse (ts_active s peer \<noteq> None \<and> renewal_floor = None) ''active session has no durable renewal floor'')
        (bnd (lift_result id (proposed_epoch K renewal_floor)) (\<lambda>epoch.
        bnd (bnd (port (fill_random W 40)) (\<lambda>r. lift_result id (with_prefix ''session randomness failed: '' r))) (\<lambda>random.
        let session_id = (if from_le (take 8 random) = (0 :: u64) then 1 else from_le (take 8 random)) in
        bnd (lift_result id (build_manifest K foundation session_id epoch)) (\<lambda>manifest.
        case initiator_begin (establishment K) (fo_signing_key foundation)
               (protocol_derive (establishment K) session_protocol_label)
               (establishment_binding K (fo_identity foundation) me peer session_id) session_id (drop 8 random) of
          (pending, offer) \<Rightarrow>
        bnd (lift_result id (local_foundation K foundation manifest)) (\<lambda>(verified, presentation).
        bnd (lift_result id (show_errors (carrier_encode (write_carrier (serde K))
               (Offer me peer session_id epoch (position_bytes K (manifest_base A manifest))
                  (hash_bytes (fo_local_grants foundation)) offer presentation)))) (\<lambda>carrier.
        andthen (modify (\<lambda>s. s\<lparr>ts_pending := (ts_pending s)(peer \<mapsto>
            \<lparr>pe_foundation = foundation, pe_pending = pending, pe_session_id = session_id, pe_manifest = manifest,
             pe_local_foundation = verified, pe_renewal_floor = renewal_floor, pe_offer_carrier = carrier\<rparr>),
            ts_renewal_needed := ts_renewal_needed s - {peer}\<rparr>))
        (andthen (emit_renewal_trace K W OfferStarted peer epoch (map_option (floor_epoch A) renewal_floor))
          (emit K W (CarrierOut carrier))))))))))))))"

definition start_peer where
  "start_peer K W foundation =
     (let peer = fo_peer foundation in
      andthen (modify (\<lambda>s. s\<lparr>ts_foundations := (ts_foundations s)(peer \<mapsto> foundation)\<rparr>))
      (bnd (gets id) (\<lambda>s.
      case ts_pending s peer of
        Some pending \<Rightarrow>
          if manifest_base (authority K) (pe_manifest pending) = frontier (authority K) (fo_history foundation)
          then emit K W (CarrierOut (pe_offer_carrier pending))
          else
            andthen (modify (\<lambda>s. s\<lparr>ts_pending := (ts_pending s)(peer := None)\<rparr>))
            (andthen (need_renewal peer) (begin_session K W foundation))
      | None \<Rightarrow>
          if ts_active s peer \<noteq> None then ret ()
          else
            bnd (load_renewal_floor K W foundation) (\<lambda>floor.
            if peer < fo_local foundation \<and> floor = None then ret () else begin_session K W foundation))))"

text \<open>Persisting a floor gives the session that may now be installed and the floor.\<close>

definition persist_floor where
  "persist_floor K W key authorization =
     (let A = authority K in
      case authorization of
        Initial session floor \<Rightarrow>
          andthen (try_port (store_persist W key (floor_base A floor) (floor_to_bytes A floor))) (ret (session, floor))
      | Renewal renewal \<Rightarrow>
          (case renewal_install A renewal of (expected_frontier, floor_bytes) \<Rightarrow>
             andthen (try_port (store_persist W key expected_frontier floor_bytes)) (ret (renewal_parts A renewal))))"

definition install_session where
  "install_session K W peer foundation authorization session_id keys carrier =
     (let A = authority K in
      bnd (inspect (persist_floor K W (renewal_key foundation) authorization)) (\<lambda>persisted.
      case persisted of
        Inl e \<Rightarrow>
          andthen (need_renewal peer)
            (throw (''session renewal floor persistence failed before observable install egress: '' @ e))
      | Inr (authorized, next_floor) \<Rightarrow>
          bnd (try_port (now_ticks W)) (\<lambda>origin.
          bnd (lift_result id (active_new K foundation authorized session_id keys origin)) (\<lambda>active.
          let installed_epoch = floor_epoch A next_floor in
          andthen (modify (\<lambda>s. s\<lparr>ts_renewal_floors := (ts_renewal_floors s)(peer \<mapsto> Some next_floor)\<rparr>))
          (bnd (gets (\<lambda>s. ts_presentation_peer s = None \<or> ts_presentation_peer s = Some peer)) (\<lambda>present.
          bnd (inspect
                 (if present
                  then emit K W (RealtimeOut ((plain_realtime (projection_event K Session_Gate.Reset active))\<lparr>re_carrier := carrier\<rparr>))
                  else (case carrier of Some frame \<Rightarrow> emit K W (CarrierOut frame) | None \<Rightarrow> ret ()))) (\<lambda>staged.
          case staged of
            Inl e \<Rightarrow>
              andthen (need_renewal peer)
                (throw (''session install egress failed after floor persistence; higher-epoch recovery is required: '' @ e))
          | Inr _ \<Rightarrow>
              andthen (modify (\<lambda>s. s\<lparr>ts_active := (ts_active s)(peer \<mapsto> active),
                                    ts_presentation_peer := (if present then Some peer else ts_presentation_peer s)\<rparr>))
                (emit_renewal_trace K W SessionInstalled peer installed_epoch (Some installed_epoch)))))))))"

text \<open>The two groups of peers \<open>start_ready_renewals\<close> begins a session with: those whose session is gone, and
  those whose session has drained.\<close>

definition gone_renewals where
  "gone_renewals s =
     List.map_filter (ts_foundations s)
       (filter (\<lambda>peer. ts_active s peer = None \<and> ts_pending s peer = None \<and> \<not> peer_has_recovery_work s peer)
         (sorted_list_of_set (ts_renewal_needed s)))"

definition drained_renewals where
  "drained_renewals K s =
     filter (\<lambda>peer. case ts_active s peer of None \<Rightarrow> False | Some a \<Rightarrow>
         (fo_local (as_foundation a) < peer \<and> needs_renewal K a \<or> peer \<in> ts_renewal_needed s) \<and>
         \<not> has_local_reification_wait a \<and> \<not> peer_has_recovery_work s peer \<and> ts_pending s peer = None)
       (active_peers s)"

definition start_ready_renewals where
  "start_ready_renewals K W =
     bnd (gets gone_renewals) (\<lambda>retired.
     andthen (each (begin_session K W) retired)
     (bnd (gets (drained_renewals K)) (\<lambda>peers.
       each (\<lambda>peer.
         bnd (gets (\<lambda>s. case ts_foundations s peer of
                         Some f \<Rightarrow> Some f
                       | None \<Rightarrow> map_option as_foundation (ts_active s peer))) (\<lambda>foundation.
         bnd (ok_or ''renewing session lost its admitted foundation'' foundation) (begin_session K W))) peers)))"

section \<open>Carrier frames\<close>

definition carrier_offer where
  "carrier_offer K W source target session_id epoch base grants handshake foundation =
     (let A = authority K; E = establishment K in
      bnd (gets (\<lambda>s. ts_foundations s source)) (\<lambda>known.
      bnd (ok_or ''session offer arrived before the peer foundation was ready'' known) (\<lambda>mine.
      andthen (refuse (target \<noteq> fo_local mine) ''session offer targets another actor'')
      (andthen (refuse (epoch = 0) ''session offer epoch zero is invalid'')
      (andthen (if base \<noteq> position_bytes K (frontier A (fo_history mine))
                then andthen (emit_renewal_trace K W StaleOfferRefused source epoch None)
                       (throw ''session offer is bound to a stale durable base'')
                else ret ())
      (andthen (refuse (grants \<noteq> hash_bytes (fo_peer_grants mine))
                 ''session offer foundation grants differ from admitted history'')
      (bnd (load_renewal_floor K W mine) (\<lambda>renewal_floor.
      if (case renewal_floor of None \<Rightarrow> False | Some floor \<Rightarrow> epoch \<le> floor_epoch A floor)
      then
        andthen (need_renewal source)
        (andthen (emit_renewal_trace K W StaleOfferRefused source epoch (map_option (floor_epoch A) renewal_floor))
        (bnd (gets (\<lambda>s. ts_active s source = None \<and> ts_pending s source = None)) (\<lambda>idle.
         if idle then begin_session K W mine else start_ready_renewals K W)))
      else
        bnd (gets (\<lambda>s. ts_pending s source)) (\<lambda>pending.
        if (case pending of None \<Rightarrow> False | Some p \<Rightarrow>
              \<not> prefer_incoming_offer (fo_local mine) source epoch (manifest_epoch A (pe_manifest p)))
        then ret ()
        else
          bnd (lift_result id (build_manifest K mine session_id epoch)) (\<lambda>manifest.
          bnd (lift_result id (offer_decode E handshake)) (\<lambda>offer.
          bnd (lift_result id (offer_verify E (protocol_derive E session_protocol_label)
                 (establishment_binding K (fo_identity mine) source target session_id) offer)) (\<lambda>verified.
          andthen (refuse (offer_identity E verified \<noteq> source) ''session offer identity does not match its claimed source'')
          (bnd (lift_result id (verify_foundation K mine manifest source (fo_peer_grants mine) foundation)) (\<lambda>remote.
          bnd (lift_result id (local_foundation K mine manifest)) (\<lambda>(ours, presentation).
          bnd (bnd (port (fill_random W 32)) (\<lambda>r. lift_result id (with_prefix ''session randomness failed: '' r))) (\<lambda>random.
          bnd (lift_result id (offer_respond E (fo_signing_key mine) random verified)) (\<lambda>(answer, keys).
          bnd (lift_result id (authorize_pair K mine manifest ours remote renewal_floor)) (\<lambda>authorization.
          bnd (gets id) (\<lambda>s.
          andthen (refuse (renewal_floor \<noteq> None \<and> incoming_renewal_has_local_obligations s source)
                    ''session renewal arrived before local durable obligations drained'')
          (andthen (if pending \<noteq> None then modify (\<lambda>s. s\<lparr>ts_pending := (ts_pending s)(source := None)\<rparr>) else ret ())
          (bnd (lift_result id (show_errors (carrier_encode (write_carrier (serde K))
                 (Answer (fo_local mine) source session_id (hash_bytes (fo_local_grants mine)) answer presentation)))) (\<lambda>frame.
          install_session K W source mine authorization session_id keys (Some frame)))))))))))))))))))))))"

definition carrier_answer where
  "carrier_answer K W source target session_id grants handshake foundation =
     (let A = authority K in
      bnd (gets (\<lambda>s. ts_pending s source)) (\<lambda>found.
      bnd (modify (\<lambda>s. s\<lparr>ts_pending := (ts_pending s)(source := None)\<rparr>)) (\<lambda>_.
      bnd (ok_or ''session answer has no pending offer'' found) (\<lambda>pending.
      let mine = pe_foundation pending in
      andthen (refuse (target \<noteq> fo_local mine \<or> session_id \<noteq> pe_session_id pending)
                ''session answer targets another actor or handshake'')
      (andthen (refuse (grants \<noteq> hash_bytes (fo_peer_grants mine))
                 ''session answer foundation grants differ from admitted history'')
      (bnd (lift_result id (verify_foundation K mine (pe_manifest pending) source (fo_peer_grants mine) foundation)) (\<lambda>remote.
      bnd (lift_result id (initiator_complete (establishment K) handshake source (pe_pending pending))) (\<lambda>keys.
      bnd (gets (\<lambda>s. ts_foundations s source)) (\<lambda>current.
      bnd (ok_or ''session answer arrived after its peer foundation was revoked'' current) (\<lambda>current.
      bnd (gets id) (\<lambda>s.
      if frontier A (fo_history current) \<noteq> manifest_base A (pe_manifest pending) \<or>
         waits_on_reification s source \<or> peer_has_recovery_work s source
      then andthen (need_renewal source) (start_ready_renewals K W)
      else if (case ts_renewal_floors s source of None \<Rightarrow> None | Some floor \<Rightarrow> floor) \<noteq> pe_renewal_floor pending
      then andthen (need_renewal source) (start_ready_renewals K W)
      else
        bnd (lift_result id (authorize_pair K mine (pe_manifest pending) (pe_local_foundation pending) remote
               (pe_renewal_floor pending))) (\<lambda>authorization.
        install_session K W source mine authorization session_id keys None))))))))))))"

definition carrier_event where
  "carrier_event K W source target session_id frame received_at accepted_at =
     bnd (gets (\<lambda>s. ts_active s source)) (\<lambda>found.
     if \<not> (case found of None \<Rightarrow> False | Some a \<Rightarrow> target = fo_local (as_foundation a) \<and> session_id = as_session_id a)
     then
       andthen (need_renewal source)
       (bnd (gets (\<lambda>s. ts_foundations s source)) (\<lambda>known.
        case known of
          None \<Rightarrow> ret ()
        | Some foundation \<Rightarrow> if found = None then begin_session K W foundation else start_ready_renewals K W))
     else
       bnd (try_port (now_ticks W)) (\<lambda>receiver_now.
       bnd (gets ts_trace_enabled) (\<lambda>trace_on.
       bnd (inspect (on_active_clocked source (ingest_remote K W frame receiver_now trace_on accepted_at received_at))) (\<lambda>remote.
       case remote of
         Inl (BeforeMutation e) \<Rightarrow> throw e
       | Inl (ContinuityLost e) \<Rightarrow> fail_session_generation W
           (''remote compact event failed after Fresh replay state was consumed: '' @ e)
       | Inr None \<Rightarrow> ret ()
       | Inr (Some event) \<Rightarrow>
           bnd (gets ts_presentation_peer) (\<lambda>presented.
           if presented \<noteq> Some source then ret ()
           else (case rm_changed event of
                   None \<Rightarrow> ret ()
                 | Some kind \<Rightarrow>
                     bnd (gets (\<lambda>s. ts_active s source)) (\<lambda>found. bnd (expect found) (\<lambda>a.
                     bnd (case rm_trace event of
                            None \<Rightarrow> ret None
                          | Some t \<Rightarrow> bnd (port (now_micros W)) (\<lambda>at. ret (Some (t\<lparr>ct_worker_projected := at\<rparr>)))) (\<lambda>trace.
                     emit_realtime_or_fail_generation K W
                       ((plain_realtime (projection_event K kind a))\<lparr>re_trace := trace\<rparr>))))))))))"

definition carrier where
  "carrier K W bs received_at accepted_at =
     bnd (lift_result id (show_errors (carrier_decode (read_carrier (serde K)) bs))) (\<lambda>body.
     case body of
       Offer source target session_id epoch base grants handshake foundation \<Rightarrow>
         carrier_offer K W source target session_id epoch base grants handshake foundation
     | Answer source target session_id grants handshake foundation \<Rightarrow>
         carrier_answer K W source target session_id grants handshake foundation
     | Event source target session_id frame \<Rightarrow>
         carrier_event K W source target session_id frame received_at accepted_at)"


section \<open>Reification and canonical growth\<close>

definition add_inflight where
  "add_inflight session correlation s =
     s\<lparr>ts_inflight := (ts_inflight s)(session \<mapsto>
         insert correlation (case ts_inflight s session of None \<Rightarrow> {} | Some inflight \<Rightarrow> inflight))\<rparr>"

text \<open>Removing a correlation, and the epoch with its last one.\<close>

definition drop_inflight where
  "drop_inflight session correlation s =
     (case ts_inflight s session of
        None \<Rightarrow> s
      | Some inflight \<Rightarrow>
          let rest = inflight - {correlation} in
          s\<lparr>ts_inflight := (ts_inflight s)(session := (if rest = {} then None else Some rest))\<rparr>)"

definition remove_inflight_reification where
  "remove_inflight_reification session correlation =
     bnd (gets (\<lambda>s. ts_inflight s session)) (\<lambda>found.
     bnd (ok_or ''durable confirmation has no matching in-flight session epoch'' found) (\<lambda>inflight.
     andthen (refuse (correlation \<notin> inflight) ''durable confirmation has no matching in-flight correlation'')
       (modify (drop_inflight session correlation))))"

definition enqueue_reifications_for where
  "enqueue_reifications_for K W peer session reifications =
     each (\<lambda>(plan, command, token).
       andthen (modify (add_inflight session (durable_correlation_of K plan)))
       (bnd (port (queue_send W
          \<lparr>rf_peer = peer, rf_session = session, rf_plan = plan, rf_command = command, rf_intent_token = token\<rparr>)) (\<lambda>taken.
        if taken then ret ()
        else andthen (modify (drop_inflight session (durable_correlation_of K plan)))
               (throw ''session reification queue closed'')))) reifications"

definition enqueue_reifications where
  "enqueue_reifications K W peer reifications =
     bnd (gets (\<lambda>s. ts_active s peer)) (\<lambda>found.
     bnd (ok_or ''session reification has no active peer'' found) (\<lambda>a.
       enqueue_reifications_for K W peer (active_identity K a) reifications))"

definition update_foundation_horizon where
  "update_foundation_horizon history view revision s =
     s\<lparr>ts_foundations := (\<lambda>peer. map_option
         (\<lambda>f. f\<lparr>fo_history := history, fo_durable_view := view, fo_durable_revision := revision\<rparr>) (ts_foundations s peer))\<rparr>"

text \<open>One pass of the loops over the active sessions: the projection of the presented peer, when it moved.\<close>

definition advance_peer where
  "advance_peer K history view revision peer =
     bnd (on_active peer (bnd (advance_durable K revision history view) (\<lambda>kind. gets (\<lambda>a. (kind, a))))) (\<lambda>(kind, a).
     bnd (gets ts_presentation_peer) (\<lambda>selected.
     ret (case kind of
            None \<Rightarrow> None
          | Some k \<Rightarrow> if selected = Some peer then Some (projection_event K k a) else None)))"

definition advance_all where
  "advance_all K W history view revision =
     bnd (gets active_peers) (\<lambda>peers.
     bnd (collect (advance_peer K history view revision) peers) (\<lambda>moved.
     andthen (modify (update_foundation_horizon history view revision))
     (andthen (each (\<lambda>projection. emit K W (RealtimeOut (plain_realtime projection))) (List.map_filter id moved))
       (start_ready_renewals K W))))"

definition reset_all_projections where
  "reset_all_projections K W history view revision =
     bnd (gets active_peers) (\<lambda>peers.
     bnd (collect (\<lambda>peer.
            bnd (on_active peer (resynchronize_exact K revision history view)) (\<lambda>projection.
            gets (\<lambda>s. if ts_presentation_peer s = Some peer then Some projection else None))) peers) (\<lambda>found.
     andthen (modify (update_foundation_horizon history view revision))
     (case rev (List.map_filter id found) of
        [] \<Rightarrow> andthen (start_ready_renewals K W) (ret False)
      | projection # _ \<Rightarrow>
          andthen (emit K W (RealtimeOut (plain_realtime projection)))
          (andthen (start_ready_renewals K W) (ret True)))))"

definition advance_companions_and_select_projection where
  "advance_companions_and_select_projection K source kind revision history view =
     bnd (gets ts_presentation_peer) (\<lambda>selected.
     bnd (if selected = Some source
          then bnd (gets (\<lambda>s. ts_active s source)) (\<lambda>found.
               bnd (ok_or ''durable session confirmation has no active peer'' found) (\<lambda>a.
               ret (Some (projection_event K kind a))))
          else ret None) (\<lambda>first.
     bnd (gets (\<lambda>s. filter (\<lambda>peer. peer \<noteq> source) (active_peers s))) (\<lambda>others.
     bnd (collect (advance_peer K history view revision) others) (\<lambda>moved.
     ret (case rev (List.map_filter id moved) of [] \<Rightarrow> first | projection # _ \<Rightarrow> Some projection)))))"

text \<open>The tail \<open>confirm_local\<close> and \<open>observe\<close> share, from the advance of the companions on.\<close>

definition publish_confirmation where
  "publish_confirmation K W peer ready kind token history view revision =
     bnd (advance_companions_and_select_projection K peer kind revision history view) (\<lambda>projection.
     andthen (modify (update_foundation_horizon history view revision))
     (andthen (case projection of
          None \<Rightarrow> ret ()
        | Some p \<Rightarrow>
            bnd (gets ts_presentation_peer) (\<lambda>presented. bnd (expect presented) (\<lambda>_.
            emit_realtime_or_fail_generation K W
              ((plain_realtime p)\<lparr>re_durable := map (\<lambda>(plan, _, _). durable_correlation_of K plan) ready,
                 re_intent_token := token\<rparr>))))
     (andthen (enqueue_reifications K W peer ready) (start_ready_renewals K W))))"

text \<open>\<open>planner.record_admission\<close> or \<open>record_observed_admission\<close>, then \<open>confirm\<close> and \<open>retry_reifications\<close>.\<close>

definition admit where
  "admit K record entry admission history view revision =
     bnd (lift_result id (admission_from_replica (runtime K) entry admission max_session_message_bytes)) (\<lambda>offered.
     bnd (gets id) (\<lambda>a.
     bnd (on_part as_planner (\<lambda>x a. a\<lparr>as_planner := x\<rparr>) id (record a offered)) (\<lambda>admitted.
     bnd (confirm K admitted revision history view) (\<lambda>kind.
     bnd (retry_reifications K) (\<lambda>ready. ret (ready, kind))))))"

definition confirm_retired where
  "confirm_retired K W session plan token entry admission history view revision =
     bnd (gets (\<lambda>s. ts_retired s session)) (\<lambda>found.
     bnd (ok_or ''durable session confirmation has neither an active nor retired epoch'' found) (\<lambda>retired.
     let correlation = durable_correlation_of K plan in
     andthen (refuse (correlation \<notin> rs_outstanding retired)
       ''durable session confirmation did not match an outstanding retired reification'')
     (bnd (zoom (\<lambda>s. rs_active (the (ts_retired s session)))
             (\<lambda>a s. s\<lparr>ts_retired := (ts_retired s)(session \<mapsto> (the (ts_retired s session))\<lparr>rs_active := a\<rparr>)\<rparr>)
             (admit K (\<lambda>a offered. record_admission (runtime K) plan entry offered) entry admission history view revision)) (\<lambda>(ready, _).
      bnd (gets (\<lambda>s. the (ts_retired s session))) (\<lambda>r.
      let outstanding = rs_outstanding r - {correlation} \<union> set (map (\<lambda>(p, _, _). durable_correlation_of K p) ready) in
      andthen (modify (\<lambda>s. s\<lparr>ts_retired := (ts_retired s)(session \<mapsto> r\<lparr>rs_outstanding := outstanding\<rparr>)\<rparr>))
      (bnd (ok_or ''retired session projection sequence exhausted'' (checked_succ (pj_sequence (rs_projection r)))) (\<lambda>sequence.
      let projection = (rs_projection r)\<lparr>pj_sequence := sequence, pj_durable_revision := revision,
            pj_durable_root := history_root (authority K) history, pj_kind := Confirmed, pj_view := view\<rparr> in
      andthen (modify (\<lambda>s. s\<lparr>ts_retired := (ts_retired s)(session \<mapsto>
                 r\<lparr>rs_outstanding := outstanding, rs_projection := projection\<rparr>)\<rparr>))
      (andthen (remove_inflight_reification session correlation)
      (andthen (enqueue_reifications_for K W (ei_peer session) session ready)
      (andthen (if outstanding = {} \<and> \<not> has_local_reification_wait (rs_active r)
                then modify (\<lambda>s. s\<lparr>ts_retired := (ts_retired s)(session := None)\<rparr>) else ret ())
      (andthen (emit K W (RealtimeOut ((plain_realtime projection)\<lparr>re_intent_token := token\<rparr>)))
        (advance_all K W history view revision))))))))))))"

definition confirm_local where
  "confirm_local K W peer session plan token entry admission history view revision =
     bnd (gets (\<lambda>s. ts_active s peer)) (\<lambda>found.
     if \<not> (case found of None \<Rightarrow> False | Some a \<Rightarrow> active_identity K a = session)
     then confirm_retired K W session plan token entry admission history view revision
     else
       bnd (on_active peer
              (admit K (\<lambda>a offered. record_admission (runtime K) plan entry offered) entry admission history view revision)) (\<lambda>(ready, kind).
       andthen (remove_inflight_reification session (durable_correlation_of K plan))
         (publish_confirmation K W peer ready (case kind of None \<Rightarrow> Confirmed | Some k \<Rightarrow> k) token history view revision)))"

definition observe where
  "observe K W entry admission history view revision =
     (if \<not> has_session_domain (runtime K) entry then ret ()
      else
        bnd (lift_result id (reified_manifest (runtime K) entry max_session_message_bytes)) (\<lambda>manifest.
        bnd (gets (\<lambda>s. find (\<lambda>peer. case ts_active s peer of None \<Rightarrow> False | Some a \<Rightarrow>
               manifest_digest (authority K) (session_manifest K a) = manifest) (active_peers s))) (\<lambda>found.
        case found of
          None \<Rightarrow> advance_all K W history view revision
        | Some peer \<Rightarrow>
            bnd (on_active peer
                   (admit K (\<lambda>a offered. record_observed_admission (runtime K) (as_kernel a) entry offered) entry admission history view revision))
              (\<lambda>(ready, kind).
              publish_confirmation K W peer ready (case kind of None \<Rightarrow> Confirmed | Some k \<Rightarrow> k) None history view revision))))"

section \<open>Local edits\<close>

text \<open>From the mutation of the session on, any failure ends the generation.\<close>

definition publish_local_edit where
  "publish_local_edit K W peer token local_result =
     (case local_result of
        Inl e \<Rightarrow> fail_session_generation W (''compact local event failed after session mutation: '' @ e)
      | Inr event \<Rightarrow>
          bnd (gets (\<lambda>s. ts_active s peer)) (\<lambda>found. bnd (expect found) (\<lambda>a.
          (case show_errors (carrier_encode (write_carrier (serde K))
                  (Event (fo_local (as_foundation a)) peer (as_session_id a) (le_frame event))) of
             Inl e \<Rightarrow> fail_session_generation W (''compact carrier encoding failed after session mutation: '' @ e)
           | Inr frame \<Rightarrow>
               bnd (case le_trace event of
                      None \<Rightarrow> ret None
                    | Some t \<Rightarrow> bnd (port (now_micros W)) (\<lambda>at. ret (Some (t\<lparr>ct_worker_projected := at\<rparr>)))) (\<lambda>trace.
               andthen (case le_plan event of
                   None \<Rightarrow> ret ()
                 | Some plan \<Rightarrow>
                     let session = active_identity K a; correlation = durable_correlation_of K plan in
                     andthen (modify (add_inflight session correlation))
                     (bnd (port (queue_start_send W
                        \<lparr>rf_peer = peer, rf_session = session, rf_plan = plan, rf_command = le_command event,
                         rf_intent_token = Some token\<rparr>)) (\<lambda>taken.
                      if taken then ret ()
                      else andthen (modify (drop_inflight session correlation))
                             (fail_session_generation W ''reserved session reification enqueue failed after session mutation''))))
               (emit_realtime_or_fail_generation K W
                  ((plain_realtime (projection_event K Predicted a))\<lparr>re_carrier := Some frame,
                     re_durable := (case le_plan event of None \<Rightarrow> [] | Some plan \<Rightarrow> [durable_correlation_of K plan]),
                     re_intent_token := Some token, re_trace := trace\<rparr>)))))))"

definition local_edit where
  "local_edit K W command token trace accepted_at =
     bnd (gets ts_events) (\<lambda>events.
     bnd (ok_or ''worker session event port is not configured'' events) (\<lambda>out.
     let generation = port_generation W out in
     if tk_generation token \<noteq> generation
     then reject_intent K W token
            (''stale performance intent generation '' @ decimal (unat (tk_generation token)) @
             ''; current worker generation is '' @ decimal (unat generation))
     else if \<not> is_pitch_edit command
     then reject_intent K W token ''compact session only accepts shared pitch-set edits''
     else
       bnd (gets (\<lambda>s. case ts_presentation_peer s of
              None \<Rightarrow> None | Some peer \<Rightarrow> map_option (Pair peer) (ts_active s peer))) (\<lambda>selected.
       case selected of
         None \<Rightarrow> emit K W (FallbackDurable command token)
       | Some (peer, a) \<Rightarrow>
           if is_saturated K a then emit K W (FallbackDurable command token)
           else (case preflight_local_event K a of
             Inl e \<Rightarrow> reject_intent K W token e
           | Inr _ \<Rightarrow>
               bnd (port (queue_ready W)) (\<lambda>free.
               if \<not> free then reject_intent K W token ''session reification queue closed''
               else
                 bnd (port (now_ticks W)) (\<lambda>clock.
                 case clock of
                   Inl e \<Rightarrow> reject_intent K W token e
                 | Inr receiver_now \<Rightarrow>
                     bnd (gets ts_trace_enabled) (\<lambda>trace_on.
                     bnd (inspect (on_active_clocked peer
                            (local_event K W command token receiver_now trace_on trace accepted_at)))
                       (publish_local_edit K W peer token))))))))"

section \<open>The task\<close>

definition accept_application where
  "accept_application K W channel bs =
     andthen (refuse (channel \<noteq> room_session_channel) (''unsupported worker session channel '' @ decimal (unat channel)))
     (bnd (gets ts_trace_enabled) (\<lambda>trace_on.
      bnd (if trace_on then port (now_micros W) else ret None) (\<lambda>accepted_at.
      bnd (lift_result id (show_errors (decode (read_ingress (serde K)) bs))) (\<lambda>ingress.
      case ingress of
        LocalPitchEdit command token trace \<Rightarrow> local_edit K W command token trace accepted_at
      | CarrierFrame frame received_at \<Rightarrow> carrier K W frame received_at accepted_at))))"

definition accept_input where
  "accept_input K W input =
     (case input of
        Configure out trace_on \<Rightarrow>
          andthen (silent_port (store_configure W out))
            (modify (\<lambda>s. s\<lparr>ts_events := Some out, ts_trace_enabled := trace_on\<rparr>))
      | StartPeer foundation \<Rightarrow> start_peer K W foundation
      | Application channel bs \<Rightarrow> accept_application K W channel bs
      | LocalCommitted peer session plan token entry admission history view revision \<Rightarrow>
          confirm_local K W peer session plan token entry admission history view revision
      | Observed entry admission history view revision \<Rightarrow> observe K W entry admission history view revision
      | DurableAdvanced history view revision \<Rightarrow> advance_all K W history view revision
      | ResetProjection history view revision reply \<Rightarrow>
          bnd (inspect (reset_all_projections K W history view revision)) (\<lambda>result.
          andthen (silent_port (reply_reset W reply result)) (bnd (lift_result id result) (\<lambda>_. ret ())))
      | RepairResynchronized history view revision \<Rightarrow>
          bnd (reset_all_projections K W history view revision) (\<lambda>_. ret ())
      | RefreshFoundations foundations \<Rightarrow>
          andthen (modify (\<lambda>s. s\<lparr>ts_foundations := map_of (rev (map (\<lambda>f. (fo_peer f, f)) foundations))\<rparr>))
            (start_ready_renewals K W)
      | Shutdown \<Rightarrow> ret ())"

text \<open>\<open>run_room_session_task\<close> on the inputs its inbox delivers before it closes; \<open>None\<close> is a panic. The task
  ends at \<open>Shutdown\<close>, and after an error that ended the generation.\<close>

fun run_session_task where
  "run_session_task K W [] s = Some s"
| "run_session_task K W (input # inputs) s =
     (if input = Shutdown then Some s
      else case accept_input K W input s of
        (Inl Panic, _) \<Rightarrow> None
      | (Inl (Err e), t) \<Rightarrow>
          let u = snd ((diagnostic K W e :: (_, string, unit) eff) t) in
          if ts_events u = None then Some u else run_session_task K W inputs u
      | (Inr _, t) \<Rightarrow> run_session_task K W inputs t)"

end
