(* ===== verification/Session_Epochs.thy ===== *)
theory Session_Epochs
  imports Session_Active Session_Task
begin

text \<open>
  What every method of an established epoch keeps: the identity of the epoch, its peer and the bound on
  edits waiting for their dependencies. No method panics.
\<close>

section \<open>The methods of a session\<close>

text \<open>What every method of \<open>ActiveSession\<close> keeps: the identity of the epoch and the bound on waiting edits.\<close>

definition waiting_bounded :: "('x, 'd) active_session \<Rightarrow> bool" where
  "waiting_bounded a \<longleftrightarrow> finite (dom (as_awaiting a)) \<and> card (dom (as_awaiting a)) \<le> session_capacity"

definition follows :: "('x, 'd) active_session \<Rightarrow> ('x, 'd) active_session \<Rightarrow> bool" where
  "follows a b \<longleftrightarrow>
     as_session b = as_session a \<and> as_session_id b = as_session_id a \<and>
     fo_peer (as_foundation b) = fo_peer (as_foundation a) \<and> fo_local (as_foundation b) = fo_local (as_foundation a) \<and>
     (waiting_bounded a \<longrightarrow> waiting_bounded b)"

lemma follows_refl [simp]: "follows a a"
  by (simp add: follows_def)

lemma follows_identity: "follows a b \<Longrightarrow> active_identity K b = active_identity K a"
  by (simp add: follows_def active_identity_def session_manifest_def)

lemma follows_epoch: "follows a b \<Longrightarrow> session_manifest K b = session_manifest K a"
  by (simp add: follows_def session_manifest_def)

lemma keeps_follows_resynchronize:
  "follows a0 a \<Longrightarrow> keeps (follows a0) (resynchronize K revision history horizon) a"
  unfolding resynchronize_def Let_def on_projection_def
  by (simp add: wps follows_def waiting_bounded_def split: prod.split sum.split)

lemma keeps_follows_confirm:
  "follows a0 a \<Longrightarrow> keeps (follows a0) (confirm K admission revision history view) a"
  unfolding confirm_def Let_def on_projection_def
  apply (intro wp_steps)
   apply assumption
  apply (rule wp_call [where P = "\<lambda>_. follows a0"])
   apply (rule wp_step_if)
    apply (simp add: wps follows_def waiting_bounded_def split: prod.split sum.split)
   apply (rule wp_then [OF keeps_follows_resynchronize], assumption)
   apply (simp add: wps)
  apply (simp add: wps follows_def waiting_bounded_def set_horizon_def)
  done

lemma keeps_follows_advance_durable:
  "follows a0 a \<Longrightarrow> keeps (follows a0) (advance_durable K revision history view) a"
  unfolding advance_durable_def Let_def on_projection_def
  apply (intro wp_steps)
   apply assumption
  apply (rule wp_call [where P = "\<lambda>_. follows a0"])
   apply (rule wp_step_if)
    apply (simp add: wps follows_def waiting_bounded_def split: prod.split sum.split)
   apply (rule wp_then [OF keeps_follows_resynchronize], assumption)
   apply (simp add: wps)
  apply (simp add: wps follows_def waiting_bounded_def set_horizon_def)
  done

lemma keeps_follows_resynchronize_exact:
  "follows a0 a \<Longrightarrow> wp (resynchronize_exact K revision history view)
     (\<lambda>p b. follows a0 b \<and> p = projection_event K Session_Gate.Reset b) (\<lambda>_. follows a0) a"
  unfolding resynchronize_exact_def
  apply (rule wp_then [OF keeps_follows_resynchronize], assumption)
  apply (simp add: wps follows_def waiting_bounded_def set_horizon_def)
  done

text \<open>Up to its last step the handling of an event leaves the waiting edits alone.\<close>

definition steady where
  "steady a b \<longleftrightarrow> follows a b \<and> as_awaiting b = as_awaiting a"

lemma steady_refl [simp]: "steady a a"
  by (simp add: steady_def)

lemma steady_follows: "steady a b \<Longrightarrow> follows a b"
  by (simp add: steady_def)

lemma keeps_steady_ingest: "steady a0 a \<Longrightarrow> keeps (steady a0) (ingest K permitted) a"
  unfolding ingest_def on_projection_def
  by (simp add: wps steady_def follows_def waiting_bounded_def split: prod.split sum.split)

lemma keeps_steady_lease_time: "steady a0 a \<Longrightarrow> keeps (steady a0) (receiver_lease_time ticks) a"
  unfolding receiver_lease_time_def
  by (simp add: wps steady_def follows_def waiting_bounded_def)

text \<open>A waiting edit is retried once; those not yet reached are still there.\<close>

lemma keeps_retry_reification:
  assumes "follows a0 a" and "dot \<in> dom (as_awaiting a)"
  shows "wp (retry_reification K dot)
     (\<lambda>_ b. follows a0 b \<and> dom (as_awaiting a) - {dot} \<subseteq> dom (as_awaiting b)) (\<lambda>_. follows a0) a"
proof -
  have "finite (dom (as_awaiting a) - {dot})" "card (dom (as_awaiting a) - {dot}) \<le> session_capacity"
    if "finite (dom (as_awaiting a))" "card (dom (as_awaiting a)) \<le> session_capacity"
    using that by (auto intro: le_trans [OF card_Diff1_le])
  then show ?thesis
    using assms unfolding retry_reification_def
    by (auto simp: wps follows_def waiting_bounded_def split: prod.split sum.split option.split reification_error.split)
qed

lemma keeps_retry_all:
  "follows a0 a \<Longrightarrow> distinct dots \<Longrightarrow> set dots \<subseteq> dom (as_awaiting a) \<Longrightarrow>
   keeps (follows a0) (collect (retry_reification K) dots) a"
proof (induction dots arbitrary: a)
  case Nil
  then show ?case by (simp add: wps)
next
  case (Cons dot dots)
  have "wp (retry_reification K dot)
      (\<lambda>_ b. follows a0 b \<and> dom (as_awaiting a) - {dot} \<subseteq> dom (as_awaiting b)) (\<lambda>_. follows a0) a"
    using Cons.prems by (intro keeps_retry_reification) auto
  then show ?case
    unfolding collect.simps
  proof (rule wp_call)
    fix r b assume b: "follows a0 b \<and> dom (as_awaiting a) - {dot} \<subseteq> dom (as_awaiting b)"
    have "set dots \<subseteq> dom (as_awaiting a) - {dot}"
      using Cons.prems(2,3) by (simp add: subset_iff) metis
    then have "keeps (follows a0) (collect (retry_reification K) dots) b"
      using b Cons.prems(2) by (intro Cons.IH) (simp_all add: subset_trans)
    then show "wp (bnd (collect (retry_reification K) dots) (\<lambda>as. ret (r # as))) (\<lambda>_. follows a0) (\<lambda>_. follows a0) b"
      by (rule wp_call) (simp add: wps)
  qed
qed

lemma keeps_follows_retry_reifications: "follows a0 a \<Longrightarrow> keeps (follows a0) (retry_reifications K) a"
  unfolding retry_reifications_def
  apply (rule wp_step_gets)
  apply (rule wp_call [OF keeps_retry_all])
     apply (simp_all add: wps)
  apply (cases "finite (dom (as_awaiting a))")
   apply simp_all
  done

lemma keeps_follows_admit:
  "follows a0 a \<Longrightarrow> keeps (follows a0) (admit K record entry admission history view revision) a"
  unfolding admit_def
  apply (intro wp_steps)
   apply assumption
  apply (rule wp_call [where P = "\<lambda>_. follows a0"])
   apply (simp add: wps follows_def waiting_bounded_def split: prod.split sum.split)
  apply (rule wp_call [OF keeps_follows_confirm], assumption)
  apply (rule wp_call [OF keeps_follows_retry_reifications], assumption)
  apply (simp add: wps)
  done

section \<open>The methods that read the trace clock\<close>

definition beside where
  "beside G P = (\<lambda>(w, b). G w \<and> P b)"

lemma beside_pair [simp]: "beside G P (w, b) \<longleftrightarrow> G w \<and> P b"
  by (simp add: beside_def)

lemma besideD: "beside G P wb \<Longrightarrow> G (fst wb) \<and> P (snd wb)"
  by (cases wb) simp

lemma beside_mono: "(\<And>b. P b \<Longrightarrow> P' b) \<Longrightarrow> beside G P wb \<Longrightarrow> beside G P' wb"
  by (cases wb) simp

lemma beside_weaken: "beside G (steady a0) wb \<Longrightarrow> beside G (follows a0) wb"
  by (cases wb) (simp add: steady_follows)

lemma wp_in_session:
  assumes "keeps P m (snd wb)" and "G (fst wb)"
  shows "keeps (beside G P) (in_session m) wb"
  using assms by (cases wb) (auto simp: wps elim: wp_mono)

lemma wp_failing: "wp m Q (\<lambda>e. E (f e)) s \<Longrightarrow> wp (failing_as f m) Q E s"
  unfolding failing_as_def wp_bnd wp_inspect by (erule wp_mono) (simp_all add: wps)

lemma wp_trace_now:
  assumes "\<And>w. G w \<Longrightarrow> G (snd (now_micros W w))" and "beside G P wb"
  shows "wp (trace_now W on) (\<lambda>_. beside G P) E wb"
  using assms(1) [of "fst wb"] assms(2)
  unfolding trace_now_def by (cases wb) (auto simp: wps split: prod.split)

lemma keeps_steady_parts:
  "steady a0 a \<Longrightarrow> keeps (steady a0) (on_part as_sender (\<lambda>x a. a\<lparr>as_sender := x\<rparr>) f call) a"
  "steady a0 a \<Longrightarrow> keeps (steady a0) (on_part as_echo_receiver (\<lambda>x a. a\<lparr>as_echo_receiver := x\<rparr>) f call) a"
  "steady a0 a \<Longrightarrow> keeps (steady a0) (on_part as_receiver (\<lambda>x a. a\<lparr>as_receiver := x\<rparr>) f call2) a"
  "steady a0 a \<Longrightarrow> keeps (steady a0) (modify (\<lambda>a. a\<lparr>as_logical_time := g a\<rparr>)) a"
  "steady a0 a \<Longrightarrow> keeps (steady a0) (bnd (gets as_kernel) (\<lambda>kernel.
     calling as_planner (\<lambda>x a. a\<lparr>as_planner := x\<rparr>) (plan kernel))) a"
  by (simp_all add: wps steady_def follows_def waiting_bounded_def split: prod.split sum.split)

lemma wp_split_reify:
  "(\<And>e. planned = Inl (OtherReification e) \<Longrightarrow> wp (f e) Q E s) \<Longrightarrow> (planned = Inl UnreifiedDependency \<Longrightarrow> wp m Q E s) \<Longrightarrow>
   (\<And>plan. planned = Inr plan \<Longrightarrow> wp (k plan) Q E s) \<Longrightarrow>
   wp (case planned of Inl UnreifiedDependency \<Rightarrow> m | Inl (OtherReification e) \<Rightarrow> f e | Inr plan \<Rightarrow> k plan) Q E s"
  by (simp split: sum.split reification_error.split)

text \<open>One step of a clocked method: a method of the session, the clock, and the error it may end with.\<close>

lemma clocked_call:
  assumes "beside G (steady a0) wb" and "\<And>a. steady a0 a \<Longrightarrow> keeps (steady a0) m a"
    and "\<And>x wb. beside G (steady a0) wb \<Longrightarrow> wp (k x) Q (\<lambda>_. beside G (follows a0)) wb"
  shows "wp (bnd (in_session m) k) Q (\<lambda>_. beside G (follows a0)) wb"
  using wp_in_session [where P = "steady a0" and m = m and wb = wb and G = G] assms besideD [OF assms(1)]
  unfolding wp_bnd by (auto elim!: wp_mono intro: beside_weaken)

lemma clocked_trace:
  assumes "\<And>w. G w \<Longrightarrow> G (snd (now_micros W w))" and "beside G (steady a0) wb"
    and "\<And>x wb. beside G (steady a0) wb \<Longrightarrow> wp (k x) Q (\<lambda>_. beside G (follows a0)) wb"
  shows "wp (bnd (trace_now W on) k) Q (\<lambda>_. beside G (follows a0)) wb"
  by (rule wp_call [OF wp_trace_now]) (use assms in auto)

lemma preflight_room: "preflight_local_event K a = Inr u \<Longrightarrow> card (dom (as_awaiting a)) < session_capacity"
  by (simp add: preflight_local_event_def split: if_splits)

lemma waits_follows:
  assumes "steady a0 a" and "card (dom (as_awaiting a0)) < session_capacity"
  shows "follows a0 (a\<lparr>as_awaiting := (as_awaiting a)(dot \<mapsto> x)\<rparr>)"
proof -
  have "card (insert dot (dom (as_awaiting a0))) \<le> session_capacity" if "finite (dom (as_awaiting a0))"
    using assms(2) that by (simp add: card_insert_if)
  then show ?thesis
    using assms(1) by (simp add: steady_def follows_def waiting_bounded_def)
qed

lemma keeps_local_event:
  assumes clock: "\<And>w. G w \<Longrightarrow> G (snd (now_micros W w))" and start: "G w"
  shows "keeps (beside G (follows a0)) (local_event K W command token ticks trace_on trace accepted_at) (w, a0)"
proof -
  show ?thesis
    unfolding local_event_def Let_def andthen_def
    apply (intro wp_steps)
     apply (simp add: start)
    apply (rule clocked_call, simp add: start, erule keeps_steady_parts)
    apply (intro wp_steps; (erule beside_weaken)?)
    apply (rule clocked_call, assumption, erule keeps_steady_parts)
    apply (intro wp_steps; (erule beside_weaken)?)
    apply (rule clocked_call, assumption, erule keeps_steady_parts)
    apply (rule clocked_trace, erule clock, assumption)
    apply (rule clocked_call, assumption, erule keeps_steady_lease_time)
    apply (intro wp_steps; (erule beside_weaken)?)
    apply (rule clocked_trace, erule clock, assumption)
    apply (intro wp_steps; (erule beside_weaken)?)
    apply (rule clocked_trace, erule clock, assumption)
    apply (rule clocked_call, assumption, erule keeps_steady_ingest)
    apply (rule clocked_call, assumption, erule keeps_steady_parts)
    apply (rule wp_call [where P = "\<lambda>_. beside G (follows a0)"])
     apply (intro wp_split_reify wp_steps; (erule beside_weaken)?)
     apply (rule wp_call [OF wp_in_session [where P = "follows a0"]])
       apply (simp add: wps waits_follows preflight_room besideD)
      apply (simp add: besideD)
     apply (intro wp_steps, assumption)
    apply (intro wp_steps, assumption)
    done
qed

lemma keeps_ingest_remote:
  assumes clock: "\<And>w. G w \<Longrightarrow> G (snd (now_micros W w))" and start: "G w"
  shows "keeps (beside G (follows a0)) (ingest_remote K W frame ticks trace_on accepted_at received_at) (w, a0)"
  unfolding ingest_remote_def Let_def andthen_def
  apply (intro wp_steps)
   apply (simp add: start)
  apply (rule clocked_call, simp add: start, erule keeps_steady_parts)
  apply (intro wp_steps; (erule beside_weaken)?)
  apply (rule clocked_trace, erule clock, assumption)
  apply (rule clocked_call, assumption, rule wp_failing, erule keeps_steady_lease_time)
  apply (intro wp_steps; (erule beside_weaken)?)
  apply (rule clocked_trace, erule clock, assumption)
  apply (intro wp_steps; (erule beside_weaken)?)
  apply (rule clocked_trace, erule clock, assumption)
  apply (rule clocked_call, assumption, erule keeps_steady_parts)
  apply (rule clocked_call, assumption, rule wp_failing, erule keeps_steady_ingest)
  apply (intro wp_steps; (erule beside_weaken)?)
  done

end
