(* ===== verification/Session_Renewal.thy ===== *)
theory Session_Renewal
  imports Session_Epochs
begin

text \<open>
  The invariant of the session task and how floors and epochs move: the calls on the ports, the beginning and
  the installing of a session, and the two establishment frames.

  The lemmas are proved in the locale \<open>session_world\<close>, a reading of the task's world: a property every port
  call keeps and the set of sessions whose floor has been persisted. \<open>Session_Invariant\<close> interprets it. What concerns epochs holds under \<open>renewal_laws\<close>, the documented behaviour of renewal floors.
\<close>

section \<open>The invariant of the task\<close>

text \<open>The documented behaviour of manifests, authorization and renewal floors the renewal argument rests on. Only what
  concerns epochs and persisted floors depends on it.\<close>

definition renewal_laws :: "'x authority_ops \<Rightarrow> bool" where
  "renewal_laws A \<longleftrightarrow>
     (\<forall>spec m. manifest_build A spec = Inr m \<longrightarrow> manifest_epoch A m = ms_epoch spec) \<and>
     (\<forall>c p m fs session. authorize_session A c p m fs = Inr session \<longrightarrow> auth_manifest A session = m) \<and>
     (\<forall>c p floor m fs r. authorize_session_renewal A c p floor m fs = Inr r \<longrightarrow>
        auth_manifest A (fst (renewal_parts A r)) = m \<and>
        snd (renewal_parts A r) = floor_from_authorized A (fst (renewal_parts A r)) \<and>
        snd (renewal_install A r) = floor_to_bytes A (snd (renewal_parts A r))) \<and>
     (\<forall>session. floor_epoch A (floor_from_authorized A session) = manifest_epoch A (auth_manifest A session)) \<and>
     (\<forall>floor epoch. floor_next_epoch A floor = Inr epoch \<longrightarrow> floor_epoch A floor < epoch)"

abbreviation lawful where
  "lawful K \<equiv> renewal_laws (authority K)"

definition session_epoch where
  "session_epoch K a = manifest_epoch (authority K) (session_manifest K a)"

text \<open>The floor the task has cached for a peer.\<close>

definition cached_floor where
  "cached_floor s peer = (case ts_renewal_floors s peer of None \<Rightarrow> None | Some floor \<Rightarrow> floor)"

definition active_ok where
  "active_ok K s \<longleftrightarrow>
     (\<forall>peer a. ts_active s peer = Some a \<longrightarrow>
        fo_peer (as_foundation a) = peer \<and> waiting_bounded a \<and>
        (\<exists>floor. cached_floor s peer = Some floor \<and> (lawful K \<longrightarrow> session_epoch K a \<le> floor_epoch (authority K) floor)))"

definition offers_ok where
  "offers_ok K s \<longleftrightarrow>
     (\<forall>peer p. ts_pending s peer = Some p \<longrightarrow>
        fo_peer (pe_foundation p) = peer \<and>
        (\<forall>floor. pe_renewal_floor p = Some floor \<longrightarrow> lawful K \<longrightarrow>
           floor_epoch (authority K) floor < manifest_epoch (authority K) (pe_manifest p)))"

definition inflight_ok where
  "inflight_ok K s \<longleftrightarrow>
     (\<forall>session cs. ts_inflight s session = Some cs \<longrightarrow>
        cs \<noteq> {} \<and> (\<exists>a. ts_active s (ei_peer session) = Some a \<and> active_identity K a = session))"

definition task_inv :: "('x, 'd) hhhs \<Rightarrow> ('x, 'd, 'w) session_task \<Rightarrow> bool" where
  "task_inv K s \<longleftrightarrow>
     active_ok K s \<and> offers_ok K s \<and> inflight_ok K s \<and> ts_retired s = Map.empty \<and>
     (\<forall>peer. ts_presentation_peer s = Some peer \<longrightarrow> ts_active s peer \<noteq> None) \<and>
     (\<forall>peer f. ts_foundations s peer = Some f \<longrightarrow> fo_peer f = peer)"

text \<open>What a run may do to floors and epochs: a cached floor never sinks, and a session that was not there
  before is above the floor that was.\<close>

definition climbs :: "('x, 'd) hhhs \<Rightarrow> ('x, 'd, 'w) session_task \<Rightarrow> ('x, 'd, 'w) session_task \<Rightarrow> bool" where
  "climbs K s t \<longleftrightarrow> (lawful K \<longrightarrow>
     (\<forall>peer floor. cached_floor s peer = Some floor \<longrightarrow>
        (\<exists>floor'. cached_floor t peer = Some floor' \<and> floor_epoch (authority K) floor \<le> floor_epoch (authority K) floor')) \<and>
     (\<forall>peer a. ts_active t peer = Some a \<longrightarrow>
        (\<exists>b. ts_active s peer = Some b \<and> active_identity K b = active_identity K a) \<or>
        (\<forall>floor. cached_floor s peer = Some floor \<longrightarrow> floor_epoch (authority K) floor < session_epoch K a)))"

section \<open>The world of the task\<close>

text \<open>A reading of the world: a property \<open>J\<close> every port call keeps, and the sessions \<open>opened w\<close> whose floor has
  been persisted. A projection may be sent only for an opened session.\<close>

definition shows_opened where
  "shows_opened K opened event \<longleftrightarrow>
     (case event of
        RealtimeOut re \<Rightarrow>
          lawful K \<longrightarrow>
          (\<exists>session \<in> opened.
             pj_manifest (re_projection re) = manifest_digest (authority K) (auth_manifest (authority K) session) \<and>
             pj_epoch (re_projection re) = manifest_epoch (authority K) (auth_manifest (authority K) session))
      | _ \<Rightarrow> True)"

locale session_world =
  fixes K :: "('x, 'd::linorder) hhhs"
    and W :: "('x, 'w) session_ports"
    and J :: "'w \<Rightarrow> bool"
    and opened :: "'w \<Rightarrow> 'x set"
  assumes quiet_silent: "J w \<Longrightarrow> J (store_configure W x w) \<and> opened w \<subseteq> opened (store_configure W x w)"
      "J w \<Longrightarrow> J (emit_error W x bs w) \<and> opened w \<subseteq> opened (emit_error W x bs w)"
      "J w \<Longrightarrow> J (reply_reset W x r w) \<and> opened w \<subseteq> opened (reply_reset W x r w)"
    and quiet_load: "J w \<Longrightarrow> J (snd (store_load W key w)) \<and> opened w \<subseteq> opened (snd (store_load W key w))"
    and quiet_clock: "J w \<Longrightarrow> J (snd (now_ticks W w)) \<and> opened w \<subseteq> opened (snd (now_ticks W w))"
      "J w \<Longrightarrow> J (snd (now_micros W w)) \<and> opened w \<subseteq> opened (snd (now_micros W w))"
    and quiet_random: "J w \<Longrightarrow> J (snd (fill_random W n w)) \<and> opened w \<subseteq> opened (snd (fill_random W n w))"
    and quiet_queue: "J w \<Longrightarrow> J (snd (queue_ready W w)) \<and> opened w \<subseteq> opened (snd (queue_ready W w))"
      "J w \<Longrightarrow> J (snd (queue_start_send W rf w)) \<and> opened w \<subseteq> opened (snd (queue_start_send W rf w))"
      "J w \<Longrightarrow> J (snd (queue_send W rf w)) \<and> opened w \<subseteq> opened (snd (queue_send W rf w))"
    and quiet_persist: "J w \<Longrightarrow> J (snd (store_persist W key place bs w)) \<and> opened w \<subseteq> opened (snd (store_persist W key place bs w))"
    and persist_opens: "J w \<Longrightarrow> store_persist W key place (floor_to_bytes (authority K) (floor_from_authorized (authority K) session)) w = (Inr u, w') \<Longrightarrow>
        session \<in> opened w'"
    and sending: "J w \<Longrightarrow> encode (write_egress (serde K)) event = Inr bs \<Longrightarrow> shows_opened K (opened w) event \<Longrightarrow>
        J (snd (send_application_frame W out room_session_channel bs w)) \<and>
        opened w \<subseteq> opened (snd (send_application_frame W out room_session_channel bs w))"
begin

definition good :: "('x, 'd, 'w) session_task \<Rightarrow> ('x, 'd, 'w) session_task \<Rightarrow> bool" where
  "good s0 s \<longleftrightarrow> task_inv K s \<and> climbs K s0 s \<and> J (ts_world s) \<and>
     (lawful K \<longrightarrow> (\<forall>peer a. ts_active s peer = Some a \<longrightarrow> as_session a \<in> opened (ts_world s)))"

lemma good_world:
  assumes "good s0 s" and "J w" and "opened (ts_world s) \<subseteq> opened w"
  shows "good s0 (s\<lparr>ts_world := w\<rparr>)"
  using assms unfolding good_def task_inv_def active_ok_def offers_ok_def inflight_ok_def climbs_def cached_floor_def
  by (auto simp: subset_iff)

lemma wp_port:
  assumes "good s0 s" and "\<And>w. J w \<Longrightarrow> J (snd (call w)) \<and> opened w \<subseteq> opened (snd (call w))"
  shows "wp (port call) (\<lambda>_. good s0) E s"
  using assms(2) [of "ts_world s"] good_world [OF assms(1)] assms(1)
  by (auto simp: port_def wps good_def split: prod.split)

lemma wp_try_port:
  assumes "good s0 s" and "\<And>w. J w \<Longrightarrow> J (snd (call w)) \<and> opened w \<subseteq> opened (snd (call w))"
  shows "keeps (good s0) (try_port call) s"
  using assms(2) [of "ts_world s"] good_world [OF assms(1)] assms(1)
  by (auto simp: try_port_def wps good_def split: prod.split sum.split)

lemma wp_silent_port:
  assumes "good s0 s" and "\<And>w. J w \<Longrightarrow> J (call w) \<and> opened w \<subseteq> opened (call w)"
  shows "wp (silent_port call) (\<lambda>_. good s0) E s"
  using assms(2) [of "ts_world s"] good_world [OF assms(1)] assms(1)
  by (auto simp: silent_port_def wps good_def)

end

section \<open>What leaves the invariant alone\<close>

lemma active_new_fields:
  "active_new K foundation session sid keys origin = Inr a \<Longrightarrow>
   as_foundation a = foundation \<and> as_session a = session \<and> as_session_id a = sid \<and> as_awaiting a = Map.empty"
  unfolding active_new_def Let_def by (auto simp: case_prod_beta)

definition authorized_by where
  "authorized_by K manifest authorization \<longleftrightarrow>
     (let A = authority K in
      case authorization of
        Initial session floor \<Rightarrow> auth_manifest A session = manifest \<and> floor = floor_from_authorized A session
      | Renewal r \<Rightarrow>
          auth_manifest A (fst (renewal_parts A r)) = manifest \<and>
          snd (renewal_parts A r) = floor_from_authorized A (fst (renewal_parts A r)) \<and>
          snd (renewal_install A r) = floor_to_bytes A (snd (renewal_parts A r)))"

lemma authorize_pair_authorized:
  assumes "renewal_laws (authority K)" and "authorize_pair K foundation manifest mine remote floor = Inr authorization"
  shows "authorized_by K manifest authorization"
  using assms unfolding authorize_pair_def authorized_by_def renewal_laws_def Let_def
  by (auto split: option.splits)

lemma build_manifest_epoch:
  assumes "renewal_laws (authority K)" and "build_manifest K foundation sid epoch = Inr manifest"
  shows "manifest_epoch (authority K) manifest = epoch"
  using assms unfolding build_manifest_def renewal_laws_def Let_def by (auto split: prod.splits)

lemma shows_other [simp]:
  "shows_opened K sessions (CarrierOut bs)" "shows_opened K sessions (FallbackDurable c token)"
  "shows_opened K sessions (IntentRejected token reason)" "shows_opened K sessions (DiagnosticOut message)"
  "shows_opened K sessions (RenewalTrace t)"
  by (simp_all add: shows_opened_def)

lemma shows_projection:
  "(lawful K \<Longrightarrow> as_session a \<in> sessions) \<Longrightarrow> re_projection re = projection_event K kind a \<Longrightarrow> shows_opened K sessions (RealtimeOut re)"
  by (auto simp: shows_opened_def projection_event_def session_manifest_def Let_def)

lemma proposed_epoch_above:
  assumes "renewal_laws (authority K)" and "proposed_epoch K (Some floor) = Inr epoch"
  shows "floor_epoch (authority K) floor < epoch"
  using assms unfolding proposed_epoch_def renewal_laws_def by auto

context session_world begin

lemma good_activeD:
  assumes "good s0 s" and "ts_active s peer = Some a"
  shows "fo_peer (as_foundation a) = peer" and "waiting_bounded a" and "lawful K \<Longrightarrow> as_session a \<in> opened (ts_world s)"
    and "\<exists>floor. cached_floor s peer = Some floor \<and> (lawful K \<longrightarrow> session_epoch K a \<le> floor_epoch (authority K) floor)"
  using assms unfolding good_def task_inv_def active_ok_def by blast+

lemma good_inflightD:
  assumes "good s0 s" and "ts_inflight s session = Some cs"
  shows "cs \<noteq> {}" and "\<exists>a. ts_active s (ei_peer session) = Some a \<and> active_identity K a = session"
  using assms unfolding good_def task_inv_def inflight_ok_def by blast+

text \<open>A call that moves nothing but the world.\<close>

definition moved where
  "moved s0 s t \<longleftrightarrow> good s0 t \<and> (\<exists>w. t = s\<lparr>ts_world := w\<rparr> \<and> opened (ts_world s) \<subseteq> opened w)"

lemma moved_good: "moved s0 s t \<Longrightarrow> good s0 t"
  by (simp add: moved_def)

lemma moved_refl: "good s0 s \<Longrightarrow> moved s0 s s"
  unfolding moved_def by (intro conjI exI [of _ "ts_world s"]) simp_all

lemma moved_trans: "moved s0 s t \<Longrightarrow> moved s0 t u \<Longrightarrow> moved s0 s u"
  unfolding moved_def
  by (elim conjE exE, rule conjI, assumption, rename_tac w v, rule_tac x = v in exI) auto

lemma moved_opened: "moved s0 s t \<Longrightarrow> session \<in> opened (ts_world s) \<Longrightarrow> session \<in> opened (ts_world t)"
  unfolding moved_def by auto

lemma moved_fields:
  assumes "moved s0 s t"
  shows "ts_active t = ts_active s" "ts_pending t = ts_pending s" "ts_inflight t = ts_inflight s"
    "ts_retired t = ts_retired s" "ts_foundations t = ts_foundations s" "ts_presentation_peer t = ts_presentation_peer s"
    "ts_renewal_floors t = ts_renewal_floors s" "cached_floor t peer = cached_floor s peer"
    "waits_on_reification t peer = waits_on_reification s peer"
    "peer_has_recovery_work t peer = peer_has_recovery_work s peer"
  using assms
  by (auto simp: moved_def cached_floor_def waits_on_reification_def peer_has_recovery_work_def)

lemma wp_moved_try_port:
  assumes "good s0 s" and "\<And>w. J w \<Longrightarrow> J (snd (call w)) \<and> opened w \<subseteq> opened (snd (call w))"
  shows "keeps (moved s0 s) (try_port call) s"
  using assms(2) [of "ts_world s"] good_world [OF assms(1)] assms(1)
  by (auto simp: try_port_def wps good_def moved_def split: prod.split sum.split)

lemma wp_moved_port:
  assumes "good s0 s" and "\<And>w. J w \<Longrightarrow> J (snd (call w)) \<and> opened w \<subseteq> opened (snd (call w))"
  shows "wp (port call) (\<lambda>_. moved s0 s) E s"
  using assms(2) [of "ts_world s"] good_world [OF assms(1)] assms(1)
  by (auto simp: port_def wps good_def moved_def split: prod.split)

lemma keeps_emit:
  assumes "good s0 s" and "shows_opened K (opened (ts_world s)) event"
  shows "keeps (moved s0 s) (emit K W event) s"
proof -
  have "J (ts_world s)" using assms(1) by (simp add: good_def)
  show ?thesis
    unfolding emit_def
    apply (intro wp_steps)
      apply (rule moved_refl [OF assms(1)])
     apply (rule moved_refl [OF assms(1)])
    apply (simp add: try_port_def wps moved_def split: prod.split sum.split)
    using sending [OF \<open>J (ts_world s)\<close> _ assms(2)] good_world [OF assms(1)]
    by (auto simp: show_errors_def split: sum.splits) (metis snd_conv)+
qed

lemma keeps_emit_renewal_trace:
  "good s0 s \<Longrightarrow> keeps (moved s0 s) (emit_renewal_trace K W stage peer epoch mark) s"
  unfolding emit_renewal_trace_def
  by (intro wp_steps keeps_emit) (simp_all add: moved_refl)

lemma good_needed [simp]: "good s0 (s\<lparr>ts_renewal_needed := x\<rparr>) = good s0 s"
  by (simp add: good_def task_inv_def active_ok_def offers_ok_def inflight_ok_def climbs_def cached_floor_def)

lemma good_no_pending: "good s0 s \<Longrightarrow> good s0 (s\<lparr>ts_pending := (ts_pending s)(peer := None)\<rparr>)"
  by (simp add: good_def task_inv_def active_ok_def offers_ok_def inflight_ok_def climbs_def cached_floor_def)

lemma good_pending:
  assumes "good s0 s" and "fo_peer (pe_foundation p) = peer"
    and "\<And>floor. lawful K \<Longrightarrow> pe_renewal_floor p = Some floor \<Longrightarrow>
           floor_epoch (authority K) floor < manifest_epoch (authority K) (pe_manifest p)"
  shows "good s0 (s\<lparr>ts_pending := (ts_pending s)(peer \<mapsto> p)\<rparr>)"
  using assms by (simp add: good_def task_inv_def active_ok_def offers_ok_def inflight_ok_def climbs_def cached_floor_def)

lemma good_floor_loaded:
  assumes "good s0 s" and "ts_renewal_floors s peer = None"
  shows "good s0 (s\<lparr>ts_renewal_floors := (ts_renewal_floors s)(peer \<mapsto> floor)\<rparr>)"
proof -
  have none: "cached_floor s peer = None" using assms(2) by (simp add: cached_floor_def)
  then have "lawful K \<Longrightarrow> cached_floor s0 peer = None" "ts_active s peer = None"
    using assms(1) unfolding good_def climbs_def task_inv_def active_ok_def
    by (metis not_None_eq option.distinct(1))+
  then show ?thesis
    using assms none unfolding good_def climbs_def task_inv_def active_ok_def offers_ok_def inflight_ok_def
    by (auto simp: cached_floor_def)
qed

lemma need_renewal_good: "good s0 s \<Longrightarrow> wp (need_renewal peer) (\<lambda>_ t. good s0 t \<and> t = s\<lparr>ts_renewal_needed := insert peer (ts_renewal_needed s)\<rparr>) E s"
  by (simp add: need_renewal_def wps)

lemma moved_call:
  assumes "moved s0 s t" and "good s0 t \<Longrightarrow> keeps (moved s0 t) m t"
    and "\<And>a u. moved s0 s u \<Longrightarrow> wp (k a) Q (\<lambda>_. good s0) u"
  shows "wp (bnd m k) Q (\<lambda>_. good s0) t"
  unfolding wp_bnd
  by (rule wp_mono [OF assms(2)]) (use assms in \<open>auto intro: moved_good moved_trans\<close>)

lemma moved_then:
  assumes "moved s0 s t" and "good s0 t \<Longrightarrow> keeps (moved s0 t) m t"
    and "\<And>u. moved s0 s u \<Longrightarrow> wp k Q (\<lambda>_. good s0) u"
  shows "wp (andthen m k) Q (\<lambda>_. good s0) t"
  unfolding andthen_def by (rule moved_call [OF assms(1,2)]) (use assms(3) in auto)

text \<open>What \<open>load_renewal_floor\<close> leaves: the floor cached under the peer, and nothing else but the world moved.\<close>

definition loaded where
  "loaded s0 s peer floor t \<longleftrightarrow> good s0 t \<and>
     (\<exists>w. t = s\<lparr>ts_world := w, ts_renewal_floors := (ts_renewal_floors s)(peer \<mapsto> floor)\<rparr>)"

lemma loaded_fields:
  assumes "loaded s0 s peer floor t"
  shows "good s0 t" "ts_active t = ts_active s" "ts_pending t = ts_pending s" "ts_inflight t = ts_inflight s"
    "ts_retired t = ts_retired s" "ts_foundations t = ts_foundations s" "ts_presentation_peer t = ts_presentation_peer s"
    "cached_floor t peer = floor" "waits_on_reification t p = waits_on_reification s p"
    "peer_has_recovery_work t p = peer_has_recovery_work s p"
  using assms by (auto simp: loaded_def cached_floor_def waits_on_reification_def peer_has_recovery_work_def)

lemma loaded_moved: "loaded s0 s peer floor t \<Longrightarrow> moved s0 t u \<Longrightarrow> loaded s0 s peer floor u"
  unfolding loaded_def moved_def
  by (elim conjE exE, intro conjI, assumption, rename_tac w v, rule_tac x = v in exI) simp

lemma keeps_load_renewal_floor:
  assumes "good s0 s"
  shows "wp (load_renewal_floor K W foundation) (loaded s0 s (fo_peer foundation)) (\<lambda>_. good s0) s"
proof -
  have base: "moved s0 s s" by (rule moved_refl [OF assms])
  have store: "wp (andthen (modify (\<lambda>s. s\<lparr>ts_renewal_floors := (ts_renewal_floors s)(fo_peer foundation \<mapsto> floor)\<rparr>)) (ret floor))
      (loaded s0 s (fo_peer foundation)) (\<lambda>_. good s0) t"
    if t: "moved s0 s t" and none: "ts_renewal_floors s (fo_peer foundation) = None" for floor t
    using good_floor_loaded [OF moved_good [OF t], of "fo_peer foundation" floor] t none
    by (auto simp: wps loaded_def moved_def)
  show ?thesis
    unfolding load_renewal_floor_def Let_def
    apply (intro wp_steps)
     apply (rule moved_call [OF base wp_moved_try_port [OF _ quiet_load]], assumption+)
     apply (rule wp_call [where P = "\<lambda>_. moved s0 s"])
      apply (intro wp_steps; (erule moved_good | assumption)?)
     apply (rule moved_then, assumption)
      apply (intro wp_steps keeps_emit_renewal_trace moved_refl; assumption)
     apply (rule store, assumption, simp)
    using assms by (auto simp: loaded_def intro!: exI [of _ "ts_world s"])
qed

end

section \<open>Beginning a session\<close>

context session_world begin

lemma keeps_random:
  assumes "good s0 s"
  shows "keeps (moved s0 s) (bnd (port (fill_random W n)) (\<lambda>r. lift_result id (with_prefix p r))) s"
  by (rule wp_call [OF wp_moved_port [OF assms quiet_random]]) (simp_all add: wps split: sum.split)

lemma keeps_good_emit:
  "good s0 s \<Longrightarrow> shows_opened K (opened (ts_world s)) event \<Longrightarrow> keeps (good s0) (emit K W event) s"
  by (rule wp_mono [OF keeps_emit]) (auto dest: moved_good)

lemma keeps_good_trace: "good s0 s \<Longrightarrow> keeps (good s0) (emit_renewal_trace K W stage peer epoch mark) s"
  by (rule wp_mono [OF keeps_emit_renewal_trace]) (auto dest: moved_good)

lemma keeps_need_renewal: "good s0 s \<Longrightarrow> wp (need_renewal peer) (\<lambda>_. good s0) E s"
  by (simp add: need_renewal_def wps)

lemma keeps_begin_session:
  assumes start: "good s0 s"
  shows "keeps (good s0) (begin_session K W foundation) s"
  unfolding begin_session_def Let_def
  apply (intro wp_steps; (rule start)?)
  apply (rule wp_call [OF keeps_load_renewal_floor [OF start]])
  subgoal premises pre for s' floor t
  proof -
    note base = moved_refl [OF loaded_fields(1) [OF pre(5)]]
    show ?thesis
      apply (intro wp_steps; (rule loaded_fields(1) [OF pre(5)])?)
      apply (rule moved_call [OF base keeps_random], assumption)
      apply (intro wp_steps; (erule moved_good)?)
      subgoal premises pro for epoch random u manifest pending offer pair verified presentation frame
      proof -
        from pro have u: "good s0 u" by (auto dest: moved_good)
        have "good s0 (u\<lparr>ts_pending := (ts_pending u)(fo_peer foundation \<mapsto>
            \<lparr>pe_foundation = foundation, pe_pending = pending, pe_session_id =
               (if from_le (take 8 random) = (0 :: u64) then 1 else from_le (take 8 random)),
             pe_manifest = manifest, pe_local_foundation = verified, pe_renewal_floor = floor, pe_offer_carrier = frame\<rparr>)\<rparr>)"
          using pro by (intro good_pending [OF u])
            (auto simp: build_manifest_epoch intro: proposed_epoch_above)
        then show ?thesis
          apply (intro wp_then [where P = "good s0"])
            apply (simp add: wps)
           apply (erule keeps_good_trace)
          apply (erule keeps_good_emit)
          apply simp
          done
      qed
      done
  qed
  done

lemma keeps_start_ready_renewals:
  assumes "good s0 s"
  shows "keeps (good s0) (start_ready_renewals K W) s"
  unfolding start_ready_renewals_def
  apply (rule wp_step_gets, rule wp_then [OF wp_each [where I = "good s0"]])
    apply (rule assms)
   apply (erule keeps_begin_session)
  apply (rule wp_step_gets, rule wp_each, assumption)
  apply (intro wp_steps keeps_begin_session; assumption)
  done

lemma keeps_replace_pending:
  assumes "good s0 s"
  shows "keeps (good s0) (andthen (modify (\<lambda>s. s\<lparr>ts_pending := (ts_pending s)(p := None)\<rparr>))
     (andthen (need_renewal q) (begin_session K W foundation))) s"
  apply (rule wp_then [where P = "good s0"])
   apply (simp add: wps good_no_pending [OF assms])
  apply (rule wp_then [OF keeps_need_renewal], assumption)
  apply (erule keeps_begin_session)
  done

lemma good_foundation:
  "good s0 s \<Longrightarrow> good s0 (s\<lparr>ts_foundations := (ts_foundations s)(fo_peer foundation \<mapsto> foundation)\<rparr>)"
  by (simp add: good_def task_inv_def active_ok_def offers_ok_def inflight_ok_def climbs_def cached_floor_def)

lemma keeps_start_peer:
  assumes "good s0 s"
  shows "keeps (good s0) (start_peer K W foundation) s"
  unfolding start_peer_def Let_def
  apply (rule wp_then [where P = "good s0"])
   apply (simp add: wps good_foundation [OF assms])
  apply (rule wp_step_gets)
  apply (rule wp_step_option)
   apply (rule wp_step_if, erule wp_step_ret)
   apply (rule wp_call [OF keeps_load_renewal_floor], assumption)
   apply (intro wp_steps keeps_begin_session; erule loaded_fields)
  apply (rule wp_step_if)
   apply (erule keeps_good_emit, simp)
  apply (erule keeps_replace_pending)
  done

section \<open>Installing a session\<close>

lemma keeps_persist_floor:
  assumes "good s0 s" and "lawful K \<Longrightarrow> authorized_by K manifest authorization"
  shows "wp (persist_floor K W key authorization)
     (\<lambda>(session, floor) t. moved s0 s t \<and> (lawful K \<longrightarrow> session \<in> opened (ts_world t) \<and>
        auth_manifest (authority K) session = manifest \<and> floor = floor_from_authorized (authority K) session))
     (\<lambda>_. moved s0 s) s"
proof -
  have J: "J (ts_world s)" using assms(1) by (simp add: good_def)
  have persist: "wp (try_port (store_persist W key place bs))
      (\<lambda>_ t. moved s0 s t \<and> (\<forall>session. bs = floor_to_bytes (authority K) (floor_from_authorized (authority K) session) \<longrightarrow>
         session \<in> opened (ts_world t))) (\<lambda>_. moved s0 s) s" for place bs
    using quiet_persist [OF J, of key place bs] persist_opens [OF J, of key place] good_world [OF assms(1)]
    by (auto simp: try_port_def wps moved_def split: prod.split sum.split)
  show ?thesis
  proof (cases authorization)
    case (Initial session floor)
    then show ?thesis
      using assms(2) unfolding persist_floor_def Let_def authorized_by_def
      by (simp, intro wp_then [OF persist]) (auto simp: wps)
  next
    case (Renewal r)
    then show ?thesis
      using assms(2) unfolding persist_floor_def Let_def authorized_by_def
      by (cases "renewal_parts (authority K) r"; cases "renewal_install (authority K) r")
         (simp, intro wp_then [OF persist], auto simp: wps)
  qed
qed

lemma good_floor_raised:
  assumes "good s0 s"
    and raised: "\<And>f. lawful K \<Longrightarrow> cached_floor s peer = Some f \<Longrightarrow> floor_epoch (authority K) f \<le> floor_epoch (authority K) floor"
  shows "good s0 (s\<lparr>ts_renewal_floors := (ts_renewal_floors s)(peer \<mapsto> Some floor)\<rparr>)" (is "good s0 ?t")
proof -
  have cached: "cached_floor ?t q = (if q = peer then Some floor else cached_floor s q)" for q
    by (simp add: cached_floor_def)
  have grows: "\<exists>g. cached_floor ?t q = Some g \<and> e \<le> floor_epoch (authority K) g"
    if "lawful K" "cached_floor s q = Some f" "e \<le> floor_epoch (authority K) f" for q f e
    using that raised cached by (auto intro: order_trans)
  have "active_ok K ?t"
    unfolding active_ok_def
  proof (intro allI impI)
    fix q a assume "ts_active ?t q = Some a"
    then obtain f where "fo_peer (as_foundation a) = q" "waiting_bounded a" "cached_floor s q = Some f"
        "lawful K \<longrightarrow> session_epoch K a \<le> floor_epoch (authority K) f"
      using assms(1) unfolding good_def task_inv_def active_ok_def by auto
    then show "fo_peer (as_foundation a) = q \<and> waiting_bounded a \<and>
        (\<exists>g. cached_floor ?t q = Some g \<and> (lawful K \<longrightarrow> session_epoch K a \<le> floor_epoch (authority K) g))"
      using grows cached by (cases "lawful K") auto
  qed
  moreover have "\<exists>g. cached_floor ?t q = Some g \<and> floor_epoch (authority K) f \<le> floor_epoch (authority K) g"
    if "lawful K" "cached_floor s0 q = Some f" for q f
    using assms(1) that grows unfolding good_def climbs_def by blast
  then have "climbs K s0 ?t"
    using assms(1) unfolding good_def climbs_def by simp
  ultimately show ?thesis
    using assms(1) unfolding good_def task_inv_def offers_ok_def inflight_ok_def by simp
qed

lemma good_activate:
  assumes "good s0 t" and "fo_peer (as_foundation a) = peer" and "waiting_bounded a"
    and "lawful K \<Longrightarrow> as_session a \<in> opened (ts_world t)"
    and "cached_floor t peer = Some floor" and "lawful K \<Longrightarrow> session_epoch K a \<le> floor_epoch (authority K) floor"
    and "\<And>f. lawful K \<Longrightarrow> cached_floor s0 peer = Some f \<Longrightarrow> floor_epoch (authority K) f < session_epoch K a"
    and "\<And>session cs. ts_inflight t session = Some cs \<Longrightarrow> ei_peer session \<noteq> peer"
    and "p = Some peer \<or> p = ts_presentation_peer t"
  shows "good s0 (t\<lparr>ts_active := (ts_active t)(peer \<mapsto> a), ts_presentation_peer := p\<rparr>)"
proof -
  have cached: "cached_floor (t\<lparr>ts_active := x, ts_presentation_peer := y\<rparr>) q = cached_floor t q" for x y q
    by (simp add: cached_floor_def)
  have "inflight_ok K (t\<lparr>ts_active := (ts_active t)(peer \<mapsto> a), ts_presentation_peer := p\<rparr>)"
    using assms(1,8) unfolding good_def task_inv_def inflight_ok_def by fastforce
  moreover have "active_ok K (t\<lparr>ts_active := (ts_active t)(peer \<mapsto> a), ts_presentation_peer := p\<rparr>)"
    using assms unfolding good_def task_inv_def active_ok_def cached by simp
  moreover have "climbs K s0 (t\<lparr>ts_active := (ts_active t)(peer \<mapsto> a), ts_presentation_peer := p\<rparr>)"
    using assms(1,7) unfolding good_def climbs_def cached by simp
  ultimately show ?thesis
    using assms(1,4,9) unfolding good_def task_inv_def offers_ok_def by auto
qed

lemma keeps_install_session:
  assumes start: "good s0 s" and peer: "fo_peer foundation = peer"
    and auth: "lawful K \<Longrightarrow> authorized_by K manifest authorization"
    and above: "\<And>f. lawful K \<Longrightarrow> cached_floor s peer = Some f \<Longrightarrow> floor_epoch (authority K) f < manifest_epoch (authority K) manifest"
    and free: "\<And>session cs. ts_inflight s session = Some cs \<Longrightarrow> ei_peer session \<noteq> peer"
  shows "keeps (good s0) (install_session K W peer foundation authorization session_id keys answer) s"
proof -
  have above0: "floor_epoch (authority K) f < manifest_epoch (authority K) manifest" if "lawful K" "cached_floor s0 peer = Some f" for f
    using start above that unfolding good_def climbs_def by (meson order_le_less_trans)
  show ?thesis
    unfolding install_session_def Let_def
    apply (rule wp_call [where P = "\<lambda>r t. moved s0 s t \<and> (\<forall>session floor. r = Inr (session, floor) \<and> lawful K \<longrightarrow>
        session \<in> opened (ts_world t) \<and> auth_manifest (authority K) session = manifest \<and>
        floor = floor_from_authorized (authority K) session)"])
     apply (simp add: wp_inspect)
     apply (rule wp_mono [OF keeps_persist_floor [OF start auth]])
      apply auto [3]
    apply (elim conjE)
    apply (intro wp_steps)
     apply (rule wp_then [OF keeps_need_renewal], erule moved_good)
     apply (erule wp_step_throw)
    subgoal premises pre for r t pair session floor
    proof -
      have floor: "session \<in> opened (ts_world t)" "auth_manifest (authority K) session = manifest"
        "floor = floor_from_authorized (authority K) session" "floor_epoch (authority K) floor = manifest_epoch (authority K) manifest"
        if "lawful K"
        using pre that unfolding renewal_laws_def by auto
      show ?thesis
        apply (rule moved_call [OF moved_refl wp_moved_try_port [OF _ quiet_clock(1)]])
           apply (rule moved_good [OF pre(1)])
          apply assumption+
        apply (intro wp_steps; (erule moved_good)?)
        subgoal premises step for origin u a
        proof -
          let ?u = "u\<lparr>ts_renewal_floors := (ts_renewal_floors u)(peer \<mapsto> Some floor)\<rparr>"
          note new = active_new_fields [OF step(2)]
          have u: "good s0 ?u"
            using above floor(4) moved_fields(8) [OF pre(1)] moved_fields(8) [OF step(1)] moved_good [OF step(1)]
            by (intro good_floor_raised) (auto intro: less_imp_le)
          have a: "session_epoch K a = floor_epoch (authority K) floor" "as_session a \<in> opened (ts_world ?u)" if "lawful K"
            using floor [OF that] new moved_opened [OF step(1)]
            by (simp_all add: session_epoch_def session_manifest_def)
          show ?thesis
            apply (rule wp_step_modify)
            apply (rule wp_step_gets)
            apply (rule moved_call [OF moved_refl [OF u]])
             apply (simp only: wp_inspect)
             apply (intro wp_steps keeps_emit moved_refl; (assumption | rule shows_other)?)
             apply (rule shows_projection, erule a(2), simp add: plain_realtime_def)
            apply (intro wp_steps)
             apply (rule wp_then [OF keeps_need_renewal], erule moved_good)
             apply (erule wp_step_throw)
            apply (rule wp_step_modify)
            apply (rule keeps_good_trace)
            subgoal premises staged for present r v
            proof (rule good_activate)
              show "good s0 v" using staged by (simp add: moved_good)
              show "fo_peer (as_foundation a) = peer" "waiting_bounded a"
                using new peer by (simp_all add: waiting_bounded_def)
              show "as_session a \<in> opened (ts_world v)" if "lawful K" using moved_opened [OF _ a(2) [OF that]] staged by simp
              show "cached_floor v peer = Some floor"
                using staged(2) by (simp add: moved_fields) (simp add: cached_floor_def)
              show "session_epoch K a \<le> floor_epoch (authority K) floor" if "lawful K" using a(1) [OF that] by simp
              show "floor_epoch (authority K) f < session_epoch K a" if "lawful K" "cached_floor s0 peer = Some f" for f
                using above0 [OF that] a(1) [OF that(1)] floor(4) [OF that(1)] by simp
              show "ei_peer session \<noteq> peer" if "ts_inflight v session = Some cs" for session cs
                using free that staged(2) pre(1) step(1) by (simp add: moved_fields)
              show "(if present then Some peer else ts_presentation_peer v) = Some peer \<or>
                (if present then Some peer else ts_presentation_peer v) = ts_presentation_peer v" by simp
            qed
            done
        qed
        done
    qed
    done
qed

end

section \<open>Handlers of carrier frames\<close>

context session_world begin

lemma good_free:
  assumes "good s0 s" and "\<not> peer_has_recovery_work s peer" and "ts_inflight s session = Some cs"
  shows "ei_peer session \<noteq> peer"
proof
  assume "ei_peer session = peer"
  moreover have "cs \<noteq> {}" using assms(1,3) unfolding good_def task_inv_def inflight_ok_def by blast
  ultimately have "peer_has_recovery_work s peer"
    unfolding peer_has_recovery_work_def using assms(3) by (intro disjI2 bexI [of _ session]) auto
  then show False using assms(2) by simp
qed

lemma good_free_without_floor:
  assumes "good s0 s" and "cached_floor s peer = None" and "ts_inflight s session = Some cs"
  shows "ei_peer session \<noteq> peer"
proof
  assume "ei_peer session = peer"
  then obtain a where "ts_active s peer = Some a" using good_inflightD(2) [OF assms(1,3)] by auto
  from good_activeD(4) [OF assms(1) this] assms(2) show False by simp
qed

lemma keeps_carrier_offer:
  assumes start: "good s0 s"
  shows "keeps (good s0) (carrier_offer K W source target session_id epoch base grants handshake foundation) s"
  unfolding carrier_offer_def Let_def
  apply (intro wp_steps; (rule start)?)
  apply (rule wp_then [where P = "good s0"])
   apply (intro wp_steps wp_then [OF keeps_good_trace]; (rule start | assumption)?)
  apply (intro wp_steps; assumption?)
  apply (rule wp_call [OF keeps_load_renewal_floor], assumption)
  apply (rule wp_step_if)
   apply (rule wp_then [OF keeps_need_renewal], erule loaded_fields)
   apply (rule wp_then [OF keeps_good_trace], assumption)
   apply (intro wp_steps keeps_begin_session keeps_start_ready_renewals; assumption)
  apply (intro wp_steps; (erule loaded_fields)?)
  apply (rule moved_call [OF moved_refl keeps_random], erule loaded_fields, assumption)
  apply (intro wp_steps; (erule moved_good)?)
  subgoal premises pre for known mine t floor u pending manifest offer verified remote seat ours presentation
      random v answer_keys answer keys authorization w
  proof -
    from pre have mine: "fo_peer mine = source"
      using start unfolding good_def task_inv_def by simp
    note u = pre(7)
    have v: "good s0 v" using pre by (auto dest: moved_good)
    let ?v = "if pending = None then v else v\<lparr>ts_pending := (ts_pending v)(source := None)\<rparr>"
    have good: "good s0 ?v" using v good_no_pending [OF v] by simp
    have cached: "cached_floor v source = floor" using loaded_moved [OF u] pre mine by (auto dest: loaded_fields(8))
    have above: "floor_epoch (authority K) f < manifest_epoch (authority K) manifest" if "lawful K" "cached_floor ?v source = Some f" for f
    proof -
      have "cached_floor ?v source = floor" using cached by (simp add: cached_floor_def)
      then show ?thesis using that pre(8) build_manifest_epoch [OF that(1) pre(11)] by auto
    qed
    have free: "ei_peer session \<noteq> source" if "ts_inflight ?v session = Some cs" for session cs
    proof -
      have held: "ts_inflight v session = Some cs" using that by (simp split: if_splits)
      show ?thesis
      proof (cases floor)
        case None
        show ?thesis by (rule good_free_without_floor [OF v _ held]) (simp add: cached None)
      next
        case (Some f)
        then have "\<not> peer_has_recovery_work v source"
          using pre by (auto simp: incoming_renewal_has_local_obligations_def)
        then show ?thesis by (rule good_free [OF v _ held])
      qed
    qed
    show ?thesis
      apply (rule wp_then_at [where u = ?v])
       apply (simp add: wps)
      apply (intro wp_steps)
       apply (simp add: good)
      apply (rule keeps_install_session)
          apply (simp add: good)
         apply (rule mine)
        apply (rule authorize_pair_authorized [OF _ pre(21)], assumption)
       apply (rule above, assumption, simp)
      apply (rule free, simp)
      done
  qed
  done

lemma keeps_carrier_answer:
  assumes start: "good s0 s"
  shows "keeps (good s0) (carrier_answer K W source target session_id grants handshake foundation) s"
proof -
  let ?t = "s\<lparr>ts_pending := (ts_pending s)(source := None)\<rparr>"
  have t: "good s0 ?t" by (rule good_no_pending [OF start])
  show ?thesis
    unfolding carrier_answer_def Let_def
    apply (rule wp_step_gets)
    apply (rule wp_call [where P = "\<lambda>_ t. t = ?t"])
     apply (simp add: wps)
    apply (simp only:)
    apply (intro wp_steps wp_then [OF keeps_need_renewal] keeps_start_ready_renewals; (rule t | assumption)?)
    subgoal premises pre for found _ _ pending remote keys known current u authorization
    proof (rule keeps_install_session [OF t])
      have held: "ts_pending s source = Some pending" using pre by simp
      then have ok: "fo_peer (pe_foundation pending) = source"
        "\<And>f. lawful K \<Longrightarrow> pe_renewal_floor pending = Some f \<Longrightarrow>
           floor_epoch (authority K) f < manifest_epoch (authority K) (pe_manifest pending)"
        using start unfolding good_def task_inv_def offers_ok_def by blast+
      show "fo_peer (pe_foundation pending) = source" by (rule ok(1))
      show "authorized_by K (pe_manifest pending) authorization"
        if "lawful K"
        using pre by (auto intro: authorize_pair_authorized [OF that])
      show "floor_epoch (authority K) f < manifest_epoch (authority K) (pe_manifest pending)"
        if "lawful K" "cached_floor ?t source = Some f" for f
        using that(2) pre ok(2) [OF that(1)] by (simp add: cached_floor_def)
      show "ei_peer session \<noteq> source" if "ts_inflight ?t session = Some cs" for session cs
        by (rule good_free [OF t _ that]) (use pre in simp)
    qed
    done
qed

text \<open>A method of an active session that keeps its identity.\<close>

lemma good_active:
  assumes "good s0 s" and "ts_active s peer = Some a" and "follows a b" and "J w" and "opened (ts_world s) \<subseteq> opened w"
  shows "good s0 (s\<lparr>ts_world := w, ts_active := (ts_active s)(peer \<mapsto> b)\<rparr>)" (is "good s0 ?t")
proof -
  have same: "active_identity K b = active_identity K a" "session_epoch K b = session_epoch K a"
    "fo_peer (as_foundation b) = fo_peer (as_foundation a)" "waiting_bounded a \<longrightarrow> waiting_bounded b"
    "as_session b = as_session a"
    using assms(3) follows_identity [OF assms(3), of K] follows_epoch [OF assms(3), of K]
    by (simp_all add: session_epoch_def follows_def)
  have cached: "cached_floor ?t q = cached_floor s q" for q by (simp add: cached_floor_def)
  have "active_ok K ?t"
    unfolding active_ok_def
  proof (intro allI impI)
    fix q c assume q: "ts_active ?t q = Some c"
    show "fo_peer (as_foundation c) = q \<and> waiting_bounded c \<and>
        (\<exists>floor. cached_floor ?t q = Some floor \<and> (lawful K \<longrightarrow> session_epoch K c \<le> floor_epoch (authority K) floor))"
    proof (cases "q = peer")
      case True
      then show ?thesis using q good_activeD [OF assms(1,2)] same unfolding cached by simp
    next
      case False
      then show ?thesis using q good_activeD [OF assms(1)] unfolding cached by simp
    qed
  qed
  moreover have "inflight_ok K ?t"
    unfolding inflight_ok_def
  proof (intro allI impI)
    fix session cs assume "ts_inflight ?t session = Some cs"
    then have "ts_inflight s session = Some cs" by simp
    from good_inflightD [OF assms(1) this]
    show "cs \<noteq> {} \<and> (\<exists>c. ts_active ?t (ei_peer session) = Some c \<and> active_identity K c = session)"
      using assms(2) same by auto
  qed
  moreover have "climbs K s0 ?t"
    using assms(1,2) same unfolding good_def climbs_def cached by simp
  moreover have "as_session c \<in> opened w" if "ts_active ?t q = Some c" "lawful K" for q c
    using that(1) good_activeD(3) [OF assms(1) _ that(2)] assms(2,5) same by (auto split: if_splits)
  ultimately show ?thesis
    using assms(1,2,4) unfolding good_def task_inv_def offers_ok_def by auto
qed

lemma wp_on_active:
  assumes "good s0 s" and "ts_active s peer = Some a"
    and "wp m (\<lambda>x b. follows a b \<and> P x b) (\<lambda>_. follows a) a"
  shows "wp (on_active peer m)
     (\<lambda>x t. good s0 t \<and> (\<exists>b. t = s\<lparr>ts_active := (ts_active s)(peer \<mapsto> b)\<rparr> \<and> follows a b \<and> P x b)) (\<lambda>_. good s0) s"
proof -
  have "J (ts_world s)" using assms(1) by (simp add: good_def)
  then have "good s0 (s\<lparr>ts_active := (ts_active s)(peer \<mapsto> b)\<rparr>)" if "follows a b" for b
    using good_active [OF assms(1,2) that, of "ts_world s"] by simp
  then show ?thesis
    unfolding on_active_def using assms(2)
    by (simp add: wps) (rule wp_mono [OF assms(3)]; auto)
qed

lemma wp_on_active_clocked:
  assumes "good s0 s" and "ts_active s peer = Some a"
    and "\<And>G. (\<And>w. G w \<Longrightarrow> G (snd (now_micros W w))) \<Longrightarrow> G (ts_world s) \<Longrightarrow>
           keeps (beside G (follows a)) m (ts_world s, a)"
  shows "keeps (\<lambda>t. good s0 t \<and> (\<exists>b w. t = s\<lparr>ts_world := w, ts_active := (ts_active s)(peer \<mapsto> b)\<rparr> \<and> follows a b))
     (on_active_clocked peer m) s"
proof -
  let ?G = "\<lambda>w. J w \<and> opened (ts_world s) \<subseteq> opened w"
  have start: "?G (ts_world s)" using assms(1) by (simp add: good_def)
  have tick: "?G (snd (now_micros W w))" if "?G w" for w
    using quiet_clock(2) that by blast
  have "keeps (beside ?G (follows a)) m (ts_world s, a)"
    by (rule assms(3) [OF tick start])
  then show ?thesis
    unfolding on_active_clocked_def using assms(2)
    apply (simp add: wps)
    apply (erule wp_mono)
    using good_active [OF assms(1,2)] by auto
qed

end

end
