(* ===== verification/Session_Invariant.thy ===== *)
theory Session_Invariant
  imports Session_Renewal
begin

text \<open>
  Every input of the session task keeps the invariant of \<open>Session_Renewal\<close>: events, local edits, confirmations
  and canonical growth, and so does every run of the task. \<open>session_world\<close> is interpreted twice on arbitrary
  ports: on the ports as they are, and on \<open>recording\<close>, the ports with a log of what was persisted, queued and sent.
\<close>

section \<open>Events and edits\<close>

context session_world begin

lemma good_cleared: "good s0 s \<Longrightarrow> good s0 (clear_generation s)"
  by (simp add: good_def task_inv_def active_ok_def offers_ok_def inflight_ok_def climbs_def cached_floor_def
      clear_generation_def)

lemma keeps_fail_generation:
  assumes "good s0 s"
  shows "wp (fail_session_generation W reason) Q (\<lambda>_. good s0) s"
  unfolding fail_session_generation_def Let_def
  apply (rule wp_step_gets)
  apply (rule wp_then [where P = "good s0"])
   apply (intro wp_steps wp_silent_port quiet_silent; (rule assms | assumption)?)
  apply (rule wp_step_modify, rule wp_step_throw, erule good_cleared)
  done

lemma keeps_emit_realtime_shown:
  assumes "good s0 s" and "shows_opened K (opened (ts_world s)) (RealtimeOut re)"
  shows "wp (emit_realtime_or_fail_generation K W re) (\<lambda>_. moved s0 s) (\<lambda>_. good s0) s"
  unfolding emit_realtime_or_fail_generation_def
  apply (rule wp_call [where P = "\<lambda>_. moved s0 s"])
   apply (simp only: wp_inspect)
   apply (rule keeps_emit [OF assms])
  apply (intro wp_steps keeps_fail_generation; (assumption | erule moved_good)?)
  done

lemma keeps_emit_realtime:
  assumes "good s0 s" and "ts_active s peer = Some a" and "re_projection re = projection_event K kind a"
  shows "wp (emit_realtime_or_fail_generation K W re) (\<lambda>_. moved s0 s) (\<lambda>_. good s0) s"
  by (rule keeps_emit_realtime_shown [OF assms(1) shows_projection [OF good_activeD(3) [OF assms(1,2)] assms(3)]])

lemma keeps_trace_projected:
  assumes "good s0 s"
  shows "wp (case trace of None \<Rightarrow> ret None
      | Some t \<Rightarrow> bnd (port (now_micros W)) (\<lambda>at. ret (Some (t\<lparr>ct_worker_projected := at\<rparr>))))
      (\<lambda>_. moved s0 s) E s"
  apply (intro wp_steps moved_refl [OF assms])
  apply (rule wp_call [OF wp_moved_port [OF assms quiet_clock(2)]], assumption)
  apply (erule wp_step_ret)
  done

lemma wp_split_remote:
  "(\<And>e. r = Inl (BeforeMutation e) \<Longrightarrow> wp (f e) Q E s) \<Longrightarrow> (\<And>e. r = Inl (ContinuityLost e) \<Longrightarrow> wp (g e) Q E s) \<Longrightarrow>
   (r = Inr None \<Longrightarrow> wp m Q E s) \<Longrightarrow> (\<And>event. r = Inr (Some event) \<Longrightarrow> wp (k event) Q E s) \<Longrightarrow>
   wp (case r of Inl (BeforeMutation e) \<Rightarrow> f e | Inl (ContinuityLost e) \<Rightarrow> g e | Inr None \<Rightarrow> m | Inr (Some event) \<Rightarrow> k event) Q E s"
  by (simp split: sum.split remote_ingest_failure.split option.split)

lemma keeps_carrier_event:
  assumes start: "good s0 s"
  shows "keeps (good s0) (carrier_event K W source target session_id frame received_at accepted_at) s"
  unfolding carrier_event_def
  apply (rule wp_step_gets, rule wp_step_if)
   apply (rule wp_then [OF keeps_need_renewal [OF start]])
   apply (intro wp_steps keeps_begin_session keeps_start_ready_renewals; assumption)
  apply (rule moved_call [OF moved_refl [OF start] wp_moved_try_port [OF _ quiet_clock(1)]], assumption+)
  apply (rule wp_step_gets)
  subgoal premises pre for found receiver_now t trace_on
  proof -
    obtain a where a: "ts_active s source = Some a" using pre by (auto split: option.splits)
    have t: "good s0 t" by (rule moved_good [OF pre(3)])
    have at: "ts_active t source = Some a" using a pre(3) by (simp add: moved_fields)
    show ?thesis
      apply (rule wp_call)
       apply (simp only: wp_inspect)
       apply (rule wp_on_active_clocked [OF t at])
       apply (rule keeps_ingest_remote, assumption+)
      apply (elim conjE exE)
      apply (intro wp_split_remote wp_steps keeps_fail_generation; assumption?)
      apply (rule wp_step_expect, simp)
      apply (rule moved_call [OF moved_refl], assumption)
       apply (erule keeps_trace_projected)
      apply (rule wp_mono [OF keeps_emit_realtime [where peer = source]])
          apply (erule moved_good)
         apply (simp add: moved_fields)
        apply (simp add: plain_realtime_def)
       apply (erule moved_good)
      apply assumption
      done
  qed
  done

lemma keeps_carrier:
  assumes "good s0 s"
  shows "keeps (good s0) (carrier K W bs received_at accepted_at) s"
  unfolding carrier_def
  by (intro wp_steps, rule assms, cases "carrier_decode (read_carrier (serde K)) bs")
    (auto simp: show_errors_def assms intro: keeps_carrier_offer keeps_carrier_answer keeps_carrier_event split: carrier_body.split)

lemma good_inflight_added:
  assumes "good s0 s" and "ts_active s (ei_peer session) = Some a" and "active_identity K a = session"
  shows "good s0 (add_inflight session correlation s)"
proof -
  have "inflight_ok K (add_inflight session correlation s)"
    using assms unfolding good_def task_inv_def inflight_ok_def add_inflight_def by auto
  then show ?thesis
    using assms(1) unfolding good_def task_inv_def active_ok_def offers_ok_def climbs_def
    by (simp add: add_inflight_def cached_floor_def)
qed

lemma good_inflight_dropped:
  assumes "good s0 s"
  shows "good s0 (drop_inflight session correlation s)"
proof -
  have "inflight_ok K (drop_inflight session correlation s)"
    using assms unfolding good_def task_inv_def inflight_ok_def drop_inflight_def by (auto split: option.split)
  then show ?thesis
    using assms unfolding good_def task_inv_def active_ok_def offers_ok_def climbs_def
    by (simp add: drop_inflight_def cached_floor_def split: option.split)
qed

lemma inflight_fields [simp]:
  "ts_active (add_inflight session correlation s) = ts_active s"
  "ts_active (drop_inflight session correlation s) = ts_active s"
  by (simp_all add: add_inflight_def drop_inflight_def split: option.split)

lemma identity_peer: "good s0 s \<Longrightarrow> ts_active s peer = Some a \<Longrightarrow> ei_peer (active_identity K a) = peer"
  using good_activeD(1) [of s0 s peer a] by (simp add: active_identity_def)

lemma keeps_publish_local_edit:
  assumes start: "good s0 s" and a: "ts_active s peer = Some a"
  shows "keeps (good s0) (publish_local_edit K W peer token local_result) s"
proof -
  have added: "good s0 (add_inflight (active_identity K a) correlation t)" if "moved s0 s t" for correlation t
    by (rule good_inflight_added [OF moved_good [OF that], where a = a])
       (use that a identity_peer [OF start a] in \<open>simp_all add: moved_fields\<close>)
  show ?thesis
    unfolding publish_local_edit_def Let_def
    apply (intro wp_steps keeps_fail_generation start)
    apply (rule wp_step_expect, simp add: a)
    apply (intro wp_steps keeps_fail_generation start)
    apply (rule wp_call [OF keeps_trace_projected [OF start]])
    apply (rule wp_then [where P = "\<lambda>t. good s0 t \<and> ts_active t peer = Some a"])
     apply (intro wp_steps)
      apply (simp add: moved_good moved_fields a)
     apply (rule wp_step_modify)
     apply (rule moved_call [OF moved_refl])
       apply (erule added)
      apply (rule wp_moved_port, assumption, rule quiet_queue, assumption)
     apply (intro wp_steps)
      apply (simp add: moved_good moved_fields a)
     apply (rule wp_step_modify, rule keeps_fail_generation, rule good_inflight_dropped, erule moved_good)
    apply (elim conjE)
    apply (rule wp_mono [OF keeps_emit_realtime], assumption+)
      apply (simp add: plain_realtime_def)
     apply (erule moved_good)
    apply assumption
    done
qed

lemma keeps_reject: "good s0 s \<Longrightarrow> keeps (good s0) (reject_intent K W token reason) s"
  unfolding reject_intent_def by (rule keeps_good_emit) simp_all

lemma keeps_local_edit:
  assumes start: "good s0 s"
  shows "keeps (good s0) (local_edit K W command token trace accepted_at) s"
  unfolding local_edit_def Let_def
  apply (intro wp_steps keeps_reject keeps_good_emit start; (simp; fail)?)
  subgoal premises pre for events out selected pair peer a u
  proof -
    from pre have a: "ts_active s peer = Some a" by (auto simp: map_option_case split: option.splits)
    show ?thesis
      apply (rule moved_call [OF moved_refl [OF start] wp_moved_port [OF _ quiet_queue(1)]], assumption+)
      apply (intro wp_steps keeps_reject; (erule moved_good)?)
      apply (rule moved_call, assumption)
       apply (rule wp_moved_port, assumption, rule quiet_clock, assumption)
      apply (intro wp_steps keeps_reject; (erule moved_good)?)
      apply (rule wp_call)
       apply (simp only: wp_inspect)
       apply (rule wp_on_active_clocked [where a = a], erule moved_good)
        apply (simp add: moved_fields a)
       apply (rule keeps_local_event, assumption+)
      apply (elim conjE exE)
      apply (erule keeps_publish_local_edit)
      apply simp
      done
  qed
  done

section \<open>Confirmations and canonical growth\<close>

lemma keeps_remove_inflight: "good s0 s \<Longrightarrow> wp (remove_inflight_reification session correlation)
    (\<lambda>_ t. good s0 t \<and> ts_active t = ts_active s) (\<lambda>_. good s0) s"
  unfolding remove_inflight_reification_def
  by (intro wp_steps; (assumption)?) (simp add: wps good_inflight_dropped)

lemma keeps_enqueue:
  assumes "good s0 s" and "ts_active s (ei_peer session) = Some a" and "active_identity K a = session"
  shows "keeps (good s0) (enqueue_reifications_for K W peer session reifications) s"
proof -
  let ?I = "\<lambda>t. good s0 t \<and> ts_active t (ei_peer session) = Some a"
  have "wp (enqueue_reifications_for K W peer session reifications) (\<lambda>_. ?I) (\<lambda>_. good s0) s"
    unfolding enqueue_reifications_for_def
    apply (rule wp_each)
     apply (simp add: assms)
    apply (intro wp_steps)
    apply (rule wp_step_modify)
    apply (rule moved_call [OF moved_refl])
      apply (rule good_inflight_added [OF _ _ assms(3)], simp, simp)
     apply (rule wp_moved_port, assumption, rule quiet_queue, assumption)
    apply (intro wp_steps)
     apply (simp add: moved_good moved_fields)
    apply (rule wp_step_modify, rule wp_step_throw, rule good_inflight_dropped, erule moved_good)
    done
  then show ?thesis by (rule wp_mono) simp_all
qed

lemma keeps_enqueue_active:
  assumes "good s0 s"
  shows "keeps (good s0) (enqueue_reifications K W peer reifications) s"
  unfolding enqueue_reifications_def
  apply (intro wp_steps)
   apply (rule assms)
  apply (rule keeps_enqueue [OF assms])
   apply (simp_all add: identity_peer [OF assms])
  done

lemma good_horizon: "good s0 s \<Longrightarrow> good s0 (update_foundation_horizon history view revision s)"
  by (auto simp: update_foundation_horizon_def good_def task_inv_def active_ok_def offers_ok_def inflight_ok_def
      climbs_def cached_floor_def)

end

context session_world begin

text \<open>A projection of a session whose floor has been persisted.\<close>

definition shown where
  "shown w p \<longleftrightarrow> shows_opened K (opened w) (RealtimeOut (plain_realtime p))"

lemma shown_egress: "shown w p \<Longrightarrow> opened w \<subseteq> sessions \<Longrightarrow> re_projection re = p \<Longrightarrow> shows_opened K sessions (RealtimeOut re)"
  unfolding shown_def shows_opened_def plain_realtime_def by auto

lemma shown_active: "good s0 s \<Longrightarrow> ts_active s peer = Some a \<Longrightarrow> shown (ts_world s) (projection_event K kind a)"
  unfolding shown_def by (rule shows_projection [OF good_activeD(3)]) (simp_all add: plain_realtime_def)

text \<open>The loops over the active sessions change these sessions only.\<close>

definition swept where
  "swept s0 s t \<longleftrightarrow> good s0 t \<and> dom (ts_active t) = dom (ts_active s) \<and> ts_world t = ts_world s \<and>
     ts_presentation_peer t = ts_presentation_peer s"

lemma swept_refl: "good s0 s \<Longrightarrow> swept s0 s s"
  by (simp add: swept_def)

lemma swept_good: "swept s0 s t \<Longrightarrow> good s0 t"
  by (simp add: swept_def)

definition selects where
  "selects s r \<longleftrightarrow> (\<forall>p. r = Some p \<longrightarrow> shown (ts_world s) p \<and> ts_presentation_peer s \<noteq> None)"

lemma selects_egress:
  "selects s (Some p) \<Longrightarrow> re_projection re = p \<Longrightarrow> shows_opened K (opened (ts_world s)) (RealtimeOut re)"
  unfolding selects_def by (auto intro: shown_egress)

lemma wp_swept_active:
  assumes "swept s0 s t" and "peer \<in> dom (ts_active s)"
    and "\<And>a. wp m (\<lambda>x b. follows a b \<and> P x b) (\<lambda>_. follows a) a"
  shows "wp (on_active peer m) (\<lambda>x u. swept s0 s u \<and> (\<exists>b. ts_active u peer = Some b \<and> P x b)) (\<lambda>_. good s0) t"
proof -
  obtain a where a: "ts_active t peer = Some a" using assms(1,2) unfolding swept_def by (metis domD)
  show ?thesis
    by (rule wp_mono [OF wp_on_active [OF swept_good [OF assms(1)] a assms(3)]])
       (use assms(1,2) a in \<open>clarsimp simp: swept_def insert_absorb\<close>)+
qed

lemma keeps_advance_peer:
  assumes "swept s0 s t" and "peer \<in> dom (ts_active s)"
  shows "wp (advance_peer K history view revision peer) (\<lambda>r u. swept s0 s u \<and> selects s r) (\<lambda>_. good s0) t"
  unfolding advance_peer_def
  apply (rule wp_call [OF wp_swept_active [OF assms, where P = "\<lambda>x b. snd x = b"]])
   apply (rule wp_call [OF keeps_follows_advance_durable], simp)
   apply (simp add: wps)
  apply (intro wp_steps)
  apply (auto simp: selects_def swept_def split: option.splits if_splits)
  apply (metis shown_active)
  done

lemma keeps_advance_peers:
  assumes "good s0 s" and "set peers \<subseteq> dom (ts_active s)"
  shows "wp (collect (advance_peer K history view revision) peers)
     (\<lambda>rs t. swept s0 s t \<and> list_all (selects s) rs) (\<lambda>_. good s0) s"
proof -
  have "wp (collect (advance_peer K history view revision) peers)
      (\<lambda>rs t. swept s0 s t \<and> list_all2 (\<lambda>_. selects s) peers rs) (\<lambda>_. good s0) s"
    by (rule wp_collect [OF swept_refl [OF assms(1)] keeps_advance_peer]) (use assms(2) in auto)
  then show ?thesis
    by (rule wp_mono) (auto simp: list_all2_conv_all_nth list_all_length)
qed

lemma active_peers_subset: "set (active_peers s) \<subseteq> dom (ts_active s)"
  unfolding active_peers_def by (cases "finite (dom (ts_active s))") simp_all

lemma selected_list: "list_all (selects s) rs \<Longrightarrow> p \<in> set (List.map_filter id rs) \<Longrightarrow> shown (ts_world s) p \<and> ts_presentation_peer s \<noteq> None"
  by (auto simp: map_filter_def list_all_iff selects_def)

lemma keeps_emit_projections:
  assumes "good s0 s" and "\<And>p. p \<in> set ps \<Longrightarrow> shown (ts_world s) p"
  shows "keeps (good s0) (each (\<lambda>projection. emit K W (RealtimeOut (plain_realtime projection))) ps) s"
proof -
  have "wp (each (\<lambda>projection. emit K W (RealtimeOut (plain_realtime projection))) ps)
      (\<lambda>_. moved s0 s) (\<lambda>_. good s0) s"
  proof (rule wp_each [where I = "moved s0 s"], rule moved_refl [OF assms(1)])
    fix p t assume p: "p \<in> set ps" and t: "moved s0 s t"
    have "opened (ts_world s) \<subseteq> opened (ts_world t)" using t by (auto simp: moved_def)
    from shown_egress [OF assms(2) [OF p] this]
    show "wp (emit K W (RealtimeOut (plain_realtime p))) (\<lambda>_. moved s0 s) (\<lambda>_. good s0) t"
      by (intro wp_mono [OF keeps_emit [OF moved_good [OF t]]])
         (auto simp: plain_realtime_def intro: moved_trans [OF t] moved_good)
  qed
  then show ?thesis by (rule wp_mono) (auto intro: moved_good)
qed

lemma horizon_fields [simp]:
  "ts_world (update_foundation_horizon history view revision s) = ts_world s"
  "ts_active (update_foundation_horizon history view revision s) = ts_active s"
  "ts_presentation_peer (update_foundation_horizon history view revision s) = ts_presentation_peer s"
  by (simp_all add: update_foundation_horizon_def)

lemma keeps_advance_all:
  assumes "good s0 s"
  shows "keeps (good s0) (advance_all K W history view revision) s"
  unfolding advance_all_def
  apply (rule wp_step_gets)
  apply (rule wp_call [OF keeps_advance_peers [OF assms]], simp add: active_peers_subset)
  apply (rule wp_step_modify)
  apply (rule wp_then [OF keeps_emit_projections])
    apply (elim conjE, rule good_horizon, erule swept_good)
   apply (elim conjE, drule selected_list, assumption, simp add: swept_def)
  apply (erule keeps_start_ready_renewals)
  done

lemma keeps_reset_all:
  assumes "good s0 s"
  shows "keeps (good s0) (reset_all_projections K W history view revision) s"
  unfolding reset_all_projections_def
  apply (rule wp_step_gets)
  apply (rule wp_call [where P = "\<lambda>rs t. swept s0 s t \<and> list_all2 (\<lambda>_. selects s) (active_peers s) rs"])
   apply (simp only:)
   apply (rule wp_collect [where I = "swept s0 s" and P = "\<lambda>_. selects s"], rule swept_refl [OF assms])
   apply (rule wp_call [OF wp_swept_active [where P = "\<lambda>x b. x = projection_event K Session_Gate.Reset b"]])
      apply assumption
     apply (use active_peers_subset in blast)
    apply (rule keeps_follows_resynchronize_exact, simp)
   apply (simp add: wps)
   apply (auto simp: selects_def swept_def)[1]
   apply (metis shown_active)
  apply (rule wp_step_modify)
  apply (elim conjE)
  subgoal premises pre for peers rs t
  proof -
    let ?t = "update_foundation_horizon history view revision t"
    have t: "good s0 ?t" by (rule good_horizon [OF swept_good [OF pre(2)]])
    have all: "list_all (selects s) rs" using pre(3) by (auto simp: list_all2_conv_all_nth list_all_length)
    have out: "shown (ts_world ?t) p" if "p \<in> set (List.map_filter id rs)" for p
      using selected_list [OF all that] pre(2) by (simp add: swept_def)
    show ?thesis
    proof (cases "rev (List.map_filter id rs)")
      case Nil
      then show ?thesis
        by (simp add: wp_andthen) (rule wp_mono [OF keeps_start_ready_renewals [OF t]]; simp add: wps)
    next
      case (Cons p ps)
      then have p: "p \<in> set (List.map_filter id rs)" by (metis list.set_intros(1) set_rev)
      show ?thesis
        unfolding Cons list.case
        apply (rule wp_then [OF keeps_good_emit [OF t]])
         apply (rule shown_egress [OF out [OF p]], simp, simp add: plain_realtime_def)
        apply (rule wp_then [OF keeps_start_ready_renewals], assumption)
        apply (erule wp_step_ret)
        done
    qed
  qed
  done

lemma keeps_companions:
  assumes "good s0 s" and "ts_active s source = Some a"
  shows "wp (advance_companions_and_select_projection K source kind revision history view)
     (\<lambda>r t. good s0 t \<and> ts_presentation_peer t = ts_presentation_peer s \<and> selects t r) (\<lambda>_. good s0) s"
  unfolding advance_companions_and_select_projection_def
  apply (rule wp_step_gets)
  apply (rule wp_call [where P = "\<lambda>r t. t = s \<and> selects s r"])
   apply (intro wp_steps; (rule assms)?)
    apply (use assms shown_active [OF assms] in \<open>simp add: selects_def\<close>, metis option.distinct(1))
   apply (simp add: selects_def)
  apply (elim conjE, hypsubst, rule wp_step_gets)
  apply (rule wp_call [OF keeps_advance_peers [OF assms(1)]])
   apply (use active_peers_subset in auto)[1]
  apply (rule wp_step_ret)
  subgoal premises pre for x first s' others moved t
  proof -
    have t: "good s0 t" "ts_world t = ts_world s" "ts_presentation_peer t = ts_presentation_peer s"
      using pre(3) by (simp_all add: swept_def)
    have "selects t (Some p)" if "p \<in> set (List.map_filter id moved)" for p
      using selected_list [OF _ that] pre(3) t by (auto simp: selects_def)
    then have "selects t (case rev (List.map_filter id moved) of [] \<Rightarrow> first | projection # _ \<Rightarrow> Some projection)"
      using pre(1) t by (cases "rev (List.map_filter id moved)") (auto simp: selects_def dest: arg_cong [where f = set])
    then show ?thesis using t by simp
  qed
  done

lemma keeps_publish_confirmation:
  assumes "good s0 s" and "ts_active s peer = Some a"
  shows "keeps (good s0) (publish_confirmation K W peer ready kind token history view revision) s"
  unfolding publish_confirmation_def
  apply (rule wp_call [OF keeps_companions [OF assms]])
  apply (rule wp_step_modify)
  apply (rule wp_then [where P = "good s0"])
   apply (intro wp_steps)
    apply (simp add: good_horizon)
   apply (elim conjE)
   apply (rule wp_step_expect [where a = "the (ts_presentation_peer s)"], clarsimp simp: selects_def)
   apply (rule wp_mono [OF keeps_emit_realtime_shown])
      apply (erule good_horizon)
     apply (simp only: horizon_fields, rule selects_egress, simp only:, simp add: plain_realtime_def)
    apply (erule moved_good)
   apply assumption
  apply (rule wp_then [OF keeps_enqueue_active], assumption)
  apply (erule keeps_start_ready_renewals)
  done

lemma keeps_confirm_retired:
  assumes "good s0 s"
  shows "keeps (good s0) (confirm_retired K W session plan token entry admission history view revision) s"
  using assms unfolding confirm_retired_def good_def task_inv_def by (simp add: wps)

lemma keeps_admit_active:
  assumes "good s0 s" and "ts_active s peer = Some a"
  shows "wp (on_active peer (admit K record entry admission history view revision))
     (\<lambda>_ t. good s0 t \<and> (\<exists>b. ts_active t peer = Some b)) (\<lambda>_. good s0) s"
  by (rule wp_mono [OF wp_on_active [OF assms, where P = "\<lambda>_ _. True"]])
     (auto intro: keeps_follows_admit)

lemma keeps_confirm_local:
  assumes "good s0 s"
  shows "keeps (good s0) (confirm_local K W peer session plan token entry admission history view revision) s"
  unfolding confirm_local_def
  apply (rule wp_step_gets, rule wp_step_if, rule keeps_confirm_retired [OF assms])
  apply (rule wp_call [OF keeps_admit_active [OF assms, where a = "the (ts_active s peer)"]])
   apply (force split: option.splits)
  apply (elim conjE exE, rule wp_step_prod)
  apply (rule wp_then_post [OF keeps_remove_inflight], assumption)
  apply (elim conjE, rule keeps_publish_confirmation, assumption, simp)
  done

lemma keeps_observe:
  assumes "good s0 s"
  shows "keeps (good s0) (observe K W entry admission history view revision) s"
  unfolding observe_def
  apply (intro wp_steps keeps_advance_all assms)
  subgoal premises pre for manifest found peer
  proof -
    have "find (\<lambda>peer. case ts_active s peer of None \<Rightarrow> False | Some a \<Rightarrow>
        manifest_digest (authority K) (session_manifest K a) = manifest) (active_peers s) = Some peer"
      using pre by simp
    then have "peer \<in> dom (ts_active s)"
      using active_peers_subset [of s] by (auto simp: find_Some_iff dest!: nth_mem)
    then obtain a where "ts_active s peer = Some a" by blast
    then show ?thesis
      apply (rule wp_call [OF keeps_admit_active [OF assms]])
      apply (elim conjE exE, rule wp_step_prod)
      apply (erule keeps_publish_confirmation, assumption)
      done
  qed
  done

lemma good_foundations:
  "good s0 s \<Longrightarrow> (\<And>peer f. fs peer = Some f \<Longrightarrow> fo_peer f = peer) \<Longrightarrow> good s0 (s\<lparr>ts_foundations := fs\<rparr>)"
  by (simp add: good_def task_inv_def active_ok_def offers_ok_def inflight_ok_def climbs_def cached_floor_def)

lemma good_configured:
  "good s0 s \<Longrightarrow> good s0 (s\<lparr>ts_events := out, ts_trace_enabled := b\<rparr>)"
  by (simp add: good_def task_inv_def active_ok_def offers_ok_def inflight_ok_def climbs_def cached_floor_def)

lemma keeps_accept_application:
  assumes "good s0 s"
  shows "keeps (good s0) (accept_application K W channel bs) s"
  unfolding accept_application_def
  apply (intro wp_steps, rule assms)
  apply (rule moved_call [OF moved_refl [OF assms]])
   apply (intro wp_steps wp_moved_port quiet_clock moved_refl; assumption)
  apply (intro wp_steps; (erule moved_good)?)
  subgoal for _ _ _ ingress
    by (cases ingress) (auto intro: keeps_local_edit keeps_carrier moved_good)
  done

theorem keeps_accept:
  assumes "good s0 s"
  shows "keeps (good s0) (accept_input K W input) s"
proof (cases input)
  case (Configure out on)
  then show ?thesis
    unfolding accept_input_def
    by (auto simp: wp_modify intro!: wp_then [OF wp_silent_port [OF assms quiet_silent(1)]] good_configured)
next
  case (ResetProjection history view revision reply)
  show ?thesis
    unfolding accept_input_def ResetProjection task_input.case
    apply (rule wp_call [where P = "\<lambda>_. good s0"])
     apply (simp only: wp_inspect)
     apply (rule keeps_reset_all [OF assms])
    apply (rule wp_then [OF wp_silent_port [OF _ quiet_silent(3)]], assumption+)
    apply (intro wp_steps; assumption)
    done
next
  case (RefreshFoundations foundations)
  have "fo_peer f = peer" if "map_of (rev (map (\<lambda>f. (fo_peer f, f)) foundations)) peer = Some f" for peer f
    using map_of_SomeD [OF that] by auto
  then show ?thesis
    unfolding accept_input_def RefreshFoundations task_input.case
    by (intro wp_step_modify keeps_start_ready_renewals good_foundations assms)
qed (auto simp: accept_input_def wp_ret assms intro!: keeps_start_peer keeps_accept_application keeps_confirm_local
      keeps_observe keeps_advance_all wp_call [OF keeps_reset_all])

end

section \<open>Runs of the task\<close>

context session_world begin

lemma keeps_diagnostic: "good s0 s \<Longrightarrow> keeps (good s0) (diagnostic K W message) s"
  unfolding diagnostic_def
  apply (rule wp_call [where P = "\<lambda>_. good s0"])
   apply (simp only: wp_inspect)
   apply (rule keeps_good_emit, assumption, simp)
  apply (erule wp_step_ret)
  done

lemma good_new: "J w \<Longrightarrow> good (task_new w) (task_new w)"
  by (simp add: good_def task_inv_def active_ok_def offers_ok_def inflight_ok_def climbs_def cached_floor_def task_new_def)

lemma good_again: "good s0 s \<Longrightarrow> good s s"
  by (auto simp: good_def climbs_def)

lemma runs_good: "good s0 s \<Longrightarrow> \<exists>t. run_session_task K W inputs s = Some t \<and> good s0 t"
proof (induction inputs arbitrary: s)
  case Nil
  then show ?case by simp
next
  case (Cons input inputs)
  obtain r t where step: "accept_input K W input s = (r, t)" by (cases "accept_input K W input s")
  have t: "good s0 t" "r \<noteq> Inl Panic"
    using keepsD [OF keeps_accept [OF Cons.prems, of input]] step by auto
  have u: "good s0 (snd ((diagnostic K W e :: (_, string, unit) eff) t))" for e
    using keepsD [OF keeps_diagnostic [OF t(1), of e]] by blast
  show ?case
  proof (cases "input = Shutdown")
    case True
    then show ?thesis using Cons.prems by simp
  next
    case False
    then show ?thesis
      using step t u Cons.IH by (auto simp: Let_def split: sum.split fault.split)
  qed
qed

lemma runs_from_new: "J w \<Longrightarrow> run_session_task K W inputs (task_new w) = Some s \<Longrightarrow> good s s"
  using runs_good [OF good_new, of w inputs] good_again by auto

end

section \<open>The two readings of the world\<close>

text \<open>Nothing is recorded: the invariant and the climbing of floors.\<close>

interpretation any_world: session_world K W "\<lambda>_. True" "\<lambda>_. UNIV" for K :: "('x, 'd::linorder) hhhs" and W :: "('x, 'w) session_ports"
  by unfold_locales auto

text \<open>The ports with a log of what was persisted, queued and sent, in order.\<close>

datatype 'x port_action = Persisted renewal_key 'x bytes | Queued "'x reification" | Sent 'x u32 bytes

definition beside_log where
  "beside_log call = (\<lambda>(w, log). case call w of (r, w') \<Rightarrow> (r, (w', log)))"

definition logging where
  "logging when entry call = (\<lambda>(w, log). case call w of (r, w') \<Rightarrow> (r, (w', if when r then log @ [entry] else log)))"

definition recording :: "('x, 'w) session_ports \<Rightarrow> ('x, 'w \<times> 'x port_action list) session_ports" where
  "recording W =
     \<lparr>store_configure = (\<lambda>out (w, log). (store_configure W out w, log)),
      store_load = (\<lambda>key. beside_log (store_load W key)),
      store_persist = (\<lambda>key place bs. logging (\<lambda>r. r = Inr ()) (Persisted key place bs) (store_persist W key place bs)),
      now_ticks = beside_log (now_ticks W), now_micros = beside_log (now_micros W),
      fill_random = (\<lambda>n. beside_log (fill_random W n)), port_generation = port_generation W,
      send_application_frame = (\<lambda>out ch bs. logging (\<lambda>_. True) (Sent out ch bs) (send_application_frame W out ch bs)),
      emit_error = (\<lambda>out bs (w, log). (emit_error W out bs w, log)),
      queue_ready = beside_log (queue_ready W),
      queue_start_send = (\<lambda>rf. logging id (Queued rf) (queue_start_send W rf)),
      queue_send = (\<lambda>rf. logging id (Queued rf) (queue_send W rf)),
      reply_reset = (\<lambda>out r (w, log). (reply_reset W out r w, log))\<rparr>"

lemma beside_log_apply [simp]:
  "snd (snd (beside_log call wl)) = snd wl" "fst (beside_log call wl) = fst (call (fst wl))"
  by (simp_all add: beside_log_def split: prod.split)

lemma logging_apply [simp]:
  "snd (snd (logging when entry call wl)) = (if when (fst (call (fst wl))) then snd wl @ [entry] else snd wl)"
  "fst (logging when entry call wl) = fst (call (fst wl))"
  by (simp_all add: logging_def split: prod.split)

text \<open>The sessions whose floor is in the log, and a log in which every frame was sent by right.\<close>

definition persisted_sessions where
  "persisted_sessions K log =
     {session. \<exists>key place. Persisted key place
        (floor_to_bytes (authority K) (floor_from_authorized (authority K) session)) \<in> set log}"

definition orderly where
  "orderly K log \<longleftrightarrow>
     (\<forall>before out ch bs rest. log = before @ Sent out ch bs # rest \<longrightarrow>
        (\<exists>event. encode (write_egress (serde K)) event = Inr bs \<and> shows_opened K (persisted_sessions K before) event))"

lemma persisted_mono [simp]: "persisted_sessions K log \<subseteq> persisted_sessions K (log @ rest)"
  by (auto simp: persisted_sessions_def)

lemma snoc_split:
  assumes "log @ [x] = before @ y # rest"
  shows "rest = [] \<and> before = log \<and> y = x \<or> (\<exists>rest'. rest = rest' @ [x] \<and> log = before @ y # rest')"
  using assms by (cases rest rule: rev_cases) auto

lemma orderly_other:
  assumes "orderly K log" and "\<And>out ch bs. entry \<noteq> Sent out ch bs"
  shows "orderly K (log @ [entry])"
  unfolding orderly_def
proof (intro allI impI)
  fix before out ch bs rest
  assume "log @ [entry] = before @ Sent out ch bs # rest"
  from snoc_split [OF this] assms show "\<exists>event. encode (write_egress (serde K)) event = Inr bs \<and>
      shows_opened K (persisted_sessions K before) event"
    unfolding orderly_def by metis
qed

lemma orderly_sent:
  assumes "orderly K log" and "encode (write_egress (serde K)) event = Inr bs"
    and "shows_opened K (persisted_sessions K log) event"
  shows "orderly K (log @ [Sent out ch bs])"
  unfolding orderly_def
proof (intro allI impI)
  fix before out' ch' bs' rest
  assume "log @ [Sent out ch bs] = before @ Sent out' ch' bs' # rest"
  from snoc_split [OF this] assms
  show "\<exists>event. encode (write_egress (serde K)) event = Inr bs' \<and> shows_opened K (persisted_sessions K before) event"
    unfolding orderly_def by (metis port_action.inject(3))
qed

interpretation recorded: session_world K "recording W" "\<lambda>wl. orderly K (snd wl)" "\<lambda>wl. persisted_sessions K (snd wl)"
  for K :: "('x, 'd::linorder) hhhs" and W :: "('x, 'w) session_ports"
proof unfold_locales
  fix w :: "'w \<times> 'x port_action list" and event and bs and out
  assume "orderly K (snd w)" "encode (write_egress (serde K)) event = Inr bs"
    "shows_opened K (persisted_sessions K (snd w)) event"
  then show "orderly K (snd (snd (send_application_frame (recording W) out room_session_channel bs w))) \<and>
      persisted_sessions K (snd w)
      \<subseteq> persisted_sessions K (snd (snd (send_application_frame (recording W) out room_session_channel bs w)))"
    by (simp add: recording_def orderly_sent)
next
  fix w :: "'w \<times> 'x port_action list" and key place session u w'
  assume "store_persist (recording W) key place
      (floor_to_bytes (authority K) (floor_from_authorized (authority K) session)) w = (Inr u, w')"
  then show "session \<in> persisted_sessions K (snd w')"
    by (cases w) (auto simp: recording_def logging_def persisted_sessions_def split: prod.splits, blast)
qed (auto simp: recording_def orderly_other split: prod.split)

end
