(* ===== verification/Session_Edits.thy ===== *)
theory Session_Edits
  imports Session_Invariant
begin

text \<open>
  What the window is told of one local edit, read off the log of the recording ports: how many frames a local
  edit of \<open>src/src/room/session.rs\<close> sends, and what may be queued before.
\<close>

section \<open>The outcome of a local edit\<close>

text \<open>The frame that tells the window what became of an edit, and the log of a handler that sent it: at most one
  queued plan, that of the edit, and then the frame.\<close>

definition outcome_of where
  "outcome_of command token event \<longleftrightarrow>
     event = FallbackDurable command token \<or> (\<exists>reason. event = IntentRejected token reason) \<or>
     (\<exists>re. event = RealtimeOut re \<and> re_intent_token re = Some token \<and> re_carrier re \<noteq> None)"

definition told where
  "told K command token log log' \<longleftrightarrow>
     (\<exists>out bs event. log' = log @ [Sent out room_session_channel bs] \<and>
        encode (write_egress (serde K)) event = Inr bs \<and> outcome_of command token event)"

definition plan_queued where
  "plan_queued command token log log' \<longleftrightarrow>
     log' = log \<or> (\<exists>rf. log' = log @ [Queued rf] \<and> rf_command rf = command \<and> rf_intent_token rf = Some token)"

definition answered where
  "answered K command token log log' \<longleftrightarrow>
     (\<exists>queued. plan_queued command token log queued \<and> told K command token queued log')"

definition broken_off where
  "broken_off K command token log log' \<longleftrightarrow> plan_queued command token log log' \<or> answered K command token log log'"

abbreviation log_of :: "('x, 'd, 'w \<times> 'x port_action list) session_task \<Rightarrow> 'x port_action list" where
  "log_of s \<equiv> snd (ts_world s)"

lemma recording_quiet:
  "snd (snd (now_ticks (recording W) wl)) = snd wl" "snd (snd (now_micros (recording W) wl)) = snd wl"
  "snd (snd (queue_ready (recording W) wl)) = snd wl" "snd (emit_error (recording W) out bs wl) = snd wl"
  by (cases wl; simp add: recording_def)+

lemma emit_tells:
  assumes "outcome_of command token event"
  shows "wp (emit K (recording W) event) (\<lambda>_ t. told K command token (log_of s) (log_of t))
     (\<lambda>_ t. log_of t = log_of s \<or> told K command token (log_of s) (log_of t)) s"
  unfolding emit_def
  apply (intro wp_steps, simp, simp)
  apply (simp add: try_port_def wps recording_def logging_def split: prod.split sum.split)
  using assms by (auto simp: show_errors_def told_def split: sum.splits prod.splits)

lemma fail_generation_quiet:
  assumes "R (log_of s)"
  shows "wp (fail_session_generation (recording W) reason) Q (\<lambda>_ t. R (log_of t)) s"
  unfolding fail_session_generation_def Let_def
  by (intro wp_steps; simp add: silent_port_def recording_quiet wps clear_generation_def assms split: option.split)

lemma emit_realtime_tells:
  assumes "outcome_of command token (RealtimeOut re)"
  shows "wp (emit_realtime_or_fail_generation K (recording W) re)
     (\<lambda>_ t. told K command token (log_of s) (log_of t))
     (\<lambda>_ t. log_of t = log_of s \<or> told K command token (log_of s) (log_of t)) s"
  unfolding emit_realtime_or_fail_generation_def
  apply (rule wp_call [where P = "\<lambda>r t. case r of
      Inr _ \<Rightarrow> told K command token (log_of s) (log_of t)
    | Inl _ \<Rightarrow> log_of t = log_of s \<or> told K command token (log_of s) (log_of t)"])
   apply (simp only: wp_inspect)
   apply (rule wp_mono [OF emit_tells [OF assms]]; simp)
  apply (intro wp_steps; simp)
  apply (erule fail_generation_quiet)
  done

lemma local_event_command:
  "local_event K W command token ticks trace_on trace accepted_at s = (Inr event, t) \<Longrightarrow> le_command event = command"
  unfolding local_event_def Let_def by (clarsimp simp only: oks local_session_event.simps)

lemma trace_quiet:
  "wp (case trace of None \<Rightarrow> ret None
      | Some t \<Rightarrow> bnd (port (now_micros (recording W))) (\<lambda>at. ret (Some (t\<lparr>ct_worker_projected := at\<rparr>))))
      (\<lambda>_ t. log_of t = log_of s) E s"
  using recording_quiet(2) [of W "ts_world s"] by (auto simp: wps port_def split: option.split prod.split)

lemma queue_logs:
  "wp (port (queue_start_send (recording W) rf)) (\<lambda>taken t. log_of t = (if taken then log_of s @ [Queued rf] else log_of s)) E s"
  by (auto simp: wps port_def recording_def logging_def split: prod.split)

lemma inflight_world [simp]:
  "ts_world (add_inflight session correlation s) = ts_world s" "ts_world (drop_inflight session correlation s) = ts_world s"
  by (simp_all add: add_inflight_def drop_inflight_def Let_def split: option.split)

lemma publish_answers:
  assumes a: "ts_active s peer = Some a" and command: "\<And>event. r = Inr event \<Longrightarrow> le_command event = command"
  shows "wp (publish_local_edit K (recording W) peer token r)
     (\<lambda>_ t. answered K command token (log_of s) (log_of t)) (\<lambda>_ t. broken_off K command token (log_of s) (log_of t)) s"
  unfolding publish_local_edit_def Let_def
  apply (intro wp_steps fail_generation_quiet)
    apply (simp add: broken_off_def plan_queued_def)
   apply (rule wp_step_expect, simp add: a)
   apply (intro wp_steps fail_generation_quiet)
    apply (simp add: broken_off_def plan_queued_def)
   apply (rule wp_call [OF trace_quiet])
   apply (rule wp_then [where P = "\<lambda>t. plan_queued command token (log_of s) (log_of t)"])
    apply (intro wp_steps)
     apply (simp add: plan_queued_def)
    apply (rule wp_step_modify, rule wp_call [OF queue_logs])
    apply (intro wp_steps)
     apply (simp add: plan_queued_def command)
    apply (rule wp_step_modify, rule fail_generation_quiet)
    apply (simp add: broken_off_def plan_queued_def)
   apply (rule wp_mono [OF emit_realtime_tells])
     apply (simp add: outcome_of_def)
    apply (auto simp: answered_def broken_off_def)
  done

lemma told_answers:
  "told K command token log log' \<Longrightarrow> answered K command token log log'"
  "log' = log \<or> told K command token log log' \<Longrightarrow> broken_off K command token log log'"
  by (auto simp: answered_def broken_off_def plan_queued_def)

lemma emit_answers:
  assumes "log_of s = log" and "outcome_of command token event"
  shows "wp (emit K (recording W) event) (\<lambda>_ t. answered K command token log (log_of t))
     (\<lambda>_ t. broken_off K command token log (log_of t)) s"
  by (rule wp_mono [OF emit_tells [OF assms(2)]]) (simp_all only: assms(1) told_answers)

lemma reject_answers:
  assumes "log_of s = log"
  shows "wp (reject_intent K (recording W) token reason) (\<lambda>_ t. answered K command token log (log_of t))
     (\<lambda>_ t. broken_off K command token log (log_of t)) s"
  unfolding reject_intent_def by (rule emit_answers [OF assms]) (simp add: outcome_of_def)

lemma port_quiet:
  assumes "\<And>wl. snd (snd (call wl)) = snd wl"
  shows "wp (port call) (\<lambda>_ t. \<exists>w. t = s\<lparr>ts_world := w\<rparr> \<and> snd w = log_of s) E s"
  using assms [of "ts_world s"] by (auto simp: wps port_def split: prod.split)

lemma edit_quiet:
  assumes "ts_active s peer = Some a"
  shows "wp (on_active_clocked peer (local_event K (recording W) command token ticks trace_on trace accepted_at))
     (\<lambda>event t. le_command event = command \<and> log_of t = log_of s \<and> ts_active t peer \<noteq> None)
     (\<lambda>_ t. log_of t = log_of s \<and> ts_active t peer \<noteq> None) s"
proof -
  let ?m = "local_event K (recording W) command token ticks trace_on trace accepted_at"
  have "keeps (beside (\<lambda>wl. snd wl = log_of s) (follows a)) ?m (ts_world s, a)"
    by (rule keeps_local_event) (simp_all add: recording_quiet)
  moreover have "wp ?m (\<lambda>event _. le_command event = command) (\<lambda>_ _. True) (ts_world s, a)"
    using calculation local_event_command [of K "recording W" command token ticks trace_on trace accepted_at "(ts_world s, a)"]
    unfolding wp_def by (auto split: prod.splits sum.splits fault.splits)
  ultimately have "wp ?m (\<lambda>event wa. snd (fst wa) = log_of s \<and> le_command event = command)
      (\<lambda>_ wa. snd (fst wa) = log_of s) (ts_world s, a)"
    by (rule wp_mono [OF wp_conj]) auto
  then show ?thesis
    unfolding on_active_clocked_def using assms
    by (simp add: wps) (erule wp_mono; clarsimp)
qed

lemma edit_answers:
  assumes "ts_active s peer = Some a"
  shows "wp (bnd (inspect (on_active_clocked peer (local_event K (recording W) command token ticks trace_on trace accepted_at)))
        (publish_local_edit K (recording W) peer token))
     (\<lambda>_ t. answered K command token (log_of s) (log_of t)) (\<lambda>_ t. broken_off K command token (log_of s) (log_of t)) s"
  apply (rule wp_call [where P = "\<lambda>r t. (\<forall>event. r = Inr event \<longrightarrow> le_command event = command) \<and>
      log_of t = log_of s \<and> ts_active t peer \<noteq> None"])
   apply (simp only: wp_inspect)
   apply (rule wp_mono [OF edit_quiet [OF assms]]; simp)
  apply (elim conjE exE not_None_eq [THEN iffD1, THEN exE])
  subgoal for r t b
    using publish_answers [of t peer b r command K W token] by simp
  done

lemma local_edit_answers:
  "wp (local_edit K (recording W) command token trace accepted_at)
     (\<lambda>_ t. answered K command token (log_of s) (log_of t)) (\<lambda>_ t. broken_off K command token (log_of s) (log_of t)) s"
  unfolding local_edit_def Let_def
  apply (intro wp_steps reject_answers emit_answers; (simp add: outcome_of_def broken_off_def plan_queued_def; fail)?)
  subgoal premises pre for events out selected pair peer a u
  proof -
    from pre have a: "ts_active s peer = Some a" by (auto simp: map_option_case split: option.splits)
    show ?thesis
      apply (rule wp_call [OF port_quiet], simp add: recording_quiet)
      apply (elim exE conjE)
      apply (intro wp_steps reject_answers; (simp; fail)?)
      apply (rule wp_call [OF port_quiet], simp add: recording_quiet)
      apply (elim exE conjE)
      apply (intro wp_steps reject_answers; (simp; fail)?)
      apply (rule wp_mono [OF edit_answers])
        apply (simp_all add: a)
      done
  qed
  done

end
