(* ===== verification/Session_Sample.thy ===== *)
theory Session_Sample
  imports Session_Edits
begin

text \<open>
  A small lawful instance of the crates and ports of the session task, and what the task does on it: a peer
  makes an offer, renews the session, and the first edit of the session is played. The witnesses of
  \<open>Session_Claims\<close> run the task on this instance.
\<close>

section \<open>A small instance\<close>

text \<open>Crates of numbers and byte strings: a session, its manifest and its floor are the number of its epoch, and a
  byte string of one byte is the offer, the floor or the projection of the epoch it names.\<close>

definition tiny_authority :: "nat authority_ops" where
  "tiny_authority =
     \<lparr>digest_of = id, profile_for_domain = (\<lambda>_. 0), security_profile_id = 0, notes_area = (\<lambda>_. 0), root_area = (\<lambda>_. 0),
      durable_command = 0, receiver_of = length, frontier = id, history_root = (\<lambda>_. []), position_entries = (\<lambda>_. []),
      manifest_build = (\<lambda>spec. Inr (unat (ms_epoch spec))), manifest_epoch = of_nat, manifest_base = (\<lambda>_. 0),
      manifest_digest = (\<lambda>m. [of_nat m]), manifest_channel_binding = (\<lambda>_. []), manifest_rules = (\<lambda>_. []),
      manifest_vocabulary = (\<lambda>_. []), claim_new = (\<lambda>_ receiver _ _ _ _. Inr receiver), claim_bytes = (\<lambda>_. []),
      claim_receiver = id, claim_presented = (\<lambda>_. []), context_new = (\<lambda>_ _ _ _. Inr 0),
      present = (\<lambda>_ _ _. Inr 1), presentation_encode = (\<lambda>_. []), presentation_decode = (\<lambda>_. Inr 1),
      register_verifier = Inr (), verify_presentation = (\<lambda>p _. Inr p), verified_receiver = id,
      verified_presented = (\<lambda>_. []), verified_context = (\<lambda>_. 0), assume_verified = id, policy_build = (\<lambda>_. Inr 0),
      capture = (\<lambda>_ _. 0), authorize_session = (\<lambda>_ _ m _. Inr m), authorize_session_renewal = (\<lambda>_ _ _ m _. Inr m),
      renewal_install = (\<lambda>m. (0, [of_nat m])), renewal_parts = (\<lambda>m. (m, m)), floor_from_authorized = id,
      floor_epoch = of_nat, floor_base = (\<lambda>_. 0),
      floor_next_epoch = (\<lambda>m. if (of_nat m :: u32) = - 1 then Inl ''exhausted'' else Inr (of_nat m + 1)),
      floor_to_bytes = (\<lambda>m. [of_nat m]), floor_from_bytes = (\<lambda>_. Inl ''unreadable''), auth_manifest = id\<rparr>"

definition tiny_establishment :: "nat establishment_ops" where
  "tiny_establishment =
     \<lparr>protocol_derive = (\<lambda>_. 0), channel_binding_derive = id, initiator_begin = (\<lambda>_ _ _ _ _. (0, [])),
      offer_decode = (\<lambda>_. Inr 0), offer_verify = (\<lambda>_ _ _. Inr 0), offer_identity = (\<lambda>_. [0]),
      offer_respond = (\<lambda>_ _ _. Inr ([], 0)), initiator_complete = (\<lambda>_ _ _. Inr 0),
      export_directional = (\<lambda>_ _. ([], []))\<rparr>"

definition no_pitches :: "nat pitch_view" where
  "no_pitches = \<lparr>pitch_classes = {}, pitches = {}\<rparr>"

definition tiny_durable :: "(nat, nat) durable_projection" where
  "tiny_durable = \<lparr>dp_revision = 0, dp_frontier = 0, dp_root = [], dp_view = durable no_pitches\<rparr>"

definition tiny_runtime :: "(nat, nat) runtime_ops" where
  "tiny_runtime =
     \<lparr>binding_new = (\<lambda>_ _ _ _. Inr 0), key_from_bytes = length, nonce_source = (\<lambda>_. Inr 0), cipher_profile = id,
      sender_new = (\<lambda>_ _ _. Inr 0), receiver_new = (\<lambda>_ _ _. Inr 0), packet_codec = (\<lambda>_. Inr 0),
      kernel_new = (\<lambda>_. Inr 0), initial_cut = Inr, projection_new = (\<lambda>_ _ _ _ _. Inr 0), planner_new = (\<lambda>_. Inr 0),
      remaining_causal_events = (\<lambda>sent. 64 - of_nat sent), highest_sealed_counter = of_nat,
      event_budget_exhausted = (\<lambda>_. False), remaining_event_budget = (\<lambda>_ _. Some 64), ready_cut = id, cut_context = id,
      header_new = (\<lambda>_ counter _ _ _. Inr (unat counter)), seal = (\<lambda>header _ sent. (Inr header, sent + 1)),
      packet_encode = (\<lambda>_ _ p. Inr [of_nat p]), packet_decode = (\<lambda>_ _ bs. Inr (length bs)),
      packet_effective_at = (\<lambda>_. 100), receive = (\<lambda>p seen. (Inr p, seen + 1)), received_fresh = (\<lambda>_. True),
      received_code = (\<lambda>_. pitch_edit_code), received_payload = (\<lambda>_. []), with_payload = (\<lambda>p _. p),
      permit_event = (\<lambda>_ _ p _. Inr p), permitted_dot = id, permitted_manifest = (\<lambda>_. []),
      permitted_identity = (\<lambda>p. [of_nat p]), dot_epoch = (\<lambda>_. 1), dot_seat = (\<lambda>_. 1), dot_counter = of_nat,
      kernel_ingest = (\<lambda>_ k. (Inr True, k + 1)),
      snapshot_of = (\<lambda>p. \<lparr>sn_generation = 1, sn_sequence = of_nat p, sn_durable = tiny_durable, sn_view = durable no_pitches\<rparr>),
      durable_of = (\<lambda>_. tiny_durable), projected_cut = id, pending_len = id,
      advance_simulation = (\<lambda>_ _ p. (Inr None, p)),
      predict_between = (\<lambda>_ _ _ _ p. (Inr (Some ChangePredicted), p + 1)),
      projection_confirm = (\<lambda>_ _ _ p. (Inr None, p)), projection_advance_durable = (\<lambda>_ _ p. (Inr ChangeDurableAdvanced, p)),
      projection_resynchronize = (\<lambda>_ _ _ _ _ _ _ p. (Inr ChangeReset, p)),
      planner_plan = (\<lambda>_ dot planned. (Inr dot, planned + 1)), plan_manifest = (\<lambda>_. []), plan_dot = id,
      plan_event = (\<lambda>p. [of_nat p]), record_admission = (\<lambda>_ _ a p. (Inr a, p)),
      record_observed_admission = (\<lambda>_ _ a p. (Inr a, p)), admission_from_replica = (\<lambda>_ a _. Inr a),
      has_session_domain = (\<lambda>_. False), reified_manifest = (\<lambda>_ _. Inl '''')\<rparr>"

text \<open>The projection shown when the session of an epoch is installed.\<close>

definition tiny_shown :: "u32 \<Rightarrow> nat realtime_egress" where
  "tiny_shown epoch =
     (plain_realtime \<lparr>pj_manifest = [ucast epoch], pj_session_id = 7, pj_epoch = epoch, pj_generation = 1, pj_sequence = 0,
        pj_durable_revision = 0, pj_durable_root = [], pj_kind = Session_Gate.Reset, pj_view = no_pitches\<rparr>)
     \<lparr>re_carrier := Some session_carrier_domain\<rparr>"

text \<open>The first edit in that session: its dot is 1, and so is the number of everything made of it.\<close>

definition tiny_edit :: "nat pitch_op" where
  "tiny_edit = AddDegree \<lparr>tuning_id = 0, tuned_item = 4\<rparr>"

definition tiny_token :: intent_token where
  "tiny_token = \<lparr>tk_generation = 3, tk_sequence = 1\<rparr>"

definition tiny_correlation :: durable_correlation where
  "tiny_correlation = \<lparr>dc_manifest = [], dc_epoch = 1, dc_seat = 1, dc_counter = 1, dc_event = [1]\<rparr>"

definition tiny_edited :: "nat realtime_egress" where
  "tiny_edited =
     (plain_realtime ((re_projection (tiny_shown 1))\<lparr>pj_sequence := 1, pj_kind := Predicted\<rparr>))
     \<lparr>re_carrier := Some session_carrier_domain, re_durable := [tiny_correlation], re_intent_token := Some tiny_token\<rparr>"

definition tiny_serde :: "nat session_serde" where
  "tiny_serde =
     \<lparr>write_egress = (\<lambda>v. if vs_version v = 1 then (case vs_body v of
           RealtimeOut re \<Rightarrow>
             if re = tiny_shown 1 then Some [1] else if re = tiny_shown 2 then Some [2]
             else if re = tiny_edited then Some [3] else None
         | _ \<Rightarrow> None) else None),
      read_ingress = (\<lambda>bs. Some \<lparr>vs_version = 1, vs_body =
        (case bs of [] \<Rightarrow> LocalPitchEdit tiny_edit tiny_token None | _ \<Rightarrow> CarrierFrame bs None)\<rparr>),
      write_carrier = (\<lambda>_. Some []),
      read_carrier = (\<lambda>bs. Some \<lparr>vs_version = 1, vs_body =
        (case bs of [] \<Rightarrow> Answer [0] [1] 9 [] [] [] | epoch # _ \<Rightarrow> Offer [0] [1] 7 (ucast epoch) [] [] [] [])\<rparr>),
      write_op = (\<lambda>_. Some []),
      read_op = (\<lambda>_. Some \<lparr>vs_version = 1, vs_body = tiny_edit\<rparr>)\<rparr>"

definition tiny :: "(nat, nat) hhhs" where
  "tiny = \<lparr>serde = tiny_serde, authority = tiny_authority, establishment = tiny_establishment, runtime = tiny_runtime\<rparr>"

definition tiny_ports :: "(nat, unit) session_ports" where
  "tiny_ports =
     \<lparr>store_configure = (\<lambda>_ w. w), store_load = (\<lambda>_ w. (Inr None, w)), store_persist = (\<lambda>_ _ _ w. (Inr (), w)),
      now_ticks = (\<lambda>w. (Inr 5, w)), now_micros = (\<lambda>w. (None, w)), fill_random = (\<lambda>n w. (Inr (replicate n 0), w)),
      port_generation = (\<lambda>_. 3), send_application_frame = (\<lambda>_ _ _ w. (Inr (), w)), emit_error = (\<lambda>_ _ w. w),
      queue_ready = (\<lambda>w. (True, w)), queue_start_send = (\<lambda>_ w. (True, w)), queue_send = (\<lambda>_ w. (True, w)),
      reply_reset = (\<lambda>_ _ w. w)\<rparr>"

definition tiny_foundation :: "nat foundation" where
  "tiny_foundation =
     \<lparr>fo_identity = \<lparr>id_object = [1], id_music = [2], id_extension = [3]\<rparr>, fo_local = [1], fo_peer = [0],
      fo_signing_key = 0, fo_history = 0, fo_music_root = [], fo_local_grants = [], fo_peer_grants = [],
      fo_durable_view = no_pitches, fo_durable_revision = 0\<rparr>"

definition tiny_offer :: "u8 \<Rightarrow> nat task_input" where
  "tiny_offer epoch = Application room_session_channel (session_carrier_domain @ [epoch])"

definition tiny_active :: "nat \<Rightarrow> (nat, nat) active_session" where
  "tiny_active epoch =
     \<lparr>as_foundation = tiny_foundation, as_session = epoch, as_session_id = 7, as_local_seat = 1, as_remote_seat = 0,
      as_sender_binding = 0, as_receiver_binding = 0, as_sender_codec = 0, as_receiver_codec = 0, as_sender = 0,
      as_echo_receiver = 0, as_receiver = 0, as_kernel = 0, as_projection = 0, as_planner = 0,
      as_logical_time = lease_start, as_lease_clock_origin = 5, as_lease_clock_last = 5, as_durable_revision = 0,
      as_awaiting = Map.empty\<rparr>"

text \<open>The task before its first session, and with the session of an epoch installed.\<close>

definition tiny_waiting :: "'w \<Rightarrow> (nat, nat, 'w) session_task" where
  "tiny_waiting w =
     (task_new w)\<lparr>ts_events := Some 0, ts_foundations := [[0] \<mapsto> tiny_foundation], ts_renewal_floors := [[0] \<mapsto> None]\<rparr>"

definition tiny_installed :: "nat \<Rightarrow> 'w \<Rightarrow> (nat, nat, 'w) session_task" where
  "tiny_installed epoch w =
     (tiny_waiting w)\<lparr>ts_active := [[0] \<mapsto> tiny_active epoch], ts_presentation_peer := Some [0],
        ts_renewal_floors := [[0] \<mapsto> Some epoch]\<rparr>"

lemma tiny_components [simp]:
  "serde tiny = tiny_serde" "authority tiny = tiny_authority" "establishment tiny = tiny_establishment"
  "runtime tiny = tiny_runtime"
  by (simp_all add: tiny_def)

lemma tiny_authority_selects [simp]:
  "digest_of tiny_authority = id" "profile_for_domain tiny_authority = (\<lambda>_. 0)"
  "security_profile_id tiny_authority = 0" "notes_area tiny_authority = (\<lambda>_. 0)"
  "root_area tiny_authority = (\<lambda>_. 0)" "durable_command tiny_authority = 0"
  "receiver_of tiny_authority = length" "frontier tiny_authority = id"
  "history_root tiny_authority = (\<lambda>_. [])" "position_entries tiny_authority = (\<lambda>_. [])"
  "manifest_build tiny_authority = (\<lambda>spec. Inr (unat (ms_epoch spec)))"
  "manifest_epoch tiny_authority = of_nat" "manifest_base tiny_authority = (\<lambda>_. 0)"
  "manifest_digest tiny_authority = (\<lambda>m. [of_nat m])"
  "manifest_channel_binding tiny_authority = (\<lambda>_. [])"
  "manifest_rules tiny_authority = (\<lambda>_. [])" "manifest_vocabulary tiny_authority = (\<lambda>_. [])"
  "claim_new tiny_authority = (\<lambda>_ receiver _ _ _ _. Inr receiver)"
  "claim_bytes tiny_authority = (\<lambda>_. [])" "claim_receiver tiny_authority = id"
  "claim_presented tiny_authority = (\<lambda>_. [])" "context_new tiny_authority = (\<lambda>_ _ _ _. Inr 0)"
  "present tiny_authority = (\<lambda>_ _ _. Inr 1)" "presentation_encode tiny_authority = (\<lambda>_. [])"
  "presentation_decode tiny_authority = (\<lambda>_. Inr 1)" "register_verifier tiny_authority = Inr ()"
  "verify_presentation tiny_authority = (\<lambda>p _. Inr p)" "verified_receiver tiny_authority = id"
  "verified_presented tiny_authority = (\<lambda>_. [])" "verified_context tiny_authority = (\<lambda>_. 0)"
  "assume_verified tiny_authority = id" "policy_build tiny_authority = (\<lambda>_. Inr 0)"
  "capture tiny_authority = (\<lambda>_ _. 0)" "authorize_session tiny_authority = (\<lambda>_ _ m _. Inr m)"
  "authorize_session_renewal tiny_authority = (\<lambda>_ _ _ m _. Inr m)"
  "renewal_install tiny_authority = (\<lambda>m. (0, [of_nat m]))"
  "renewal_parts tiny_authority = (\<lambda>m. (m, m))" "floor_from_authorized tiny_authority = id"
  "floor_epoch tiny_authority = of_nat" "floor_base tiny_authority = (\<lambda>_. 0)"
  "floor_next_epoch tiny_authority = (\<lambda>m. if (of_nat m :: u32) = - 1 then Inl ''exhausted'' else Inr (of_nat m + 1))"
  "floor_to_bytes tiny_authority = (\<lambda>m. [of_nat m])"
  "floor_from_bytes tiny_authority = (\<lambda>_. Inl ''unreadable'')" "auth_manifest tiny_authority = id"
  by (simp_all add: tiny_authority_def)

lemma tiny_establishment_selects [simp]:
  "protocol_derive tiny_establishment = (\<lambda>_. 0)" "channel_binding_derive tiny_establishment = id"
  "initiator_begin tiny_establishment = (\<lambda>_ _ _ _ _. (0, []))"
  "offer_decode tiny_establishment = (\<lambda>_. Inr 0)"
  "offer_verify tiny_establishment = (\<lambda>_ _ _. Inr 0)"
  "offer_identity tiny_establishment = (\<lambda>_. [0])"
  "offer_respond tiny_establishment = (\<lambda>_ _ _. Inr ([], 0))"
  "initiator_complete tiny_establishment = (\<lambda>_ _ _. Inr 0)"
  "export_directional tiny_establishment = (\<lambda>_ _. ([], []))"
  by (simp_all add: tiny_establishment_def)

lemma tiny_runtime_selects [simp]:
  "binding_new tiny_runtime = (\<lambda>_ _ _ _. Inr 0)" "key_from_bytes tiny_runtime = length"
  "nonce_source tiny_runtime = (\<lambda>_. Inr 0)" "cipher_profile tiny_runtime = id"
  "sender_new tiny_runtime = (\<lambda>_ _ _. Inr 0)" "receiver_new tiny_runtime = (\<lambda>_ _ _. Inr 0)"
  "packet_codec tiny_runtime = (\<lambda>_. Inr 0)" "kernel_new tiny_runtime = (\<lambda>_. Inr 0)"
  "initial_cut tiny_runtime = Inr" "projection_new tiny_runtime = (\<lambda>_ _ _ _ _. Inr 0)"
  "planner_new tiny_runtime = (\<lambda>_. Inr 0)"
  "remaining_causal_events tiny_runtime = (\<lambda>sent. 64 - of_nat sent)"
  "highest_sealed_counter tiny_runtime = of_nat" "event_budget_exhausted tiny_runtime = (\<lambda>_. False)"
  "remaining_event_budget tiny_runtime = (\<lambda>_ _. Some 64)" "ready_cut tiny_runtime = id"
  "cut_context tiny_runtime = id" "header_new tiny_runtime = (\<lambda>_ counter _ _ _. Inr (unat counter))"
  "seal tiny_runtime = (\<lambda>header _ sent. (Inr header, sent + 1))"
  "packet_encode tiny_runtime = (\<lambda>_ _ p. Inr [of_nat p])"
  "packet_decode tiny_runtime = (\<lambda>_ _ bs. Inr (length bs))"
  "packet_effective_at tiny_runtime = (\<lambda>_. 100)"
  "receive tiny_runtime = (\<lambda>p seen. (Inr p, seen + 1))"
  "received_fresh tiny_runtime = (\<lambda>_. True)"
  "received_code tiny_runtime = (\<lambda>_. pitch_edit_code)"
  "received_payload tiny_runtime = (\<lambda>_. [])" "with_payload tiny_runtime = (\<lambda>p _. p)"
  "permit_event tiny_runtime = (\<lambda>_ _ p _. Inr p)" "permitted_dot tiny_runtime = id"
  "permitted_manifest tiny_runtime = (\<lambda>_. [])"
  "permitted_identity tiny_runtime = (\<lambda>p. [of_nat p])" "dot_epoch tiny_runtime = (\<lambda>_. 1)"
  "dot_seat tiny_runtime = (\<lambda>_. 1)" "dot_counter tiny_runtime = of_nat"
  "kernel_ingest tiny_runtime = (\<lambda>_ k. (Inr True, k + 1))"
  "snapshot_of tiny_runtime = (\<lambda>p. \<lparr>sn_generation = 1, sn_sequence = of_nat p, sn_durable = tiny_durable, sn_view = durable no_pitches\<rparr>)"
  "durable_of tiny_runtime = (\<lambda>_. tiny_durable)" "projected_cut tiny_runtime = id"
  "pending_len tiny_runtime = id" "advance_simulation tiny_runtime = (\<lambda>_ _ p. (Inr None, p))"
  "predict_between tiny_runtime = (\<lambda>_ _ _ _ p. (Inr (Some ChangePredicted), p + 1))"
  "projection_confirm tiny_runtime = (\<lambda>_ _ _ p. (Inr None, p))"
  "projection_advance_durable tiny_runtime = (\<lambda>_ _ p. (Inr ChangeDurableAdvanced, p))"
  "projection_resynchronize tiny_runtime = (\<lambda>_ _ _ _ _ _ _ p. (Inr ChangeReset, p))"
  "planner_plan tiny_runtime = (\<lambda>_ dot planned. (Inr dot, planned + 1))"
  "plan_manifest tiny_runtime = (\<lambda>_. [])" "plan_dot tiny_runtime = id"
  "plan_event tiny_runtime = (\<lambda>p. [of_nat p])"
  "record_admission tiny_runtime = (\<lambda>_ _ a p. (Inr a, p))"
  "record_observed_admission tiny_runtime = (\<lambda>_ _ a p. (Inr a, p))"
  "admission_from_replica tiny_runtime = (\<lambda>_ a _. Inr a)"
  "has_session_domain tiny_runtime = (\<lambda>_. False)"
  "reified_manifest tiny_runtime = (\<lambda>_ _. Inl '''')"
  by (simp_all add: tiny_runtime_def)

lemma tiny_ports_selects [simp]:
  "store_configure tiny_ports = (\<lambda>_ w. w)" "store_load tiny_ports = (\<lambda>_ w. (Inr None, w))"
  "store_persist tiny_ports = (\<lambda>_ _ _ w. (Inr (), w))"
  "now_ticks tiny_ports = (\<lambda>w. (Inr 5, w))" "now_micros tiny_ports = (\<lambda>w. (None, w))"
  "fill_random tiny_ports = (\<lambda>n w. (Inr (replicate n 0), w))"
  "port_generation tiny_ports = (\<lambda>_. 3)"
  "send_application_frame tiny_ports = (\<lambda>_ _ _ w. (Inr (), w))"
  "emit_error tiny_ports = (\<lambda>_ _ w. w)" "queue_ready tiny_ports = (\<lambda>w. (True, w))"
  "queue_start_send tiny_ports = (\<lambda>_ w. (True, w))" "queue_send tiny_ports = (\<lambda>_ w. (True, w))"
  "reply_reset tiny_ports = (\<lambda>_ _ w. w)"
  by (simp_all add: tiny_ports_def)

lemma tiny_foundation_selects [simp]:
  "fo_identity tiny_foundation = \<lparr>id_object = [1], id_music = [2], id_extension = [3]\<rparr>"
  "fo_local tiny_foundation = [1]" "fo_peer tiny_foundation = [0]" "fo_signing_key tiny_foundation = 0"
  "fo_history tiny_foundation = 0" "fo_music_root tiny_foundation = []" "fo_local_grants tiny_foundation = []"
  "fo_peer_grants tiny_foundation = []" "fo_durable_view tiny_foundation = no_pitches"
  "fo_durable_revision tiny_foundation = 0"
  by (simp_all add: tiny_foundation_def)

section \<open>Running the task\<close>

text \<open>Running a method on a concrete state, one call after the other.\<close>

lemma run_cong: "m = m' \<Longrightarrow> bnd m k s = bnd m' k s" "n = n' \<Longrightarrow> andthen n j t = andthen n' j t"
  by simp_all

lemma run_bnd:
  "bnd (gets f) k1 s1 = k1 (f s1) s1" "bnd (ret a2) k2 s2 = k2 a2 s2" "bnd (lift_result g (Inr a3)) k3 s3 = k3 a3 s3"
  "bnd (ok_or e (Some a4)) k4 s4 = k4 a4 s4" "bnd (expect (Some a5)) k5 s5 = k5 a5 s5"
  "bnd (bnd m h) k6 s6 = bnd m (\<lambda>a. bnd (h a) k6) s6" "bnd (andthen n i) k7 s7 = andthen n (bnd i k7) s7"
  "bnd (if b then m1 else m2) k8 s8 = (if b then bnd m1 k8 s8 else bnd m2 k8 s8)"
  "bnd (modify u) k9 s9 = k9 () (u s9)" "bnd (ok_or e10 None) k10 s10 = throw e10 s10"
  by (auto simp: throw_def bnd_def andthen_def gets_def ret_def lift_result_def ok_or_def expect_def modify_def split: prod.split sum.split)

lemma run_port:
  "bnd (port call1) k1 s1 = (case call1 (ts_world s1) of (r, w) \<Rightarrow> k1 r (s1\<lparr>ts_world := w\<rparr>))"
  "bnd (try_port call2) k2 s2 = (case call2 (ts_world s2) of
     (Inl e, w) \<Rightarrow> (Inl (Err e), s2\<lparr>ts_world := w\<rparr>) | (Inr a, w) \<Rightarrow> k2 a (s2\<lparr>ts_world := w\<rparr>))"
  "try_port call3 s3 = (case call3 (ts_world s3) of
     (Inl e, w) \<Rightarrow> (Inl (Err e), s3\<lparr>ts_world := w\<rparr>) | (Inr a, w) \<Rightarrow> (Inr a, s3\<lparr>ts_world := w\<rparr>))"
  by (auto simp: bnd_def port_def calling_def try_port_def on_part_def split: prod.split sum.split)

lemma run_andthen:
  "andthen (refuse False e) n1 s1 = n1 s1" "andthen (ret ()) n2 s2 = n2 s2" "andthen (modify f) n3 s3 = n3 (f s3)"
  "andthen (andthen n m) n4 s4 = andthen n (andthen m n4) s4" "andthen (bnd i h) n5 s5 = bnd i (\<lambda>a. andthen (h a) n5) s5"
  "andthen (if b then m1 else m2) n6 s6 = (if b then andthen m1 n6 s6 else andthen m2 n6 s6)"
  "andthen (try_port call) n7 s7 = bnd (try_port call) (\<lambda>_. n7) s7"
  "andthen (refuse True e8) n8 s8 = throw e8 s8"
  by (auto simp: bnd_def andthen_def ret_def modify_def refuse_def throw_def split: prod.split sum.split)

lemma run_inspect:
  "bnd (inspect m) k s =
     (case m s of (r, t) \<Rightarrow>
        (case r of Inl Panic \<Rightarrow> (Inl Panic, t) | Inl (Err e) \<Rightarrow> k (Inl e) t | Inr a \<Rightarrow> k (Inr a) t))"
  by (simp add: bnd_def inspect_def split: prod.split sum.split fault.split)

lemma run_part:
  "bnd (zoom get put m) k1 s1 = (case m (get s1) of (Inl e, p) \<Rightarrow> (Inl e, put p s1) | (Inr a, p) \<Rightarrow> k1 a (put p s1))"
  "andthen (zoom get2 put2 m2) k2 s2 = (case m2 (get2 s2) of (Inl e, p) \<Rightarrow> (Inl e, put2 p s2) | (Inr a, p) \<Rightarrow> k2 (put2 p s2))"
  "bnd (on_part get3 put3 f call) k3 s3 =
     (case call (get3 s3) of (Inl x, p) \<Rightarrow> (Inl (Err (f x)), put3 p s3) | (Inr a, p) \<Rightarrow> k3 a (put3 p s3))"
  "bnd (calling get4 put4 use) k4 s4 = (case use (get4 s4) of (r, p) \<Rightarrow> k4 r (put4 p s4))"
  by (auto simp: bnd_def andthen_def zoom_def on_part_def calling_def split: prod.split sum.split)

lemmas runs = run_bnd run_port run_andthen run_inspect run_part ret_def gets_def modify_def throw_def

lemma tiny_lawful: "lawful tiny"
proof -
  have "(e :: u32) < e + 1" if "e \<noteq> - 1" for e
    using unat_succ [OF that] by (simp add: word_less_nat_alt)
  then show ?thesis
    by (auto simp: renewal_laws_def split: if_splits)
qed

abbreviation taken where
  "taken K w input t \<equiv> accept_input K (recording tiny_ports) input w = (Inr (), t)"

lemmas effect_simps =
  bnd_def andthen_def ret_def throw_def gets_def modify_def refuse_def lift_result_def ok_or_def expect_def
  on_part_def zoom_def calling_def inspect_def port_def try_port_def silent_port_def attempt_def with_prefix_def
  show_errors_def beside_log_def logging_def

lemma tiny_configures: "taken K (task_new w) (Configure 0 False) ((task_new w)\<lparr>ts_events := Some 0\<rparr>)"
  by (cases w) (simp add: accept_input_def effect_simps task_new_def recording_def)

lemma tiny_waits:
  "taken K ((task_new w)\<lparr>ts_events := Some 0\<rparr>) (StartPeer tiny_foundation) (tiny_waiting w)"
  by (cases w) (simp add: accept_input_def effect_simps start_peer_def load_renewal_floor_def task_new_def tiny_waiting_def
      recording_def Let_def)

lemma tiny_starts:
  "run_session_task K (recording tiny_ports) (Configure 0 False # StartPeer tiny_foundation # inputs) (task_new ((), [])) =
     run_session_task K (recording tiny_ports) inputs (tiny_waiting ((), []))"
  by (simp add: tiny_configures tiny_waits)

lemma recording_selects [simp]:
  "store_load (recording tiny_ports) key wl = (Inr None, wl)"
  "store_persist (recording tiny_ports) key place bs wl = (Inr (), ((), snd wl @ [Persisted key place bs]))"
  "now_ticks (recording tiny_ports) wl = (Inr 5, wl)" "now_micros (recording tiny_ports) wl = (None, wl)"
  "fill_random (recording tiny_ports) n wl = (Inr (replicate n 0), wl)"
  "port_generation (recording tiny_ports) out = 3" "queue_ready (recording tiny_ports) wl = (True, wl)"
  "queue_start_send (recording tiny_ports) rf wl = (True, ((), snd wl @ [Queued rf]))"
  "send_application_frame (recording tiny_ports) out ch bs wl = (Inr (), ((), snd wl @ [Sent out ch bs]))"
  by (cases wl; simp add: recording_def beside_log_def logging_def)+

lemma tiny_offer_taken:
  "accept_input K W (tiny_offer epoch) s = carrier_offer K W [0] [1] 7 (ucast epoch) [] [] [] [] s"
  if "serde K = tiny_serde" and "\<not> ts_trace_enabled s"
  using that
  by (simp add: accept_input_def accept_application_def tiny_offer_def effect_simps decode_def tiny_serde_def carrier_def
     carrier_decode_def session_payload_version_def session_carrier_domain_def ascii_bytes_def)

lemma tiny_handshake [simp]:
  "build_manifest tiny tiny_foundation sid epoch = Inr (unat epoch)"
  "local_foundation tiny tiny_foundation m = Inr (1, [])"
  "verify_foundation tiny tiny_foundation m [0] [] [] = Inr 1"
  "authorize_pair tiny tiny_foundation m ours remote None = Inr (Initial m m)"
  "authorize_pair tiny tiny_foundation m ours remote (Some floor) = Inr (Renewal m)"
  "active_new tiny tiny_foundation session 7 keys 5 = Inr (tiny_active session)"
  "carrier_encode (write_carrier tiny_serde) body = Inr session_carrier_domain"
  by (simp add: build_manifest_def local_foundation_def foundation_context_def verify_claim_def verify_foundation_def
      authorize_pair_def active_new_def tiny_active_def attempt_def with_prefix_def Let_def ordered_def carrier_encode_def
      encode_def tiny_serde_def seat_for_def)+

lemma tiny_shows:
  "(plain_realtime (projection_event tiny Session_Gate.Reset (tiny_active epoch)))\<lparr>re_carrier := Some session_carrier_domain\<rparr> =
     tiny_shown (of_nat epoch)" if "epoch = 1 \<or> epoch = 2"
  using that
  by (auto simp: tiny_shown_def plain_realtime_def projection_event_def session_manifest_def tiny_active_def Let_def
      tiny_durable_def durable_def no_pitches_def)

lemma tiny_frame:
  "encode (write_egress tiny_serde) (RealtimeOut (tiny_shown 1)) = Inr [1]"
  "encode (write_egress tiny_serde) (RealtimeOut (tiny_shown 2)) = Inr [2]"
  by (simp_all add: encode_def tiny_serde_def session_payload_version_def tiny_shown_def plain_realtime_def)

lemma tiny_emits:
  "ts_events s = Some 0 \<Longrightarrow> emit tiny (recording tiny_ports) (RealtimeOut (tiny_shown 1)) s =
     (Inr (), s\<lparr>ts_world := ((), snd (ts_world s) @ [Sent 0 room_session_channel [1]])\<rparr>)"
  "ts_events s = Some 0 \<Longrightarrow> emit tiny (recording tiny_ports) (RealtimeOut (tiny_shown 2)) s =
     (Inr (), s\<lparr>ts_world := ((), snd (ts_world s) @ [Sent 0 room_session_channel [2]])\<rparr>)"
  by (auto simp: emit_def runs tiny_frame show_errors_def)

lemma tiny_installs:
  "install_session tiny (recording tiny_ports) [0] tiny_foundation authorization 7 keys (Some session_carrier_domain) s =
   (Inr (), s\<lparr>ts_world := ((), snd (ts_world s) @
        [Persisted (renewal_key tiny_foundation) 0 [of_nat epoch], Sent 0 room_session_channel [of_nat epoch]]),
      ts_renewal_floors := (ts_renewal_floors s)([0] \<mapsto> Some epoch),
      ts_active := (ts_active s)([0] \<mapsto> tiny_active epoch), ts_presentation_peer := Some [0]\<rparr>)"
  if "epoch = 1 \<or> epoch = 2" and "authorization = Initial epoch epoch \<or> authorization = Renewal epoch"
    and "ts_events s = Some 0" and "\<not> ts_trace_enabled s" and "ts_presentation_peer s = None \<or> ts_presentation_peer s = Some [0]"
  using that
  apply (auto simp: install_session_def runs persist_floor_def Let_def tiny_shows tiny_emits emit_renewal_trace_def cong: run_cong)
  done

lemma tiny_first:
  "taken tiny (tiny_waiting ((), log)) (tiny_offer 1)
     (tiny_installed 1 ((), log @ [Persisted (renewal_key tiny_foundation) 0 [1], Sent 0 room_session_channel [1]]))"
  apply (subst tiny_offer_taken)
    apply (simp add: tiny_def)
   apply (simp add: tiny_waiting_def task_new_def)
  apply (simp add: carrier_offer_def runs tiny_waiting_def task_new_def Let_def load_renewal_floor_def
    position_bytes_def hash_bytes_def show_errors_def with_prefix_def cong: run_cong)
  apply (subst tiny_installs [where epoch = 1])
       apply (simp_all add: tiny_installed_def tiny_waiting_def task_new_def)
  done

lemma tiny_second:
  "taken tiny (tiny_installed 1 ((), log)) (tiny_offer 2)
     (tiny_installed 2 ((), log @ [Persisted (renewal_key tiny_foundation) 0 [2], Sent 0 room_session_channel [2]]))"
  apply (subst tiny_offer_taken)
    apply (simp add: tiny_def)
   apply (simp add: tiny_installed_def tiny_waiting_def task_new_def)
  apply (simp add: carrier_offer_def runs tiny_installed_def tiny_waiting_def task_new_def Let_def load_renewal_floor_def
    position_bytes_def hash_bytes_def show_errors_def with_prefix_def incoming_renewal_has_local_obligations_def
    waits_on_reification_def peer_has_recovery_work_def tiny_active_def has_local_reification_wait_def cong: run_cong)
  apply (simp add: word_le_nat_alt)
  apply (subst tiny_installs [where epoch = 2])
       apply (simp_all add: tiny_active_def)
  done

definition tiny_playing :: "(nat, nat) active_session" where
  "tiny_playing = (tiny_active 1)\<lparr>as_sender := 1, as_echo_receiver := 1, as_kernel := 1, as_projection := 1,
     as_planner := 1, as_logical_time := 101\<rparr>"

lemma tiny_local_event:
  "local_event tiny (recording tiny_ports) tiny_edit tiny_token 5 False None None (wl, tiny_active 1) =
     (Inr \<lparr>le_command = tiny_edit, le_frame = [1], le_plan = Some 1, le_trace = None\<rparr>, (wl, tiny_playing))"
  apply (simp add: local_event_def runs Let_def preflight_local_event_def is_saturated_def tiny_active_def session_capacity_def
    trace_now_def attempt_def on_part_def zoom_def calling_def show_errors_def encode_def tiny_serde_def receiver_lease_time_def try_decode_def decode_pitch_edit_def read_op_bytes_def decode_def session_payload_version_def tiny_edit_def tiny_playing_def saturating_add_def lease_start_def ingest_def on_projection_def cong: run_cong)
  done

definition tiny_played :: "'w \<Rightarrow> (nat, nat, 'w) session_task" where
  "tiny_played w =
     (tiny_installed 1 w)\<lparr>ts_active := [[0] \<mapsto> tiny_playing], ts_inflight := [active_identity tiny (tiny_active 1) \<mapsto> {tiny_correlation}]\<rparr>"

lemma tiny_ready [simp]:
  "tk_generation tiny_token = 3" "is_pitch_edit tiny_edit" "\<not> is_saturated tiny (tiny_active epoch)"
  "preflight_local_event tiny (tiny_active epoch) = Inr ()"
  by (simp_all add: tiny_token_def tiny_edit_def is_saturated_def tiny_active_def preflight_local_event_def session_capacity_def)

lemma tiny_decodes [simp]: "decode (read_ingress tiny_serde) [] = Inr (LocalPitchEdit tiny_edit tiny_token None)"
  by (simp add: decode_def tiny_serde_def session_payload_version_def)

lemma tiny_playing_fields [simp]:
  "fo_local (as_foundation tiny_playing) = [1]" "as_session_id tiny_playing = 7"
  "durable_correlation_of tiny (Suc 0) = tiny_correlation"
  "active_identity tiny tiny_playing = active_identity tiny (tiny_active 1)"
  by (simp_all add: tiny_playing_def tiny_active_def durable_correlation_of_def tiny_correlation_def Let_def
      active_identity_def session_manifest_def)

lemma tiny_predicts [simp]:
  "(plain_realtime (projection_event tiny Predicted tiny_playing))\<lparr>re_carrier := Some session_carrier_domain,
     re_durable := [tiny_correlation], re_intent_token := Some tiny_token, re_trace := None\<rparr> = tiny_edited"
  by (simp add: tiny_edited_def tiny_shown_def plain_realtime_def projection_event_def session_manifest_def tiny_playing_def
      tiny_active_def Let_def tiny_durable_def durable_def no_pitches_def)

lemma tiny_sends_edit [simp]:
  "ts_events s = Some 0 \<Longrightarrow> emit tiny (recording tiny_ports) (RealtimeOut tiny_edited) s =
     (Inr (), s\<lparr>ts_world := ((), snd (ts_world s) @ [Sent 0 room_session_channel [3]])\<rparr>)"
  by (auto simp: emit_def runs encode_def tiny_serde_def session_payload_version_def tiny_edited_def tiny_shown_def
      plain_realtime_def show_errors_def)

definition tiny_plan :: "nat reification" where
  "tiny_plan = \<lparr>rf_peer = [0], rf_session = active_identity tiny (tiny_active 1), rf_plan = 1, rf_command = tiny_edit,
     rf_intent_token = Some tiny_token\<rparr>"

lemma tiny_plays:
  "taken tiny (tiny_installed 1 ((), log)) (Application room_session_channel [])
     (tiny_played ((), log @ [Queued tiny_plan, Sent 0 room_session_channel [3]]))"
  apply (simp add: accept_input_def accept_application_def runs tiny_installed_def tiny_waiting_def task_new_def
    show_errors_def local_edit_def Let_def on_active_clocked_def zoom_def tiny_local_event [simplified]
    publish_local_edit_def add_inflight_def emit_realtime_or_fail_generation_def tiny_played_def tiny_plan_def cong: run_cong)
  done

end
