(* ===== verification/Session_Claims.thy ===== *)
theory Session_Claims
  imports Session_Sample
begin

text \<open>
  What the session task guarantees over its runs: no panic, the invariant, floors and epochs that only climb,
  floors persisted before anything of their session is shown, reification obligations that belong to a live
  epoch, crossing offers, one answer for each edit, and what a stale answer does. The witnesses run the task on the instance of \<open>Session_Sample\<close>.
\<close>

lemma encode_injective:
  assumes "cbor_roundtrip writer reader" and "encode writer x = Inr bs" and "encode writer y = Inr bs"
  shows "x = y"
proof -
  have "writer \<lparr>vs_version = session_payload_version, vs_body = z\<rparr> = Some bs" if "encode writer z = Inr bs" for z
    using that by (simp add: encode_def split: option.splits)
  from this [OF assms(2)] this [OF assms(3)] assms(1)
  have "Some \<lparr>vs_version = session_payload_version, vs_body = x\<rparr> = Some \<lparr>vs_version = session_payload_version, vs_body = y\<rparr>"
    unfolding cbor_roundtrip_def by metis
  then show ?thesis by simp
qed

section \<open>The task as a whole\<close>

text \<open>C1: Whatever its inbox delivers, and however its ports behave, the task never panics and ends in a state
  that satisfies the invariant: the presented peer has a session, every session belongs to its peer, has a
  cached renewal floor and at most 128 waiting edits, and every edit in flight belongs to the current epoch of
  its peer.\<close>

theorem session_task_invariant:
  fixes K :: "('x, 'd::linorder) hhhs" and W :: "('x, 'w) session_ports"
  shows "\<exists>s. run_session_task K W inputs (task_new w) = Some s \<and> task_inv K s"
proof -
  obtain s where "run_session_task K W inputs (task_new w) = Some s" "any_world.good K (task_new w) s"
    using any_world.runs_good [OF any_world.good_new [where K = K and w = w, OF TrueI], where W = W and inputs = inputs]
    by blast
  then show ?thesis by (auto simp: any_world.good_def)
qed

text \<open>C3: Over any further inputs a cached renewal floor never sinks, and a session that was not there before has
  an epoch strictly above the floor that was cached for its peer: no epoch is opened twice.\<close>

theorem session_epochs_climb:
  fixes K :: "('x, 'd::linorder) hhhs" and W :: "('x, 'w) session_ports"
  assumes "lawful K" and "run_session_task K W before (task_new w) = Some s" and "run_session_task K W after s = Some t"
    and "cached_floor s peer = Some floor"
  shows "(\<exists>floor'. cached_floor t peer = Some floor' \<and> floor_epoch (authority K) floor \<le> floor_epoch (authority K) floor')
       \<and> (\<forall>a. ts_active t peer = Some a \<longrightarrow>
            (\<exists>b. ts_active s peer = Some b \<and> active_identity K b = active_identity K a) \<or>
            floor_epoch (authority K) floor < session_epoch K a)"
proof -
  have "any_world.good K s s" by (rule any_world.runs_from_new [OF _ assms(2)]) simp
  then have "climbs K s t"
    using any_world.runs_good [of K s s W "after"] assms(3) by (auto simp: any_world.good_def)
  then show ?thesis
    using assms(1,4) unfolding climbs_def by blast
qed

text \<open>C4: Every projection the window is sent shows a session whose renewal floor had been persisted before: the
  log holds, earlier than the frame, the successful write of the floor of a session with the same manifest
  and epoch.\<close>

theorem floor_persisted_before_projection:
  fixes K :: "('x, 'd::linorder) hhhs" and W :: "('x, 'w) session_ports"
  assumes "lawful K" and "cbor_roundtrip (write_egress (serde K)) reader"
    and "run_session_task K (recording W) inputs (task_new (w, [])) = Some s"
    and "snd (ts_world s) = before @ Sent out ch bs # rest"
    and "encode (write_egress (serde K)) (RealtimeOut re) = Inr bs"
  shows "\<exists>session key place.
      Persisted key place (floor_to_bytes (authority K) (floor_from_authorized (authority K) session)) \<in> set before \<and>
      pj_manifest (re_projection re) = manifest_digest (authority K) (auth_manifest (authority K) session) \<and>
      pj_epoch (re_projection re) = manifest_epoch (authority K) (auth_manifest (authority K) session)"
proof -
  have "orderly K (snd (ts_world s))"
    using recorded.runs_from_new [OF _ assms(3)] by (simp add: recorded.good_def orderly_def [of K "[]"])
  then obtain event where event: "encode (write_egress (serde K)) event = Inr bs"
      "shows_opened K (persisted_sessions K before) event"
    using assms(4) unfolding orderly_def by blast
  have "event = RealtimeOut re"
    using encode_injective [OF assms(2) event(1) assms(5)] .
  then show ?thesis
    using event(2) assms(1) by (auto simp: shows_opened_def persisted_sessions_def)
qed

text \<open>C10: In every state the task reaches no epoch is retired, and every edit in flight belongs to the epoch that is
  active for its peer, so that its confirmation is applied to that session.\<close>

theorem inflight_belongs_to_active:
  fixes K :: "('x, 'd::linorder) hhhs" and W :: "('x, 'w) session_ports"
  assumes "run_session_task K W inputs (task_new w) = Some s"
  shows "ts_retired s = Map.empty \<and>
         (\<forall>session cs. ts_inflight s session = Some cs \<longrightarrow>
            cs \<noteq> {} \<and> (\<exists>a. ts_active s (ei_peer session) = Some a \<and> active_identity K a = session))"
proof -
  have good: "any_world.good K s s" by (rule any_world.runs_from_new [OF _ assms(1)]) simp
  then have "ts_retired s = Map.empty" by (simp add: any_world.good_def task_inv_def)
  then show ?thesis
    using any_world.good_inflightD [OF good] by blast
qed

text \<open>Of two peers whose offers cross, exactly one gives way to the other, whatever the epochs.\<close>

theorem crossing_offers_resolve:
  assumes "a \<noteq> b"
  shows "prefer_incoming_offer a b theirs ours \<longleftrightarrow> \<not> prefer_incoming_offer b a ours theirs"
  using assms by (auto simp: prefer_incoming_offer_def)

section \<open>Single inputs\<close>

text \<open>C5: An edit of the player that reaches the task is answered by exactly one frame, which carries the intent's
  token: a fallback to the durable path, a rejection, or the prediction with the carrier frame for the peer; the
  plan of the edit is queued at most once, before that frame. An input that fails sends at most that frame.\<close>

theorem local_edit_answered_once:
  fixes K :: "('x, 'd::linorder) hhhs" and W :: "('x, 'w) session_ports"
  assumes "decode (read_ingress (serde K)) bs = Inr (LocalPitchEdit command token trace)"
    and "accept_input K (recording W) (Application room_session_channel bs) s = (r, t)"
  shows "(r = Inr () \<longrightarrow> answered K command token (log_of s) (log_of t)) \<and>
     (r \<noteq> Inr () \<longrightarrow> broken_off K command token (log_of s) (log_of t))"
proof -
  have "wp (accept_input K (recording W) (Application room_session_channel bs))
      (\<lambda>_ t. answered K command token (log_of s) (log_of t)) (\<lambda>_ t. broken_off K command token (log_of s) (log_of t)) s"
    unfolding accept_input_def accept_application_def task_input.case
    apply (intro wp_steps)
     apply (simp add: broken_off_def plan_queued_def)
    apply (rule wp_call [where P = "\<lambda>_ t. log_of t = log_of s"])
     apply (intro wp_steps; (simp; fail)?)
     apply (rule wp_mono [OF port_quiet]; auto simp: recording_quiet)
    apply (simp add: assms(1) show_errors_def wps)
    apply (rule wp_mono [OF local_edit_answers]; simp)
    done
  then show ?thesis
    using assms(2) by (auto simp: wp_def split: sum.splits fault.splits)
qed

text \<open>C11: An answer from a peer that is not for the pending offer still removes that offer: it is refused, and
  from then on the answer to the offer is refused too, because no offer is pending.\<close>

theorem stale_answer_drops_offer:
  fixes K :: "('x, 'd::linorder) hhhs" and W :: "('x, 'w) session_ports"
  assumes "ts_pending s source = Some p" and "\<not> ts_trace_enabled s"
    and "decode (read_ingress (serde K)) bs = Inr (CarrierFrame frame at)"
    and "carrier_decode (read_carrier (serde K)) frame = Inr (Answer source target sid grants handshake foundation)"
    and "target \<noteq> fo_local (pe_foundation p) \<or> sid \<noteq> pe_session_id p"
  defines "t \<equiv> s\<lparr>ts_pending := (ts_pending s)(source := None)\<rparr>"
  shows "accept_input K W (Application room_session_channel bs) s =
       (Inl (Err ''session answer targets another actor or handshake''), t) \<and>
     (\<forall>target sid grants handshake foundation.
       carrier_answer K W source target sid grants handshake foundation t = (Inl (Err ''session answer has no pending offer''), t))"
proof -
  have "carrier_answer K W source target sid grants handshake foundation s =
      (Inl (Err ''session answer targets another actor or handshake''), t)"
    using assms(1,5) by (auto simp: carrier_answer_def runs t_def Let_def cong: run_cong)
  then have "accept_input K W (Application room_session_channel bs) s =
      (Inl (Err ''session answer targets another actor or handshake''), t)"
    using assms(2-4) by (simp add: accept_input_def accept_application_def carrier_def runs show_errors_def cong: run_cong)
  moreover have "carrier_answer K W source target sid grants handshake foundation t =
      (Inl (Err ''session answer has no pending offer''), t)" for target sid grants handshake foundation
    by (simp add: carrier_answer_def runs t_def Let_def cong: run_cong)
  ultimately show ?thesis by blast
qed

section \<open>Witnesses\<close>

definition tiny_log :: "unit \<times> nat port_action list" where
  "tiny_log = ((), [Persisted (renewal_key tiny_foundation) 0 [1], Sent 0 room_session_channel [1]])"

lemma tiny_offer_goes_on [simp]: "tiny_offer epoch \<noteq> Shutdown"
  by (simp add: tiny_offer_def)

lemma tiny_run_first:
  "run_session_task tiny (recording tiny_ports) [Configure 0 False, StartPeer tiny_foundation, tiny_offer 1] (task_new ((), [])) =
     Some (tiny_installed 1 tiny_log)"
  using tiny_first [of "[]"] by (simp add: tiny_log_def tiny_configures tiny_waits)

lemma tiny_run_second:
  "\<exists>log. run_session_task tiny (recording tiny_ports) [tiny_offer 2] (tiny_installed 1 tiny_log) =
     Some (tiny_installed 2 ((), log))"
  using tiny_second by (auto simp: tiny_log_def)

lemma tiny_run_edit:
  "run_session_task tiny (recording tiny_ports)
     [Configure 0 False, StartPeer tiny_foundation, tiny_offer 1, Application room_session_channel []] (task_new ((), [])) =
     Some (tiny_played ((), snd tiny_log @ [Queued tiny_plan, Sent 0 room_session_channel [3]]))"
  using tiny_first [of "[]"] tiny_plays [of "snd tiny_log"] by (simp add: tiny_configures tiny_waits tiny_log_def)

text \<open>A peer whose session is renewed from epoch 1 to epoch 2.\<close>

theorem session_epochs_climb_witness:
  "\<exists>log :: nat port_action list. (\<exists>floor'. cached_floor (tiny_installed 2 ((), log)) [0] = Some floor' \<and> (1 :: u32) \<le> of_nat floor') \<and>
     ((\<exists>b. ts_active (tiny_installed 1 tiny_log) [0] = Some b \<and> active_identity tiny b = active_identity tiny (tiny_active 2)) \<or>
      (1 :: u32) < session_epoch tiny (tiny_active 2))"
proof -
  obtain log where run: "run_session_task tiny (recording tiny_ports) [tiny_offer 2] (tiny_installed 1 tiny_log) =
     Some (tiny_installed 2 ((), log))"
    using tiny_run_second by blast
  have "cached_floor (tiny_installed 1 tiny_log) [0] = Some 1"
    by (simp add: cached_floor_def tiny_installed_def)
  from session_epochs_climb [OF tiny_lawful tiny_run_first run this]
  have all: "(\<exists>floor'. cached_floor (tiny_installed 2 ((), log)) [0] = Some floor' \<and> (1 :: u32) \<le> of_nat floor') \<and>
      (\<forall>a. ts_active (tiny_installed 2 ((), log)) [0] = Some a \<longrightarrow>
        (\<exists>b. ts_active (tiny_installed 1 tiny_log) [0] = Some b \<and> active_identity tiny b = active_identity tiny a) \<or>
        (1 :: u32) < session_epoch tiny a)"
    by simp
  moreover have "ts_active (tiny_installed 2 ((), log)) [0] = Some (tiny_active 2)"
    by (simp add: tiny_installed_def)
  ultimately show ?thesis by blast
qed

definition tiny_window :: "bytes \<Rightarrow> nat session_egress versioned option" where
  "tiny_window bs = Some \<lparr>vs_version = 1, vs_body =
     RealtimeOut (if bs = [1] then tiny_shown 1 else if bs = [2] then tiny_shown 2 else tiny_edited)\<rparr>"

lemma tiny_window_reads: "cbor_roundtrip (write_egress (serde tiny)) tiny_window"
  unfolding cbor_roundtrip_def
proof (intro allI impI)
  fix v :: "nat session_egress versioned" and bs
  assume "write_egress (serde tiny) v = Some bs"
  then show "tiny_window bs = Some v"
    by (cases v; cases "vs_body v") (auto simp: tiny_serde_def tiny_window_def split: if_splits)
qed

theorem floor_persisted_before_projection_witness:
  "\<exists>session :: nat. \<exists>key place. Persisted key place [of_nat session] \<in>
     set [Persisted (renewal_key tiny_foundation) (0 :: nat) [1 :: u8]] \<and>
     pj_manifest (re_projection (tiny_shown 1)) = [of_nat session] \<and> pj_epoch (re_projection (tiny_shown 1)) = of_nat session"
proof -
  have "snd (ts_world (tiny_installed 1 tiny_log)) =
      [Persisted (renewal_key tiny_foundation) 0 [1]] @ Sent 0 room_session_channel [1] # []"
    by (simp add: tiny_installed_def tiny_waiting_def task_new_def tiny_log_def)
  from floor_persisted_before_projection [OF tiny_lawful tiny_window_reads tiny_run_first this] tiny_frame(1)
  show ?thesis by simp
qed

text \<open>The first edit of epoch 1 is in flight.\<close>

theorem inflight_belongs_to_active_witness:
  "let s = tiny_played ((), snd tiny_log @ [Queued tiny_plan, Sent 0 room_session_channel [3]]) in
     ts_inflight s (active_identity tiny (tiny_active 1)) \<noteq> None \<and>
     ts_retired s = Map.empty \<and> (\<exists>a. ts_active s [0] = Some a \<and> active_identity tiny a = active_identity tiny (tiny_active 1))"
proof -
  define s where "s = tiny_played ((), snd tiny_log @ [Queued tiny_plan, Sent 0 room_session_channel [3]])"
  note all = inflight_belongs_to_active [OF tiny_run_edit, folded s_def]
  have peer: "ei_peer (active_identity tiny (tiny_active 1)) = [0]"
    by (simp add: active_identity_def tiny_active_def tiny_foundation_def)
  obtain cs where "ts_inflight s (active_identity tiny (tiny_active 1)) = Some cs"
    by (auto simp: s_def tiny_played_def tiny_installed_def tiny_waiting_def task_new_def)
  with all [THEN conjunct2, rule_format, OF this] all [THEN conjunct1]
  have "ts_inflight s (active_identity tiny (tiny_active 1)) \<noteq> None \<and> ts_retired s = Map.empty \<and>
     (\<exists>a. ts_active s [0] = Some a \<and> active_identity tiny a = active_identity tiny (tiny_active 1))"
    unfolding peer by blast
  then show ?thesis unfolding s_def Let_def .
qed

theorem crossing_offers_resolve_witness:
  "prefer_incoming_offer [1] [0] 5 5 \<longleftrightarrow> \<not> prefer_incoming_offer [0] [1] 5 5"
  by (rule crossing_offers_resolve) simp

definition tiny_pending :: "nat pending_session" where
  "tiny_pending =
     \<lparr>pe_foundation = tiny_foundation, pe_pending = 0, pe_session_id = 7, pe_manifest = 1, pe_local_foundation = 1,
      pe_renewal_floor = None, pe_offer_carrier = session_carrier_domain\<rparr>"

text \<open>The first edit of epoch 1: its plan is queued, then its prediction is sent.\<close>

theorem local_edit_answered_once_witness:
  "answered tiny tiny_edit tiny_token [] [Queued tiny_plan, Sent 0 room_session_channel [3]]"
  using local_edit_answered_once [OF _ tiny_plays [of "[]"]]
  by (simp add: tiny_played_def tiny_installed_def tiny_waiting_def task_new_def)

text \<open>An answer for handshake 9 arrives while the offer of handshake 7 is pending.\<close>

theorem stale_answer_drops_offer_witness:
  "accept_input tiny tiny_ports (Application room_session_channel session_carrier_domain)
     ((tiny_waiting ())\<lparr>ts_pending := [[0] \<mapsto> tiny_pending]\<rparr>) =
   (Inl (Err ''session answer targets another actor or handshake''), tiny_waiting ())"
proof -
  have "ts_pending ((tiny_waiting ())\<lparr>ts_pending := [[0] \<mapsto> tiny_pending]\<rparr>) [0] = Some tiny_pending"
    "\<not> ts_trace_enabled ((tiny_waiting ())\<lparr>ts_pending := [[0] \<mapsto> tiny_pending]\<rparr>)"
    by (simp_all add: tiny_waiting_def task_new_def)
  moreover have "decode (read_ingress (serde tiny)) session_carrier_domain = Inr (CarrierFrame session_carrier_domain None)"
    by (simp add: decode_def tiny_serde_def session_payload_version_def session_carrier_domain_def ascii_bytes_def)
  moreover have "carrier_decode (read_carrier (serde tiny)) session_carrier_domain = Inr (Answer [0] [1] 9 [] [] [])"
    using strip_prefix_append [of session_carrier_domain "[]"]
    by (simp add: carrier_decode_def decode_def tiny_serde_def session_payload_version_def)
  moreover have "[1] \<noteq> fo_local (pe_foundation tiny_pending) \<or> 9 \<noteq> pe_session_id tiny_pending"
    by (simp add: tiny_pending_def)
  ultimately have "accept_input tiny tiny_ports (Application room_session_channel session_carrier_domain)
      ((tiny_waiting ())\<lparr>ts_pending := [[0] \<mapsto> tiny_pending]\<rparr>) =
     (Inl (Err ''session answer targets another actor or handshake''),
      ((tiny_waiting ())\<lparr>ts_pending := [[0] \<mapsto> tiny_pending]\<rparr>)
        \<lparr>ts_pending := (ts_pending ((tiny_waiting ())\<lparr>ts_pending := [[0] \<mapsto> tiny_pending]\<rparr>))([0] := None)\<rparr>)"
    using stale_answer_drops_offer by blast
  then show ?thesis by (simp add: tiny_waiting_def task_new_def)
qed

end
