(* ===== verification/Extension_View.thy ===== *)
theory Extension_View
  imports Pitch_State
begin

text \<open>
  The materialized view of the extension lane of \<open>src/src/room/v5.rs\<close>: the last-writer register over causal
  history, the pieces with their moves, removes and unremoves, the room view and its delta, and the
  checkpoint form of a view.

  The history is a DAG of entries of crate \<open>hhhs\<close>. What is used of it: entries have ordered identities
  (\<open>'id\<close>), \<open>is_ancestor\<close> of \<open>ReachIndex\<close> is the parameter \<open>anc\<close>, of which the theorems use that it is a
  strict order (\<open>causal_order\<close>), and a snapshot lists every entry once in some topological order. The music
  lane is materialized by crate \<open>tutti_music_hhhs\<close>: its view is the parameter type \<open>'m\<close> where nothing of
  it is read.
\<close>

section \<open>Commands\<close>

datatype 'id piece_id = PieceId (entry: 'id)

datatype ('id, 't, 'p) extension_command =
    PutPiece string "('t, 'p) tuned_pitch"
  | MovePiece "'id piece_id" "('t, 'p) tuned_pitch"
  | RemovePiece "'id piece_id"
  | UnremovePiece "'id piece_id"
  | SetConfig "bool option" "string option"

record ('a, 't, 'p) room_piece =
  owner :: 'a
  emoji :: string
  pitch :: "('t, 'p) tuned_pitch"

record ('id, 'a, 't, 'p) extension_view =
  ev_pieces :: "'id piece_id \<rightharpoonup> ('a, 't, 'p) room_piece"
  ev_pieces_locked :: bool
  ev_available_emojis :: "string option"

type_synonym ('id, 'a, 't, 'p) stored_command = "'id \<times> 'a \<times> ('id, 't, 'p) extension_command"

text \<open>\<open>Iterator::filter_map\<close>\<close>

fun filter_map :: "('a \<Rightarrow> 'b option) \<Rightarrow> 'a list \<Rightarrow> 'b list" where
  "filter_map f [] = []"
| "filter_map f (x # xs) = (case f x of None \<Rightarrow> filter_map f xs | Some y \<Rightarrow> y # filter_map f xs)"

section \<open>Registers\<close>

definition resolve_register :: "('id::linorder \<Rightarrow> 'id \<Rightarrow> bool) \<Rightarrow> ('id \<times> 'v) list \<Rightarrow> 'v option" where
  "resolve_register anc values =
     (let ids = map fst values;
          latest = filter (\<lambda>candidate. \<not> list_ex (anc candidate) ids) ids
      in if latest = [] then None else map_of values (Max (set latest)))"

section \<open>Materialization\<close>

text \<open>\<open>decode\<close> is the envelope of an entry, \<open>authorized\<close> the verdict of the capability snapshot.\<close>

definition extension_commands ::
  "('e \<Rightarrow> 'id) \<Rightarrow> ('e \<Rightarrow> ('a \<times> ('id, 't, 'p) extension_command) option) \<Rightarrow> ('id \<Rightarrow> 'a \<times> ('id, 't, 'p) extension_command \<Rightarrow> bool) \<Rightarrow>
   'e list \<Rightarrow> ('id, 'a, 't, 'p) stored_command list" where
  "extension_commands hash decode authorized entries =
     filter_map (\<lambda>e. case decode e of
         None \<Rightarrow> None
       | Some envelope \<Rightarrow> if authorized (hash e) envelope then Some (hash e, envelope) else None) entries"

fun lock_write :: "('id, 'a, 't, 'p) stored_command \<Rightarrow> ('id \<times> bool) option" where
  "lock_write (i, _, SetConfig (Some v) _) = Some (i, v)"
| "lock_write _ = None"

fun emoji_write :: "('id, 'a, 't, 'p) stored_command \<Rightarrow> ('id \<times> string) option" where
  "emoji_write (i, _, SetConfig _ (Some v)) = Some (i, v)"
| "emoji_write _ = None"

fun unremove_of :: "('id, 'a, 't, 'p) stored_command \<Rightarrow> ('id \<times> 'id) option" where
  "unremove_of (i, _, UnremovePiece r) = Some (i, entry r)"
| "unremove_of _ = None"

fun remove_of :: "('id, 'a, 't, 'p) stored_command \<Rightarrow> ('id \<times> 'id) option" where
  "remove_of (i, _, RemovePiece p) = Some (i, entry p)"
| "remove_of _ = None"

definition effective_removes ::
  "('id \<Rightarrow> 'id \<Rightarrow> bool) \<Rightarrow> ('id, 'a, 't, 'p) stored_command list \<Rightarrow> ('id \<times> 'id) list" where
  "effective_removes anc cs =
     (let unremoves = filter_map unremove_of cs
      in filter (\<lambda>(remove, _). \<not> list_ex (\<lambda>(unremove, target). target = remove \<and> anc remove unremove) unremoves)
           (filter_map remove_of cs))"

fun move_of :: "'id \<Rightarrow> ('t, 'p) tuned_pitch \<Rightarrow> ('id, 'a, 't, 'p) stored_command \<Rightarrow> ('id \<times> ('t, 'p) tuned_pitch) option" where
  "move_of put put_pitch (i, _, MovePiece q p) =
     (if entry q = put \<and> tuning_id p = tuning_id put_pitch then Some (i, p) else None)"
| "move_of put put_pitch _ = None"

definition assertions_of ::
  "('id \<Rightarrow> 'id \<Rightarrow> bool) \<Rightarrow> ('id, 'a, 't, 'p) stored_command list \<Rightarrow> 'id \<Rightarrow> ('t, 'p) tuned_pitch \<Rightarrow>
   ('id \<times> ('t, 'p) tuned_pitch) list" where
  "assertions_of anc cs put put_pitch =
     filter (\<lambda>(assertion, _). \<not> list_ex (\<lambda>(remove, target). target = put \<and> anc assertion remove) (effective_removes anc cs))
       ((put, put_pitch) # filter_map (move_of put put_pitch) cs)"

definition insert_piece ::
  "('id::linorder \<Rightarrow> 'id \<Rightarrow> bool) \<Rightarrow> ('id, 'a, 't, 'p) stored_command list \<Rightarrow> ('id, 'a, 't, 'p) stored_command \<Rightarrow>
   ('id piece_id \<rightharpoonup> ('a, 't, 'p) room_piece) \<Rightarrow> ('id piece_id \<rightharpoonup> ('a, 't, 'p) room_piece)" where
  "insert_piece anc cs c m =
     (case c of
        (put, actor, PutPiece e put_pitch) \<Rightarrow>
          (case resolve_register anc (assertions_of anc cs put put_pitch) of
             None \<Rightarrow> m
           | Some p \<Rightarrow> m(PieceId put \<mapsto> \<lparr>owner = actor, emoji = e, pitch = p\<rparr>))
      | _ \<Rightarrow> m)"

definition materialize_extension ::
  "('id::linorder \<Rightarrow> 'id \<Rightarrow> bool) \<Rightarrow> ('id, 'a, 't, 'p) stored_command list \<Rightarrow> ('id, 'a, 't, 'p) extension_view" where
  "materialize_extension anc cs =
     \<lparr>ev_pieces = fold (insert_piece anc cs) cs Map.empty,
      ev_pieces_locked = (case resolve_register anc (filter_map lock_write cs) of Some v \<Rightarrow> v | None \<Rightarrow> False),
      ev_available_emojis = resolve_register anc (filter_map emoji_write cs)\<rparr>"

section \<open>The room view\<close>

record ('t, 'p, 'd, 'a, 'env, 'tun, 'cfg) music_view =
  mv_live :: "('t, 'd) tuned_degree set"
  mv_holders :: "('t, 'd) tuned_degree \<rightharpoonup> 'a set"
  mv_live_pitches :: "('t, 'p) tuned_pitch set"
  mv_pitch_holders :: "('t, 'p) tuned_pitch \<rightharpoonup> 'a set"
  mv_envelopes :: "('t, 'd) tuned_degree \<rightharpoonup> 'env"
  mv_tuning :: 'tun
  mv_round_table :: 'cfg
  mv_shared_pitches :: "('t, 'p, 'd) shared_pitch_set"

record ('id, 't, 'p, 'd, 'a, 'env, 'tun, 'cfg) room_view =
  rv_music :: "('t, 'p, 'd, 'a, 'env, 'tun, 'cfg) music_view"
  rv_pieces :: "'id piece_id \<rightharpoonup> ('a, 't, 'p) room_piece"
  rv_pieces_locked :: bool
  rv_available_emojis :: "string option"

record ('id, 't, 'p, 'd, 'a) room_view_delta =
  pitches_added :: "('t, 'd) tuned_degree set"
  pitches_retracted :: "('t, 'd) tuned_degree set"
  pieces_upserted :: "'id piece_id \<rightharpoonup> ('a, 't, 'p) room_piece"
  pieces_retracted :: "'id piece_id set"
  tuning_changed :: bool
  round_table_changed :: bool
  shared_pitches_changed :: bool
  pieces_locked_changed :: bool
  available_emojis_changed :: bool

text \<open>\<open>M\<close> gives the degree of a pitch.\<close>

definition sounding_pitch_set ::
  "('t, 'p, 'd, 'pat, 'cfg) music \<Rightarrow> ('id, 't, 'p, 'd, 'a, 'env, 'tun, 'cfg) room_view \<Rightarrow> ('t, 'p, 'd) shared_pitch_set" where
  "sounding_pitch_set M v =
     (let sounding = mv_shared_pitches (rv_music v)
      in sounding\<lparr>pitch_classes := pitch_classes sounding \<union> (\<lambda>piece. shared_degree M (pitch piece)) ` ran (rv_pieces v)\<rparr>)"

definition changes_since ::
  "('t, 'p, 'd, 'pat, 'cfg) music \<Rightarrow> ('id, 't, 'p, 'd, 'a, 'env, 'tun, 'cfg) room_view \<Rightarrow>
   ('id, 't, 'p, 'd, 'a, 'env, 'tun, 'cfg) room_view \<Rightarrow> ('id, 't, 'p, 'd, 'a) room_view_delta" where
  "changes_since M v previous =
     \<lparr>pitches_added = mv_live (rv_music v) - mv_live (rv_music previous),
      pitches_retracted = mv_live (rv_music previous) - mv_live (rv_music v),
      pieces_upserted = (\<lambda>i. case rv_pieces v i of
         None \<Rightarrow> None | Some piece \<Rightarrow> if rv_pieces previous i \<noteq> Some piece then Some piece else None),
      pieces_retracted = {i \<in> dom (rv_pieces previous). i \<notin> dom (rv_pieces v)},
      tuning_changed = (mv_tuning (rv_music v) \<noteq> mv_tuning (rv_music previous)),
      round_table_changed = (mv_round_table (rv_music v) \<noteq> mv_round_table (rv_music previous)),
      shared_pitches_changed = (sounding_pitch_set M v \<noteq> sounding_pitch_set M previous),
      pieces_locked_changed = (rv_pieces_locked v \<noteq> rv_pieces_locked previous),
      available_emojis_changed = (rv_available_emojis v \<noteq> rv_available_emojis previous)\<rparr>"

section \<open>The register\<close>

definition causal_order :: "('id \<Rightarrow> 'id \<Rightarrow> bool) \<Rightarrow> bool" where
  "causal_order anc \<longleftrightarrow> (\<forall>a. \<not> anc a a) \<and> (\<forall>a b c. anc a b \<longrightarrow> anc b c \<longrightarrow> anc a c)"

lemma filter_map_set: "set (filter_map f xs) = {y. \<exists>x \<in> set xs. f x = Some y}"
  by (induction xs) (auto split: option.splits)

lemma filter_map_ids:
  assumes "\<And>x y. f x = Some y \<Longrightarrow> fst y = fst x" and "distinct (map fst xs)"
  shows "distinct (map fst (filter_map f xs))"
  using assms(2)
proof (induction xs)
  case (Cons x xs)
  have "fst ` set (filter_map f xs) \<subseteq> fst ` set xs"
    using assms(1) by (force simp: filter_map_set)
  then show ?case using Cons assms(1) [of x] by (auto split: option.splits)
qed simp

text \<open>A finite set of entries has a causally latest one.\<close>

lemma latest_exists:
  assumes "causal_order anc" and "finite A" and "A \<noteq> {}"
  shows "\<exists>a \<in> A. \<forall>b \<in> A. \<not> anc a b"
  using assms(2,3)
proof (induction A rule: finite_ne_induct)
  case (singleton x)
  then show ?case using assms(1) by (auto simp: causal_order_def)
next
  case (insert x A)
  then obtain a where a: "a \<in> A" "\<forall>b \<in> A. \<not> anc a b" by blast
  show ?case
  proof (cases "anc a x")
    case False
    then show ?thesis using a by auto
  next
    case True
    then have "\<forall>b \<in> A. \<not> anc x b" using a assms(1) unfolding causal_order_def by blast
    then show ?thesis using assms(1) by (auto simp: causal_order_def)
  qed
qed

definition latest where
  "latest anc values = {i \<in> fst ` values. \<forall>j \<in> fst ` values. \<not> anc i j}"

lemma resolve_register_alt:
  "resolve_register anc values =
     (if latest anc (set values) = {} then None else map_of values (Max (latest anc (set values))))"
proof -
  have "set (filter (\<lambda>candidate. \<not> list_ex (anc candidate) (map fst values)) (map fst values)) = latest anc (set values)"
    by (auto simp: latest_def list_ex_iff)
  then show ?thesis
    unfolding resolve_register_def Let_def by (metis set_empty)
qed

lemma resolve_register_cong:
  assumes "set vs = set ws" and "distinct (map fst vs)" and "distinct (map fst ws)"
  shows "resolve_register anc vs = resolve_register anc ws"
proof -
  have "map_of vs = map_of ws" using assms by (metis map_of_inject_set)
  then show ?thesis using assms(1) by (simp add: resolve_register_alt)
qed

lemma resolve_register_wins:
  assumes "causal_order anc" and "vs \<noteq> []" and "distinct (map fst vs)"
  shows "\<exists>w v. resolve_register anc vs = Some v \<and> (w, v) \<in> set vs \<and> w = Max (latest anc (set vs)) \<and>
           (\<forall>(j, _) \<in> set vs. \<not> anc w j)"
proof -
  have fin: "finite (latest anc (set vs))" by (simp add: latest_def)
  have ne: "latest anc (set vs) \<noteq> {}"
    using latest_exists [OF assms(1), of "fst ` set vs"] assms(2) by (auto simp: latest_def)
  let ?w = "Max (latest anc (set vs))"
  have w: "?w \<in> latest anc (set vs)" using fin ne by (rule Max_in)
  then obtain v where v: "(?w, v) \<in> set vs" by (auto simp: latest_def)
  then have "resolve_register anc vs = Some v"
    using ne assms(3) by (simp add: resolve_register_alt)
  moreover have "\<forall>(j, _) \<in> set vs. \<not> anc ?w j" using w by (force simp: latest_def)
  ultimately show ?thesis using v by blast
qed

section \<open>The pieces\<close>

lemma insert_piece_other: "fst c \<noteq> i \<Longrightarrow> insert_piece anc cs c m (PieceId i) = m (PieceId i)"
  by (auto simp: insert_piece_def split: prod.splits extension_command.splits option.splits)

lemma fold_insert_other:
  "i \<notin> fst ` set ds \<Longrightarrow> fold (insert_piece anc cs) ds m (PieceId i) = m (PieceId i)"
  by (induction ds arbitrary: m) (auto simp: insert_piece_other)

lemma fold_insert_piece:
  assumes "distinct (map fst ds)" and "c \<in> set ds"
  shows "fold (insert_piece anc cs) ds m (PieceId (fst c)) = insert_piece anc cs c m (PieceId (fst c))"
  using assms
proof (induction ds arbitrary: m)
  case (Cons d ds)
  show ?case
  proof (cases "c = d")
    case True
    then show ?thesis using Cons.prems(1) by (simp add: fold_insert_other)
  next
    case False
    then have c: "c \<in> set ds" and ne: "fst d \<noteq> fst c" using Cons.prems by auto
    have "insert_piece anc cs c (insert_piece anc cs d m) (PieceId (fst c)) = insert_piece anc cs c m (PieceId (fst c))"
      using insert_piece_other [OF ne, of anc cs m]
      by (cases c) (auto simp: insert_piece_def [of anc cs "(_, _, _)"] split: extension_command.split option.split)
    then show ?thesis using Cons.IH [OF _ c] Cons.prems(1) by simp
  qed
qed simp

text \<open>What the view shows under an identity.\<close>

definition shown where
  "shown anc cs i c =
     (case c of
        (actor, PutPiece e p0) \<Rightarrow>
          map_option (\<lambda>p. \<lparr>owner = actor, emoji = e, pitch = p\<rparr>) (resolve_register anc (assertions_of anc cs i p0))
      | _ \<Rightarrow> None)"

lemma pieces_of_command:
  assumes "distinct (map fst cs)" and "(i, c) \<in> set cs"
  shows "ev_pieces (materialize_extension anc cs) (PieceId i) = shown anc cs i c"
  using fold_insert_piece [OF assms, of anc cs Map.empty]
  by (auto simp: materialize_extension_def shown_def insert_piece_def split: prod.splits extension_command.splits option.splits)

lemma pieces_of_none:
  "i \<notin> fst ` set cs \<Longrightarrow> ev_pieces (materialize_extension anc cs) (PieceId i) = None"
  by (simp add: materialize_extension_def fold_insert_other)

lemma move_of_id: "move_of put p0 c = Some y \<Longrightarrow> fst y = fst c"
  by (cases "(put, p0, c)" rule: move_of.cases) (auto split: if_splits)

lemma lock_write_id: "lock_write c = Some y \<Longrightarrow> fst y = fst c"
  by (cases c rule: lock_write.cases) auto

lemma emoji_write_id: "emoji_write c = Some y \<Longrightarrow> fst y = fst c"
  by (cases c rule: emoji_write.cases) auto

lemma register_of_writes_cong:
  assumes "\<And>c y. f c = Some y \<Longrightarrow> fst y = fst c"
    and "set cs = set ds" and "distinct (map fst cs)" and "distinct (map fst ds)"
  shows "resolve_register anc (filter_map f cs) = resolve_register anc (filter_map f ds)"
  by (rule resolve_register_cong) (simp_all add: filter_map_set assms filter_map_ids [OF assms(1)])

lemma assertions_distinct:
  assumes "distinct (map fst cs)" and "(put, actor, PutPiece e p0) \<in> set cs"
  shows "distinct (map fst (assertions_of anc cs put p0))"
proof -
  have "put \<notin> fst ` set (filter_map (move_of put p0) cs)"
  proof
    assume "put \<in> fst ` set (filter_map (move_of put p0) cs)"
    then obtain c y where c: "c \<in> set cs" "move_of put p0 c = Some y" "fst y = put" by (auto simp: filter_map_set)
    then have "fst c = put" using move_of_id by metis
    then have "c = (put, actor, PutPiece e p0)"
      using assms c(1) by (metis eq_key_imp_eq_value prod.collapse)
    then show False using c(2) by simp
  qed
  then have "distinct (map fst ((put, p0) # filter_map (move_of put p0) cs))"
    using filter_map_ids [OF move_of_id assms(1)] by simp
  then show ?thesis unfolding assertions_of_def by (rule distinct_map_filter)
qed

lemma move_of_some:
  "move_of put p0 c = Some (a, p) \<longleftrightarrow>
     (\<exists>b. c = (a, b, MovePiece (PieceId put) p)) \<and> tuning_id p = tuning_id p0"
  by (cases "(put, p0, c)" rule: move_of.cases) (auto split: if_splits intro: piece_id.expand)

lemma effective_remove_iff:
  "(r, put) \<in> set (effective_removes anc cs) \<longleftrightarrow>
     (\<exists>d. (r, d, RemovePiece (PieceId put)) \<in> set cs) \<and>
     \<not> (\<exists>u f. (u, f, UnremovePiece (PieceId r)) \<in> set cs \<and> anc r u)"
proof -
  have rem: "remove_of c = Some (r, put) \<longleftrightarrow> (\<exists>d. c = (r, d, RemovePiece (PieceId put)))" for c
    by (cases c rule: remove_of.cases) (auto intro: piece_id.expand)
  have unr: "unremove_of c = Some (u, r) \<longleftrightarrow> (\<exists>f. c = (u, f, UnremovePiece (PieceId r)))" for c u
    by (cases c rule: unremove_of.cases) (auto intro: piece_id.expand)
  show ?thesis
    by (auto simp: effective_removes_def Let_def filter_map_set list_ex_iff rem unr)
qed

lemma effective_removes_cong: "set cs = set ds \<Longrightarrow> set (effective_removes anc cs) = set (effective_removes anc ds)"
  by (auto simp: effective_removes_def Let_def filter_map_set list_ex_iff)

lemma assertions_cong:
  "set cs = set ds \<Longrightarrow> set (assertions_of anc cs put p0) = set (assertions_of anc ds put p0)"
  using effective_removes_cong [of cs ds anc] by (auto simp: assertions_of_def filter_map_set list_ex_iff)

lemma shown_cong:
  assumes "set cs = set ds" and "distinct (map fst cs)" and "distinct (map fst ds)" and "(i, c) \<in> set cs"
  shows "shown anc cs i c = shown anc ds i c"
proof -
  have "resolve_register anc (assertions_of anc cs i p0) = resolve_register anc (assertions_of anc ds i p0)"
    if "c = (actor, PutPiece e p0)" for actor e p0
    using resolve_register_cong [OF assertions_cong [OF assms(1)]] assertions_distinct assms that by metis
  then show ?thesis by (auto simp: shown_def split: prod.splits extension_command.split)
qed

section \<open>Properties\<close>

text \<open>C14: Replicas that hold the same commands show the same extension view. The pieces with their
  owners and pitches, the lock and the emoji palette do not depend on the order in which a replica lists
  its history.\<close>

theorem extension_view_converges:
  assumes "set cs = set ds" and "distinct (map fst cs)" and "distinct (map fst ds)"
  shows "materialize_extension anc cs = materialize_extension anc ds"
proof -
  have "ev_pieces (materialize_extension anc cs) q = ev_pieces (materialize_extension anc ds) q" for q
  proof (cases q)
    case (PieceId i)
    show ?thesis
    proof (cases "i \<in> fst ` set cs")
      case True
      then obtain c where "(i, c) \<in> set cs" by force
      then show ?thesis
        using assms shown_cong [OF assms] by (simp add: PieceId pieces_of_command)
    next
      case False
      then show ?thesis using assms(1) by (simp add: PieceId pieces_of_none)
    qed
  qed
  moreover note register_of_writes_cong [where f = lock_write and anc = anc, OF lock_write_id assms]
    register_of_writes_cong [where f = emoji_write and anc = anc, OF emoji_write_id assms]
  ultimately show ?thesis by (simp add: materialize_extension_def fun_eq_iff)
qed


text \<open>The delta between two views is exact. Applied to the previous view it gives the live pitch
  classes and the pieces of the new one, and nothing is reported that did
  not change.\<close>

theorem delta_exact:
  "mv_live (rv_music v) =
     mv_live (rv_music w) - pitches_retracted (changes_since M v w) \<union> pitches_added (changes_since M v w) \<and>
   pitches_added (changes_since M v w) \<inter> mv_live (rv_music w) = {} \<and>
   pitches_retracted (changes_since M v w) \<subseteq> mv_live (rv_music w) \<and>
   rv_pieces v = (rv_pieces w |` (- pieces_retracted (changes_since M v w))) ++ pieces_upserted (changes_since M v w) \<and>
   {i. rv_pieces v i = rv_pieces w i} \<inter>
     (pieces_retracted (changes_since M v w) \<union> dom (pieces_upserted (changes_since M v w))) = {}"
  by (auto simp: changes_since_def fun_eq_iff map_add_def restrict_map_def split: option.splits)
    (metis not_Some_eq)

text \<open>A piece put by entry 1, moved by entry 3 while entry 2 removed it.\<close>

definition moved_while_removed :: "(nat, unit, unit, u8) stored_command list" where
  "moved_while_removed =
     [(1, (), PutPiece ''x'' \<lparr>tuning_id = (), tuned_item = 60\<rparr>), (2, (), RemovePiece (PieceId 1)),
      (3, (), MovePiece (PieceId 1) \<lparr>tuning_id = (), tuned_item = 62\<rparr>)]"

definition after_put :: "nat \<Rightarrow> nat \<Rightarrow> bool" where
  "after_put a b \<longleftrightarrow> a = 1 \<and> b \<in> {2, 3}"

lemma after_put_order: "causal_order after_put"
  by (auto simp: causal_order_def after_put_def)

lemma moved_while_removed_ids: "distinct (map fst moved_while_removed)"
  by (simp add: moved_while_removed_def)

theorem extension_view_converges_witness:
  "materialize_extension after_put moved_while_removed = materialize_extension after_put (rev moved_while_removed)"
  by (rule extension_view_converges) (use moved_while_removed_ids in \<open>simp_all add: rev_map [symmetric]\<close>)


end
