(* ===== verification/Room_Commands.thy ===== *)
theory Room_Commands
  imports Extension_View Replica_Wire
begin

text \<open>
  Commands and presence of \<open>src/src/room/v5.rs\<close>: the canonical envelopes, the admission policy of the two
  lanes, and signed presence.

  Parameters: the JSON codec (crate \<open>serde_json\<close>) is \<open>json\<close>, of which the theorems use that reading back
  what was written gives the written value (\<open>json_ok\<close>); the domain of music commands and the limit on
  presented grants are constants of other crates; capabilities, presentations and areas (crates \<open>hhhs\<close> and
  \<open>hhhs_proof\<close>) are the fields the code reads; verification and authorization are the functions of
  \<open>presence_ops\<close>. A history is the lookup of an entry's payload, the ancestor relation and the entries in
  topological order.
\<close>

section \<open>Envelopes\<close>

record 'e json =
  to_vec :: "'e \<Rightarrow> bytes option"
  from_slice :: "bytes \<Rightarrow> 'e option"

definition json_ok :: "'e json \<Rightarrow> bool" where
  "json_ok J \<longleftrightarrow> (\<forall>e bs. to_vec J e = Some bs \<longrightarrow> from_slice J bs = Some e)"

record 'c command_envelope =
  ce_generation :: u32
  ce_namespace :: bytes
  ce_actor :: bytes
  ce_presented :: "bytes list"
  ce_command :: 'c

datatype command_codec_error =
    CommandTooLarge nat
  | CommandWrongDomain
  | CommandMalformed
  | CommandNonCanonical
  | UnsupportedGeneration u32

definition max_command_bytes :: nat where
  "max_command_bytes = 1024 * 1024"

text \<open>\<open>b"walkie extension command v5\0"\<close>\<close>

definition extension_command_domain :: bytes where
  "extension_command_domain = ascii_bytes ''walkie extension command v5'' @ [0]"

definition command_domain :: "bytes \<Rightarrow> room_lane \<Rightarrow> bytes" where
  "command_domain music_domain lane = (case lane of Music \<Rightarrow> music_domain | Extension \<Rightarrow> extension_command_domain)"

definition encode_envelope ::
  "'c command_envelope json \<Rightarrow> bytes \<Rightarrow> room_lane \<Rightarrow> 'c command_envelope \<Rightarrow> command_codec_error + bytes" where
  "encode_envelope J music_domain lane envelope =
     (case to_vec J envelope of
        None \<Rightarrow> Inl CommandMalformed
      | Some js \<Rightarrow>
          let bs = command_domain music_domain lane @ js
          in if length bs > max_command_bytes then Inl (CommandTooLarge (length bs)) else Inr bs)"

definition decode_envelope ::
  "'c command_envelope json \<Rightarrow> bytes \<Rightarrow> room_lane \<Rightarrow> bytes \<Rightarrow> command_codec_error + 'c command_envelope" where
  "decode_envelope J music_domain lane bs =
     (if length bs > max_command_bytes then Inl (CommandTooLarge (length bs)) else
      case strip_prefix (command_domain music_domain lane) bs of None \<Rightarrow> Inl CommandWrongDomain | Some js \<Rightarrow>
      case from_slice J js of None \<Rightarrow> Inl CommandMalformed | Some envelope \<Rightarrow>
      if ce_generation envelope \<noteq> room_protocol_generation then Inl (UnsupportedGeneration (ce_generation envelope)) else
      case encode_envelope J music_domain lane envelope of Inl e \<Rightarrow> Inl e | Inr again \<Rightarrow>
      if again \<noteq> bs then Inl CommandNonCanonical else Inr envelope)"

definition encode_extension_command ::
  "'c command_envelope json \<Rightarrow> bytes \<Rightarrow> bytes \<Rightarrow> bytes \<Rightarrow> bytes list \<Rightarrow> 'c \<Rightarrow> command_codec_error + bytes" where
  "encode_extension_command J music_domain namespace actor presented c =
     encode_envelope J music_domain Extension
       \<lparr>ce_generation = room_protocol_generation, ce_namespace = namespace, ce_actor = actor,
        ce_presented = presented, ce_command = c\<rparr>"

section \<open>Presence\<close>

record 'p presence_claims =
  pc_generation :: u32
  pc_room :: bytes
  pc_actor :: bytes
  pc_session :: u64
  pc_sequence :: u64
  pc_pitch :: "'p option"
  pc_at :: "bytes list"

record 'p presence_envelope =
  pe_claims :: "'p presence_claims"
  pe_proof :: bytes

record 'p room_presence =
  rp_actor :: bytes
  rp_session :: u64
  rp_sequence :: u64
  rp_pitch :: "'p option"

datatype presence_error =
    PresenceTooLarge nat | PresenceWrongDomain | PresenceMalformed | PresenceNonCanonical | PresenceWrongRoom
  | InvalidProof | Unauthorized

definition max_presence_bytes :: nat where
  "max_presence_bytes = 32 * 1024"

definition presence_domain :: bytes where
  "presence_domain = ascii_bytes ''walkie capability presence v5'' @ [0]"

definition presence_claims_domain :: bytes where
  "presence_claims_domain = ascii_bytes ''walkie capability presence claims v5'' @ [0]"

definition presence_claims_bytes ::
  "'p presence_claims json \<Rightarrow> 'p presence_claims \<Rightarrow> presence_error + bytes" where
  "presence_claims_bytes J claims =
     (case to_vec J claims of None \<Rightarrow> Inl PresenceMalformed | Some js \<Rightarrow> Inr (presence_claims_domain @ js))"

definition encode_presence_envelope ::
  "'p presence_envelope json \<Rightarrow> 'p presence_envelope \<Rightarrow> presence_error + bytes" where
  "encode_presence_envelope J envelope =
     (case to_vec J envelope of
        None \<Rightarrow> Inl PresenceMalformed
      | Some js \<Rightarrow>
          let bs = presence_domain @ js
          in if length bs > max_presence_bytes then Inl (PresenceTooLarge (length bs)) else Inr bs)"

definition decode_presence_envelope ::
  "'p presence_envelope json \<Rightarrow> bytes \<Rightarrow> presence_error + 'p presence_envelope" where
  "decode_presence_envelope J bs =
     (if length bs > max_presence_bytes then Inl (PresenceTooLarge (length bs)) else
      case strip_prefix presence_domain bs of None \<Rightarrow> Inl PresenceWrongDomain | Some js \<Rightarrow>
      case from_slice J js of None \<Rightarrow> Inl PresenceMalformed | Some envelope \<Rightarrow>
      case encode_presence_envelope J envelope of Inl e \<Rightarrow> Inl e | Inr again \<Rightarrow>
      if again \<noteq> bs then Inl PresenceNonCanonical else Inr envelope)"

text \<open>A presentation context: namespace, action digest, causal position; area and right are those of
  music notes and \<open>Invoke\<close>.\<close>

record presentation_context =
  cx_namespace :: bytes
  cx_action :: bytes
  cx_at :: "bytes list"

record ('key, 'v) presence_ops =
  digest_of :: "bytes \<Rightarrow> bytes"
  context_new :: "presentation_context \<Rightarrow> presentation_context option"
  position_of :: "bytes list \<Rightarrow> bytes list"
  frontier :: "bytes list"
  actor_of :: "'key \<Rightarrow> bytes"
  may_notes :: "bytes \<Rightarrow> bytes list \<Rightarrow> bool"
  present :: "'key \<Rightarrow> bytes list \<Rightarrow> presentation_context \<Rightarrow> bytes option"
  proof_decode :: "bytes \<Rightarrow> 'v option"
  proof_verify :: "'v \<Rightarrow> presentation_context \<Rightarrow> bytes option"
  still_allowed :: "'v \<Rightarrow> presentation_context \<Rightarrow> bool"
  grant_limit :: nat

text \<open>\<open>may_notes\<close> authorizes an actor with presented grants at the frontier; \<open>proof_verify\<close> gives the receiver
  of a verified proof; \<open>still_allowed\<close> authorizes the verified request at the frontier.\<close>

record room_keys =
  rk_object :: bytes
  rk_music :: bytes

definition sign_presence ::
  "'p presence_claims json \<Rightarrow> 'p presence_envelope json \<Rightarrow> ('key, 'v) presence_ops \<Rightarrow> room_keys \<Rightarrow> 'key \<Rightarrow> bytes list \<Rightarrow>
   u64 \<Rightarrow> u64 \<Rightarrow> 'p option \<Rightarrow> presence_error + bytes" where
  "sign_presence JC JE P room key grants session sequence sounding =
     (if grants = [] \<or> length grants > grant_limit P then Inl Unauthorized else
      let at = frontier P; actor = actor_of P key in
      if \<not> may_notes P actor grants then Inl Unauthorized else
      let claims = \<lparr>pc_generation = room_protocol_generation, pc_room = rk_object room, pc_actor = actor,
                    pc_session = session, pc_sequence = sequence, pc_pitch = sounding, pc_at = at\<rparr> in
      case presence_claims_bytes JC claims of Inl e \<Rightarrow> Inl e | Inr cb \<Rightarrow>
      case context_new P \<lparr>cx_namespace = rk_music room, cx_action = digest_of P cb, cx_at = at\<rparr> of None \<Rightarrow> Inl InvalidProof | Some cx \<Rightarrow>
      case present P key grants cx of None \<Rightarrow> Inl InvalidProof | Some pr \<Rightarrow>
      encode_presence_envelope JE \<lparr>pe_claims = claims, pe_proof = pr\<rparr>)"

definition verify_presence ::
  "'p presence_claims json \<Rightarrow> 'p presence_envelope json \<Rightarrow> ('key, 'v) presence_ops \<Rightarrow> room_keys \<Rightarrow> bytes \<Rightarrow>
   presence_error + 'p room_presence" where
  "verify_presence JC JE P room bs =
     (case decode_presence_envelope JE bs of Inl e \<Rightarrow> Inl e | Inr envelope \<Rightarrow>
      let claims = pe_claims envelope in
      if pc_generation claims \<noteq> room_protocol_generation \<or> pc_room claims \<noteq> rk_object room then Inl PresenceWrongRoom else
      if position_of P (pc_at claims) \<noteq> pc_at claims then Inl PresenceNonCanonical else
      case presence_claims_bytes JC claims of Inl e \<Rightarrow> Inl e | Inr cb \<Rightarrow>
      case context_new P \<lparr>cx_namespace = rk_music room, cx_action = digest_of P cb, cx_at = position_of P (pc_at claims)\<rparr> of
        None \<Rightarrow> Inl InvalidProof
      | Some cx \<Rightarrow>
      case proof_decode P (pe_proof envelope) of None \<Rightarrow> Inl InvalidProof | Some v \<Rightarrow>
      case proof_verify P v cx of None \<Rightarrow> Inl InvalidProof | Some receiver \<Rightarrow>
      if receiver \<noteq> pc_actor claims then Inl InvalidProof else
      if \<not> still_allowed P v cx then Inl Unauthorized else
      Inr \<lparr>rp_actor = pc_actor claims, rp_session = pc_session claims, rp_sequence = pc_sequence claims,
           rp_pitch = pc_pitch claims\<rparr>)"

section \<open>Admission\<close>

record 'area cap_grant =
  parent :: "bytes option"
  issuer :: bytes
  receiver :: bytes
  gr_area :: 'area
  all_rights :: bool

datatype 'area capability_op = Grant "'area cap_grant" | Revoke bytes bytes

text \<open>\<open>Revoke revoker target\<close>. A presentation: receiver, presented grants, and the area and right of its
  context (\<open>pr_invoke\<close>: the right is \<open>Invoke\<close>).\<close>

record 'area presentation =
  pr_receiver :: bytes
  pr_presented :: "bytes list"
  pr_area :: 'area
  pr_invoke :: bool

datatype 'area admitted_authority = TrustedRoot | Presented "'area presentation"

text \<open>A history: payload and causal relation of entries, the entries in topological order, and which
  entries a position observes.\<close>

record dag_history =
  payload_of :: "bytes \<Rightarrow> bytes option"
  is_ancestor :: "bytes \<Rightarrow> bytes \<Rightarrow> bool"
  topo :: "bytes list"
  observed_at :: "bytes list \<Rightarrow> bytes \<Rightarrow> bool"

record ('area, 't, 'p) policy_ops =
  cap_of :: "bytes \<Rightarrow> 'area capability_op option"
  area_root :: "bytes \<Rightarrow> 'area"
  area_new :: "bytes \<Rightarrow> string list \<Rightarrow> 'area"
  presented_limit :: nat
  pitch_index :: "('t, 'p) tuned_pitch \<Rightarrow> u16"
  pitch_period :: "('t, 'p) tuned_pitch \<Rightarrow> i32"
  max_scale_degrees :: nat
  music_command_domain :: bytes
  envelopes :: "(bytes, 't, 'p) extension_command command_envelope json"
  music_policy :: "bytes \<Rightarrow> bytes \<Rightarrow> bytes \<Rightarrow> dag_history \<Rightarrow> 'area admitted_authority \<Rightarrow> string + unit"

definition validate_capability ::
  "('area, 't, 'p) policy_ops \<Rightarrow> dag_history \<Rightarrow> bytes \<Rightarrow> 'area capability_op \<Rightarrow> bytes \<Rightarrow> 'area admitted_authority \<Rightarrow> string + unit" where
  "validate_capability C H namespace op entry_hash authority =
     (case (op, authority) of
        (Grant g, TrustedRoot) \<Rightarrow>
          if parent g \<noteq> None \<or> issuer g \<noteq> receiver g \<or> gr_area g \<noteq> area_root C namespace \<or> \<not> all_rights g \<or>
             length (receiver g) \<noteq> 32
          then Inl ''invalid Room v5 top-level capability grant'' else Inr ()
      | (Grant g, Presented p) \<Rightarrow>
          (case parent g of
             None \<Rightarrow> Inl ''delegation is missing its parent''
           | Some par \<Rightarrow>
               if issuer g \<noteq> pr_receiver p then Inl ''delegation issuer does not equal proof receiver''
               else if par \<notin> set (pr_presented p) then Inl ''delegation did not explicitly present its parent''
               else if pr_area p \<noteq> gr_area g \<or> \<not> pr_invoke p
               then Inl ''delegation proof is bound to another area or right''
               else if length (receiver g) \<noteq> 32 then Inl ''Room v5 receivers must be Ed25519 public keys''
               else Inr ())
      | (Revoke revoker target, Presented p) \<Rightarrow>
          if revoker \<noteq> pr_receiver p then Inl ''revoker does not equal proof receiver'' else
          (case payload_of H target of
             None \<Rightarrow> Inl ''revocation target is missing''
           | Some pay \<Rightarrow>
               (case cap_of C pay of
                  None \<Rightarrow> Inl ''revocation target is not a capability grant''
                | Some (Revoke _ _) \<Rightarrow> Inl ''revocation target is not a grant''
                | Some (Grant g) \<Rightarrow>
                    if revoker \<noteq> issuer g \<and> revoker \<noteq> receiver g then Inl ''revoker is neither grant issuer nor receiver''
                    else if pr_area p \<noteq> gr_area g \<or> \<not> pr_invoke p
                    then Inl ''revocation proof is bound to another area or right''
                    else if \<not> is_ancestor H target entry_hash then Inl ''revocation target is not in the causal past''
                    else Inr ()))
      | _ \<Rightarrow> Inl ''capability operation used the wrong authority path'')"

definition extension_pieces_area :: "('area, 't, 'p) policy_ops \<Rightarrow> bytes \<Rightarrow> 'area" where
  "extension_pieces_area C namespace = area_new C namespace [''extension'', ''pieces'']"

definition extension_config_area :: "('area, 't, 'p) policy_ops \<Rightarrow> bytes \<Rightarrow> 'area" where
  "extension_config_area C namespace = area_new C namespace [''extension'', ''config'']"

definition extension_command_area ::
  "('area, 't, 'p) policy_ops \<Rightarrow> bytes \<Rightarrow> (bytes, 't, 'p) extension_command \<Rightarrow> 'area" where
  "extension_command_area C namespace c =
     (case c of SetConfig _ _ \<Rightarrow> extension_config_area C namespace | _ \<Rightarrow> extension_pieces_area C namespace)"

definition presented_ids :: "('area, 't, 'p) policy_ops \<Rightarrow> 'c command_envelope \<Rightarrow> string + bytes list" where
  "presented_ids C envelope =
     (let ids = ce_presented envelope
      in if ids = [] \<or> length ids > presented_limit C
         then Inl ''command presents an invalid number of capability grants''
         else if card (set ids) \<noteq> length ids then Inl ''command repeats a presented capability grant''
         else Inr ids)"

definition validate_presented_command ::
  "('area, 't, 'p) policy_ops \<Rightarrow> bytes \<Rightarrow> 'c command_envelope \<Rightarrow> 'area \<Rightarrow> 'area admitted_authority \<Rightarrow> string + unit" where
  "validate_presented_command C namespace envelope expected_area authority =
     (if ce_namespace envelope \<noteq> namespace then Inl ''command namespace does not match this Replica'' else
      case authority of
        TrustedRoot \<Rightarrow> Inl ''Room v5 commands require a verified capability presentation''
      | Presented p \<Rightarrow>
          if pr_receiver p \<noteq> ce_actor envelope then Inl ''command actor does not equal proof receiver'' else
          (case presented_ids C envelope of
             Inl e \<Rightarrow> Inl e
           | Inr ids \<Rightarrow>
               if pr_presented p \<noteq> ids then Inl ''command grant list does not equal the proof statement''
               else if pr_area p \<noteq> expected_area \<or> \<not> pr_invoke p
               then Inl ''command proof is bound to another area or right''
               else Inr ()))"

definition extension_of where
  "extension_of C payload = decode_envelope (envelopes C) (music_command_domain C) Extension payload"

definition require_extension_target ::
  "('area, 't, 'p) policy_ops \<Rightarrow> dag_history \<Rightarrow> bytes \<Rightarrow> ((bytes, 't, 'p) extension_command \<Rightarrow> bool) \<Rightarrow> string + unit" where
  "require_extension_target C H target expected =
     (case payload_of H target of
        None \<Rightarrow> Inl ''extension target is missing''
      | Some payload \<Rightarrow>
          (case extension_of C payload of
             Inl _ \<Rightarrow> Inl ''extension target has another payload type''
           | Inr envelope \<Rightarrow>
               if expected (ce_command envelope) then Inr ()
               else Inl ''extension target has the wrong command type''))"

text \<open>The writes of the lock a position observes.\<close>

definition lock_writes_at :: "('area, 't, 'p) policy_ops \<Rightarrow> dag_history \<Rightarrow> bytes list \<Rightarrow> (bytes \<times> bool) list" where
  "lock_writes_at C H at =
     filter_map (\<lambda>h. case payload_of H h of
         None \<Rightarrow> None
       | Some payload \<Rightarrow>
           (case extension_of C payload of
              Inr envelope \<Rightarrow> lock_write (h, (), ce_command envelope)
            | Inl _ \<Rightarrow> None))
       (filter (observed_at H at) (topo H))"

definition extension_lock_at :: "('area, 't, 'p) policy_ops \<Rightarrow> dag_history \<Rightarrow> bytes list \<Rightarrow> bool" where
  "extension_lock_at C H at =
     (case resolve_register (is_ancestor H) (lock_writes_at C H at) of Some locked \<Rightarrow> locked | None \<Rightarrow> False)"

definition max_emoji_bytes :: nat where "max_emoji_bytes = 64"
definition max_emoji_palette_bytes :: nat where "max_emoji_palette_bytes = 4096"
definition max_abs_period :: nat where "max_abs_period = 1000000"

definition validate_pitch :: "('area, 't, 'p) policy_ops \<Rightarrow> ('t, 'p) tuned_pitch \<Rightarrow> string + unit" where
  "validate_pitch C p =
     (if unat (pitch_index C p) \<ge> max_scale_degrees C \<or> nat \<bar>sint (pitch_period C p)\<bar> > max_abs_period
      then Inl ''piece pitch is outside protocol bounds'' else Inr ())"

definition is_put :: "('id, 't, 'p) extension_command \<Rightarrow> bool" where
  "is_put c = (case c of PutPiece _ _ \<Rightarrow> True | _ \<Rightarrow> False)"

definition is_remove :: "('id, 't, 'p) extension_command \<Rightarrow> bool" where
  "is_remove c = (case c of RemovePiece _ \<Rightarrow> True | _ \<Rightarrow> False)"

definition refuse_locked :: "('area, 't, 'p) policy_ops \<Rightarrow> dag_history \<Rightarrow> bytes list \<Rightarrow> string + unit" where
  "refuse_locked C H prevs =
     (if extension_lock_at C H prevs then Inl ''pieces are locked at this command's causal position'' else Inr ())"

definition and_then :: "string + unit \<Rightarrow> string + unit \<Rightarrow> string + unit" where
  "and_then a b = (case a of Inl e \<Rightarrow> Inl e | Inr _ \<Rightarrow> b)"

definition validate_extension ::
  "('area, 't, 'p) policy_ops \<Rightarrow> dag_history \<Rightarrow> (bytes, 't, 'p) extension_command \<Rightarrow> bytes list \<Rightarrow> string + unit" where
  "validate_extension C H c prevs =
     (case c of
        PutPiece e p \<Rightarrow>
          if e = [] \<or> length e > max_emoji_bytes then Inl ''piece emoji is outside protocol bounds'' else validate_pitch C p
      | MovePiece piece p \<Rightarrow>
          and_then (validate_pitch C p)
            (and_then (require_extension_target C H (entry piece) is_put) (refuse_locked C H prevs))
      | RemovePiece piece \<Rightarrow> and_then (require_extension_target C H (entry piece) is_put) (refuse_locked C H prevs)
      | UnremovePiece remove \<Rightarrow> and_then (require_extension_target C H (entry remove) is_remove) (refuse_locked C H prevs)
      | SetConfig _ emojis \<Rightarrow>
          (case emojis of
             Some palette \<Rightarrow>
               if length palette > max_emoji_palette_bytes then Inl ''emoji palette is outside protocol bounds'' else Inr ()
           | None \<Rightarrow> Inr ()))"

text \<open>The \<open>Display\<close> text of a codec error is the parameter \<open>text\<close>.\<close>

definition validate_entry ::
  "('area, 't, 'p) policy_ops \<Rightarrow> (command_codec_error \<Rightarrow> string) \<Rightarrow> room_lane \<Rightarrow> bytes \<Rightarrow>
   bytes \<Rightarrow> bytes \<Rightarrow> bytes list \<Rightarrow> dag_history \<Rightarrow> 'area admitted_authority \<Rightarrow> string + unit" where
  "validate_entry C display lane namespace entry_hash payload prevs H authority =
     (case cap_of C payload of
        Some op \<Rightarrow>
          if lane = Music then music_policy C namespace entry_hash payload H authority
          else validate_capability C H namespace op entry_hash authority
      | None \<Rightarrow>
          (case lane of
             Music \<Rightarrow> music_policy C namespace entry_hash payload H authority
           | Extension \<Rightarrow>
               (case extension_of C payload of
                  Inl e \<Rightarrow> Inl (display e)
                | Inr envelope \<Rightarrow>
                    and_then
                      (validate_presented_command C namespace envelope
                        (extension_command_area C namespace (ce_command envelope)) authority)
                      (validate_extension C H (ce_command envelope) prevs))))"

section \<open>Strict codecs\<close>

text \<open>The contract both envelopes meet: only the canonical encoding of a message decodes.\<close>

locale strict_codec =
  fixes enc :: "'m \<Rightarrow> 'e + bytes"
    and dec :: "bytes \<Rightarrow> 'e + 'm"
    and ok :: "'m \<Rightarrow> bool"
  assumes only_canonical: "dec bs = Inr m \<Longrightarrow> enc m = Inr bs \<and> ok m"
begin

lemma one_encoding: "dec bs = Inr m \<Longrightarrow> dec cs = Inr m \<Longrightarrow> bs = cs"
  using only_canonical by (metis Inr_inject)

lemma decodes_iff:
  assumes "\<And>m bs. ok m \<Longrightarrow> enc m = Inr bs \<Longrightarrow> dec bs = Inr m"
  shows "dec bs = Inr m \<longleftrightarrow> enc m = Inr bs \<and> ok m"
  using assms only_canonical by blast

end

interpretation command_codec: strict_codec "encode_envelope J music_domain lane" "decode_envelope J music_domain lane"
    "\<lambda>envelope. ce_generation envelope = room_protocol_generation"
  by unfold_locales (auto simp: decode_envelope_def split: if_splits option.splits sum.splits)

interpretation presence_codec: strict_codec "encode_presence_envelope J" "decode_presence_envelope J" "\<lambda>_. True"
  by unfold_locales (auto simp: decode_presence_envelope_def split: if_splits option.splits sum.splits)

lemma encoded_command:
  assumes "json_ok J" and "encode_envelope J music_domain lane envelope = Inr bs"
    and "ce_generation envelope = room_protocol_generation"
  shows "decode_envelope J music_domain lane bs = Inr envelope"
proof -
  obtain js where js: "to_vec J envelope = Some js" "bs = command_domain music_domain lane @ js"
      "length bs \<le> max_command_bytes"
    using assms(2) by (auto simp: encode_envelope_def Let_def split: option.splits if_splits)
  then have "from_slice J js = Some envelope" using assms(1) by (simp add: json_ok_def)
  then show ?thesis using js assms(2,3) by (simp add: decode_envelope_def)
qed

lemma encoded_presence:
  assumes "json_ok J" and "encode_presence_envelope J envelope = Inr bs"
  shows "decode_presence_envelope J bs = Inr envelope"
proof -
  obtain js where js: "to_vec J envelope = Some js" "bs = presence_domain @ js" "length bs \<le> max_presence_bytes"
    using assms(2) by (auto simp: encode_presence_envelope_def Let_def split: option.splits if_splits)
  then have "from_slice J js = Some envelope" using assms(1) by (simp add: json_ok_def)
  then show ?thesis using js assms(2) by (simp add: decode_presence_envelope_def)
qed

lemma and_then_ok [simp]: "and_then a b = Inr () \<longleftrightarrow> a = Inr () \<and> b = Inr ()"
  by (cases a) (simp_all add: and_then_def)

section \<open>Properties\<close>

text \<open>C40: A command has one encoding. Bytes decode to an envelope exactly when they are what the encoder
  writes for it and it names this protocol generation, and bytes written for one lane never decode in the
  other when the two domains differ.\<close>

theorem command_codec_strict:
  assumes "json_ok J" and "separated music_domain extension_command_domain"
  shows "(decode_envelope J music_domain lane bs = Inr envelope \<longleftrightarrow>
            encode_envelope J music_domain lane envelope = Inr bs \<and> ce_generation envelope = room_protocol_generation) \<and>
         (encode_envelope J music_domain lane envelope = Inr bs \<and> lane' \<noteq> lane \<longrightarrow>
            decode_envelope J music_domain lane' bs = Inl CommandWrongDomain)"
proof -
  have "decode_envelope J music_domain lane' bs = Inl CommandWrongDomain"
    if e: "encode_envelope J music_domain lane envelope = Inr bs" and l: "lane' \<noteq> lane"
  proof -
    have b: "starts_with bs (command_domain music_domain lane)" "length bs \<le> max_command_bytes"
      using e by (auto simp: encode_envelope_def Let_def split: option.splits if_splits)
    have "separated (command_domain music_domain lane) (command_domain music_domain lane')"
      using assms(2) l by (cases lane; cases lane') (auto simp: command_domain_def separated_def)
    then have "\<not> starts_with bs (command_domain music_domain lane')" using b(1) by (rule separated_starts)
    then have "strip_prefix (command_domain music_domain lane') bs = None"
      by (metis not_None_eq starts_with_iff strip_prefix_Some_iff)
    then show ?thesis using b(2) by (simp add: decode_envelope_def)
  qed
  then show ?thesis
    using command_codec.decodes_iff [of J music_domain lane] encoded_command [OF assms(1)] by blast
qed

text \<open>C37: What presence proves. Accepted bytes carry the claims of exactly this room and generation at a
  canonical position, a proof that verifies for the digest of those claims under the key of the actor
  they name, and a capability that is still allowed; the presence reported is that of the claims.\<close>

theorem presence_accepts_only_proved:
  assumes "verify_presence JC JE P room bs = Inr seen"
  shows "\<exists>claims pr js cx v.
     encode_presence_envelope JE \<lparr>pe_claims = claims, pe_proof = pr\<rparr> = Inr bs \<and>
     pc_generation claims = room_protocol_generation \<and> pc_room claims = rk_object room \<and>
     position_of P (pc_at claims) = pc_at claims \<and> to_vec JC claims = Some js \<and>
     context_new P \<lparr>cx_namespace = rk_music room, cx_action = digest_of P (presence_claims_domain @ js),
                     cx_at = pc_at claims\<rparr> = Some cx \<and>
     proof_decode P pr = Some v \<and> proof_verify P v cx = Some (pc_actor claims) \<and> still_allowed P v cx \<and>
     seen = \<lparr>rp_actor = pc_actor claims, rp_session = pc_session claims, rp_sequence = pc_sequence claims,
             rp_pitch = pc_pitch claims\<rparr>"
proof -
  obtain envelope where d: "decode_presence_envelope JE bs = Inr envelope"
    using assms by (auto simp: verify_presence_def split: sum.splits)
  then have "encode_presence_envelope JE envelope = Inr bs" using presence_codec.only_canonical by blast
  moreover obtain claims pr where e: "envelope = \<lparr>pe_claims = claims, pe_proof = pr\<rparr>" by (cases envelope) simp
  ultimately show ?thesis
    using assms d
    by - (rule exI [where x = claims], rule exI [where x = pr],
        auto simp: verify_presence_def Let_def presence_claims_bytes_def split: if_splits option.splits sum.splits)
qed

text \<open>What the presentation crates promise a replica that verifies what it could sign itself.\<close>

definition presentation_laws :: "('key, 'v) presence_ops \<Rightarrow> bool" where
  "presentation_laws P \<longleftrightarrow>
     position_of P (frontier P) = frontier P \<and>
     (\<forall>key grants cx pr. present P key grants cx = Some pr \<longrightarrow>
        (\<exists>v. proof_decode P pr = Some v \<and> proof_verify P v cx = Some (actor_of P key) \<and>
             (may_notes P (actor_of P key) grants \<longrightarrow> still_allowed P v cx)))"

text \<open>Presence a member signs is accepted, with the claims it signed, by a replica of the same room
  in the same state.\<close>

theorem presence_roundtrip:
  assumes "json_ok JE" and "presentation_laws P"
    and "sign_presence JC JE P room key grants session sequence sounding = Inr bs"
  shows "verify_presence JC JE P room bs =
           Inr \<lparr>rp_actor = actor_of P key, rp_session = session, rp_sequence = sequence, rp_pitch = sounding\<rparr>"
proof -
  define claims where "claims = \<lparr>pc_generation = room_protocol_generation, pc_room = rk_object room,
      pc_actor = actor_of P key, pc_session = session, pc_sequence = sequence, pc_pitch = sounding, pc_at = frontier P\<rparr>"
  obtain cb cx pr where c: "presence_claims_bytes JC claims = Inr cb"
      "context_new P \<lparr>cx_namespace = rk_music room, cx_action = digest_of P cb, cx_at = frontier P\<rparr> = Some cx"
      "present P key grants cx = Some pr" "may_notes P (actor_of P key) grants"
      "encode_presence_envelope JE \<lparr>pe_claims = claims, pe_proof = pr\<rparr> = Inr bs"
    using assms(3) unfolding sign_presence_def Let_def claims_def [symmetric]
    by (auto split: if_splits sum.splits option.splits)
  obtain v where v: "proof_decode P pr = Some v" "proof_verify P v cx = Some (actor_of P key)" "still_allowed P v cx"
    using assms(2) c(3,4) unfolding presentation_laws_def by blast
  have "position_of P (frontier P) = frontier P" using assms(2) by (simp add: presentation_laws_def)
  then show ?thesis
    using c v encoded_presence [OF assms(1) c(5)] by (simp add: verify_presence_def Let_def claims_def)
qed

text \<open>C35: What admission proves of an extension command. An admitted command names this replica, presents
  between one and the allowed number of distinct grants, exactly those of the proof, and is signed by the
  actor it names for the area of its kind. What is checked of its content depends on the kind: a piece that is put has an
  emoji and a pitch within the bounds of the protocol, also in a locked room; a piece that is moved or removed was put, and the
  new pitch is within the bounds; a remove that is undone was made; for these three the pieces were not locked where
  the author made the command; a palette that is set is within its bound.\<close>

theorem admitted_command_authorised:
  assumes "validate_entry C display Extension namespace entry_hash payload prevs H authority = Inr ()"
    and "cap_of C payload = None"
  shows "\<exists>envelope p. extension_of C payload = Inr envelope \<and> authority = Presented p \<and>
     ce_namespace envelope = namespace \<and> pr_receiver p = ce_actor envelope \<and>
     pr_presented p = ce_presented envelope \<and> distinct (ce_presented envelope) \<and>
     ce_presented envelope \<noteq> [] \<and> length (ce_presented envelope) \<le> presented_limit C \<and> pr_invoke p \<and>
     pr_area p = extension_command_area C namespace (ce_command envelope) \<and>
     (case ce_command envelope of
        PutPiece e p \<Rightarrow> e \<noteq> [] \<and> length e \<le> max_emoji_bytes \<and> validate_pitch C p = Inr ()
      | MovePiece q p \<Rightarrow> validate_pitch C p = Inr () \<and>
          require_extension_target C H (entry q) is_put = Inr () \<and> \<not> extension_lock_at C H prevs
      | RemovePiece q \<Rightarrow> require_extension_target C H (entry q) is_put = Inr () \<and> \<not> extension_lock_at C H prevs
      | UnremovePiece q \<Rightarrow> require_extension_target C H (entry q) is_remove = Inr () \<and> \<not> extension_lock_at C H prevs
      | SetConfig _ palette \<Rightarrow> \<forall>emojis. palette = Some emojis \<longrightarrow> length emojis \<le> max_emoji_palette_bytes)"
proof -
  obtain envelope where e: "extension_of C payload = Inr envelope"
      "validate_presented_command C namespace envelope (extension_command_area C namespace (ce_command envelope)) authority = Inr ()"
      "validate_extension C H (ce_command envelope) prevs = Inr ()"
    using assms by (auto simp: validate_entry_def split: sum.splits)
  obtain p where p: "authority = Presented p" "ce_namespace envelope = namespace" "pr_receiver p = ce_actor envelope"
      "presented_ids C envelope = Inr (pr_presented p)" "pr_invoke p"
      "pr_area p = extension_command_area C namespace (ce_command envelope)"
    using e(2) by (auto simp: validate_presented_command_def split: if_splits admitted_authority.splits sum.splits)
  have ids: "pr_presented p = ce_presented envelope" "distinct (ce_presented envelope)" "ce_presented envelope \<noteq> []"
      "length (ce_presented envelope) \<le> presented_limit C"
    using p(4) by (auto simp: presented_ids_def Let_def card_distinct split: if_splits)
  have "\<not> extension_lock_at C H prevs" if "refuse_locked C H prevs = Inr ()"
    using that by (simp add: refuse_locked_def split: if_splits)
  then show ?thesis
    using e(1,3) p ids
    by (cases "ce_command envelope") (auto simp: validate_extension_def not_less split: if_splits option.splits)
qed

text \<open>C36: A locked room stays locked for its followers. When the author of a move, remove or unremove
  has seen a lock that every other change of the lock it has seen precedes, the command is refused,
  whichever replica checks it.\<close>

theorem locked_room_refuses:
  assumes "causal_order (is_ancestor H)" and "distinct (topo H)"
    and "(l, True) \<in> set (lock_writes_at C H prevs)"
    and "\<forall>(w, _) \<in> set (lock_writes_at C H prevs). w = l \<or> is_ancestor H w l"
    and "c = MovePiece q p \<or> c = RemovePiece q \<or> c = UnremovePiece q"
  shows "\<exists>reason. validate_extension C H c prevs = Inl reason"
proof -
  let ?f = "\<lambda>h. case payload_of H h of None \<Rightarrow> None
     | Some payload \<Rightarrow> (case extension_of C payload of Inr envelope \<Rightarrow> lock_write (h, (), ce_command envelope) | Inl _ \<Rightarrow> None)"
  have id: "?f h = Some y \<Longrightarrow> fst y = h" for h y
    by (auto dest!: lock_write_id split: option.splits sum.splits)
  have "distinct (map fst (filter_map ?f hs))" if "distinct hs" for hs
    using that
  proof (induction hs)
    case (Cons h hs)
    have "fst ` set (filter_map ?f hs) \<subseteq> set hs" using id by (force simp: filter_map_set)
    then show ?case using Cons id [of h] by (auto split: option.split)
  qed simp
  then have dist: "distinct (map fst (lock_writes_at C H prevs))"
    using assms(2) by (simp add: lock_writes_at_def)
  obtain w v where w: "resolve_register (is_ancestor H) (lock_writes_at C H prevs) = Some v"
      "(w, v) \<in> set (lock_writes_at C H prevs)" "\<forall>(j, _) \<in> set (lock_writes_at C H prevs). \<not> is_ancestor H w j"
    using resolve_register_wins [OF assms(1) _ dist] assms(3) by (metis empty_iff empty_set)
  then have "w = l" using assms(3,4) by auto
  then have "v = True" using dist assms(3) w(2) by (metis eq_key_imp_eq_value)
  then have "extension_lock_at C H prevs" using w(1) by (simp add: extension_lock_at_def)
  then have "refuse_locked C H prevs \<noteq> Inr ()" by (simp add: refuse_locked_def)
  then have "validate_extension C H c prevs \<noteq> Inr ()" using assms(5) by (auto simp: validate_extension_def)
  then show ?thesis by (cases "validate_extension C H c prevs") auto
qed

text \<open>A JSON codec that knows one value, and a room where everything is allowed, for concrete runs.\<close>

definition one_json :: "'e \<Rightarrow> 'e json" where
  "one_json e = \<lparr>to_vec = (\<lambda>x. if x = e then Some [] else None), from_slice = (\<lambda>bs. if bs = [] then Some e else None)\<rparr>"

lemma one_json_ok: "json_ok (one_json e)"
  by (simp add: json_ok_def one_json_def)

definition small_envelope :: "(bytes, unit, u8) extension_command command_envelope" where
  "small_envelope = \<lparr>ce_generation = 5, ce_namespace = [], ce_actor = [1], ce_presented = [[7]],
     ce_command = RemovePiece (PieceId [3])\<rparr>"

theorem command_codec_strict_witness:
  "decode_envelope (one_json small_envelope) [1] Extension extension_command_domain = Inr small_envelope \<and>
   decode_envelope (one_json small_envelope) [1] Music extension_command_domain = Inl CommandWrongDomain"
proof -
  have "separated [1] extension_command_domain"
    by (simp add: separated_def extension_command_domain_def ascii_bytes_def)
  note strict = command_codec_strict [OF one_json_ok this, where lane = Extension and envelope = small_envelope
      and bs = extension_command_domain]
  have "encode_envelope (one_json small_envelope) [1] Extension small_envelope = Inr extension_command_domain"
    by (simp add: encode_envelope_def one_json_def command_domain_def max_command_bytes_def
        extension_command_domain_def ascii_bytes_def)
  then show ?thesis
    using strict [of small_envelope Music] by (simp add: small_envelope_def room_protocol_generation_def)
qed

definition small_claims :: "unit presence_claims" where
  "small_claims = \<lparr>pc_generation = 5, pc_room = [], pc_actor = [1], pc_session = 1, pc_sequence = 2,
     pc_pitch = None, pc_at = []\<rparr>"

definition open_presence :: "(bytes, bytes) presence_ops" where
  "open_presence =
     \<lparr>digest_of = (\<lambda>_. []), context_new = Some, position_of = (\<lambda>at. at), frontier = [], actor_of = (\<lambda>k. k),
      may_notes = (\<lambda>_ _. True), present = (\<lambda>k _ _. Some k), proof_decode = Some, proof_verify = (\<lambda>v _. Some v),
      still_allowed = (\<lambda>_ _. True), grant_limit = 4\<rparr>"

definition small_room :: room_keys where
  "small_room = \<lparr>rk_object = [], rk_music = []\<rparr>"

abbreviation small_json where
  "small_json \<equiv> one_json \<lparr>pe_claims = small_claims, pe_proof = [1]\<rparr>"

lemma small_presence_signed:
  "sign_presence (one_json small_claims) small_json open_presence small_room [1] [[7]] 1 2 None = Inr presence_domain"
  by (simp add: sign_presence_def open_presence_def small_room_def presence_claims_bytes_def one_json_def
      encode_presence_envelope_def max_presence_bytes_def small_claims_def room_protocol_generation_def
      presence_domain_def ascii_bytes_def)

theorem presence_roundtrip_witness:
  "verify_presence (one_json small_claims) small_json open_presence small_room presence_domain =
     Inr \<lparr>rp_actor = [1], rp_session = 1, rp_sequence = 2, rp_pitch = None\<rparr>"
  using presence_roundtrip [OF one_json_ok _ small_presence_signed]
  by (simp add: presentation_laws_def open_presence_def)

theorem presence_accepts_only_proved_witness:
  "\<exists>claims pr. encode_presence_envelope small_json \<lparr>pe_claims = claims, pe_proof = pr\<rparr> = Inr presence_domain \<and>
     pc_room claims = [] \<and> pc_actor claims = [1]"
proof -
  have "verify_presence (one_json small_claims) small_json open_presence small_room presence_domain =
     Inr \<lparr>rp_actor = [1], rp_session = 1, rp_sequence = 2, rp_pitch = None\<rparr>"
    by (simp add: verify_presence_def decode_presence_envelope_def encode_presence_envelope_def one_json_def open_presence_def
        small_room_def presence_claims_bytes_def small_claims_def room_protocol_generation_def max_presence_bytes_def
        presence_domain_def ascii_bytes_def Let_def)
  from presence_accepts_only_proved [OF this] show ?thesis by (auto simp: small_room_def)
qed

text \<open>A history where entry \<open>[2]\<close> locked the pieces after entry \<open>[3]\<close> put one.\<close>

definition lock_envelope :: "(bytes, unit, u8) extension_command command_envelope" where
  "lock_envelope = \<lparr>ce_generation = 5, ce_namespace = [], ce_actor = [1], ce_presented = [[7]],
     ce_command = SetConfig (Some True) None\<rparr>"

definition lock_history :: dag_history where
  "lock_history =
     \<lparr>payload_of = (\<lambda>h. if h = [2] then Some extension_command_domain else None), is_ancestor = (\<lambda>_ _. False),
      topo = [[2]], observed_at = (\<lambda>_ _. True)\<rparr>"

definition small_policy :: "(bytes, unit, u8) extension_command command_envelope \<Rightarrow> (unit, unit, u8) policy_ops" where
  "small_policy e =
     \<lparr>cap_of = (\<lambda>_. None), area_root = (\<lambda>_. ()), area_new = (\<lambda>_ _. ()), presented_limit = 4, pitch_index = (\<lambda>_. 0),
      pitch_period = (\<lambda>_. 0), max_scale_degrees = 12, music_command_domain = [1], envelopes = one_json e,
      music_policy = (\<lambda>_ _ _ _ _. Inr ())\<rparr>"

lemma small_decodes:
  assumes "ce_generation e = 5"
  shows "extension_of (small_policy e) extension_command_domain = Inr e"
  using assms
  by (simp add: extension_of_def small_policy_def decode_envelope_def encode_envelope_def one_json_def command_domain_def
      max_command_bytes_def extension_command_domain_def ascii_bytes_def room_protocol_generation_def)

lemma lock_history_writes: "lock_writes_at (small_policy lock_envelope) lock_history at = [([2], True)]"
  by (simp add: lock_writes_at_def lock_history_def small_decodes lock_envelope_def)

theorem locked_room_refuses_witness:
  "\<exists>reason. validate_extension (small_policy lock_envelope) lock_history (RemovePiece (PieceId [3])) [[2]] = Inl reason"
  by (rule locked_room_refuses [where l = "[2]" and q = "PieceId [3]"])
     (simp_all add: lock_history_writes, simp_all add: lock_history_def causal_order_def)

definition put_envelope :: "(bytes, unit, u8) extension_command command_envelope" where
  "put_envelope = \<lparr>ce_generation = 5, ce_namespace = [], ce_actor = [1], ce_presented = [[7]],
     ce_command = PutPiece ''x'' \<lparr>tuning_id = (), tuned_item = 60\<rparr>\<rparr>"

theorem admitted_command_authorised_witness:
  "\<exists>envelope p. extension_of (small_policy put_envelope) extension_command_domain = Inr envelope \<and>
     Presented \<lparr>pr_receiver = [1], pr_presented = [[7]], pr_area = (), pr_invoke = True\<rparr> = Presented p \<and>
     pr_receiver p = ce_actor envelope"
proof -
  have d: "extension_of (small_policy put_envelope) extension_command_domain = Inr put_envelope"
    by (rule small_decodes) (simp add: put_envelope_def)
  have "cap_of (small_policy put_envelope) extension_command_domain = None" by (simp add: small_policy_def)
  moreover have "validate_entry (small_policy put_envelope) (\<lambda>_. []) Extension [] [9] extension_command_domain [] lock_history
      (Presented \<lparr>pr_receiver = [1], pr_presented = [[7]], pr_area = (), pr_invoke = True\<rparr>) = Inr ()"
    using calculation by (simp add: validate_entry_def d)
       (simp add: small_policy_def put_envelope_def validate_presented_command_def presented_ids_def
         extension_command_area_def extension_pieces_area_def validate_extension_def validate_pitch_def
         max_emoji_bytes_def max_abs_period_def)
  ultimately show ?thesis using admitted_command_authorised by fastforce
qed

end
