(* ===== verification/Room_Durable.thy ===== *)
theory Room_Durable
  imports Room_Commands Session_Crates
begin

text \<open>
  The durable side of a room in \<open>src/src/room/v5.rs\<close>: the identity of a room and its lanes, the trusted root of
  a lane, recovery from transaction logs, the grants an actor holds, the view of two snapshots, and the
  admissions a room prepares (\<open>RoomDurableContext\<close>).

  Crates \<open>hhhs\<close>, \<open>hhhs_cap\<close>, \<open>hhhs_proof\<close>, \<open>hhhs_replica\<close>, \<open>hhhs_store\<close>, \<open>hhhs_sync\<close>, \<open>tutti_music_hhhs\<close> and the
  tuning crate are the parameter record \<open>replica_crates\<close>. As in \<open>Session_Crates\<close> their values have one type
  \<open>'x\<close>; \<open>'l\<close> is the state of one lane, a replica over its storage and later its durable host, which the calls
  change. The receiver of an actor is the actor's key bytes. Errors of other crates are their texts.
\<close>

section \<open>Parameters\<close>

type_synonym 'x extension_op = "(bytes, 'x, 'x) extension_command"
type_synonym 'x full_view = "(bytes, 'x, 'x, 'x, bytes, 'x, 'x, 'x) room_view"

text \<open>\<open>AdmissionRequest\<close>: a trusted root, or an entry with its presentation and the area (the right is
  \<open>Invoke\<close> everywhere).\<close>

datatype 'x admission_request = TrustedRootRequest 'x | PresentedRequest 'x 'x 'x

text \<open>\<open>allowed\<close> is \<open>CapabilitySnapshot::authorize\<close> for \<open>Right::Invoke\<close>: captured authority, receiver, area,
  presented grants, and the positions \<open>at\<close> and \<open>from\<close>. \<open>prepare\<close> and \<open>prepare_ed25519\<close> work on a preparation of
  a lane; \<open>commit\<close> and \<open>commit_local\<close> are the durable host's.\<close>

record ('x, 'l) replica_crates =
  policy :: "('x, 'x, 'x) policy_ops"
  encode_digest :: "bytes list \<Rightarrow> bytes"
  key_from_seed :: "bytes \<Rightarrow> 'x"
  actor_from_key :: "'x \<Rightarrow> bytes"
  grant_entry :: "'x cap_grant \<Rightarrow> 'x"
  encode_grant :: "'x cap_grant \<Rightarrow> bytes"
  entry_hash_of :: "'x \<Rightarrow> bytes"
  entry_payload :: "'x \<Rightarrow> bytes"
  empty_storage_lane :: "room_lane \<Rightarrow> bytes \<Rightarrow> bytes \<Rightarrow> string + 'l"
  storage_commit :: "'x \<Rightarrow> 'l \<Rightarrow> (string + unit) \<times> 'l"
  repair_capture :: "'l \<Rightarrow> string + 'x"
  encode_transaction :: "'x \<Rightarrow> bytes"
  prepared_transaction :: "'x \<Rightarrow> 'x"
  durable_host :: "'l \<Rightarrow> 'x \<Rightarrow> string + 'l"
  lane_state :: "'l \<Rightarrow> string + 'x"
  snapshot_history :: "'x \<Rightarrow> 'x"
  history_epoch :: "'x \<Rightarrow> u64"
  history_frontier :: "'x \<Rightarrow> 'x"
  frontier_entries :: "'x \<Rightarrow> bytes list"
  root_of_history :: "'x \<Rightarrow> bytes"
  history_contains :: "'x \<Rightarrow> bytes \<Rightarrow> bool"
  entries_topo :: "'x \<Rightarrow> 'x list"
  history_ancestor :: "'x \<Rightarrow> bytes \<Rightarrow> bytes \<Rightarrow> bool"
  capture_authority :: "'x \<Rightarrow> bytes list \<Rightarrow> 'x"
  grants_for_receiver :: "'x \<Rightarrow> bytes \<Rightarrow> (bytes \<times> 'x) list"
  grant_area :: "'x \<Rightarrow> 'x"
  grant_invokes :: "'x \<Rightarrow> bool"
  allowed :: "'x \<Rightarrow> bytes \<Rightarrow> 'x \<Rightarrow> bytes list \<Rightarrow> 'x \<Rightarrow> 'x \<Rightarrow> bool"
  position_at :: "bytes \<Rightarrow> 'x"
  materialize_lane :: "'x \<Rightarrow> bytes list \<Rightarrow> ('x, 'x, 'x, bytes, 'x, 'x, 'x) music_view"
  tuning_validate :: "'x \<Rightarrow> string + 'x"
  pitch_validate :: "('x, 'x) tuned_pitch \<Rightarrow> 'x \<Rightarrow> bool"
  music_area :: "bytes \<Rightarrow> 'x pitch_op \<Rightarrow> 'x"
  encode_music :: "bytes \<Rightarrow> bytes \<Rightarrow> bytes list \<Rightarrow> 'x pitch_op \<Rightarrow> command_codec_error + bytes"
  preparation :: "'l \<Rightarrow> string + 'x"
  prepare :: "'x \<Rightarrow> 'x admission_request \<Rightarrow> string + 'x"
  prepare_ed25519 :: "'x \<Rightarrow> bytes \<Rightarrow> 'x \<Rightarrow> bytes list \<Rightarrow> 'x \<Rightarrow> string + 'x"
  presentation_of :: "'x \<Rightarrow> 'x \<Rightarrow> 'x \<Rightarrow> string + 'x"
  present_grants :: "'x \<Rightarrow> bytes list \<Rightarrow> 'x \<Rightarrow> string + 'x"
  plan_entry :: "'x \<Rightarrow> bytes \<Rightarrow> string + 'x"
  commit :: "'x \<Rightarrow> 'l \<Rightarrow> (string + 'x) \<times> 'l"
  committed_entry :: "'x \<Rightarrow> bytes"
  committed_admission :: "'x \<Rightarrow> 'x"
  committed_record :: "'x \<Rightarrow> 'x"
  presence_at :: "'x \<Rightarrow> bytes \<Rightarrow> ('x, 'x) presence_ops"
  claims_json :: "('x, 'x) tuned_pitch presence_claims json"
  presence_json :: "('x, 'x) tuned_pitch presence_envelope json"

section \<open>Identity\<close>

definition lane_namespace_domain :: bytes where
  "lane_namespace_domain = ascii_bytes ''walkie room lane namespace v5''"
definition room_object_domain :: bytes where
  "room_object_domain = ascii_bytes ''walkie room object v5''"
definition open_room_authority_domain :: bytes where
  "open_room_authority_domain = ascii_bytes ''walkie open room authority v5''"

text \<open>\<open>Encoder\<close> of crate \<open>hhhs\<close>: the digest of a list of encoded fields.\<close>

definition from_object :: "('x, 'l) replica_crates \<Rightarrow> bytes \<Rightarrow> room_identity" where
  "from_object C object =
     (let lane_digest = (\<lambda>lane. encode_digest C [lane_namespace_domain, object, to_le (ucast (tag lane) :: u32)]) in
      \<lparr>id_object = object, id_music = lane_digest Music, id_extension = lane_digest Extension\<rparr>)"

definition to_ascii_lowercase :: "string \<Rightarrow> string" where
  "to_ascii_lowercase s =
     map (\<lambda>c. let n = of_char c :: nat in if 65 \<le> n \<and> n \<le> 90 then char_of (n + 32) else c) s"

definition from_name :: "('x, 'l) replica_crates \<Rightarrow> string \<Rightarrow> room_identity" where
  "from_name C name = from_object C (encode_digest C [room_object_domain, ascii_bytes (to_ascii_lowercase name)])"

definition namespace_of :: "room_identity \<Rightarrow> room_lane \<Rightarrow> bytes" where
  "namespace_of identity lane = (case lane of Music \<Rightarrow> id_music identity | Extension \<Rightarrow> id_extension identity)"

definition open_room_authority :: "('x, 'l) replica_crates \<Rightarrow> string \<Rightarrow> 'x" where
  "open_room_authority C name =
     key_from_seed C (encode_digest C [open_room_authority_domain, ascii_bytes (to_ascii_lowercase name)])"

record member_capabilities =
  mc_music :: "bytes list"
  mc_extension :: "bytes list"

definition for_lane :: "member_capabilities \<Rightarrow> room_lane \<Rightarrow> bytes list" where
  "for_lane m lane = (case lane of Music \<Rightarrow> mc_music m | Extension \<Rightarrow> mc_extension m)"

datatype 'x room_command = MusicCommand "'x pitch_op" | ExtensionCommand "'x extension_op"

definition lane_of_command :: "'x room_command \<Rightarrow> room_lane" where
  "lane_of_command c = (case c of MusicCommand _ \<Rightarrow> Music | ExtensionCommand _ \<Rightarrow> Extension)"

fun display_codec_error :: "command_codec_error \<Rightarrow> string" where
  "display_codec_error (CommandTooLarge n) = ''command is too large: '' @ decimal n @ '' bytes''"
| "display_codec_error CommandWrongDomain = ''command belongs to another protocol domain''"
| "display_codec_error CommandMalformed = ''command JSON is malformed''"
| "display_codec_error CommandNonCanonical = ''command encoding is not canonical''"
| "display_codec_error (UnsupportedGeneration g) = ''unsupported command generation '' @ decimal (unat g)"

fun display_presence_error :: "presence_error \<Rightarrow> string" where
  "display_presence_error (PresenceTooLarge n) = ''presence message is too large: '' @ decimal n @ '' bytes''"
| "display_presence_error PresenceWrongDomain = ''presence message belongs to another protocol domain''"
| "display_presence_error PresenceMalformed = ''presence message is malformed''"
| "display_presence_error PresenceNonCanonical = ''presence encoding is not canonical''"
| "display_presence_error PresenceWrongRoom = ''presence message names another room or generation''"
| "display_presence_error InvalidProof = ''presence proof is invalid''"
| "display_presence_error Unauthorized = ''presence capability is not live at the signed position''"

text \<open>The texts of \<open>RoomError\<close>.\<close>

definition replica_error where "replica_error r = with_prefix ''HHHS replica rejected the operation: '' r"
definition recovery_error where "recovery_error r = with_prefix ''durable room recovery failed: '' r"
definition session_error where "session_error r = with_prefix ''HHHS session reification failed: '' r"

definition codec_error :: "command_codec_error + 'a \<Rightarrow> string + 'a" where
  "codec_error r = (case r of Inl e \<Rightarrow> Inl (''Room v5 command codec failed: '' @ display_codec_error e) | Inr a \<Rightarrow> Inr a)"

section \<open>Roots and recovery\<close>

definition lane_root_grant :: "('x, 'l) replica_crates \<Rightarrow> bytes \<Rightarrow> bytes \<Rightarrow> 'x cap_grant" where
  "lane_root_grant C namespace owner_id =
     \<lparr>parent = None, issuer = owner_id, receiver = owner_id, gr_area = area_root (policy C) namespace, all_rights = True\<rparr>"

definition lane_trusted_root :: "('x, 'l) replica_crates \<Rightarrow> bytes \<Rightarrow> bytes \<Rightarrow> 'x" where
  "lane_trusted_root C namespace owner_id = grant_entry C (lane_root_grant C namespace owner_id)"

definition build_empty_lane ::
  "('x, 'l) replica_crates \<Rightarrow> room_lane \<Rightarrow> bytes \<Rightarrow> bytes \<Rightarrow> string + 'l \<times> bytes \<times> 'x" where
  "build_empty_lane C lane namespace owner_id =
     (let root = lane_trusted_root C namespace owner_id; root_id = entry_hash_of C root in
      attempt (replica_error (empty_storage_lane C lane namespace root_id)) (\<lambda>l. Inr (l, root_id, root)))"

definition prepare_root :: "('x, 'l) replica_crates \<Rightarrow> 'l \<Rightarrow> 'x \<Rightarrow> string + 'x" where
  "prepare_root C l root =
     attempt (replica_error (preparation C l)) (\<lambda>prep. replica_error (prepare C prep (TrustedRootRequest root)))"

definition require_complete_log_root ::
  "('x, 'l) replica_crates \<Rightarrow> 'l \<Rightarrow> 'x \<Rightarrow> 'x list \<Rightarrow> string + unit" where
  "require_complete_log_root C l root transactions =
     (case transactions of
        [] \<Rightarrow> Inr ()
      | first # _ \<Rightarrow>
          attempt (prepare_root C l root) (\<lambda>expected.
          if encode_transaction C first \<noteq> encode_transaction C (prepared_transaction C expected)
          then recovery_error (Inl ''durable lane log does not begin with its exact trusted-root transaction'')
          else Inr ()))"

definition trusted_root_transaction ::
  "('x, 'l) replica_crates \<Rightarrow> room_identity \<Rightarrow> bytes \<Rightarrow> room_lane \<Rightarrow> string + 'x" where
  "trusted_root_transaction C identity owner_id lane =
     attempt (build_empty_lane C lane (namespace_of identity lane) owner_id) (\<lambda>(l, _, root).
     attempt (prepare_root C l root) (\<lambda>prepared. Inr (prepared_transaction C prepared)))"

fun replay :: "('x, 'l) replica_crates \<Rightarrow> 'x list \<Rightarrow> 'l \<Rightarrow> string + 'l" where
  "replay C [] l = Inr l"
| "replay C (transaction # transactions) l =
     (case storage_commit C transaction l of
        (Inl e, _) \<Rightarrow> recovery_error (Inl e)
      | (Inr _, l') \<Rightarrow> replay C transactions l')"

record durable_context =
  dx_identity :: room_identity
  dx_owner :: bytes
  dx_music_root :: bytes
  dx_extension_root :: bytes

text \<open>\<open>RoomReplicas::from_transaction_logs\<close>, then \<open>into_durable_parts\<close>.\<close>

definition from_transaction_logs ::
  "('x, 'l) replica_crates \<Rightarrow> room_identity \<Rightarrow> bytes \<Rightarrow> 'x list \<Rightarrow> 'x list \<Rightarrow> string + durable_context \<times> 'l \<times> 'l" where
  "from_transaction_logs C identity owner_id music_log extension_log =
     attempt (build_empty_lane C Music (id_music identity) owner_id) (\<lambda>(music, music_root, music_entry).
     attempt (build_empty_lane C Extension (id_extension identity) owner_id) (\<lambda>(extension, extension_root, extension_entry).
     attempt (require_complete_log_root C music music_entry music_log) (\<lambda>_.
     attempt (require_complete_log_root C extension extension_entry extension_log) (\<lambda>_.
     attempt (replay C music_log music) (\<lambda>music'.
     attempt (replay C extension_log extension) (\<lambda>extension'.
     attempt (recovery_error (repair_capture C music')) (\<lambda>_.
     attempt (recovery_error (repair_capture C extension')) (\<lambda>_.
     Inr (\<lparr>dx_identity = identity, dx_owner = owner_id, dx_music_root = music_root, dx_extension_root = extension_root\<rparr>,
          music', extension')))))))))"

section \<open>Grants and views\<close>

definition root_for_lane :: "durable_context \<Rightarrow> room_lane \<Rightarrow> bytes" where
  "root_for_lane R lane = (case lane of Music \<Rightarrow> dx_music_root R | Extension \<Rightarrow> dx_extension_root R)"

definition owner_capabilities :: "durable_context \<Rightarrow> member_capabilities" where
  "owner_capabilities R = \<lparr>mc_music = [dx_music_root R], mc_extension = [dx_extension_root R]\<rparr>"

definition live_grants_for :: "('x, 'l) replica_crates \<Rightarrow> 'x \<Rightarrow> bytes \<Rightarrow> bytes \<Rightarrow> bytes list" where
  "live_grants_for C history root actor =
     (let captured = capture_authority C history [root]; at = history_frontier C history in
      take (presented_limit (policy C))
        (filter_map (\<lambda>(i, grant).
           if \<not> grant_invokes C grant \<or> \<not> allowed C captured actor (grant_area C grant) [i] at at then None else Some i)
         (grants_for_receiver C captured actor)))"

definition context_capabilities_for_lane ::
  "('x, 'l) replica_crates \<Rightarrow> durable_context \<Rightarrow> bytes \<Rightarrow> room_lane \<Rightarrow> 'x \<Rightarrow> bytes list" where
  "context_capabilities_for_lane C R actor lane snapshot =
     live_grants_for C (snapshot_history C snapshot) (root_for_lane R lane) actor"

definition context_capabilities_for ::
  "('x, 'l) replica_crates \<Rightarrow> durable_context \<Rightarrow> bytes \<Rightarrow> 'x \<Rightarrow> 'x \<Rightarrow> member_capabilities" where
  "context_capabilities_for C R actor music extension =
     \<lparr>mc_music = context_capabilities_for_lane C R actor Music music,
      mc_extension = context_capabilities_for_lane C R actor Extension extension\<rparr>"

definition command_is_currently_authorized ::
  "('x, 'l) replica_crates \<Rightarrow> 'x \<Rightarrow> 'x \<Rightarrow> bytes \<Rightarrow> 'c command_envelope \<Rightarrow> 'x \<Rightarrow> bool" where
  "command_is_currently_authorized C captured history e envelope area =
     (case presented_ids (policy C) envelope of
        Inl _ \<Rightarrow> False
      | Inr presented \<Rightarrow>
          allowed C captured (ce_actor envelope) area presented (position_at C e) (history_frontier C history))"

definition authorized_extension_commands ::
  "('x, 'l) replica_crates \<Rightarrow> 'x \<Rightarrow> bytes list \<Rightarrow> (bytes, bytes, 'x, 'x) stored_command list" where
  "authorized_extension_commands C history roots =
     (let captured = capture_authority C history roots in
      filter_map (\<lambda>e. case extension_of (policy C) (entry_payload C e) of
          Inl _ \<Rightarrow> None
        | Inr envelope \<Rightarrow>
            if command_is_currently_authorized C captured history (entry_hash_of C e) envelope
                 (extension_command_area (policy C) (ce_namespace envelope) (ce_command envelope))
            then Some (entry_hash_of C e, ce_actor envelope, ce_command envelope) else None)
        (entries_topo C history))"

definition view_with_snapshots ::
  "('x, 'l) replica_crates \<Rightarrow> durable_context \<Rightarrow> 'x \<Rightarrow> 'x \<Rightarrow> 'x full_view \<times> 'x \<times> 'x" where
  "view_with_snapshots C R music_snapshot extension_snapshot =
     (let mh = snapshot_history C music_snapshot; eh = snapshot_history C extension_snapshot;
          music = materialize_lane C mh [dx_music_root R];
          extension = materialize_extension (history_ancestor C eh) (authorized_extension_commands C eh [dx_extension_root R]);
          pieces = (case tuning_validate C (mv_tuning music) of
              Inr active \<Rightarrow> (\<lambda>i. case ev_pieces extension i of
                  None \<Rightarrow> None | Some piece \<Rightarrow> if pitch_validate C (pitch piece) active then Some piece else None)
            | Inl _ \<Rightarrow> Map.empty)
      in (\<lparr>rv_music = music, rv_pieces = pieces, rv_pieces_locked = ev_pieces_locked extension,
           rv_available_emojis = ev_available_emojis extension\<rparr>,
          history_frontier C mh, history_frontier C eh))"

section \<open>Prepared admissions\<close>

definition member_grant :: "('x, 'l) replica_crates \<Rightarrow> bytes \<Rightarrow> bytes \<Rightarrow> 'x \<Rightarrow> bytes \<Rightarrow> 'x cap_grant" where
  "member_grant C namespace root owner_key member_id =
     \<lparr>parent = Some root, issuer = actor_from_key C owner_key, receiver = member_id,
      gr_area = area_root (policy C) namespace, all_rights = False\<rparr>"

definition prepare_member_grant_on ::
  "('x, 'l) replica_crates \<Rightarrow> 'x \<Rightarrow> bytes \<Rightarrow> bytes \<Rightarrow> 'x \<Rightarrow> bytes \<Rightarrow> string + 'x" where
  "prepare_member_grant_on C prep namespace root owner_key member_id =
     (let grant = member_grant C namespace root owner_key member_id in
      replica_error (prepare_ed25519 C prep (encode_grant C grant) (gr_area grant) [root] owner_key))"

definition prepare_member_grant ::
  "('x, 'l) replica_crates \<Rightarrow> durable_context \<Rightarrow> room_lane \<Rightarrow> 'x \<Rightarrow> 'x \<Rightarrow> bytes \<Rightarrow> string + 'x" where
  "prepare_member_grant C R lane prep owner_key member_id =
     prepare_member_grant_on C prep (namespace_of (dx_identity R) lane) (root_for_lane R lane) owner_key member_id"

definition command_area :: "('x, 'l) replica_crates \<Rightarrow> bytes \<Rightarrow> 'x room_command \<Rightarrow> 'x" where
  "command_area C namespace c =
     (case c of MusicCommand m \<Rightarrow> music_area C namespace m
              | ExtensionCommand e \<Rightarrow> extension_command_area (policy C) namespace e)"

definition encode_room_command ::
  "('x, 'l) replica_crates \<Rightarrow> bytes \<Rightarrow> bytes \<Rightarrow> bytes list \<Rightarrow> 'x room_command \<Rightarrow> command_codec_error + bytes" where
  "encode_room_command C namespace actor presented c =
     (case c of
        MusicCommand m \<Rightarrow> encode_music C namespace actor presented m
      | ExtensionCommand e \<Rightarrow>
          encode_extension_command (envelopes (policy C)) (music_command_domain (policy C)) namespace actor presented e)"

definition prepare_author_presenting ::
  "('x, 'l) replica_crates \<Rightarrow> durable_context \<Rightarrow> 'x \<Rightarrow> 'x \<Rightarrow> bytes list \<Rightarrow> 'x room_command \<Rightarrow> string + 'x" where
  "prepare_author_presenting C R prep key presented c =
     (let actor = actor_from_key C key; namespace = namespace_of (dx_identity R) (lane_of_command c) in
      attempt (codec_error (encode_room_command C namespace actor presented c)) (\<lambda>payload.
      replica_error (prepare_ed25519 C prep payload (command_area C namespace c) presented key)))"

definition prepare_reified_music ::
  "('x, 'l) replica_crates \<Rightarrow> durable_context \<Rightarrow> 'x \<Rightarrow> 'x \<Rightarrow> bytes list \<Rightarrow> 'x \<Rightarrow> 'x pitch_op \<Rightarrow> string + 'x \<times> 'x" where
  "prepare_reified_music C R prep key presented plan c =
     (let actor = actor_from_key C key; namespace = id_music (dx_identity R); area = music_area C namespace c in
      attempt (codec_error (encode_music C namespace actor presented c)) (\<lambda>payload.
      attempt (session_error (plan_entry C plan payload)) (\<lambda>e.
      attempt (replica_error (presentation_of C prep e area)) (\<lambda>context.
      attempt (session_error (with_prefix ''foundation presentation failed: '' (present_grants C key presented context))) (\<lambda>shown.
      attempt (replica_error (prepare C prep (PresentedRequest e shown area))) (\<lambda>prepared.
      Inr (prepared, e)))))))"

definition context_sign_presence ::
  "('x, 'l) replica_crates \<Rightarrow> durable_context \<Rightarrow> 'x \<Rightarrow> 'x \<Rightarrow> member_capabilities \<Rightarrow> u64 \<Rightarrow> u64 \<Rightarrow> ('x, 'x) tuned_pitch option \<Rightarrow>
   presence_error + bytes" where
  "context_sign_presence C R snapshot key grants session sequence sounding =
     sign_presence (claims_json C) (presence_json C) (presence_at C (snapshot_history C snapshot) (dx_music_root R))
       \<lparr>rk_object = id_object (dx_identity R), rk_music = id_music (dx_identity R)\<rparr> key (mc_music grants)
       session sequence sounding"

definition context_verify_presence ::
  "('x, 'l) replica_crates \<Rightarrow> durable_context \<Rightarrow> 'x \<Rightarrow> bytes \<Rightarrow> presence_error + ('x, 'x) tuned_pitch room_presence" where
  "context_verify_presence C R snapshot bs =
     verify_presence (claims_json C) (presence_json C) (presence_at C (snapshot_history C snapshot) (dx_music_root R))
       \<lparr>rk_object = id_object (dx_identity R), rk_music = id_music (dx_identity R)\<rparr> bs"

end
