(* ===== verification/Worker_Plane.thy ===== *)
theory Worker_Plane
  imports Room_Durable Session_Task "HOL-Library.Finite_Map"
begin

text \<open>
  The data plane of the room worker, \<open>RoomDataPlane\<close> of \<open>src/src/room/worker.rs\<close>: the two durable lanes, the
  keys of this replica and its repair attempts, with every method on them.

  Parameters: \<open>worker_crates\<close> has, beside those of \<open>Room_Durable\<close> and of the session task, the CBOR codec, the
  projection checkpoints and the repair records of the replica crates. A lane \<open>'l\<close> is the durable host with its
  log, so a commit that reaches the log is a change of the lane. Repair attempts call the lane and send frames through the event port: these calls are
  in \<open>repair_ports\<close>, on the world \<open>'w\<close>. The faults of the browser acceptance tests, which no ordinary build contains, are left out.
\<close>

section \<open>Payloads\<close>

definition worker_payload_version :: u16 where "worker_payload_version = 2"
definition max_active_repair_sessions :: nat where "max_active_repair_sessions = 8"
definition max_session_renewal_peers :: nat where "max_session_renewal_peers = 64"
definition session_renewal_checkpoint_name :: string where
  "session_renewal_checkpoint_name = ''walkie/session-renewal-floors''"
definition session_renewal_checkpoint_schema :: u32 where "session_renewal_checkpoint_schema = 1"

definition encode_payload :: "('a versioned \<Rightarrow> bytes option) \<Rightarrow> 'a \<Rightarrow> string + bytes" where
  "encode_payload into_writer body =
     (case into_writer \<lparr>vs_version = worker_payload_version, vs_body = body\<rparr> of
        None \<Rightarrow> Inl ''Room worker payload encoding failed''
      | Some bs \<Rightarrow> Inr bs)"

definition decode_payload :: "(bytes \<Rightarrow> 'a versioned option) \<Rightarrow> bytes \<Rightarrow> string + 'a" where
  "decode_payload from_reader bs =
     (case from_reader bs of
        None \<Rightarrow> Inl ''Room worker payload decoding failed''
      | Some value \<Rightarrow>
          if vs_version value \<noteq> worker_payload_version
          then Inl (''unsupported Room worker payload version '' @ decimal (unat (vs_version value)) @
            ''; expected '' @ decimal (unat worker_payload_version))
          else Inr (vs_body value))"

record worker_open =
  wo_object :: bytes
  wo_owner :: bytes
  wo_identity_seed :: bytes
  wo_authority_seed :: "bytes option"
  wo_session_trace :: bool

definition worker_open_new :: "room_identity \<Rightarrow> bytes \<Rightarrow> bytes \<Rightarrow> bytes option \<Rightarrow> worker_open" where
  "worker_open_new identity owner_id identity_seed authority_seed =
     \<lparr>wo_object = id_object identity, wo_owner = owner_id, wo_identity_seed = identity_seed,
      wo_authority_seed = authority_seed, wo_session_trace = False\<rparr>"

definition with_session_trace :: "bool \<Rightarrow> worker_open \<Rightarrow> worker_open" where
  "with_session_trace enabled request = request\<lparr>wo_session_trace := enabled\<rparr>"

record session_renewal_floors =
  fl_floors :: "(bytes, bytes) fmap"

record 'x worker_projection =
  wp_view :: "'x full_view"
  wp_music_revision :: u64
  wp_music_history_root :: bytes
  wp_music_frontier :: bytes
  wp_extension_frontier :: bytes

section \<open>Repair steps\<close>

text \<open>\<open>RepairRetryReason\<close> of crate \<open>hhhs_sync\<close> and its copy \<open>RoomWorkerRepairRetryReason\<close> are one type; the
  other two enums of the crate are \<open>attempt_status\<close> and \<open>attempt_disposition\<close>.\<close>

datatype repair_retry_reason = NoCapturedCut | RetryIncomplete | RootMismatch | HistoryAdvanced

datatype attempt_status =
  AttemptExchanging | AttemptComplete | AttemptDivergent | AttemptIncomplete | AttemptPolicyDivergence

datatype attempt_disposition =
  AttemptSynchronized | AttemptRetryFresh repair_retry_reason | AttemptAwaitPolicyChange

datatype repair_status =
    RepairExchanging
  | RepairComplete
  | RepairDivergent
  | RepairIncomplete
  | RepairPolicyDivergence
  | RepairRetryFresh repair_retry_reason

datatype repair_disposition = Synchronized | RetryFresh repair_retry_reason | AwaitPolicyChange

fun status_of_attempt :: "attempt_status \<Rightarrow> repair_status" where
  "status_of_attempt AttemptExchanging = RepairExchanging"
| "status_of_attempt AttemptComplete = RepairComplete"
| "status_of_attempt AttemptDivergent = RepairDivergent"
| "status_of_attempt AttemptIncomplete = RepairIncomplete"
| "status_of_attempt AttemptPolicyDivergence = RepairPolicyDivergence"

fun disposition_of_attempt :: "attempt_disposition \<Rightarrow> repair_disposition" where
  "disposition_of_attempt AttemptSynchronized = Synchronized"
| "disposition_of_attempt (AttemptRetryFresh reason) = RetryFresh reason"
| "disposition_of_attempt AttemptAwaitPolicyChange = AwaitPolicyChange"

fun status_of_disposition :: "attempt_disposition \<Rightarrow> repair_status" where
  "status_of_disposition AttemptSynchronized = RepairComplete"
| "status_of_disposition (AttemptRetryFresh reason) = RepairRetryFresh reason"
| "status_of_disposition AttemptAwaitPolicyChange = RepairPolicyDivergence"

record repair_outcome =
  ro_admitted :: nat
  ro_lifted :: nat
  ro_frames_sent :: nat
  ro_frames_received :: nat
  ro_refused :: nat
  ro_policy_divergence :: bool

record repair_progress =
  sp_session :: u64
  sp_status :: repair_status
  sp_outcome :: repair_outcome
  sp_disposition :: "repair_disposition option"

section \<open>Parameters and state\<close>

text \<open>\<open>local_view\<close>, \<open>view_position\<close>, \<open>view_checkpoint\<close> and \<open>local_transaction\<close> are what
  \<open>prepare_local_transaction\<close> gives its closure and makes of the checkpoint the closure saves; \<open>reset_channel\<close>
  and the other calls of the service are in \<open>Worker_Service\<close>.\<close>

record ('x, 'd, 'l) worker_crates =
  replicas :: "('x, 'l) replica_crates"
  sessions :: "('x, 'd) hhhs"
  write_floors :: "session_renewal_floors versioned \<Rightarrow> bytes option"
  read_floors :: "bytes \<Rightarrow> session_renewal_floors versioned option"
  repair_cached :: "'l \<Rightarrow> 'l"
  projection_key :: "string \<Rightarrow> u32 \<Rightarrow> string + 'x"
  checkpoint_of :: "'x \<Rightarrow> 'x \<Rightarrow> 'x option"
  checkpoint_intact :: "'x \<Rightarrow> bool"
  checkpoint_bytes :: "'x \<Rightarrow> bytes"
  local_view :: "'l \<Rightarrow> string + 'x"
  view_position :: "'x \<Rightarrow> 'x"
  view_checkpoint :: "'x \<Rightarrow> 'x \<Rightarrow> bytes \<Rightarrow> string + 'x"
  local_transaction :: "'l \<Rightarrow> 'x option \<Rightarrow> string + 'x"
  commit_local :: "'x \<Rightarrow> 'l \<Rightarrow> (string + unit) \<times> 'l"
  record_hash :: "'x \<Rightarrow> bytes"
  record_entry :: "'x \<Rightarrow> 'x"
  record_bytes :: "'x \<Rightarrow> bytes"
  record_parse :: "bytes \<Rightarrow> 'x option"
  repair_apply :: "(bytes \<times> bytes) list \<Rightarrow> 'l \<Rightarrow> (string + 'x) \<times> 'l"
  report_refused :: "'x \<Rightarrow> bytes list"
  report_admitted :: "'x \<Rightarrow> bytes list"
  retained_admission :: "'x \<Rightarrow> bytes \<Rightarrow> 'x option"
  debug_hash :: "bytes \<Rightarrow> string"
  attempt_status_of :: "'x \<Rightarrow> attempt_status"
  attempt_outcome :: "'x \<Rightarrow> repair_outcome"
  attempt_terminal :: "'x \<Rightarrow> bool"
  mark_incomplete :: "'x \<Rightarrow> 'x"
  confirm_close :: "'l \<Rightarrow> string + unit \<Rightarrow> 'x \<Rightarrow> string + 'x"
  confirmed_disposition :: "'x \<Rightarrow> attempt_disposition"
  confirmed_outcome :: "'x \<Rightarrow> repair_outcome"

text \<open>\<open>attempt_receive\<close> gives the result, the attempt and the lane it leaves.\<close>

record ('x, 'l, 'w) repair_ports =
  attempt_initiate :: "'x \<Rightarrow> room_lane \<Rightarrow> 'l \<Rightarrow> 'w \<Rightarrow> (string + 'x) \<times> 'w"
  attempt_accept :: "'x \<Rightarrow> room_lane \<Rightarrow> 'l \<Rightarrow> bytes \<Rightarrow> 'w \<Rightarrow> (string + 'x) \<times> 'w"
  attempt_receive :: "'x \<Rightarrow> bytes \<Rightarrow> 'x \<times> 'l \<Rightarrow> 'w \<Rightarrow> (string + unit) \<times> ('x \<times> 'l) \<times> 'w"

record 'x repair_state =
  rs_lane :: room_lane
  rs_attempt :: 'x

record ('x, 'l) data_plane =
  pl_room :: durable_context
  pl_music :: 'l
  pl_extension :: 'l
  pl_signing_key :: 'x
  pl_grant_authority :: "'x option"
  pl_local_actor :: bytes
  pl_repair :: "u64 \<rightharpoonup> 'x repair_state"

section \<open>Opening\<close>

text \<open>The root of a lane, unless it is there; the grant of the local actor, unless it holds one.\<close>

definition ensure_root ::
  "('x, 'l) replica_crates \<Rightarrow> bytes \<Rightarrow> bytes \<Rightarrow> bytes \<Rightarrow> 'l \<Rightarrow> string + 'l" where
  "ensure_root C root namespace owner_id l =
     attempt (lane_state C l) (\<lambda>snapshot.
     if history_contains C (snapshot_history C snapshot) root then Inr l else
     attempt (preparation C l) (\<lambda>prep.
     attempt (prepare C prep (TrustedRootRequest (lane_trusted_root C namespace owner_id))) (\<lambda>prepared.
     case commit C prepared l of (Inl e, _) \<Rightarrow> Inl e | (Inr _, l') \<Rightarrow> Inr l')))"

definition ensure_grant ::
  "('x, 'l) replica_crates \<Rightarrow> durable_context \<Rightarrow> room_lane \<Rightarrow> 'x \<Rightarrow> bytes \<Rightarrow> 'l \<Rightarrow> string + 'l" where
  "ensure_grant C R lane authority_key actor l =
     attempt (lane_state C l) (\<lambda>snapshot.
     if context_capabilities_for_lane C R actor lane snapshot \<noteq> [] then Inr l else
     attempt (preparation C l) (\<lambda>prep.
     attempt (prepare_member_grant C R lane prep authority_key actor) (\<lambda>prepared.
     case commit C prepared l of (Inl e, _) \<Rightarrow> Inl e | (Inr _, l') \<Rightarrow> Inr l')))"

definition plane_open ::
  "('x, 'd, 'l) worker_crates \<Rightarrow> worker_open \<Rightarrow> 'x \<Rightarrow> 'x \<Rightarrow> 'x list \<Rightarrow> 'x list \<Rightarrow> string + ('x, 'l) data_plane" where
  "plane_open B request music_log extension_log music_transactions extension_transactions =
     (let C = replicas B; identity = from_object C (wo_object request); owner_id = wo_owner request in
      attempt (from_transaction_logs C identity owner_id music_transactions extension_transactions) (\<lambda>(R, music, extension).
      let key = key_from_seed C (wo_identity_seed request); actor = actor_from_key C key in
      attempt (with_prefix ''claiming durable music lane: '' (durable_host C music music_log)) (\<lambda>music.
      attempt (with_prefix ''claiming durable extension lane: '' (durable_host C extension extension_log)) (\<lambda>extension.
      attempt (ensure_root C (root_for_lane R Music) (id_music identity) owner_id music) (\<lambda>music.
      attempt (ensure_root C (root_for_lane R Extension) (id_extension identity) owner_id extension) (\<lambda>extension.
      let music = repair_cached B music; extension = repair_cached B extension;
          authority_key = map_option (key_from_seed C) (wo_authority_seed request);
          plane = \<lparr>pl_room = R, pl_music = music, pl_extension = extension, pl_signing_key = key,
                   pl_grant_authority = authority_key, pl_local_actor = actor, pl_repair = Map.empty\<rparr>
      in case authority_key of
           None \<Rightarrow> Inr plane
         | Some a \<Rightarrow>
             if actor_from_key C a \<noteq> owner_id then Inl ''Room worker authority does not match room owner'' else
             attempt (ensure_grant C R Music a actor music) (\<lambda>music.
             attempt (ensure_grant C R Extension a actor extension) (\<lambda>extension.
             Inr (plane\<lparr>pl_music := music, pl_extension := extension\<rparr>)))))))))"

section \<open>Reading the lanes\<close>

definition plane_lane :: "('x, 'l) data_plane \<Rightarrow> room_lane \<Rightarrow> 'l" where
  "plane_lane P lane = (case lane of Music \<Rightarrow> pl_music P | Extension \<Rightarrow> pl_extension P)"

definition put_lane :: "room_lane \<Rightarrow> 'l \<Rightarrow> ('x, 'l) data_plane \<Rightarrow> ('x, 'l) data_plane" where
  "put_lane lane l P = (case lane of Music \<Rightarrow> P\<lparr>pl_music := l\<rparr> | Extension \<Rightarrow> P\<lparr>pl_extension := l\<rparr>)"

definition lane_snapshot :: "('x, 'd, 'l) worker_crates \<Rightarrow> ('x, 'l) data_plane \<Rightarrow> room_lane \<Rightarrow> string + 'x" where
  "lane_snapshot B P lane = lane_state (replicas B) (plane_lane P lane)"

definition music_snapshot :: "('x, 'd, 'l) worker_crates \<Rightarrow> ('x, 'l) data_plane \<Rightarrow> string + 'x" where
  "music_snapshot B P = lane_snapshot B P Music"

definition plane_view :: "('x, 'd, 'l) worker_crates \<Rightarrow> ('x, 'l) data_plane \<Rightarrow> string + 'x full_view" where
  "plane_view B P =
     attempt (music_snapshot B P) (\<lambda>music.
     attempt (lane_snapshot B P Extension) (\<lambda>extension.
     Inr (fst (view_with_snapshots (replicas B) (pl_room P) music extension))))"

definition plane_capabilities ::
  "('x, 'd, 'l) worker_crates \<Rightarrow> ('x, 'l) data_plane \<Rightarrow> bytes \<Rightarrow> room_lane \<Rightarrow> string + bytes list" where
  "plane_capabilities B P actor lane =
     attempt (lane_snapshot B P lane) (\<lambda>snapshot.
     Inr (context_capabilities_for_lane (replicas B) (pl_room P) actor lane snapshot))"

definition public_music_revision :: "('x, 'l) replica_crates \<Rightarrow> 'x \<Rightarrow> u64" where
  "public_music_revision C snapshot = history_epoch C snapshot"

text \<open>\<open>replica_frontier_digest\<close> of \<open>src/src/net/replica.rs\<close>\<close>

definition replica_frontier_digest :: "('x, 'l) replica_crates \<Rightarrow> 'x \<Rightarrow> bytes" where
  "replica_frontier_digest C place =
     (let entries = frontier_entries C place in
      encode_digest C ((ascii_bytes ''walkie replica frontier v5'' @ [0]) # to_le (of_nat (length entries) :: u64) # entries))"

definition plane_projection ::
  "('x, 'd, 'l) worker_crates \<Rightarrow> ('x, 'l) data_plane \<Rightarrow> string + 'x worker_projection" where
  "plane_projection B P =
     (let C = replicas B in
      attempt (music_snapshot B P) (\<lambda>music_state.
      attempt (lane_snapshot B P Extension) (\<lambda>extension_state.
      case view_with_snapshots C (pl_room P) music_state extension_state of (view, music, extension) \<Rightarrow>
      Inr \<lparr>wp_view = view, wp_music_revision = public_music_revision C music_state,
           wp_music_history_root = root_of_history C (snapshot_history C music_state),
           wp_music_frontier = replica_frontier_digest C music,
           wp_extension_frontier = replica_frontier_digest C extension\<rparr>)))"

section \<open>Renewal floors\<close>

definition validate_session_renewal_key :: "('x, 'l) data_plane \<Rightarrow> renewal_key \<Rightarrow> string + unit" where
  "validate_session_renewal_key P key =
     (if rk_room key \<noteq> id_object (dx_identity (pl_room P)) then Inl ''session renewal key names another room''
      else if rk_local key \<noteq> pl_local_actor P then Inl ''session renewal key names another local actor''
      else if rk_peer key = rk_local key then Inl ''session renewal key cannot name the local actor as its peer''
      else Inr ())"

definition session_renewal_checkpoint_key :: "('x, 'd, 'l) worker_crates \<Rightarrow> string + 'x" where
  "session_renewal_checkpoint_key B =
     projection_key B session_renewal_checkpoint_name session_renewal_checkpoint_schema"

definition floor_count :: "session_renewal_floors \<Rightarrow> nat" where
  "floor_count floors = size (fmdom (fl_floors floors))"

definition session_renewal_floors ::
  "('x, 'd, 'l) worker_crates \<Rightarrow> ('x, 'l) data_plane \<Rightarrow> string + session_renewal_floors" where
  "session_renewal_floors B P =
     attempt (session_renewal_checkpoint_key B) (\<lambda>key.
     attempt (music_snapshot B P) (\<lambda>snapshot.
     case checkpoint_of B snapshot key of
       None \<Rightarrow> Inr \<lparr>fl_floors = fmempty\<rparr>
     | Some mark \<Rightarrow>
         if \<not> checkpoint_intact B mark then Inl ''session renewal checkpoint failed its integrity check'' else
         attempt (decode_payload (read_floors B) (checkpoint_bytes B mark)) (\<lambda>floors.
         if floor_count floors > max_session_renewal_peers
         then Inl (''session renewal checkpoint has '' @ decimal (floor_count floors) @ '' peers; maximum is '' @
           decimal max_session_renewal_peers)
         else Inr floors)))"

definition load_session_renewal_floor ::
  "('x, 'd, 'l) worker_crates \<Rightarrow> ('x, 'l) data_plane \<Rightarrow> renewal_key \<Rightarrow> string + bytes option" where
  "load_session_renewal_floor B P key =
     attempt (validate_session_renewal_key P key) (\<lambda>_.
     attempt (session_renewal_floors B P) (\<lambda>floors. Inr (fmlookup (fl_floors floors) (rk_peer key))))"

text \<open>A call on one lane.\<close>

definition on_lane ::
  "room_lane \<Rightarrow> ('l \<Rightarrow> (string + 'a) \<times> 'l) \<Rightarrow> (('x, 'l) data_plane, string, 'a) eff" where
  "on_lane lane call = on_part (\<lambda>P. plane_lane P lane) (put_lane lane) id call"

definition persist_session_renewal_floor ::
  "('x, 'd, 'l) worker_crates \<Rightarrow> renewal_key \<Rightarrow> bytes \<Rightarrow> bytes list option \<Rightarrow> (('x, 'l) data_plane, string, unit) eff" where
  "persist_session_renewal_floor B key mark expected_frontier =
     (let C = replicas B; A = authority (sessions B) in
      bnd (gets (\<lambda>P. P)) (\<lambda>P.
      bnd (lift_result id (validate_session_renewal_key P key)) (\<lambda>_.
      bnd (lift_result id (with_prefix ''invalid session renewal floor: '' (floor_from_bytes A mark))) (\<lambda>decoded.
      bnd (lift_result id (music_snapshot B P)) (\<lambda>current.
      andthen (refuse (case expected_frontier of
          None \<Rightarrow> False | Some expected \<Rightarrow> position_bytes (sessions B) (floor_base A decoded) \<noteq> expected)
        ''session renewal floor and install frontier differ'')
      (andthen (refuse (expected_frontier = None \<and>
          (\<exists>e \<in> set (position_entries A (floor_base A decoded)). \<not> history_contains C (snapshot_history C current) e))
        ''legacy session renewal floor names unavailable music history'')
      (bnd (lift_result id (session_renewal_floors B P)) (\<lambda>floors.
      andthen (refuse (fmlookup (fl_floors floors) (rk_peer key) = None \<and> floor_count floors \<ge> max_session_renewal_peers)
        (''session renewal checkpoint already has '' @ decimal max_session_renewal_peers @ '' peers''))
      (bnd (lift_result id (encode_payload (write_floors B)
          (floors\<lparr>fl_floors := fmupd (rk_peer key) mark (fl_floors floors)\<rparr>))) (\<lambda>bs.
      bnd (lift_result id (session_renewal_checkpoint_key B)) (\<lambda>checkpoint_key.
      bnd (lift_result id (local_view B (pl_music P))) (\<lambda>view.
      let frontier_matches = (case expected_frontier of
            None \<Rightarrow> True | Some expected \<Rightarrow> position_bytes (sessions B) (view_position B view) = expected) in
      bnd (if \<not> frontier_matches then ret None
           else bnd (lift_result id (view_checkpoint B view checkpoint_key bs)) (\<lambda>saved. ret (Some saved))) (\<lambda>saved.
      bnd (lift_result id (local_transaction B (pl_music P) saved)) (\<lambda>prepared.
      andthen (refuse (\<not> frontier_matches)
        ''session renewal install no longer names the prepared transaction frontier'')
      (on_lane Music (commit_local B prepared))))))))))))))))"

section \<open>Commits\<close>

definition plane_commit ::
  "('x, 'd, 'l) worker_crates \<Rightarrow> 'x room_command \<Rightarrow> (('x, 'l) data_plane, string, bytes \<times> 'x) eff" where
  "plane_commit B c =
     (let C = replicas B; lane = lane_of_command c in
      bnd (gets (\<lambda>P. P)) (\<lambda>P.
      bnd (lift_result id (plane_capabilities B P (pl_local_actor P) lane)) (\<lambda>grants.
      andthen (refuse (grants = []) ''local actor has no live capability for this Room-v5 lane'')
      (bnd (lift_result id (preparation C (plane_lane P lane))) (\<lambda>prep.
      bnd (lift_result id (prepare_author_presenting C (pl_room P) prep (pl_signing_key P) grants c)) (\<lambda>prepared.
      bnd (on_lane lane (commit C prepared)) (\<lambda>committed.
      ret (committed_entry C committed, committed_record C committed))))))))"

definition plane_commit_session ::
  "('x, 'd, 'l) worker_crates \<Rightarrow> 'x \<Rightarrow> 'x pitch_op \<Rightarrow> (('x, 'l) data_plane, string, 'x \<times> 'x \<times> 'x) eff" where
  "plane_commit_session B plan c =
     (let C = replicas B in
      bnd (gets (\<lambda>P. P)) (\<lambda>P.
      bnd (lift_result id (plane_capabilities B P (pl_local_actor P) Music)) (\<lambda>grants.
      andthen (refuse (grants = []) ''local actor has no live capability for the music session'')
      (bnd (lift_result id (preparation C (pl_music P))) (\<lambda>prep.
      bnd (lift_result id (prepare_reified_music C (pl_room P) prep (pl_signing_key P) grants plan c)) (\<lambda>(prepared, e).
      bnd (on_lane Music (commit C prepared)) (\<lambda>committed.
      andthen (refuse (committed_entry C committed \<noteq> entry_hash_of C e)
        ''session reification committed an unexpected entry identity'')
      (ret (e, committed_admission C committed, committed_record C committed)))))))))"

definition plane_session_foundation ::
  "('x, 'd, 'l) worker_crates \<Rightarrow> ('x, 'l) data_plane \<Rightarrow> bytes \<Rightarrow> string + 'x foundation" where
  "plane_session_foundation B P peer =
     (let C = replicas B in
      attempt (plane_capabilities B P (pl_local_actor P) Music) (\<lambda>local_grants.
      attempt (plane_capabilities B P peer Music) (\<lambda>peer_grants.
      if local_grants = [] \<or> peer_grants = []
      then Inl ''session peer does not yet have a complete admitted music foundation'' else
      attempt (music_snapshot B P) (\<lambda>snapshot.
      case mc_music (owner_capabilities (pl_room P)) of [] \<Rightarrow> Inl ''music capability root is absent'' | root # _ \<Rightarrow>
      attempt (plane_view B P) (\<lambda>view.
      Inr \<lparr>fo_identity = dx_identity (pl_room P), fo_local = pl_local_actor P, fo_peer = peer,
           fo_signing_key = pl_signing_key P, fo_history = snapshot_history C snapshot, fo_music_root = root,
           fo_local_grants = local_grants, fo_peer_grants = peer_grants,
           fo_durable_view = mv_shared_pitches (rv_music view),
           fo_durable_revision = public_music_revision C snapshot\<rparr>)))))"

text \<open>\<open>grant_peer\<close>: the key that may grant, then one lane after the other.\<close>

definition granting_key :: "('x, 'd, 'l) worker_crates \<Rightarrow> ('x, 'l) data_plane \<Rightarrow> string + 'x" where
  "granting_key B P =
     (if dx_owner (pl_room P) = pl_local_actor P then Inr (pl_signing_key P)
      else case pl_grant_authority P of
             None \<Rightarrow> Inl ''local worker does not hold this room's grant authority''
           | Some key \<Rightarrow>
               if actor_from_key (replicas B) key = dx_owner (pl_room P) then Inr key
               else Inl ''local worker does not hold this room's grant authority'')"

definition grant_lane ::
  "('x, 'd, 'l) worker_crates \<Rightarrow> 'x \<Rightarrow> bytes \<Rightarrow> room_lane \<Rightarrow> (('x, 'l) data_plane, string, (room_lane \<times> bytes \<times> 'x) list) eff" where
  "grant_lane B authority_key peer lane =
     (let C = replicas B in
      bnd (gets (\<lambda>P. P)) (\<lambda>P.
      bnd (lift_result id (plane_capabilities B P peer lane)) (\<lambda>grants.
      if grants \<noteq> [] then ret [] else
      bnd (lift_result id (preparation C (plane_lane P lane))) (\<lambda>prep.
      bnd (lift_result id (prepare_member_grant C (pl_room P) lane prep authority_key peer)) (\<lambda>prepared.
      bnd (on_lane lane (commit C prepared)) (\<lambda>committed.
      ret [(lane, committed_entry C committed, committed_record C committed)]))))))"

definition plane_grant_peer ::
  "('x, 'd, 'l) worker_crates \<Rightarrow> bytes \<Rightarrow> (('x, 'l) data_plane, string, (room_lane \<times> bytes \<times> 'x) list) eff" where
  "plane_grant_peer B peer =
     bnd (gets (\<lambda>P. P)) (\<lambda>P.
     if peer = pl_local_actor P then ret [] else
     bnd (lift_result id (granting_key B P)) (\<lambda>authority_key.
     bnd (collect (grant_lane B authority_key peer) [Music, Extension]) (\<lambda>granted.
     ret (concat granted))))"

definition plane_apply_live ::
  "('x, 'd, 'l) worker_crates \<Rightarrow> 'x live_record \<Rightarrow> (('x, 'l) data_plane, string, bool \<times> bytes) eff" where
  "plane_apply_live B live =
     (let e = record_hash B (lr_record live); bs = record_bytes B (lr_record live) in
      bnd (on_lane (lr_lane live) (repair_apply B [(e, bs)])) (\<lambda>report.
      ret (report_refused B report = [] \<and> e \<in> set (report_admitted B report), e)))"

definition debug_lane :: "room_lane \<Rightarrow> string" where
  "debug_lane lane = (case lane of Music \<Rightarrow> ''Music'' | Extension \<Rightarrow> ''Extension'')"

definition plane_entry_admission ::
  "('x, 'd, 'l) worker_crates \<Rightarrow> ('x, 'l) data_plane \<Rightarrow> room_lane \<Rightarrow> bytes \<Rightarrow> string + 'x" where
  "plane_entry_admission B P lane e =
     attempt (preparation (replicas B) (plane_lane P lane)) (\<lambda>prep.
     case retained_admission B prep e of
       None \<Rightarrow> Inl (''durable '' @ debug_lane lane @ '' entry '' @ debug_hash B e @ '' is not retained'')
     | Some admission \<Rightarrow> Inr admission)"

section \<open>Presence\<close>

definition presence_texts :: "presence_error + 'a \<Rightarrow> string + 'a" where
  "presence_texts r = (case r of Inl e \<Rightarrow> Inl (display_presence_error e) | Inr a \<Rightarrow> Inr a)"

definition plane_sign_presence ::
  "('x, 'd, 'l) worker_crates \<Rightarrow> ('x, 'l) data_plane \<Rightarrow> u64 \<Rightarrow> u64 \<Rightarrow> ('x, 'x) tuned_pitch option \<Rightarrow> string + bytes" where
  "plane_sign_presence B P session sequence sounding =
     (let C = replicas B in
      attempt (music_snapshot B P) (\<lambda>music.
      attempt (lane_snapshot B P Extension) (\<lambda>extension.
      presence_texts (context_sign_presence C (pl_room P) music (pl_signing_key P)
        (context_capabilities_for C (pl_room P) (pl_local_actor P) music extension) session sequence sounding))))"

definition plane_verify_presence ::
  "('x, 'd, 'l) worker_crates \<Rightarrow> ('x, 'l) data_plane \<Rightarrow> bytes \<Rightarrow> string + ('x, 'x) tuned_pitch room_presence" where
  "plane_verify_presence B P bs =
     attempt (music_snapshot B P) (\<lambda>music. presence_texts (context_verify_presence (replicas B) (pl_room P) music bs))"

section \<open>Repair attempts\<close>

definition repair_progress_of ::
  "('x, 'd, 'l) worker_crates \<Rightarrow> u64 \<Rightarrow> 'x \<Rightarrow> repair_disposition option \<Rightarrow> repair_progress" where
  "repair_progress_of B i attempt_state disposition =
     \<lparr>sp_session = i, sp_status = status_of_attempt (attempt_status_of B attempt_state),
      sp_outcome = attempt_outcome B attempt_state, sp_disposition = disposition\<rparr>"

definition ensure_repair_slot :: "u64 \<Rightarrow> ('x, 'l) data_plane \<Rightarrow> string + unit" where
  "ensure_repair_slot i P =
     (if pl_repair P i \<noteq> None then Inl (''repair session '' @ decimal (unat i) @ '' already exists'')
      else if card (dom (pl_repair P)) \<ge> max_active_repair_sessions
      then Inl (''Room worker already has '' @ decimal (card (dom (pl_repair P))) @ '' active repair sessions'')
      else Inr ())"

definition set_repair :: "u64 \<Rightarrow> 'x repair_state option \<Rightarrow> ('x, 'l) data_plane \<Rightarrow> ('x, 'l) data_plane" where
  "set_repair i state P = P\<lparr>pl_repair := (pl_repair P)(i := state)\<rparr>"

text \<open>An attempt reads the lane, or changes it, and sends on the world.\<close>

definition start_attempt ::
  "('x, 'd, 'l) worker_crates \<Rightarrow> u64 \<Rightarrow> room_lane \<Rightarrow> ('l \<Rightarrow> 'w \<Rightarrow> (string + 'x) \<times> 'w) \<Rightarrow>
   (('x, 'l) data_plane \<times> 'w, string, repair_progress) eff" where
  "start_attempt B i lane begun =
     bnd (gets fst) (\<lambda>P.
     bnd (lift_result id (ensure_repair_slot i P)) (\<lambda>_.
     bnd (on_part snd (\<lambda>w (P, _). (P, w)) id (begun (plane_lane P lane))) (\<lambda>attempt_state.
     andthen (modify (\<lambda>(P, w). (set_repair i (Some \<lparr>rs_lane = lane, rs_attempt = attempt_state\<rparr>) P, w)))
     (ret (repair_progress_of B i attempt_state None)))))"

definition start_initiator ::
  "('x, 'd, 'l) worker_crates \<Rightarrow> ('x, 'l, 'w) repair_ports \<Rightarrow> 'x \<Rightarrow> u64 \<Rightarrow> room_lane \<Rightarrow>
   (('x, 'l) data_plane \<times> 'w, string, repair_progress) eff" where
  "start_initiator B R events i lane = start_attempt B i lane (attempt_initiate R events lane)"

definition start_responder ::
  "('x, 'd, 'l) worker_crates \<Rightarrow> ('x, 'l, 'w) repair_ports \<Rightarrow> 'x \<Rightarrow> u64 \<Rightarrow> room_lane \<Rightarrow> bytes \<Rightarrow>
   (('x, 'l) data_plane \<times> 'w, string, repair_progress) eff" where
  "start_responder B R events i lane hello =
     start_attempt B i lane (\<lambda>l. attempt_accept R events lane l hello)"

definition not_active :: "u64 \<Rightarrow> string" where
  "not_active i = ''repair session '' @ decimal (unat i) @ '' is not active''"

definition advance_repair ::
  "('x, 'd, 'l) worker_crates \<Rightarrow> ('x, 'l, 'w) repair_ports \<Rightarrow> 'x \<Rightarrow> u64 \<Rightarrow> bytes \<Rightarrow>
   (('x, 'l) data_plane \<times> 'w, string, repair_progress) eff" where
  "advance_repair B R events i frame =
     bnd (gets fst) (\<lambda>P.
     bnd (ok_or (not_active i) (pl_repair P i)) (\<lambda>state.
     let lane = rs_lane state in
     bnd (calling snd (\<lambda>w (P, _). (P, w))
       (\<lambda>w. case attempt_receive R events frame (rs_attempt state, plane_lane P lane) w of (r, kept, w') \<Rightarrow> ((r, kept), w')))
       (\<lambda>(received, attempt_state, l).
     andthen (modify (\<lambda>(P, w).
       (set_repair i (Some (state\<lparr>rs_attempt := attempt_state\<rparr>)) (put_lane lane l P), w)))
     (bnd (lift_result id received) (\<lambda>_. ret (repair_progress_of B i attempt_state None))))))"

definition finish_repair ::
  "('x, 'd, 'l) worker_crates \<Rightarrow> u64 \<Rightarrow> string option \<Rightarrow> (('x, 'l) data_plane, string, repair_progress) eff" where
  "finish_repair B i close_error =
     bnd (gets (\<lambda>P. pl_repair P i)) (\<lambda>found.
     bnd (ok_or (not_active i) found) (\<lambda>state.
     andthen (modify (set_repair i None))
     (bnd (gets (\<lambda>P. plane_lane P (rs_lane state))) (\<lambda>l.
     let attempt_state = (if attempt_terminal B (rs_attempt state) then rs_attempt state
                          else mark_incomplete B (rs_attempt state));
         closed = (case close_error of Some e \<Rightarrow> Inl e | None \<Rightarrow> Inr ()) in
     bnd (lift_result id (confirm_close B l closed attempt_state)) (\<lambda>confirmed.
     let disposition = confirmed_disposition B confirmed in
     ret \<lparr>sp_session = i, sp_status = status_of_disposition disposition, sp_outcome = confirmed_outcome B confirmed,
          sp_disposition = Some (disposition_of_attempt disposition)\<rparr>)))))"

definition repair_lane_for :: "('x, 'l) data_plane \<Rightarrow> u64 \<Rightarrow> room_lane option" where
  "repair_lane_for P i = map_option rs_lane (pl_repair P i)"

definition repair_revision_advanced :: "u64 option \<Rightarrow> u64 \<Rightarrow> bool" where
  "repair_revision_advanced before after = (case before of None \<Rightarrow> False | Some b \<Rightarrow> b < after)"

end
