(* ===== verification/Worker_Service.thy ===== *)
theory Worker_Service
  imports Worker_Plane
begin

text \<open>
  The service of the room worker, \<open>RoomReplicaWorkerService\<close> of \<open>src/src/room/worker.rs\<close>: the commands and
  requests of the window, the projection it publishes, and what it tells the session task.

  The ports are the record \<open>service_ports\<close> on a world \<open>'w\<close>: the factory (\<open>open_logs\<close> gives the two logs and
  their transactions, which \<open>RoomDataPlane::open\<close> takes), the event port of the worker host, the two queues of
  the session task, and the one-shot reply of a reset. A subscription is a key \<open>'k\<close>; the sets are walked in
  order. The service handles one request at a time and awaits every call.
\<close>

section \<open>Messages\<close>

datatype 'x worker_command =
    CommitCommand "'x room_command"
  | GrantPeer bytes
  | StartSessionPeer bytes
  | ResetSessionProjection
  | DrainSession
  | SessionRenewalStore renewal_store_request
  | SignPresence u64 u64 "('x, 'x) tuned_pitch option"
  | VerifyPresence bytes

datatype repair_request =
    StartInitiator u64 room_lane
  | StartResponder u64 room_lane bytes
  | RepairFrameRequest u64 bytes
  | FinishRepair u64 "string option"

datatype renewal_store_value = Loaded "bytes option" | PersistedValue

record renewal_store_response =
  rr_request :: u64
  rr_result :: "string + renewal_store_value"

datatype 'x worker_response =
    OpenedResponse bytes "'x worker_projection"
  | CommandCommitted bytes u64
  | PeerGranted "(room_lane \<times> bytes) list" u64
  | SessionPeerStarted
  | SessionProjectionReset bool
  | SessionDrained bool u64
  | SessionRenewalStored renewal_store_response
  | InboundApplied bool bytes u64
  | PresenceSigned bytes
  | PresenceVerified "('x, 'x) tuned_pitch room_presence"
  | RepairProgress repair_progress
  | Frontiers "'x worker_projection"
  | ClosedResponse

text \<open>\<open>WorkerRequestKind\<close> and \<open>WorkerEventKind\<close> of crate \<open>hhhs_web_browser\<close>, as far as they are used; an unknown
  request is its text.\<close>

datatype 'k worker_request =
    OpenRequest
  | SubscribeRequest 'k
  | UnsubscribeRequest 'k
  | CommandRequest
  | InboundRecordRequest
  | RepairRequest
  | PingRequest
  | CloseRequest
  | AcknowledgeRepairRequest
  | UnknownRequest string

datatype 'k reply_kind = ReadyReply | ResponseReply | SnapshotReply 'k u64 | PongReply | ClosedReply

type_synonym 'k worker_reply = "'k reply_kind \<times> bytes"

record 'x worker_serde =
  write_projection :: "'x worker_projection versioned \<Rightarrow> bytes option"
  write_response :: "'x worker_response versioned \<Rightarrow> bytes option"
  read_open :: "bytes \<Rightarrow> worker_open versioned option"
  read_command :: "bytes \<Rightarrow> 'x worker_command versioned option"
  read_repair :: "bytes \<Rightarrow> repair_request versioned option"

text \<open>\<open>emit_revision\<close> is \<open>emit_revision_or_reset\<close>: event port, subscription, previous and new revision, the
  payload, and the payload of a reset, which it may ask for. \<open>send_task\<close> says whether the input was taken.\<close>

record ('x, 'k, 'l, 'w) service_ports =
  repairs :: "('x, 'l, 'w) repair_ports"
  open_logs :: "worker_open \<Rightarrow> 'w \<Rightarrow> (string + 'x \<times> 'x \<times> 'x list \<times> 'x list) \<times> 'w"
  emit_outbound :: "'x \<Rightarrow> bytes \<Rightarrow> 'w \<Rightarrow> (string + unit) \<times> 'w"
  emit_revision :: "'x \<Rightarrow> 'k \<Rightarrow> u64 \<Rightarrow> u64 \<Rightarrow> bytes \<Rightarrow> string + bytes \<Rightarrow> 'w \<Rightarrow> (string + unit) \<times> 'w"
  send_task :: "'x task_input \<Rightarrow> 'w \<Rightarrow> bool \<times> 'w"
  try_reification :: "'w \<Rightarrow> 'x reification option \<times> 'w"
  reset_channel :: "'w \<Rightarrow> 'x \<times> 'w"
  await_reset :: "'x \<Rightarrow> 'w \<Rightarrow> (string + bool) option \<times> 'w"

section \<open>State\<close>

record ('x, 'k, 'l, 'w) worker_service =
  sv_room :: "('x, 'l) data_plane option"
  sv_projection :: "'x worker_projection option"
  sv_revision :: u64
  sv_subscriptions :: "'k set"
  sv_session :: bool
  sv_session_peers :: "bytes set"
  sv_world :: 'w

type_synonym ('x, 'k, 'l, 'w, 'a) service_eff = "(('x, 'k, 'l, 'w) worker_service, string, 'a) eff"

definition service_new :: "'w \<Rightarrow> ('x, 'k, 'l, 'w) worker_service" where
  "service_new w =
     \<lparr>sv_room = None, sv_projection = None, sv_revision = 0, sv_subscriptions = {}, sv_session = False,
      sv_session_peers = {}, sv_world = w\<rparr>"

definition service_with_session :: "'w \<Rightarrow> ('x, 'k, 'l, 'w) worker_service" where
  "service_with_session w = (service_new w)\<lparr>sv_session := True\<rparr>"

definition on_world :: "('w \<Rightarrow> (string + 'a) \<times> 'w) \<Rightarrow> ('x, 'k, 'l, 'w, 'a) service_eff" where
  "on_world call = on_part sv_world (\<lambda>w s. s\<lparr>sv_world := w\<rparr>) id call"

definition ask_world :: "('w \<Rightarrow> 'a \<times> 'w) \<Rightarrow> ('x, 'k, 'l, 'w, 'a) service_eff" where
  "ask_world call = calling sv_world (\<lambda>w s. s\<lparr>sv_world := w\<rparr>) call"

definition open_room :: "('x, 'k, 'l, 'w, ('x, 'l) data_plane) service_eff" where
  "open_room = bnd (gets sv_room) (ok_or ''Room worker is not open'')"

definition reading_room :: "(('x, 'l) data_plane \<Rightarrow> string + 'a) \<Rightarrow> ('x, 'k, 'l, 'w, 'a) service_eff" where
  "reading_room f = bnd open_room (\<lambda>P. lift_result id (f P))"

definition on_room :: "(('x, 'l) data_plane, string, 'a) eff \<Rightarrow> ('x, 'k, 'l, 'w, 'a) service_eff" where
  "on_room m = bnd open_room (\<lambda>_. zoom (\<lambda>s. the (sv_room s)) (\<lambda>P s. s\<lparr>sv_room := Some P\<rparr>) m)"

definition on_room_and_world ::
  "(('x, 'l) data_plane \<times> 'w, string, 'a) eff \<Rightarrow> ('x, 'k, 'l, 'w, 'a) service_eff" where
  "on_room_and_world m =
     bnd open_room (\<lambda>_.
     zoom (\<lambda>s. (the (sv_room s), sv_world s)) (\<lambda>(P, w) s. s\<lparr>sv_room := Some P, sv_world := w\<rparr>) m)"

definition current_projection :: "('x, 'k, 'l, 'w, 'x worker_projection) service_eff" where
  "current_projection = bnd (gets sv_projection) (ok_or ''Room worker has no projection'')"

section \<open>The session task\<close>

definition send_input ::
  "('x, 'k, 'l, 'w) service_ports \<Rightarrow> 'x task_input \<Rightarrow> string \<Rightarrow> ('x, 'k, 'l, 'w, unit) service_eff" where
  "send_input W input reason = bnd (ask_world (send_task W input)) (\<lambda>sent. refuse (\<not> sent) reason)"

text \<open>\<open>self.session.as_mut().expect(..)\<close> and \<open>self.session.as_mut().ok_or(..)\<close>, then the send.\<close>

definition send_expected ::
  "('x, 'k, 'l, 'w) service_ports \<Rightarrow> 'x task_input \<Rightarrow> string \<Rightarrow> ('x, 'k, 'l, 'w, unit) service_eff" where
  "send_expected W input reason =
     bnd (gets sv_session) (\<lambda>present. if present then send_input W input reason else panic)"

definition session_required :: "('x, 'k, 'l, 'w, unit) service_eff" where
  "session_required =
     bnd (gets sv_session) (\<lambda>present. refuse (\<not> present) ''Room worker session runtime is not configured'')"

definition current_session_foundations ::
  "('x, 'd, 'l) worker_crates \<Rightarrow> ('x, 'k, 'l, 'w) worker_service \<Rightarrow> 'x foundation list" where
  "current_session_foundations B s =
     (case sv_room s of
        None \<Rightarrow> []
      | Some P \<Rightarrow>
          filter_map (\<lambda>peer. case plane_session_foundation B P peer of Inl _ \<Rightarrow> None | Inr f \<Rightarrow> Some f)
            (sorted_list_of_set (sv_session_peers s)))"

definition refresh_session_foundations ::
  "('x, 'd, 'l) worker_crates \<Rightarrow> ('x, 'k, 'l, 'w) service_ports \<Rightarrow> ('x, 'k, 'l, 'w, unit) service_eff" where
  "refresh_session_foundations B W =
     bnd (gets sv_session) (\<lambda>present.
     if \<not> present then ret ()
     else bnd (gets (current_session_foundations B)) (\<lambda>foundations.
       send_expected W (RefreshFoundations foundations) ''Room worker session task closed during foundation refresh''))"

text \<open>The music history, the shared pitches and the revision the session task is given.\<close>

definition durable_music ::
  "('x, 'd, 'l) worker_crates \<Rightarrow> ('x, 'k, 'l, 'w, 'x \<times> 'x pitch_view \<times> u64) service_eff" where
  "durable_music B =
     bnd (reading_room (music_snapshot B)) (\<lambda>snapshot.
     bnd (reading_room (plane_view B)) (\<lambda>view.
     ret (snapshot_history (replicas B) snapshot, mv_shared_pitches (rv_music view),
          public_music_revision (replicas B) snapshot)))"

section \<open>Projections\<close>

definition publish_projection ::
  "('x, 'd, 'l) worker_crates \<Rightarrow> 'x worker_serde \<Rightarrow> ('x, 'k::linorder, 'l, 'w) service_ports \<Rightarrow> 'x \<Rightarrow>
   ('x, 'k, 'l, 'w, u64) service_eff" where
  "publish_projection B S W events =
     bnd (reading_room (plane_projection B)) (\<lambda>next_one.
     bnd (gets (\<lambda>s. s)) (\<lambda>s.
     if sv_projection s = Some next_one then ret (sv_revision s) else
     let previous = sv_revision s; revision = saturating_add (sv_revision s) 1 in
     andthen (modify (\<lambda>s. s\<lparr>sv_revision := revision, sv_projection := Some next_one\<rparr>))
     (andthen (each (\<lambda>subscription.
         bnd (lift_result id (encode_payload (write_projection S) next_one)) (\<lambda>bs.
         on_world (emit_revision W events subscription previous revision bs (encode_payload (write_projection S) next_one))))
       (sorted_list_of_set (sv_subscriptions s)))
     (ret revision))))"

section \<open>Commands\<close>

definition outbound ::
  "('x, 'd, 'l) worker_crates \<Rightarrow> ('x, 'k, 'l, 'w) service_ports \<Rightarrow> 'x \<Rightarrow> bytes \<Rightarrow> room_lane \<Rightarrow> 'x \<Rightarrow>
   ('x, 'k, 'l, 'w, unit) service_eff" where
  "outbound B W events local lane committed =
     on_world (emit_outbound W events
       (live_encode (record_bytes B) \<lparr>lr_lane = lane, lr_source = local, lr_record = committed\<rparr>))"

text \<open>What follows a commit in the lanes: the session task is told of a change of the music lane, then every
  subscriber of a change of the view.\<close>

definition after_commit ::
  "('x, 'd, 'l) worker_crates \<Rightarrow> 'x worker_serde \<Rightarrow> ('x, 'k::linorder, 'l, 'w) service_ports \<Rightarrow> 'x \<Rightarrow> bool \<Rightarrow> string \<Rightarrow>
   ('x, 'k, 'l, 'w, u64) service_eff" where
  "after_commit B S W events music reason =
     bnd (gets sv_session) (\<lambda>present.
     bnd (if music \<and> present then bnd (durable_music B) (\<lambda>d. ret (Some d)) else ret None) (\<lambda>advance.
     andthen (case advance of
         None \<Rightarrow> ret ()
       | Some (history, view, revision) \<Rightarrow> send_expected W (DurableAdvanced history view revision) reason)
     (andthen (if music then refresh_session_foundations B W else ret ())
     (publish_projection B S W events))))"

definition handle_commit ::
  "('x, 'd, 'l) worker_crates \<Rightarrow> 'x worker_serde \<Rightarrow> ('x, 'k::linorder, 'l, 'w) service_ports \<Rightarrow> 'x \<Rightarrow> 'x room_command \<Rightarrow>
   ('x, 'k, 'l, 'w, 'x worker_response) service_eff" where
  "handle_commit B S W events c =
     bnd open_room (\<lambda>P.
     bnd (on_room (plane_commit B c)) (\<lambda>(e, committed).
     andthen (outbound B W events (pl_local_actor P) (lane_of_command c) committed)
     (bnd (after_commit B S W events (lane_of_command c = Music) ''Room worker session task closed after music commit'')
       (\<lambda>revision. ret (CommandCommitted e revision)))))"

definition handle_grant_peer ::
  "('x, 'd, 'l) worker_crates \<Rightarrow> 'x worker_serde \<Rightarrow> ('x, 'k::linorder, 'l, 'w) service_ports \<Rightarrow> 'x \<Rightarrow> bytes \<Rightarrow>
   ('x, 'k, 'l, 'w, 'x worker_response) service_eff" where
  "handle_grant_peer B S W events peer =
     bnd open_room (\<lambda>P.
     bnd (on_room (plane_grant_peer B peer)) (\<lambda>grants.
     andthen (each (\<lambda>(lane, _, committed). outbound B W events (pl_local_actor P) lane committed) grants)
     (let entries = map (\<lambda>(lane, e, _). (lane, e)) grants in
      bnd (after_commit B S W events (list_ex (\<lambda>(lane, _). lane = Music) entries)
        ''Room worker session task closed after music grant'') (\<lambda>revision. ret (PeerGranted entries revision)))))"

definition handle_start_session_peer ::
  "('x, 'd, 'l) worker_crates \<Rightarrow> ('x, 'k, 'l, 'w) service_ports \<Rightarrow> bytes \<Rightarrow> ('x, 'k, 'l, 'w, 'x worker_response) service_eff" where
  "handle_start_session_peer B W peer =
     bnd (reading_room (\<lambda>P. plane_session_foundation B P peer)) (\<lambda>foundation.
     andthen session_required
     (andthen (send_input W (StartPeer foundation) ''Room worker session task closed'')
     (andthen (modify (\<lambda>s. s\<lparr>sv_session_peers := insert peer (sv_session_peers s)\<rparr>))
     (ret SessionPeerStarted))))"

definition handle_reset_session ::
  "('x, 'd, 'l) worker_crates \<Rightarrow> ('x, 'k, 'l, 'w) service_ports \<Rightarrow> ('x, 'k, 'l, 'w, 'x worker_response) service_eff" where
  "handle_reset_session B W =
     bnd (durable_music B) (\<lambda>(history, view, revision).
     bnd (ask_world (reset_channel W)) (\<lambda>reply.
     andthen session_required
     (andthen (send_input W (ResetProjection history view revision reply) ''Room worker session task closed during reset'')
     (bnd (ask_world (await_reset W reply)) (\<lambda>response.
      bnd (ok_or ''Room worker session reset reply was dropped'' response) (\<lambda>result.
      bnd (lift_result id result) (\<lambda>emitted. ret (SessionProjectionReset emitted))))))))"

definition handle_drain_session ::
  "('x, 'd, 'l) worker_crates \<Rightarrow> 'x worker_serde \<Rightarrow> ('x, 'k::linorder, 'l, 'w) service_ports \<Rightarrow> 'x \<Rightarrow>
   ('x, 'k, 'l, 'w, 'x worker_response) service_eff" where
  "handle_drain_session B S W events =
     andthen session_required
     (bnd (ask_world (try_reification W)) (\<lambda>waiting.
      case waiting of
        None \<Rightarrow> bnd (gets sv_revision) (\<lambda>revision. ret (SessionDrained False revision))
      | Some reified \<Rightarrow>
          bnd open_room (\<lambda>P.
          bnd (on_room (plane_commit_session B (rf_plan reified) (rf_command reified))) (\<lambda>(e, admission, committed).
          andthen (outbound B W events (pl_local_actor P) Music committed)
          (bnd (durable_music B) (\<lambda>(history, view, revision).
          andthen (send_expected W
              (LocalCommitted (rf_peer reified) (rf_session reified) (rf_plan reified) (rf_intent_token reified)
                 e admission history view revision) ''Room worker session task closed after commit'')
          (andthen (refresh_session_foundations B W)
          (bnd (publish_projection B S W events) (\<lambda>revision. ret (SessionDrained True revision))))))))))"

definition handle_renewal_store ::
  "('x, 'd, 'l) worker_crates \<Rightarrow> renewal_store_request \<Rightarrow> ('x, 'k, 'l, 'w, 'x worker_response) service_eff" where
  "handle_renewal_store B request =
     bnd open_room (\<lambda>_.
     bnd (case rq_operation request of
         Load \<Rightarrow> inspect (bnd (reading_room (\<lambda>P. load_session_renewal_floor B P (rq_key request))) (\<lambda>found. ret (Loaded found)))
       | Persist expected_frontier mark \<Rightarrow>
           inspect (andthen (on_room (persist_session_renewal_floor B (rq_key request) mark (Some expected_frontier)))
             (ret PersistedValue))
       | MigrateLegacy mark \<Rightarrow>
           inspect (andthen (on_room (persist_session_renewal_floor B (rq_key request) mark None)) (ret PersistedValue)))
     (\<lambda>result. ret (SessionRenewalStored \<lparr>rr_request = rq_request request, rr_result = result\<rparr>)))"

definition handle_command ::
  "('x, 'd, 'l) worker_crates \<Rightarrow> 'x worker_serde \<Rightarrow> ('x, 'k::linorder, 'l, 'w) service_ports \<Rightarrow> 'x \<Rightarrow> 'x worker_command \<Rightarrow>
   ('x, 'k, 'l, 'w, 'x worker_response) service_eff" where
  "handle_command B S W events c =
     (case c of
        CommitCommand op \<Rightarrow> handle_commit B S W events op
      | GrantPeer peer \<Rightarrow> handle_grant_peer B S W events peer
      | StartSessionPeer peer \<Rightarrow> handle_start_session_peer B W peer
      | ResetSessionProjection \<Rightarrow> handle_reset_session B W
      | DrainSession \<Rightarrow> handle_drain_session B S W events
      | SessionRenewalStore request \<Rightarrow> handle_renewal_store B request
      | SignPresence session sequence sounding \<Rightarrow>
          bnd (reading_room (\<lambda>P. plane_sign_presence B P session sequence sounding)) (\<lambda>bs. ret (PresenceSigned bs))
      | VerifyPresence bs \<Rightarrow>
          bnd (reading_room (\<lambda>P. plane_verify_presence B P bs)) (\<lambda>presence. ret (PresenceVerified presence)))"

section \<open>Requests\<close>

definition respond ::
  "'x worker_serde \<Rightarrow> 'k reply_kind \<Rightarrow> 'x worker_response \<Rightarrow> ('x, 'k, 'l, 'w, 'k worker_reply) service_eff" where
  "respond S kind response =
     bnd (lift_result id (encode_payload (write_response S) response)) (\<lambda>bs. ret (kind, bs))"

definition configure_session ::
  "('x, 'k, 'l, 'w) service_ports \<Rightarrow> 'x \<Rightarrow> bool \<Rightarrow> ('x, 'k, 'l, 'w, unit) service_eff" where
  "configure_session W events trace =
     bnd (gets sv_session) (\<lambda>present.
     if present then send_input W (Configure events trace) ''Room worker session task closed during Open'' else ret ())"

text \<open>\<open>BrowserRoomWorkerFactory::open\<close> (\<open>src/src/web/replica_worker.rs\<close>): the logs, then the data plane.\<close>

definition factory_open ::
  "('x, 'd, 'l) worker_crates \<Rightarrow> ('x, 'k, 'l, 'w) service_ports \<Rightarrow> worker_open \<Rightarrow>
   ('x, 'k, 'l, 'w, ('x, 'l) data_plane) service_eff" where
  "factory_open B W request =
     bnd (on_world (open_logs W request)) (\<lambda>(music, extension, music_transactions, extension_transactions).
     lift_result id (plane_open B request music extension music_transactions extension_transactions))"

definition handle_open ::
  "('x, 'd, 'l) worker_crates \<Rightarrow> 'x worker_serde \<Rightarrow> ('x, 'k, 'l, 'w) service_ports \<Rightarrow> 'x \<Rightarrow> bytes \<Rightarrow>
   ('x, 'k, 'l, 'w, 'k worker_reply) service_eff" where
  "handle_open B S W events bs =
     bnd (lift_result id (decode_payload (read_open S) bs)) (\<lambda>request.
     bnd (factory_open B W request) (\<lambda>P.
     bnd (lift_result id (plane_projection B P)) (\<lambda>projection.
     andthen (modify (\<lambda>s. s\<lparr>sv_room := Some P, sv_projection := Some projection, sv_revision := 0,
        sv_subscriptions := {}, sv_session_peers := {}\<rparr>))
     (andthen (configure_session W events (wo_session_trace request))
     (respond S ReadyReply (OpenedResponse (pl_local_actor P) projection))))))"

definition handle_subscribe ::
  "'x worker_serde \<Rightarrow> 'k \<Rightarrow> ('x, 'k, 'l, 'w, 'k worker_reply) service_eff" where
  "handle_subscribe S subscription =
     andthen (modify (\<lambda>s. s\<lparr>sv_subscriptions := insert subscription (sv_subscriptions s)\<rparr>))
     (bnd (gets sv_revision) (\<lambda>revision.
     bnd current_projection (\<lambda>projection.
     bnd (lift_result id (encode_payload (write_projection S) projection)) (\<lambda>bs.
     ret (SnapshotReply subscription revision, bs)))))"

definition handle_unsubscribe :: "'k \<Rightarrow> ('x, 'k, 'l, 'w, 'k worker_reply) service_eff" where
  "handle_unsubscribe subscription =
     andthen (modify (\<lambda>s. s\<lparr>sv_subscriptions := sv_subscriptions s - {subscription}\<rparr>)) (ret (ResponseReply, []))"

definition handle_inbound_record ::
  "('x, 'd, 'l) worker_crates \<Rightarrow> 'x worker_serde \<Rightarrow> ('x, 'k::linorder, 'l, 'w) service_ports \<Rightarrow> 'x \<Rightarrow> bytes \<Rightarrow>
   ('x, 'k, 'l, 'w, 'k worker_reply) service_eff" where
  "handle_inbound_record B S W events bs =
     bnd (ok_or ''invalid Room-v5 live record'' (live_decode (record_parse B) bs)) (\<lambda>live.
     let lane = lr_lane live; observed = record_entry B (lr_record live) in
     bnd (on_room (plane_apply_live B live)) (\<lambda>(accepted, e).
     bnd (gets sv_session) (\<lambda>present.
     andthen (if accepted \<and> lane = Music \<and> present then
         bnd (reading_room (\<lambda>P. plane_entry_admission B P lane e)) (\<lambda>admission.
         bnd (durable_music B) (\<lambda>(history, view, revision).
         andthen (send_expected W
             (if has_session_domain (runtime (sessions B)) observed
              then Observed observed admission history view revision
              else DurableAdvanced history view revision) ''Room worker session task closed after inbound admission'')
         (refresh_session_foundations B W)))
       else ret ())
     (bnd (publish_projection B S W events) (\<lambda>revision.
      respond S ResponseReply (InboundApplied accepted e revision))))))"

text \<open>The step of a repair request.\<close>

definition repair_operation ::
  "('x, 'd, 'l) worker_crates \<Rightarrow> ('x, 'k, 'l, 'w) service_ports \<Rightarrow> 'x \<Rightarrow> repair_request \<Rightarrow>
   ('x, 'k, 'l, 'w, repair_progress) service_eff" where
  "repair_operation B W events operation =
     (case operation of
        StartInitiator i lane \<Rightarrow> on_room_and_world (start_initiator B (repairs W) events i lane)
      | StartResponder i lane hello \<Rightarrow> on_room_and_world (start_responder B (repairs W) events i lane hello)
      | RepairFrameRequest i frame \<Rightarrow> on_room_and_world (advance_repair B (repairs W) events i frame)
      | FinishRepair i close_error \<Rightarrow> on_room (finish_repair B i close_error))"

definition repaired_music ::
  "repair_request \<Rightarrow> ('x, 'k, 'l, 'w, bool) service_eff" where
  "repaired_music operation =
     (case operation of
        RepairFrameRequest i _ \<Rightarrow> bnd open_room (\<lambda>P. ret (repair_lane_for P i = Some Music))
      | _ \<Rightarrow> ret False)"

definition current_music_revision ::
  "('x, 'd, 'l) worker_crates \<Rightarrow> ('x, 'k, 'l, 'w, u64) service_eff" where
  "current_music_revision B =
     bnd (reading_room (music_snapshot B)) (\<lambda>snapshot. ret (public_music_revision (replicas B) snapshot))"

definition handle_repair_frame ::
  "('x, 'd, 'l) worker_crates \<Rightarrow> 'x worker_serde \<Rightarrow> ('x, 'k::linorder, 'l, 'w) service_ports \<Rightarrow> 'x \<Rightarrow> bytes \<Rightarrow>
   ('x, 'k, 'l, 'w, 'k worker_reply) service_eff" where
  "handle_repair_frame B S W events bs =
     bnd (lift_result id (decode_payload (read_repair S) bs)) (\<lambda>operation.
     bnd (repaired_music operation) (\<lambda>music.
     bnd (if music then bnd (current_music_revision B) (\<lambda>r. ret (Some r)) else ret None) (\<lambda>before.
     bnd (repair_operation B W events operation) (\<lambda>progress.
     bnd (current_music_revision B) (\<lambda>after.
     bnd (gets sv_session) (\<lambda>present.
     andthen (if repair_revision_advanced before after \<and> present then
         bnd (durable_music B) (\<lambda>(history, view, revision).
         andthen (send_expected W (RepairResynchronized history view revision)
           ''Room worker session task closed after music repair'')
         (refresh_session_foundations B W))
       else ret ())
     (bnd (publish_projection B S W events) (\<lambda>_. respond S ResponseReply (RepairProgress progress)))))))))"

definition handle_close :: "'x worker_serde \<Rightarrow> ('x, 'k, 'l, 'w, 'k worker_reply) service_eff" where
  "handle_close S =
     andthen (modify (\<lambda>s. s\<lparr>sv_room := None, sv_projection := None, sv_subscriptions := {}, sv_session_peers := {}\<rparr>))
     (respond S ClosedReply ClosedResponse)"

definition handle_request ::
  "('x, 'd, 'l) worker_crates \<Rightarrow> 'x worker_serde \<Rightarrow> ('x, 'k::linorder, 'l, 'w) service_ports \<Rightarrow> 'k worker_request \<Rightarrow> bytes \<Rightarrow> 'x \<Rightarrow>
   ('x, 'k, 'l, 'w, 'k worker_reply) service_eff" where
  "handle_request B S W request bs events =
     (case request of
        OpenRequest \<Rightarrow> handle_open B S W events bs
      | SubscribeRequest subscription \<Rightarrow> handle_subscribe S subscription
      | UnsubscribeRequest subscription \<Rightarrow> handle_unsubscribe subscription
      | CommandRequest \<Rightarrow>
          bnd (lift_result id (decode_payload (read_command S) bs)) (\<lambda>c.
          bnd (handle_command B S W events c) (\<lambda>response. respond S ResponseReply response))
      | InboundRecordRequest \<Rightarrow> handle_inbound_record B S W events bs
      | RepairRequest \<Rightarrow> handle_repair_frame B S W events bs
      | PingRequest \<Rightarrow> bnd current_projection (\<lambda>projection. respond S PongReply (Frontiers projection))
      | CloseRequest \<Rightarrow> handle_close S
      | AcknowledgeRepairRequest \<Rightarrow> throw ''repair-frame acknowledgements must be intercepted by the worker host''
      | UnknownRequest text \<Rightarrow> throw (''unsupported Replica worker request kind: '' @ text))"

text \<open>The host hands the service one request after another and answers an error with an error reply; a panic
  ends the worker.\<close>

fun serve ::
  "('x, 'd, 'l) worker_crates \<Rightarrow> 'x worker_serde \<Rightarrow> ('x, 'k::linorder, 'l, 'w) service_ports \<Rightarrow>
   ('k worker_request \<times> bytes \<times> 'x) list \<Rightarrow> ('x, 'k, 'l, 'w) worker_service \<Rightarrow> ('x, 'k, 'l, 'w) worker_service option" where
  "serve B S W [] s = Some s"
| "serve B S W ((request, bs, events) # requests) s =
     (case handle_request B S W request bs events s of
        (Inl Panic, _) \<Rightarrow> None
      | (_, s') \<Rightarrow> serve B S W requests s')"

end
