(* ===== verification/Worker_Rules.thy ===== *)
theory Worker_Rules
  imports Worker_Service
begin

text \<open>
  The invariant of the room worker and the rules its handlers are proved with: what a method of the data plane
  keeps, what its messages to the session task are founded on, and the weakest preconditions of the service's calls.
\<close>

section \<open>The data plane\<close>

text \<open>The lanes and roots are those of the room, the keys those of this replica and of the owner, and there are
  at most eight repair attempts.\<close>

definition context_ok :: "('x, 'l) replica_crates \<Rightarrow> durable_context \<Rightarrow> bool" where
  "context_ok C R \<longleftrightarrow>
     dx_identity R = from_object C (id_object (dx_identity R)) \<and>
     dx_music_root R = entry_hash_of C (lane_trusted_root C (id_music (dx_identity R)) (dx_owner R)) \<and>
     dx_extension_root R = entry_hash_of C (lane_trusted_root C (id_extension (dx_identity R)) (dx_owner R))"

definition plane_ok :: "('x, 'd, 'l) worker_crates \<Rightarrow> ('x, 'l) data_plane \<Rightarrow> bool" where
  "plane_ok B P \<longleftrightarrow>
     context_ok (replicas B) (pl_room P) \<and>
     pl_local_actor P = actor_from_key (replicas B) (pl_signing_key P) \<and>
     (\<forall>k. pl_grant_authority P = Some k \<longrightarrow> actor_from_key (replicas B) k = dx_owner (pl_room P)) \<and>
     card (dom (pl_repair P)) \<le> max_active_repair_sessions"

text \<open>What every method leaves as it is.\<close>

definition plane_kept :: "('x, 'l) data_plane \<Rightarrow> ('x, 'l) data_plane \<Rightarrow> bool" where
  "plane_kept P P' \<longleftrightarrow>
     pl_room P' = pl_room P \<and> pl_signing_key P' = pl_signing_key P \<and> pl_grant_authority P' = pl_grant_authority P \<and>
     pl_local_actor P' = pl_local_actor P \<and>
     (card (dom (pl_repair P)) \<le> max_active_repair_sessions \<longrightarrow> card (dom (pl_repair P')) \<le> max_active_repair_sessions)"

lemma plane_kept_refl [simp]: "plane_kept P P"
  by (simp add: plane_kept_def)

lemma plane_kept_trans: "plane_kept P Q \<Longrightarrow> plane_kept Q R \<Longrightarrow> plane_kept P R"
  by (simp add: plane_kept_def)

lemma plane_kept_ok: "plane_ok B P \<Longrightarrow> plane_kept P P' \<Longrightarrow> plane_ok B P'"
  by (simp add: plane_kept_def plane_ok_def)

lemma put_lane_kept [simp]: "plane_kept P (put_lane lane l P)"
  by (simp add: plane_kept_def put_lane_def split: room_lane.split)

lemma put_lane_fields [simp]:
  "pl_repair (put_lane lane l P) = pl_repair P" "pl_room (put_lane lane l P) = pl_room P"
  by (simp_all add: put_lane_def split: room_lane.split)

lemma set_repair_kept:
  "card (dom ((pl_repair P)(i := state))) \<le> max_active_repair_sessions \<or> state = None \<or> pl_repair P i \<noteq> None \<Longrightarrow>
   plane_kept P (set_repair i state P)"
proof -
  assume a: "card (dom ((pl_repair P)(i := state))) \<le> max_active_repair_sessions \<or> state = None \<or> pl_repair P i \<noteq> None"
  have "card (dom ((pl_repair P)(i := None))) \<le> card (dom (pl_repair P))"
    by (rule card_mono) (auto simp: finite_code)
  moreover have "dom ((pl_repair P)(i := state)) = dom (pl_repair P)" if "pl_repair P i \<noteq> None" "state \<noteq> None"
    using that by auto
  ultimately show ?thesis
    using a by (cases state) (auto simp: plane_kept_def set_repair_def simp del: dom_fun_upd)
qed

abbreviation keeps_plane :: "('x, 'l) data_plane \<Rightarrow> (('x, 'l) data_plane, string, 'a) eff \<Rightarrow> bool" where
  "keeps_plane P m \<equiv> keeps (plane_kept P) m P"

lemma keeps_on_lane: "plane_kept P Q \<Longrightarrow> wp (on_lane lane call) (\<lambda>_. plane_kept P) (\<lambda>_. plane_kept P) Q"
  by (auto simp: on_lane_def wps intro: plane_kept_trans split: prod.split sum.split)

lemma keeps_persist: "keeps_plane P (persist_session_renewal_floor B key mark expected)"
  unfolding persist_session_renewal_floor_def Let_def
  apply (intro wp_steps plane_kept_refl)
  apply (rule wp_call [where P = "\<lambda>_. plane_kept P"])
   apply (intro wp_steps plane_kept_refl)
  apply (intro wp_steps keeps_on_lane; assumption)
  done

lemma keeps_plane_commit: "keeps_plane P (plane_commit B c)"
  unfolding plane_commit_def Let_def
  apply (intro wp_steps plane_kept_refl)
  apply (rule wp_call [OF keeps_on_lane], simp)
  apply (intro wp_steps; simp)
  done

lemma keeps_plane_commit_session: "keeps_plane P (plane_commit_session B plan c)"
  unfolding plane_commit_session_def Let_def
  apply (intro wp_steps plane_kept_refl)
  apply (rule wp_call [OF keeps_on_lane], simp)
  apply (intro wp_steps; simp)
  done

lemma keeps_grant_lane:
  "plane_kept P Q \<Longrightarrow> wp (grant_lane B key peer lane) (\<lambda>_. plane_kept P) (\<lambda>_. plane_kept P) Q"
  unfolding grant_lane_def Let_def
  apply (intro wp_steps; assumption?)
  apply (rule wp_call [OF keeps_on_lane], simp)
  apply (intro wp_steps; simp)
  done

lemma keeps_plane_grant_peer: "keeps_plane P (plane_grant_peer B peer)"
  unfolding plane_grant_peer_def
  apply (intro wp_steps plane_kept_refl)
  apply (rule wp_call [where P = "\<lambda>_. plane_kept P"])
   apply (rule wp_mono [OF wp_collect [where I = "plane_kept P" and P = "\<lambda>_ _. True" and E = "\<lambda>_. plane_kept P"]])
      apply simp
     apply (rule wp_mono [OF keeps_grant_lane], assumption, simp, assumption)
    apply simp
   apply assumption
  apply (intro wp_steps; assumption)
  done

lemma keeps_plane_apply_live: "keeps_plane P (plane_apply_live B live)"
  unfolding plane_apply_live_def Let_def
  apply (rule wp_call [OF keeps_on_lane], simp)
  apply (intro wp_steps; simp)
  done

lemma keeps_finish_repair: "keeps_plane P (finish_repair B i close_error)"
  unfolding finish_repair_def Let_def
  by (intro wp_steps wp_step_modify plane_kept_refl set_repair_kept) simp_all

lemma ensure_slot_card:
  "ensure_repair_slot i P = Inr u \<Longrightarrow> card (dom ((pl_repair P)(i \<mapsto> state))) \<le> max_active_repair_sessions"
  by (auto simp: ensure_repair_slot_def max_active_repair_sessions_def card_insert_if split: if_splits)

lemma keeps_start_attempt:
  "wp (start_attempt B i lane begun) (\<lambda>_ q. plane_kept P (fst q)) (\<lambda>_ q. plane_kept P (fst q)) (P, w)"
  unfolding start_attempt_def
  apply (intro wp_steps; simp?)
  apply (rule wp_call [where P = "\<lambda>_ q. fst q = P"])
   apply (simp add: wps split: prod.split sum.split)
  apply (rule wp_step_modify, rule wp_step_ret)
  apply (auto intro!: set_repair_kept dest: ensure_slot_card split: prod.split)
  done

lemma keeps_advance_repair:
  "wp (advance_repair B R events i frame) (\<lambda>_ q. plane_kept P (fst q)) (\<lambda>_ q. plane_kept P (fst q)) (P, w)"
proof -
  have "plane_kept P (set_repair i (Some state) (put_lane lane l P))" if "pl_repair P i = Some x" for state lane l x
    by (rule plane_kept_trans [OF put_lane_kept set_repair_kept]) (use that in simp)
  then show ?thesis
    unfolding advance_repair_def Let_def
    by (auto simp: wps split: prod.split sum.split option.split)
qed

lemma attempt_split [simp]: "attempt (Inr a) k = k a" "attempt (Inl e) k = Inl e"
  by (simp_all add: attempt_def)

lemma plane_open_ok:
  assumes "plane_open B request music_log extension_log music_transactions extension_transactions = Inr P"
  shows "plane_ok B P \<and> pl_repair P = Map.empty"
  using assms
  by (auto simp: plane_open_def Let_def plane_ok_def context_ok_def from_transaction_logs_def build_empty_lane_def
      from_object_def root_for_lane_def split: option.splits if_splits)

section \<open>The service\<close>

definition service_ok :: "('x, 'd, 'l) worker_crates \<Rightarrow> bool \<Rightarrow> ('x, 'k, 'l, 'w) worker_service \<Rightarrow> bool" where
  "service_ok B on s \<longleftrightarrow>
     sv_session s = on \<and> finite (sv_subscriptions s) \<and> finite (sv_session_peers s) \<and>
     (case sv_room s of
        None \<Rightarrow> sv_projection s = None \<and> sv_session_peers s = {}
      | Some P \<Rightarrow> sv_projection s \<noteq> None \<and> plane_ok B P)"

lemma wp_step_open_room [wp_steps]:
  "(sv_room s = None \<Longrightarrow> E ''Room worker is not open'' s) \<Longrightarrow>
   (\<And>P. sv_room s = Some P \<Longrightarrow> wp (k P) Q E s) \<Longrightarrow> wp (bnd open_room k) Q E s"
  by (simp add: open_room_def wps split: option.split)

lemma wp_step_reading_room [wp_steps]:
  "(sv_room s = None \<Longrightarrow> E ''Room worker is not open'' s) \<Longrightarrow>
   (\<And>P e. sv_room s = Some P \<Longrightarrow> f P = Inl e \<Longrightarrow> E e s) \<Longrightarrow>
   (\<And>P a. sv_room s = Some P \<Longrightarrow> f P = Inr a \<Longrightarrow> wp (k a) Q E s) \<Longrightarrow> wp (bnd (reading_room f) k) Q E s"
  by (simp add: reading_room_def open_room_def wps split: option.split sum.split)

lemma wp_step_required [wp_steps]:
  "(\<not> sv_session s \<Longrightarrow> E ''Room worker session runtime is not configured'' s) \<Longrightarrow>
   (sv_session s \<Longrightarrow> wp k Q E s) \<Longrightarrow> wp (andthen session_required k) Q E s"
  by (simp add: session_required_def wps)

lemma wp_step_projection [wp_steps]:
  "(sv_projection s = None \<Longrightarrow> E ''Room worker has no projection'' s) \<Longrightarrow>
   (\<And>p. sv_projection s = Some p \<Longrightarrow> wp (k p) Q E s) \<Longrightarrow> wp (bnd current_projection k) Q E s"
  by (simp add: current_projection_def wps split: option.split)

lemma wp_on_room:
  "(sv_room s = None \<Longrightarrow> E ''Room worker is not open'' s) \<Longrightarrow>
   (\<And>P. sv_room s = Some P \<Longrightarrow> wp m (\<lambda>a P'. Q a (s\<lparr>sv_room := Some P'\<rparr>)) (\<lambda>e P'. E e (s\<lparr>sv_room := Some P'\<rparr>)) P) \<Longrightarrow>
   wp (on_room m) Q E s"
  by (simp add: on_room_def open_room_def wps split: option.split)

lemma wp_on_room_and_world:
  "(sv_room s = None \<Longrightarrow> E ''Room worker is not open'' s) \<Longrightarrow>
   (\<And>P. sv_room s = Some P \<Longrightarrow>
      wp m (\<lambda>a (P', w'). Q a (s\<lparr>sv_room := Some P', sv_world := w'\<rparr>))
        (\<lambda>e (P', w'). E e (s\<lparr>sv_room := Some P', sv_world := w'\<rparr>)) (P, sv_world s)) \<Longrightarrow>
   wp (on_room_and_world m) Q E s"
  by (simp add: on_room_and_world_def open_room_def wps case_prod_beta' split: option.split)

text \<open>What the session task is told of the music lane is what that lane of the open room holds: its snapshot's history and
  epoch, and the view materialized from the history under the root of the room.\<close>

definition durable_state :: "('x, 'd, 'l) worker_crates \<Rightarrow> ('x, 'l) data_plane \<Rightarrow> 'x \<Rightarrow> 'x pitch_view \<Rightarrow> u64 \<Rightarrow> bool" where
  "durable_state B P history view revision \<longleftrightarrow>
     (\<exists>snapshot. music_snapshot B P = Inr snapshot \<and> history = snapshot_history (replicas B) snapshot \<and>
        revision = history_epoch (replicas B) snapshot \<and>
        view = mv_shared_pitches (materialize_lane (replicas B) history [dx_music_root (pl_room P)]))"

text \<open>A foundation is of this replica and a peer, with the grants that are live at the present snapshot of the music
  lane, and at least one each.\<close>

definition founded :: "('x, 'd, 'l) worker_crates \<Rightarrow> ('x, 'l) data_plane \<Rightarrow> 'x foundation \<Rightarrow> bool" where
  "founded B P f \<longleftrightarrow>
     fo_identity f = dx_identity (pl_room P) \<and> fo_local f = pl_local_actor P \<and> fo_signing_key f = pl_signing_key P \<and>
     fo_music_root f = dx_music_root (pl_room P) \<and>
     fo_local_grants f \<noteq> [] \<and>
     fo_local_grants f = live_grants_for (replicas B) (fo_history f) (dx_music_root (pl_room P)) (fo_local f) \<and>
     fo_peer_grants f \<noteq> [] \<and>
     fo_peer_grants f = live_grants_for (replicas B) (fo_history f) (dx_music_root (pl_room P)) (fo_peer f) \<and>
     durable_state B P (fo_history f) (fo_durable_view f) (fo_durable_revision f)"

fun told_in_room :: "('x, 'd, 'l) worker_crates \<Rightarrow> ('x, 'l) data_plane \<Rightarrow> 'x task_input \<Rightarrow> bool" where
  "told_in_room B P (StartPeer f) = founded B P f"
| "told_in_room B P (RefreshFoundations fs) = (\<forall>f \<in> set fs. founded B P f)"
| "told_in_room B P (LocalCommitted _ _ _ _ _ _ history view revision) = durable_state B P history view revision"
| "told_in_room B P (Observed _ _ history view revision) = durable_state B P history view revision"
| "told_in_room B P (DurableAdvanced history view revision) = durable_state B P history view revision"
| "told_in_room B P (ResetProjection history view revision _) = durable_state B P history view revision"
| "told_in_room B P (RepairResynchronized history view revision) = durable_state B P history view revision"
| "told_in_room B P _ = True"

text \<open>Without a room there is nothing to tell but the configuration and an empty refresh.\<close>

definition told_ok :: "('x, 'd, 'l) worker_crates \<Rightarrow> ('x, 'l) data_plane option \<Rightarrow> 'x task_input \<Rightarrow> bool" where
  "told_ok B room input \<longleftrightarrow>
     (case room of
        Some P \<Rightarrow> told_in_room B P input
      | None \<Rightarrow> (\<exists>events trace. input = Configure events trace) \<or> input = RefreshFoundations [])"

lemma plane_view_shared:
  assumes "plane_view B P = Inr view" and "music_snapshot B P = Inr snapshot"
  shows "mv_shared_pitches (rv_music view) =
     mv_shared_pitches (materialize_lane (replicas B) (snapshot_history (replicas B) snapshot) [dx_music_root (pl_room P)])"
  using assms by (auto simp: plane_view_def view_with_snapshots_def Let_def)

lemma foundation_founded: "plane_session_foundation B P peer = Inr f \<Longrightarrow> founded B P f"
  by (auto simp: plane_session_foundation_def Let_def founded_def plane_capabilities_def durable_state_def
      context_capabilities_for_lane_def music_snapshot_def public_music_revision_def owner_capabilities_def root_for_lane_def
      plane_view_shared [unfolded music_snapshot_def] split: if_splits)

lemma wp_durable_music:
  "wp (durable_music B)
     (\<lambda>(history, view, revision) t. t = s \<and> (\<exists>P. sv_room s = Some P \<and> durable_state B P history view revision))
     (\<lambda>_ t. t = s) s"
  unfolding durable_music_def
  apply (intro wp_steps; simp?)
  apply (auto simp: plane_view_shared public_music_revision_def durable_state_def)
  done

lemma wp_step_durable:
  assumes "\<And>P history view revision. sv_room s = Some P \<Longrightarrow> durable_state B P history view revision \<Longrightarrow>
      wp (k (history, view, revision)) Q E s"
    and "\<And>e. E e s"
  shows "wp (bnd (durable_music B) k) Q E s"
  by (rule wp_call [OF wp_mono [OF wp_durable_music]]) (use assms in auto)

lemma foundations_founded: "told_ok B (sv_room s) (RefreshFoundations (current_session_foundations B s))"
proof (cases "sv_room s")
  case (Some P)
  have "founded B P f" if f: "f \<in> set (current_session_foundations B s)" for f
  proof -
    obtain peer where "(case plane_session_foundation B P peer of Inl _ \<Rightarrow> None | Inr f \<Rightarrow> Some f) = Some f"
      using f unfolding current_session_foundations_def Some option.case filter_map_set by blast
    then show ?thesis
      by (cases "plane_session_foundation B P peer") (simp_all add: foundation_founded)
  qed
  then show ?thesis by (simp add: told_ok_def Some)
qed (simp add: told_ok_def current_session_foundations_def)

end
