(* ===== verification/Worker_Invariant.thy ===== *)
theory Worker_Invariant
  imports Worker_Rules
begin

text \<open>
  Every request of the room worker keeps the invariant of \<open>Worker_Rules\<close>, and properties of the service that its steps
  keep. A request first changes the lanes, then tells the session task, then publishes; so the interface of
  such a proof, the locale \<open>service_steps\<close>, has four of them: \<open>J\<close> until the task is told, \<open>K\<close> until the subscribers
  are, \<open>L\<close> from then on, \<open>F\<close> after a failure. \<open>service_life\<close> adds what opening, closing and unsubscribing need, \<open>service_runs\<close> that
  one request may follow another.
\<close>

section \<open>The interface\<close>

text \<open>The calls that tell the session task and the subscribers nothing.\<close>

inductive port_moves :: "('x, 'k, 'l, 'w) service_ports \<Rightarrow> 'w \<Rightarrow> 'w \<Rightarrow> bool" for W w where
  at_outbound: "port_moves W w (snd (emit_outbound W events bs w))"
| at_reification: "port_moves W w (snd (try_reification W w))"
| at_channel: "port_moves W w (snd (reset_channel W w))"
| at_reply: "port_moves W w (snd (await_reset W reply w))"
| at_initiate: "port_moves W w (snd (attempt_initiate (repairs W) events lane l w))"
| at_accept: "port_moves W w (snd (attempt_accept (repairs W) events lane l hello w))"
| at_receive: "port_moves W w (snd (snd (attempt_receive (repairs W) events frame x w)))"
| at_logs: "port_moves W w (snd (open_logs W request w))"

lemmas port_moves_intros = port_moves.intros

lemma wp_start_attempt_world:
  assumes "\<And>l w. M w w \<and> M w (snd (begun l w))"
  shows "wp (start_attempt B i lane begun) (\<lambda>_ (_, w'). M w w') (\<lambda>_ (_, w'). M w w') (P, w)"
  using assms unfolding start_attempt_def
  by (auto simp: wps case_prod_beta split: prod.split sum.split)

lemma wp_advance_repair_world:
  assumes "\<And>x. M w w \<and> M w (snd (snd (attempt_receive R events frame x w)))"
  shows "wp (advance_repair B R events i frame) (\<lambda>_ (_, w'). M w w') (\<lambda>_ (_, w'). M w w') (P, w)"
  using assms unfolding advance_repair_def Let_def
  by (auto simp: wps case_prod_beta split: prod.split sum.split option.split)

lemma publish_service_ok:
  assumes "service_ok B on s"
  shows "keeps (service_ok B on) (publish_projection B S W events) s"
  unfolding publish_projection_def Let_def
  apply (intro wp_steps wp_step_modify; (rule assms)?)
  apply (rule wp_then [OF wp_each [where I = "service_ok B on"]])
    apply (use assms in \<open>auto simp: service_ok_def split: option.splits\<close>)[1]
   apply (intro wp_steps; assumption?)
   apply (auto simp: on_world_def wps service_ok_def split: prod.split sum.split option.splits)[1]
  apply (intro wp_steps; assumption)
  done

text \<open>The requests that leave the room and the subscriptions as they are, or add one.\<close>

definition steady_request :: "'k worker_request \<Rightarrow> bool" where
  "steady_request request \<longleftrightarrow>
     (case request of OpenRequest \<Rightarrow> False | CloseRequest \<Rightarrow> False | UnsubscribeRequest _ \<Rightarrow> False | _ \<Rightarrow> True)"

text \<open>The invariant with a property that the calls keep.\<close>

definition worker_good ::
  "('x, 'd, 'l) worker_crates \<Rightarrow> bool \<Rightarrow> (('x, 'k, 'l, 'w) worker_service \<Rightarrow> bool) \<Rightarrow> ('x, 'k, 'l, 'w) worker_service \<Rightarrow> bool" where
  "worker_good B on J s \<longleftrightarrow> service_ok B on s \<and> J s"

locale service_steps =
  fixes B :: "('x, 'd, 'l) worker_crates" and S :: "'x worker_serde" and W :: "('x, 'k::linorder, 'l, 'w) service_ports"
    and on :: bool and J K L F :: "('x, 'k, 'l, 'w) worker_service \<Rightarrow> bool"
  assumes at_port: "J s \<Longrightarrow> port_moves W (sv_world s) w' \<Longrightarrow> J (s\<lparr>sv_world := w'\<rparr>)"
    and at_plane: "J s \<Longrightarrow> sv_room s = Some P \<Longrightarrow> J (s\<lparr>sv_room := Some P'\<rparr>)"
    and at_subscribe: "J s \<Longrightarrow> J (s\<lparr>sv_subscriptions := insert k (sv_subscriptions s)\<rparr>)"
    and quiet: "J s \<Longrightarrow> K s"
    and at_task: "K s \<Longrightarrow> told_ok B (sv_room s) input \<Longrightarrow> K (s\<lparr>sv_world := snd (send_task W input (sv_world s))\<rparr>)"
    and at_answer: "K s \<Longrightarrow> port_moves W (sv_world s) w' \<Longrightarrow> K (s\<lparr>sv_world := w'\<rparr>)"
    and at_peer: "K s \<Longrightarrow> K (s\<lparr>sv_session_peers := insert peer (sv_session_peers s)\<rparr>)"
    and at_publish: "K s \<Longrightarrow> service_ok B on s \<Longrightarrow> wp (publish_projection B S W events) (\<lambda>_. L) (\<lambda>_. F) s"
    and unpublished: "K s \<Longrightarrow> L s"
    and at_failure: "L s \<Longrightarrow> F s"
begin

abbreviation good :: "('x, 'k, 'l, 'w) worker_service \<Rightarrow> bool" where
  "good \<equiv> worker_good B on J"

abbreviation said :: "('x, 'k, 'l, 'w) worker_service \<Rightarrow> bool" where
  "said \<equiv> worker_good B on K"

abbreviation over :: "('x, 'k, 'l, 'w) worker_service \<Rightarrow> bool" where
  "over \<equiv> worker_good B on L"

abbreviation failed :: "('x, 'k, 'l, 'w) worker_service \<Rightarrow> bool" where
  "failed \<equiv> worker_good B on F"

abbreviation ends :: "('x, 'k, 'l, 'w, 'a) service_eff \<Rightarrow> ('x, 'k, 'l, 'w) worker_service \<Rightarrow> bool" where
  "ends m s \<equiv> wp m (\<lambda>_. over) (\<lambda>_. failed) s"

lemma good_said: "good s \<Longrightarrow> said s"
  by (simp add: worker_good_def quiet)

lemma said_over: "said s \<Longrightarrow> over s"
  by (simp add: worker_good_def unpublished)

lemma over_failed: "over s \<Longrightarrow> failed s"
  by (simp add: worker_good_def at_failure)

lemma said_failed: "said s \<Longrightarrow> failed s"
  by (rule over_failed [OF said_over])

lemma good_failed: "good s \<Longrightarrow> failed s"
  by (rule said_failed [OF good_said])

lemma good_over: "good s \<Longrightarrow> over s"
  by (rule said_over [OF good_said])

lemmas phases = good_said good_over said_over over_failed said_failed good_failed

lemma good_port: "good s \<Longrightarrow> port_moves W (sv_world s) w' \<Longrightarrow> good (s\<lparr>sv_world := w'\<rparr>)"
  using at_port [of s w'] by (simp add: worker_good_def service_ok_def split: option.splits)

lemma said_port: "said s \<Longrightarrow> port_moves W (sv_world s) w' \<Longrightarrow> said (s\<lparr>sv_world := w'\<rparr>)"
  using at_answer [of s w'] by (simp add: worker_good_def service_ok_def split: option.splits)

lemma said_task: "said s \<Longrightarrow> told_ok B (sv_room s) input \<Longrightarrow> said (s\<lparr>sv_world := snd (send_task W input (sv_world s))\<rparr>)"
  using at_task [of s input] by (simp add: worker_good_def service_ok_def split: option.splits)

lemma good_plane:
  "good s \<Longrightarrow> sv_room s = Some P \<Longrightarrow> plane_kept P P' \<Longrightarrow> good (s\<lparr>sv_room := Some P'\<rparr>)"
  using at_plane [of s P P'] by (auto simp: worker_good_def service_ok_def plane_kept_ok)

lemma said_session: "said s \<Longrightarrow> sv_session s = on"
  by (simp add: worker_good_def service_ok_def)

lemma good_session: "good s \<Longrightarrow> sv_session s = on"
  by (simp add: worker_good_def service_ok_def)

lemma keeps_on_world:
  "good s \<Longrightarrow> (\<And>w. port_moves W w (snd (call w))) \<Longrightarrow> keeps good (on_world call) s"
  using good_port [of s "snd (call (sv_world s))"]
  by (simp add: on_world_def wps split: prod.split sum.split) (metis snd_conv)

lemma keeps_ask_world:
  "good s \<Longrightarrow> (\<And>w. port_moves W w (snd (call w))) \<Longrightarrow>
   wp (ask_world call) (\<lambda>_ t. good t \<and> sv_room t = sv_room s) (\<lambda>_. good) s"
  using good_port [of s "snd (call (sv_world s))"]
  by (simp add: ask_world_def wps split: prod.split) (metis snd_conv)

lemma said_ask_world:
  "said s \<Longrightarrow> (\<And>w. port_moves W w (snd (call w))) \<Longrightarrow> keeps said (ask_world call) s"
  using said_port [of s "snd (call (sv_world s))"]
  by (simp add: ask_world_def wps split: prod.split) (metis snd_conv)

lemma keeps_on_room:
  assumes "good s" and "\<And>P. keeps_plane P m"
  shows "keeps good (on_room m) s"
  by (rule wp_on_room, rule assms(1), rule wp_mono [OF assms(2)]) (auto intro: good_plane [OF assms(1)])

lemma keeps_on_room_and_world:
  assumes "good s"
    and "\<And>P. wp m (\<lambda>_ q. plane_kept P (fst q)) (\<lambda>_ q. plane_kept P (fst q)) (P, sv_world s)"
    and "\<And>P. wp m (\<lambda>_ (_, w'). w' = sv_world s \<or> port_moves W (sv_world s) w')
       (\<lambda>_ (_, w'). w' = sv_world s \<or> port_moves W (sv_world s) w') (P, sv_world s)"
  shows "keeps good (on_room_and_world m) s"
proof (rule wp_on_room_and_world, rule assms(1))
  fix P assume P: "sv_room s = Some P"
  have kept: "good (s\<lparr>sv_room := Some P', sv_world := w'\<rparr>)"
    if "plane_kept P P'" "w' = sv_world s \<or> port_moves W (sv_world s) w'" for P' w'
    using good_port [OF good_plane [OF assms(1) P that(1)], of w'] good_plane [OF assms(1) P that(1)] that(2) by auto
  show "wp m (\<lambda>_ (P', w'). good (s\<lparr>sv_room := Some P', sv_world := w'\<rparr>))
      (\<lambda>_ (P', w'). good (s\<lparr>sv_room := Some P', sv_world := w'\<rparr>)) (P, sv_world s)"
    by (rule wp_mono [OF wp_conj [OF assms(2) assms(3)]]) (auto intro: kept)
qed

lemma says_input:
  "said s \<Longrightarrow> told_ok B (sv_room s) input \<Longrightarrow>
   wp (send_input W input reason) (\<lambda>_ t. said t \<and> sv_room t = sv_room s) (\<lambda>_. said) s"
  using said_task [of s input] by (simp add: send_input_def ask_world_def wps split: prod.split) (metis snd_conv)

lemma says_expected:
  "said s \<Longrightarrow> sv_session s \<Longrightarrow> told_ok B (sv_room s) input \<Longrightarrow> keeps said (send_expected W input reason) s"
  by (simp add: send_expected_def wps) (rule wp_mono [OF says_input]; simp)

lemma says_refresh: "said s \<Longrightarrow> keeps said (refresh_session_foundations B W) s"
  unfolding refresh_session_foundations_def
  by (intro wp_steps says_expected) (auto simp: foundations_founded)

lemma ends_publish: "said s \<Longrightarrow> ends (publish_projection B S W events) s"
  unfolding worker_good_def
  by (rule wp_mono [OF wp_conj [OF publish_service_ok at_publish]]) auto

text \<open>A call whose result goes on, before the session task is told, after that, and after publishing.\<close>

lemma good_call: "keeps good m s \<Longrightarrow> (\<And>a t. good t \<Longrightarrow> wp (k a) Q (\<lambda>_. failed) t) \<Longrightarrow> wp (bnd m k) Q (\<lambda>_. failed) s"
  by (rule wp_call [where P = "\<lambda>_. good"]) (auto elim!: wp_mono intro: phases)

lemma good_then: "keeps good m s \<Longrightarrow> (\<And>t. good t \<Longrightarrow> wp k Q (\<lambda>_. failed) t) \<Longrightarrow> wp (andthen m k) Q (\<lambda>_. failed) s"
  by (rule wp_then [where P = good]) (auto elim!: wp_mono intro: phases)

lemma said_call: "keeps said m s \<Longrightarrow> (\<And>a t. said t \<Longrightarrow> wp (k a) Q (\<lambda>_. failed) t) \<Longrightarrow> wp (bnd m k) Q (\<lambda>_. failed) s"
  by (rule wp_call [where P = "\<lambda>_. said"]) (auto elim!: wp_mono intro: phases)

lemma said_then: "keeps said m s \<Longrightarrow> (\<And>t. said t \<Longrightarrow> wp k Q (\<lambda>_. failed) t) \<Longrightarrow> wp (andthen m k) Q (\<lambda>_. failed) s"
  by (rule wp_then [where P = said]) (auto elim!: wp_mono intro: phases)

lemma ends_call: "ends m s \<Longrightarrow> (\<And>a t. over t \<Longrightarrow> wp (k a) Q (\<lambda>_. failed) t) \<Longrightarrow> wp (bnd m k) Q (\<lambda>_. failed) s"
  by (rule wp_call)

lemma speaks_then:
  "wp m (\<lambda>_. said) (\<lambda>_. failed) s \<Longrightarrow> (\<And>t. said t \<Longrightarrow> wp k Q (\<lambda>_. failed) t) \<Longrightarrow> wp (andthen m k) Q (\<lambda>_. failed) s"
  by (rule wp_then)

lemma good_asks:
  "good s \<Longrightarrow> (\<And>w. port_moves W w (snd (call w))) \<Longrightarrow>
   (\<And>a t. good t \<Longrightarrow> sv_room t = sv_room s \<Longrightarrow> wp (k a) Q (\<lambda>_. failed) t) \<Longrightarrow> wp (bnd (ask_world call) k) Q (\<lambda>_. failed) s"
  by (rule wp_call [OF wp_mono [OF keeps_ask_world]]) (auto intro: phases)

lemma good_durable:
  assumes "good s"
    and "\<And>P history view revision. sv_room s = Some P \<Longrightarrow> durable_state B P history view revision \<Longrightarrow>
      wp (k (history, view, revision)) Q (\<lambda>_. failed) s"
  shows "wp (bnd (durable_music B) k) Q (\<lambda>_. failed) s"
  by (rule wp_step_durable) (use assms in \<open>auto intro: phases\<close>)

lemma keeps_outbound: "good s \<Longrightarrow> keeps good (outbound B W events local lane committed) s"
  unfolding outbound_def by (rule keeps_on_world) (auto intro: port_moves_intros)

lemma ends_after_commit: "good s \<Longrightarrow> ends (after_commit B S W events music reason) s"
  unfolding after_commit_def
  apply (intro wp_steps)
  apply (rule wp_call [where P = "\<lambda>advance t. good t \<and> (\<forall>h v r. advance = Some (h, v, r) \<longrightarrow>
      sv_session t \<and> told_ok B (sv_room t) (DurableAdvanced h v r))"])
   apply (intro wp_steps)
    apply (rule good_durable, assumption)
    apply (auto simp: wps good_session told_ok_def)[2]
  apply (rule said_then)
   apply (intro wp_steps says_expected)
       apply (auto intro: phases)[4]
  apply (rule said_then)
   apply (intro wp_steps says_refresh; assumption)
  apply (rule ends_publish, assumption)
  done

lemma ends_handle_commit: "good s \<Longrightarrow> ends (handle_commit B S W events c) s"
  unfolding handle_commit_def
  apply (intro wp_steps; (rule good_failed, assumption)?)
  apply (rule good_call [OF keeps_on_room [OF _ keeps_plane_commit]], assumption)
  apply (intro wp_steps, rule good_then [OF keeps_outbound], assumption)
  apply (rule ends_call [OF ends_after_commit], assumption)
  apply (intro wp_steps; assumption)
  done

lemma ends_handle_grant_peer: "good s \<Longrightarrow> ends (handle_grant_peer B S W events peer) s"
  unfolding handle_grant_peer_def Let_def
  apply (intro wp_steps; (rule good_failed, assumption)?)
  apply (rule good_call [OF keeps_on_room [OF _ keeps_plane_grant_peer]], assumption)
  apply (rule good_then [OF wp_each], assumption)
   apply (intro wp_steps keeps_outbound; assumption)
  apply (rule ends_call [OF ends_after_commit], assumption)
  apply (intro wp_steps; assumption)
  done

lemma said_peer:
  "said s \<Longrightarrow> sv_room s = Some P \<Longrightarrow> said (s\<lparr>sv_session_peers := insert peer (sv_session_peers s)\<rparr>)"
  using at_peer [of s peer] by (auto simp: worker_good_def service_ok_def)

lemma ends_handle_start_session_peer: "good s \<Longrightarrow> ends (handle_start_session_peer B W peer) s"
  unfolding handle_start_session_peer_def
  apply (intro wp_steps; (rule good_failed, assumption)?)
  apply (rule wp_then [where P = "\<lambda>t. said t \<and> sv_room t = sv_room s"])
   apply (rule wp_mono [OF says_input], rule good_said, assumption)
     apply (simp add: foundation_founded told_ok_def)
    apply assumption
   apply (rule said_failed, assumption)
  apply (rule wp_step_modify, rule wp_step_ret, rule said_over)
  apply (auto intro: said_peer)
  done

lemma ends_handle_reset_session: "good s \<Longrightarrow> ends (handle_reset_session B W) s"
  unfolding handle_reset_session_def
  apply (rule good_durable, assumption)
  apply (simp only: prod.case)
  apply (rule good_asks, assumption, rule port_moves_intros)
  apply (intro wp_steps; (rule good_failed, assumption)?)
  apply (rule said_then)
   apply (rule wp_mono [OF says_input], rule good_said, assumption)
     apply (simp_all add: told_ok_def)[3]
  apply (rule said_call [OF said_ask_world], assumption, rule port_moves_intros)
  apply (intro wp_steps; rule phases; assumption)
  done

lemma ends_handle_drain_session: "good s \<Longrightarrow> ends (handle_drain_session B S W events) s"
  unfolding handle_drain_session_def
  apply (rule wp_step_required, rule good_failed, assumption)
  apply (rule good_asks, assumption, rule port_moves_intros)
  apply (intro wp_steps; (rule phases, assumption)?)
  apply (rule good_call [OF keeps_on_room [OF _ keeps_plane_commit_session]], assumption)
  apply (intro wp_steps, rule good_then [OF keeps_outbound], assumption)
  apply (rule good_durable, assumption)
  apply (simp only: prod.case)
  apply (rule said_then [OF says_expected], rule good_said, assumption)
    apply (simp add: good_session)
   apply (simp add: told_ok_def)
  apply (rule said_then [OF says_refresh], assumption)
  apply (rule ends_call [OF ends_publish], assumption)
  apply (intro wp_steps; assumption)
  done

lemma ends_handle_renewal_store: "good s \<Longrightarrow> ends (handle_renewal_store B request) s"
  unfolding handle_renewal_store_def
  apply (rule wp_step_open_room, rule good_failed, assumption)
  apply (rule good_call)
   apply (cases "rq_operation request"; simp add: wp_inspect)
     apply (intro wp_steps; assumption)
    apply (rule wp_then [OF keeps_on_room [OF _ keeps_persist]], assumption, intro wp_steps, assumption)+
  apply (intro wp_steps good_over; assumption)
  done

lemma ends_handle_command: "good s \<Longrightarrow> ends (handle_command B S W events c) s"
  by (cases c; simp add: handle_command_def ends_handle_commit ends_handle_grant_peer ends_handle_start_session_peer
      ends_handle_reset_session ends_handle_drain_session ends_handle_renewal_store)
    (intro wp_steps; rule phases; assumption)+

lemma ends_respond: "over s \<Longrightarrow> ends (respond S kind response) s"
  unfolding respond_def by (intro wp_steps; (assumption | rule over_failed, assumption))

lemma ends_handle_subscribe: "good s \<Longrightarrow> ends (handle_subscribe S k) s"
proof -
  assume "good s"
  then have "good (s\<lparr>sv_subscriptions := insert k (sv_subscriptions s)\<rparr>)"
    using at_subscribe [of s k] by (auto simp: worker_good_def service_ok_def split: option.splits)
  then show ?thesis
    unfolding handle_subscribe_def by (intro wp_step_modify wp_steps; rule phases; assumption)
qed

lemma ends_handle_inbound_record: "good s \<Longrightarrow> ends (handle_inbound_record B S W events bs) s"
  unfolding handle_inbound_record_def Let_def
  apply (intro wp_steps; (rule good_failed, assumption)?)
  apply (rule good_call [OF keeps_on_room [OF _ keeps_plane_apply_live]], assumption)
  apply (intro wp_steps)
  apply (rule speaks_then)
   apply (intro wp_steps; (rule phases, assumption)?)
   apply (rule good_durable, assumption)
   apply (simp only: prod.case)
   apply (rule said_then [OF says_expected], rule good_said, assumption)
     apply (simp; fail)
    apply (simp add: told_ok_def; fail)
   apply (rule wp_mono [OF says_refresh], assumption, assumption, rule said_failed, assumption)
  apply (rule ends_call [OF ends_publish], assumption)
  apply (rule ends_respond, assumption)
  done

lemma keeps_repair_operation: "good s \<Longrightarrow> keeps good (repair_operation B W events operation) s"
  by (cases operation; simp add: repair_operation_def start_initiator_def start_responder_def)
    ((rule keeps_on_room_and_world [OF _ keeps_start_attempt] keeps_on_room_and_world [OF _ keeps_advance_repair]
        keeps_on_room [OF _ keeps_finish_repair], assumption,
      (rule wp_start_attempt_world wp_advance_repair_world, simp add: port_moves_intros)?)+)

lemma keeps_current_music_revision: "good s \<Longrightarrow> keeps good (current_music_revision B) s"
  unfolding current_music_revision_def by (intro wp_steps; assumption)

lemma ends_handle_repair_frame: "good s \<Longrightarrow> ends (handle_repair_frame B S W events bs) s"
  unfolding handle_repair_frame_def
  apply (intro wp_steps; (rule good_failed, assumption)?)
  apply (rule good_call)
   apply (simp add: repaired_music_def split: repair_request.split)
   apply (intro conjI allI impI wp_steps; assumption)
  apply (rule good_call)
   apply (intro wp_steps; assumption?)
   apply (rule wp_call [OF keeps_current_music_revision], assumption)
   apply (intro wp_steps; assumption)
  apply (rule good_call [OF keeps_repair_operation], assumption)
  apply (rule good_call [OF keeps_current_music_revision], assumption)
  apply (intro wp_steps)
  apply (rule speaks_then)
   apply (intro wp_steps; (rule phases, assumption)?)
   apply (rule good_durable, assumption)
   apply (simp only: prod.case)
   apply (rule said_then [OF says_expected], rule good_said, assumption)
     apply (simp; fail)
    apply (simp add: told_ok_def; fail)
   apply (rule wp_mono [OF says_refresh], assumption, assumption, rule said_failed, assumption)
  apply (rule ends_call [OF ends_publish], assumption)
  apply (rule ends_respond, assumption)
  done

lemma ends_steady_request:
  assumes "good s" and "steady_request request"
  shows "ends (handle_request B S W request bs events) s"
  using assms
  by (cases request; simp add: handle_request_def steady_request_def ends_handle_subscribe ends_handle_inbound_record
      ends_handle_repair_frame)
    (intro wp_steps ends_call [OF ends_handle_command] ends_respond; (assumption | rule phases, assumption))+

end

section \<open>Opening and closing\<close>

locale service_life = service_steps +
  assumes at_open: "J s \<Longrightarrow> J (s\<lparr>sv_room := Some P, sv_projection := Some projection, sv_revision := 0,
      sv_subscriptions := {}, sv_session_peers := {}\<rparr>)"
    and at_close: "J s \<Longrightarrow> J (s\<lparr>sv_room := None, sv_projection := None, sv_subscriptions := {}, sv_session_peers := {}\<rparr>)"
    and at_unsubscribe: "J s \<Longrightarrow> J (s\<lparr>sv_subscriptions := sv_subscriptions s - {k}\<rparr>)"
begin

lemma good_opened:
  "good s \<Longrightarrow> plane_ok B P \<Longrightarrow> good (s\<lparr>sv_room := Some P, sv_projection := Some projection, sv_revision := 0,
      sv_subscriptions := {}, sv_session_peers := {}\<rparr>)"
  using at_open [of s] by (simp add: worker_good_def service_ok_def)

lemma says_configured: "good s \<Longrightarrow> keeps said (configure_session W events trace) s"
  unfolding configure_session_def
  by (intro wp_steps wp_mono [OF says_input]) (auto simp: told_ok_def intro: phases split: option.split)

lemma ends_handle_open: "good s \<Longrightarrow> ends (handle_open B S W events bs) s"
  unfolding handle_open_def
  apply (intro wp_steps; (rule good_failed, assumption)?)
  apply (rule wp_call [where P = "\<lambda>P t. good t \<and> plane_ok B P"])
   apply (unfold factory_open_def)
   apply (rule good_call [OF keeps_on_world], assumption, rule port_moves_intros)
   apply (auto simp: wps plane_open_ok good_failed split: sum.split)[1]
  apply (elim conjE)
  apply (intro wp_steps wp_step_modify; (rule good_failed, assumption)?)
  apply (rule said_then [OF says_configured], rule good_opened)
    apply assumption
   apply assumption
  apply (rule ends_respond, rule said_over, assumption)
  done

lemma good_closed:
  "good s \<Longrightarrow> good (s\<lparr>sv_room := None, sv_projection := None, sv_subscriptions := {}, sv_session_peers := {}\<rparr>)"
  using at_close [of s] by (simp add: worker_good_def service_ok_def)

lemma good_unsubscribed: "good s \<Longrightarrow> good (s\<lparr>sv_subscriptions := sv_subscriptions s - {k}\<rparr>)"
  using at_unsubscribe [of s k] by (auto simp: worker_good_def service_ok_def split: option.splits)

lemma ends_request: "good s \<Longrightarrow> ends (handle_request B S W request bs events) s"
proof (cases "steady_request request")
  case False
  assume "good s"
  with False show ?thesis
    by (cases request; simp add: steady_request_def handle_request_def ends_handle_open handle_close_def handle_unsubscribe_def)
      (intro wp_step_modify wp_steps ends_respond good_over good_closed good_unsubscribed; assumption)+
qed (rule ends_steady_request)

end

text \<open>Where a failed request leaves what the next one needs, the requests follow one another.\<close>

locale service_runs = service_life +
  assumes again: "F s \<Longrightarrow> J s"
begin

lemma serve_good:
  assumes "good s"
  shows "\<exists>t. serve B S W requests s = Some t \<and> good t"
  using assms
proof (induction requests arbitrary: s)
  case (Cons r requests)
  obtain request bs events where r: "r = (request, bs, events)" by (cases r)
  have "failed t \<Longrightarrow> good t" for t by (simp add: worker_good_def again)
  then have "keeps good (handle_request B S W request bs events) s"
    by (intro wp_mono [OF ends_request [OF Cons.prems]]) (auto intro: phases)
  from keepsD [OF this] Cons.IH show ?case
    by (auto simp: r split: prod.split sum.split fault.split)
qed simp

end

end
