(* ===== verification/Worker_Log.thy ===== *)
theory Worker_Log
  imports Worker_Invariant
begin

text \<open>
  The room worker on ports with a log of what left it: the records it announced, what it told the session task
  and the revisions its subscribers were sent. The interfaces of \<open>Worker_Invariant\<close> are interpreted on every worker, for
  the invariant alone, and on every worker with these ports, for what one request tells the task (\<open>told\<close>) and what
  it sends a subscriber (\<open>subscribed\<close>).
\<close>

section \<open>The log\<close>

datatype ('x, 'k) worker_action = Announced bytes | Told "'x task_input" | Revised 'k u64 u64 bytes

definition unlogged :: "('w \<Rightarrow> 'r \<times> 'w) \<Rightarrow> 'w \<times> 'g \<Rightarrow> 'r \<times> 'w \<times> 'g" where
  "unlogged call wl = (case wl of (w, log) \<Rightarrow> case call w of (r, w') \<Rightarrow> (r, w', log))"

definition logged :: "('r \<Rightarrow> bool) \<Rightarrow> 'a \<Rightarrow> ('w \<Rightarrow> 'r \<times> 'w) \<Rightarrow> 'w \<times> 'a list \<Rightarrow> 'r \<times> 'w \<times> 'a list" where
  "logged success action call wl =
     (case wl of (w, log) \<Rightarrow> case call w of (r, w') \<Rightarrow> (r, w', if success r then log @ [action] else log))"

definition recording_worker ::
  "('x, 'k, 'l, 'w) service_ports \<Rightarrow> ('x, 'k, 'l, 'w \<times> ('x, 'k) worker_action list) service_ports" where
  "recording_worker W =
     \<lparr>repairs =
        \<lparr>attempt_initiate = (\<lambda>events lane l. unlogged (attempt_initiate (repairs W) events lane l)),
         attempt_accept = (\<lambda>events lane l hello. unlogged (attempt_accept (repairs W) events lane l hello)),
         attempt_receive = (\<lambda>events frame x (w, log).
           case attempt_receive (repairs W) events frame x w of (r, kept, w') \<Rightarrow> (r, kept, w', log))\<rparr>,
      open_logs = (\<lambda>request. unlogged (open_logs W request)),
      emit_outbound = (\<lambda>events bs. logged (\<lambda>r. r = Inr ()) (Announced bs) (emit_outbound W events bs)),
      emit_revision = (\<lambda>events k previous revision bs reset.
        logged (\<lambda>r. r = Inr ()) (Revised k previous revision bs) (emit_revision W events k previous revision bs reset)),
      send_task = (\<lambda>input. logged id (Told input) (send_task W input)),
      try_reification = unlogged (try_reification W),
      reset_channel = unlogged (reset_channel W),
      await_reset = (\<lambda>reply. unlogged (await_reset W reply))\<rparr>"

abbreviation worker_log :: "('x, 'k, 'l, 'w \<times> 'g) worker_service \<Rightarrow> 'g" where
  "worker_log s \<equiv> snd (sv_world s)"

lemma unlogged_log [simp]: "snd (snd (unlogged call wl)) = snd wl"
  by (simp add: unlogged_def split: prod.split)

lemma logged_log:
  "snd (snd (logged success action call wl)) = snd wl @ (if success (fst (call (fst wl))) then [action] else [])"
  by (simp add: logged_def split: prod.split)

lemma logged_result [simp]: "fst (logged success action call wl) = fst (call (fst wl))"
  by (simp add: logged_def split: prod.split)

text \<open>What the quiet calls add to the log: announced records at most.\<close>

lemma port_moves_log:
  assumes "port_moves (recording_worker W) wl wl'"
  shows "snd wl' = snd wl \<or> (\<exists>bs. snd wl' = snd wl @ [Announced bs])"
  using assms
  by cases (auto simp: recording_worker_def logged_log split: prod.split)

lemma task_log:
  "snd (snd (send_task (recording_worker W) input wl)) =
     snd wl @ (if fst (send_task W input (fst wl)) then [Told input] else [])"
  by (simp add: recording_worker_def logged_log)

lemma revision_log:
  "snd (snd (emit_revision (recording_worker W) events k previous revision bs reset wl)) =
     snd wl @ (if fst (emit_revision W events k previous revision bs reset (fst wl)) = Inr ()
       then [Revised k previous revision bs] else [])"
  by (simp add: recording_worker_def logged_log)

lemma keeps_on_world_at: "keeps P (on_world call) s \<longleftrightarrow> P (s\<lparr>sv_world := snd (call (sv_world s))\<rparr>)"
  by (simp add: on_world_def wps split: prod.split sum.split)

section \<open>The interface interpreted\<close>

interpretation any_service: service_runs B S W on "\<lambda>_. True" "\<lambda>_. True" "\<lambda>_. True" "\<lambda>_. True"
  for B :: "('x, 'd, 'l) worker_crates" and S and W :: "('x, 'k::linorder, 'l, 'w) service_ports" and on
  by unfold_locales (auto intro: wp_mono [OF publish_service_ok])

text \<open>What one request tells the task, of the room as the request leaves it.\<close>

definition told_action_ok ::
  "('x, 'd, 'l) worker_crates \<Rightarrow> ('x, 'l) data_plane option \<Rightarrow> ('x, 'k) worker_action \<Rightarrow> bool" where
  "told_action_ok B room action = (case action of Told input \<Rightarrow> told_ok B room input | _ \<Rightarrow> True)"

definition told_since ::
  "('x, 'd, 'l) worker_crates \<Rightarrow> ('x, 'k) worker_action list \<Rightarrow>
   ('x, 'k, 'l, 'w \<times> ('x, 'k) worker_action list) worker_service \<Rightarrow> bool" where
  "told_since B log s \<longleftrightarrow> (\<exists>news. worker_log s = log @ news \<and> list_all (told_action_ok B (sv_room s)) news)"

definition untold_since ::
  "('x, 'k) worker_action list \<Rightarrow> ('x, 'k, 'l, 'w \<times> ('x, 'k) worker_action list) worker_service \<Rightarrow> bool" where
  "untold_since log s \<longleftrightarrow>
     (\<exists>news. worker_log s = log @ news \<and> list_all (\<lambda>action. case action of Told _ \<Rightarrow> False | _ \<Rightarrow> True) news)"

lemma untold_told: "untold_since log s \<Longrightarrow> told_since B log s"
  by (auto simp: untold_since_def told_since_def told_action_ok_def list_all_iff split: worker_action.splits)

lemma told_since_log:
  "told_since B log s \<Longrightarrow> worker_log t = worker_log s @ added \<Longrightarrow> sv_room t = sv_room s \<Longrightarrow>
   list_all (told_action_ok B (sv_room s)) added \<Longrightarrow> told_since B log t"
  by (auto simp: told_since_def)

lemma publish_told:
  assumes "told_since B log s" and "service_ok B on s"
  shows "keeps (told_since B log) (publish_projection B S (recording_worker W) events) s"
  unfolding publish_projection_def Let_def
  apply (intro wp_steps wp_step_modify; (rule assms)?)
  apply (rule wp_then [OF wp_each [where I = "told_since B log"]])
    apply (use assms(1) in \<open>simp add: told_since_def\<close>)
   apply (intro wp_steps; assumption?)
   apply (simp add: keeps_on_world_at)
   apply (erule told_since_log, simp add: revision_log, simp, simp add: told_action_ok_def)
  apply (intro wp_steps; assumption)
  done

lemma untold_port:
  "untold_since log s \<Longrightarrow> port_moves (recording_worker W) (sv_world s) w' \<Longrightarrow> untold_since log (s\<lparr>sv_world := w'\<rparr>)"
  using port_moves_log [of W "sv_world s" w'] by (auto simp: untold_since_def)

lemma told_port:
  "told_since B log s \<Longrightarrow> port_moves (recording_worker W) (sv_world s) w' \<Longrightarrow> told_since B log (s\<lparr>sv_world := w'\<rparr>)"
  using port_moves_log [of W "sv_world s" w'] by (auto simp: told_since_def told_action_ok_def)

interpretation told: service_life B S "recording_worker W" on "untold_since log" "told_since B log" "told_since B log" "told_since B log"
  for B :: "('x, 'd, 'l) worker_crates" and S and W :: "('x, 'k::linorder, 'l, 'w) service_ports" and on and log
proof (unfold_locales, goal_cases)
  case (5 s input)
  then show ?case
    by (rule_tac told_since_log [where s = s and added = "if fst (send_task W input (fst (sv_world s))) then [Told input] else []"])
      (auto simp: task_log told_action_ok_def)
next
  case (8 s events)
  then show ?case by (rule publish_told)
qed (erule untold_port untold_told told_port asm_rl | simp add: untold_since_def told_since_def)+

section \<open>Revisions\<close>

text \<open>\<open>continues\<close>: the revisions a subscriber was sent, each from the revision before to the next one and with
  the encoding of a projection other than the one before, lead from one revision and projection to another.\<close>

fun continues ::
  "'x worker_serde \<Rightarrow> u64 \<Rightarrow> 'x worker_projection option \<Rightarrow> (u64 \<times> u64 \<times> bytes) list \<Rightarrow> u64 \<Rightarrow>
   'x worker_projection option \<Rightarrow> bool" where
  "continues S r p [] r' p' \<longleftrightarrow> r' = r \<and> p' = p"
| "continues S r p ((previous, revision, bs) # sent) r' p' \<longleftrightarrow>
     previous = r \<and> revision = saturating_add r 1 \<and>
     (\<exists>q. Some q \<noteq> p \<and> encode_payload (write_projection S) q = Inr bs \<and> continues S revision (Some q) sent r' p')"

lemma continues_append:
  "continues S r p sent r' p' \<Longrightarrow> Some q \<noteq> p' \<Longrightarrow> encode_payload (write_projection S) q = Inr bs \<Longrightarrow>
   continues S r p (sent @ [(r', saturating_add r' 1, bs)]) (saturating_add r' 1) (Some q)"
  by (induction sent arbitrary: r p) (auto 0 4)

text \<open>\<open>skips\<close>: the same with gaps, of which only the numbers are known.\<close>

fun skips :: "u64 \<Rightarrow> (u64 \<times> u64 \<times> bytes) list \<Rightarrow> u64 \<Rightarrow> bool" where
  "skips r [] r' \<longleftrightarrow> r \<le> r'"
| "skips r ((previous, revision, bs) # sent) r' \<longleftrightarrow>
     r \<le> previous \<and> revision = saturating_add previous 1 \<and> skips revision sent r'"

lemma saturating_add_le: "r \<le> saturating_add r (1 :: u64)"
proof (cases "unat r + 1 < 2 ^ 64")
  case True
  then show ?thesis by (simp add: saturating_add_def word_le_nat_alt unat_word_ariths)
next
  case False
  then show ?thesis by (simp add: saturating_add_def)
qed

definition revisions_of :: "'k \<Rightarrow> ('x, 'k) worker_action list \<Rightarrow> (u64 \<times> u64 \<times> bytes) list" where
  "revisions_of k =
     filter_map (\<lambda>action. case action of
       Revised j previous revision bs \<Rightarrow> if j = k then Some (previous, revision, bs) else None | _ \<Rightarrow> None)"

lemma filter_map_append [simp]: "filter_map f (xs @ ys) = filter_map f xs @ filter_map f ys"
  by (induction xs) (auto split: option.split)

lemma revisions_append [simp]: "revisions_of k (as @ bs) = revisions_of k as @ revisions_of k bs"
  by (simp add: revisions_of_def)

lemma revisions_other [simp]:
  "revisions_of k [] = []" "revisions_of k [Announced bs] = []" "revisions_of k [Told input] = []"
  by (simp_all add: revisions_of_def)

lemma revisions_round:
  assumes "distinct ks"
  shows "revisions_of k (map (\<lambda>j. Revised j previous revision bs) ks) = (if k \<in> set ks then [(previous, revision, bs)] else [])"
  using assms unfolding revisions_of_def by (induction ks) auto

lemma bnd_lifted: "bnd (lift_result f (Inr a)) k = k a"
  by (simp add: bnd_def lift_result_def ret_def fun_eq_iff)

text \<open>The round of one revision: every subscriber in order, or those before a call that fails.\<close>

lemma revision_round:
  "wp (each (\<lambda>j. on_world (emit_revision (recording_worker W) events j previous revision bs reset)) ks)
     (\<lambda>_ t. \<exists>w. t = s\<lparr>sv_world := (w, worker_log s @ map (\<lambda>j. Revised j previous revision bs) ks)\<rparr>)
     (\<lambda>_ t. \<exists>w js rest. ks = js @ rest \<and> t = s\<lparr>sv_world := (w, worker_log s @ map (\<lambda>j. Revised j previous revision bs) js)\<rparr>) s"
proof (induction ks arbitrary: s)
  case Nil
  show ?case by (cases "sv_world s") (auto simp: wps intro!: exI [where x = "fst (sv_world s)"])
next
  case (Cons j ks)
  let ?call = "emit_revision (recording_worker W) events j previous revision bs reset"
  obtain res w where w: "?call (sv_world s) = (res, w, worker_log s @ (if res = Inr () then [Revised j previous revision bs] else []))"
    by (cases "?call (sv_world s)") (auto simp: recording_worker_def logged_def split: prod.splits if_splits)
  show ?case
  proof (cases res)
    case (Inl e)
    then have "?call (sv_world s) = (Inl e, w, worker_log s)" using w by simp
    then have "wp (on_world ?call) (\<lambda>_ _. False) (\<lambda>_ t. t = s\<lparr>sv_world := (w, worker_log s)\<rparr>) s"
      by (simp add: on_world_def wps)
    then show ?thesis
      unfolding each.simps wp_andthen by (rule wp_mono) (simp, rule exI [where x = w], rule exI [where x = "[]"], simp)
  next
    case (Inr u)
    let ?s = "s\<lparr>sv_world := (w, worker_log s @ [Revised j previous revision bs])\<rparr>"
    show ?thesis
      using w Inr unfolding each.simps wp_andthen
      apply (simp add: on_world_def wps)
      apply (rule wp_mono [OF Cons.IH [of ?s, unfolded on_world_def]])
       apply auto[1]
      apply clarsimp
      apply (rule exI, rule_tac x = "j # js" in exI)
      apply auto
      done
  qed
qed

text \<open>A request so far, for a subscriber: nothing was sent, or the chain leads to what the worker holds, or a revision the
  worker now holds was not sent.\<close>

definition unrevised ::
  "'k \<Rightarrow> ('x, 'k, 'l, 'w \<times> ('x, 'k) worker_action list) worker_service \<Rightarrow>
   ('x, 'k, 'l, 'w \<times> ('x, 'k) worker_action list) worker_service \<Rightarrow> bool" where
  "unrevised k s t \<longleftrightarrow>
     k \<in> sv_subscriptions t \<and> sv_revision t = sv_revision s \<and> sv_projection t = sv_projection s \<and>
     (\<exists>news. worker_log t = worker_log s @ news \<and> revisions_of k news = [])"

definition follows ::
  "'x worker_serde \<Rightarrow> 'k \<Rightarrow> ('x, 'k, 'l, 'w \<times> ('x, 'k) worker_action list) worker_service \<Rightarrow>
   ('x, 'k, 'l, 'w \<times> ('x, 'k) worker_action list) worker_service \<Rightarrow> bool" where
  "follows S k s t \<longleftrightarrow>
     k \<in> sv_subscriptions t \<and>
     (\<exists>news. worker_log t = worker_log s @ news \<and>
        (unrevised k s t \<and> revisions_of k news = [] \<or>
         (\<exists>q bs. revisions_of k news = [(sv_revision s, sv_revision t, bs)] \<and> sv_revision t = saturating_add (sv_revision s) 1 \<and>
            sv_projection t = Some q \<and> sv_projection s \<noteq> Some q \<and> encode_payload (write_projection S) q = Inr bs)))"

definition misses ::
  "'k \<Rightarrow> ('x, 'k, 'l, 'w \<times> ('x, 'k) worker_action list) worker_service \<Rightarrow>
   ('x, 'k, 'l, 'w \<times> ('x, 'k) worker_action list) worker_service \<Rightarrow> bool" where
  "misses k s t \<longleftrightarrow>
     k \<in> sv_subscriptions t \<and> sv_revision t = saturating_add (sv_revision s) 1 \<and> sv_projection t \<noteq> sv_projection s \<and>
     (\<exists>news. worker_log t = worker_log s @ news \<and> revisions_of k news = [])"

lemma unrevised_follows: "unrevised k s t \<Longrightarrow> follows S k s t"
  by (auto simp: unrevised_def follows_def)

lemma follows_quiet:
  assumes "follows S k s t" and "worker_log u = worker_log t @ added" and "revisions_of k added = []"
    and "sv_revision u = sv_revision t" and "sv_projection u = sv_projection t" and "k \<in> sv_subscriptions u"
  shows "follows S k s u"
proof -
  obtain news where news: "worker_log t = worker_log s @ news"
      "unrevised k s t \<and> revisions_of k news = [] \<or>
         (\<exists>q bs. revisions_of k news = [(sv_revision s, sv_revision t, bs)] \<and> sv_revision t = saturating_add (sv_revision s) 1 \<and>
            sv_projection t = Some q \<and> sv_projection s \<noteq> Some q \<and> encode_payload (write_projection S) q = Inr bs)"
    using assms(1) by (auto simp: follows_def)
  have "unrevised k s t \<Longrightarrow> unrevised k s u"
    using assms(2-6) by (auto simp: unrevised_def)
  then show ?thesis using news assms(2-6) unfolding follows_def by (intro conjI exI [where x = "news @ added"]) auto
qed

text \<open>A request publishes at most once, so nothing was sent before it does.\<close>

lemma publish_follows:
  fixes S :: "'x worker_serde" and k :: "'k::linorder" and W :: "('x, 'k, 'l, 'w) service_ports"
  assumes t: "unrevised k s t" "service_ok B on t"
  shows "wp (publish_projection B S (recording_worker W) events) (\<lambda>_. follows S k s) (\<lambda>_ u. follows S k s u \<or> misses k s u) t"
proof -
  have start: "follows S k s t" by (rule unrevised_follows [OF t(1)])
  show ?thesis
    unfolding publish_projection_def Let_def
    apply (intro wp_steps; (rule start disjI1 [OF start])?)
    subgoal for P q u
    proof -
      assume new: "u = t" "sv_projection u \<noteq> Some q"
      obtain news where news: "worker_log t = worker_log s @ news" "revisions_of k news = []"
        using t(1) by (auto simp: unrevised_def)
      have k: "k \<in> sv_subscriptions t" "finite (sv_subscriptions t)" using t by (auto simp: unrevised_def service_ok_def)
      let ?ks = "sorted_list_of_set (sv_subscriptions t)"
      let ?r = "saturating_add (sv_revision t) 1"
      let ?t = "\<lambda>w bs js. t\<lparr>sv_revision := ?r, sv_projection := Some q,
          sv_world := (w, worker_log t @ map (\<lambda>j. Revised j (sv_revision t) ?r bs) js)\<rparr>"
      have sent: "follows S k s (?t w bs js)"
        if "encode_payload (write_projection S) q = Inr bs" "k \<in> set js" "distinct js" for w bs js
        using that t(1) new news k unfolding follows_def
        by (intro conjI exI [where x = "news @ map (\<lambda>j. Revised j (sv_revision t) ?r bs) js"])
          (auto simp: revisions_round unrevised_def)
      have lost: "misses k s (?t w bs js)" if "k \<notin> set js" "distinct js" for w bs js
        using that t(1) new news k unfolding misses_def
        by (intro conjI exI [where x = "news @ map (\<lambda>j. Revised j (sv_revision t) ?r bs) js"])
          (auto simp: revisions_round unrevised_def)
      show ?thesis
      proof (cases "encode_payload (write_projection S) q")
        case (Inl e)
        have "\<exists>j js. ?ks = j # js" using k by (cases ?ks) (auto simp: sorted_list_of_set_eq_Nil_iff)
        then obtain j js where ks: "?ks = j # js" by blast
        have "misses k s (t\<lparr>sv_revision := ?r, sv_projection := Some q\<rparr>)"
          using t(1) new news k by (auto simp: misses_def unrevised_def)
        then show ?thesis
          unfolding new(1) Inl ks by (simp add: wps)
      next
        case (Inr bs)
        show ?thesis
          unfolding new(1) Inr
          apply (simp only: bnd_lifted)
          apply (rule wp_step_modify, rule wp_then [OF wp_mono [OF revision_round]], assumption)
          subgoal for e u
            using sent [OF Inr] lost
            by simp (metis distinct_append distinct_sorted_list_of_set)
          subgoal for u
            using sent [OF Inr, of ?ks] k by (auto simp: wps)
          done
      qed
    qed
    done
qed

end
