(* ===== verification/Worker_Claims.thy ===== *)
theory Worker_Claims
  imports Worker_Log
begin

text \<open>
  What the room worker guarantees: it never panics and keeps its invariant, the session task is only told
  committed state, and what a subscriber is sent.
\<close>

section \<open>The service as a whole\<close>

text \<open>C2: Whatever requests arrive, and whatever its ports, stores and crates answer, the room worker never panics,
  with or without a session task. It has a projection exactly while a room is open; the open room has the
  deterministic roots of its identity and owner, keys that are this replica's and the owner's, and at most eight
  repair attempts.\<close>

theorem room_worker_invariant:
  fixes B :: "('x, 'd, 'l) worker_crates" and W :: "('x, 'k::linorder, 'l, 'w) service_ports"
  shows "\<exists>s t. serve B S W requests (service_new w) = Some s \<and> service_ok B False s \<and>
     serve B S W requests (service_with_session w) = Some t \<and> service_ok B True t"
proof -
  have "worker_good B False (\<lambda>_. True) (service_new w :: ('x, 'k, 'l, 'w) worker_service)"
    "worker_good B True (\<lambda>_. True) (service_with_session w :: ('x, 'k, 'l, 'w) worker_service)"
    by (simp_all add: worker_good_def service_ok_def service_new_def service_with_session_def)
  with any_service.serve_good [where S = S and W = W and requests = requests] show ?thesis
    unfolding worker_good_def by blast
qed

lemma recording_ok:
  fixes W :: "('x, 'k::linorder, 'l, 'w) service_ports"
  assumes "serve B S (recording_worker W) before (service_with_session (w, [])) = Some s"
  shows "service_ok B True s"
proof -
  have "worker_good B True (\<lambda>_. True) (service_with_session (w, []) :: ('x, 'k, 'l, 'w \<times> ('x, 'k) worker_action list) worker_service)"
    by (simp add: worker_good_def service_ok_def service_new_def service_with_session_def)
  from any_service.serve_good [OF this, where S = S and W = "recording_worker W" and requests = before] assms
  show ?thesis by (simp add: worker_good_def)
qed

text \<open>C6: The session task is only told what the music lane of the open room holds. After any requests, whatever the next
  request tells it is true of the room as that request leaves it: every history, view and revision are those of
  the present snapshot of the room's music lane, the view being the materialization of that history under the music root
  of the room, and every foundation is of the room's identity, this replica and a peer, each with its live grants in that
  history and at least one.\<close>

theorem session_task_told_durable_state:
  fixes B :: "('x, 'd, 'l) worker_crates" and W :: "('x, 'k::linorder, 'l, 'w) service_ports"
  shows "case serve B S (recording_worker W) before (service_with_session (w, [])) of
       None \<Rightarrow> False
     | Some s \<Rightarrow>
         (case handle_request B S (recording_worker W) request bs events s of
            (result, t) \<Rightarrow>
              \<exists>news. worker_log t = worker_log s @ news \<and> list_all (told_action_ok B (sv_room t)) news)"
proof -
  obtain s where s: "serve B S (recording_worker W) before (service_with_session (w, [])) = Some s"
    using any_service.serve_good [where B = B and S = S and W = "recording_worker W" and requests = before and on = True
        and s = "service_with_session (w, [])"]
    by (auto simp: worker_good_def service_ok_def service_new_def service_with_session_def)
  have "worker_good B True (untold_since (worker_log s)) s"
    using recording_ok [OF s] by (simp add: worker_good_def untold_since_def)
  from keepsD [OF told.ends_request [OF this, where S = S and W = W and request = request and bs = bs and events = events]]
  show ?thesis
    by (auto simp: s worker_good_def told_since_def split: prod.split)
qed

text \<open>One request, for a subscriber.\<close>

lemma subscriber_request:
  fixes B :: "('x, 'd, 'l) worker_crates" and W :: "('x, 'k::linorder, 'l, 'w) service_ports"
  assumes "service_ok B on s" and "k \<in> sv_subscriptions s" and "steady_request request"
  shows "wp (handle_request B S (recording_worker W) request bs events)
     (\<lambda>_ t. service_ok B on t \<and> follows S k s t) (\<lambda>_ t. service_ok B on t \<and> (follows S k s t \<or> misses k s t)) s"
proof -
  have steps: "service_steps B S (recording_worker W) on (unrevised k s) (unrevised k s) (follows S k s)
      (\<lambda>t. follows S k s t \<or> misses k s t)"
  proof unfold_locales
    fix t w' assume "unrevised k s t" "port_moves (recording_worker W) (sv_world t) w'"
    then show "unrevised k s (t\<lparr>sv_world := w'\<rparr>)"
      using port_moves_log [of W "sv_world t" w'] by (auto simp: unrevised_def)
  next
    fix t input assume "unrevised k s t"
    then show "unrevised k s (t\<lparr>sv_world := snd (send_task (recording_worker W) input (sv_world t))\<rparr>)"
      by (auto simp: unrevised_def task_log)
  next
    fix t events assume "unrevised k s t" "service_ok B on t"
    then show "wp (publish_projection B S (recording_worker W) events) (\<lambda>_. follows S k s) (\<lambda>_ u. follows S k s u \<or> misses k s u) t"
      by (rule publish_follows)
  qed (auto simp: unrevised_def intro: unrevised_follows)
  have "worker_good B on (unrevised k s) s"
    using assms(1,2) by (simp add: worker_good_def unrevised_def)
  from service_steps.ends_steady_request [OF steps this assms(3)] show ?thesis
    by (rule wp_mono) (simp_all add: worker_good_def)
qed

text \<open>Every request that changed the projection was answered without an error.\<close>

fun lossless ::
  "('x, 'd, 'l) worker_crates \<Rightarrow> 'x worker_serde \<Rightarrow> ('x, 'k::linorder, 'l, 'w) service_ports \<Rightarrow>
   ('k worker_request \<times> bytes \<times> 'x) list \<Rightarrow> ('x, 'k, 'l, 'w) worker_service \<Rightarrow> bool" where
  "lossless B S W [] s \<longleftrightarrow> True"
| "lossless B S W ((request, bs, events) # requests) s \<longleftrightarrow>
     (case handle_request B S W request bs events s of
        (result, t) \<Rightarrow> (isl result \<longrightarrow> sv_projection t = sv_projection s) \<and> lossless B S W requests t)"

lemma follows_continues:
  assumes "follows S k s t"
  obtains news where "worker_log t = worker_log s @ news"
    and "continues S (sv_revision s) (sv_projection s) (revisions_of k news) (sv_revision t) (sv_projection t)"
  using assms by (fastforce simp: follows_def unrevised_def)

lemma continues_join:
  "continues S r p sent r' p' \<Longrightarrow> continues S r' p' later r'' p'' \<Longrightarrow> continues S r p (sent @ later) r'' p''"
  by (induction sent arbitrary: r p) (auto 0 4)

lemma skips_join: "skips r sent r' \<Longrightarrow> skips r' later r'' \<Longrightarrow> skips r (sent @ later) r''"
proof (induction sent arbitrary: r)
  case Nil
  then show ?case by (cases later) auto
qed auto

lemma continues_skips: "continues S r p sent r' p' \<Longrightarrow> skips r sent r'"
  by (induction sent arbitrary: r p) auto

text \<open>C7: The revisions a subscriber is sent. Whatever the event port does with them, each revision leads from one
  number to the next one, and the numbers only climb and never overtake the worker's. As long as no request that changed
  the projection was answered with an error there is no gap: each revision leads from the one before it, the snapshot's
  for the first, carries the encoding of a projection that differs from the one before, and the last carries the projection the
  worker holds. (A send or an encoding that fails ends the round of a revision, and with it the request; then subscribers later
  in the round are not sent it although the worker holds it.)\<close>

theorem subscriber_revisions_contiguous:
  fixes B :: "('x, 'd, 'l) worker_crates" and W :: "('x, 'k::linorder, 'l, 'w) service_ports"
  assumes "serve B S (recording_worker W) before (service_with_session (w, [])) = Some s"
    and "k \<in> sv_subscriptions s" and "\<forall>(request, _) \<in> set requests. steady_request request"
  shows "\<exists>t news. serve B S (recording_worker W) requests s = Some t \<and> worker_log t = worker_log s @ news \<and>
     skips (sv_revision s) (revisions_of k news) (sv_revision t) \<and>
     (lossless B S (recording_worker W) requests s \<longrightarrow>
        continues S (sv_revision s) (sv_projection s) (revisions_of k news) (sv_revision t) (sv_projection t))"
  using recording_ok [OF assms(1)] assms(2,3)
proof (induction requests arbitrary: s)
  case (Cons r requests)
  obtain request bs events where r: "r = (request, bs, events)" by (cases r)
  obtain result t where t: "handle_request B S (recording_worker W) request bs events s = (result, t)" by fastforce
  have step: "wp (handle_request B S (recording_worker W) request bs events)
     (\<lambda>_ t. service_ok B True t \<and> follows S k s t) (\<lambda>_ t. service_ok B True t \<and> (follows S k s t \<or> misses k s t)) s"
    using Cons.prems by (intro subscriber_request) (auto simp: r)
  then have calm: "result \<noteq> Inl Panic" and ok: "service_ok B True t" and "follows S k s t \<or> isl result \<and> misses k s t"
    using t by (auto simp: wp_def split: sum.splits fault.splits)
  then consider "follows S k s t" | "isl result" "misses k s t" by blast
  then obtain first where first: "worker_log t = worker_log s @ first" "skips (sv_revision s) (revisions_of k first) (sv_revision t)"
      "k \<in> sv_subscriptions t"
      "(isl result \<longrightarrow> sv_projection t = sv_projection s) \<longrightarrow>
         continues S (sv_revision s) (sv_projection s) (revisions_of k first) (sv_revision t) (sv_projection t)"
  proof cases
    case 1
    obtain news where news: "worker_log t = worker_log s @ news"
        "continues S (sv_revision s) (sv_projection s) (revisions_of k news) (sv_revision t) (sv_projection t)"
      by (rule follows_continues [OF 1])
    moreover have "k \<in> sv_subscriptions t" using 1 by (simp add: follows_def)
    ultimately show ?thesis using that [OF news(1) continues_skips [OF news(2)]] by blast
  next
    case 2
    then show ?thesis using that by (auto simp: misses_def saturating_add_le)
  qed
  obtain u rest where "serve B S (recording_worker W) requests t = Some u" "worker_log u = worker_log t @ rest"
      "skips (sv_revision t) (revisions_of k rest) (sv_revision u)"
      "lossless B S (recording_worker W) requests t \<longrightarrow>
         continues S (sv_revision t) (sv_projection t) (revisions_of k rest) (sv_revision u) (sv_projection u)"
    using Cons.IH [OF ok first(3)] Cons.prems(3) by auto
  then show ?case
    using first t calm
    by (intro exI [where x = u] exI [where x = "first @ rest"])
      (auto simp: r intro: skips_join continues_join split: sum.split fault.split)
qed (auto intro!: exI [where x = "[]"])

end
