(* ===== verification/Worker_Commits.thy ===== *)
theory Worker_Commits
  imports Worker_Log
begin

text \<open>
  What leaves the room worker when a command commits, in which order: the record for the other replicas, what the session task is told,
  then the revisions of the subscribers.
\<close>

abbreviation any_error :: "string \<Rightarrow> 's \<Rightarrow> bool" where
  "any_error \<equiv> \<lambda>_ _. True"

lemma wp_outbound:
  "wp (outbound B (recording_worker W) events local lane committed)
     (\<lambda>_ t. \<exists>w. t = s\<lparr>sv_world := (w, worker_log s @
        [Announced (live_encode (record_bytes B) \<lparr>lr_lane = lane, lr_source = local, lr_record = committed\<rparr>)])\<rparr>) any_error s"
  by (cases "sv_world s") (auto simp: outbound_def on_world_def wps recording_worker_def logged_def split: prod.split sum.split)

lemma wp_send_input:
  "wp (send_input (recording_worker W) input reason)
     (\<lambda>_ t. \<exists>w. t = s\<lparr>sv_world := (w, worker_log s @ [Told input])\<rparr>) any_error s"
  by (cases "sv_world s")
    (auto simp: send_input_def ask_world_def wps recording_worker_def logged_def split: prod.split)

lemma wp_send_expected:
  "sv_session s \<Longrightarrow> wp (send_expected (recording_worker W) input reason)
     (\<lambda>_ t. \<exists>w. t = s\<lparr>sv_world := (w, worker_log s @ [Told input])\<rparr>) any_error s"
  using wp_send_input [of W input reason s] by (simp add: send_expected_def wps)

lemma wp_refresh:
  "wp (refresh_session_foundations B (recording_worker W))
     (\<lambda>_ t. if sv_session s
        then \<exists>w. t = s\<lparr>sv_world := (w, worker_log s @ [Told (RefreshFoundations (current_session_foundations B s))])\<rparr>
        else t = s) any_error s"
  using wp_send_expected [of s W "RefreshFoundations (current_session_foundations B s)"
      "''Room worker session task closed during foundation refresh''"]
  by (simp add: refresh_session_foundations_def wps)

fun is_revision :: "('x, 'k) worker_action \<Rightarrow> bool" where
  "is_revision (Revised _ _ _ _) = True"
| "is_revision _ = False"

lemma wp_publish_log:
  fixes W :: "('x, 'k::linorder, 'l, 'w) service_ports"
  shows "wp (publish_projection B S (recording_worker W) events)
     (\<lambda>r t. r = sv_revision t \<and> sv_room t = sv_room s \<and>
        (\<exists>sent. worker_log t = worker_log s @ sent \<and> list_all is_revision sent)) any_error s"
proof -
  have pass: "wp (each (\<lambda>k. bnd (lift_result id r) (\<lambda>bs.
        on_world (emit_revision (recording_worker W) events k previous revision bs reset))) ks)
      (\<lambda>_ t. \<exists>w sent. t = u\<lparr>sv_world := (w, worker_log u @ sent)\<rparr> \<and> list_all is_revision sent) any_error u"
    for r previous revision reset ks and u :: "('x, 'k, 'l, 'w \<times> ('x, 'k) worker_action list) worker_service"
  proof (rule wp_each)
    show "\<exists>w sent. u = u\<lparr>sv_world := (w, worker_log u @ sent)\<rparr> \<and> list_all is_revision sent"
      by (cases "sv_world u") (auto intro!: exI [where x = "fst (sv_world u)"] exI [where x = "[]"])
  next
    fix k and t :: "('x, 'k, 'l, 'w \<times> ('x, 'k) worker_action list) worker_service"
    assume "\<exists>w sent. t = u\<lparr>sv_world := (w, worker_log u @ sent)\<rparr> \<and> list_all is_revision sent"
    then obtain w sent where t: "t = u\<lparr>sv_world := (w, worker_log u @ sent)\<rparr>" "list_all is_revision sent" by blast
    have "sv_world t = (w, worker_log u @ sent)" by (simp add: t)
    then show "wp (bnd (lift_result id r) (\<lambda>bs. on_world (emit_revision (recording_worker W) events k previous revision bs reset)))
        (\<lambda>_ t. \<exists>w sent. t = u\<lparr>sv_world := (w, worker_log u @ sent)\<rparr> \<and> list_all is_revision sent) any_error t"
      using t(2)
      by (auto simp: on_world_def wps recording_worker_def logged_def t(1) split: sum.split prod.split)
        (rule exI, rule exI [where x = "sent @ [Revised k previous revision x]" for x], simp)
  qed
  show ?thesis
    unfolding publish_projection_def Let_def
    apply (intro wp_steps wp_step_modify; simp?)
    apply (rule wp_then [OF pass])
    apply (auto simp: wps)
    done
qed

text \<open>What a command tells the session task of the room: nothing, or the new state of the music lane and the foundations.\<close>

definition told_of_music ::
  "('x, 'd, 'l) worker_crates \<Rightarrow> ('x, 'l) data_plane option \<Rightarrow> bool \<Rightarrow> ('x, 'k) worker_action list \<Rightarrow> bool" where
  "told_of_music B room music told_list \<longleftrightarrow>
     (if music
      then \<exists>history view revision foundations.
        told_list = [Told (DurableAdvanced history view revision), Told (RefreshFoundations foundations)] \<and>
        told_ok B room (DurableAdvanced history view revision) \<and> told_ok B room (RefreshFoundations foundations)
      else told_list = [])"

lemma ret_then: "bnd (ret a) k = k a" "andthen (ret ()) m = m"
  by (simp_all add: bnd_def andthen_def ret_def fun_eq_iff)

lemma told_then_sent:
  "told_ok B room (DurableAdvanced h v r) \<Longrightarrow> told_ok B room (RefreshFoundations fs) \<Longrightarrow> list_all is_revision sent \<Longrightarrow>
   \<exists>told_list rest. Told (DurableAdvanced h v r) # Told (RefreshFoundations fs) # sent = told_list @ rest \<and>
     list_all is_revision rest \<and> told_of_music B room True told_list"
  by (rule exI [where x = "[Told (DurableAdvanced h v r), Told (RefreshFoundations fs)]"], rule exI [where x = sent])
    (auto simp: told_of_music_def)

lemma on_room_runs:
  "sv_room s = Some P \<Longrightarrow> on_room m s = (fst (m P), s\<lparr>sv_room := Some (snd (m P))\<rparr>)"
  by (simp add: on_room_def open_room_def bnd_def gets_def ok_or_def ret_def zoom_def split: prod.split)

lemma wp_on_room_at:
  assumes "sv_room s = Some P" and "keeps_plane P m"
  shows "wp (on_room m) (\<lambda>a t. \<exists>P'. m P = (Inr a, P') \<and> t = s\<lparr>sv_room := Some P'\<rparr>) any_error s"
  using keepsD [OF assms(2)]
  by (cases "m P") (auto simp: wp_def on_room_runs [OF assms(1)] split: sum.split fault.split)

lemma foundations_told:
  "told_ok B (sv_room s) (RefreshFoundations (current_session_foundations B (s\<lparr>sv_world := w\<rparr>)))"
  using foundations_founded [of B "s\<lparr>sv_world := w\<rparr>"] by simp

lemma wp_after_commit:
  fixes W :: "('x, 'k::linorder, 'l, 'w) service_ports"
  shows "wp (after_commit B S (recording_worker W) events music reason)
     (\<lambda>r t. r = sv_revision t \<and> sv_room t = sv_room s \<and>
        (\<exists>told_list sent. worker_log t = worker_log s @ told_list @ sent \<and> list_all is_revision sent \<and>
           told_of_music B (sv_room s) (music \<and> sv_session s) told_list)) any_error s"
proof (cases "music \<and> sv_session s")
  case True
  then show ?thesis
    unfolding after_commit_def
    apply (intro wp_steps; simp?)
    apply (rule wp_call [where P = "\<lambda>advance t. t = s \<and> (\<exists>h v r. advance = Some (h, v, r) \<and> told_ok B (sv_room s) (DurableAdvanced h v r))"])
     apply (rule wp_step_durable)
      apply (auto simp: wps told_ok_def)[2]
    apply (elim conjE exE, simp)
    apply (rule wp_then [OF wp_send_expected], simp)
    apply (elim exE)
    apply (rule wp_then [OF wp_refresh])
    apply (rule wp_mono [OF wp_publish_log])
     apply (auto intro!: told_then_sent foundations_told)
    done
next
  case False
  have publish: "wp (publish_projection B S (recording_worker W) events)
     (\<lambda>r t. r = sv_revision t \<and> sv_room t = sv_room s \<and>
        (\<exists>told_list sent. worker_log t = worker_log s @ told_list @ sent \<and> list_all is_revision sent \<and>
           told_of_music B (sv_room s) False told_list)) any_error s"
    by (rule wp_mono [OF wp_publish_log]) (auto simp: told_of_music_def)
  have "wp (if music then refresh_session_foundations B (recording_worker W) else ret ()) (\<lambda>_ t. t = s) any_error s"
    using wp_refresh [of B W s] False by (cases "sv_session s") (simp_all add: wps)
  note wp_then_at [OF this publish]
  with False show ?thesis
    unfolding after_commit_def by (intro wp_step_gets) (auto simp: ret_then)
qed

text \<open>C8: A local command is announced to the other replicas as soon as it is committed, and before anything else
  is told of it: the record of the entry the lane admitted, under this replica's name; then, for a music command in a
  room with a session task, the state of the lane and the foundations; then the revisions of the subscribers. The
  answer names the entry and the revision then current. When the commit fails, nothing is announced.\<close>

theorem commit_announced_in_order:
  fixes W :: "('x, 'k::linorder, 'l, 'w) service_ports"
  assumes "handle_command B S (recording_worker W) events (CommitCommand c) s = (r, t)"
  shows "(\<forall>response. r = Inr response \<longrightarrow>
      (\<exists>P P' e committed told_list sent. sv_room s = Some P \<and> plane_commit B c P = (Inr (e, committed), P') \<and>
         sv_room t = Some P' \<and> response = CommandCommitted e (sv_revision t) \<and>
         worker_log t = worker_log s @
           Announced (live_encode (record_bytes B)
             \<lparr>lr_lane = lane_of_command c, lr_source = pl_local_actor P, lr_record = committed\<rparr>) # told_list @ sent \<and>
         told_of_music B (Some P') (lane_of_command c = Music \<and> sv_session s) told_list \<and> list_all is_revision sent)) \<and>
     (\<forall>P e P'. sv_room s = Some P \<longrightarrow> plane_commit B c P = (Inl (Err e), P') \<longrightarrow>
        r = Inl (Err e) \<and> worker_log t = worker_log s)"
proof -
  let ?Q = "\<lambda>P response t. \<exists>P' e committed told_list sent. plane_commit B c P = (Inr (e, committed), P') \<and>
         sv_room t = Some P' \<and> response = CommandCommitted e (sv_revision t) \<and>
         worker_log t = worker_log s @
           Announced (live_encode (record_bytes B)
             \<lparr>lr_lane = lane_of_command c, lr_source = pl_local_actor P, lr_record = committed\<rparr>) # told_list @ sent \<and>
         told_of_music B (Some P') (lane_of_command c = Music \<and> sv_session s) told_list \<and> list_all is_revision sent"
  have "wp (handle_command B S (recording_worker W) events (CommitCommand c)) (\<lambda>response t. \<exists>P. sv_room s = Some P \<and> ?Q P response t) any_error s"
    unfolding handle_command_def handle_commit_def worker_command.case
    apply (intro wp_steps; simp)
    subgoal for P
      apply (rule wp_call [OF wp_on_room_at [OF _ keeps_plane_commit]], assumption)
      apply (clarsimp simp del: append.simps)
      apply (rule wp_then [OF wp_outbound])
      apply (clarsimp simp del: append.simps)
      apply (rule wp_call [OF wp_after_commit])
      apply (rule wp_step_ret)
      apply auto
      done
    done
  then show ?thesis
    using assms
    by (auto simp: wp_def handle_command_def handle_commit_def bnd_def open_room_def gets_def ok_or_def ret_def
        on_room_runs split: prod.splits sum.splits)
qed

end
