(* ===== verification/Worker_Floors.thy ===== *)
theory Worker_Floors
  imports Worker_Rules
begin

text \<open>
  The renewal floors a room worker keeps for its session task, in a checkpoint of the music lane: what is
  persisted is read back, for each peer, and the number of peers is bounded. The laws of the replica crate are those of the documented
  checkpoints (\<open>checkpoint_laws\<close>).
\<close>

lemma on_lane_ok [oks]:
  "on_lane lane call P = (Inr a, P') \<longleftrightarrow> (\<exists>l. call (plane_lane P lane) = (Inr a, l) \<and> P' = put_lane lane l P)"
  by (auto simp: on_lane_def on_part_def split: prod.split sum.split)

text \<open>A local transaction that saves a checkpoint leaves a lane whose snapshot has that checkpoint, intact, under
  its key.\<close>

definition checkpoint_laws :: "('x, 'd, 'l) worker_crates \<Rightarrow> bool" where
  "checkpoint_laws B \<longleftrightarrow>
     (\<forall>key bs view mark l prepared l'. view_checkpoint B view key bs = Inr mark \<longrightarrow>
        local_transaction B l (Some mark) = Inr prepared \<longrightarrow> commit_local B prepared l = (Inr (), l') \<longrightarrow>
        (\<exists>snapshot saved. lane_state (replicas B) l' = Inr snapshot \<and> checkpoint_of B snapshot key = Some saved \<and>
           checkpoint_intact B saved \<and> checkpoint_bytes B saved = bs))"

lemma payload_roundtrip:
  "cbor_roundtrip writer reader \<Longrightarrow> encode_payload writer body = Inr bs \<Longrightarrow> decode_payload reader bs = Inr body"
  by (auto simp: encode_payload_def decode_payload_def cbor_roundtrip_def split: option.splits)

lemma put_lane_music [simp]:
  "plane_lane (put_lane lane l P) lane = l" "pl_local_actor (put_lane lane l P) = pl_local_actor P"
  by (simp_all add: put_lane_def plane_lane_def split: room_lane.split)

lemma validate_put_lane [simp]:
  "validate_session_renewal_key (put_lane lane l P) key = validate_session_renewal_key P key"
  by (simp add: validate_session_renewal_key_def)

lemma floor_count_inserted:
  "floor_count (floors\<lparr>fl_floors := fmupd k v (fl_floors floors)\<rparr>) =
     (if fmlookup (fl_floors floors) k = None then floor_count floors + 1 else floor_count floors)"
  by (auto simp: floor_count_def fcard.rep_eq card_insert_if fmlookup_dom_iff)

lemma persisted_floors:
  assumes "checkpoint_laws B" and "cbor_roundtrip (write_floors B) (read_floors B)"
    and "persist_session_renewal_floor B key mark expected P = (Inr (), P')"
  shows "\<exists>floors. session_renewal_floors B P = Inr floors \<and>
     session_renewal_floors B P' = Inr (floors\<lparr>fl_floors := fmupd (rk_peer key) mark (fl_floors floors)\<rparr>) \<and>
     validate_session_renewal_key P key = Inr () \<and> pl_room P' = pl_room P \<and> pl_local_actor P' = pl_local_actor P"
proof -
  obtain floors bs checkpoint_key view saved prepared l where p:
      "validate_session_renewal_key P key = Inr ()" "session_renewal_floors B P = Inr floors"
      "fmlookup (fl_floors floors) (rk_peer key) = None \<longrightarrow> floor_count floors < max_session_renewal_peers"
      "encode_payload (write_floors B) (floors\<lparr>fl_floors := fmupd (rk_peer key) mark (fl_floors floors)\<rparr>) = Inr bs"
      "session_renewal_checkpoint_key B = Inr checkpoint_key" "view_checkpoint B view checkpoint_key bs = Inr saved"
      "local_transaction B (pl_music P) (Some saved) = Inr prepared"
      "commit_local B prepared (plane_lane P Music) = (Inr (), l)" "P' = put_lane Music l P"
    using assms(3) unfolding persist_session_renewal_floor_def Let_def
    by (auto simp: oks not_le split: if_splits)
  obtain snapshot c where c: "lane_state (replicas B) l = Inr snapshot" "checkpoint_of B snapshot checkpoint_key = Some c"
      "checkpoint_intact B c" "checkpoint_bytes B c = bs"
    using assms(1) p(6-8) unfolding checkpoint_laws_def plane_lane_def by fastforce
  have "floor_count floors \<le> max_session_renewal_peers"
    using p(2) by (auto simp: session_renewal_floors_def max_session_renewal_peers_def floor_count_def split: option.splits if_splits)
  then have "floor_count (floors\<lparr>fl_floors := fmupd (rk_peer key) mark (fl_floors floors)\<rparr>) \<le> max_session_renewal_peers"
    using p(3) by (auto simp: floor_count_inserted)
  then have "session_renewal_floors B P' = Inr (floors\<lparr>fl_floors := fmupd (rk_peer key) mark (fl_floors floors)\<rparr>)"
    using p(5,9) c payload_roundtrip [OF assms(2) p(4)]
    by (simp add: session_renewal_floors_def music_snapshot_def lane_snapshot_def)
  then show ?thesis using p(1,2,9) by simp
qed

text \<open>C9: A renewal floor that was persisted is read back; the floors of other peers are as they were, and the
  checkpoint never has more than 64 peers.\<close>

theorem persisted_floor_read_back:
  assumes "checkpoint_laws B" and "cbor_roundtrip (write_floors B) (read_floors B)"
    and "persist_session_renewal_floor B key mark expected P = (Inr (), P')"
  shows "load_session_renewal_floor B P' key = Inr (Some mark) \<and>
     (\<forall>other. rk_peer other \<noteq> rk_peer key \<longrightarrow> load_session_renewal_floor B P' other = load_session_renewal_floor B P other) \<and>
     (\<exists>floors. session_renewal_floors B P' = Inr floors \<and> floor_count floors \<le> 64)"
proof -
  obtain floors where f: "session_renewal_floors B P = Inr floors"
      "session_renewal_floors B P' = Inr (floors\<lparr>fl_floors := fmupd (rk_peer key) mark (fl_floors floors)\<rparr>)"
      "validate_session_renewal_key P key = Inr ()" "pl_room P' = pl_room P" "pl_local_actor P' = pl_local_actor P"
    using persisted_floors [OF assms] by blast
  have same: "validate_session_renewal_key P' other = validate_session_renewal_key P other" for other
    using f(4,5) by (simp add: validate_session_renewal_key_def)
  have "floor_count floors \<le> 64" if "session_renewal_floors B Q = Inr floors" for Q floors
    using that by (auto simp: session_renewal_floors_def max_session_renewal_peers_def floor_count_def split: option.splits if_splits)
  with f same show ?thesis
    by (auto simp: load_session_renewal_floor_def)
qed

end
