(* ===== verification/Worker_Admission.thy ===== *)
theory Worker_Admission
  imports Worker_Rules
begin

text \<open>
  What a room worker prepares passes the admission policy of its own room, which is also that of every other
  replica of the room (\<open>Room_Commands\<close>): the root of a lane, the grants of the owner, and the commands of the extension
  lane.
\<close>

text \<open>The capability snapshot lists a grant once.\<close>

definition grants_listed_once :: "('x, 'l) replica_crates \<Rightarrow> bool" where
  "grants_listed_once C \<longleftrightarrow> (\<forall>captured actor. distinct (map fst (grants_for_receiver C captured actor)))"

lemma filter_map_fst_distinct:
  "distinct (map fst xs) \<Longrightarrow> distinct (filter_map (\<lambda>(i, g). if P i g then None else Some i) xs)"
proof (induction xs)
  case (Cons x xs)
  have "set (filter_map (\<lambda>(i, g). if P i g then None else Some i) xs) \<subseteq> set (map fst xs)"
    by (auto simp: filter_map_set split: if_splits) force
  with Cons show ?case by (auto split: prod.split)
qed simp

lemma live_grants_bounded:
  "grants_listed_once C \<Longrightarrow> distinct (live_grants_for C history root actor)"
  "length (live_grants_for C history root actor) \<le> presented_limit (policy C)"
  by (auto simp: live_grants_for_def Let_def grants_listed_once_def intro!: distinct_take filter_map_fst_distinct)

text \<open>C16: A command of the extension lane that a worker prepares is refused by no replica of the room for its form,
  its actor, its grants or its area: admission of its payload, with the presentation the worker signs, is exactly the
  check of the command against the history.\<close>

theorem own_command_passes_admission:
  assumes "json_ok (envelopes (policy (replicas B)))" and "grants_listed_once (replicas B)"
    and "plane_capabilities B P actor Extension = Inr grants" and "grants \<noteq> []"
    and "encode_room_command (replicas B) namespace actor grants (ExtensionCommand e) = Inr pay"
    and "cap_of (policy (replicas B)) pay = None"
  shows "validate_entry (policy (replicas B)) display Extension namespace entry_hash pay prevs H
       (Presented \<lparr>pr_receiver = actor, pr_presented = grants,
          pr_area = command_area (replicas B) namespace (ExtensionCommand e), pr_invoke = True\<rparr>) =
     validate_extension (policy (replicas B)) H e prevs"
proof -
  let ?C = "policy (replicas B)"
  let ?envelope = "\<lparr>ce_generation = room_protocol_generation, ce_namespace = namespace, ce_actor = actor,
      ce_presented = grants, ce_command = e\<rparr>"
  have "extension_of ?C pay = Inr ?envelope"
    using encoded_command [OF assms(1), of _ Extension ?envelope pay] assms(5)
    by (simp add: extension_of_def encode_room_command_def encode_extension_command_def)
  moreover have "distinct grants" "length grants \<le> presented_limit ?C"
    using assms(3) live_grants_bounded(1) [OF assms(2)] live_grants_bounded(2)
    by (auto simp: plane_capabilities_def context_capabilities_for_lane_def)
  then have "presented_ids ?C ?envelope = Inr grants"
    using assms(4) by (simp add: presented_ids_def distinct_card)
  ultimately show ?thesis
    using assms(6) by (simp add: validate_entry_def validate_presented_command_def command_area_def and_then_def)
qed

text \<open>The worker grants only as the owner of its room, and what it grants is admitted: with the key it chooses,
  a grant names the owner as its issuer and the lane's root as its parent, and the policy of the extension lane admits
  it; the lane's root itself is admitted as the trusted root.\<close>

theorem own_grants_pass_admission:
  fixes B :: "('x, 'd, 'l) worker_crates" and P :: "('x, 'l) data_plane"
  defines "C \<equiv> replicas B" and "R \<equiv> pl_room P"
  defines "grant \<equiv> member_grant (replicas B) (id_extension (dx_identity (pl_room P))) (dx_extension_root (pl_room P))"
  assumes "plane_ok B P" and "granting_key B P = Inr key" and "length member = 32" and "length (dx_owner R) = 32"
    and "cap_of (policy C) pay = Some (Grant (grant key member))"
    and "cap_of (policy C) root_pay = Some (Grant (lane_root_grant C (id_extension (dx_identity R)) (dx_owner R)))"
  shows "issuer (grant key member) = dx_owner R \<and> parent (grant key member) = Some (dx_extension_root R) \<and>
     dx_extension_root R = entry_hash_of C (lane_trusted_root C (id_extension (dx_identity R)) (dx_owner R)) \<and>
     validate_entry (policy C) display Extension (id_extension (dx_identity R)) entry_hash pay prevs H
       (Presented \<lparr>pr_receiver = actor_from_key C key, pr_presented = [dx_extension_root R],
          pr_area = gr_area (grant key member), pr_invoke = True\<rparr>) = Inr () \<and>
     validate_entry (policy C) display Extension (id_extension (dx_identity R)) entry_hash root_pay prevs H TrustedRoot = Inr ()"
proof -
  have key: "actor_from_key C key = dx_owner R"
    using assms(4,5) unfolding C_def R_def plane_ok_def granting_key_def by (auto split: if_splits option.splits)
  then show ?thesis
    using assms(4,6-9)
    by (simp add: validate_entry_def validate_capability_def lane_root_grant_def grant_def member_grant_def C_def R_def
        plane_ok_def context_ok_def)
qed

end
