(* ===== verification/Worker_Sample.thy ===== *)
theory Worker_Sample
  imports Worker_Claims Worker_Commits Worker_Floors Worker_Admission Session_Sample
begin

text \<open>
  A small instance of the crates and ports of the room worker, with its laws, on which the witnesses run. A lane is
  the number of its commits, which is also its snapshot, history and epoch; a key is a number, and every actor
  holds the grant \<open>[5]\<close>.
\<close>

section \<open>A small instance\<close>

definition lock_pieces :: "nat extension_op" where
  "lock_pieces = SetConfig (Some True) None"

definition tiny_actor :: "nat \<Rightarrow> bytes" where
  "tiny_actor key = replicate 32 (of_nat key)"

definition tiny_room :: durable_context where
  "tiny_room =
     \<lparr>dx_identity = \<lparr>id_object = [7], id_music = [8], id_extension = [8]\<rparr>, dx_owner = tiny_actor 1,
      dx_music_root = [0], dx_extension_root = [0]\<rparr>"

definition tiny_envelope :: "nat extension_op command_envelope" where
  "tiny_envelope = \<lparr>ce_generation = 5, ce_namespace = [8], ce_actor = tiny_actor 1, ce_presented = [[5]], ce_command = lock_pieces\<rparr>"

text \<open>The payload \<open>[1]\<close> grants the room to actor 2, the payload \<open>[2]\<close> is the root of a lane.\<close>

definition tiny_policy :: "(nat, nat, nat) policy_ops" where
  "tiny_policy =
     \<lparr>cap_of = (\<lambda>bs.
        if bs = [1] then Some (Grant \<lparr>parent = Some [0], issuer = tiny_actor 1, receiver = tiny_actor 2, gr_area = 0, all_rights = False\<rparr>)
        else if bs = [2] then Some (Grant \<lparr>parent = None, issuer = tiny_actor 1, receiver = tiny_actor 1, gr_area = 0, all_rights = True\<rparr>)
        else None),
      area_root = (\<lambda>_. 0), area_new = (\<lambda>_ _. 0), presented_limit = 4, pitch_index = (\<lambda>_. 0), pitch_period = (\<lambda>_. 0),
      max_scale_degrees = 12, music_command_domain = [1], envelopes = one_json tiny_envelope,
      music_policy = (\<lambda>_ _ _ _ _. Inr ())\<rparr>"

definition silence :: "(nat, nat, nat, bytes, nat, nat, nat) music_view" where
  "silence =
     \<lparr>mv_live = {}, mv_holders = Map.empty, mv_live_pitches = {}, mv_pitch_holders = Map.empty, mv_envelopes = Map.empty,
      mv_tuning = 0, mv_round_table = 0, mv_shared_pitches = no_pitches\<rparr>"

definition tiny_presence :: "(nat, nat) presence_ops" where
  "tiny_presence =
     presence_ops.make id (\<lambda>_. None) id [] tiny_actor (\<lambda>_ _. True) (\<lambda>_ _ _. None) (\<lambda>_. None) (\<lambda>_ _. None) (\<lambda>_ _. True) 4"

definition tiny_replicas :: "(nat, nat) replica_crates" where
  "tiny_replicas =
     \<lparr>policy = tiny_policy, encode_digest = (\<lambda>_. [8]), key_from_seed = length, actor_from_key = tiny_actor,
      grant_entry = (\<lambda>_. 0), encode_grant = (\<lambda>_. []), entry_hash_of = (\<lambda>_. [0]), entry_payload = (\<lambda>_. []),
      empty_storage_lane = (\<lambda>_ _ _. Inr 0), storage_commit = (\<lambda>_ l. (Inr (), l + 1)), repair_capture = (\<lambda>_. Inr 0),
      encode_transaction = (\<lambda>_. []), prepared_transaction = id, durable_host = (\<lambda>l _. Inr l), lane_state = Inr,
      snapshot_history = id, history_epoch = of_nat, history_frontier = id, frontier_entries = (\<lambda>_. []),
      root_of_history = (\<lambda>h. [of_nat h]), history_contains = (\<lambda>_ _. True), entries_topo = (\<lambda>_. []),
      history_ancestor = (\<lambda>_ _ _. False), capture_authority = (\<lambda>h _. h), grants_for_receiver = (\<lambda>_ _. [([5], 0)]),
      grant_area = id, grant_invokes = (\<lambda>_. True), allowed = (\<lambda>_ _ _ _ _ _. True), position_at = length,
      materialize_lane = (\<lambda>_ _. silence), tuning_validate = Inr, pitch_validate = (\<lambda>_ _. True), music_area = (\<lambda>_ _. 0),
      encode_music = (\<lambda>_ _ _ _. Inr []), preparation = Inr, prepare = (\<lambda>_ _. Inr 0), prepare_ed25519 = (\<lambda>_ _ _ _ _. Inr 0),
      presentation_of = (\<lambda>_ _ _. Inr 0), present_grants = (\<lambda>_ _ _. Inr 0), plan_entry = (\<lambda>_ _. Inr 0),
      commit = (\<lambda>_ l. (Inr l, l + 1)), committed_entry = (\<lambda>_. [9]), committed_admission = id, committed_record = id,
      presence_at = (\<lambda>_ _. tiny_presence), claims_json = \<lparr>to_vec = (\<lambda>_. None), from_slice = (\<lambda>_. None)\<rparr>,
      presence_json = \<lparr>to_vec = (\<lambda>_. None), from_slice = (\<lambda>_. None)\<rparr>\<rparr>"

definition tiny_floors :: "session_renewal_floors" where
  "tiny_floors = \<lparr>fl_floors = fmupd [3] [4] fmempty\<rparr>"

text \<open>The checkpoint of a lane that has had a local transaction is \<open>tiny_floors\<close>, encoded by no bytes.\<close>

definition tiny_worker :: "(nat, nat, nat) worker_crates" where
  "tiny_worker =
     \<lparr>replicas = tiny_replicas, sessions = tiny\<lparr>authority := tiny_authority\<lparr>floor_from_bytes := (\<lambda>_. Inr 0)\<rparr>\<rparr>,
      write_floors = (\<lambda>v. if v = \<lparr>vs_version = 2, vs_body = tiny_floors\<rparr> then Some [] else None),
      read_floors = (\<lambda>_. Some \<lparr>vs_version = 2, vs_body = tiny_floors\<rparr>), repair_cached = id, projection_key = (\<lambda>_ _. Inr 0),
      checkpoint_of = (\<lambda>snapshot _. if snapshot = 0 then None else Some 0), checkpoint_intact = (\<lambda>_. True),
      checkpoint_bytes = (\<lambda>_. []), local_view = Inr, view_position = id,
      view_checkpoint = (\<lambda>_ _ bs. if bs = [] then Inr 0 else Inl ''too large''), local_transaction = (\<lambda>_ _. Inr 0),
      commit_local = (\<lambda>_ l. (Inr (), l + 1)), record_hash = (\<lambda>_. [9]), record_entry = id, record_bytes = (\<lambda>_. []),
      record_parse = (\<lambda>_. None), repair_apply = (\<lambda>_ l. (Inr 0, l)), report_refused = (\<lambda>_. []), report_admitted = (\<lambda>_. []),
      retained_admission = (\<lambda>_ _. None), debug_hash = (\<lambda>_. []), attempt_status_of = (\<lambda>_. AttemptComplete),
      attempt_outcome = (\<lambda>_. \<lparr>ro_admitted = 0, ro_lifted = 0, ro_frames_sent = 0, ro_frames_received = 0, ro_refused = 0,
        ro_policy_divergence = False\<rparr>),
      attempt_terminal = (\<lambda>_. True), mark_incomplete = id, confirm_close = (\<lambda>_ _ a. Inr a),
      confirmed_disposition = (\<lambda>_. AttemptSynchronized),
      confirmed_outcome = (\<lambda>_. \<lparr>ro_admitted = 0, ro_lifted = 0, ro_frames_sent = 0, ro_frames_received = 0, ro_refused = 0,
        ro_policy_divergence = False\<rparr>)\<rparr>"

text \<open>Every command is the music edit \<open>tiny_edit\<close>, every projection and response is encoded as one byte.\<close>

definition tiny_worker_serde :: "nat worker_serde" where
  "tiny_worker_serde =
     \<lparr>write_projection = (\<lambda>_. Some [1]), write_response = (\<lambda>_. Some [1]),
      read_open = (\<lambda>_. Some \<lparr>vs_version = 2, vs_body = \<lparr>wo_object = [7], wo_owner = tiny_actor 1, wo_identity_seed = [0],
        wo_authority_seed = None, wo_session_trace = False\<rparr>\<rparr>),
      read_command = (\<lambda>_. Some \<lparr>vs_version = 2, vs_body = CommitCommand (MusicCommand tiny_edit)\<rparr>),
      read_repair = (\<lambda>_. None)\<rparr>"

definition tiny_service_ports :: "(nat, nat, nat, unit) service_ports" where
  "tiny_service_ports =
     \<lparr>repairs = \<lparr>attempt_initiate = (\<lambda>_ _ _ w. (Inr 0, w)), attempt_accept = (\<lambda>_ _ _ _ w. (Inr 0, w)),
        attempt_receive = (\<lambda>_ _ x w. (Inr (), x, w))\<rparr>,
      open_logs = (\<lambda>_ w. (Inr (0, 0, [], []), w)), emit_outbound = (\<lambda>_ _ w. (Inr (), w)),
      emit_revision = (\<lambda>_ _ _ _ _ _ w. (Inr (), w)), send_task = (\<lambda>_ w. (True, w)), try_reification = (\<lambda>w. (None, w)),
      reset_channel = (\<lambda>w. (0, w)), await_reset = (\<lambda>_ w. (None, w))\<rparr>"

definition tiny_plane :: "nat \<Rightarrow> (nat, nat) data_plane" where
  "tiny_plane l =
     \<lparr>pl_room = tiny_room, pl_music = l, pl_extension = 0, pl_signing_key = 1, pl_grant_authority = None,
      pl_local_actor = tiny_actor 1, pl_repair = Map.empty\<rparr>"

lemma tiny_policy_selects [simp]:
  "cap_of tiny_policy = (\<lambda>bs. if bs = [1] then Some (Grant \<lparr>parent = Some [0], issuer = tiny_actor 1, receiver = tiny_actor 2, gr_area = 0, all_rights = False\<rparr>) else if bs = [2] then Some (Grant \<lparr>parent = None, issuer = tiny_actor 1, receiver = tiny_actor 1, gr_area = 0, all_rights = True\<rparr>) else None)"
  "area_root tiny_policy = (\<lambda>_. 0)" "area_new tiny_policy = (\<lambda>_ _. 0)" "presented_limit tiny_policy = 4"
  "pitch_index tiny_policy = (\<lambda>_. 0)" "pitch_period tiny_policy = (\<lambda>_. 0)"
  "max_scale_degrees tiny_policy = 12" "music_command_domain tiny_policy = [1]"
  "envelopes tiny_policy = one_json tiny_envelope" "music_policy tiny_policy = (\<lambda>_ _ _ _ _. Inr ())"
  by (simp_all add: tiny_policy_def)

lemma tiny_replicas_selects [simp]:
  "policy tiny_replicas = tiny_policy" "encode_digest tiny_replicas = (\<lambda>_. [8])"
  "key_from_seed tiny_replicas = length" "actor_from_key tiny_replicas = tiny_actor"
  "grant_entry tiny_replicas = (\<lambda>_. 0)" "encode_grant tiny_replicas = (\<lambda>_. [])"
  "entry_hash_of tiny_replicas = (\<lambda>_. [0])" "entry_payload tiny_replicas = (\<lambda>_. [])"
  "empty_storage_lane tiny_replicas = (\<lambda>_ _ _. Inr 0)"
  "storage_commit tiny_replicas = (\<lambda>_ l. (Inr (), l + 1))" "repair_capture tiny_replicas = (\<lambda>_. Inr 0)"
  "encode_transaction tiny_replicas = (\<lambda>_. [])" "prepared_transaction tiny_replicas = id"
  "durable_host tiny_replicas = (\<lambda>l _. Inr l)" "lane_state tiny_replicas = Inr" "snapshot_history tiny_replicas = id"
  "history_epoch tiny_replicas = of_nat" "history_frontier tiny_replicas = id"
  "frontier_entries tiny_replicas = (\<lambda>_. [])" "root_of_history tiny_replicas = (\<lambda>h. [of_nat h])"
  "history_contains tiny_replicas = (\<lambda>_ _. True)" "entries_topo tiny_replicas = (\<lambda>_. [])"
  "history_ancestor tiny_replicas = (\<lambda>_ _ _. False)" "capture_authority tiny_replicas = (\<lambda>h _. h)"
  "grants_for_receiver tiny_replicas = (\<lambda>_ _. [([5], 0)])" "grant_area tiny_replicas = id"
  "grant_invokes tiny_replicas = (\<lambda>_. True)" "allowed tiny_replicas = (\<lambda>_ _ _ _ _ _. True)"
  "position_at tiny_replicas = length" "materialize_lane tiny_replicas = (\<lambda>_ _. silence)"
  "tuning_validate tiny_replicas = Inr" "pitch_validate tiny_replicas = (\<lambda>_ _. True)"
  "music_area tiny_replicas = (\<lambda>_ _. 0)" "encode_music tiny_replicas = (\<lambda>_ _ _ _. Inr [])"
  "preparation tiny_replicas = Inr" "prepare tiny_replicas = (\<lambda>_ _. Inr 0)"
  "prepare_ed25519 tiny_replicas = (\<lambda>_ _ _ _ _. Inr 0)" "presentation_of tiny_replicas = (\<lambda>_ _ _. Inr 0)"
  "present_grants tiny_replicas = (\<lambda>_ _ _. Inr 0)" "plan_entry tiny_replicas = (\<lambda>_ _. Inr 0)"
  "commit tiny_replicas = (\<lambda>_ l. (Inr l, l + 1))" "committed_entry tiny_replicas = (\<lambda>_. [9])"
  "committed_admission tiny_replicas = id" "committed_record tiny_replicas = id"
  "presence_at tiny_replicas = (\<lambda>_ _. tiny_presence)"
  "claims_json tiny_replicas = \<lparr>to_vec = (\<lambda>_. None), from_slice = (\<lambda>_. None)\<rparr>"
  "presence_json tiny_replicas = \<lparr>to_vec = (\<lambda>_. None), from_slice = (\<lambda>_. None)\<rparr>"
  by (simp_all add: tiny_replicas_def)

lemma tiny_worker_selects [simp]:
  "replicas tiny_worker = tiny_replicas"
  "sessions tiny_worker = tiny\<lparr>authority := tiny_authority\<lparr>floor_from_bytes := (\<lambda>_. Inr 0)\<rparr>\<rparr>"
  "write_floors tiny_worker = (\<lambda>v. if v = \<lparr>vs_version = 2, vs_body = tiny_floors\<rparr> then Some [] else None)"
  "read_floors tiny_worker = (\<lambda>_. Some \<lparr>vs_version = 2, vs_body = tiny_floors\<rparr>)"
  "repair_cached tiny_worker = id" "projection_key tiny_worker = (\<lambda>_ _. Inr 0)"
  "checkpoint_of tiny_worker = (\<lambda>snapshot _. if snapshot = 0 then None else Some 0)"
  "checkpoint_intact tiny_worker = (\<lambda>_. True)" "checkpoint_bytes tiny_worker = (\<lambda>_. [])"
  "local_view tiny_worker = Inr" "view_position tiny_worker = id"
  "view_checkpoint tiny_worker = (\<lambda>_ _ bs. if bs = [] then Inr 0 else Inl ''too large'')"
  "local_transaction tiny_worker = (\<lambda>_ _. Inr 0)" "commit_local tiny_worker = (\<lambda>_ l. (Inr (), l + 1))"
  "record_hash tiny_worker = (\<lambda>_. [9])" "record_entry tiny_worker = id" "record_bytes tiny_worker = (\<lambda>_. [])"
  "record_parse tiny_worker = (\<lambda>_. None)" "repair_apply tiny_worker = (\<lambda>_ l. (Inr 0, l))"
  "report_refused tiny_worker = (\<lambda>_. [])" "report_admitted tiny_worker = (\<lambda>_. [])"
  "retained_admission tiny_worker = (\<lambda>_ _. None)" "debug_hash tiny_worker = (\<lambda>_. [])"
  "attempt_status_of tiny_worker = (\<lambda>_. AttemptComplete)"
  "attempt_outcome tiny_worker = (\<lambda>_. \<lparr>ro_admitted = 0, ro_lifted = 0, ro_frames_sent = 0, ro_frames_received = 0, ro_refused = 0, ro_policy_divergence = False\<rparr>)"
  "attempt_terminal tiny_worker = (\<lambda>_. True)" "mark_incomplete tiny_worker = id"
  "confirm_close tiny_worker = (\<lambda>_ _ a. Inr a)"
  "confirmed_disposition tiny_worker = (\<lambda>_. AttemptSynchronized)"
  "confirmed_outcome tiny_worker = (\<lambda>_. \<lparr>ro_admitted = 0, ro_lifted = 0, ro_frames_sent = 0, ro_frames_received = 0, ro_refused = 0, ro_policy_divergence = False\<rparr>)"
  by (simp_all add: tiny_worker_def)

lemma tiny_worker_serde_selects [simp]:
  "write_projection tiny_worker_serde = (\<lambda>_. Some [1])" "write_response tiny_worker_serde = (\<lambda>_. Some [1])"
  "read_open tiny_worker_serde = (\<lambda>_. Some \<lparr>vs_version = 2, vs_body = \<lparr>wo_object = [7], wo_owner = tiny_actor 1, wo_identity_seed = [0], wo_authority_seed = None, wo_session_trace = False\<rparr>\<rparr>)"
  "read_command tiny_worker_serde = (\<lambda>_. Some \<lparr>vs_version = 2, vs_body = CommitCommand (MusicCommand tiny_edit)\<rparr>)"
  "read_repair tiny_worker_serde = (\<lambda>_. None)"
  by (simp_all add: tiny_worker_serde_def)

lemma tiny_service_ports_selects [simp]:
  "repairs tiny_service_ports = \<lparr>attempt_initiate = (\<lambda>_ _ _ w. (Inr 0, w)), attempt_accept = (\<lambda>_ _ _ _ w. (Inr 0, w)), attempt_receive = (\<lambda>_ _ x w. (Inr (), x, w))\<rparr>"
  "open_logs tiny_service_ports = (\<lambda>_ w. (Inr (0, 0, [], []), w))"
  "emit_outbound tiny_service_ports = (\<lambda>_ _ w. (Inr (), w))"
  "emit_revision tiny_service_ports = (\<lambda>_ _ _ _ _ _ w. (Inr (), w))"
  "send_task tiny_service_ports = (\<lambda>_ w. (True, w))" "try_reification tiny_service_ports = (\<lambda>w. (None, w))"
  "reset_channel tiny_service_ports = (\<lambda>w. (0, w))" "await_reset tiny_service_ports = (\<lambda>_ w. (None, w))"
  by (simp_all add: tiny_service_ports_def)

section \<open>Witnesses\<close>

lemmas effect_defs = bnd_def andthen_def ret_def gets_def modify_def throw_def refuse_def lift_result_def ok_or_def
  on_part_def zoom_def calling_def

lemma tiny_checkpoints: "checkpoint_laws tiny_worker"
  by (auto simp: checkpoint_laws_def split: if_splits)

lemma tiny_floors_read: "cbor_roundtrip (write_floors tiny_worker) (read_floors tiny_worker)"
  by (auto simp: cbor_roundtrip_def split: if_splits)

definition tiny_renewal_key :: renewal_key where
  "tiny_renewal_key = \<lparr>rk_room = [7], rk_local = tiny_actor 1, rk_peer = [3]\<rparr>"

lemma tiny_actor_long [simp]: "length (tiny_actor key) = 32" "[b] \<noteq> tiny_actor key"
  by (auto simp: tiny_actor_def dest: arg_cong [where f = length])

lemma tiny_persists:
  "persist_session_renewal_floor tiny_worker tiny_renewal_key [4] None (tiny_plane 0) = (Inr (), tiny_plane 1)"
  by (simp add: persist_session_renewal_floor_def effect_defs tiny_plane_def tiny_renewal_key_def tiny_room_def
      validate_session_renewal_key_def music_snapshot_def lane_snapshot_def plane_lane_def put_lane_def
      session_renewal_floors_def session_renewal_checkpoint_key_def floor_count_def max_session_renewal_peers_def
      encode_payload_def worker_payload_version_def tiny_floors_def on_lane_def with_prefix_def)

theorem persisted_floor_read_back_witness:
  "load_session_renewal_floor tiny_worker (tiny_plane 1) tiny_renewal_key = Inr (Some [4])"
  using persisted_floor_read_back [OF tiny_checkpoints tiny_floors_read tiny_persists] by simp

lemma tiny_encodes:
  "encode_room_command tiny_replicas [8] (tiny_actor 1) [[5]] (ExtensionCommand lock_pieces) = Inr extension_command_domain"
  by (simp add: encode_room_command_def encode_extension_command_def encode_envelope_def one_json_def tiny_envelope_def
      room_protocol_generation_def command_domain_def max_command_bytes_def extension_command_domain_def ascii_bytes_def)

text \<open>The worker of actor 1 locks the pieces.\<close>

theorem own_command_passes_admission_witness:
  "validate_entry tiny_policy display_codec_error Extension [8] [9] extension_command_domain [] lock_history
     (Presented \<lparr>pr_receiver = tiny_actor 1, pr_presented = [[5]], pr_area = 0, pr_invoke = True\<rparr>) = Inr ()"
proof -
  have "plane_capabilities tiny_worker (tiny_plane 0) (tiny_actor 1) Extension = Inr [[5]]"
    by (simp add: plane_capabilities_def lane_snapshot_def plane_lane_def context_capabilities_for_lane_def live_grants_for_def)
  moreover have "json_ok (envelopes (policy (replicas tiny_worker)))" by (simp add: one_json_ok)
  moreover have "grants_listed_once (replicas tiny_worker)" by (simp add: grants_listed_once_def)
  moreover have "cap_of (policy (replicas tiny_worker)) extension_command_domain = None"
    by (simp add: extension_command_domain_def ascii_bytes_def)
  moreover have "encode_room_command (replicas tiny_worker) [8] (tiny_actor 1) [[5]] (ExtensionCommand lock_pieces) =
      Inr extension_command_domain"
    using tiny_encodes by simp
  ultimately have "validate_entry (policy (replicas tiny_worker)) display_codec_error Extension [8] [9] extension_command_domain [] lock_history
     (Presented \<lparr>pr_receiver = tiny_actor 1, pr_presented = [[5]],
        pr_area = command_area (replicas tiny_worker) [8] (ExtensionCommand lock_pieces), pr_invoke = True\<rparr>) =
     validate_extension (policy (replicas tiny_worker)) lock_history lock_pieces []"
    using own_command_passes_admission by blast
  then show ?thesis
    by (simp add: command_area_def extension_command_area_def extension_config_area_def lock_pieces_def validate_extension_def)
qed

text \<open>The owner, actor 1, grants the room to actor 2.\<close>

theorem own_grants_pass_admission_witness:
  "validate_entry tiny_policy display_codec_error Extension [8] [9] [1] [] lock_history
     (Presented \<lparr>pr_receiver = tiny_actor 1, pr_presented = [[0]], pr_area = 0, pr_invoke = True\<rparr>) = Inr ()"
proof -
  have ok: "plane_ok tiny_worker (tiny_plane 0)"
    by (simp add: plane_ok_def tiny_plane_def tiny_room_def context_ok_def from_object_def)
  have key: "granting_key tiny_worker (tiny_plane 0) = Inr 1"
    by (simp add: granting_key_def tiny_plane_def tiny_room_def)
  note all = own_grants_pass_admission [OF ok key, where member = "tiny_actor 2" and pay = "[1]" and root_pay = "[2]"
      and display = display_codec_error and entry_hash = "[9]" and prevs = "[]" and H = lock_history]
  show ?thesis
    using all by (simp add: tiny_plane_def tiny_room_def member_grant_def lane_root_grant_def)
qed

text \<open>A room with the subscriber 1 and a session task without peers, after some commits in the music lane.\<close>

definition tiny_shows :: "nat \<Rightarrow> nat worker_projection" where
  "tiny_shows l =
     \<lparr>wp_view = \<lparr>rv_music = silence, rv_pieces = Map.empty, rv_pieces_locked = False, rv_available_emojis = None\<rparr>,
      wp_music_revision = of_nat l, wp_music_history_root = [of_nat l], wp_music_frontier = [8], wp_extension_frontier = [8]\<rparr>"

definition tiny_service ::
  "nat \<Rightarrow> u64 \<Rightarrow> (nat, nat) worker_action list \<Rightarrow> (nat, nat, nat, unit \<times> (nat, nat) worker_action list) worker_service" where
  "tiny_service l revision log =
     \<lparr>sv_room = Some (tiny_plane l), sv_projection = Some (tiny_shows l), sv_revision = revision, sv_subscriptions = {1},
      sv_session = True, sv_session_peers = {}, sv_world = ((), log)\<rparr>"

lemma tiny_reads [simp]:
  "music_snapshot tiny_worker (tiny_plane l) = Inr l" "lane_snapshot tiny_worker (tiny_plane l) Extension = Inr 0"
  "plane_projection tiny_worker (tiny_plane l) = Inr (tiny_shows l)"
  "plane_view tiny_worker (tiny_plane l) = Inr (wp_view (tiny_shows l))"
  by (simp_all add: music_snapshot_def lane_snapshot_def plane_lane_def tiny_plane_def plane_projection_def tiny_shows_def
      view_with_snapshots_def authorized_extension_commands_def materialize_extension_def resolve_register_def
      public_music_revision_def replica_frontier_digest_def plane_view_def Let_def)

lemma tiny_commits: "plane_commit tiny_worker (MusicCommand tiny_edit) (tiny_plane l) = (Inr ([9], l), tiny_plane (l + 1))"
  by (simp add: plane_commit_def effect_defs plane_capabilities_def lane_of_command_def lane_snapshot_def plane_lane_def
      context_capabilities_for_lane_def live_grants_for_def prepare_author_presenting_def encode_room_command_def
      codec_error_def replica_error_def with_prefix_def on_lane_def tiny_plane_def put_lane_def)

definition tiny_announced :: "(nat, nat) worker_action" where
  "tiny_announced = Announced (live_encode (\<lambda>_. []) \<lparr>lr_lane = Music, lr_source = tiny_actor 1, lr_record = (0 :: nat)\<rparr>)"

definition tiny_told :: "nat \<Rightarrow> (nat, nat) worker_action list" where
  "tiny_told l = [Told (DurableAdvanced l no_pitches (of_nat l)), Told (RefreshFoundations [])]"

lemma tiny_opens:
  "serve tiny_worker tiny_worker_serde (recording_worker tiny_service_ports) [(OpenRequest, [], 0), (SubscribeRequest 1, [], 0)]
     (service_with_session ((), [])) = Some (tiny_service 0 0 [Told (Configure 0 False)])"
proof -
  have "plane_open tiny_worker \<lparr>wo_object = [7], wo_owner = tiny_actor 1, wo_identity_seed = [0],
      wo_authority_seed = None, wo_session_trace = False\<rparr> 0 0 [] [] = Inr (tiny_plane 0)"
    by (simp add: plane_open_def Let_def from_transaction_logs_def build_empty_lane_def require_complete_log_root_def
        replica_error_def recovery_error_def with_prefix_def ensure_root_def from_object_def tiny_plane_def tiny_room_def)
  then show ?thesis
    by (simp add: handle_request_def handle_open_def effect_defs decode_payload_def worker_payload_version_def
        factory_open_def on_world_def recording_worker_def unlogged_def logged_def configure_session_def send_input_def
        ask_world_def respond_def encode_payload_def handle_subscribe_def current_projection_def
        service_with_session_def service_new_def tiny_service_def)
qed

lemma tiny_room_plays:
  "handle_command tiny_worker tiny_worker_serde (recording_worker tiny_service_ports) 0 (CommitCommand (MusicCommand tiny_edit))
     (tiny_service 0 0 log) =
   (Inr (CommandCommitted [9] 1), tiny_service 1 1 (log @ tiny_announced # tiny_told 1 @ [Revised 1 0 1 [1]]))"
proof -
  have "tiny_shows 0 \<noteq> tiny_shows 1" by (simp add: tiny_shows_def)
  then show ?thesis
    by (simp add: handle_command_def handle_commit_def effect_defs open_room_def on_room_def tiny_service_def tiny_commits
        [unfolded effect_defs] outbound_def on_world_def after_commit_def lane_of_command_def durable_music_def
        reading_room_def send_expected_def send_input_def ask_world_def refresh_session_foundations_def
        current_session_foundations_def publish_projection_def recording_worker_def logged_def encode_payload_def
        saturating_add_def tiny_announced_def tiny_told_def tiny_plane_def [THEN arg_cong [where f = pl_local_actor]]
        public_music_revision_def) (simp add: tiny_shows_def silence_def)
qed

text \<open>A subscriber of the room is sent the revision of the first commit.\<close>

theorem subscriber_revisions_contiguous_witness:
  "continues tiny_worker_serde 0 (Some (tiny_shows 0)) [(0, 1, [1])] 1 (Some (tiny_shows 1))"
proof -
  have run: "serve tiny_worker tiny_worker_serde (recording_worker tiny_service_ports) [(CommandRequest, [], 0)]
      (tiny_service 0 0 log) = Some (tiny_service 1 1 (log @ tiny_announced # tiny_told 1 @ [Revised 1 0 1 [1]]))" for log
    by (simp add: handle_request_def decode_payload_def worker_payload_version_def effect_defs respond_def
        encode_payload_def tiny_room_plays [simplified])
  have "lossless tiny_worker tiny_worker_serde (recording_worker tiny_service_ports) [(CommandRequest, [], 0)]
      (tiny_service 0 0 [Told (Configure 0 False)])"
    by (simp add: handle_request_def decode_payload_def worker_payload_version_def effect_defs respond_def
        encode_payload_def tiny_room_plays [simplified])
  moreover have "1 \<in> sv_subscriptions (tiny_service 0 0 [Told (Configure 0 False)])" by (simp add: tiny_service_def)
  moreover have "\<forall>(request, _) \<in> set [(CommandRequest :: nat worker_request, [] :: bytes, 0 :: nat)]. steady_request request"
    by (simp add: steady_request_def)
  ultimately obtain t news where t: "serve tiny_worker tiny_worker_serde (recording_worker tiny_service_ports)
        [(CommandRequest, [], 0)] (tiny_service 0 0 [Told (Configure 0 False)]) = Some t"
      "worker_log t = worker_log (tiny_service 0 0 [Told (Configure 0 False)]) @ news"
      "continues tiny_worker_serde (sv_revision (tiny_service 0 0 [Told (Configure 0 False)]))
        (sv_projection (tiny_service 0 0 [Told (Configure 0 False)])) (revisions_of 1 news) (sv_revision t) (sv_projection t)"
    using subscriber_revisions_contiguous [OF tiny_opens, of 1 "[(CommandRequest, [], 0)]"] by blast
  have t_is: "t = tiny_service 1 1 ([Told (Configure 0 False)] @ tiny_announced # tiny_told 1 @ [Revised 1 0 1 [1]])"
    using t(1) unfolding run by simp
  have news: "news = tiny_announced # tiny_told 1 @ [Revised 1 0 1 [1]]"
    using t(2) by (simp add: t_is tiny_service_def)
  then have revised: "revisions_of 1 news = [(0, 1, [1])]"
    by (simp add: tiny_announced_def tiny_told_def revisions_of_def)
  show ?thesis
    using t(3) unfolding revised by (simp add: t_is tiny_service_def)
qed

text \<open>The first commit of the room is announced, told and shown.\<close>

theorem commit_announced_in_order_witness:
  "\<exists>told_list sent. tiny_announced # tiny_told 1 @ [Revised 1 0 1 [1]] = tiny_announced # told_list @ sent \<and>
     told_of_music tiny_worker (Some (tiny_plane 1)) True told_list \<and> list_all is_revision sent"
proof -
  note all = commit_announced_in_order [OF tiny_room_plays [of "[]"]]
  from all [THEN conjunct1, rule_format, OF refl]
  show ?thesis
    by (auto simp: tiny_service_def tiny_announced_def lane_of_command_def tiny_commits)
qed

end
