(* ===== verification/Spec2Isabelle.thy ===== *)
theory Spec2Isabelle
  imports Feedback Session_Gate Session_Carrier Streams Realtime_Wire Repair_Framing Identity Composite_Legs
    Bridge_Worker Session_Claims Worker_Sample
begin

text \<open>
  Verification of \<^emph>\<open>walkie-songie\<close>, a peer-to-peer musical room: peers toggle pitch classes, place pieces on
  pitches and sing, a replicated log makes their rooms agree, and a bridge connects a room to a MIDI host
  (a plugin) and to a board reached over Bluetooth.

  \<^bold>\<open>Parts of the program and their theories.\<close> Sources are under \<open>src/src/\<close>.

    \<^item> \<^emph>\<open>Replicated room\<close>, \<open>room/v5.rs\<close>. A room has two lanes, music and extension, each a causal history of
      commands. \<open>Room_Commands\<close>: command and presence envelopes, the admission policy, signed presence.
      \<open>Room_Durable\<close>: identities, the trusted root of a lane, recovery from transaction logs, the live grants of an
      actor and \<open>RoomDurableContext\<close>, which prepares the admissions of a room. \<open>Extension_View\<close>: the last-writer registers and the pieces materialized from a history, the room view
      and its delta.
    \<^item> \<^emph>\<open>Session\<close>, \<open>room/session.rs\<close>. A short-lived fast path beside the log. \<open>Session_Pitches\<close>: the
      speculative pitch projection. \<open>Session_Gate\<close>: the window's continuity gate between session projections and
      canonical revisions. \<open>Session_Carrier\<close>: the versioned payload and carrier envelopes. The task that owns
      the sessions: \<open>Session_Crates\<close> (its messages, its parameters, manifests and authorization), \<open>Session_Active\<close>
      (\<open>ActiveSession\<close>), \<open>Session_Task\<close> (\<open>RoomSessionTask\<close>, every handler and the loop). \<open>Session_Epochs\<close>,
      \<open>Session_Renewal\<close>, \<open>Session_Invariant\<close> and \<open>Session_Edits\<close> prove what every handler keeps; \<open>Session_Claims\<close> has
      the properties, \<open>Session_Sample\<close> a small instance on which their witnesses run.
    \<^item> \<^emph>\<open>Room worker\<close>, \<open>room/worker.rs\<close>, the service that owns a room's durable lanes for the window.
      \<open>Worker_Plane\<close>: \<open>RoomDataPlane\<close>, the lanes, grants, renewal floors and repair attempts. \<open>Worker_Service\<close>:
      \<open>RoomReplicaWorkerService\<close>, every command and request, and the factory of \<open>web/replica_worker.rs\<close>.
      \<open>Worker_Rules\<close> has its invariant and weakest-precondition rules, \<open>Worker_Invariant\<close> what every handler keeps,
      \<open>Worker_Log\<close> ports that record what left the worker. The properties are in \<open>Worker_Claims\<close>,
      \<open>Worker_Commits\<close> (order of announcements), \<open>Worker_Floors\<close> (the checkpoint of renewal floors) and
      \<open>Worker_Admission\<close> (what it prepares is admitted); \<open>Worker_Sample\<close> has the instance of their witnesses.
    \<^item> \<^emph>\<open>Window state\<close>, \<open>room/performance_feedback.rs\<close> (\<open>Feedback\<close>), \<open>room/events.rs\<close> (\<open>Events\<close>),
      \<open>room/projection.rs\<close> (\<open>Projection\<close>), \<open>room/streams.rs\<close> (\<open>Streams\<close>): gestures waiting for an outcome, the
      cache a view is rendered from with the events it emits, and the delta streams derived from them.
    \<^item> \<^emph>\<open>Network\<close>, \<open>net/\<close>. \<open>Replica_Wire\<close> (gossip messages, protocol table, choice of initiator),
      \<open>Repair_Framing\<close> (frames on a QUIC stream), \<open>Realtime_Wire\<close> (signed realtime messages), \<open>Identity\<close> (the
      persisted seed). \<open>Byte_Codec\<close> has the integers on the wire and the contract of a domain-tagged codec.
    \<^item> \<^emph>\<open>Bridge\<close>, \<open>bridge/\<close>. \<open>Bridge_Types\<close> (vocabulary and the transport interface), \<open>Pitch_State\<close> (held keys,
      pending intents, board target), \<open>Host_Output\<close> (note edges to the host), \<open>Bridge_Worker\<close> (the worker thread),
      \<open>Composite\<close> (room leg and board leg as one transport), \<open>Ble_Tx\<close> (the bounded BLE transmit path),
      \<open>Ble_Link\<close> (every method of \<open>ble_transport.rs\<close>: scan, handshake, session, repair), written with the fault
      and result effects of \<open>Effects\<close>; \<open>Ble_Session\<close> (its invariant and what it refuses); \<open>Composite_Legs\<close> (the
      composite of any room leg and the BLE link).

  They interact as follows. The worker thread of the bridge calls a transport; the composite is one, made of
  two others, of which the BLE link is the board leg. The transport delivers events which update the pitch state, and the pitch state decides what is
  sent to the room, to the board and to the host. In the application the room worker commits to the lanes and publishes the room view
  of \<open>v5.rs\<close>, which the window applies to the
  projection cache, whose events drive the streams. The worker sends the session task what is committed and the
  foundations of new sessions, the session supplies pitch views between two revisions
  of the log, and the gate decides which of the two a window shows.

  \<^bold>\<open>State and operations.\<close> A struct is a record with the fields of the source, an enum a datatype with its
  constructors, a method that takes \<open>&mut self\<close> a function that returns the new state beside its result.
  Errors are values, \<open>Inl\<close> of an error datatype whose constructors are the error strings or variants of the
  code. A panic is an outer \<open>None\<close>. Integers are words of the width of the source where the code computes
  with them. A \<open>HashMap\<close> or \<open>BTreeMap\<close> is a map and a \<open>HashSet\<close> a set; where the code iterates over a hashed
  collection, the order is a parameter and the theorems hold for every order.

  \<^bold>\<open>Parameters and what is assumed of them.\<close> Code of other crates is an argument of the definitions:
  \<open>scheme\<close> (ed25519, \<open>scheme_ok\<close>: sizes, a signature verifies under its key, frames decode to themselves), \<open>json\<close>
  (\<open>json_ok\<close>) and CBOR (\<open>cbor_roundtrip\<close>: reading back what was written), \<open>queue_ops\<close> (\<open>fifo\<close>: a bounded
  first-in first-out queue), \<open>broadcast_ops\<close> (\<open>overflow_broadcast\<close>: the event channel delivers in order, and reports an
  overflow to a reader that has more unread events than it keeps), \<open>anc\<close> (\<open>causal_order\<close>: ancestry is a strict order), \<open>music\<close> (tunings, degrees and
  patterns), \<open>cursor_ops\<close> (the BLE fragment cursor), \<open>tutti\<close> (the codecs, handshake, session codec, reassembler and repair close state
  the BLE link calls; \<open>Ble_Session\<close> says which of their laws it uses), \<open>ble_host\<close> (the platform's Bluetooth calls,
  without any assumption), \<open>hhhs\<close> (manifests, proofs, authorization, handshake, lanes, kernel and planner of the
  session crates; \<open>renewal_laws\<close>: manifests, sessions and renewal floors carry the epoch they were made for) and
  \<open>session_ports\<close> (store, clocks, randomness, queue and window of the session task, without any assumption), \<open>replica_crates\<close> and
  \<open>worker_crates\<close> (replicas, durable hosts, authority, proofs, repair and codecs of the room worker;
  \<open>grants_listed_once\<close>: a capability snapshot lists a grant once, \<open>checkpoint_laws\<close>: a committed checkpoint is read
  back), \<open>service_ports\<close> (factory, event port and queues of the room worker, without any assumption), \<open>order\<close> (\<open>order_ok\<close>: an enumeration of a set). None of them
  states a property of this program. Each property with such a hypothesis has a witness with a concrete
  instance.

  \<^bold>\<open>Interfaces.\<close> \<open>Prelude\<close> has the locales of a state machine with an invariant (\<open>machine\<close>,
  \<open>guarded_machine\<close>) and of an input filter with a high-water mark (\<open>monotone_filter\<close>). \<open>domain_codec\<close> and
  \<open>strict_codec\<close> are the contracts of the two kinds of codec, \<open>seed_contract\<close> that of a seed store,
  \<open>room_reader\<close> that of a stream which reads the room again, \<open>event_stream\<close> that of a reader on an overflowing channel, \<open>transport_contract\<close> that of a bridge transport,
  \<open>host_worker\<close> and \<open>bridge_thread\<close> what the worker needs of its transport and queues, \<open>composite_legs\<close> (an extension of \<open>transport_contract\<close>) what the composite
  needs of its two legs (the BLE leg is \<open>ble_leg_transport\<close>, which has no state left after a panic), \<open>session_world\<close> a property of the ports' world that every call of the session task keeps
  (interpreted on arbitrary ports, and on \<open>recording\<close>, the same ports with a log), \<open>service_steps\<close> and its extensions
  \<open>service_life\<close> and \<open>service_runs\<close> the same for the room worker (interpreted on every worker, and on \<open>recording_worker\<close>). Each is interpreted on the definitions of the model; the worker's two are interpreted
  here, on the composite of any room leg with the BLE link.

  \<^bold>\<open>What is shown.\<close>

    \<^item> Convergence and exactness of views: the view of the extension lane depends on the set of entries only, a
      piece is shown exactly when an assertion survives, deltas rebuild the view, the speculative projection
      has exactly the members some unobserved assertion supports and does not depend on the order of delivery.
    \<^item> Refinement of the window's state: replaying the emitted events gives the cache's contents, and in every
      interleaving of operations, events and reads every stream's deltas track the room as long as the stream
      lasts, which is until more than 256 events are unread.
    \<^item> Gate and feedback: no projection is accepted twice, a visible session projection is never behind the
      canonical revision; pending gestures are bounded, their tokens increase, each is resolved once.
    \<^item> Sessions: the task never panics and keeps its invariant on any inputs and any ports; renewal floors and
      epochs only climb, a floor is persisted before a projection of its session is sent; an edit is answered
      exactly once; edits in flight belong to the epoch that is active, and no epoch is
      ever retired.
    \<^item> Room worker: it never panics and keeps its invariant on any requests, ports and crates; the session task is
      only told the present music lane of the open room, of one snapshot, with the root of that room; the revisions of a
      subscriber only climb, and are a contiguous chain while no request fails; a commit
      is announced, then told, then shown; a renewal floor is read back as persisted; a command it prepares is
      admitted exactly when it may be.
    \<^item> Wire formats: round trips, strictness (only canonical bytes decode), what a checked signature covers,
      independence of how bytes arrive in chunks.
    \<^item> Bridge: the worker never panics and keeps its invariants on any input; events of a stale board
      placement are fenced, all but its request for a new placement; the board follows the room with three exceptions and is never
      repainted over a pending edit; the host receives what the shadow records; the transmit budget is exact; no
      BLE session starts without a trusted board, its invariant survives every call, a repair ends by its deadline,
      and the worker over the composite over the BLE link never panics, nor does any call on that link.

  \<^bold>\<open>Loops and fuel.\<close> Loops over finite data are structural or have a measure. Three loops are driven by data
  that arrives from outside and take fuel: \<open>read_frames\<close>, where the number of bytes that can still arrive is
  enough and the theorems say the result exists, and the bounded pops of the worker and the poll of the BLE link, where the
  fuel is the constant the source uses as its budget.

  \<^bold>\<open>Findings.\<close> A rolled-back gesture can restore one already resolved (\<open>rollback_restores_resolved_intent\<close>); a
  changed emoji emits no event (\<open>emoji_change_is_silent\<close>); saving a seed never replaces one although it is
  documented to (\<open>file_save_never_replaces\<close>); a tap handled within one pass latches its key
  (\<open>tap_within_pass\<close>); a release can reach the host before its note-on (\<open>release_overtakes_note_on\<close>); an
  intent the room never confirms keeps the board from being painted (\<open>unconfirmed_intent_blocks_board\<close>);
  an answer that is not for the pending session offer removes it (\<open>stale_answer_drops_offer\<close>) and no epoch is
  ever retired although code and comments provide for it (\<open>inflight_belongs_to_active\<close>); forgetting a board and trusting it again restarts its session (\<open>forget_then_trust_restarts\<close>); a refused connect
  request is silent (\<open>refused_connect_is_silent\<close>); the hello of a failed connection starts the next one's handshake
  (\<open>failed_hello_outlives_connection\<close>); an operation with more than 256 events ends every stream
  (\<open>long_operation_ends_stream\<close>); a confirmation of the last pending intent by a set the room already had leaves the board
  unpainted (\<open>unchanged_room_strands_board\<close>).

  \<^bold>\<open>Not modelled.\<close> The session task and the room worker await each call before their next step, so their handlers
  are sequences; the crash cuts and faults of the browser acceptance tests are left out of them. \<open>RoomReplicas\<close> of
  \<open>v5.rs\<close>, the operations of \<open>RoomDurableContext\<close> on two replicas it owns, is modelled as far as recovery from
  logs; its checkpoints and the export of capability bundles are not. The other asynchronous tasks (the network
  drivers of \<open>net/\<close>, the rendezvous client, the rest of \<open>web/replica_worker.rs\<close>) interleave channels, timers and
  third-party futures. The browser interface (\<open>web/\<close>), the plugin
  shell, the desktop shell and the relay are glue over platform calls. Pitch detection is floating-point
  signal processing.
\<close>

section \<open>The bridge worker over the composite transport and the BLE link\<close>

interpretation application_worker: host_worker "composite_ops R (ble_leg_transport C H)"
  "\<lambda>t. composite_inv t \<and> legs_ok (\<lambda>_. True) (leg_alive C) t"
  by (rule host_worker.intro) (rule composite_legs.both_contract [OF beside_ble])

text \<open>The thread of the application, with the event queue of the user interface bounded by \<open>Suc n\<close>.\<close>

interpretation application_thread: bridge_thread
  "E\<lparr>env_transport := composite_ops R (ble_leg_transport C H), env_ui := list_queue (Suc n)\<rparr>"
  "\<lambda>t. composite_inv t \<and> legs_ok (\<lambda>_. True) (leg_alive C) t" "\<lambda>q. q" "Suc n"
  by (intro bridge_thread.intro host_worker.intro bridge_thread_axioms.intro)
     (simp_all add: composite_legs.both_contract [OF beside_ble] list_queue_fifo)

text \<open>C24: The whole bridge of the application runs without a panic: the worker thread on the composite of any room
  leg and the BLE link to the board. Whatever the room leg answers, the Bluetooth host reports and the board
  sends, every sequence of passes over host events for notes below 128, user commands and transport events
  ends with a state, and no call on the BLE link of that run has panicked. There the key words and the output shadow
  have their lengths, every pending intent carries a token that was handed out, nothing is staged for the board while an
  edit of the board is pending, the queue to the user interface is within its bound, the composite keeps its own invariant and
  the BLE link its own, so that no session exists without the hello of a board and every open repair has a deadline.\<close>

theorem bridge_over_composite:
  fixes E :: "('t, 'p, 'd, 'pat, 'cfg,
      ('a, ('h, 'key, 'pend, 'codec, 'rsm, 'close, ('run, 'pulse, 't, 'p, 'd, 'cfg, peer_hello) worker_event) ble_link option,
       ('run, 'pulse, 't, 'p, 'd, 'cfg, peer_hello) worker_event) composite_transport,
      'q, 'r, 'u, 'run, 'pulse, peer_hello) bridge_env"
  assumes "env_transport E = composite_ops R (ble_leg_transport C H)" and "fifo (env_ui E) items cap" and "0 < cap"
    and "ble_link_new C host cfg = Inr link" and "length (items u) \<le> cap" and "list_all input_ok inputs"
  shows "\<exists>w. bridge_passes E inputs (start_bridge E (worker_new E (composite_new r (Some link)) h u)) = Some w \<and>
           pitch_inv (bw_pitches w) \<and> length (items (bw_ui w)) \<le> cap \<and>
           composite_inv (bw_transport w) \<and>
           (\<exists>link'. board (bw_transport w) = Some link' \<and> link_inv C UNIV link')"
proof -
  have thread: "bridge_thread E (\<lambda>t. composite_inv t \<and> legs_ok (\<lambda>_. True) (leg_alive C) t) items cap"
    by (intro bridge_thread.intro host_worker.intro bridge_thread_axioms.intro)
       (simp_all add: assms(1-3) composite_legs.both_contract [OF beside_ble])
  have start: "composite_inv (composite_new r (Some link)) \<and> legs_ok (\<lambda>_. True) (leg_alive C) (composite_new r (Some link))"
    using link_inv_new [OF assms(4)] by (intro conjI composite_inv_new) (simp add: legs_ok_def composite_new_def leg_alive_def)
  show ?thesis
    using bridge_thread.inv_passes [OF thread bridge_thread.inv_start [OF thread start assms(5), of h] assms(6)]
    by (auto simp: bridge_inv_def legs_ok_def leg_alive_def)
qed

text \<open>Without a room adapter, the board reached over the small link; one pass polls the legs.\<close>

type_synonym small_event = "(unit, unit, unit, u8, u8, u8 set, peer_hello) worker_event"

definition application_env ::
  "(unit, u8, u8, u8 set, u8 set,
    (unit, ((unit, unit, u8 set) round_table_frame, (unit, u8, u8) shared_pitch_set) link_of_small option,
     small_event) composite_transport,
    realtime_midi list, realtime_midi list,
    (unit, unit, unit, u8, u8, u8 set, peer_hello) ui_event list, unit, unit, peer_hello) bridge_env" where
  "application_env =
     \<lparr>env_music = twelve_tone, env_transport = composite_ops unavailable_transport (ble_leg_transport tiny_tutti list_host),
      env_release = list_queue 128, env_realtime = list_queue 512, env_ui = list_queue 2,
      env_walkie = env_walkie small_env, env_caps = env_caps small_env\<rparr>"

theorem bridge_over_composite_witness:
  "\<exists>w. bridge_passes application_env [one_poll]
         (start_bridge application_env
            (worker_new application_env (composite_new () (Some tiny_start)) empty_queues [])) = Some w \<and>
       pitch_inv (bw_pitches w) \<and> length (bw_ui w) \<le> 2 \<and>
       composite_inv (bw_transport w) \<and>
       (\<exists>link'. board (bw_transport w) = Some link' \<and>
          link_inv (tiny_tutti :: (unit, unit, u8 set) round_table_frame tiny_tutti) UNIV link')"
  by (rule bridge_over_composite [where R = unavailable_transport and H = list_host and items = "\<lambda>q. q", OF _ _ _ tiny_start_new])
     (simp_all add: application_env_def list_queue_fifo one_poll_def input_ok_def)

end
